(* ===== verification/Prelude.thy ===== *)
theory Prelude
  imports Main "HOL-Library.AList" "HOL-Library.Code_Target_Nat"
begin

text \<open>
  Shared vocabulary of the development.

  \<^item> Results: a fallible routine returns \<open>'e + 'a\<close>, \<open>Inl\<close> for the error or the
    panic. \<open>bnd\<close> is sequencing (the \<open>?\<close> operator), \<open>fold_res\<close> a \<open>for\<close> loop
    that stops at the first error.
  \<^item> Hash maps: an association list, read with \<open>map_of\<close>, written with \<open>hins\<close> and
    \<open>hdel\<close>. The iteration order of the program's \<open>HashMap\<close> is unspecified, so every
    loop over keys in the model takes its order from an argument.
  \<^item> Text: a \<open>str\<close> is a list of characters; the functions of the Rust standard
    library that the program calls on text (\<open>trim\<close>, \<open>split_once\<close>,
    \<open>split_whitespace\<close>, \<open>parse::<u32>\<close>, ...) are defined here on ASCII text.
\<close>

named_theorems res_simps "sequencing of fallible steps"
named_theorems str_simps "characteristic equations of the text functions"

section \<open>Fallible results\<close>

definition bnd :: "'e + 'a \<Rightarrow> ('a \<Rightarrow> 'e + 'b) \<Rightarrow> 'e + 'b" where
  "bnd r f = (case r of Inl e \<Rightarrow> Inl e | Inr x \<Rightarrow> f x)"

lemma bnd_Inl [simp, res_simps]: "bnd (Inl e) f = Inl e"
  by (simp add: bnd_def)

lemma bnd_Inr [simp, res_simps]: "bnd (Inr x) f = f x"
  by (simp add: bnd_def)

lemma bnd_eq_Inr: "bnd r f = Inr y \<longleftrightarrow> (\<exists>x. r = Inr x \<and> f x = Inr y)"
  by (cases r) auto

lemma bnd_eq_Inl: "bnd r f = Inl e \<longleftrightarrow> r = Inl e \<or> (\<exists>x. r = Inr x \<and> f x = Inl e)"
  by (cases r) auto

lemma bnd_assoc: "bnd (bnd r f) g = bnd r (\<lambda>x. bnd (f x) g)"
  by (cases r) auto

fun fold_res :: "('x \<Rightarrow> 's \<Rightarrow> 'e + 's) \<Rightarrow> 'x list \<Rightarrow> 's \<Rightarrow> 'e + 's" where
  "fold_res f [] s = Inr s"
| "fold_res f (x # xs) s = bnd (f x s) (fold_res f xs)"

fun map_res :: "('x \<Rightarrow> 'e + 'y) \<Rightarrow> 'x list \<Rightarrow> 'e + 'y list" where
  "map_res f [] = Inr []"
| "map_res f (x # xs) = bnd (f x) (\<lambda>y. bnd (map_res f xs) (\<lambda>ys. Inr (y # ys)))"

lemma fold_res_append:
  "fold_res f (xs @ ys) s = bnd (fold_res f xs s) (fold_res f ys)"
proof (induction xs arbitrary: s)
  case Nil
  then show ?case by simp
next
  case (Cons x xs)
  then show ?case by (cases "f x s") simp_all
qed

lemma map_res_length: "map_res f xs = Inr ys \<Longrightarrow> length ys = length xs"
  by (induction xs arbitrary: ys) (auto simp: bnd_eq_Inr)

lemma map_res_all: "(\<And>x. x \<in> set xs \<Longrightarrow> f x = Inr (g x)) \<Longrightarrow> map_res f xs = Inr (map g xs)"
  by (induction xs) auto

lemma strict_sorted_remdups_adj: "sorted xs \<Longrightarrow> sorted_wrt (<) (remdups_adj xs)" for xs :: "nat list"
  by (induction xs rule: remdups_adj.induct) (auto simp: less_le)

section \<open>Hash maps as association lists\<close>

abbreviation hins :: "'k \<Rightarrow> 'v \<Rightarrow> ('k \<times> 'v) list \<Rightarrow> ('k \<times> 'v) list" where
  "hins \<equiv> AList.update"

abbreviation hdel :: "'k \<Rightarrow> ('k \<times> 'v) list \<Rightarrow> ('k \<times> 'v) list" where
  "hdel \<equiv> AList.delete"

abbreviation hkeys :: "('k \<times> 'v) list \<Rightarrow> 'k list" where
  "hkeys m \<equiv> map fst m"

lemma hget_hins [simp]: "map_of (hins k v m) = (map_of m)(k \<mapsto> v)"
  by (rule update_conv')

lemma hget_hdel [simp]: "map_of (hdel k m) = (map_of m)(k := None)"
  by (rule delete_conv')

lemma hkeys_hins [simp]: "set (hkeys (hins k v m)) = insert k (set (hkeys m))"
  by (metis dom_map_of_conv_image_fst dom_fun_upd hget_hins list.set_map option.distinct(1))

lemma hget_None_iff: "map_of m k = None \<longleftrightarrow> k \<notin> set (hkeys m)"
  by (simp add: map_of_eq_None_iff)

lemma hget_Some_key: "map_of m k = Some v \<Longrightarrow> k \<in> set (hkeys m)"
  by (metis hget_None_iff option.distinct(1))

lemma hget_filter_key:
  "map_of (filter (\<lambda>p. P (fst p)) m) k = (if P k then map_of m k else None)"
  by (induction m) auto

lemma distinct_hins: "distinct (hkeys m) \<Longrightarrow> distinct (hkeys (hins k v m))"
  by (rule distinct_update)

lemma distinct_hdel: "distinct (hkeys m) \<Longrightarrow> distinct (hkeys (hdel k m))"
  by (rule distinct_delete)

lemma distinct_hfilter: "distinct (hkeys m) \<Longrightarrow> distinct (hkeys (filter P m))"
  by (induction m) auto

lemma hget_filter_val:
  "distinct (hkeys m) \<Longrightarrow>
   map_of (filter (\<lambda>p. P (snd p)) m) k =
     (case map_of m k of None \<Rightarrow> None | Some v \<Rightarrow> if P v then Some v else None)"
proof (induction m)
  case Nil
  then show ?case by simp
next
  case (Cons p m)
  then show ?case
    by (cases p) (force dest: map_of_SomeD split: option.splits)
qed

end
