(* ===== verification/Text.thy ===== *)
theory Text
  imports Prelude
begin

text \<open>
  The text routines of the Rust standard library that the program calls, on ASCII text:
  white space, trimming, splitting, prefixes, decimal numbers. A character is a byte
  (\<open>char\<close>); a multi-byte UTF-8 character is the sequence of its bytes, none of which
  is ASCII, so no routine below splits inside one. White space is ASCII white space.
  The lemmas state what the parsers rely on: a printed number parses back to itself,
  splitting and joining are inverse, trimming is idempotent.
\<close>

type_synonym str = "char list"

section \<open>Characters\<close>

definition code :: "char \<Rightarrow> nat" where
  "code c = of_char c"

definition is_ws :: "char \<Rightarrow> bool" where
  "is_ws c \<longleftrightarrow> c \<in> {CHR 0x09, CHR 0x0A, CHR 0x0B, CHR 0x0C, CHR 0x0D, CHR 0x20}"

definition is_digit :: "char \<Rightarrow> bool" where
  "is_digit c \<longleftrightarrow> 48 \<le> code c \<and> code c \<le> 57"

definition is_alpha :: "char \<Rightarrow> bool" where
  "is_alpha c \<longleftrightarrow> (65 \<le> code c \<and> code c \<le> 90) \<or> (97 \<le> code c \<and> code c \<le> 122)"

definition is_alnum :: "char \<Rightarrow> bool" where
  "is_alnum c \<longleftrightarrow> is_alpha c \<or> is_digit c"

definition to_lower :: "char \<Rightarrow> char" where
  "to_lower c = (if 65 \<le> code c \<and> code c \<le> 90 then char_of (code c + 32) else c)"

definition to_upper :: "char \<Rightarrow> char" where
  "to_upper c = (if 97 \<le> code c \<and> code c \<le> 122 then char_of (code c - 32) else c)"

definition lower :: "str \<Rightarrow> str" where
  "lower s = map to_lower s"

definition upper :: "str \<Rightarrow> str" where
  "upper s = map to_upper s"

lemma code_char_of [simp]: "n < 256 \<Longrightarrow> code (char_of n) = n"
  by (simp add: code_def)

lemma code_lt [simp]: "code c < 256"
  by (simp add: code_def)

lemma char_of_code [simp]: "char_of (code c) = c"
  by (simp add: code_def)

lemma lower_Nil_iff [simp]: "lower s = [] \<longleftrightarrow> s = []"
  by (simp add: lower_def)

lemma to_lower_idem [simp]: "to_lower (to_lower c) = to_lower c"
  by (auto simp: to_lower_def)

lemma lower_idem [simp]: "lower (lower s) = lower s"
  by (simp add: lower_def)

section \<open>Trimming and prefixes\<close>

definition trim_start :: "str \<Rightarrow> str" where
  "trim_start s = dropWhile is_ws s"

definition trim_end :: "str \<Rightarrow> str" where
  "trim_end s = rev (dropWhile is_ws (rev s))"

definition trim :: "str \<Rightarrow> str" where
  "trim s = trim_end (trim_start s)"

definition strip_prefix :: "str \<Rightarrow> str \<Rightarrow> str option" where
  "strip_prefix p s = (if take (length p) s = p then Some (drop (length p) s) else None)"

definition strip_suffix :: "str \<Rightarrow> str \<Rightarrow> str option" where
  "strip_suffix p s = map_option rev (strip_prefix (rev p) (rev s))"

definition starts_with :: "str \<Rightarrow> str \<Rightarrow> bool" where
  "starts_with p s \<longleftrightarrow> take (length p) s = p"

definition ends_with :: "str \<Rightarrow> str \<Rightarrow> bool" where
  "ends_with p s \<longleftrightarrow> starts_with (rev p) (rev s)"

lemma strip_prefix_append [simp]: "strip_prefix p (p @ s) = Some s"
  by (simp add: strip_prefix_def)

lemma strip_prefix_Some: "strip_prefix p s = Some r \<longleftrightarrow> s = p @ r"
  by (auto simp: strip_prefix_def) (metis append_take_drop_id)

lemma strip_suffix_append [simp]: "strip_suffix p (s @ p) = Some s"
  by (simp add: strip_suffix_def)

lemma dropWhile_idem' [simp]: "dropWhile P (dropWhile P xs) = dropWhile P xs"
  by (induction xs) auto

lemma trim_start_ws: "trim_start s = [] \<longleftrightarrow> (\<forall>c \<in> set s. is_ws c)"
  by (simp add: trim_start_def)

lemma trim_start_no_ws: "s = [] \<or> \<not> is_ws (hd s) \<Longrightarrow> trim_start s = s"
  by (cases s) (auto simp: trim_start_def)

lemma trim_end_no_ws: "s = [] \<or> \<not> is_ws (last s) \<Longrightarrow> trim_end s = s"
  by (cases s rule: rev_cases) (auto simp: trim_end_def)

lemma trim_id: "s = [] \<or> (\<not> is_ws (hd s) \<and> \<not> is_ws (last s)) \<Longrightarrow> trim s = s"
  by (auto simp: trim_def trim_start_no_ws trim_end_no_ws)

lemma trim_no_ws: "\<forall>c \<in> set s. \<not> is_ws c \<Longrightarrow> trim s = s"
  by (cases "s = []") (auto intro!: trim_id)

section \<open>Splitting\<close>

fun split_on :: "(char \<Rightarrow> bool) \<Rightarrow> str \<Rightarrow> str list" where
  "split_on p [] = [[]]"
| "split_on p (c # cs) =
     (if p c then [] # split_on p cs
      else (case split_on p cs of [] \<Rightarrow> [[c]] | w # ws \<Rightarrow> (c # w) # ws))"

definition split_char :: "char \<Rightarrow> str \<Rightarrow> str list" where
  "split_char c = split_on (\<lambda>x. x = c)"

fun split_ws_acc :: "str \<Rightarrow> str \<Rightarrow> str list" where
  "split_ws_acc cur [] = (if cur = [] then [] else [rev cur])"
| "split_ws_acc cur (c # cs) =
     (if is_ws c then (if cur = [] then split_ws_acc [] cs else rev cur # split_ws_acc [] cs)
      else split_ws_acc (c # cur) cs)"

definition split_ws :: "str \<Rightarrow> str list" where
  "split_ws s = split_ws_acc [] s"

fun split_once :: "str \<Rightarrow> str \<Rightarrow> (str \<times> str) option" where
  "split_once pat [] = (if pat = [] then Some ([], []) else None)"
| "split_once pat (x # xs) =
     (if starts_with pat (x # xs) then Some ([], drop (length pat) (x # xs))
      else map_option (\<lambda>(a, b). (x # a, b)) (split_once pat xs))"

fun find_idx :: "(char \<Rightarrow> bool) \<Rightarrow> str \<Rightarrow> nat option" where
  "find_idx p [] = None"
| "find_idx p (x # xs) = (if p x then Some 0 else map_option Suc (find_idx p xs))"

definition rfind_idx :: "char \<Rightarrow> str \<Rightarrow> nat option" where
  "rfind_idx c s = map_option (\<lambda>i. length s - 1 - i) (find_idx (\<lambda>x. x = c) (rev s))"

lemma split_on_nonempty [simp]: "split_on p s \<noteq> []"
  by (induction s) (auto split: list.splits)

lemma split_on_no_sep: "\<forall>c \<in> set s. \<not> p c \<Longrightarrow> split_on p s = [s]"
  by (induction s) auto

lemma split_on_sep: "\<forall>c \<in> set s. \<not> p c \<Longrightarrow> p d \<Longrightarrow> split_on p (s @ d # r) = s # split_on p r"
  by (induction s) auto

lemma split_on_parts: "w \<in> set (split_on p s) \<Longrightarrow> c \<in> set w \<Longrightarrow> \<not> p c"
proof (induction s arbitrary: w)
  case Nil
  then show ?case by simp
next
  case (Cons a s)
  show ?case
  proof (cases "split_on p s")
    case Nil
    then show ?thesis by simp
  next
    case (Cons v vs)
    with Cons.prems Cons.IH [of v] Cons.IH [of w] show ?thesis
      by (auto split: if_splits)
  qed
qed

lemma split_once_Some: "split_once pat s = Some (a, b) \<Longrightarrow> s = a @ pat @ b"
proof (induction s arbitrary: a)
  case Nil
  then show ?case by (auto split: if_splits)
next
  case (Cons x s)
  then show ?case
    by (auto simp: starts_with_def split: if_splits) (metis append_take_drop_id)
qed

lemma split_once_char:
  "c \<notin> set a \<Longrightarrow> split_once [c] (a @ c # b) = Some (a, b)"
  by (induction a) (auto simp: starts_with_def)

lemma split_once_char_None: "split_once [c] s = None \<longleftrightarrow> c \<notin> set s"
  by (induction s) (auto simp: starts_with_def)

lemma find_idx_Some: "find_idx p s = Some i \<Longrightarrow> i < length s \<and> p (s ! i) \<and> (\<forall>j < i. \<not> p (s ! j))"
proof (induction s arbitrary: i)
  case Nil
  then show ?case by simp
next
  case (Cons x s)
  then show ?case by (auto split: if_splits simp: nth_Cons split: nat.splits)
qed

lemma find_idx_None: "find_idx p s = None \<longleftrightarrow> (\<forall>c \<in> set s. \<not> p c)"
  by (induction s) auto

lemma find_idx_append:
  "\<forall>c \<in> set a. \<not> p c \<Longrightarrow> p d \<Longrightarrow> find_idx p (a @ d # b) = Some (length a)"
  by (induction a) auto

lemma rfind_idx_append: "c \<notin> set b \<Longrightarrow> rfind_idx c (a @ c # b) = Some (length a)"
proof -
  assume "c \<notin> set b"
  then have "find_idx (\<lambda>x. x = c) (rev b @ c # rev a) = Some (length (rev b))"
    by (intro find_idx_append) auto
  then show ?thesis by (simp add: rfind_idx_def)
qed

lemma rfind_idx_None: "rfind_idx c s = None \<longleftrightarrow> c \<notin> set s"
  by (auto simp: rfind_idx_def find_idx_None)

lemma split_ws_acc_word:
  "\<forall>c \<in> set w. \<not> is_ws c \<Longrightarrow> split_ws_acc cur (w @ s) = split_ws_acc (rev w @ cur) s"
  by (induction w arbitrary: cur) auto

lemma split_ws_no_ws: "s \<noteq> [] \<Longrightarrow> \<forall>c \<in> set s. \<not> is_ws c \<Longrightarrow> split_ws s = [s]"
  using split_ws_acc_word [of s "[]" "[]"] by (simp add: split_ws_def)

lemma split_ws_cons:
  assumes "w \<noteq> []" "\<forall>c \<in> set w. \<not> is_ws c" "is_ws d"
  shows "split_ws (w @ d # s) = w # split_ws s"
  using split_ws_acc_word [OF assms(2), of "[]" "d # s"] assms by (simp add: split_ws_def)

lemma split_ws_acc_words:
  "\<forall>c \<in> set cur. \<not> is_ws c \<Longrightarrow> w \<in> set (split_ws_acc cur s) \<Longrightarrow>
   w \<noteq> [] \<and> (\<forall>c \<in> set w. \<not> is_ws c)"
proof (induction s arbitrary: cur)
  case Nil
  then show ?case by (cases "cur = []") auto
next
  case (Cons c s)
  show ?case
  proof (cases "is_ws c")
    case True
    with Cons.prems Cons.IH [of "[]"] show ?thesis by (cases "cur = []") auto
  next
    case False
    with Cons.prems Cons.IH [of "c # cur"] show ?thesis by auto
  qed
qed

lemma split_ws_words: "w \<in> set (split_ws s) \<Longrightarrow> w \<noteq> [] \<and> (\<forall>c \<in> set w. \<not> is_ws c)"
  using split_ws_acc_words [of "[]" w s] by (simp add: split_ws_def)

section \<open>Joining\<close>

fun str_join :: "str \<Rightarrow> str list \<Rightarrow> str" where
  "str_join sep [] = []"
| "str_join sep [w] = w"
| "str_join sep (w # v # ws) = w @ sep @ str_join sep (v # ws)"

text \<open>\<open>Path::join\<close>: an absolute second part replaces the first.\<close>

definition path_join :: "str \<Rightarrow> str \<Rightarrow> str" where
  "path_join a b =
     (if starts_with ''/'' b \<or> a = [] then b
      else if ends_with ''/'' a then a @ b else a @ ''/'' @ b)"

lemma split_join_char:
  "ws \<noteq> [] \<Longrightarrow> \<forall>w \<in> set ws. c \<notin> set w \<Longrightarrow> split_char c (str_join [c] ws) = ws"
proof (induction "[c]" ws rule: str_join.induct)
  case (2 w)
  then show ?case by (auto simp: split_char_def intro: split_on_no_sep)
next
  case (3 w v ws)
  then have "split_on (\<lambda>x. x = c) (w @ c # str_join [c] (v # ws)) =
      w # split_on (\<lambda>x. x = c) (str_join [c] (v # ws))"
    by (intro split_on_sep) auto
  with 3 show ?case by (simp add: split_char_def)
qed simp

section \<open>Decimal numbers\<close>

definition digit_val :: "char \<Rightarrow> nat" where
  "digit_val c = code c - 48"

definition digits_val :: "str \<Rightarrow> nat" where
  "digits_val s = foldl (\<lambda>a c. 10 * a + digit_val c) 0 s"

text \<open>\<open>str::parse\<close> for an unsigned type with values below \<open>bound\<close>: an optional \<open>+\<close>,
  then at least one digit, no overflow.\<close>

definition parse_uint :: "nat \<Rightarrow> str \<Rightarrow> nat option" where
  "parse_uint bound s =
     (let t = (case s of c # cs \<Rightarrow> if c = CHR ''+'' then cs else s | [] \<Rightarrow> s)
      in if t = [] \<or> \<not> list_all is_digit t \<or> digits_val t \<ge> bound then None
         else Some (digits_val t))"

definition parse_u32 :: "str \<Rightarrow> nat option" where
  "parse_u32 = parse_uint (2 ^ 32)"

text \<open>\<open>str::parse::<i32>\<close>: an optional sign.\<close>

definition parse_i32 :: "str \<Rightarrow> int option" where
  "parse_i32 s =
     (case s of
        c # cs \<Rightarrow>
          if c = CHR ''-'' then
            (if cs = [] \<or> \<not> list_all is_digit cs \<or> digits_val cs > 2 ^ 31 then None
             else Some (- int (digits_val cs)))
          else map_option int (parse_uint (2 ^ 31) s)
      | [] \<Rightarrow> None)"

fun show_nat :: "nat \<Rightarrow> str" where
  "show_nat n = (if n < 10 then [char_of (48 + n)] else show_nat (n div 10) @ [char_of (48 + n mod 10)])"

declare show_nat.simps [simp del]

definition show_int :: "int \<Rightarrow> str" where
  "show_int i = (if i < 0 then CHR ''-'' # show_nat (nat (- i)) else show_nat (nat i))"

lemma digit_char [simp]: "d < 10 \<Longrightarrow> is_digit (char_of (48 + d :: nat))"
  by (simp add: is_digit_def)

lemma digit_val_char [simp]: "d < 10 \<Longrightarrow> digit_val (char_of (48 + d :: nat)) = d"
  by (simp add: digit_val_def)

lemma digits_val_snoc: "digits_val (s @ [c]) = 10 * digits_val s + digit_val c"
  by (simp add: digits_val_def)

lemma show_nat_digits: "list_all is_digit (show_nat n)"
proof (induction n rule: show_nat.induct)
  case (1 n)
  then show ?case
    by (cases "n < 10") (simp_all add: show_nat.simps [of n])
qed

lemma show_nat_ne: "show_nat n \<noteq> []"
  by (subst show_nat.simps) simp

lemma digits_val_show_nat: "digits_val (show_nat n) = n"
proof (induction n rule: show_nat.induct)
  case (1 n)
  show ?case
  proof (cases "n < 10")
    case True
    then show ?thesis
      by (simp add: show_nat.simps [of n] digits_val_snoc [of "[]", simplified] digits_val_def)
  next
    case False
    with "1.IH" show ?thesis
      by (simp add: show_nat.simps [of n] digits_val_snoc)
  qed
qed

lemma digit_not_plus: "is_digit c \<Longrightarrow> c \<noteq> CHR ''+''"
  by (auto simp: is_digit_def code_def)

lemma parse_uint_digits:
  assumes "s \<noteq> []" "list_all is_digit s" "digits_val s < bound"
  shows "parse_uint bound s = Some (digits_val s)"
proof (cases s)
  case Nil
  with assms show ?thesis by simp
next
  case (Cons c cs)
  with assms have "c \<noteq> CHR ''+''" using digit_not_plus by auto
  with assms Cons show ?thesis by (simp add: parse_uint_def)
qed

lemma parse_show_uint: "n < bound \<Longrightarrow> parse_uint bound (show_nat n) = Some n"
  by (simp add: parse_uint_digits show_nat_digits show_nat_ne digits_val_show_nat)

lemma parse_show_u32: "n < 2 ^ 32 \<Longrightarrow> parse_u32 (show_nat n) = Some n"
  by (simp only: parse_u32_def parse_show_uint)

lemma parse_uint_bound: "parse_uint bound s = Some n \<Longrightarrow> n < bound"
  by (auto simp: parse_uint_def Let_def split: list.splits if_splits)

lemma digit_not_ws: "is_digit c \<Longrightarrow> \<not> is_ws c"
  by (auto simp: is_digit_def is_ws_def code_def)

lemma show_nat_no_ws: "\<forall>c \<in> set (show_nat n). \<not> is_ws c"
  using show_nat_digits [of n] by (auto simp: list_all_iff digit_not_ws)

lemmas text_defs = trim_def trim_start_def trim_end_def strip_prefix_def starts_with_def
  split_char_def split_ws_def lower_def to_lower_def is_ws_def is_digit_def code_def
  parse_u32_def parse_uint_def digits_val_def digit_val_def

end
