(* ===== verification/Names.thy ===== *)
theory Names
  imports Text
begin

text \<open>
  Unit names, unit-file specifiers, environment references and the log ring:
  \<^verbatim>\<open>rystemd/src/names.rs\<close>, \<^verbatim>\<open>specifier.rs\<close>, \<^verbatim>\<open>expand.rs\<close> and the \<open>LogRing\<close> of
  \<^verbatim>\<open>log.rs\<close>. The two expanders are specified on rendered templates: a template is a list of
  segments, and expanding its text gives the concatenation of the values of its segments.
\<close>

section \<open>Unit names\<close>

definition normalize_unit :: "str \<Rightarrow> str" where
  "normalize_unit name = (if List.member name (CHR ''.'') then name else name @ ''.service'')"

definition is_plain_unit_name :: "str \<Rightarrow> bool" where
  "is_plain_unit_name name \<longleftrightarrow> name \<noteq> [] \<and> name \<noteq> ''.'' \<and> name \<noteq> ''..'' \<and>
     \<not> List.member name (CHR ''/'') \<and> \<not> List.member name (CHR 0x5C)"

lemma normalize_unit_idem: "normalize_unit (normalize_unit n) = normalize_unit n"
  by (auto simp: normalize_unit_def)

section \<open>Specifiers\<close>

record specifier_context =
  sp_unit_name :: str
  sp_runtime_dir :: str
  sp_user_name :: str
  sp_uid :: str
  sp_home :: str
  sp_hostname :: str
  sp_machine_id :: str

definition sp_prefix :: "specifier_context \<Rightarrow> str" where
  "sp_prefix ctx =
     (let name = sp_unit_name ctx in
      case find_idx (\<lambda>c. c = CHR ''@'') name of
        Some at \<Rightarrow> take at name
      | None \<Rightarrow> hd (split_char (CHR ''.'') name))"

definition sp_instance :: "specifier_context \<Rightarrow> str" where
  "sp_instance ctx =
     (let name = sp_unit_name ctx in
      case find_idx (\<lambda>c. c = CHR ''@'') name of
        None \<Rightarrow> []
      | Some at \<Rightarrow>
          (let rest = drop (at + 1) name in
           case find_idx (\<lambda>c. c = CHR ''.'') rest of
             Some dot \<Rightarrow> take dot rest
           | None \<Rightarrow> []))"

text \<open>The text a specifier character stands for; an unknown one is left as it is.\<close>

definition sp_value :: "specifier_context \<Rightarrow> char \<Rightarrow> str" where
  "sp_value ctx c =
     (if c = CHR ''%'' then ''%''
      else if c = CHR ''n'' \<or> c = CHR ''N'' then sp_unit_name ctx
      else if c = CHR ''p'' \<or> c = CHR ''P'' then sp_prefix ctx
      else if c = CHR ''i'' \<or> c = CHR ''I'' then sp_instance ctx
      else if c = CHR ''t'' then sp_runtime_dir ctx
      else if c = CHR ''u'' then sp_user_name ctx
      else if c = CHR ''U'' then sp_uid ctx
      else if c = CHR ''h'' then sp_home ctx
      else if c = CHR ''H'' then sp_hostname ctx
      else if c = CHR ''m'' then sp_machine_id ctx
      else [CHR ''%'', c])"

fun sp_expand :: "specifier_context \<Rightarrow> str \<Rightarrow> str" where
  "sp_expand ctx [] = []"
| "sp_expand ctx [c] = [c]"
| "sp_expand ctx (c # d # cs) =
     (if c \<noteq> CHR ''%'' then c # sp_expand ctx (d # cs) else sp_value ctx d @ sp_expand ctx cs)"

datatype sp_seg = SLit char | SSpec char

fun sp_render :: "sp_seg list \<Rightarrow> str" where
  "sp_render [] = []"
| "sp_render (SLit c # r) = c # sp_render r"
| "sp_render (SSpec c # r) = CHR ''%'' # c # sp_render r"

fun sp_seg_value :: "specifier_context \<Rightarrow> sp_seg \<Rightarrow> str" where
  "sp_seg_value ctx (SLit c) = [c]"
| "sp_seg_value ctx (SSpec c) = sp_value ctx c"

lemma sp_expand_lit: "c \<noteq> CHR ''%'' \<Longrightarrow> sp_expand ctx (c # cs) = c # sp_expand ctx cs"
  by (cases cs) auto

lemma sp_expand_render:
  "list_all (\<lambda>g. g \<noteq> SLit (CHR ''%'')) segs \<Longrightarrow>
   sp_expand ctx (sp_render segs) = concat (map (sp_seg_value ctx) segs)"
  by (induction segs rule: sp_render.induct) (auto simp: sp_expand_lit)

lemma sp_expand_no_percent: "CHR ''%'' \<notin> set s \<Longrightarrow> sp_expand ctx s = s"
  by (induction s) (auto simp: sp_expand_lit)

section \<open>Environment references\<close>

definition utf8_len :: "char \<Rightarrow> nat" where
  "utf8_len b =
     (if code b < 0x80 then 1
      else if code b div 2 ^ 5 = 6 then 2
      else if code b div 2 ^ 4 = 14 then 3
      else if code b div 2 ^ 3 = 30 then 4
      else 1)"

lemma utf8_len_pos [simp]: "0 < utf8_len b" by (simp add: utf8_len_def)

definition is_name_char :: "char \<Rightarrow> bool" where
  "is_name_char c \<longleftrightarrow> is_alnum c \<or> c = CHR ''_''"

text \<open>The reference after a \<open>$\<close>: its name and the number of bytes it takes, the \<open>$\<close> included.\<close>

definition env_ref :: "str \<Rightarrow> str \<times> nat" where
  "env_ref rest =
     (case strip_prefix ''{'' rest of
        Some braced \<Rightarrow>
          (case find_idx (\<lambda>c. c = CHR ''}'') braced of
             Some e \<Rightarrow> (take e braced, e + 3)
           | None \<Rightarrow> ([], length rest + 1))
      | None \<Rightarrow>
          (let e = (case find_idx (\<lambda>c. \<not> is_name_char c) rest of Some e \<Rightarrow> e | None \<Rightarrow> length rest)
           in (take e rest, e + 1)))"

function expand_env_token :: "str \<Rightarrow> (str \<times> str) list \<Rightarrow> str" where
  "expand_env_token tok env =
     (case tok of
        [] \<Rightarrow> []
      | b # rest \<Rightarrow>
          if b = CHR ''$'' then
            (let (name, consumed) = env_ref rest in
             if name = [] then CHR ''$'' # rest
             else (case map_of env name of Some v \<Rightarrow> v | None \<Rightarrow> []) @
                  expand_env_token (drop consumed tok) env)
          else take (utf8_len b) tok @ expand_env_token (drop (utf8_len b) tok) env)"
  by pat_completeness auto

termination expand_env_token
  by (relation "measure (\<lambda>(t, _). length t)")
    (auto simp: env_ref_def Let_def split: option.splits)

declare expand_env_token.simps [simp del]

definition expand_env_argv :: "str list \<Rightarrow> (str \<times> str) list \<Rightarrow> str list" where
  "expand_env_argv argv env = map (\<lambda>t. expand_env_token t env) argv"

datatype env_seg = ELit char | EVar str | EBraced str

fun env_render :: "env_seg list \<Rightarrow> str" where
  "env_render [] = []"
| "env_render (ELit c # r) = c # env_render r"
| "env_render (EVar n # r) = CHR ''$'' # n @ env_render r"
| "env_render (EBraced n # r) = ''${'' @ n @ ''}'' @ env_render r"

fun env_value :: "(str \<times> str) list \<Rightarrow> env_seg \<Rightarrow> str" where
  "env_value env (ELit c) = [c]"
| "env_value env (EVar n) = (case map_of env n of Some v \<Rightarrow> v | None \<Rightarrow> [])"
| "env_value env (EBraced n) = (case map_of env n of Some v \<Rightarrow> v | None \<Rightarrow> [])"

text \<open>Templates: ASCII literals other than \<open>$\<close>; names that are not empty; an unbraced name is
  not followed by a character that would extend it.\<close>

fun env_segs_ok :: "env_seg list \<Rightarrow> bool" where
  "env_segs_ok [] = True"
| "env_segs_ok (ELit c # r) \<longleftrightarrow> c \<noteq> CHR ''$'' \<and> code c < 128 \<and> env_segs_ok r"
| "env_segs_ok (EVar n # r) \<longleftrightarrow> n \<noteq> [] \<and> list_all is_name_char n \<and> env_segs_ok r \<and>
     (case r of ELit c # _ \<Rightarrow> \<not> is_name_char c | _ \<Rightarrow> True)"
| "env_segs_ok (EBraced n # r) \<longleftrightarrow> n \<noteq> [] \<and> list_all (\<lambda>c. c \<noteq> CHR ''}'') n \<and> env_segs_ok r"

lemma expand_env_Nil [simp]: "expand_env_token [] env = []"
  by (subst expand_env_token.simps) simp

lemma expand_env_lit:
  "c \<noteq> CHR ''$'' \<Longrightarrow> code c < 128 \<Longrightarrow> expand_env_token (c # cs) env = c # expand_env_token cs env"
  by (subst expand_env_token.simps) (simp add: utf8_len_def)

lemma name_chars: "is_name_char c \<Longrightarrow> c \<noteq> CHR ''{'' \<and> c \<noteq> CHR ''$''"
  by (auto simp: is_name_char_def is_alnum_def is_alpha_def is_digit_def code_def)

lemma env_ref_var:
  assumes "n \<noteq> []" "list_all is_name_char n" "r = [] \<or> \<not> is_name_char (hd r)"
  shows "env_ref (n @ r) = (n, length n + 1)"
proof -
  have "strip_prefix ''{'' (n @ r) = None"
    using assms(1,2) name_chars by (cases n) (auto simp: strip_prefix_def)
  moreover have "(case find_idx (\<lambda>c. \<not> is_name_char c) (n @ r) of Some e \<Rightarrow> e | None \<Rightarrow> length (n @ r))
      = length n"
  proof (cases r)
    case Nil
    then have "find_idx (\<lambda>c. \<not> is_name_char c) (n @ r) = None"
      using assms(2) by (auto simp: find_idx_None list_all_iff)
    then show ?thesis by (simp add: Nil)
  next
    case (Cons c cs)
    then have "find_idx (\<lambda>c. \<not> is_name_char c) (n @ c # cs) = Some (length n)"
      using assms by (intro find_idx_append) (auto simp: list_all_iff)
    then show ?thesis by (simp add: Cons)
  qed
  ultimately show ?thesis by (simp add: env_ref_def)
qed

lemma env_ref_braced:
  assumes "list_all (\<lambda>c. c \<noteq> CHR ''}'') n"
  shows "env_ref (CHR ''{'' # n @ CHR ''}'' # r) = (n, length n + 3)"
proof -
  have "find_idx (\<lambda>c. c = CHR ''}'') (n @ CHR ''}'' # r) = Some (length n)"
    using assms by (intro find_idx_append) (auto simp: list_all_iff)
  then show ?thesis by (simp add: env_ref_def strip_prefix_def)
qed

lemma env_render_hd:
  "env_segs_ok (EVar n # r) \<Longrightarrow> env_render r = [] \<or> \<not> is_name_char (hd (env_render r))"
  by (cases r rule: env_render.cases) (auto dest: name_chars)

lemma expand_env_render:
  "env_segs_ok segs \<Longrightarrow> expand_env_token (env_render segs) env = concat (map (env_value env) segs)"
proof (induction segs rule: env_render.induct)
  case (3 n r)
  then have "env_ref (n @ env_render r) = (n, length n + 1)"
    by (intro env_ref_var env_render_hd) auto
  with 3 show ?case by (simp add: expand_env_token.simps [of "CHR ''$'' # _"])
next
  case (4 n r)
  then have "env_ref (CHR ''{'' # n @ CHR ''}'' # env_render r) = (n, length n + 3)"
    by (intro env_ref_braced) simp
  with 4 show ?case by (simp add: expand_env_token.simps [of "CHR ''$'' # _"] eval_nat_numeral)
qed (simp_all add: expand_env_lit)

section \<open>The log ring\<close>

record log_ring =
  lr_max_lines :: nat
  lr_lines :: "str list"

definition log_ring_new :: "nat \<Rightarrow> log_ring" where
  "log_ring_new n = \<lparr>lr_max_lines = n, lr_lines = []\<rparr>"

definition log_push :: "str \<Rightarrow> log_ring \<Rightarrow> log_ring" where
  "log_push line r =
     (if lr_max_lines r = 0 then r
      else let ls = (if length (lr_lines r) \<ge> lr_max_lines r then tl (lr_lines r) else lr_lines r)
           in r\<lparr>lr_lines := ls @ [line]\<rparr>)"

text \<open>\<open>split_inclusive('\n')\<close> followed by \<open>trim_end_matches('\n')\<close>: the lines without their
  terminators; a chunk that ends in a newline has no empty last line.\<close>

definition chunk_lines :: "str \<Rightarrow> str list" where
  "chunk_lines chunk =
     (let ls = split_char (CHR 0x0A) chunk in if last ls = [] then butlast ls else ls)"

text \<open>\<open>str::lines\<close>: a carriage return before a newline is dropped with it.\<close>

definition strip_cr :: "str \<Rightarrow> str" where
  "strip_cr l = (case strip_suffix [CHR 0x0D] l of Some r \<Rightarrow> r | None \<Rightarrow> l)"

definition text_lines :: "str \<Rightarrow> str list" where
  "text_lines s =
     (let ls = split_char (CHR 0x0A) s
      in map strip_cr (butlast ls) @ (if last ls = [] then [] else [last ls]))"

definition log_push_chunk :: "str \<Rightarrow> log_ring \<Rightarrow> log_ring" where
  "log_push_chunk chunk r = fold log_push (chunk_lines chunk) r"

lemma log_push_max [simp]: "lr_max_lines (log_push l r) = lr_max_lines r"
  by (simp add: log_push_def Let_def)

lemma log_push_lines:
  assumes "lr_lines r = drop (length xs - lr_max_lines r) xs"
  shows "lr_lines (log_push l r) = drop (length (xs @ [l]) - lr_max_lines r) (xs @ [l])"
proof (cases "lr_max_lines r = 0")
  case False
  show ?thesis
  proof (cases "length xs < lr_max_lines r")
    case False
    have "tl (drop k xs) = drop (Suc k) xs" for k by (metis drop_Suc tl_drop)
    with False \<open>lr_max_lines r \<noteq> 0\<close> show ?thesis
      by (simp add: log_push_def assms Let_def Suc_diff_le)
  qed (simp add: log_push_def assms Let_def)
qed (simp add: log_push_def assms)

lemma log_push_all:
  assumes "lr_lines r = drop (length xs - lr_max_lines r) xs"
  shows "lr_lines (fold log_push ls r) =
    drop (length (xs @ ls) - lr_max_lines r) (xs @ ls)"
  using assms
proof (induction ls arbitrary: r xs)
  case (Cons l ls)
  from Cons.IH [OF log_push_lines [OF Cons.prems, of l, folded log_push_max [of l r]]]
  show ?case by simp
qed simp


section \<open>Properties\<close>

text \<open>Environment expansion of an argument built from literal characters, \<open>$NAME\<close> and
  \<open>${NAME}\<close> references is the concatenation of the literals and of the values of the
  references, an unset variable giving the empty text.\<close>

theorem env_expansion:
  assumes "env_segs_ok segs"
  shows "expand_env_token (env_render segs) env = concat (map (env_value env) segs)"
  by (rule expand_env_render [OF assms])

theorem env_expansion_witness:
  "expand_env_token ''a$B-${C}x$D'' [(''B'', ''1''), (''C'', ''22'')] = ''a1-22x''"
  using env_expansion [of "[ELit (CHR ''a''), EVar ''B'', ELit (CHR ''-''), EBraced ''C'',
      ELit (CHR ''x''), EVar ''D'']" "[(''B'', ''1''), (''C'', ''22'')]"]
  by (simp add: is_name_char_def is_alnum_def is_alpha_def is_digit_def code_def)

text \<open>Specifier expansion of a text of literal characters and \<open>%c\<close> specifiers replaces each
  specifier by its value and keeps the literals.\<close>

theorem specifier_expansion:
  assumes "list_all (\<lambda>g. g \<noteq> SLit (CHR ''%'')) segs"
  shows "sp_expand ctx (sp_render segs) = concat (map (sp_seg_value ctx) segs)"
  by (rule sp_expand_render [OF assms])

theorem specifier_expansion_witness:
  "sp_expand \<lparr>sp_unit_name = ''a@b.service'', sp_runtime_dir = ''/run'', sp_user_name = ''root'',
      sp_uid = ''0'', sp_home = ''/root'', sp_hostname = ''h'', sp_machine_id = ''m''\<rparr> ''%t/%i%%'' =
    ''/run/b%''"
  using specifier_expansion [of "[SSpec (CHR ''t''), SLit (CHR ''/''), SSpec (CHR ''i''), SSpec (CHR ''%'')]"
    "\<lparr>sp_unit_name = ''a@b.service'', sp_runtime_dir = ''/run'', sp_user_name = ''root'',
      sp_uid = ''0'', sp_home = ''/root'', sp_hostname = ''h'', sp_machine_id = ''m''\<rparr>"]
  by (simp add: sp_value_def sp_instance_def)

text \<open>The log ring holds the last \<open>max_lines\<close> of the lines pushed to it.\<close>

theorem log_ring_last_lines:
  "lr_lines (fold log_push ls (log_ring_new n)) = drop (length ls - n) ls"
  using log_push_all [of "log_ring_new n" "[]" ls] by (simp add: log_ring_new_def)

text \<open>The instance name stops at the first dot, not at the type suffix; a \<open>$\<close> that starts no
  reference ends the expansion of its argument.\<close>

lemma instance_stops_at_first_dot:
  "sp_unit_name ctx = ''a@b.c.service'' \<Longrightarrow> sp_instance ctx = ''b''"
  by (simp add: sp_instance_def)

lemma stray_dollar_stops_expansion:
  "expand_env_token ''$ $HOME'' [(''HOME'', ''/root'')] = ''$ $HOME''"
  by (subst expand_env_token.simps) (simp add: env_ref_def strip_prefix_def is_name_char_def
      is_alnum_def is_alpha_def is_digit_def code_def)

end
