(* ===== verification/Timespan.thy ===== *)
theory Timespan
  imports Text
begin

text \<open>
  Time spans, \<^verbatim>\<open>rystemd/src/timespan.rs\<close>: the parser of values such as \<open>1h 30min\<close> and the
  two formatters of \<open>list-timers\<close>.

  A component is read as an IEEE binary64 number, multiplied by the unit and truncated to an
  integer. The model computes these steps exactly: a non-negative binary64 value is
  \<open>Fin m e\<close> (the number \<open>m * 2 ^ e\<close>) or \<open>FInf\<close>; \<open>f_round n d\<close> is the value nearest to the
  fraction \<open>n / d\<close>, ties to the even significand, which is what both \<open>str::parse::<f64>\<close> and
  the multiplication return. \<open>as u128\<close> truncates and saturates. The running total is a
  \<open>u128\<close>: its addition wraps in the release profile.
\<close>

definition infinity_usec :: nat where "infinity_usec = 18446744073709551615"

definition usec_per_sec :: nat where "usec_per_sec = 1000000"
definition usec_per_min :: nat where "usec_per_min = 60 * usec_per_sec"
definition usec_per_hour :: nat where "usec_per_hour = 60 * usec_per_min"
definition usec_per_day :: nat where "usec_per_day = 24 * usec_per_hour"
definition usec_per_week :: nat where "usec_per_week = 7 * usec_per_day"
definition usec_per_month :: nat where "usec_per_month = usec_per_day * 36525 div 12 div 100"
definition usec_per_year :: nat where "usec_per_year = usec_per_day * 36525 div 100"

lemmas usec_defs = usec_per_sec_def usec_per_min_def usec_per_hour_def usec_per_day_def
  usec_per_week_def usec_per_month_def usec_per_year_def

section \<open>Binary floating point\<close>

datatype f64 = Fin nat int | FInf

fun bitlen :: "nat \<Rightarrow> nat" where
  "bitlen n = (if n = 0 then 0 else Suc (bitlen (n div 2)))"

declare bitlen.simps [simp del]

definition scale :: "nat \<Rightarrow> nat \<Rightarrow> int \<Rightarrow> nat \<times> nat" where
  "scale n d e = (if e \<ge> 0 then (n, d * 2 ^ nat e) else (n * 2 ^ nat (- e), d))"

definition round_even :: "nat \<Rightarrow> nat \<Rightarrow> nat" where
  "round_even n d =
     (let q = n div d; r = n mod d
      in if 2 * r < d \<or> 2 * r = d \<and> even q then q else Suc q)"

definition f_round :: "nat \<Rightarrow> nat \<Rightarrow> f64" where
  "f_round n d =
     (if n = 0 then Fin 0 0
      else let e0 = int (bitlen n) - int (bitlen d) - 53;
               (n0, d0) = scale n d e0;
               e = max (-1074) (if n0 \<ge> d0 * 2 ^ 53 then e0 + 1 else e0);
               (n1, d1) = scale n d e;
               q = round_even n1 d1
           in if e > 971 \<or> e = 971 \<and> q \<ge> 2 ^ 53 then FInf else Fin q e)"

fun f_mult_nat :: "f64 \<Rightarrow> nat \<Rightarrow> f64" where
  "f_mult_nat FInf k = FInf"
| "f_mult_nat (Fin m e) k = (let (n, d) = scale (m * k) 1 (- e) in f_round n d)"

fun f_to_u128 :: "f64 \<Rightarrow> nat" where
  "f_to_u128 FInf = 2 ^ 128 - 1"
| "f_to_u128 (Fin m e) =
     min (if e \<ge> 0 then m * 2 ^ nat e else m div 2 ^ nat (- e)) (2 ^ 128 - 1)"

text \<open>\<open>str::parse::<f64>\<close> on a text of digits and dots.\<close>

definition parse_f64 :: "str \<Rightarrow> f64 option" where
  "parse_f64 s =
     (case split_once ''.'' s of
        None \<Rightarrow> if s \<noteq> [] \<and> list_all is_digit s then Some (f_round (digits_val s) 1) else None
      | Some (a, b) \<Rightarrow>
          if a @ b \<noteq> [] \<and> list_all is_digit (a @ b)
          then Some (f_round (digits_val (a @ b)) (10 ^ length b)) else None)"

section \<open>The parser\<close>

datatype span_error = EmptySpan | MissingNumber str | InvalidNumber str str | InvalidUnit str str | SpanOverflow str

fun show_span_error :: "span_error \<Rightarrow> str" where
  "show_span_error EmptySpan = ''empty time span''"
| "show_span_error (MissingNumber s) = ''missing number in time span `'' @ s @ [CHR 0x60]"
| "show_span_error (InvalidNumber num s) = ''invalid number `'' @ num @ ''` in time span `'' @ s @ [CHR 0x60]"
| "show_span_error (InvalidUnit unit s) = ''invalid time unit `'' @ unit @ ''` in time span `'' @ s @ [CHR 0x60]"
| "show_span_error (SpanOverflow s) = ''time span `'' @ s @ ''` overflows''"

definition unit_factor :: "str \<Rightarrow> nat option" where
  "unit_factor unit =
     (let u = lower unit in
      if List.member [''usec'', ''us''] u then Some 1
      else if List.member [''msec'', ''ms''] u then Some 1000
      else if List.member [''seconds'', ''second'', ''sec'', ''s''] u then Some usec_per_sec
      else if List.member [''minutes'', ''minute'', ''min'', ''m''] u then Some usec_per_min
      else if List.member [''hours'', ''hour'', ''hr'', ''h''] u then Some usec_per_hour
      else if List.member [''days'', ''day'', ''d''] u then Some usec_per_day
      else if List.member [''weeks'', ''week'', ''w''] u then Some usec_per_week
      else if List.member [''months'', ''month'', ''mon'', ''M''] u then Some usec_per_month
      else if List.member [''years'', ''year'', ''y''] u then Some usec_per_year
      else None)"

function span_loop :: "str \<Rightarrow> nat \<Rightarrow> str \<Rightarrow> span_error + nat" where
  "span_loop s tot cs =
     (let cs0 = dropWhile is_ws cs in
      if cs0 = [] then Inr tot
      else
        let num = takeWhile (\<lambda>c. is_digit c \<or> c = CHR ''.'') cs0;
            cs1 = dropWhile (\<lambda>c. is_digit c \<or> c = CHR ''.'') cs0
        in if num = [] \<or> num = ''.'' \<or> ends_with ''.'' num then Inl (MissingNumber s)
           else case parse_f64 num of
                  None \<Rightarrow> Inl (InvalidNumber num s)
                | Some v \<Rightarrow>
                    (let unit = takeWhile is_alpha cs1; cs2 = dropWhile is_alpha cs1 in
                     case (if unit = [] then Some usec_per_sec else unit_factor unit) of
                       None \<Rightarrow> Inl (InvalidUnit unit s)
                     | Some factor \<Rightarrow>
                         (let tot' = (tot + f_to_u128 (f_mult_nat v factor)) mod 2 ^ 128
                          in if tot' > infinity_usec then Inl (SpanOverflow s)
                             else span_loop s tot' cs2)))"
  by pat_completeness auto

lemma length_component:
  "takeWhile P (dropWhile R cs) \<noteq> [] \<Longrightarrow>
   length (dropWhile Q (dropWhile P (dropWhile R cs))) < length cs"
proof -
  assume "takeWhile P (dropWhile R cs) \<noteq> []"
  then have "length (dropWhile P (dropWhile R cs)) < length (dropWhile R cs)"
    by (cases "dropWhile R cs") (auto simp: less_Suc_eq_le length_dropWhile_le split: if_splits)
  with length_dropWhile_le [of Q "dropWhile P (dropWhile R cs)"] length_dropWhile_le [of R cs]
  show ?thesis by linarith
qed

termination span_loop
  by (relation "measure (\<lambda>(_, _, cs). length cs)") (simp_all add: length_component)

declare span_loop.simps [simp del]

definition parse_timespan :: "str \<Rightarrow> span_error + nat" where
  "parse_timespan s0 =
     (let s = trim s0 in
      if lower s = ''infinity'' then Inr infinity_usec
      else if s = [] then Inl EmptySpan
      else span_loop s 0 s)"

section \<open>Durations\<close>

definition as_duration :: "nat \<Rightarrow> nat option" where
  "as_duration usec = (if usec = infinity_usec then None else Some usec)"

definition fmt_left :: "nat \<Rightarrow> str" where
  "fmt_left secs =
     (if secs \<ge> 86400 then
        let days = secs div 86400 in show_nat days @ '' day'' @ (if days = 1 then '''' else ''s'')
      else if secs \<ge> 3600 then
        let h = secs div 3600; m = secs mod 3600 div 60
        in if m = 0 then show_nat h @ ''h'' else show_nat h @ ''h '' @ show_nat m @ ''min''
      else if secs \<ge> 60 then show_nat (secs div 60) @ ''min''
      else show_nat secs @ ''s'')"

definition fmt_ago :: "nat \<Rightarrow> str" where
  "fmt_ago secs =
     (if secs \<ge> 86400 then
        let days = secs div 86400
        in show_nat days @ '' day'' @ (if days = 1 then '''' else ''s'') @ '' ago''
      else if secs \<ge> 3600 then
        let h = secs div 3600; m = secs mod 3600 div 60
        in if m = 0 then show_nat h @ ''h ago'' else show_nat h @ ''h '' @ show_nat m @ ''min ago''
      else if secs \<ge> 60 then show_nat (secs div 60) @ ''min ago''
      else show_nat secs @ ''s ago'')"

definition show_timespan :: "nat \<Rightarrow> str" where
  "show_timespan usec =
     (if usec = infinity_usec then ''infinity''
      else case as_duration usec of Some d \<Rightarrow> fmt_left (d div 1000000) | None \<Rightarrow> ''?'')"


section \<open>Exactness\<close>

lemma bitlen_pos: "0 < n \<Longrightarrow> bitlen n = Suc (bitlen (n div 2))"
  by (simp add: bitlen.simps [of n])

lemma bitlen_bounds: "0 < n \<Longrightarrow> 2 ^ (bitlen n - 1) \<le> n \<and> n < 2 ^ bitlen n"
proof (induction n rule: bitlen.induct)
  case (1 n)
  show ?case
  proof (cases "n div 2 = 0")
    case True
    with 1 have "n = 1" by auto
    then show ?thesis by (simp add: bitlen.simps)
  next
    case False
    with 1 have IH: "2 ^ (bitlen (n div 2) - 1) \<le> n div 2" "n div 2 < 2 ^ bitlen (n div 2)" by auto
    have "bitlen (n div 2) = Suc (bitlen (n div 2 div 2))"
      using False by (simp add: bitlen_pos)
    then have "(2 :: nat) ^ bitlen (n div 2) = 2 * 2 ^ (bitlen (n div 2) - 1)" by simp
    moreover have ar: "2 * b \<le> n \<and> n < 2 * c" if "b \<le> n div 2" "n div 2 < c" for b c
      using that by presburger
    ultimately have "2 ^ bitlen (n div 2) \<le> n \<and> n < 2 * 2 ^ bitlen (n div 2)"
      using ar [OF IH] by metis
    then show ?thesis using 1(2) by (simp add: bitlen_pos [of n])
  qed
qed

lemma bitlen_shift: "0 < n \<Longrightarrow> bitlen (n * 2 ^ j) = bitlen n + j"
proof (induction j)
  case 0
  then show ?case by simp
next
  case (Suc j)
  have "bitlen (n * 2 ^ Suc j) = Suc (bitlen (n * 2 ^ Suc j div 2))"
    using Suc.prems by (intro bitlen_pos) simp
  with Suc show ?case by simp
qed

lemma bitlen_le: "0 < n \<Longrightarrow> n < 2 ^ k \<Longrightarrow> bitlen n \<le> k"
proof (rule ccontr)
  assume "0 < n" "n < 2 ^ k" "\<not> bitlen n \<le> k"
  then have "(2::nat) ^ k \<le> 2 ^ (bitlen n - 1)" by (intro power_increasing) auto
  with bitlen_bounds [OF \<open>0 < n\<close>] \<open>n < 2 ^ k\<close> show False by linarith
qed

lemma round_even_exact: "0 < d \<Longrightarrow> round_even (k * d) d = k"
  by (simp add: round_even_def)

text \<open>The binary64 value of an integer below \<open>2 ^ 53\<close>.\<close>

definition f_nat :: "nat \<Rightarrow> f64" where
  "f_nat k = (if k = 0 then Fin 0 0 else Fin (k * 2 ^ (53 - bitlen k)) (int (bitlen k) - 53))"

lemma f_round_nat:
  assumes "k < 2 ^ 53"
  shows "f_round (k * 2 ^ j) (2 ^ j) = f_nat k"
proof (cases "k = 0")
  case True
  then show ?thesis by (simp add: f_round_def f_nat_def)
next
  case False
  then have k: "0 < k" by simp
  define L where "L = bitlen k"
  have L: "1 \<le> L" "L \<le> 53" "2 ^ (L - 1) \<le> k"
    using bitlen_pos [OF k] bitlen_le [OF k assms] bitlen_bounds [OF k] by (auto simp: L_def)
  have d: "bitlen (2 ^ j) = Suc j"
    using bitlen_shift [of 1 j] by (simp add: bitlen_pos bitlen.simps [of 0])
  have e0: "int (bitlen (k * 2 ^ j)) - int (bitlen (2 ^ j)) - 53 = int L - 54"
    by (simp add: d bitlen_shift [OF k] L_def)
  have nat1: "nat (- (int L - 54)) = 54 - L" using L by simp
  have s0: "scale (k * 2 ^ j) (2 ^ j) (int L - 54) = (k * 2 ^ j * 2 ^ (54 - L), 2 ^ j)"
    unfolding scale_def nat1 using L by simp
  have "(2::nat) ^ 53 = 2 ^ (L - 1) * 2 ^ (54 - L)" using L by (simp flip: power_add)
  also have "\<dots> \<le> k * 2 ^ (54 - L)" using L by simp
  finally have ge: "2 ^ j * 2 ^ 53 \<le> k * 2 ^ j * 2 ^ (54 - L)"
    by (simp add: mult.assoc mult.left_commute)
  have nat2: "nat (- (int L - 53)) = 53 - L" using L by simp
  have s1: "scale (k * 2 ^ j) (2 ^ j) (int L - 53) = (k * 2 ^ j * 2 ^ (53 - L), 2 ^ j)"
    unfolding scale_def nat2 using L by (cases "L = 53") auto
  have q: "round_even (k * 2 ^ j * 2 ^ (53 - L)) (2 ^ j) = k * 2 ^ (53 - L)"
    using round_even_exact [of "2 ^ j" "k * 2 ^ (53 - L)"] by (simp add: ac_simps)
  have mx: "max (- 1074) (int L - 54 + 1) = int L - 53" using L by simp
  show ?thesis
    unfolding f_round_def Let_def e0 s0 prod.case if_P [OF ge] mx s1 q
    using k L by (simp add: f_nat_def L_def)
qed

lemma f_mult_nat_exact:
  assumes "k * f < 2 ^ 53" "k < 2 ^ 53"
  shows "f_mult_nat (f_nat k) f = f_nat (k * f)"
proof (cases "k = 0")
  case True
  then show ?thesis by (simp add: f_nat_def scale_def f_round_def)
next
  case False
  have L: "bitlen k \<le> 53" using bitlen_le [of k 53] False assms by simp
  have e: "nat (- (int (bitlen k) - 53)) = 53 - bitlen k" "- (int (bitlen k) - 53) \<ge> 0"
    using L by simp_all
  have "f_mult_nat (f_nat k) f =
      f_round (k * 2 ^ (53 - bitlen k) * f) (1 * 2 ^ (53 - bitlen k))"
    using False e by (simp add: f_nat_def scale_def)
  also have "\<dots> = f_nat (k * f)"
    using f_round_nat [OF assms(1), of "53 - bitlen k"] by (simp add: mult.assoc mult.commute mult.left_commute)
  finally show ?thesis .
qed

lemma f_nat_to_u128: "k < 2 ^ 53 \<Longrightarrow> f_to_u128 (f_nat k) = k"
proof (cases "k = 0")
  case False
  assume k: "k < 2 ^ 53"
  with False have L: "bitlen k \<le> 53" using bitlen_le [of k 53] by simp
  then have e: "nat (53 - int (bitlen k)) = 53 - bitlen k" by simp
  show ?thesis
    using False L k by (cases "bitlen k = 53") (simp_all add: f_nat_def e)
qed (simp add: f_nat_def)


section \<open>Whole-number components are exact\<close>

text \<open>A span written as components \<open>(n, unit)\<close> separated by blanks.\<close>

fun show_span :: "(nat \<times> str) list \<Rightarrow> str" where
  "show_span [] = []"
| "show_span [(n, u)] = show_nat n @ u"
| "show_span ((n, u) # cs) = show_nat n @ u @ '' '' @ show_span cs"

text \<open>The units in microseconds, as literal numbers: a table of its own, against which the parser's
  factors are checked.\<close>

definition span_units :: "(str \<times> nat) list" where
  "span_units = [(''usec'', 1), (''us'', 1), (''msec'', 1000), (''ms'', 1000),
     (''seconds'', 1000000), (''second'', 1000000), (''sec'', 1000000), (''s'', 1000000),
     (''minutes'', 60000000), (''minute'', 60000000), (''min'', 60000000), (''m'', 60000000),
     (''hours'', 3600000000), (''hour'', 3600000000), (''hr'', 3600000000), (''h'', 3600000000),
     (''days'', 86400000000), (''day'', 86400000000), (''d'', 86400000000),
     (''weeks'', 604800000000), (''week'', 604800000000), (''w'', 604800000000),
     (''months'', 2629800000000), (''month'', 2629800000000), (''mon'', 2629800000000),
     (''years'', 31557600000000), (''year'', 31557600000000), (''y'', 31557600000000)]"

definition unit_usec :: "str \<Rightarrow> nat option" where
  "unit_usec u = map_of span_units (lower u)"

fun span_usec :: "(nat \<times> str) list \<Rightarrow> nat" where
  "span_usec [] = 0"
| "span_usec ((n, u) # cs) = n * the (unit_usec u) + span_usec cs"

definition span_ok :: "nat \<times> str \<Rightarrow> bool" where
  "span_ok p = (case p of (n, u) \<Rightarrow> list_all is_alpha u \<and>
     (case unit_usec u of None \<Rightarrow> False | Some f \<Rightarrow> n * f < 2 ^ 53))"

lemma unit_usec_Nil [simp]: "unit_usec [] = None"
  by (simp add: unit_usec_def span_units_def lower_def)

lemma unit_usec_factor:
  assumes "unit_usec u = Some f"
  shows "u \<noteq> []" "unit_factor u = Some f" "1 \<le> f"
  using assms
  by (auto simp: unit_usec_def span_units_def unit_factor_def usec_defs lower_def Let_def
      split: if_splits)

lemma digit_not_dot: "is_digit c \<Longrightarrow> c \<noteq> CHR ''.''"
  by (auto simp: is_digit_def code_def)

lemma alpha_not_digit: "is_alpha c \<Longrightarrow> \<not> is_digit c \<and> c \<noteq> CHR ''.'' \<and> \<not> is_ws c"
  by (auto simp: is_digit_def is_alpha_def is_ws_def code_def)

lemma parse_f64_nat: "n < 2 ^ 53 \<Longrightarrow> parse_f64 (show_nat n) = Some (f_nat n)"
proof -
  assume n: "n < 2 ^ 53"
  have "split_once ''.'' (show_nat n) = None"
    using show_nat_digits [of n] digit_not_dot
    by (auto simp: split_once_char_None list_all_iff)
  then show ?thesis
    using f_round_nat [OF n, of 0]
    by (simp add: parse_f64_def show_nat_ne show_nat_digits digits_val_show_nat)
qed

lemma show_nat_takeWhile:
  assumes "u \<noteq> []" "list_all is_alpha u"
  shows "takeWhile (\<lambda>c. is_digit c \<or> c = CHR ''.'') (show_nat n @ u @ r) = show_nat n"
    and "dropWhile (\<lambda>c. is_digit c \<or> c = CHR ''.'') (show_nat n @ u @ r) = u @ r"
  using assms show_nat_digits [of n] alpha_not_digit
  by (cases u; auto simp: list_all_iff takeWhile_append dropWhile_append3)+

lemma alpha_takeWhile:
  assumes "list_all is_alpha u" "r = [] \<or> \<not> is_alpha (hd r)"
  shows "takeWhile is_alpha (u @ r) = u" "dropWhile is_alpha (u @ r) = r"
  using assms by (cases r; auto simp: list_all_iff takeWhile_append dropWhile_append3)+

lemma show_nat_last: "ends_with ''.'' (show_nat n) = False"
proof -
  have "is_digit (last (show_nat n))"
    using show_nat_digits [of n] show_nat_ne [of n] by (auto simp: list_all_iff)
  then show ?thesis
    using show_nat_ne [of n] digit_not_dot
    by (cases "show_nat n" rule: rev_cases) (auto simp: ends_with_def starts_with_def)
qed

lemma span_loop_component:
  assumes ok: "span_ok (n, u)" and r: "r = [] \<or> \<not> is_alpha (hd r)"
    and w: "\<forall>c \<in> set w. is_ws c"
    and fits: "tot + n * the (unit_usec u) \<le> infinity_usec"
  shows "span_loop s tot (w @ show_nat n @ u @ r) = span_loop s (tot + n * the (unit_usec u)) r"
proof -
  obtain f where f: "unit_usec u = Some f" "list_all is_alpha u" "n * f < 2 ^ 53"
    using ok by (auto simp: span_ok_def split: option.splits)
  then have u: "u \<noteq> []" "list_all is_alpha u" "unit_factor u = Some f" "1 \<le> f" "n * f < 2 ^ 53"
    "unit_usec u = Some f"
    using unit_usec_factor by auto
  then have n: "n < 2 ^ 53" by (metis le_less_trans mult.right_neutral mult_le_mono2)
  obtain d ds where ds: "show_nat n = d # ds" using show_nat_ne [of n] by (cases "show_nat n") auto
  have "is_digit d" using show_nat_digits [of n] ds by simp
  then have d: "\<not> is_ws d" by (rule digit_not_ws)
  have drop: "dropWhile is_ws (w @ show_nat n @ u @ r) = show_nat n @ u @ r"
    using w d ds by (auto simp: dropWhile_append3 dropWhile_append2)
  have num: "show_nat n \<noteq> ''.''" using show_nat_last [of n] by (auto simp: ends_with_def starts_with_def)
  have val: "f_to_u128 (f_mult_nat (f_nat n) f) = n * f"
    using u n by (simp add: f_mult_nat_exact f_nat_to_u128)
  show ?thesis
    using u n fits [unfolded infinity_usec_def] num
    by (subst span_loop.simps)
      (simp add: Let_def drop show_nat_takeWhile alpha_takeWhile [OF u(2) r] show_nat_ne
        show_nat_last parse_f64_nat val infinity_usec_def del: f_mult_nat.simps f_to_u128.simps)
qed

lemma span_loop_show:
  assumes "list_all span_ok cs" "tot + span_usec cs \<le> infinity_usec" "\<forall>c \<in> set w. is_ws c"
  shows "span_loop s tot (w @ show_span cs) = Inr (tot + span_usec cs)"
  using assms
proof (induction cs arbitrary: tot w rule: show_span.induct)
  case 1
  then show ?case by (subst span_loop.simps) (simp add: dropWhile_eq_Nil_conv)
next
  case (2 n u)
  have "span_loop s (tot + n * the (unit_usec u)) [] = Inr (tot + n * the (unit_usec u))"
    by (subst span_loop.simps) simp
  with 2 span_loop_component [of n u "[]" w tot s] show ?case by simp
next
  case (3 n u v vs)
  have "span_loop s tot (w @ show_nat n @ u @ '' '' @ show_span (v # vs)) =
      span_loop s (tot + n * the (unit_usec u)) ('' '' @ show_span (v # vs))"
    using 3 by (intro span_loop_component) (auto simp: is_alpha_def code_def)
  also have "\<dots> = Inr (tot + n * the (unit_usec u) + span_usec (v # vs))"
    using 3 by (intro "3.IH") (auto simp: is_ws_def)
  finally show ?case by (simp add: add.assoc)
qed


section \<open>Properties\<close>

text \<open>C11. A span written as whole-number components, each a number below \<open>2 ^ 53\<close> microseconds and a
  unit name in any case, separated by blanks, parses to the exact sum of the components by the
  table of units above, in spite of the floating-point arithmetic, as long as the sum is a 64-bit
  span (at most the value of \<open>infinity\<close>).\<close>

theorem timespan_parse_exact:
  assumes "cs \<noteq> []" "list_all span_ok cs" "span_usec cs \<le> infinity_usec"
  shows "parse_timespan (show_span cs) = Inr (span_usec cs)"
proof -
  obtain n u vs where cs: "cs = (n, u) # vs" using assms(1) by (cases cs) auto
  obtain d ds where ds: "show_nat n = d # ds" using show_nat_ne [of n] by (cases "show_nat n") auto
  have d: "is_digit d" using show_nat_digits [of n] ds by simp
  have hd: "\<exists>r. show_span cs = d # r" using ds by (cases vs) (auto simp: cs)
  have last: "is_alpha (last (show_span cs))" "show_span cs \<noteq> []" if "cs \<noteq> []" "list_all span_ok cs" for cs
    using that
    by (induction cs rule: show_span.induct) (auto simp: span_ok_def list_all_iff last_append)
  have "trim (show_span cs) = show_span cs"
    using hd last [OF assms(1,2)] digit_not_ws [OF d] alpha_not_digit by (intro trim_id) auto
  moreover have "lower (show_span cs) \<noteq> ''infinity''"
  proof -
    have "to_lower d = d" using d by (simp add: to_lower_def is_digit_def)
    moreover have "d \<noteq> CHR ''i''" using d by (auto simp: is_digit_def code_def)
    ultimately show ?thesis using hd by (auto simp: lower_def)
  qed
  moreover have "span_loop s 0 (show_span cs) = Inr (span_usec cs)" for s
    using span_loop_show [OF assms(2), of 0 "[]" s] assms(3) by simp
  ultimately show ?thesis using hd by (auto simp: parse_timespan_def Let_def)
qed

theorem timespan_parse_exact_witness:
  "parse_timespan (show_span [(1, ''h''), (30, ''min'')]) = Inr 5400000000"
  using timespan_parse_exact [of "[(1, ''h''), (30, ''min'')]"]
  by (simp add: span_ok_def unit_usec_def span_units_def infinity_usec_def lower_def to_lower_def
      is_alpha_def code_def)

end
