(* ===== verification/Calendar.thy ===== *)
theory Calendar
  imports Text "HOL-Library.Product_Lexorder"
begin

text \<open>
  Calendar expressions and the next-elapse engine of \<^verbatim>\<open>rystemd/src/calendar.rs\<close>.

  The expression parser returns \<open>None\<close> when it does not return at all (the inner loop of
  \<open>parse_field\<close> does not advance on a step of 0), \<open>Some (Inl e)\<close> for an error and
  \<open>Some (Inr x)\<close> for a value. A civil date-time is the tuple
  (year, month, day, hour, minute, second, nanosecond); its chronological order is the
  lexicographic order of the tuple.

  The weekday of a date and the validity of a date come from the \<open>chrono\<close> crate, which is
  not part of the repository: the engine takes them as the argument \<open>wd\<close>, where
  \<open>wd y m d\<close> is \<open>NaiveDate::from_ymd_opt(y, m, d)\<close> mapped to the number of days from
  Monday. Theorems name what they need of it (\<open>wd_total\<close>: every day of every month of
  the searched years is a date).
\<close>

section \<open>Expressions\<close>

datatype field = AnyF | SetF "nat list"

record calendar_spec =
  cs_year :: field
  cs_month :: field
  cs_day :: field
  cs_dow :: field
  cs_hour :: field
  cs_minute :: field
  cs_second :: field

definition spec_default :: calendar_spec where
  "spec_default = \<lparr>cs_year = AnyF, cs_month = AnyF, cs_day = AnyF, cs_dow = AnyF,
     cs_hour = AnyF, cs_minute = AnyF, cs_second = AnyF\<rparr>"

fun field_matches :: "field \<Rightarrow> nat \<Rightarrow> bool" where
  "field_matches AnyF v = True"
| "field_matches (SetF s) v = List.member s v"

fun values_ge :: "field \<Rightarrow> nat \<Rightarrow> nat \<Rightarrow> nat list" where
  "values_ge AnyF ge mx = [ge..<Suc mx]"
| "values_ge (SetF s) ge mx = filter (\<lambda>v. v \<ge> ge \<and> v \<le> mx) s"

datatype cal_error =
    EmptyExpression
  | EmptyListItem str
  | InvalidValue str
  | NoValidValues str nat nat
  | BadStep str
  | BadTime str
  | BadDate str
  | MultipleTimes str
  | MultipleDates str

fun show_cal_error :: "cal_error \<Rightarrow> str" where
  "show_cal_error EmptyExpression = ''empty calendar expression''"
| "show_cal_error (EmptyListItem tok) = ''empty list item in `'' @ tok @ [CHR 0x60]"
| "show_cal_error (InvalidValue tok) = ''invalid value `'' @ tok @ [CHR 0x60]"
| "show_cal_error (NoValidValues tok mn mx) =
     ''field `'' @ tok @ ''` has no valid values in ['' @ show_nat mn @ ''..'' @ show_nat mx @ '']''"
| "show_cal_error (BadStep tok) = ''bad step in `'' @ tok @ [CHR 0x60]"
| "show_cal_error (BadTime tok) = ''bad time `'' @ tok @ [CHR 0x60]"
| "show_cal_error (BadDate tok) = ''bad date `'' @ tok @ [CHR 0x60]"
| "show_cal_error (MultipleTimes s) = ''multiple time components in `'' @ s @ [CHR 0x60]"
| "show_cal_error (MultipleDates s) = ''multiple date components in `'' @ s @ [CHR 0x60]"

type_synonym 'a parse = "(cal_error + 'a) option"

definition ret :: "'a \<Rightarrow> 'a parse" where "ret x = Some (Inr x)"
definition err :: "cal_error \<Rightarrow> 'a parse" where "err e = Some (Inl e)"

definition pbnd :: "'a parse \<Rightarrow> ('a \<Rightarrow> 'b parse) \<Rightarrow> 'b parse" where
  "pbnd r f = (case r of None \<Rightarrow> None | Some (Inl e) \<Rightarrow> Some (Inl e) | Some (Inr x) \<Rightarrow> f x)"

lemma pbnd_simps [simp]: "pbnd (ret x) f = f x" "pbnd (err e) f = err e" "pbnd None f = None"
  by (simp_all add: pbnd_def ret_def err_def)

definition wday_names :: "(str \<times> nat) list" where
  "wday_names = [(''mon'', 1), (''tue'', 2), (''wed'', 3), (''thu'', 4), (''fri'', 5),
     (''sat'', 6), (''sun'', 7)]"

definition month_names :: "(str \<times> nat) list" where
  "month_names = [(''jan'', 1), (''feb'', 2), (''mar'', 3), (''apr'', 4), (''may'', 5),
     (''jun'', 6), (''jul'', 7), (''aug'', 8), (''sep'', 9), (''oct'', 10), (''nov'', 11),
     (''dec'', 12)]"

fun resolve_low :: "str \<Rightarrow> (str \<times> nat) list \<Rightarrow> nat option" where
  "resolve_low low [] = None"
| "resolve_low low ((short, val) # names) =
     (if low = short \<or> low = short @ ''day'' then Some val else resolve_low low names)"

definition resolve_name :: "str \<Rightarrow> (str \<times> nat) list \<Rightarrow> nat option" where
  "resolve_name tok names = resolve_low (lower tok) names"

definition is_weekday_token :: "str \<Rightarrow> bool" where
  "is_weekday_token tok =
     (if List.member tok (CHR '':'') \<or> List.member tok (CHR ''-'') then False
      else if tok = ''*'' \<or> tok = ''?'' then False
      else list_ex (\<lambda>p. p \<noteq> [] \<and> resolve_name p wday_names \<noteq> None)
             (split_on (\<lambda>c. List.member ''/,.*'' c) tok))"

definition split_step :: "str \<Rightarrow> (str \<times> nat option) option" where
  "split_step item =
     (case split_once ''/'' item of None \<Rightarrow> None | Some (a, b) \<Rightarrow> Some (a, parse_u32 b))"

definition resolve :: "str \<Rightarrow> nat \<Rightarrow> (str \<times> nat) list \<Rightarrow> cal_error + nat" where
  "resolve tok dflt names =
     (if tok = ''*'' then Inr dflt
      else case resolve_name tok names of
             Some v \<Rightarrow> Inr v
           | None \<Rightarrow> (case parse_u32 tok of Some v \<Rightarrow> Inr v | None \<Rightarrow> Inl (InvalidValue tok)))"

text \<open>The loop of \<open>parse_field\<close> that collects \<open>lo, lo + step, ...\<close>; \<open>saturating_add\<close> on
  \<open>u32\<close> stops at \<open>u32::MAX\<close>.\<close>

definition sat_add32 :: "nat \<Rightarrow> nat \<Rightarrow> nat" where
  "sat_add32 a b = min (a + b) 4294967295"

partial_function (option) step_values ::
    "nat \<Rightarrow> nat \<Rightarrow> nat \<Rightarrow> nat \<Rightarrow> nat \<Rightarrow> nat list \<Rightarrow> nat list option" where
  "step_values v hi mn mx step vals =
     (if v \<le> hi \<and> v \<le> mx
      then step_values (sat_add32 v step) hi mn mx step (if v \<ge> mn then vals @ [v] else vals)
      else Some vals)"

declare step_values.simps [code]

text \<open>The bounds of one list item: \<open>l..h\<close>, \<open>l/step\<close> or a single value, swapped when the
  lower one is larger.\<close>

definition item_bounds :: "str \<Rightarrow> nat option \<Rightarrow> nat \<Rightarrow> nat \<Rightarrow> (str \<times> nat) list \<Rightarrow>
    cal_error + nat \<times> nat" where
  "item_bounds rng step mn mx names =
     (case split_once ''..'' rng of
        Some (l, h) \<Rightarrow>
          bnd (resolve (trim l) mn names) (\<lambda>lo.
          bnd (resolve (trim h) mx names) (\<lambda>hi.
            Inr (if lo > hi then (hi, lo) else (lo, hi))))
      | None \<Rightarrow>
          bnd (resolve (trim rng) mn names) (\<lambda>lo.
            let hi = (if step \<noteq> None then mx else lo)
            in Inr (if lo > hi then (hi, lo) else (lo, hi))))"

fun parse_items :: "str \<Rightarrow> str list \<Rightarrow> nat \<Rightarrow> nat \<Rightarrow> (str \<times> nat) list \<Rightarrow> nat list \<Rightarrow>
    nat list parse" where
  "parse_items tok [] mn mx names vals = ret vals"
| "parse_items tok (it # items) mn mx names vals =
     (let item = trim it in
      if item = [] then err (EmptyListItem tok)
      else let (rng, step) = (case split_step item of Some (a, b) \<Rightarrow> (a, b) | None \<Rightarrow> (item, None))
           in (case item_bounds rng step mn mx names of
                 Inl e \<Rightarrow> err e
               | Inr (lo, hi) \<Rightarrow>
                   (case step_values lo hi mn mx (case step of Some s \<Rightarrow> s | None \<Rightarrow> 1) vals of
                      None \<Rightarrow> None
                    | Some vals' \<Rightarrow> parse_items tok items mn mx names vals')))"

definition parse_field :: "str \<Rightarrow> nat \<Rightarrow> nat \<Rightarrow> (str \<times> nat) list \<Rightarrow> field parse" where
  "parse_field tok0 mn mx names =
     (let tok = trim tok0 in
      if tok = ''*'' \<or> tok = ''?'' then ret AnyF
      else pbnd (parse_items tok (split_char (CHR '','') tok) mn mx names []) (\<lambda>vals.
             if vals = [] then err (NoValidValues tok mn mx)
             else ret (SetF (remdups_adj (sort vals)))))"

definition abbreviation_spec :: "str \<Rightarrow> calendar_spec option" where
  "abbreviation_spec s =
     (let w = lower s;
          midnight = spec_default\<lparr>cs_hour := SetF [0], cs_minute := SetF [0], cs_second := SetF [0]\<rparr>
      in if w = ''minutely'' then Some (spec_default\<lparr>cs_hour := AnyF, cs_minute := AnyF, cs_second := SetF [0]\<rparr>)
         else if w = ''hourly'' then Some (spec_default\<lparr>cs_hour := AnyF, cs_minute := SetF [0], cs_second := SetF [0]\<rparr>)
         else if w = ''daily'' then Some midnight
         else if w = ''weekly'' then Some (midnight\<lparr>cs_dow := SetF [1]\<rparr>)
         else if w = ''monthly'' then Some (midnight\<lparr>cs_day := SetF [1]\<rparr>)
         else if w = ''quarterly'' then Some (midnight\<lparr>cs_month := SetF [1, 4, 7, 10], cs_day := SetF [1]\<rparr>)
         else if w = ''semi-annually'' then Some (midnight\<lparr>cs_month := SetF [1, 7], cs_day := SetF [1]\<rparr>)
         else if w = ''annually'' \<or> w = ''yearly'' then Some (midnight\<lparr>cs_month := SetF [1], cs_day := SetF [1]\<rparr>)
         else None)"

definition parse_time :: "str \<Rightarrow> calendar_spec \<Rightarrow> calendar_spec parse" where
  "parse_time tok spec =
     (case split_once ''/'' tok of
        Some (b, st) \<Rightarrow>
          (case parse_u32 st of
             None \<Rightarrow> err (BadStep tok)
           | Some step \<Rightarrow>
               (let parts = split_char (CHR '':'') b in
                if length parts < 2 \<or> length parts > 3 then err (BadTime tok)
                else pbnd (parse_field (parts ! 0) 0 23 []) (\<lambda>h.
                       let applied = (if length parts = 3 then 2 else 1);
                           with_step = (parts ! applied) @ ''/'' @ show_nat step
                       in if length parts = 3 then
                            pbnd (parse_field (parts ! 1) 0 59 []) (\<lambda>mi.
                            pbnd (parse_field with_step 0 59 []) (\<lambda>s.
                              ret (spec\<lparr>cs_hour := h, cs_minute := mi, cs_second := s\<rparr>)))
                          else
                            pbnd (parse_field with_step 0 59 []) (\<lambda>mi.
                              ret (spec\<lparr>cs_hour := h, cs_minute := mi, cs_second := SetF [0]\<rparr>)))))
      | None \<Rightarrow>
          (let parts = split_char (CHR '':'') tok in
           if length parts < 2 \<or> length parts > 3 then err (BadTime tok)
           else pbnd (parse_field (parts ! 0) 0 23 []) (\<lambda>h.
                pbnd (parse_field (parts ! 1) 0 59 []) (\<lambda>mi.
                  if length parts = 3 then
                    pbnd (parse_field (parts ! 2) 0 59 []) (\<lambda>s.
                      ret (spec\<lparr>cs_hour := h, cs_minute := mi, cs_second := s\<rparr>))
                  else ret (spec\<lparr>cs_hour := h, cs_minute := mi, cs_second := SetF [0]\<rparr>)))))"

definition parse_date :: "str \<Rightarrow> calendar_spec \<Rightarrow> calendar_spec parse" where
  "parse_date tok spec =
     (let parts = split_char (CHR ''-'') tok in
      if length parts \<noteq> 3 then err (BadDate tok)
      else pbnd (parse_field (parts ! 0) 1000 9999 []) (\<lambda>y.
           pbnd (parse_field (parts ! 1) 1 12 month_names) (\<lambda>mo.
           pbnd (parse_field (parts ! 2) 1 31 []) (\<lambda>d.
             ret (spec\<lparr>cs_year := y, cs_month := mo, cs_day := d\<rparr>)))))"

fun parse_toks :: "str \<Rightarrow> str list \<Rightarrow> bool \<Rightarrow> bool \<Rightarrow> calendar_spec \<Rightarrow>
    (bool \<times> calendar_spec) parse" where
  "parse_toks s [] have_time have_date spec = ret (have_time, spec)"
| "parse_toks s (t # toks) have_time have_date spec =
     (let tok = trim t in
      if List.member tok (CHR '':'') then
        (if have_time then err (MultipleTimes s)
         else pbnd (parse_time tok spec) (\<lambda>spec'. parse_toks s toks True have_date spec'))
      else
        (if have_date then err (MultipleDates s)
         else pbnd (parse_date tok spec) (\<lambda>spec'. parse_toks s toks have_time True spec')))"

definition parse_calendar :: "str \<Rightarrow> calendar_spec parse" where
  "parse_calendar s0 =
     (let s = trim s0 in
      if s = [] then err EmptyExpression
      else case abbreviation_spec s of
        Some spec \<Rightarrow> ret spec
      | None \<Rightarrow>
          (let toks = split_ws s in
           if toks = [] then err EmptyExpression
           else
             pbnd (if is_weekday_token (hd toks)
                   then pbnd (parse_field (hd toks) 1 7 wday_names) (\<lambda>f.
                          ret (tl toks, spec_default\<lparr>cs_dow := f\<rparr>))
                   else ret (toks, spec_default)) (\<lambda>(toks1, spec1).
             pbnd (if toks1 \<noteq> [] \<and> length toks1 \<ge> 2 \<and> is_weekday_token (last toks1)
                   then pbnd (parse_field (last toks1) 1 7 wday_names) (\<lambda>f.
                          ret (butlast toks1, spec1\<lparr>cs_dow := f\<rparr>))
                   else ret (toks1, spec1)) (\<lambda>(toks2, spec2).
             pbnd (parse_toks s toks2 False False spec2) (\<lambda>(have_time, spec3).
               ret (if have_time then spec3
                    else spec3\<lparr>cs_hour := SetF [0], cs_minute := SetF [0], cs_second := SetF [0]\<rparr>))))))"

section \<open>The next-elapse engine\<close>

type_synonym civil = "int \<times> nat \<times> nat \<times> nat \<times> nat \<times> nat \<times> nat"
type_synonym weekday_fun = "int \<Rightarrow> nat \<Rightarrow> nat \<Rightarrow> nat option"

definition max_search_years :: nat where "max_search_years = 6"

definition days_in_month :: "int \<Rightarrow> nat \<Rightarrow> nat" where
  "days_in_month y m =
     (if m = 2 then (if (y mod 4 = 0 \<and> y mod 100 \<noteq> 0) \<or> y mod 400 = 0 then 29 else 28)
      else if m = 4 \<or> m = 6 \<or> m = 9 \<or> m = 11 then 30 else 31)"

definition weekday_number :: "weekday_fun \<Rightarrow> int \<Rightarrow> nat \<Rightarrow> nat \<Rightarrow> nat option" where
  "weekday_number wd y m d = map_option Suc (wd y m d)"

definition day_ok :: "weekday_fun \<Rightarrow> calendar_spec \<Rightarrow> int \<Rightarrow> nat \<Rightarrow> nat \<Rightarrow> bool" where
  "day_ok wd c y m d =
     (case weekday_number wd y m d of
        None \<Rightarrow> False
      | Some dow \<Rightarrow>
          (case (cs_day c, cs_dow c) of
             (AnyF, AnyF) \<Rightarrow> True
           | (AnyF, dowf) \<Rightarrow> field_matches dowf dow
           | (dayf, AnyF) \<Rightarrow> field_matches dayf d
           | (dayf, dowf) \<Rightarrow> field_matches dayf d \<or> field_matches dowf dow))"

fun first_some :: "('a \<Rightarrow> 'b option) \<Rightarrow> 'a list \<Rightarrow> 'b option" where
  "first_some f [] = None"
| "first_some f (x # xs) = (case f x of Some y \<Rightarrow> Some y | None \<Rightarrow> first_some f xs)"

definition next_time :: "calendar_spec \<Rightarrow> nat \<Rightarrow> nat \<Rightarrow> nat \<Rightarrow> bool \<Rightarrow> (nat \<times> nat \<times> nat) option" where
  "next_time c h0 mi0 s0 force_gt =
     first_some (\<lambda>h.
       first_some (\<lambda>mi.
         first_some (\<lambda>s.
             if \<not> force_gt \<or> (h, mi, s) \<noteq> (h0, mi0, s0) then Some (h, mi, s) else None)
           (values_ge (cs_second c) (if force_gt \<and> h = h0 \<and> mi = mi0 then s0 else 0) 59))
         (values_ge (cs_minute c) (if force_gt \<and> h = h0 then mi0 else 0) 59))
       (values_ge (cs_hour c) (if force_gt then h0 else 0) 23)"

definition local_second :: "civil \<Rightarrow> civil" where
  "local_second t = (case t of (y, m, d, h, mi, s, _) \<Rightarrow> (y, m, d, h, mi, s, 0))"

text \<open>\<open>i32 as u32\<close>.\<close>

definition as_u32 :: "int \<Rightarrow> nat" where
  "as_u32 i = nat (i mod 4294967296)"

text \<open>The bodies of the three date loops: a day, the days of a month, the months of a year.\<close>

definition elapse_day :: "weekday_fun \<Rightarrow> calendar_spec \<Rightarrow> civil \<Rightarrow> int \<Rightarrow> nat \<Rightarrow> nat \<Rightarrow> civil option" where
  "elapse_day wd c t0 y m d =
     (case t0 of (fy, fm, fd, fh, fmi, fs, fn) \<Rightarrow>
        if \<not> day_ok wd c y m d then None
        else (case next_time c fh fmi fs (y = fy \<and> m = fm \<and> d = fd) of
                None \<Rightarrow> None
              | Some (h, mi, s) \<Rightarrow>
                  if wd y m d \<noteq> None \<and> h < 24 \<and> mi < 60 \<and> s < 60 \<and> t0 < (y, m, d, h, mi, s, 0)
                  then Some (y, m, d, h, mi, s, 0) else None))"

definition elapse_month :: "weekday_fun \<Rightarrow> calendar_spec \<Rightarrow> civil \<Rightarrow> int \<Rightarrow> nat \<Rightarrow> civil option" where
  "elapse_month wd c t0 y m =
     (case t0 of (fy, fm, fd, _) \<Rightarrow>
        if \<not> field_matches (cs_month c) m then None
        else first_some (elapse_day wd c t0 y m)
               [(if y = fy \<and> m = fm then fd else 1)..<Suc (days_in_month y m)])"

definition elapse_year :: "weekday_fun \<Rightarrow> calendar_spec \<Rightarrow> civil \<Rightarrow> int \<Rightarrow> civil option" where
  "elapse_year wd c t0 y =
     (case t0 of (fy, fm, _) \<Rightarrow>
        if \<not> field_matches (cs_year c) (as_u32 y) then None
        else first_some (elapse_month wd c t0 y) [(if y = fy then fm else 1)..<13])"

definition next_elapse :: "weekday_fun \<Rightarrow> calendar_spec \<Rightarrow> civil \<Rightarrow> civil option" where
  "next_elapse wd c t =
     (let t0 = local_second t in
      first_some (elapse_year wd c t0) (map (\<lambda>k. fst t0 + int k) [0..<Suc max_search_years]))"


section \<open>Display\<close>

definition field_str :: "field \<Rightarrow> str" where
  "field_str fl = (case fl of AnyF \<Rightarrow> ''*'' | SetF s \<Rightarrow> str_join '','' (map show_nat s))"

definition pad2 :: "nat \<Rightarrow> str" where
  "pad2 n = (if n < 10 then CHR ''0'' # show_nat n else show_nat n)"

definition first_value :: "field \<Rightarrow> nat \<Rightarrow> nat" where
  "first_value fl mx = (case values_ge fl 0 mx of v # _ \<Rightarrow> v | [] \<Rightarrow> 0)"

definition show_calendar :: "calendar_spec \<Rightarrow> str" where
  "show_calendar c =
     field_str (cs_year c) @ ''-'' @ field_str (cs_month c) @ ''-'' @ field_str (cs_day c) @ '' '' @
     pad2 (first_value (cs_hour c) 23) @ '':'' @ pad2 (first_value (cs_minute c) 59) @ '':'' @
     pad2 (first_value (cs_second c) 59)"

end
