(* ===== verification/Unit_Types.thy ===== *)
theory Unit_Types
  imports Names Timespan Calendar
begin

text \<open>
  The typed unit-file model of \<^verbatim>\<open>rystemd/src/unit/mod.rs\<close> (first part of the file) and the
  per-unit runtime state of \<^verbatim>\<open>rystemd/src/manager/state.rs\<close>.

  An \<open>enum\<close> is a \<open>datatype\<close> with the same constructors (prefixed where two enums share a
  name), a \<open>struct\<close> a \<open>record\<close> whose field names carry a short prefix. Time spans are
  microseconds (\<open>TimeSpan::usec\<close>), an \<open>Instant\<close> is microseconds on the monotonic clock, a
  \<open>SystemTime\<close> microseconds since the epoch, a signal its raw number. The model is of the
  Linux build with the default features (socket, udev, dbus).
\<close>

section \<open>Kinds\<close>

datatype unit_kind = Service | Timer | Target | Path | Socket | Device | Mount

fun kind_suffix :: "unit_kind \<Rightarrow> str" where
  "kind_suffix Service = ''service''"
| "kind_suffix Timer = ''timer''"
| "kind_suffix Target = ''target''"
| "kind_suffix Path = ''path''"
| "kind_suffix Socket = ''socket''"
| "kind_suffix Device = ''device''"
| "kind_suffix Mount = ''mount''"

definition kind_from_suffix :: "str \<Rightarrow> unit_kind option" where
  "kind_from_suffix s =
     (if s = ''service'' then Some Service
      else if s = ''timer'' then Some Timer
      else if s = ''target'' then Some Target
      else if s = ''path'' then Some Path
      else if s = ''socket'' then Some Socket
      else if s = ''device'' then Some Device
      else if s = ''mount'' then Some Mount
      else None)"

definition kind_from_unit_name :: "str \<Rightarrow> unit_kind option" where
  "kind_from_unit_name name =
     (case rfind_idx (CHR ''.'') name of
        None \<Rightarrow> None
      | Some dot \<Rightarrow> kind_from_suffix (drop (dot + 1) name))"

lemma kind_from_suffix_suffix [simp]: "kind_from_suffix (kind_suffix k) = Some k"
  by (cases k) (simp_all add: kind_from_suffix_def)

lemma kind_from_name: "kind_from_unit_name (p @ CHR ''.'' # kind_suffix k) = Some k"
proof -
  have "CHR ''.'' \<notin> set (kind_suffix k)" by (cases k) simp_all
  from rfind_idx_append [OF this, of p] show ?thesis by (simp add: kind_from_unit_name_def)
qed

section \<open>Service configuration\<close>

record exec_command =
  ec_argv :: "str list"
  ec_ignore_failure :: bool

datatype service_type = Simple | Exec | Oneshot | Forking | Notify | Dbus | Idle

datatype restart_policy =
  RestartNo | OnSuccess | OnFailure | OnAbnormal | OnAbort | OnWatchdog | RestartAlways

datatype kill_mode = KillControlGroup | KillProcess

record exit_code_set =
  ex_codes :: "(nat \<times> nat) list"
  ex_signals :: "int list"

definition default_success :: exit_code_set where
  "default_success = \<lparr>ex_codes = [(0, 0)], ex_signals = []\<rparr>"

definition ex_matches :: "exit_code_set \<Rightarrow> int option \<Rightarrow> int option \<Rightarrow> bool" where
  "ex_matches s ecode signal =
     (case (ecode, signal) of
        (Some c, None) \<Rightarrow>
          list_ex (\<lambda>(lo, hi). as_u32 c \<ge> lo \<and> as_u32 c \<le> hi) (ex_codes s) \<or>
          (ex_codes s = [] \<and> c = 0)
      | (None, Some sig) \<Rightarrow> List.member (ex_signals s) sig
      | _ \<Rightarrow> False)"

text \<open>\<open>Signal::try_from\<close>: nix knows the signals 1 to 31 on Linux.\<close>

definition signal_try_from :: "int \<Rightarrow> int option" where
  "signal_try_from n = (if 1 \<le> n \<and> n \<le> 31 then Some n else None)"

definition signal_table :: "(str \<times> int) list" where
  "signal_table = [(''HUP'', 1), (''INT'', 2), (''QUIT'', 3), (''ILL'', 4), (''TRAP'', 5),
     (''ABRT'', 6), (''BUS'', 7), (''FPE'', 8), (''KILL'', 9), (''USR1'', 10), (''SEGV'', 11),
     (''USR2'', 12), (''PIPE'', 13), (''ALRM'', 14), (''TERM'', 15), (''CHLD'', 17),
     (''CONT'', 18), (''STOP'', 19), (''TSTP'', 20), (''TTIN'', 21), (''TTOU'', 22),
     (''URG'', 23), (''XCPU'', 24), (''XFSZ'', 25), (''VTALRM'', 26), (''PROF'', 27),
     (''WINCH'', 28), (''IO'', 29), (''PWR'', 30), (''SYS'', 31)]"

definition sig_from_name :: "str \<Rightarrow> int option" where
  "sig_from_name s0 =
     (let s = (case strip_prefix ''SIG'' s0 of Some r \<Rightarrow> r | None \<Rightarrow> s0) in
      case parse_i32 s of
        Some n \<Rightarrow> signal_try_from n
      | None \<Rightarrow>
          (case map_of signal_table (upper s) of
             None \<Rightarrow> None
           | Some n \<Rightarrow> signal_try_from n))"

definition sysexit_table :: "(str \<times> nat) list" where
  "sysexit_table = [(''OK'', 0), (''SUCCESS'', 0), (''FAILURE'', 1), (''USAGE'', 64),
     (''DATAERR'', 65), (''NOINPUT'', 66), (''NOUSER'', 67), (''NOHOST'', 68),
     (''UNAVAILABLE'', 69), (''SOFTWARE'', 70), (''OSERR'', 71), (''OSFILE'', 72),
     (''CANTCREAT'', 73), (''IOERR'', 74), (''TEMPFAIL'', 75), (''PROTOCOL'', 76),
     (''NOPERM'', 77), (''CONFIG'', 78)]"

definition sysexit_from_name :: "str \<Rightarrow> nat option" where
  "sysexit_from_name s0 =
     (let s = upper s0
      in map_of sysexit_table (case strip_prefix ''EX_'' s of Some r \<Rightarrow> r | None \<Rightarrow> s))"

datatype exit_status_error = BadRange str | InvalidExitStatus str | EmptyExitStatus

fun show_exit_error :: "exit_status_error \<Rightarrow> str" where
  "show_exit_error (BadRange tok) = ''bad range `'' @ tok @ [CHR 0x60]"
| "show_exit_error (InvalidExitStatus tok) = ''invalid success exit status `'' @ tok @ [CHR 0x60]"
| "show_exit_error EmptyExitStatus = ''empty SuccessExitStatus''"

fun parse_exit_tokens :: "str list \<Rightarrow> exit_code_set \<Rightarrow> exit_status_error + exit_code_set" where
  "parse_exit_tokens [] out = Inr out"
| "parse_exit_tokens (tok # toks) out =
     (case split_once ''..'' tok of
        Some (l, h) \<Rightarrow>
          (case (parse_u32 (trim l), parse_u32 (trim h)) of
             (Some lo, Some hi) \<Rightarrow>
               parse_exit_tokens toks (out\<lparr>ex_codes := ex_codes out @ [(lo, hi)]\<rparr>)
           | _ \<Rightarrow> Inl (BadRange tok))
      | None \<Rightarrow>
          (case parse_u32 tok of
             Some n \<Rightarrow> parse_exit_tokens toks (out\<lparr>ex_codes := ex_codes out @ [(n, n)]\<rparr>)
           | None \<Rightarrow>
               (case sig_from_name tok of
                  Some sig \<Rightarrow>
                    parse_exit_tokens toks (out\<lparr>ex_signals := ex_signals out @ [sig]\<rparr>)
                | None \<Rightarrow>
                    (case sysexit_from_name tok of
                       Some c \<Rightarrow> parse_exit_tokens toks (out\<lparr>ex_codes := ex_codes out @ [(c, c)]\<rparr>)
                     | None \<Rightarrow> Inl (InvalidExitStatus tok)))))"

definition parse_exit_status :: "str \<Rightarrow> exit_status_error + exit_code_set" where
  "parse_exit_status value =
     bnd (parse_exit_tokens (split_ws value) \<lparr>ex_codes = [], ex_signals = []\<rparr>) (\<lambda>out.
       if ex_codes out = [] \<and> ex_signals out = [] then Inl EmptyExitStatus else Inr out)"

datatype rlimit_resource = NoFile | NProc | Core | AddressSpace

record rlimit =
  rl_resource :: rlimit_resource
  rl_soft :: nat
  rl_hard :: nat

text \<open>\<open>cpu_quota\<close> is an \<open>f32\<close>, kept as a binary floating-point value.\<close>

record cgroup_limits =
  cg_memory_max :: "nat option"
  cg_memory_high :: "nat option"
  cg_cpu_weight :: "nat option"
  cg_cpu_quota :: "f64 option"
  cg_io_weight :: "nat option"
  cg_io_device_weights :: "(str \<times> nat) list"
  cg_tasks_max :: "nat option"

datatype protect_mode = ProtectNo | ProtectReadOnly | ProtectTmpfs

datatype protect_system_level = SystemNo | SystemYes | SystemFull | SystemStrict

record sandbox_config =
  sb_no_new_privileges :: bool
  sb_private_tmp :: bool
  sb_private_devices :: bool
  sb_protect_home :: protect_mode
  sb_protect_system :: protect_system_level
  sb_read_only_paths :: "str list"
  sb_bounding_invert :: bool
  sb_bounding_set :: "str list"
  sb_ambient_set :: "str list"
  sb_syscall_deny :: bool
  sb_syscall_nrs :: "nat list"
  sb_syscall_errno :: nat
  sb_restrict_realtime :: bool
  sb_lock_personality :: bool
  sb_restrict_suidsgid :: bool
  sb_af_present :: bool
  sb_af_deny :: bool
  sb_af_families :: "nat list"
  sb_af_deny_all :: bool
  sb_memory_deny_write_execute :: bool
  sb_compat :: "(str \<times> str) list"

definition sandbox_default :: sandbox_config where
  "sandbox_default = \<lparr>sb_no_new_privileges = False, sb_private_tmp = False,
     sb_private_devices = False, sb_protect_home = ProtectNo, sb_protect_system = SystemNo,
     sb_read_only_paths = [], sb_bounding_invert = False, sb_bounding_set = [],
     sb_ambient_set = [], sb_syscall_deny = False, sb_syscall_nrs = [], sb_syscall_errno = 0,
     sb_restrict_realtime = False, sb_lock_personality = False, sb_restrict_suidsgid = False,
     sb_af_present = False, sb_af_deny = False, sb_af_families = [], sb_af_deny_all = False,
     sb_memory_deny_write_execute = False, sb_compat = []\<rparr>"

definition has_sandbox :: "sandbox_config \<Rightarrow> bool" where
  "has_sandbox c \<longleftrightarrow> sb_no_new_privileges c \<or> sb_private_tmp c \<or> sb_private_devices c \<or>
     sb_protect_home c \<noteq> ProtectNo \<or> sb_protect_system c \<noteq> SystemNo \<or>
     sb_read_only_paths c \<noteq> [] \<or> sb_bounding_invert c \<or> sb_bounding_set c \<noteq> [] \<or>
     sb_ambient_set c \<noteq> [] \<or> sb_syscall_nrs c \<noteq> [] \<or> sb_restrict_realtime c \<or>
     sb_lock_personality c \<or> sb_restrict_suidsgid c \<or> sb_af_present c \<or>
     sb_memory_deny_write_execute c"

datatype stdio_target = StdJournal | StdInherit | StdDiscard | StdFile str

section \<open>Conditions\<close>

datatype condition_kind =
    CondPathExists | CondFileNotEmpty | CondDirectoryNotEmpty | CondPathIsReadWrite
  | CondPathIsSymbolicLink | CondUser | CondGroup | CondHost

fun condition_name :: "condition_kind \<Rightarrow> str" where
  "condition_name CondPathExists = ''PathExists''"
| "condition_name CondFileNotEmpty = ''FileNotEmpty''"
| "condition_name CondDirectoryNotEmpty = ''DirectoryNotEmpty''"
| "condition_name CondPathIsReadWrite = ''PathIsReadWrite''"
| "condition_name CondPathIsSymbolicLink = ''PathIsSymbolicLink''"
| "condition_name CondUser = ''User''"
| "condition_name CondGroup = ''Group''"
| "condition_name CondHost = ''Host''"

record unit_condition =
  cd_kind :: condition_kind
  cd_value :: str
  cd_negate :: bool
  cd_is_assert :: bool

record condition_context =
  cc_user_manager :: bool
  cc_username :: str
  cc_uid :: nat
  cc_groupname :: str
  cc_gid :: nat
  cc_hostname :: str

text \<open>\<open>probe\<close> is the file system: the answer of the \<open>metadata\<close>, \<open>read_dir\<close>, \<open>access\<close> or
  \<open>symlink_metadata\<close> test of the path conditions.\<close>

definition match_base :: "(condition_kind \<Rightarrow> str \<Rightarrow> bool) \<Rightarrow> unit_condition \<Rightarrow> condition_context \<Rightarrow> bool" where
  "match_base probe c ctx =
     (case cd_kind c of
        CondUser \<Rightarrow>
          if cc_user_manager ctx then cd_value c = cc_username ctx \<or> cd_value c = show_nat (cc_uid ctx)
          else cd_value c = ''root'' \<or> cd_value c = ''0''
      | CondGroup \<Rightarrow>
          if cc_user_manager ctx then cd_value c = cc_groupname ctx \<or> cd_value c = show_nat (cc_gid ctx)
          else cd_value c = ''root'' \<or> cd_value c = ''0''
      | CondHost \<Rightarrow> cd_value c = cc_hostname ctx
      | k \<Rightarrow> probe k (cd_value c))"

definition evaluate_condition ::
    "(condition_kind \<Rightarrow> str \<Rightarrow> bool) \<Rightarrow> unit_condition \<Rightarrow> condition_context \<Rightarrow> bool" where
  "evaluate_condition probe c ctx =
     (let base = match_base probe c ctx in if cd_negate c then \<not> base else base)"

datatype directory_kind = DirRuntime | DirState | DirCache | DirLogs | DirConfiguration

record directory_spec =
  ds_kind :: directory_kind
  ds_name :: str
  ds_mode :: "nat option"
  ds_recursive :: bool

section \<open>Unit files\<close>

record unit_config =
  uc_description :: str
  uc_after :: "str list"
  uc_before :: "str list"
  uc_requires :: "str list"
  uc_requisite :: "str list"
  uc_wants :: "str list"
  uc_conflicts :: "str list"
  uc_on_failure :: "str list"
  uc_part_of :: "str list"
  uc_binds_to :: "str list"
  uc_default_dependencies :: bool
  uc_documentation :: "str list"
  uc_conditions :: "unit_condition list"

record service_config =
  sc_service_type :: service_type
  sc_remain_after_exit :: bool
  sc_exec_start_pre :: "exec_command list"
  sc_exec_start :: "exec_command list"
  sc_exec_start_post :: "exec_command list"
  sc_exec_stop :: "exec_command list"
  sc_exec_reload :: "exec_command list"
  sc_restart :: restart_policy
  sc_restart_sec :: nat
  sc_restart_randomized_delay_sec :: nat
  sc_timeout_start_sec :: nat
  sc_timeout_stop_sec :: nat
  sc_environment :: "(str \<times> str) list"
  sc_environment_files :: "(str \<times> bool) list"
  sc_working_directory :: "(str \<times> bool) option"
  sc_user :: "str option"
  sc_group :: "str option"
  sc_nice :: "int option"
  sc_umask :: "nat option"
  sc_kill_signal :: "int option"
  sc_kill_mode :: kill_mode
  sc_send_sigkill :: bool
  sc_success_exit_status :: "exit_code_set option"
  sc_pid_file :: "str option"
  sc_bus_name :: "str option"
  sc_rlimits :: "rlimit list"
  sc_cgroup_limits :: cgroup_limits
  sc_sandbox :: sandbox_config
  sc_std_output :: stdio_target
  sc_std_error :: stdio_target
  sc_std_input :: bool
  sc_directories :: "directory_spec list"

definition cgroup_default :: cgroup_limits where
  "cgroup_default = \<lparr>cg_memory_max = None, cg_memory_high = None, cg_cpu_weight = None,
     cg_cpu_quota = None, cg_io_weight = None, cg_io_device_weights = [], cg_tasks_max = None\<rparr>"

text \<open>The configuration every \<^verbatim>\<open>[Service]\<close> section starts from.\<close>

definition service_default :: service_config where
  "service_default = \<lparr>sc_service_type = Simple, sc_remain_after_exit = False,
     sc_exec_start_pre = [], sc_exec_start = [], sc_exec_start_post = [], sc_exec_stop = [],
     sc_exec_reload = [], sc_restart = RestartNo, sc_restart_sec = 100000,
     sc_restart_randomized_delay_sec = 0, sc_timeout_start_sec = 90 * 1000000,
     sc_timeout_stop_sec = 90 * 1000000, sc_environment = [], sc_environment_files = [],
     sc_working_directory = None, sc_user = None, sc_group = None, sc_nice = None, sc_umask = None,
     sc_kill_signal = None, sc_kill_mode = KillControlGroup, sc_send_sigkill = True,
     sc_success_exit_status = None, sc_pid_file = None, sc_bus_name = None, sc_rlimits = [],
     sc_cgroup_limits = cgroup_default, sc_sandbox = sandbox_default, sc_std_output = StdJournal,
     sc_std_error = StdJournal, sc_std_input = False, sc_directories = []\<rparr>"

definition effective_exit_success :: "service_config \<Rightarrow> exit_code_set" where
  "effective_exit_success c =
     (case sc_success_exit_status c of
        None \<Rightarrow> default_success
      | Some s \<Rightarrow> default_success\<lparr>ex_codes := ex_codes default_success @ ex_codes s,
                                  ex_signals := ex_signals default_success @ ex_signals s\<rparr>)"

record timer_config =
  tc_on_calendar :: "calendar_spec list"
  tc_on_boot_sec :: "nat list"
  tc_on_startup_sec :: "nat list"
  tc_on_active_sec :: "nat list"
  tc_on_inactive_sec :: "nat list"
  tc_persistent :: bool
  tc_accuracy_sec :: nat
  tc_randomized_delay_sec :: nat
  tc_unit :: "str option"
  tc_remain_after_elapse :: bool
  tc_wake_system :: bool

record path_config =
  pc_path_exists :: "str list"
  pc_path_exists_glob :: "str list"
  pc_path_changed :: "str list"
  pc_directory_not_empty :: "str list"
  pc_unit :: "str option"
  pc_make_directory :: bool

record socket_config =
  sk_listen_stream :: "str list"
  sk_listen_datagram :: "str list"
  sk_listen_netlink :: "str list"
  sk_listen_sequential_packet :: "str list"
  sk_accept :: bool
  sk_service :: "str option"

record mount_config =
  mc_what :: "str option"
  mc_where :: "str option"
  mc_fs_type :: "str option"
  mc_options :: "str option"

record install_config =
  ic_wanted_by :: "str list"
  ic_required_by :: "str list"
  ic_also :: "str list"
  ic_alias :: "str list"

record unit_file =
  uf_path :: "str option"
  uf_unit :: unit_config
  uf_service :: "service_config option"
  uf_timer :: "timer_config option"
  uf_path_unit :: "path_config option"
  uf_socket :: "socket_config option"
  uf_mount :: "mount_config option"
  uf_install :: install_config

definition unit_file_kind :: "unit_file \<Rightarrow> unit_kind" where
  "unit_file_kind f =
     (if uf_service f \<noteq> None then Service
      else if uf_timer f \<noteq> None then Timer
      else if uf_path_unit f \<noteq> None then Path
      else if uf_socket f \<noteq> None then Socket
      else if uf_mount f \<noteq> None then Mount
      else Target)"

section \<open>Runtime state\<close>

type_synonym pid = int

datatype active_state = Inactive | Activating | Active | Deactivating | Failed

datatype sub_state =
    SubDead | SubStartPre | SubStart | SubPost | SubRunning | SubMounted | SubExited
  | SubWaitingForBus | SubStop | SubStopSigterm | SubStopSigkill | SubStopPost
  | SubFinalSigterm | SubFinalSigkill | SubAutoRestart | SubFailed

fun sub_state_str :: "sub_state \<Rightarrow> str" where
  "sub_state_str SubDead = ''dead''"
| "sub_state_str SubStartPre = ''start-pre''"
| "sub_state_str SubStart = ''start''"
| "sub_state_str SubPost = ''post''"
| "sub_state_str SubRunning = ''running''"
| "sub_state_str SubMounted = ''mounted''"
| "sub_state_str SubExited = ''exited''"
| "sub_state_str SubWaitingForBus = ''waiting-for-bus''"
| "sub_state_str SubStop = ''stop''"
| "sub_state_str SubStopSigterm = ''stop-sigterm''"
| "sub_state_str SubStopSigkill = ''stop-sigkill''"
| "sub_state_str SubStopPost = ''stop-post''"
| "sub_state_str SubFinalSigterm = ''final-sigterm''"
| "sub_state_str SubFinalSigkill = ''final-sigkill''"
| "sub_state_str SubAutoRestart = ''auto-restart''"
| "sub_state_str SubFailed = ''failed''"

datatype unit_result =
    ResSuccess | ResExitCode | ResSignal | ResTimeout | ResStartLimitHit | ResDependency
  | ResAssert | ResResources | ResProtocol | ResWatchdog | ResExec | ResUser | ResGroup
  | ResUnknown

datatype load_state = Loaded | NotFound | LoadError

datatype control_command = CtlStartPre | CtlStart | CtlStartPost | CtlStop | CtlReload | CtlKill

record timer_state =
  ts_next_calendar :: "(nat \<times> nat) option"
  ts_next_monotonic :: "nat option"
  ts_last_trigger :: "nat option"
  ts_last_trigger_calendar :: "(nat \<times> nat) option"
  ts_last_trigger_monotonic :: "nat option"
  ts_last_result :: "unit_result option"
  ts_next_display :: "nat option"
  ts_spec_strings :: "str list"

definition timer_state_new :: "str list \<Rightarrow> timer_state" where
  "timer_state_new specs = \<lparr>ts_next_calendar = None, ts_next_monotonic = None,
     ts_last_trigger = None, ts_last_trigger_calendar = None, ts_last_trigger_monotonic = None,
     ts_last_result = None, ts_next_display = None, ts_spec_strings = specs\<rparr>"

record path_state =
  ps_armed_mtimes :: "(str \<times> nat option) list"
  ps_triggered :: bool

record unit_state =
  u_name :: str
  u_kind :: unit_kind
  u_file :: "unit_file option"
  u_load :: load_state
  u_path :: "str option"
  u_load_error :: "str option"
  u_active :: active_state
  u_sub :: sub_state
  u_result :: unit_result
  u_main_pid :: "pid option"
  u_group_pid :: "pid option"
  u_cgroup :: "str option"
  u_cmd_index :: nat
  u_control_pid :: "pid option"
  u_control_command :: "control_command option"
  u_forked_main_pid :: "pid option"
  u_active_enter :: "nat option"
  u_inactive_enter :: "nat option"
  u_invocation_id :: "nat option"
  u_n_restarts :: nat
  u_control_start :: "nat option"
  u_stop_started :: "nat option"
  u_last_exit_code :: "int option"
  u_last_exit_signal :: "int option"
  u_stop_sent_kill :: bool
  u_log :: log_ring
  u_restart_at :: "nat option"
  u_start_window :: "nat list"
  u_notify_fd :: "int option"
  u_notify_ready :: bool
  u_timer :: "timer_state option"
  u_path_state :: "path_state option"

definition unit_new :: "nat \<Rightarrow> str \<Rightarrow> unit_kind \<Rightarrow> unit_state" where
  "unit_new wall name kind =
     \<lparr>u_name = name, u_kind = kind, u_file = None, u_load = NotFound, u_path = None,
      u_load_error = None, u_active = Inactive, u_sub = SubDead, u_result = ResSuccess,
      u_main_pid = None, u_group_pid = None, u_cgroup = None, u_cmd_index = 0,
      u_control_pid = None, u_control_command = None, u_forked_main_pid = None,
      u_active_enter = None, u_inactive_enter = Some wall, u_invocation_id = None,
      u_n_restarts = 0, u_control_start = None, u_stop_started = None,
      u_last_exit_code = None, u_last_exit_signal = None, u_stop_sent_kill = False,
      u_log = log_ring_new 200, u_restart_at = None, u_start_window = [], u_notify_fd = None,
      u_notify_ready = False, u_timer = None, u_path_state = None\<rparr>"

definition service_cfg :: "unit_state \<Rightarrow> service_config option" where
  "service_cfg u = Option.bind (u_file u) uf_service"

definition timer_cfg :: "unit_state \<Rightarrow> timer_config option" where
  "timer_cfg u = Option.bind (u_file u) uf_timer"

definition path_cfg :: "unit_state \<Rightarrow> path_config option" where
  "path_cfg u = Option.bind (u_file u) uf_path_unit"

definition socket_cfg :: "unit_state \<Rightarrow> socket_config option" where
  "socket_cfg u = Option.bind (u_file u) uf_socket"

definition mount_cfg :: "unit_state \<Rightarrow> mount_config option" where
  "mount_cfg u = Option.bind (u_file u) uf_mount"

definition service_of_name :: "str \<Rightarrow> str" where
  "service_of_name name =
     (let dot = (case rfind_idx (CHR ''.'') name of Some d \<Rightarrow> d | None \<Rightarrow> length name)
      in take dot name @ ''.service'')"

definition activated_unit :: "unit_state \<Rightarrow> str" where
  "activated_unit u =
     (case Option.bind (timer_cfg u) tc_unit of Some n \<Rightarrow> n | None \<Rightarrow> service_of_name (u_name u))"

definition activated_service :: "unit_state \<Rightarrow> str" where
  "activated_service u =
     (case Option.bind (socket_cfg u) sk_service of Some n \<Rightarrow> n | None \<Rightarrow> service_of_name (u_name u))"

definition activated_path_target :: "unit_state \<Rightarrow> str" where
  "activated_path_target u =
     (case Option.bind (path_cfg u) pc_unit of Some n \<Rightarrow> n | None \<Rightarrow> service_of_name (u_name u))"

text \<open>\<open>set_active\<close>: \<open>seq\<close> is the invocation number of the process-wide counter, returned
  incremented when the transition takes a new one; \<open>wall\<close> is \<open>SystemTime::now()\<close>. The
  invocation id is kept as its number (the program prints it in hexadecimal).\<close>

definition set_active ::
    "nat \<Rightarrow> active_state \<Rightarrow> sub_state \<Rightarrow> unit_result \<Rightarrow> nat \<Rightarrow> unit_state \<Rightarrow> unit_state \<times> nat" where
  "set_active wall state sub res seq u =
     (let u1 = u\<lparr>u_active := state, u_sub := sub,
                 u_result := (if res \<noteq> ResSuccess then res else u_result u)\<rparr>
      in case state of
           Activating \<Rightarrow> (u1\<lparr>u_invocation_id := Some seq, u_restart_at := None\<rparr>, seq + 1)
         | Active \<Rightarrow>
             (let fresh = (u_invocation_id u1 = None);
                  u2 = (if fresh then u1\<lparr>u_invocation_id := Some seq\<rparr> else u1)
              in (u2\<lparr>u_active_enter := Some wall, u_inactive_enter := None, u_restart_at := None\<rparr>,
                  if fresh then seq + 1 else seq))
         | _ \<Rightarrow>
             (if u_active_enter u1 \<noteq> None then u1\<lparr>u_inactive_enter := Some wall\<rparr> else u1, seq))"

section \<open>Exit statuses\<close>

lemma exit_zero_success: "ex_matches (effective_exit_success c) (Some 0) None"
  by (auto simp: ex_matches_def effective_exit_success_def default_success_def as_u32_def
      split: option.splits)

text \<open>Which ends of a process count as success: exit status 0 always does; another status
  does exactly when a range of \<open>SuccessExitStatus=\<close> holds it, a signal exactly when it is
  listed; a process that neither exited nor was killed never does.\<close>

theorem exit_status_success:
  "ex_matches (effective_exit_success c) ec sg \<longleftrightarrow>
     (case (ec, sg) of
        (Some n, None) \<Rightarrow> as_u32 n = 0 \<or>
          (\<exists>s \<in> set_option (sc_success_exit_status c). \<exists>(lo, hi) \<in> set (ex_codes s).
             lo \<le> as_u32 n \<and> as_u32 n \<le> hi)
      | (None, Some k) \<Rightarrow> \<exists>s \<in> set_option (sc_success_exit_status c). k \<in> set (ex_signals s)
      | _ \<Rightarrow> False)"
  by (cases "sc_success_exit_status c"; cases ec; cases sg)
    (auto simp: ex_matches_def effective_exit_success_def default_success_def list_ex_iff)

end
