(* ===== verification/Deps.thy ===== *)
theory Deps
  imports Unit_Types
begin

text \<open>
  The dependency graph, \<^verbatim>\<open>rystemd/src/manager/deps.rs\<close>: the edges a unit declares and the
  transitive closures the job engine works with. The unit table is an association list. The
  worklist of \<open>closure\<close> is a stack (\<open>push\<close> and \<open>pop\<close> at the end of the vector): here its top
  is the head of the list. The loop terminates because it only pushes names it has not seen;
  its result is the set of names reachable by one or more edges.
\<close>

type_synonym unit_table = "(str \<times> unit_state) list"

definition unit_deps :: "(unit_config \<Rightarrow> str list) \<Rightarrow> unit_state \<Rightarrow> str list" where
  "unit_deps sel u = (case u_file u of Some f \<Rightarrow> sel (uf_unit f) | None \<Rightarrow> [])"

definition requires :: "unit_state \<Rightarrow> str list" where
  "requires u = unit_deps (\<lambda>c. uc_requires c @ uc_binds_to c) u"

definition wants :: "unit_state \<Rightarrow> str list" where
  "wants u = unit_deps uc_wants u"

definition requisite :: "unit_state \<Rightarrow> str list" where
  "requisite u = unit_deps uc_requisite u"

definition conflicts :: "unit_state \<Rightarrow> str list" where
  "conflicts u = unit_deps uc_conflicts u"

definition after_units :: "unit_state \<Rightarrow> str list" where
  "after_units u = unit_deps uc_after u"

definition on_failure_units :: "unit_state \<Rightarrow> str list" where
  "on_failure_units u = unit_deps uc_on_failure u"

section \<open>Transitive closure\<close>

text \<open>The inner loop over the edges of \<open>n\<close>: the state is (seen, stack, out).\<close>

fun visit_deps :: "str \<Rightarrow> str list \<Rightarrow> str list \<times> str list \<times> str list \<Rightarrow>
    str list \<times> str list \<times> str list" where
  "visit_deps n [] st = st"
| "visit_deps n (d # ds) (seen, stack, out) =
     visit_deps n ds
       (if d = n \<or> List.member seen d then (seen, stack, out)
        else (d # seen, d # stack, out @ [d]))"

definition edge_of :: "unit_table \<Rightarrow> (unit_state \<Rightarrow> str list) \<Rightarrow> str \<Rightarrow> str list" where
  "edge_of units edge n = (case map_of units n of Some u \<Rightarrow> edge u | None \<Rightarrow> [])"

lemma visit_deps_spec:
  assumes "visit_deps n ds (seen, stack, out) = (seen', stack', out')"
  shows "set seen' = set seen \<union> (set ds - {n})"
    and "\<exists>new. stack' = new @ stack \<and> out' = out @ rev new \<and> distinct new \<and>
           set new = set ds - {n} - set seen"
  using assms
proof (induction ds arbitrary: seen stack out)
  case Nil
  {
    case 1
    with Nil show ?case by simp
  next
    case 2
    with Nil show ?case by simp
  }
next
  case (Cons d ds)
  {
    case 1
    then show ?case using Cons.IH(1) by (auto split: if_splits)
  next
    case 2
    show ?case
    proof (cases "d = n \<or> d \<in> set seen")
      case True
      with 2 Cons.IH(2) [of seen stack out] show ?thesis by auto
    next
      case False
      with 2 Cons.IH(2) [of "d # seen" "d # stack" "out @ [d]"] obtain new where
        "stack' = new @ d # stack" "out' = (out @ [d]) @ rev new" "distinct new"
        "set new = set ds - {n} - set (d # seen)" by auto
      with False show ?thesis by (intro exI [of _ "new @ [d]"]) auto
    qed
  }
qed

definition all_targets :: "unit_table \<Rightarrow> (unit_state \<Rightarrow> str list) \<Rightarrow> str set" where
  "all_targets units edge = (\<Union>p \<in> set units. set (edge (snd p)))"

lemma finite_targets: "finite (all_targets units edge)"
  by (simp add: all_targets_def)

lemma edge_targets: "set (edge_of units edge n) \<subseteq> all_targets units edge"
proof (cases "map_of units n")
  case (Some u)
  then have "(n, u) \<in> set units" by (rule map_of_SomeD)
  then show ?thesis by (force simp: edge_of_def all_targets_def Some)
qed (simp add: edge_of_def)

text \<open>The worklist loop. A unit that is not in the table has no edges (\<open>continue\<close>).\<close>

function closure_loop :: "unit_table \<Rightarrow> (unit_state \<Rightarrow> str list) \<Rightarrow>
    str list \<times> str list \<times> str list \<Rightarrow> str list" where
  "closure_loop units edge (seen, [], out) = out"
| "closure_loop units edge (seen, n # stack, out) =
     closure_loop units edge (visit_deps n (edge_of units edge n) (seen, stack, out))"
  by pat_completeness auto

termination closure_loop
proof (relation "inv_image (less_than <*lex*> less_than)
    (\<lambda>(units, edge, (seen, stack, out)). (card (all_targets units edge - set seen), length stack))")
  fix units edge seen n stack out
  obtain seen' stack' out' where
    v: "visit_deps n (edge_of units edge n) (seen, stack, out) = (seen', stack', out')"
    by (metis prod_cases3)
  let ?T = "all_targets units edge"
  have seen': "set seen' = set seen \<union> (set (edge_of units edge n) - {n})"
    by (rule visit_deps_spec(1) [OF v])
  obtain new where new: "stack' = new @ stack" "set new = set (edge_of units edge n) - {n} - set seen"
    using visit_deps_spec(2) [OF v] by blast
  have "card (?T - set seen') < card (?T - set seen) \<or>
      card (?T - set seen') = card (?T - set seen) \<and> length stack' < Suc (length stack)"
  proof (cases "new = []")
    case True
    with new have "set seen' = set seen" by (auto simp: seen')
    with True new show ?thesis by simp
  next
    case False
    then obtain d where "d \<in> set new" by (cases new) auto
    then have "d \<in> ?T - set seen" "d \<in> set seen'"
      using new(2) edge_targets [of units edge n] by (auto simp: seen')
    then have "?T - set seen' \<subset> ?T - set seen" by (auto simp: seen')
    then show ?thesis by (simp add: finite_targets psubset_card_mono)
  qed
  then show "((units, edge, visit_deps n (edge_of units edge n) (seen, stack, out)),
      (units, edge, (seen, n # stack, out)))
    \<in> inv_image (less_than <*lex*> less_than)
      (\<lambda>(units, edge, (seen, stack, out)). (card (all_targets units edge - set seen), length stack))"
    by (simp add: v)
qed (simp add: wf_lex_prod)

definition closure :: "unit_table \<Rightarrow> str \<Rightarrow> (unit_state \<Rightarrow> str list) \<Rightarrow> str list" where
  "closure units start edge = closure_loop units edge ([], [start], [])"

definition start_closure :: "unit_table \<Rightarrow> str \<Rightarrow> str list \<times> str list \<times> str list" where
  "start_closure units name =
     (closure units name requires, closure units name wants, closure units name requisite)"

definition closure_conflicts :: "unit_table \<Rightarrow> str \<Rightarrow> str list" where
  "closure_conflicts units name = closure units name conflicts"

text \<open>The units stopped together with \<open>name\<close>, in the iteration order of the unit table.\<close>

definition stop_propagate :: "unit_table \<Rightarrow> str list \<Rightarrow> str \<Rightarrow> str list" where
  "stop_propagate units order name =
     filter (\<lambda>n. n \<noteq> name \<and> (case map_of units n of Some u \<Rightarrow> List.member (requires u) name
                              | None \<Rightarrow> False)) order"

section \<open>The closure is reachability\<close>

definition dep_edge :: "unit_table \<Rightarrow> (unit_state \<Rightarrow> str list) \<Rightarrow> (str \<times> str) set" where
  "dep_edge units edge = {(n, d). d \<in> set (edge_of units edge n) \<and> d \<noteq> n}"

definition closure_inv :: "unit_table \<Rightarrow> (unit_state \<Rightarrow> str list) \<Rightarrow> str \<Rightarrow>
    str list \<times> str list \<times> str list \<Rightarrow> bool" where
  "closure_inv units edge start st \<longleftrightarrow>
     (case st of (seen, stack, out) \<Rightarrow>
        set seen = set out \<and> distinct out \<and> set stack \<subseteq> insert start (set out) \<and>
        (\<forall>d \<in> set out. (start, d) \<in> (dep_edge units edge)\<^sup>+) \<and>
        (\<forall>n d. n \<in> insert start (set out) - set stack \<longrightarrow> (n, d) \<in> dep_edge units edge \<longrightarrow>
           d \<in> set out))"

lemma closure_inv_visit:
  assumes inv: "closure_inv units edge start (seen, n # stack, out)"
  shows "closure_inv units edge start (visit_deps n (edge_of units edge n) (seen, stack, out))"
proof -
  obtain seen' stack' out' where
    v: "visit_deps n (edge_of units edge n) (seen, stack, out) = (seen', stack', out')"
    by (metis prod_cases3)
  obtain new where new: "stack' = new @ stack" "out' = out @ rev new" "distinct new"
      "set new = set (edge_of units edge n) - {n} - set seen"
    using visit_deps_spec(2) [OF v] by blast
  have seen': "set seen' = set seen \<union> (set (edge_of units edge n) - {n})"
    by (rule visit_deps_spec(1) [OF v])
  have n: "n = start \<or> (start, n) \<in> (dep_edge units edge)\<^sup>+"
  proof -
    have "n \<in> insert start (set out)" "\<forall>d \<in> set out. (start, d) \<in> (dep_edge units edge)\<^sup>+"
      using inv by (simp_all add: closure_inv_def)
    then show ?thesis by blast
  qed
  have reach: "(start, d) \<in> (dep_edge units edge)\<^sup>+" if "d \<in> set new" for d
  proof -
    have "(n, d) \<in> dep_edge units edge" using that new(4) by (auto simp: dep_edge_def)
    with n show ?thesis by (auto intro: trancl.intros)
  qed
  have new_edge: "d \<in> set out'" if "(n, d) \<in> dep_edge units edge" for d
    using that new inv by (auto simp: dep_edge_def closure_inv_def)
  show ?thesis
    unfolding v closure_inv_def prod.case
  proof (intro conjI allI impI ballI)
    show "set seen' = set out'" using inv new seen' by (auto simp: closure_inv_def)
    show "distinct out'" using inv new by (auto simp: closure_inv_def)
    show "set stack' \<subseteq> insert start (set out')" using inv new by (auto simp: closure_inv_def)
    show "(start, d) \<in> (dep_edge units edge)\<^sup>+" if "d \<in> set out'" for d
      using that inv new(2) reach by (auto simp: closure_inv_def)
    show "d \<in> set out'"
      if "m \<in> insert start (set out') - set stack'" "(m, d) \<in> dep_edge units edge" for m d
    proof (cases "m = n")
      case True
      with that new_edge show ?thesis by simp
    next
      case False
      with that(1) new have "m \<in> insert start (set out) - set (n # stack)" by auto
      with inv that(2) have "d \<in> set out" by (auto simp: closure_inv_def)
      then show ?thesis using new(2) by simp
    qed
  qed
qed

lemma closure_loop_inv:
  "closure_inv units edge start st \<Longrightarrow>
   set (closure_loop units edge st) = {d. (start, d) \<in> (dep_edge units edge)\<^sup>+} \<and>
   distinct (closure_loop units edge st)"
proof (induction units edge st rule: closure_loop.induct)
  case (1 units edge seen out)
  have closed: "n \<in> insert start (set out) \<Longrightarrow> (n, d) \<in> dep_edge units edge \<Longrightarrow> d \<in> set out" for n d
    using 1 by (simp add: closure_inv_def) blast
  have "d \<in> set out" if "(start, d) \<in> (dep_edge units edge)\<^sup>+" for d
    using that
  proof (induction rule: trancl_induct)
    case (base y)
    then show ?case by (rule closed [OF insertI1])
  next
    case (step y z)
    then show ?case by (blast intro: closed)
  qed
  moreover have "\<forall>d \<in> set out. (start, d) \<in> (dep_edge units edge)\<^sup>+" "distinct out"
    using 1 by (simp_all add: closure_inv_def)
  ultimately show ?case by (simp only: closure_loop.simps) blast
next
  case (2 units edge seen n stack out)
  then show ?case using closure_inv_visit by simp
qed

lemma closure_reach:
  "set (closure units start edge) = {d. (start, d) \<in> (dep_edge units edge)\<^sup>+}"
  and closure_distinct: "distinct (closure units start edge)"
  using closure_loop_inv [of units edge start "([], [start], [])"]
  by (auto simp: closure_def closure_inv_def)

section \<open>Properties\<close>

text \<open>C7. The worklist of \<open>closure\<close> always ends, and its result lists, each once, exactly the
  units reachable from the start unit by one or more dependency edges (a unit's edge to itself
  does not count).\<close>

theorem closure_is_reachability:
  "distinct (closure units start edge) \<and>
   set (closure units start edge) = {d. (start, d) \<in> (dep_edge units edge)\<^sup>+}"
  by (simp add: closure_reach closure_distinct)

end
