(* ===== verification/Timer_Wheel.thy ===== *)
theory Timer_Wheel
  imports Text "HOL-Library.Product_Lexorder"
begin

text \<open>
  The cancelable timer wheel of \<^verbatim>\<open>rystemd/src/manager/timer.rs\<close>: a binary heap of
  \<open>(deadline, id)\<close> pairs and a hash map from ids to entries. Cancelling removes the map
  entry only, so the heap may hold stale pairs, which \<open>next_deadline\<close> and \<open>pop_due\<close>
  drop when they reach the top. The standard library's min-heap is the ascending list of
  its elements: \<open>push\<close> inserts in order, \<open>peek\<close> and \<open>pop\<close> act on the head.
  An \<open>Instant\<close> is a number of microseconds.

  The locale \<open>deadline_queue\<close> is the interface the manager uses; its laws speak of the
  live entries only, and the wheel is an interpretation of it.
\<close>

section \<open>Model\<close>

datatype timer_kind =
    StartTimeout
  | StopTimeout
  | RestartDelay
  | CalendarElapse nat
  | MonotonicElapse

record timer_entry =
  te_when :: nat
  te_id :: nat
  te_kind :: timer_kind
  te_unit :: str

record timer_wheel =
  heap :: "(nat \<times> nat) list"
  entries :: "(nat \<times> timer_entry) list"
  next_id :: nat

definition wheel_default :: timer_wheel where
  "wheel_default = \<lparr>heap = [], entries = [], next_id = 0\<rparr>"

definition schedule :: "nat \<Rightarrow> timer_kind \<Rightarrow> str \<Rightarrow> timer_wheel \<Rightarrow> timer_wheel \<times> nat" where
  "schedule t k u w =
     (let i = next_id w + 1;
          e = \<lparr>te_when = t, te_id = i, te_kind = k, te_unit = u\<rparr>
      in (w\<lparr>next_id := i, heap := insort (t, i) (heap w), entries := hins i e (entries w)\<rparr>, i))"

definition cancel :: "nat \<Rightarrow> timer_wheel \<Rightarrow> timer_wheel" where
  "cancel i w = w\<lparr>entries := hdel i (entries w)\<rparr>"

definition cancel_by_unit :: "str \<Rightarrow> timer_wheel \<Rightarrow> timer_wheel" where
  "cancel_by_unit u w = w\<lparr>entries := filter (\<lambda>p. te_unit (snd p) \<noteq> u) (entries w)\<rparr>"

definition cancel_by_kind :: "str \<Rightarrow> timer_kind \<Rightarrow> timer_wheel \<Rightarrow> timer_wheel" where
  "cancel_by_kind u k w =
     w\<lparr>entries := filter (\<lambda>p. \<not> (te_unit (snd p) = u \<and> te_kind (snd p) = k)) (entries w)\<rparr>"

fun prune :: "(nat \<times> timer_entry) list \<Rightarrow> (nat \<times> nat) list \<Rightarrow> nat option \<times> (nat \<times> nat) list" where
  "prune es [] = (None, [])"
| "prune es ((t, i) # h) =
     (case map_of es i of
        Some e \<Rightarrow> (Some (te_when e), (t, i) # h)
      | None \<Rightarrow> prune es h)"

definition next_deadline :: "timer_wheel \<Rightarrow> nat option \<times> timer_wheel" where
  "next_deadline w = (case prune (entries w) (heap w) of (d, h) \<Rightarrow> (d, w\<lparr>heap := h\<rparr>))"

fun pop_loop :: "nat \<Rightarrow> (nat \<times> nat) list \<Rightarrow> (nat \<times> timer_entry) list \<Rightarrow>
    timer_entry list \<times> (nat \<times> nat) list \<times> (nat \<times> timer_entry) list" where
  "pop_loop now [] es = ([], [], es)"
| "pop_loop now ((t, i) # h) es =
     (if t > now then ([], (t, i) # h, es)
      else (case map_of es i of
              Some e \<Rightarrow> (case pop_loop now h (hdel i es) of (out, h', es') \<Rightarrow> (e # out, h', es'))
            | None \<Rightarrow> pop_loop now h es))"

definition pop_due :: "nat \<Rightarrow> timer_wheel \<Rightarrow> timer_entry list \<times> timer_wheel" where
  "pop_due now w =
     (case pop_loop now (heap w) (entries w) of
        (out, h, es) \<Rightarrow> (out, w\<lparr>heap := h, entries := es\<rparr>))"

definition is_service_timer :: "timer_kind \<Rightarrow> bool" where
  "is_service_timer k = (case k of CalendarElapse _ \<Rightarrow> True | MonotonicElapse \<Rightarrow> True | _ \<Rightarrow> False)"

definition has_service_timers :: "timer_wheel \<Rightarrow> bool" where
  "has_service_timers w \<longleftrightarrow> list_ex (\<lambda>p. is_service_timer (te_kind (snd p))) (entries w)"

section \<open>Invariant and live entries\<close>

definition live :: "timer_wheel \<Rightarrow> timer_entry set" where
  "live w = snd ` set (entries w)"

text \<open>Every live entry sits in the heap under its own id and deadline, the heap is in order,
  and ids are never reused.\<close>

definition loop_inv :: "(nat \<times> nat) list \<Rightarrow> (nat \<times> timer_entry) list \<Rightarrow> bool" where
  "loop_inv h es \<longleftrightarrow> sorted h \<and> distinct (map snd h) \<and> distinct (hkeys es) \<and>
     (\<forall>(i, e) \<in> set es. te_id e = i \<and> (te_when e, i) \<in> set h)"

definition wheel_inv :: "timer_wheel \<Rightarrow> bool" where
  "wheel_inv w \<longleftrightarrow> loop_inv (heap w) (entries w) \<and> (\<forall>(t, i) \<in> set (heap w). i \<le> next_id w)"

lemma loop_inv_mono:
  "loop_inv h es \<Longrightarrow> set es' \<subseteq> set es \<Longrightarrow> distinct (hkeys es') \<Longrightarrow> loop_inv h es'"
  by (auto simp: loop_inv_def)

lemma loop_inv_entry:
  "loop_inv h es \<Longrightarrow> map_of es i = Some e \<Longrightarrow> te_id e = i \<and> (te_when e, i) \<in> set h"
  by (auto simp: loop_inv_def dest: map_of_SomeD)

lemma loop_inv_head:
  assumes "loop_inv ((t, i) # h) es" "map_of es i = Some e"
  shows "te_when e = t"
proof -
  from loop_inv_entry [OF assms] have "(te_when e, i) \<in> set ((t, i) # h)" by simp
  moreover from assms(1) have "i \<notin> snd ` set h" by (simp add: loop_inv_def)
  ultimately show ?thesis by force
qed

lemma set_hdel: "set (hdel i es) = {p \<in> set es. fst p \<noteq> i}"
  by (auto simp: AList.delete_eq)

lemma loop_inv_tail_del:
  "loop_inv ((t, i) # h) es \<Longrightarrow> loop_inv h (hdel i es)"
  by (auto simp: loop_inv_def set_hdel distinct_hdel)

lemma loop_inv_tail_stale:
  assumes "loop_inv ((t, i) # h) es" "map_of es i = None"
  shows "loop_inv h es"
proof -
  have "te_id e = j \<and> (te_when e, j) \<in> set h" if "(j, e) \<in> set es" for j e
  proof -
    from that assms(2) have "j \<noteq> i" by (force simp: hget_None_iff)
    with that assms(1) show ?thesis by (auto simp: loop_inv_def)
  qed
  with assms(1) show ?thesis by (auto simp: loop_inv_def)
qed

lemma live_hdel:
  "distinct (hkeys es) \<Longrightarrow> map_of es i = Some e \<Longrightarrow> set es = insert (i, e) (set (hdel i es))"
  by (auto simp: set_hdel dest: map_of_SomeD) (metis eq_key_imp_eq_value map_of_SomeD)

section \<open>Popping due entries\<close>

definition due_key :: "timer_entry \<Rightarrow> nat \<times> nat" where
  "due_key e = (te_when e, te_id e)"

lemma pop_loop_spec:
  assumes "loop_inv h es" "pop_loop now h es = (out, h', es')"
  shows "set out = {e \<in> snd ` set es. te_when e \<le> now} \<and>
         set es' = {p \<in> set es. now < te_when (snd p)} \<and>
         loop_inv h' es' \<and> sorted (map due_key out) \<and> distinct (map te_id out) \<and>
         set h' \<subseteq> set h \<and> set (map due_key out) \<subseteq> set h"
  using assms
proof (induction now h es arbitrary: out h' es' rule: pop_loop.induct)
  case (1 now es)
  then have "es = []" by (cases es) (auto simp: loop_inv_def)
  with 1 show ?case by auto
next
  case (2 now t i h es)
  have srt: "\<forall>p \<in> set h. (t, i) \<le> p" using "2.prems"(1) by (simp add: loop_inv_def)
  show ?case
  proof (cases "now < t")
    case True
    have "now < te_when e" if "(j, e) \<in> set es" for j e
    proof -
      from "2.prems"(1) that have "(te_when e, j) \<in> set ((t, i) # h)"
        by (auto simp: loop_inv_def)
      with srt True show ?thesis by (auto simp: less_eq_prod_def)
    qed
    with True "2.prems" show ?thesis by force
  next
    case False
    show ?thesis
    proof (cases "map_of es i")
      case None
      with False "2.prems"(2) have rec: "pop_loop now h es = (out, h', es')" by simp
      show ?thesis
        using "2.IH"(1) [OF False None loop_inv_tail_stale [OF "2.prems"(1) None] rec]
          set_subset_Cons [of h "(t, i)"]
        by (meson subset_trans)
    next
      case (Some e)
      obtain out1 where rec: "pop_loop now h (hdel i es) = (out1, h', es')" and out: "out = e # out1"
        using False Some "2.prems"(2) by (auto split: prod.splits)
      note IH = "2.IH"(2) [OF False Some loop_inv_tail_del [OF "2.prems"(1)] rec]
      have e: "te_when e = t" "te_id e = i"
        using loop_inv_head [OF "2.prems"(1) Some] loop_inv_entry [OF "2.prems"(1) Some] by auto
      have dst: "distinct (hkeys es)" using "2.prems"(1) by (simp add: loop_inv_def)
      have split: "set es = insert (i, e) (set (hdel i es))" by (rule live_hdel [OF dst Some])
      have key: "due_key e = (t, i)" by (simp add: due_key_def e)
      have "\<forall>p \<in> set (map due_key out1). due_key e \<le> p" using IH srt unfolding key by blast
      moreover have "i \<notin> te_id ` set out1"
        using IH "2.prems"(1) by (force simp: set_hdel loop_inv_def)
      moreover have "set out = {e \<in> snd ` set es. te_when e \<le> now}"
      proof -
        have "set out = insert e {e \<in> snd ` set (hdel i es). te_when e \<le> now}"
          using IH out by simp
        also have "\<dots> = {e \<in> snd ` set es. te_when e \<le> now}"
          unfolding split using e False by auto
        finally show ?thesis .
      qed
      moreover have "set es' = {p \<in> set es. now < te_when (snd p)}"
      proof -
        have "set es' = {p \<in> set (hdel i es). now < te_when (snd p)}" using IH by simp
        also have "\<dots> = {p \<in> set es. now < te_when (snd p)}"
          unfolding split using e False by auto
        finally show ?thesis .
      qed
      moreover have "set h' \<subseteq> set h" "loop_inv h' es'"
        "sorted (map due_key out1)" "distinct (map te_id out1)"
        "set (map due_key out1) \<subseteq> set h"
        using IH by - (blast, blast, blast, blast, blast dest: subsetD)
      ultimately show ?thesis using out key e by (simp add: subset_insertI2)
    qed
  qed
qed

lemma prune_spec:
  assumes "loop_inv h es" "prune es h = (d, h')"
  shows "loop_inv h' es \<and> set h' \<subseteq> set h \<and>
    (case d of None \<Rightarrow> es = []
     | Some t \<Rightarrow> (\<exists>e \<in> snd ` set es. te_when e = t) \<and> (\<forall>e \<in> snd ` set es. t \<le> te_when e))"
  using assms
proof (induction es h arbitrary: d h' rule: prune.induct)
  case (1 es)
  then have "es = []" by (cases es) (auto simp: loop_inv_def)
  with 1 show ?case by auto
next
  case (2 es t i h)
  show ?case
  proof (cases "map_of es i")
    case None
    with "2.IH" [OF None loop_inv_tail_stale [OF "2.prems"(1) None]] "2.prems"(2) show ?thesis
      by auto
  next
    case (Some e)
    have "t \<le> te_when e'" if "(j, e') \<in> set es" for j e'
    proof -
      from "2.prems"(1) that have "(te_when e', j) \<in> set ((t, i) # h)"
        by (auto simp: loop_inv_def)
      moreover have "\<forall>p \<in> set h. (t, i) \<le> p" using "2.prems"(1) by (simp add: loop_inv_def)
      ultimately show ?thesis by (auto simp: less_eq_prod_def)
    qed
    moreover have "te_when e = t" by (rule loop_inv_head [OF "2.prems"(1) Some])
    ultimately show ?thesis using "2.prems" Some by (force dest: map_of_SomeD)
  qed
qed

section \<open>Every operation keeps the invariant\<close>

lemma wheel_inv_default: "wheel_inv wheel_default"
  by (simp add: wheel_inv_def wheel_default_def loop_inv_def)

lemma wheel_fresh: "wheel_inv w \<Longrightarrow> (next_id w + 1) \<notin> set (hkeys (entries w))"
  by (fastforce simp: wheel_inv_def loop_inv_def)

lemma set_hins_fresh: "i \<notin> set (hkeys es) \<Longrightarrow> set (hins i e es) = insert (i, e) (set es)"
  by (induction es) auto

lemma distinct_snd_insort:
  "distinct (map snd (insort x h)) \<longleftrightarrow> snd x \<notin> snd ` set h \<and> distinct (map snd h)"
  by (induction h) (auto simp: set_insort_key)

lemma schedule_inv: "wheel_inv w \<Longrightarrow> wheel_inv (fst (schedule t k u w))"
proof -
  assume w: "wheel_inv w"
  let ?i = "next_id w + 1"
  have "?i \<notin> snd ` set (heap w)" using w by (fastforce simp: wheel_inv_def)
  then have "distinct (map snd (insort (t, ?i) (heap w)))"
    using w by (simp add: wheel_inv_def loop_inv_def distinct_snd_insort)
  then show ?thesis
    using w wheel_fresh [OF w]
    by (auto simp: wheel_inv_def loop_inv_def schedule_def Let_def set_hins_fresh
        set_insort_key sorted_insort distinct_hins)
qed

lemma filter_inv: "wheel_inv w \<Longrightarrow> wheel_inv (w\<lparr>entries := filter P (entries w)\<rparr>)"
  by (auto simp: wheel_inv_def intro: loop_inv_mono distinct_hfilter)
     (metis (no_types, lifting) distinct_hfilter filter_is_subset loop_inv_def loop_inv_mono)

lemma hdel_filter: "hdel i es = filter (\<lambda>p. fst p \<noteq> i) es"
  by (auto simp: AList.delete_eq case_prod_beta intro: filter_cong)

lemma cancel_inv: "wheel_inv w \<Longrightarrow> wheel_inv (cancel i w)"
  unfolding cancel_def hdel_filter by (rule filter_inv)

lemma cancel_by_unit_inv: "wheel_inv w \<Longrightarrow> wheel_inv (cancel_by_unit u w)"
  unfolding cancel_by_unit_def by (rule filter_inv)

lemma cancel_by_kind_inv: "wheel_inv w \<Longrightarrow> wheel_inv (cancel_by_kind u k w)"
  unfolding cancel_by_kind_def by (rule filter_inv)

lemma pop_due_inv: "wheel_inv w \<Longrightarrow> wheel_inv (snd (pop_due now w))"
  using pop_loop_spec [of "heap w" "entries w" now]
  by (force simp: wheel_inv_def pop_due_def split: prod.splits)

lemma next_deadline_inv: "wheel_inv w \<Longrightarrow> wheel_inv (snd (next_deadline w))"
  using prune_spec [of "heap w" "entries w"]
  by (force simp: wheel_inv_def next_deadline_def split: prod.splits)

section \<open>The interface the manager relies on\<close>

text \<open>
  \<open>sched\<close>, \<open>drop_kind\<close>, \<open>drop_unit\<close> and \<open>due\<close> are the operations, \<open>pending\<close>
  the set of live entries. The laws speak of \<open>pending\<close> only: stale heap pairs are not
  observable.
\<close>

locale deadline_queue =
  fixes inv :: "'q \<Rightarrow> bool"
    and pending :: "'q \<Rightarrow> timer_entry set"
    and fresh :: "'q \<Rightarrow> nat"
    and sched :: "nat \<Rightarrow> timer_kind \<Rightarrow> str \<Rightarrow> 'q \<Rightarrow> 'q"
    and drop_kind :: "str \<Rightarrow> timer_kind \<Rightarrow> 'q \<Rightarrow> 'q"
    and drop_unit :: "str \<Rightarrow> 'q \<Rightarrow> 'q"
    and due :: "nat \<Rightarrow> 'q \<Rightarrow> timer_entry list \<times> 'q"
  assumes inv_sched: "inv q \<Longrightarrow> inv (sched t k u q)"
    and inv_drop_kind: "inv q \<Longrightarrow> inv (drop_kind u k q)"
    and inv_drop_unit: "inv q \<Longrightarrow> inv (drop_unit u q)"
    and inv_due: "inv q \<Longrightarrow> inv (snd (due now q))"
    and pending_sched: "inv q \<Longrightarrow> pending (sched t k u q) =
          insert \<lparr>te_when = t, te_id = fresh q, te_kind = k, te_unit = u\<rparr> (pending q)"
    and pending_drop_kind: "inv q \<Longrightarrow> pending (drop_kind u k q) =
          {e \<in> pending q. \<not> (te_unit e = u \<and> te_kind e = k)}"
    and pending_drop_unit: "inv q \<Longrightarrow> pending (drop_unit u q) = {e \<in> pending q. te_unit e \<noteq> u}"
    and due_out: "inv q \<Longrightarrow> set (fst (due now q)) = {e \<in> pending q. te_when e \<le> now}"
    and due_rest: "inv q \<Longrightarrow> pending (snd (due now q)) = {e \<in> pending q. now < te_when e}"
    and due_order: "inv q \<Longrightarrow> sorted (map due_key (fst (due now q)))"
begin

text \<open>Re-arming: dropping a (unit, kind) pair and scheduling it again leaves exactly one
  deadline of that pair, and every other deadline untouched.\<close>

lemma rearm_kind:
  assumes "inv q"
  shows "{e \<in> pending (sched t k u (drop_kind u k q)). te_unit e = u \<and> te_kind e = k} =
      {\<lparr>te_when = t, te_id = fresh (drop_kind u k q), te_kind = k, te_unit = u\<rparr>}"
    and "{e \<in> pending (sched t k u (drop_kind u k q)). \<not> (te_unit e = u \<and> te_kind e = k)} =
      {e \<in> pending q. \<not> (te_unit e = u \<and> te_kind e = k)}"
  using assms by (auto simp: pending_sched pending_drop_kind inv_drop_kind)

text \<open>No deadline is lost or fired twice: popping partitions the pending entries.\<close>

lemma due_partition:
  assumes "inv q"
  shows "pending q = set (fst (due now q)) \<union> pending (snd (due now q))"
    and "set (fst (due now q)) \<inter> pending (snd (due now q)) = {}"
  using assms by (auto simp: due_out due_rest)

text \<open>Popping in two steps pops what one step pops.\<close>

lemma due_twice:
  assumes "inv q" "t1 \<le> t2"
  shows "set (fst (due t1 q)) \<union> set (fst (due t2 (snd (due t1 q)))) = set (fst (due t2 q))"
    and "pending (snd (due t2 (snd (due t1 q)))) = pending (snd (due t2 q))"
  using assms by (auto simp: due_out due_rest inv_due)

end

lemma live_schedule:
  "wheel_inv w \<Longrightarrow> live (fst (schedule t k u w)) =
     insert \<lparr>te_when = t, te_id = next_id w + 1, te_kind = k, te_unit = u\<rparr> (live w)"
  using wheel_fresh [of w] by (simp add: live_def schedule_def Let_def set_hins_fresh)

lemma live_pop_due:
  assumes "wheel_inv w"
  shows "set (fst (pop_due now w)) = {e \<in> live w. te_when e \<le> now}"
    and "live (snd (pop_due now w)) = {e \<in> live w. now < te_when e}"
    and "sorted (map due_key (fst (pop_due now w)))"
proof -
  obtain out h es where p: "pop_loop now (heap w) (entries w) = (out, h, es)"
    by (cases "pop_loop now (heap w) (entries w)") auto
  have "loop_inv (heap w) (entries w)" using assms by (simp add: wheel_inv_def)
  note spec = pop_loop_spec [OF this p]
  have fst: "fst (pop_due now w) = out" and snd: "live (snd (pop_due now w)) = snd ` set es"
    using p by (simp_all add: pop_due_def live_def)
  show "set (fst (pop_due now w)) = {e \<in> live w. te_when e \<le> now}"
    using spec fst by (simp add: live_def)
  show "live (snd (pop_due now w)) = {e \<in> live w. now < te_when e}"
  proof -
    have "set es = {p \<in> set (entries w). now < te_when (snd p)}" using spec by blast
    then show ?thesis unfolding snd by (force simp: live_def)
  qed
  show "sorted (map due_key (fst (pop_due now w)))"
    using spec fst by simp
qed

interpretation wheel: deadline_queue wheel_inv live "\<lambda>w. next_id w + 1"
    "\<lambda>t k u w. fst (schedule t k u w)" cancel_by_kind cancel_by_unit pop_due
  by unfold_locales
     (auto simp: schedule_inv cancel_by_kind_inv cancel_by_unit_inv pop_due_inv live_schedule
        live_pop_due, auto simp: live_def cancel_by_kind_def cancel_by_unit_def)

section \<open>The wheel as a set of deadlines\<close>

text \<open>The operations a user of the wheel can make, in any order; and what each does to the set of
  pending deadlines and the last number handed out.\<close>

datatype wheel_op =
    WSchedule nat timer_kind str
  | WCancel nat
  | WCancelUnit str
  | WCancelKind str timer_kind
  | WNextDeadline
  | WPop nat

fun wheel_step :: "wheel_op \<Rightarrow> timer_wheel \<Rightarrow> timer_wheel" where
  "wheel_step (WSchedule t k u) w = fst (schedule t k u w)"
| "wheel_step (WCancel i) w = cancel i w"
| "wheel_step (WCancelUnit u) w = cancel_by_unit u w"
| "wheel_step (WCancelKind u k) w = cancel_by_kind u k w"
| "wheel_step WNextDeadline w = snd (next_deadline w)"
| "wheel_step (WPop now) w = snd (pop_due now w)"

fun deadline_step :: "wheel_op \<Rightarrow> timer_entry set \<times> nat \<Rightarrow> timer_entry set \<times> nat" where
  "deadline_step (WSchedule t k u) (S, n) =
     (insert \<lparr>te_when = t, te_id = n + 1, te_kind = k, te_unit = u\<rparr> S, n + 1)"
| "deadline_step (WCancel i) (S, n) = ({e \<in> S. te_id e \<noteq> i}, n)"
| "deadline_step (WCancelUnit u) (S, n) = ({e \<in> S. te_unit e \<noteq> u}, n)"
| "deadline_step (WCancelKind u k) (S, n) = ({e \<in> S. \<not> (te_unit e = u \<and> te_kind e = k)}, n)"
| "deadline_step WNextDeadline (S, n) = (S, n)"
| "deadline_step (WPop now) (S, n) = ({e \<in> S. now < te_when e}, n)"

definition wheel_after :: "wheel_op list \<Rightarrow> timer_wheel" where
  "wheel_after ops = fold wheel_step ops wheel_default"

lemma wheel_step_inv: "wheel_inv w \<Longrightarrow> wheel_inv (wheel_step a w)"
  by (cases a) (simp_all add: schedule_inv cancel_inv cancel_by_unit_inv cancel_by_kind_inv
      pop_due_inv next_deadline_inv)

lemma live_cancel: "wheel_inv w \<Longrightarrow> live (cancel i w) = {e \<in> live w. te_id e \<noteq> i}"
  by (force simp: live_def cancel_def set_hdel wheel_inv_def loop_inv_def)

lemma wheel_step_abs:
  assumes w: "wheel_inv w"
  shows "(live (wheel_step a w), next_id (wheel_step a w)) = deadline_step a (live w, next_id w)"
proof (cases a)
  case (WSchedule t k u)
  then show ?thesis using live_schedule [OF w] by (simp add: schedule_def Let_def)
next
  case (WCancel i)
  then show ?thesis using live_cancel [OF w] by (simp add: cancel_def)
next
  case (WCancelUnit u)
  then show ?thesis using wheel.pending_drop_unit [OF w] by (simp add: cancel_by_unit_def)
next
  case (WCancelKind u k)
  then show ?thesis using wheel.pending_drop_kind [OF w] by (simp add: cancel_by_kind_def)
next
  case WNextDeadline
  then show ?thesis by (simp add: next_deadline_def live_def split: prod.split)
next
  case (WPop now)
  then show ?thesis
    using wheel.due_rest [OF w, of now] by (simp add: pop_due_def split: prod.splits)
qed

lemma wheel_fold_abs:
  assumes "wheel_inv w"
  shows "wheel_inv (fold wheel_step ops w) \<and>
    (live (fold wheel_step ops w), next_id (fold wheel_step ops w)) =
      fold deadline_step ops (live w, next_id w)"
  using assms
proof (induction ops arbitrary: w)
  case (Cons a ops)
  from Cons.IH [OF wheel_step_inv [OF Cons.prems, of a]] wheel_step_abs [OF Cons.prems, of a]
  show ?case by simp
qed simp

lemma wheel_after_inv: "wheel_inv (wheel_after ops)"
  using wheel_fold_abs [OF wheel_inv_default, of ops] by (simp add: wheel_after_def)

section \<open>Properties\<close>

text \<open>C6. The wheel, with its heap of lazily cancelled entries, implements a plain set of
  deadlines: after any sequence of operations its live entries and its last number are what the
  same operations make of the empty set, and its invariant (the heap in order, every live entry
  in it, numbers never reused) holds.\<close>

theorem wheel_refines_deadlines:
  "wheel_inv (wheel_after ops) \<and>
   (live (wheel_after ops), next_id (wheel_after ops)) = fold deadline_step ops ({}, 0)"
  using wheel_fold_abs [OF wheel_inv_default, of ops]
  by (simp add: wheel_after_def wheel_default_def live_def)

text \<open>Whatever was done to the wheel before, \<open>pop_due\<close> hands out exactly the live entries that
  are due, each once, earliest first and in the order of their numbers among equal deadlines, and
  keeps the rest; \<open>next_deadline\<close> is the earliest live deadline, absent exactly when none is live.\<close>

theorem wheel_pops_what_is_due:
  "set (fst (pop_due now (wheel_after ops))) = {e \<in> live (wheel_after ops). te_when e \<le> now} \<and>
   live (snd (pop_due now (wheel_after ops))) = {e \<in> live (wheel_after ops). now < te_when e} \<and>
   sorted (map due_key (fst (pop_due now (wheel_after ops)))) \<and>
   distinct (map te_id (fst (pop_due now (wheel_after ops)))) \<and>
   (case fst (next_deadline (wheel_after ops)) of
      None \<Rightarrow> live (wheel_after ops) = {}
    | Some t \<Rightarrow> live (wheel_after ops) \<noteq> {} \<and> t = Min (te_when ` live (wheel_after ops)))"
proof -
  let ?w = "wheel_after ops"
  have w: "wheel_inv ?w" by (rule wheel_after_inv)
  then have loop: "loop_inv (heap ?w) (entries ?w)" by (simp add: wheel_inv_def)
  obtain out h es where p: "pop_loop now (heap ?w) (entries ?w) = (out, h, es)"
    by (cases "pop_loop now (heap ?w) (entries ?w)") auto
  have dist: "distinct (map te_id (fst (pop_due now ?w)))"
    using pop_loop_spec [OF loop p] p by (simp add: pop_due_def)
  obtain d h' where q: "prune (entries ?w) (heap ?w) = (d, h')" by fastforce
  have fin: "finite (te_when ` live ?w)" by (simp add: live_def)
  have "case d of None \<Rightarrow> live ?w = {} | Some t \<Rightarrow> live ?w \<noteq> {} \<and> t = Min (te_when ` live ?w)"
  proof (cases d)
    case None
    then show ?thesis using prune_spec [OF loop q] by (simp add: live_def)
  next
    case (Some t)
    then have "t \<in> te_when ` live ?w" "\<forall>x \<in> te_when ` live ?w. t \<le> x"
      using prune_spec [OF loop q] by (auto simp: live_def)
    then have "live ?w \<noteq> {} \<and> Min (te_when ` live ?w) = t" using Min_eqI [OF fin] by blast
    then show ?thesis using Some by simp
  qed
  then have "case fst (next_deadline ?w) of None \<Rightarrow> live ?w = {}
    | Some t \<Rightarrow> live ?w \<noteq> {} \<and> t = Min (te_when ` live ?w)"
    by (simp add: next_deadline_def q)
  with dist live_pop_due [OF w, of now] show ?thesis by blast
qed

end
