(* ===== verification/Udev.thy ===== *)
theory Udev
  imports Unit_Types
begin

text \<open>
  Kernel devices, \<^verbatim>\<open>rystemd/src/platform/udev.rs\<close>: the names of the \<open>.device\<close> units of a device
  and the parser of a netlink uevent message. Opening the socket and walking sysfs are system
  calls and not modelled; \<open>device_of_sysfs\<close> is what the walk makes of one directory, given the
  text of its \<open>uevent\<close> file and the target of its \<open>subsystem\<close> link.
\<close>

record device =
  dv_devpath :: str
  dv_subsystem :: str
  dv_devname :: str
  dv_devtype :: str

definition sysname :: "device \<Rightarrow> str" where
  "sysname d = last (split_char (CHR ''/'') (dv_devpath d))"

definition sysfs_unit_name :: "device \<Rightarrow> str" where
  "sysfs_unit_name d =
     ''sys-'' @ map (\<lambda>c. if c = CHR ''/'' then CHR ''-'' else c) (dv_devpath d) @ ''.device''"

definition subsystem_unit_name :: "device \<Rightarrow> str" where
  "subsystem_unit_name d =
     ''sys-'' @ dv_subsystem d @ ''-'' @
       (if dv_devname d = [] then sysname d else dv_devname d) @ ''.device''"

definition device_unit_names :: "device \<Rightarrow> str list" where
  "device_unit_names d = [sysfs_unit_name d, subsystem_unit_name d]"

datatype uevent_action = UAdd | URemove | UChange | UMove | UOther

definition uevent_action_of :: "str \<Rightarrow> uevent_action" where
  "uevent_action_of a =
     (if a = ''add'' then UAdd else if a = ''remove'' then URemove
      else if a = ''change'' then UChange else if a = ''move'' then UMove else UOther)"

fun parse_pairs :: "str list \<Rightarrow> (str \<times> str) list \<Rightarrow> (str \<times> str) list" where
  "parse_pairs [] kv = kv"
| "parse_pairs (p # ps) kv =
     parse_pairs ps (case split_once ''='' p of Some (k, v) \<Rightarrow> hins k v kv | None \<Rightarrow> kv)"

definition or_empty :: "str option \<Rightarrow> str" where
  "or_empty x = (case x of Some s \<Rightarrow> s | None \<Rightarrow> [])"

definition parse_uevent :: "str \<Rightarrow> (uevent_action \<times> device) option" where
  "parse_uevent payload =
     (let parts = split_char (CHR 0x00) payload in
      case split_once ''@'' (hd parts) of
        None \<Rightarrow> None
      | Some (action, devpath) \<Rightarrow>
          (let kv = parse_pairs (tl parts) [];
               subsystem = or_empty (map_of kv ''SUBSYSTEM'')
           in if subsystem = [] then None
              else Some (uevent_action_of action,
                \<lparr>dv_devpath = dropWhile (\<lambda>c. c = CHR ''/'') devpath, dv_subsystem = subsystem,
                 dv_devname = or_empty (map_of kv ''DEVNAME''),
                 dv_devtype = or_empty (map_of kv ''DEVTYPE'')\<rparr>)))"

definition device_of_sysfs :: "str \<Rightarrow> str \<Rightarrow> str option \<Rightarrow> device option" where
  "device_of_sysfs dir uevent subsystem_link =
     (let kv = parse_pairs (text_lines uevent) [] in
      case (case subsystem_link of Some s \<Rightarrow> Some s | None \<Rightarrow> map_of kv ''SUBSYSTEM'') of
        None \<Rightarrow> None
      | Some subsystem \<Rightarrow>
          Some \<lparr>dv_devpath = (case strip_prefix ''/sys/'' dir of Some p \<Rightarrow> p | None \<Rightarrow> dir),
            dv_subsystem = subsystem, dv_devname = or_empty (map_of kv ''DEVNAME''),
            dv_devtype = or_empty (map_of kv ''DEVTYPE'')\<rparr>)"

section \<open>Round trip\<close>

text \<open>The message the kernel sends for a device event.\<close>

definition uevent_action_name :: "uevent_action \<Rightarrow> str" where
  "uevent_action_name a = (case a of UAdd \<Rightarrow> ''add'' | URemove \<Rightarrow> ''remove'' | UChange \<Rightarrow> ''change''
     | UMove \<Rightarrow> ''move'' | UOther \<Rightarrow> ''bind'')"

definition render_uevent :: "uevent_action \<Rightarrow> device \<Rightarrow> str" where
  "render_uevent a d =
     str_join [CHR 0x00]
       [uevent_action_name a @ ''@/'' @ dv_devpath d, ''SUBSYSTEM='' @ dv_subsystem d,
        ''DEVNAME='' @ dv_devname d, ''DEVTYPE='' @ dv_devtype d]"

definition device_ok :: "device \<Rightarrow> bool" where
  "device_ok d \<longleftrightarrow> dv_subsystem d \<noteq> [] \<and> (dv_devpath d = [] \<or> hd (dv_devpath d) \<noteq> CHR ''/'') \<and>
     list_all (\<lambda>s. \<not> List.member s (CHR 0x00))
       [dv_devpath d, dv_subsystem d, dv_devname d, dv_devtype d]"

lemma uevent_action_name_of: "uevent_action_of (uevent_action_name a) = a"
  by (cases a) (simp_all add: uevent_action_of_def uevent_action_name_def)

lemma uevent_roundtrip:
  assumes "device_ok d"
  shows "parse_uevent (render_uevent a d) = Some (a, d)"
proof -
  let ?h = "uevent_action_name a @ ''@/'' @ dv_devpath d"
  let ?ps = "[''SUBSYSTEM='' @ dv_subsystem d, ''DEVNAME='' @ dv_devname d, ''DEVTYPE='' @ dv_devtype d]"
  have a: "CHR 0x00 \<notin> set (uevent_action_name a)" "CHR ''@'' \<notin> set (uevent_action_name a)"
    by (cases a; simp add: uevent_action_name_def)+
  have parts: "split_char (CHR 0x00) (render_uevent a d) = ?h # ?ps"
    unfolding render_uevent_def using assms a
    by (intro split_join_char) (auto simp: device_ok_def)
  have hd: "split_once ''@'' ?h = Some (uevent_action_name a, CHR ''/'' # dv_devpath d)"
    using split_once_char [OF a(2), of "CHR ''/'' # dv_devpath d"] by simp
  have kv: "parse_pairs ?ps [] =
      [(''SUBSYSTEM'', dv_subsystem d), (''DEVNAME'', dv_devname d), (''DEVTYPE'', dv_devtype d)]"
    by (simp add: starts_with_def)
  have path: "dropWhile (\<lambda>c. c = CHR ''/'') (dv_devpath d) = dv_devpath d"
    using assms by (cases "dv_devpath d") (auto simp: device_ok_def)
  show ?thesis
    unfolding parse_uevent_def parts Let_def list.sel hd kv
    using assms path by (simp add: or_empty_def device_ok_def uevent_action_name_of)
qed

section \<open>Properties\<close>

text \<open>A kernel uevent message parses back to its action and device: header and key-value
  pairs separated by zero bytes, in any of the actions the manager acts on.\<close>

theorem uevent_message_roundtrip:
  assumes "device_ok d"
  shows "parse_uevent (render_uevent a d) = Some (a, d)"
  by (rule uevent_roundtrip [OF assms])

theorem uevent_message_roundtrip_witness:
  "parse_uevent (render_uevent URemove \<lparr>dv_devpath = ''devices/virtual/net/lo'', dv_subsystem = ''net'',
     dv_devname = [], dv_devtype = []\<rparr>) = Some (URemove, \<lparr>dv_devpath = ''devices/virtual/net/lo'',
     dv_subsystem = ''net'', dv_devname = [], dv_devtype = []\<rparr>)"
  by (rule uevent_message_roundtrip) (simp add: device_ok_def)

end
