(* ===== verification/Engine_State.thy ===== *)
theory Engine_State
  imports Deps Timer_Wheel Udev
begin

text \<open>
  The state of the manager (\<open>struct Manager\<close> of \<^verbatim>\<open>rystemd/src/manager/mod.rs\<close>), the outside
  world it talks to, and the accessors every operation is written with.

  \<^item> The world is the record \<open>os\<close>: one function per system interface the manager calls (clocks,
    file system, process spawning, cgroups, mounts, sockets, user database, the iteration order
    of a \<open>HashMap\<close>). Each takes the number of world calls made so far (\<open>m_tick\<close>), so two calls
    may answer differently. What the program does to the world is appended to \<open>m_trace\<close>.
  \<^item> A panic (\<open>self.units[name]\<close> or \<open>unwrap\<close> on an absent key; the release profile aborts) is a
    \<open>fault\<close>. \<open>OutOfFuel\<close> is the model's own: the operations call each other recursively, the
    recursion is cut at the constructors of \<open>call\<close> and unrolled by a counter.
  \<^item> The manager's own log (\<open>mgr_log\<close>) and the control-client buffers are not modelled.
\<close>

section \<open>Records\<close>

record paths =
  pa_user :: bool
  pa_unit_path :: "str list"
  pa_config_dir :: str
  pa_runtime_dir :: str

record manager_cfg =
  cfg_user :: bool
  cfg_paths :: paths
  cfg_hostname :: str
  cfg_machine_id :: str
  cfg_uid :: nat
  cfg_username :: str
  cfg_home :: str
  cfg_base_env :: "(str \<times> str) list"
  cfg_journal_dir :: str
  cfg_socket_activation :: bool

datatype job_kind = JStart | JStop | JRestart

datatype job_mode = Replace | ReplaceIrreversibly

record wait_entry =
  we_unit :: str
  we_required :: bool

text \<open>Messages attached to failed jobs.\<close>

datatype job_msg =
    MsgNotFound str
  | MsgRequisite str
  | MsgDepMissing str
  | MsgDepFailed str
  | MsgStartLimit
  | MsgCanceledStart
  | MsgCanceledStop
  | MsgUnitFailed str

record job =
  jb_unit :: str
  jb_kind :: job_kind
  jb_mode :: job_mode
  jb_waiting :: "wait_entry list"
  jb_started :: bool
  jb_failed :: bool
  jb_failed_msg :: "job_msg option"
  jb_start_after_stop :: "str option"
  jb_expanding :: bool

record job_status =
  js_unit :: str
  js_ok :: bool
  js_error :: "job_msg option"

record spawn_options =
  so_argv :: "str list"
  so_env :: "(str \<times> str) list"
  so_cwd :: "str option"
  so_uid :: "nat option"
  so_gid :: "nat option"
  so_groups :: "nat list"
  so_nice :: "int option"
  so_umask :: "nat option"
  so_rlimits :: "rlimit list"
  so_stdout_target :: stdio_target
  so_stderr_target :: stdio_target
  so_stdin_null :: bool
  so_notify_socket :: "str option"
  so_listen_fds :: "int list"
  so_cgroup :: "str option"
  so_sandbox :: sandbox_config

record spawned =
  sp_pid :: pid
  sp_stdout :: "int option"
  sp_stderr :: "int option"

datatype child_exit = Exited int | Signaled int

datatype listen_kind = ListenStream | ListenDatagram | ListenNetlink | ListenSeqpacket

datatype mount_flag = MsRdonly | MsNosuid | MsNodev | MsNoexec | MsSynchronous | MsNoatime | MsNodiratime

datatype effect =
    EKillCgroup str int
  | EKillAllCgroup str
  | EKillGroup pid int
  | EReleaseCgroup str
  | EApplyLimits str cgroup_limits
  | ESpawn str control_command nat
  | ECreateDir str bool
  | EChmod str nat
  | EChown str nat nat
  | ERemoveDirAll str
  | ERemoveDir str
  | EMount "str option" str str "mount_flag list" "str option"
  | EUmount str
  | ECloseSocket int
  | EWatchName str
  | EUnwatchName str

section \<open>The world\<close>

record os =
  os_now :: "nat \<Rightarrow> nat"
  os_wall :: "nat \<Rightarrow> nat"
  os_civil :: "nat \<Rightarrow> civil"
  os_epoch :: "civil \<Rightarrow> int"
  os_weekday :: weekday_fun
  os_id_order :: "nat \<Rightarrow> nat list \<Rightarrow> nat list"
  os_name_order :: "nat \<Rightarrow> str list \<Rightarrow> str list"
  os_env :: "str \<Rightarrow> str option"
  os_probe :: "nat \<Rightarrow> condition_kind \<Rightarrow> str \<Rightarrow> bool"
  os_group_of :: "nat \<Rightarrow> nat \<times> str"
  os_read_file :: "nat \<Rightarrow> str \<Rightarrow> str option"
  os_resolve_user :: "nat \<Rightarrow> str \<Rightarrow> (nat \<times> nat \<times> nat list) option"
  os_resolve_group :: "nat \<Rightarrow> str \<Rightarrow> nat option"
  os_is_dir :: "nat \<Rightarrow> str \<Rightarrow> bool"
  os_mkdir :: "nat \<Rightarrow> str \<Rightarrow> bool \<Rightarrow> str option"
  os_chmod :: "nat \<Rightarrow> str \<Rightarrow> nat \<Rightarrow> str option"
  os_chown :: "nat \<Rightarrow> str \<Rightarrow> nat \<Rightarrow> nat \<Rightarrow> str option"
  os_cgroup_root :: "nat \<Rightarrow> str option"
  os_cgroup_create :: "nat \<Rightarrow> str \<Rightarrow> str \<Rightarrow> str option"
  os_cgroup_empty :: "nat \<Rightarrow> str \<Rightarrow> bool"
  os_spawn :: "nat \<Rightarrow> spawn_options \<Rightarrow> str + spawned"
  os_group_alive :: "nat \<Rightarrow> pid \<Rightarrow> bool"
  os_bind :: "nat \<Rightarrow> listen_kind \<Rightarrow> str \<Rightarrow> str + int"
  os_mount :: "nat \<Rightarrow> str option \<Rightarrow> str \<Rightarrow> str \<Rightarrow> mount_flag list \<Rightarrow> str option \<Rightarrow> str option"
  os_umount :: "nat \<Rightarrow> str \<Rightarrow> str option"
  os_exists :: "nat \<Rightarrow> str \<Rightarrow> bool"
  os_list_dir :: "nat \<Rightarrow> str \<Rightarrow> str list option"
  os_mtime :: "nat \<Rightarrow> str \<Rightarrow> nat option"
  os_reap :: "nat \<Rightarrow> (pid \<times> child_exit) list"
  os_load_file :: "nat \<Rightarrow> str \<Rightarrow> str + (unit_file \<times> str option) option"
  os_discover :: "nat \<Rightarrow> str list"

section \<open>The manager\<close>

record mgr =
  m_cfg :: manager_cfg
  m_units :: unit_table
  m_jobs :: "(nat \<times> job) list"
  m_completed_jobs :: "(nat \<times> job_status) list"
  m_unit_job :: "(str \<times> nat) list"
  m_next_job :: nat
  m_log_level :: str
  m_wheel :: timer_wheel
  m_pid_unit :: "(pid \<times> str) list"
  m_out_fds :: "(int \<times> str) list"
  m_socket_listeners :: "(int \<times> str) list"
  m_socket_triggers :: "(int \<times> str \<times> str) list"
  m_shutting_down :: bool
  m_boot_instant :: nat
  m_pending_bus_names :: "(str \<times> str) list"
  m_next_invocation :: nat
  m_dbus :: bool
  m_udev_devices :: "(str \<times> device) list"
  m_tick :: nat
  m_trace :: "effect list"

datatype fault = OutOfFuel | PanicUnit str | PanicJob nat | PanicUnitJob nat

type_synonym step = "mgr \<Rightarrow> fault + mgr"

text \<open>Ask the world: the answer to call number \<open>m_tick\<close>, and the state after the call.\<close>

definition ask :: "(nat \<Rightarrow> 'r) \<Rightarrow> mgr \<Rightarrow> 'r \<times> mgr" where
  "ask q m = (q (m_tick m), m\<lparr>m_tick := Suc (m_tick m)\<rparr>)"

definition emit :: "effect \<Rightarrow> mgr \<Rightarrow> mgr" where
  "emit e m = m\<lparr>m_trace := m_trace m @ [e]\<rparr>"

definition get_unit :: "mgr \<Rightarrow> str \<Rightarrow> unit_state option" where
  "get_unit m name = map_of (m_units m) name"

definition get_job :: "mgr \<Rightarrow> nat \<Rightarrow> job option" where
  "get_job m j = map_of (m_jobs m) j"

definition unit_at :: "str \<Rightarrow> mgr \<Rightarrow> fault + unit_state" where
  "unit_at name m = (case get_unit m name of Some u \<Rightarrow> Inr u | None \<Rightarrow> Inl (PanicUnit name))"

definition upd_unit :: "str \<Rightarrow> (unit_state \<Rightarrow> unit_state) \<Rightarrow> step" where
  "upd_unit name f m =
     (case get_unit m name of
        Some u \<Rightarrow> Inr (m\<lparr>m_units := hins name (f u) (m_units m)\<rparr>)
      | None \<Rightarrow> Inl (PanicUnit name))"

definition job_at :: "nat \<Rightarrow> mgr \<Rightarrow> fault + job" where
  "job_at j m = (case get_job m j of Some b \<Rightarrow> Inr b | None \<Rightarrow> Inl (PanicJob j))"

definition upd_job :: "nat \<Rightarrow> (job \<Rightarrow> job) \<Rightarrow> step" where
  "upd_job j f m =
     (case get_job m j of
        Some b \<Rightarrow> Inr (m\<lparr>m_jobs := hins j (f b) (m_jobs m)\<rparr>)
      | None \<Rightarrow> Inl (PanicJob j))"

text \<open>\<open>self.jobs[jid]\<close> for a \<open>jid\<close> read from \<open>unit_job\<close>.\<close>

definition unit_job_at :: "nat \<Rightarrow> mgr \<Rightarrow> fault + job" where
  "unit_job_at j m = (case get_job m j of Some b \<Rightarrow> Inr b | None \<Rightarrow> Inl (PanicUnitJob j))"

text \<open>\<open>Unit::set_active\<close> on the unit \<open>name\<close> of the table.\<close>

definition mark :: "os \<Rightarrow> str \<Rightarrow> active_state \<Rightarrow> sub_state \<Rightarrow> unit_result \<Rightarrow> step" where
  "mark w name state sub res m =
     (case get_unit m name of
        None \<Rightarrow> Inl (PanicUnit name)
      | Some u \<Rightarrow>
          (let (wall, m1) = ask (os_wall w) m;
               (u', seq) = set_active wall state sub res (m_next_invocation m1) u
           in Inr (m1\<lparr>m_units := hins name u' (m_units m1), m_next_invocation := seq\<rparr>)))"

definition unit_active :: "mgr \<Rightarrow> str \<Rightarrow> bool" where
  "unit_active m name = (case get_unit m name of Some u \<Rightarrow> u_active u = Active | None \<Rightarrow> False)"

definition unit_operational :: "mgr \<Rightarrow> str \<Rightarrow> bool" where
  "unit_operational m name =
     (case get_unit m name of
        Some u \<Rightarrow> u_active u = Active \<or> u_active u = Activating
      | None \<Rightarrow> False)"

definition has_unit :: "mgr \<Rightarrow> str \<Rightarrow> bool" where
  "has_unit m name \<longleftrightarrow> get_unit m name \<noteq> None"

text \<open>The keys of the job table and of the unit table, in the order a loop visits them.\<close>

definition job_ids :: "os \<Rightarrow> mgr \<Rightarrow> nat list \<times> mgr" where
  "job_ids w m = ask (\<lambda>t. os_id_order w t (hkeys (m_jobs m))) m"

definition unit_names :: "os \<Rightarrow> mgr \<Rightarrow> str list \<times> mgr" where
  "unit_names w m = ask (\<lambda>t. os_name_order w t (hkeys (m_units m))) m"

definition unit_names_where :: "os \<Rightarrow> (unit_state \<Rightarrow> bool) \<Rightarrow> mgr \<Rightarrow> str list \<times> mgr" where
  "unit_names_where w P m =
     (let (ns, m1) = unit_names w m
      in (filter (\<lambda>n. case get_unit m n of Some u \<Rightarrow> P u | None \<Rightarrow> False) ns, m1))"

text \<open>What the recursion is cut at: the operations of the manager that are called back from
  operations they call.\<close>

datatype call =
    CTryAdvance nat
  | CEnqueueStart str job_mode
  | CEnqueueStop str "str option" job_mode
  | CDoStart str
  | CDoStop str
  | CSpawn str control_command nat
  | CStart str
  | CProcess

text \<open>Errors a control request is answered with.\<close>

datatype ctl_error =
    UnitNotFound str
  | LoadFailed str
  | JobIrreversible str
  | NoExecReload str
  | NoProcesses str

section \<open>Jobs: records and results\<close>

definition record_job_result :: "nat \<Rightarrow> bool \<Rightarrow> job_msg option \<Rightarrow> mgr \<Rightarrow> mgr" where
  "record_job_result j ok error m =
     (case get_job m j of
        None \<Rightarrow> m
      | Some b \<Rightarrow> m\<lparr>m_completed_jobs :=
            hins j \<lparr>js_unit = jb_unit b, js_ok = ok, js_error = error\<rparr> (m_completed_jobs m)\<rparr>)"

definition new_job :: "job_kind \<Rightarrow> str \<Rightarrow> wait_entry list \<Rightarrow> job_mode \<Rightarrow> mgr \<Rightarrow> mgr \<times> nat" where
  "new_job kind name waiting mode m =
     (let j = m_next_job m + 1
      in (m\<lparr>m_next_job := j,
            m_jobs := hins j \<lparr>jb_unit = name, jb_kind = kind, jb_mode = mode, jb_waiting = waiting,
              jb_started = False, jb_failed = False, jb_failed_msg = None,
              jb_start_after_stop = None, jb_expanding = False\<rparr> (m_jobs m),
            m_unit_job := hins name j (m_unit_job m)\<rparr>, j))"

text \<open>The removal shared by \<open>cancel_job\<close>, \<open>finish_job\<close> and \<open>finish_job_failed\<close>: the result is
  recorded, the job dropped, and the unit's job entry dropped when it is this job.\<close>

definition drop_job :: "nat \<Rightarrow> bool \<Rightarrow> job_msg option \<Rightarrow> str \<Rightarrow> mgr \<Rightarrow> mgr" where
  "drop_job j ok error name m =
     (let m1 = record_job_result j ok error m;
          m2 = m1\<lparr>m_jobs := hdel j (m_jobs m1)\<rparr>
      in if map_of (m_unit_job m2) name = Some j
         then m2\<lparr>m_unit_job := hdel name (m_unit_job m2)\<rparr> else m2)"

section \<open>Starts in a window\<close>

text \<open>\<open>check_start_limit\<close>: True when the unit was started five times in the last ten seconds
  (\<open>now - cutoff\<close> in microseconds), else the attempt is recorded.\<close>

definition start_limit_window :: nat where "start_limit_window = 10000000"
definition start_limit_burst :: nat where "start_limit_burst = 5"

definition check_start_limit :: "os \<Rightarrow> str \<Rightarrow> mgr \<Rightarrow> fault + bool \<times> mgr" where
  "check_start_limit w name m =
     (let (now, m1) = ask (os_now w) m in
      case get_unit m1 name of
        None \<Rightarrow> Inl (PanicUnit name)
      | Some u \<Rightarrow>
          (let win = filter (\<lambda>t. t + start_limit_window \<ge> now) (u_start_window u);
               hit = length win \<ge> start_limit_burst;
               u' = u\<lparr>u_start_window := (if hit then win else win @ [now])\<rparr>
           in Inr (hit, m1\<lparr>m_units := hins name u' (m_units m1)\<rparr>)))"

end
