(* ===== verification/Jobs.thy ===== *)
theory Jobs
  imports Engine_State
begin

text \<open>
  The job engine of \<^verbatim>\<open>rystemd/src/manager/mod.rs\<close>: completing, failing and advancing jobs.
  Every operation that can be re-entered takes \<open>rec\<close>, the interpretation of \<open>call\<close>; it is tied
  in theory \<open>Engine\<close>. The loops over the keys of the job table take a snapshot of the keys and
  skip the jobs that are gone, as the code does.
\<close>

type_synonym recur = "call \<Rightarrow> step"

section \<open>Completion\<close>

definition find_wait :: "str \<Rightarrow> job \<Rightarrow> wait_entry option" where
  "find_wait name b = find (\<lambda>e. we_unit e = name) (jb_waiting b)"

definition drop_waits :: "str \<Rightarrow> job \<Rightarrow> job" where
  "drop_waits name b = b\<lparr>jb_waiting := filter (\<lambda>e. we_unit e \<noteq> name) (jb_waiting b)\<rparr>"

definition fail_job :: "job_msg \<Rightarrow> job \<Rightarrow> job" where
  "fail_job msg b = b\<lparr>jb_failed := True, jb_failed_msg := Some msg\<rparr>"

text \<open>One round of the loop of \<open>on_job_completed\<close>.\<close>

definition notify_waiter :: "recur \<Rightarrow> str \<Rightarrow> bool \<Rightarrow> nat \<Rightarrow> step" where
  "notify_waiter rec name ok j m =
     (case get_job m j of
        None \<Rightarrow> Inr m
      | Some b \<Rightarrow>
          (case find_wait name b of
             Some e \<Rightarrow>
               if \<not> ok \<and> we_required e
               then Inr (m\<lparr>m_jobs := hins j (fail_job (MsgDepFailed name) b) (m_jobs m)\<rparr>)
               else rec (CTryAdvance j) (m\<lparr>m_jobs := hins j (drop_waits name b) (m_jobs m)\<rparr>)
           | None \<Rightarrow> Inr m))"

definition on_job_completed :: "os \<Rightarrow> recur \<Rightarrow> str \<Rightarrow> bool \<Rightarrow> step" where
  "on_job_completed w rec name ok m =
     (let (ids, m1) = job_ids w m in fold_res (notify_waiter rec name ok) ids m1)"

definition cancel_job :: "os \<Rightarrow> recur \<Rightarrow> nat \<Rightarrow> job_msg \<Rightarrow> step" where
  "cancel_job w rec j msg m =
     (case get_job m j of
        None \<Rightarrow> Inr m
      | Some b \<Rightarrow> on_job_completed w rec (jb_unit b) False (drop_job j False (Some msg) (jb_unit b) m))"

definition finish_job :: "os \<Rightarrow> recur \<Rightarrow> nat \<Rightarrow> step" where
  "finish_job w rec j m =
     (case get_job m j of
        None \<Rightarrow> Inr m
      | Some b \<Rightarrow>
          bnd (on_job_completed w rec (jb_unit b) True (drop_job j True None (jb_unit b) m)) (\<lambda>m1.
            (case jb_start_after_stop b of
               Some next \<Rightarrow> if jb_kind b = JStop then rec (CEnqueueStart next Replace) m1 else Inr m1
             | None \<Rightarrow> Inr m1)))"

definition finish_job_failed :: "os \<Rightarrow> recur \<Rightarrow> nat \<Rightarrow> step" where
  "finish_job_failed w rec j m =
     (case get_job m j of
        None \<Rightarrow> Inr m
      | Some b \<Rightarrow>
          on_job_completed w rec (jb_unit b) False (drop_job j False (jb_failed_msg b) (jb_unit b) m))"

text \<open>One round of the loop of \<open>poke_failed\<close>: unlike \<open>on_job_completed\<close> it finishes the
  failed waiter at once.\<close>

definition poke_waiter :: "os \<Rightarrow> recur \<Rightarrow> str \<Rightarrow> nat \<Rightarrow> step" where
  "poke_waiter w rec name j m =
     (case get_job m j of
        None \<Rightarrow> Inr m
      | Some b \<Rightarrow>
          (case find_wait name b of
             Some e \<Rightarrow>
               if we_required e
               then finish_job_failed w rec j
                      (m\<lparr>m_jobs := hins j (fail_job (MsgDepFailed name) b) (m_jobs m)\<rparr>)
               else rec (CTryAdvance j) (m\<lparr>m_jobs := hins j (drop_waits name b) (m_jobs m)\<rparr>)
           | None \<Rightarrow> Inr m))"

definition poke_failed :: "os \<Rightarrow> recur \<Rightarrow> str \<Rightarrow> step" where
  "poke_failed w rec name m =
     (let (ids, m1) = job_ids w m in fold_res (poke_waiter w rec name) ids m1)"

section \<open>Running jobs\<close>

definition maybe_start_job :: "os \<Rightarrow> recur \<Rightarrow> nat \<Rightarrow> step" where
  "maybe_start_job w rec j m =
     bnd (job_at j m) (\<lambda>b.
       if jb_failed b then finish_job_failed w rec j m
       else if jb_waiting b \<noteq> [] \<or> jb_started b then Inr m
       else
         bnd (upd_job j (\<lambda>b. b\<lparr>jb_started := True\<rparr>) m) (\<lambda>m1.
         bnd (check_start_limit w (jb_unit b) m1) (\<lambda>(hit, m2).
           if hit then
             bnd (upd_unit (jb_unit b) (\<lambda>u. u\<lparr>u_result := ResStartLimitHit\<rparr>) m2) (\<lambda>m3.
             bnd (upd_job j (fail_job MsgStartLimit) m3) (\<lambda>m4.
               finish_job_failed w rec j m4))
           else rec (CDoStart (jb_unit b)) m2)))"

definition maybe_stop_job :: "os \<Rightarrow> recur \<Rightarrow> nat \<Rightarrow> step" where
  "maybe_stop_job w rec j m =
     bnd (job_at j m) (\<lambda>b.
       if \<not> unit_operational m (jb_unit b) then finish_job w rec j m
       else if jb_started b then Inr m
       else
         bnd (upd_job j (\<lambda>b. b\<lparr>jb_started := True\<rparr>)
                (m\<lparr>m_unit_job := hins (jb_unit b) j (m_unit_job m)\<rparr>)) (\<lambda>m1.
           rec (CDoStop (jb_unit b)) m1))"

definition try_advance_job :: "os \<Rightarrow> recur \<Rightarrow> nat \<Rightarrow> mgr \<Rightarrow> fault + bool \<times> mgr" where
  "try_advance_job w rec j m =
     (case get_job m j of
        None \<Rightarrow> Inr (False, m)
      | Some b \<Rightarrow>
          (case jb_kind b of
             JStart \<Rightarrow>
               if jb_expanding b then Inr (False, m)
               else if jb_failed b then bnd (finish_job_failed w rec j m) (\<lambda>m1. Inr (True, m1))
               else if jb_waiting b = [] \<and> \<not> jb_started b
               then bnd (maybe_start_job w rec j m) (\<lambda>m1. Inr (True, m1))
               else Inr (False, m)
           | JStop \<Rightarrow>
               if \<not> jb_started b then bnd (maybe_stop_job w rec j m) (\<lambda>m1. Inr (True, m1))
               else Inr (False, m)
           | JRestart \<Rightarrow> Inr (False, m)))"

text \<open>One pass of \<open>process_jobs\<close> over a snapshot of the ids, then another pass when some job
  advanced. (The membership test of the loop is the first test of \<open>try_advance_job\<close>.)\<close>

fun process_pass :: "os \<Rightarrow> recur \<Rightarrow> nat list \<Rightarrow> bool \<Rightarrow> mgr \<Rightarrow> fault + bool \<times> mgr" where
  "process_pass w rec [] changed m = Inr (changed, m)"
| "process_pass w rec (j # js) changed m =
     bnd (try_advance_job w rec j m) (\<lambda>(c, m1). process_pass w rec js (changed \<or> c) m1)"

definition process_jobs :: "os \<Rightarrow> recur \<Rightarrow> step" where
  "process_jobs w rec m =
     (let (ids, m1) = job_ids w m in
      bnd (process_pass w rec ids False m1) (\<lambda>(changed, m2).
        if changed then rec CProcess m2 else Inr m2))"

section \<open>Stop jobs\<close>

definition enqueue_dependent_stop :: "recur \<Rightarrow> str \<Rightarrow> step" where
  "enqueue_dependent_stop rec d m =
     (if unit_operational m d \<and> map_of (m_unit_job m) d = None
      then rec (CEnqueueStop d None Replace) m else Inr m)"

definition enqueue_stop_job_after_mode ::
    "os \<Rightarrow> recur \<Rightarrow> str \<Rightarrow> str option \<Rightarrow> job_mode \<Rightarrow> step" where
  "enqueue_stop_job_after_mode w rec name start_after_stop mode m =
     (let (m1, j) = new_job JStop name [] mode m in
      bnd (case start_after_stop of
             Some next \<Rightarrow> upd_job j (\<lambda>b. b\<lparr>jb_start_after_stop := Some next\<rparr>) m1
           | None \<Rightarrow> Inr m1) (\<lambda>m2.
      let (order, m3) = unit_names w m2;
          dependents = stop_propagate (m_units m3) order name
      in bnd (fold_res (enqueue_dependent_stop rec) dependents m3) (\<lambda>m4.
           maybe_stop_job w rec j m4)))"

section \<open>Start requests and unit failure\<close>

text \<open>\<open>load_unit\<close>: the interpreted file and its path come from the world (or the lack of both);
  the unit around it is fresh. \<open>ensure_unit_loaded\<close> adds it to the table.\<close>

definition load_unit :: "os \<Rightarrow> str \<Rightarrow> mgr \<Rightarrow> (str + unit_state option) \<times> mgr" where
  "load_unit w name m =
     (case ask (\<lambda>t. os_load_file w t name) m of
        (Inl e, m1) \<Rightarrow> (Inl e, m1)
      | (Inr None, m1) \<Rightarrow> (Inr None, m1)
      | (Inr (Some (f, path)), m1) \<Rightarrow>
          (let (wall, m2) = ask (os_wall w) m1
           in (Inr (Some ((unit_new wall name (unit_file_kind f))\<lparr>u_load := Loaded, u_path := path,
                 u_file := Some f\<rparr>)), m2)))"

definition ensure_unit_loaded :: "os \<Rightarrow> str \<Rightarrow> mgr \<Rightarrow> (ctl_error + unit) \<times> mgr" where
  "ensure_unit_loaded w name m =
     (if has_unit m name then (Inr (), m)
      else case load_unit w name m of
             (Inl e, m1) \<Rightarrow> (Inl (LoadFailed e), m1)
           | (Inr None, m1) \<Rightarrow> (Inl (UnitNotFound name), m1)
           | (Inr (Some u), m1) \<Rightarrow> (Inr (), m1\<lparr>m_units := hins name u (m_units m1)\<rparr>))"

definition start_with_mode ::
    "os \<Rightarrow> recur \<Rightarrow> str \<Rightarrow> job_mode \<Rightarrow> mgr \<Rightarrow> fault + (ctl_error + nat option) \<times> mgr" where
  "start_with_mode w rec name mode m0 =
     (case ensure_unit_loaded w name m0 of
        (Inl e, m) \<Rightarrow> Inr (Inl e, m)
      | (Inr _, m) \<Rightarrow>
          if m_shutting_down m then Inr (Inr None, m)
          else if \<not> has_unit m name then Inr (Inl (UnitNotFound name), m)
          else if unit_active m name then Inr (Inr None, m)
          else
            (case Option.bind (map_of (m_unit_job m) name) (\<lambda>j. map_option (Pair j) (get_job m j)) of
               Some (j, b) \<Rightarrow>
                 if jb_kind b = JStart then Inr (Inr (Some j), m)
                 else if jb_mode b = ReplaceIrreversibly then Inr (Inl (JobIrreversible name), m)
                 else
                   bnd (cancel_job w rec j MsgCanceledStart m) (\<lambda>m1.
                   bnd (mark w name Active SubExited ResSuccess m1) (\<lambda>m2.
                     Inr (Inr None, m2)))
             | None \<Rightarrow>
                 (let j = m_next_job m + 1 in
                  bnd (rec (CEnqueueStart name mode) m) (\<lambda>m1.
                  bnd (process_jobs w rec m1) (\<lambda>m2. Inr (Inr (Some j), m2))))))"

definition start_unit :: "os \<Rightarrow> recur \<Rightarrow> str \<Rightarrow> mgr \<Rightarrow> fault + (ctl_error + unit) \<times> mgr" where
  "start_unit w rec name m =
     bnd (start_with_mode w rec name Replace m) (\<lambda>(r, m1).
       Inr (case r of Inl e \<Rightarrow> Inl e | Inr _ \<Rightarrow> Inr (), m1))"

definition fire_on_failure :: "os \<Rightarrow> recur \<Rightarrow> str \<Rightarrow> step" where
  "fire_on_failure w rec name m =
     bnd (unit_at name m) (\<lambda>u.
     bnd (fold_res (\<lambda>t. rec (CStart t)) (on_failure_units u) m) (\<lambda>m1.
       process_jobs w rec m1))"

definition fail_unit :: "os \<Rightarrow> recur \<Rightarrow> str \<Rightarrow> str \<Rightarrow> step" where
  "fail_unit w rec name msg m =
     (let m0 = (case get_unit m name of
                  Some u \<Rightarrow> m\<lparr>m_units := hins name
                      (u\<lparr>u_log := log_push_chunk (''rystemd: failed: '' @ msg @ [CHR 0x0A]) (u_log u)\<rparr>)
                      (m_units m)\<rparr>
                | None \<Rightarrow> m) in
      bnd (unit_at name m0) (\<lambda>u.
      bnd (mark w name Failed SubFailed (u_result u) m0) (\<lambda>m1.
      bnd (case map_of (m_unit_job m1) name of
             Some j \<Rightarrow>
               bnd (unit_job_at j m1) (\<lambda>b.
                 if jb_kind b = JStart
                 then bnd (upd_job j (\<lambda>b. b\<lparr>jb_failed_msg := Some (MsgUnitFailed msg)\<rparr>) m1)
                        (finish_job_failed w rec j)
                 else poke_failed w rec name m1)
           | None \<Rightarrow> poke_failed w rec name m1) (\<lambda>m2.
        fire_on_failure w rec name m2))))"

section \<open>Expansion of a start job\<close>

definition condition_context :: "os \<Rightarrow> mgr \<Rightarrow> condition_context \<times> mgr" where
  "condition_context w m =
     (let ((gid, groupname), m1) = ask (os_group_of w) m
      in (\<lparr>cc_user_manager = cfg_user (m_cfg m), cc_username = cfg_username (m_cfg m),
           cc_uid = cfg_uid (m_cfg m), cc_groupname = groupname, cc_gid = gid,
           cc_hostname = cfg_hostname (m_cfg m)\<rparr>, m1))"

text \<open>\<open>conditions.iter().find(|c| !c.evaluate(&ctx))\<close>: one probe per evaluated condition.\<close>

fun first_unmet :: "os \<Rightarrow> condition_context \<Rightarrow> unit_condition list \<Rightarrow> mgr \<Rightarrow>
    unit_condition option \<times> mgr" where
  "first_unmet w ctx [] m = (None, m)"
| "first_unmet w ctx (c # cs) m =
     (case ask (\<lambda>t. evaluate_condition (os_probe w t) c ctx) m of
        (True, m1) \<Rightarrow> first_unmet w ctx cs m1
      | (False, m1) \<Rightarrow> (Some c, m1))"

definition unit_conditions :: "unit_state \<Rightarrow> unit_condition list" where
  "unit_conditions u = (case u_file u of Some f \<Rightarrow> uc_conditions (uf_unit f) | None \<Rightarrow> [])"

text \<open>A pending start job of a unit: \<open>self.unit_job.get(n)\<close> and \<open>self.jobs[jid].kind\<close>.\<close>

definition pending_kind :: "str \<Rightarrow> mgr \<Rightarrow> fault + job_kind option" where
  "pending_kind name m =
     (case map_of (m_unit_job m) name of
        None \<Rightarrow> Inr None
      | Some j \<Rightarrow> bnd (unit_job_at j m) (\<lambda>b. Inr (Some (jb_kind b))))"

definition starting :: "str \<Rightarrow> mgr \<Rightarrow> fault + bool" where
  "starting name m = bnd (pending_kind name m) (\<lambda>k. Inr (k = Some JStart))"

text \<open>The loops of \<open>expand_start_job\<close> carry the waiting list under construction. \<open>Inl m\<close> is the
  early return of the code: the job was failed with a message.\<close>

type_synonym expansion = "fault + mgr + wait_entry list \<times> mgr"

definition abort_expansion :: "os \<Rightarrow> recur \<Rightarrow> nat \<Rightarrow> job_msg \<Rightarrow> mgr \<Rightarrow> expansion" where
  "abort_expansion w rec j msg m =
     bnd (upd_job j (fail_job msg) m) (\<lambda>m1.
     bnd (maybe_start_job w rec j m1) (\<lambda>m2. Inr (Inl m2)))"

fun expand_requisites :: "os \<Rightarrow> recur \<Rightarrow> nat \<Rightarrow> str list \<Rightarrow> wait_entry list \<Rightarrow> mgr \<Rightarrow> expansion" where
  "expand_requisites w rec j [] waiting m = Inr (Inr (waiting, m))"
| "expand_requisites w rec j (r # rs) waiting m =
     (if unit_active m r then expand_requisites w rec j rs waiting m
      else bnd (starting r m) (\<lambda>s.
             if s then expand_requisites w rec j rs
                         (waiting @ [\<lparr>we_unit = r, we_required = True\<rparr>]) m
             else abort_expansion w rec j (MsgRequisite r) m))"

definition stop_conflict :: "recur \<Rightarrow> str \<Rightarrow> step" where
  "stop_conflict rec c m =
     (if unit_operational m c
      then bnd (pending_kind c m) (\<lambda>k.
             if k \<noteq> Some JStop then rec (CEnqueueStop c None Replace) m else Inr m)
      else Inr m)"

fun expand_needs :: "os \<Rightarrow> recur \<Rightarrow> nat \<Rightarrow> str list \<Rightarrow> str list \<Rightarrow> wait_entry list \<Rightarrow> mgr \<Rightarrow>
    expansion" where
  "expand_needs w rec j needs [] waiting m = Inr (Inr (waiting, m))"
| "expand_needs w rec j needs (d # ds) waiting m =
     (if unit_active m d then expand_needs w rec j needs ds waiting m
      else let required = List.member needs d;
               waiting' = waiting @ [\<lparr>we_unit = d, we_required = required\<rparr>] in
        if \<not> has_unit m d then
          (if required then abort_expansion w rec j (MsgDepMissing d) m
           else expand_needs w rec j needs ds waiting m)
        else bnd (starting d m) (\<lambda>s.
          if s then expand_needs w rec j needs ds waiting' m
          else bnd (rec (CEnqueueStart d Replace) m) (\<lambda>m1.
                 expand_needs w rec j needs ds waiting' m1)))"

definition waits_for :: "wait_entry list \<Rightarrow> str \<Rightarrow> bool" where
  "waits_for waiting name = list_ex (\<lambda>e. we_unit e = name) waiting"

text \<open>The ordering loops over \<open>After=\<close> and the reverse \<open>Before=\<close>: they only add a wait on a
  start job that is already pending.\<close>

definition order_after :: "mgr \<Rightarrow> str \<Rightarrow> wait_entry list \<Rightarrow> fault + wait_entry list" where
  "order_after m a waiting =
     (if unit_active m a then Inr waiting
      else bnd (starting a m) (\<lambda>s.
             Inr (if s \<and> \<not> waits_for waiting a
                  then waiting @ [\<lparr>we_unit = a, we_required = False\<rparr>] else waiting)))"

definition expand_order :: "str list \<Rightarrow> wait_entry list \<Rightarrow> mgr \<Rightarrow> fault + wait_entry list" where
  "expand_order names waiting m = fold_res (order_after m) names waiting"

definition declares_before :: "str \<Rightarrow> mgr \<Rightarrow> str \<Rightarrow> bool" where
  "declares_before name m other =
     (other \<noteq> name \<and>
      (case Option.bind (get_unit m other) u_file of
         Some f \<Rightarrow> List.member (uc_before (uf_unit f)) name
       | None \<Rightarrow> False))"

text \<open>The end of the expansion: a required dependency that is neither pending nor active has
  failed synchronously; waits on finished jobs are dropped.\<close>

definition sync_failed :: "mgr \<Rightarrow> wait_entry list \<Rightarrow> str option" where
  "sync_failed m waiting =
     map_option we_unit (find (\<lambda>e. we_required e \<and> map_of (m_unit_job m) (we_unit e) = None \<and>
       \<not> unit_active m (we_unit e)) waiting)"

definition commit_waiting :: "nat \<Rightarrow> wait_entry list \<Rightarrow> mgr \<Rightarrow> mgr" where
  "commit_waiting j waiting m =
     (case get_job m j of
        None \<Rightarrow> m
      | Some b \<Rightarrow>
          (let b1 = (case sync_failed m waiting of Some dep \<Rightarrow> fail_job (MsgDepFailed dep) b | None \<Rightarrow> b)
           in m\<lparr>m_jobs := hins j
                (b1\<lparr>jb_waiting := filter (\<lambda>e. map_of (m_unit_job m) (we_unit e) \<noteq> None) waiting,
                    jb_expanding := False\<rparr>) (m_jobs m)\<rparr>))"

definition expand_transaction :: "os \<Rightarrow> recur \<Rightarrow> nat \<Rightarrow> str \<Rightarrow> step" where
  "expand_transaction w rec j name m0 =
     bnd (upd_job j (\<lambda>b. b\<lparr>jb_expanding := True\<rparr>) m0) (\<lambda>m.
     let (needs, weak, reqs) = start_closure (m_units m) name in
     bnd (expand_requisites w rec j reqs [] m) (\<lambda>r1. case r1 of
       Inl m1 \<Rightarrow> Inr m1
     | Inr (waiting1, m1) \<Rightarrow>
         bnd (fold_res (stop_conflict rec) (closure_conflicts (m_units m1) name) m1) (\<lambda>m2.
         bnd (expand_needs w rec j needs (rev (remdups (rev (needs @ weak)))) waiting1 m2) (\<lambda>r2. case r2 of
           Inl m3 \<Rightarrow> Inr m3
         | Inr (waiting2, m3) \<Rightarrow>
             bnd (unit_at name m3) (\<lambda>u.
             bnd (expand_order (after_units u) waiting2 m3) (\<lambda>waiting3.
             let (order, m4) = unit_names w m3 in
             bnd (expand_order (filter (declares_before name m4) order) waiting3 m4) (\<lambda>waiting4.
               maybe_start_job w rec j (commit_waiting j waiting4 m4))))))))"

definition expand_start_job :: "os \<Rightarrow> recur \<Rightarrow> nat \<Rightarrow> step" where
  "expand_start_job w rec j m =
     bnd (job_at j m) (\<lambda>b.
     let name = jb_unit b in
     case get_unit m name of
       None \<Rightarrow>
         bnd (upd_job j (fail_job (MsgNotFound name)) m) (maybe_start_job w rec j)
     | Some u \<Rightarrow>
         if unit_conditions u \<noteq> [] then
           (let (ctx, m1) = condition_context w m;
                (bad, m2) = first_unmet w ctx (unit_conditions u) m1
            in case bad of
                 Some c \<Rightarrow>
                   if cd_is_assert c then
                     bnd (upd_unit name (\<lambda>u. u\<lparr>u_result := ResAssert\<rparr>) m2)
                       (fail_unit w rec name
                         (''Assert '' @ condition_name (cd_kind c) @ '' failed, refusing to start.''))
                   else finish_job w rec j m2
               | None \<Rightarrow> expand_transaction w rec j name m2)
         else expand_transaction w rec j name m)"

definition enqueue_start_job_mode :: "os \<Rightarrow> recur \<Rightarrow> str \<Rightarrow> job_mode \<Rightarrow> step" where
  "enqueue_start_job_mode w rec name mode m =
     (let (m1, j) = new_job JStart name [] mode m in expand_start_job w rec j m1)"

end
