(* ===== verification/Timers.thy ===== *)
theory Timers
  imports Jobs
begin

text \<open>
  Arming timer units (\<open>rearm_timer\<close>, \<open>timer_dep_check\<close>, \<open>rearm_all_timers\<close> of
  \<^verbatim>\<open>rystemd/src/manager/mod.rs\<close>): the next elapse of a \<open>.timer\<close> unit from its calendar and
  monotonic settings, scheduled on the wheel. A clock read is one world call.
\<close>

definition min_of :: "nat option \<Rightarrow> nat \<Rightarrow> nat option" where
  "min_of a b = Some (case a of Some x \<Rightarrow> min x b | None \<Rightarrow> b)"

text \<open>The earliest calendar elapse as (epoch seconds, index of the expression); the first
  expression wins a tie.\<close>

fun best_calendar :: "os \<Rightarrow> civil \<Rightarrow> nat \<Rightarrow> calendar_spec list \<Rightarrow> (nat \<times> nat) option \<Rightarrow>
    (nat \<times> nat) option" where
  "best_calendar w now i [] best = best"
| "best_calendar w now i (c # cs) best =
     best_calendar w now (Suc i) cs
       (case next_elapse (os_weekday w) c now of
          None \<Rightarrow> best
        | Some dt \<Rightarrow>
            (let epoch = nat (max (os_epoch w dt) 0) in
             case best of
               None \<Rightarrow> Some (epoch, i)
             | Some (e, _) \<Rightarrow> if epoch < e then Some (epoch, i) else best))"

fun mono_from_boot :: "nat \<Rightarrow> nat list \<Rightarrow> nat option \<Rightarrow> nat option" where
  "mono_from_boot boot [] next = next"
| "mono_from_boot boot (ts # tss) next =
     mono_from_boot boot tss
       (case as_duration ts of Some d \<Rightarrow> min_of next (boot + d) | None \<Rightarrow> next)"

fun mono_from_now :: "os \<Rightarrow> nat list \<Rightarrow> nat option \<Rightarrow> mgr \<Rightarrow> nat option \<times> mgr" where
  "mono_from_now w [] next m = (next, m)"
| "mono_from_now w (ts # tss) next m =
     (case as_duration ts of
        None \<Rightarrow> mono_from_now w tss next m
      | Some d \<Rightarrow> (case ask (os_now w) m of (now, m1) \<Rightarrow> mono_from_now w tss (min_of next (now + d)) m1))"

definition next_monotonic :: "os \<Rightarrow> timer_config \<Rightarrow> str \<Rightarrow> mgr \<Rightarrow> nat option \<times> mgr" where
  "next_monotonic w tc target m =
     (let next = mono_from_boot (m_boot_instant m) (tc_on_boot_sec tc @ tc_on_startup_sec tc) None in
      case get_unit m target of
        None \<Rightarrow> (next, m)
      | Some tu \<Rightarrow>
          if u_active tu = Active then mono_from_now w (tc_on_active_sec tc) next m
          else if u_active_enter tu \<noteq> None then mono_from_now w (tc_on_inactive_sec tc) next m
          else (next, m))"

definition add_timer :: "nat \<Rightarrow> timer_kind \<Rightarrow> str \<Rightarrow> mgr \<Rightarrow> mgr" where
  "add_timer t k name m = m\<lparr>m_wheel := fst (schedule t k name (m_wheel m))\<rparr>"

definition arm_calendar :: "os \<Rightarrow> str \<Rightarrow> (nat \<times> nat) option \<Rightarrow> mgr \<Rightarrow> mgr" where
  "arm_calendar w name next m =
     (case next of
        None \<Rightarrow> m
      | Some (epoch, idx) \<Rightarrow>
          (let (wall, m1) = ask (os_wall w) m;
               delta = max (epoch - wall div 1000000) 1;
               (now, m2) = ask (os_now w) m1
           in add_timer (now + delta * 1000000) (CalendarElapse idx) name m2))"

definition arm_monotonic :: "os \<Rightarrow> str \<Rightarrow> nat option \<Rightarrow> nat option \<Rightarrow> mgr \<Rightarrow> nat option \<times> mgr" where
  "arm_monotonic w name next display m =
     (case next of
        None \<Rightarrow> (display, m)
      | Some when \<Rightarrow>
          (let (now, m1) = ask (os_now w) m in
           if when \<ge> now then
             (let (wall, m2) = ask (os_wall w) m1;
                  (now2, m3) = ask (os_now w) m2;
                  sys_when = wall + (when - now2);
                  display' = (case display of
                      Some cur \<Rightarrow> if cur \<le> sys_when then cur else sys_when | None \<Rightarrow> sys_when)
              in (Some display', add_timer when MonotonicElapse name m3))
           else (display, m1)))"

definition rearm_timer :: "os \<Rightarrow> str \<Rightarrow> step" where
  "rearm_timer w name m0 =
     (let m = m0\<lparr>m_wheel := cancel_by_unit name (m_wheel m0)\<rparr> in
      if m_shutting_down m then Inr m
      else bnd (unit_at name m) (\<lambda>u.
        case timer_cfg u of
          None \<Rightarrow> Inr m
        | Some tc \<Rightarrow>
            (let st = (case u_timer u of Some s \<Rightarrow> s
                       | None \<Rightarrow> timer_state_new (map show_calendar (tc_on_calendar tc)));
                 (civil, m1) = ask (os_civil w) m;
                 next_calendar = best_calendar w civil 0 (tc_on_calendar tc) None;
                 (next_mono, m2) = next_monotonic w tc (activated_unit u) m1;
                 display = map_option (\<lambda>(e, _). e * 1000000) next_calendar;
                 m3 = arm_calendar w name next_calendar m2;
                 (display', m4) = arm_monotonic w name next_mono display m3
             in upd_unit name (\<lambda>u. u\<lparr>u_timer := Some (st\<lparr>ts_next_display := display'\<rparr>)\<rparr>) m4)))"

definition rearm_timers :: "os \<Rightarrow> step" where
  "rearm_timers w m =
     (let (timers, m1) = unit_names_where w (\<lambda>u. u_kind u = Timer) m
      in fold_res (rearm_timer w) timers m1)"

definition timer_dep_check :: "os \<Rightarrow> str \<Rightarrow> step" where
  "timer_dep_check w _ m = rearm_timers w m"

definition rearm_all_timers :: "os \<Rightarrow> step" where
  "rearm_all_timers w m = rearm_timers w (m\<lparr>m_wheel := wheel_default\<rparr>)"

definition arm_timeout :: "os \<Rightarrow> (service_config \<Rightarrow> nat) \<Rightarrow> timer_kind \<Rightarrow> str \<Rightarrow> step" where
  "arm_timeout w lim k name m =
     bnd (unit_at name m) (\<lambda>u.
       case Option.bind (map_option lim (service_cfg u)) as_duration of
         None \<Rightarrow> Inr m
       | Some d \<Rightarrow>
           (let m1 = m\<lparr>m_wheel := cancel_by_kind name k (m_wheel m)\<rparr>;
                (now, m2) = ask (os_now w) m1
            in Inr (add_timer (now + d) k name m2)))"

definition arm_start_timeout :: "os \<Rightarrow> str \<Rightarrow> step" where
  "arm_start_timeout w = arm_timeout w sc_timeout_start_sec StartTimeout"

definition arm_stop_timeout :: "os \<Rightarrow> str \<Rightarrow> step" where
  "arm_stop_timeout w = arm_timeout w sc_timeout_stop_sec StopTimeout"

end
