(* ===== verification/Services.thy ===== *)
theory Services
  imports Timers
begin

text \<open>
  Running a unit (\<^verbatim>\<open>rystemd/src/manager/mod.rs\<close> and \<^verbatim>\<open>manager/unit_type.rs\<close>): the per-type
  start and stop operations, the spawning of control commands, the end of a start and of a
  stop, sockets and mounts. Preparing the environment, the directories and the cgroup of a
  process is modelled up to the system calls, which are effects of the trace.
\<close>

section \<open>Signals to the process tree\<close>

definition sigkill :: int where "sigkill = 9"
definition sigterm :: int where "sigterm = 15"

definition kill_tree :: "str \<Rightarrow> int \<Rightarrow> mgr \<Rightarrow> mgr" where
  "kill_tree name sig m =
     (case Option.bind (get_unit m name) u_cgroup of
        Some dir \<Rightarrow> emit (EKillCgroup dir sig) m
      | None \<Rightarrow>
          (case Option.bind (get_unit m name) u_group_pid of
             Some g \<Rightarrow> emit (EKillGroup g sig) m
           | None \<Rightarrow> m))"

definition kill_tree_kill :: "str \<Rightarrow> mgr \<Rightarrow> mgr" where
  "kill_tree_kill name m =
     (case Option.bind (get_unit m name) u_cgroup of
        Some dir \<Rightarrow> emit (EKillAllCgroup dir) m
      | None \<Rightarrow>
          (case Option.bind (get_unit m name) u_group_pid of
             Some g \<Rightarrow> emit (EKillGroup g sigkill) m
           | None \<Rightarrow> m))"

definition unit_has_processes :: "os \<Rightarrow> str \<Rightarrow> mgr \<Rightarrow> fault + bool \<times> mgr" where
  "unit_has_processes w name m =
     bnd (unit_at name m) (\<lambda>u.
       if u_main_pid u \<noteq> None \<or> u_group_pid u \<noteq> None then Inr (True, m)
       else case u_cgroup u of
              None \<Rightarrow> Inr (False, m)
            | Some dir \<Rightarrow>
                (case ask (\<lambda>t. os_cgroup_empty w t dir) m of (e, m1) \<Rightarrow> Inr (\<not> e, m1)))"

section \<open>Bus names\<close>

definition watch_bus_name :: "str \<Rightarrow> str \<Rightarrow> mgr \<Rightarrow> mgr" where
  "watch_bus_name name bus m =
     (let m1 = m\<lparr>m_pending_bus_names := hins bus name (m_pending_bus_names m)\<rparr>
      in if m_dbus m1 then emit (EWatchName bus) m1 else m1)"

definition release_name :: "str \<Rightarrow> mgr \<Rightarrow> mgr" where
  "release_name bus m =
     (let m1 = m\<lparr>m_pending_bus_names := hdel bus (m_pending_bus_names m)\<rparr>
      in if m_dbus m1 then emit (EUnwatchName bus) m1 else m1)"

definition release_bus_name_watch :: "str \<Rightarrow> mgr \<Rightarrow> mgr" where
  "release_bus_name_watch name m =
     fold release_name (map fst (filter (\<lambda>p. snd p = name) (m_pending_bus_names m))) m"

definition begin_bus_name_wait :: "os \<Rightarrow> recur \<Rightarrow> str \<Rightarrow> str option \<Rightarrow> step" where
  "begin_bus_name_wait w rec name bus m =
     (case bus of
        None \<Rightarrow>
          bnd (upd_unit name (\<lambda>u. u\<lparr>u_result := ResProtocol\<rparr>) m)
            (fail_unit w rec name ''Type=dbus without BusName='')
      | Some bn \<Rightarrow>
          bnd (upd_unit name (\<lambda>u. u\<lparr>u_sub := SubWaitingForBus\<rparr>) m) (\<lambda>m1.
            Inr (watch_bus_name name bn m1)))"

section \<open>Environment, directories, cgroup\<close>

definition env_line :: "str \<Rightarrow> (str \<times> str) list \<Rightarrow> (str \<times> str) list" where
  "env_line line env =
     (let l = trim line in
      if l = [] \<or> starts_with ''#'' l \<or> starts_with '';'' l then env
      else case split_once ''='' l of
             Some (k, v) \<Rightarrow> hins (trim k) (trim v) env
           | None \<Rightarrow> env)"

fun env_files :: "os \<Rightarrow> (str \<times> bool) list \<Rightarrow> (str \<times> str) list \<Rightarrow> mgr \<Rightarrow> (str \<times> str) list \<times> mgr" where
  "env_files w [] env m = (env, m)"
| "env_files w ((path, ignore) # fs) env m =
     (case ask (\<lambda>t. os_read_file w t path) m of
        (Some txt, m1) \<Rightarrow> env_files w fs (fold env_line (text_lines txt) env) m1
      | (None, m1) \<Rightarrow> env_files w fs env m1)"

definition build_env :: "os \<Rightarrow> unit_state \<Rightarrow> mgr \<Rightarrow> (str \<times> str) list \<times> mgr" where
  "build_env w u m =
     (let env0 = cfg_base_env (m_cfg m) in
      case service_cfg u of
        None \<Rightarrow> (env0, m)
      | Some sc \<Rightarrow>
          (let env1 = fold (\<lambda>(k, v). hins k v) (sc_environment sc) env0;
               (env2, m1) = env_files w (sc_environment_files sc) env1 m
           in (hins ''UNIT_NAME'' (u_name u) env2, m1)))"

definition base_dir :: "os \<Rightarrow> mgr \<Rightarrow> directory_kind \<Rightarrow> str" where
  "base_dir w m k =
     (let env_or = (\<lambda>key dflt. case os_env w key of Some v \<Rightarrow> v | None \<Rightarrow> dflt);
          home = cfg_home (m_cfg m);
          user = cfg_user (m_cfg m);
          state_home = env_or ''XDG_STATE_HOME'' (path_join (path_join home ''.local'') ''state'')
      in case k of
           DirRuntime \<Rightarrow> env_or ''RYSTEMD_RUNTIME_DIR'' (pa_runtime_dir (cfg_paths (m_cfg m)))
         | DirState \<Rightarrow> env_or ''RYSTEMD_STATE_DIR'' (if user then state_home else ''/var/lib'')
         | DirCache \<Rightarrow> env_or ''RYSTEMD_CACHE_DIR''
             (if user then env_or ''XDG_CACHE_HOME'' (path_join home ''.cache'') else ''/var/cache'')
         | DirLogs \<Rightarrow> env_or ''RYSTEMD_LOG_DIR''
             (if user then path_join state_home ''log'' else ''/var/log'')
         | DirConfiguration \<Rightarrow> env_or ''RYSTEMD_CONFIG_ROOT''
             (if user then env_or ''XDG_CONFIG_HOME'' (path_join home ''.config'') else ''/etc''))"

text \<open>One directory: create, change mode, change owner; each step may fail with a message.\<close>

definition make_directory :: "os \<Rightarrow> directory_spec \<Rightarrow> str \<Rightarrow> mgr \<Rightarrow> str option \<times> mgr" where
  "make_directory w d path m =
     (let create = (\<lambda>m. case ask (\<lambda>t. os_mkdir w t path (ds_recursive d)) m of
            (r, m1) \<Rightarrow> (map_option (\<lambda>e. ''create '' @ path @ '': '' @ e) r,
                        emit (ECreateDir path (ds_recursive d)) m1))
      in if ds_recursive d then create m
         else case ask (\<lambda>t. os_is_dir w t path) m of
                (True, m1) \<Rightarrow> (None, m1)
              | (False, m1) \<Rightarrow> create m1)"

definition own_directory :: "os \<Rightarrow> service_config \<Rightarrow> str \<Rightarrow> mgr \<Rightarrow> str option \<times> mgr" where
  "own_directory w sc path m =
     (case sc_user sc of
        None \<Rightarrow> (None, m)
      | Some user \<Rightarrow>
          (case ask (\<lambda>t. os_resolve_user w t user) m of
             (None, m1) \<Rightarrow> (None, m1)
           | (Some (uid, primary_gid, _), m1) \<Rightarrow>
               (let (gid_opt, m2) =
                      (case sc_group sc of
                         Some g \<Rightarrow> ask (\<lambda>t. os_resolve_group w t g) m1
                       | None \<Rightarrow> (None, m1));
                    gid = (case gid_opt of Some g \<Rightarrow> g | None \<Rightarrow> primary_gid);
                    (r, m3) = ask (\<lambda>t. os_chown w t path uid gid) m2
                in (map_option (\<lambda>e. ''chown '' @ path @ '': '' @ e) r, emit (EChown path uid gid) m3))))"

definition apply_directory :: "os \<Rightarrow> service_config \<Rightarrow> directory_spec \<Rightarrow> mgr \<Rightarrow> str option \<times> mgr" where
  "apply_directory w sc d m =
     (let path = path_join (base_dir w m (ds_kind d)) (ds_name d) in
      case make_directory w d path m of
        (Some e, m1) \<Rightarrow> (Some e, m1)
      | (None, m1) \<Rightarrow>
          (let mode = (case ds_mode d of Some x \<Rightarrow> x | None \<Rightarrow> 493) mod 4096;
               (r, m2) = ask (\<lambda>t. os_chmod w t path mode) m1;
               m3 = emit (EChmod path mode) m2
           in case r of
                Some e \<Rightarrow> (Some (''chmod '' @ path @ '': '' @ e), m3)
              | None \<Rightarrow> own_directory w sc path m3))"

fun apply_directories :: "os \<Rightarrow> service_config \<Rightarrow> directory_spec list \<Rightarrow> mgr \<Rightarrow> str option \<times> mgr" where
  "apply_directories w sc [] m = (None, m)"
| "apply_directories w sc (d # ds) m =
     (case apply_directory w sc d m of
        (Some e, m1) \<Rightarrow> (Some e, m1)
      | (None, m1) \<Rightarrow> apply_directories w sc ds m1)"

definition cleanup_directory :: "os \<Rightarrow> directory_spec \<Rightarrow> mgr \<Rightarrow> mgr" where
  "cleanup_directory w d m =
     (let path = path_join (base_dir w m (ds_kind d)) (ds_name d) in
      case ds_kind d of
        DirRuntime \<Rightarrow> emit (ERemoveDirAll path) m
      | DirState \<Rightarrow> emit (ERemoveDir path) m
      | _ \<Rightarrow> m)"

definition cleanup_directories :: "os \<Rightarrow> directory_spec list \<Rightarrow> mgr \<Rightarrow> mgr" where
  "cleanup_directories w ds m = fold (cleanup_directory w) ds m"

definition ensure_cgroup :: "os \<Rightarrow> str \<Rightarrow> mgr \<Rightarrow> fault + str option \<times> mgr" where
  "ensure_cgroup w name m =
     bnd (unit_at name m) (\<lambda>u.
       case u_cgroup u of
         Some dir \<Rightarrow> Inr (Some dir, m)
       | None \<Rightarrow>
           (case ask (os_cgroup_root w) m of
              (None, m1) \<Rightarrow> Inr (None, m1)
            | (Some root, m1) \<Rightarrow>
                (case ask (\<lambda>t. os_cgroup_create w t root name) m1 of
                   (None, m2) \<Rightarrow> Inr (None, m2)
                 | (Some dir, m2) \<Rightarrow>
                     (let m3 = (case service_cfg u of
                                  Some sc \<Rightarrow> emit (EApplyLimits dir (sc_cgroup_limits sc)) m2
                                | None \<Rightarrow> m2)
                      in bnd (upd_unit name (\<lambda>u. u\<lparr>u_cgroup := Some dir\<rparr>) m3) (\<lambda>m4.
                           Inr (Some dir, m4))))))"

definition socket_fds_for :: "str \<Rightarrow> mgr \<Rightarrow> int list" where
  "socket_fds_for service m =
     sort (map fst (filter (\<lambda>(_, _, svc). svc = service) (m_socket_triggers m)))"

section \<open>End of a start, end of a stop\<close>

definition complete_start_job :: "os \<Rightarrow> recur \<Rightarrow> str \<Rightarrow> step" where
  "complete_start_job w rec name m =
     bnd (case map_of (m_unit_job m) name of
            None \<Rightarrow> Inr m
          | Some j \<Rightarrow>
              bnd (unit_job_at j m) (\<lambda>b.
                if jb_kind b = JStart then finish_job w rec j m else Inr m)) (\<lambda>m1.
       timer_dep_check w name m1)"

definition reset_processes :: "unit_state \<Rightarrow> unit_state" where
  "reset_processes u = u\<lparr>u_main_pid := None, u_group_pid := None, u_cgroup := None,
     u_control_pid := None, u_control_command := None, u_cmd_index := 0,
     u_forked_main_pid := None, u_stop_started := None\<rparr>"

definition finalize_stop :: "os \<Rightarrow> recur \<Rightarrow> str \<Rightarrow> step" where
  "finalize_stop w rec name m =
     bnd (unit_at name m) (\<lambda>u0.
     let dirs = (case service_cfg u0 of Some s \<Rightarrow> sc_directories s | None \<Rightarrow> []);
         m1 = release_bus_name_watch name
                (m\<lparr>m_out_fds := filter (\<lambda>p. snd p \<noteq> name) (m_out_fds m)\<rparr>);
         m2 = (case u_cgroup u0 of Some dir \<Rightarrow> emit (EReleaseCgroup dir) m1 | None \<Rightarrow> m1)
     in bnd (upd_unit name reset_processes m2) (\<lambda>m3.
        bnd (mark w name Inactive SubDead ResSuccess m3) (\<lambda>m4.
        bnd (case map_of (m_unit_job m4) name of
               None \<Rightarrow> Inr m4
             | Some j \<Rightarrow>
                 bnd (unit_job_at j m4) (\<lambda>b.
                   if jb_kind b = JStop \<or> jb_kind b = JRestart then finish_job w rec j m4
                   else Inr m4)) (\<lambda>m5.
          timer_dep_check w name (cleanup_directories w dirs m5)))))"

definition oneshot_done :: "os \<Rightarrow> recur \<Rightarrow> str \<Rightarrow> step" where
  "oneshot_done w rec name m =
     bnd (unit_at name m) (\<lambda>u.
     let remain = (case service_cfg u of Some s \<Rightarrow> sc_remain_after_exit s | None \<Rightarrow> False)
     in bnd (mark w name (if remain then Active else Inactive)
               (if remain then SubExited else SubDead) ResSuccess m)
          (complete_start_job w rec name))"

definition stage_done :: "os \<Rightarrow> recur \<Rightarrow> str \<Rightarrow> control_command \<Rightarrow> step" where
  "stage_done w rec name cmd m =
     (case cmd of
        CtlStartPre \<Rightarrow> rec (CSpawn name CtlStart 0) m
      | CtlStart \<Rightarrow> oneshot_done w rec name m
      | CtlStop \<Rightarrow> finalize_stop w rec name m
      | CtlReload \<Rightarrow> Inr m
      | CtlStartPost \<Rightarrow> Inr m
      | CtlKill \<Rightarrow> Inr m)"

section \<open>Spawning\<close>

definition exec_slice :: "service_config \<Rightarrow> control_command \<Rightarrow> exec_command list" where
  "exec_slice sc cmd =
     (case cmd of
        CtlStartPre \<Rightarrow> sc_exec_start_pre sc
      | CtlStart \<Rightarrow> sc_exec_start sc
      | CtlStartPost \<Rightarrow> sc_exec_start_post sc
      | CtlStop \<Rightarrow> sc_exec_stop sc
      | CtlReload \<Rightarrow> sc_exec_reload sc
      | CtlKill \<Rightarrow> sc_exec_start sc)"

definition add_fd :: "int option \<Rightarrow> str \<Rightarrow> mgr \<Rightarrow> mgr" where
  "add_fd fd name m =
     (case fd of Some f \<Rightarrow> m\<lparr>m_out_fds := hins f name (m_out_fds m)\<rparr> | None \<Rightarrow> m)"

text \<open>After a successful \<open>spawn\<close>.\<close>

definition spawn_ok :: "os \<Rightarrow> recur \<Rightarrow> str \<Rightarrow> control_command \<Rightarrow> service_config \<Rightarrow> spawned \<Rightarrow> step" where
  "spawn_ok w rec name cmd sc sp m0 =
     (let m1 = add_fd (sp_stderr sp) name (add_fd (sp_stdout sp) name m0);
          m2 = m1\<lparr>m_pid_unit := hins (sp_pid sp) name (m_pid_unit m1)\<rparr>;
          (now, m3) = ask (os_now w) m2
      in bnd (upd_unit name (\<lambda>u. u\<lparr>u_control_pid := Some (sp_pid sp), u_control_command := Some cmd,
                u_group_pid := Some (sp_pid sp), u_control_start := Some now\<rparr>) m3) (\<lambda>m4.
         if cmd = CtlStart \<and>
            sc_service_type sc \<in> {Simple, Exec, Idle, Notify, Dbus} then
           bnd (upd_unit name (\<lambda>u. u\<lparr>u_control_pid := None, u_control_command := None,
                  u_main_pid := Some (sp_pid sp)\<rparr>) m4) (\<lambda>m5.
             if sc_service_type sc \<in> {Simple, Exec, Idle} then
               bnd (mark w name Active SubRunning ResSuccess m5) (complete_start_job w rec name)
             else
               bnd (if sc_service_type sc = Dbus
                    then begin_bus_name_wait w rec name (sc_bus_name sc) m5 else Inr m5)
                 (arm_start_timeout w name))
         else if cmd = CtlStart \<and> sc_service_type sc \<noteq> Forking then
           bnd (upd_unit name (\<lambda>u. u\<lparr>u_sub := SubStart\<rparr>) m4) (arm_start_timeout w name)
         else arm_start_timeout w name m4))"

definition spawn_failed ::
    "os \<Rightarrow> recur \<Rightarrow> str \<Rightarrow> control_command \<Rightarrow> exec_command \<Rightarrow> str \<Rightarrow> step" where
  "spawn_failed w rec name cmd exec e m =
     (if ec_ignore_failure exec \<and> cmd \<noteq> CtlStop then stage_done w rec name cmd m
      else bnd (upd_unit name (\<lambda>u. u\<lparr>u_result := ResExec\<rparr>) m)
             (fail_unit w rec name (''Failed to execute: '' @ e)))"

definition fail_with :: "os \<Rightarrow> recur \<Rightarrow> str \<Rightarrow> unit_result \<Rightarrow> str \<Rightarrow> step" where
  "fail_with w rec name res msg m =
     bnd (upd_unit name (\<lambda>u. u\<lparr>u_result := res\<rparr>) m) (fail_unit w rec name msg)"

definition spawn_exec ::
    "os \<Rightarrow> recur \<Rightarrow> str \<Rightarrow> control_command \<Rightarrow> nat \<Rightarrow> service_config \<Rightarrow> exec_command \<Rightarrow> str list \<Rightarrow>
     (str \<times> str) list \<Rightarrow> (nat \<times> nat \<times> nat list) option \<Rightarrow> nat option \<Rightarrow> step" where
  "spawn_exec w rec name cmd idx sc exec argv env user gid m0 =
     bnd (ensure_cgroup w name m0) (\<lambda>(cgroup, m1).
     let opts = \<lparr>so_argv = argv, so_env = env, so_cwd = map_option fst (sc_working_directory sc),
           so_uid = map_option fst user, so_gid = gid,
           so_groups = (case user of Some (_, _, gs) \<Rightarrow> gs | None \<Rightarrow> []), so_nice = sc_nice sc,
           so_umask = sc_umask sc, so_rlimits = sc_rlimits sc,
           so_stdout_target = sc_std_output sc, so_stderr_target = sc_std_error sc,
           so_stdin_null = (\<not> sc_std_input sc),
           so_notify_socket =
             (if sc_service_type sc = Notify
              then Some (path_join (path_join (pa_runtime_dir (cfg_paths (m_cfg m1))) ''rystemd'') ''notify'')
              else None),
           so_listen_fds = socket_fds_for name m1, so_cgroup = cgroup, so_sandbox = sc_sandbox sc\<rparr>;
         (r, m2) = ask (\<lambda>t. os_spawn w t opts) m1;
         m3 = emit (ESpawn name cmd idx) m2
     in case r of
          Inr sp \<Rightarrow> spawn_ok w rec name cmd sc sp m3
        | Inl e \<Rightarrow> spawn_failed w rec name cmd exec e m3)"

text \<open>Resolve \<open>User=\<close> and \<open>Group=\<close>, prepare the directories (for the main command), spawn.\<close>

definition spawn_prepared ::
    "os \<Rightarrow> recur \<Rightarrow> str \<Rightarrow> control_command \<Rightarrow> nat \<Rightarrow> service_config \<Rightarrow> exec_command \<Rightarrow> str list \<Rightarrow>
     (str \<times> str) list \<Rightarrow> step" where
  "spawn_prepared w rec name cmd idx sc exec argv env m0 =
     (let (user, m1) = (case sc_user sc of
            Some n \<Rightarrow> ask (\<lambda>t. os_resolve_user w t n) m0 | None \<Rightarrow> (None, m0)) in
      case (sc_user sc, user) of
        (Some n, None) \<Rightarrow>
          fail_with w rec name ResUser (''User='' @ n @ '' could not be resolved'') m1
      | _ \<Rightarrow>
        (let (gid, m2) = (case sc_group sc of
               Some n \<Rightarrow> ask (\<lambda>t. os_resolve_group w t n) m1 | None \<Rightarrow> (None, m1)) in
         case (sc_group sc, gid) of
           (Some n, None) \<Rightarrow>
             fail_with w rec name ResGroup (''Group='' @ n @ '' could not be resolved'') m2
         | _ \<Rightarrow>
           (let (e, m3) = (if cmd = CtlStart then apply_directories w sc (sc_directories sc) m2
                           else (None, m2)) in
            case e of
              Some msg \<Rightarrow> fail_with w rec name ResResources msg m3
            | None \<Rightarrow> spawn_exec w rec name cmd idx sc exec argv env user gid m3)))"

definition spawn_control :: "os \<Rightarrow> recur \<Rightarrow> str \<Rightarrow> control_command \<Rightarrow> nat \<Rightarrow> step" where
  "spawn_control w rec name cmd idx m =
     bnd (unit_at name m) (\<lambda>u.
       case service_cfg u of
         None \<Rightarrow> stage_done w rec name cmd m
       | Some sc \<Rightarrow>
           (let cmds = exec_slice sc cmd in
            if idx < length cmds then
              (let exec = cmds ! idx;
                   (env, m1) = build_env w u m
               in spawn_prepared w rec name cmd idx sc exec (expand_env_argv (ec_argv exec) env) env m1)
            else stage_done w rec name cmd m))"

section \<open>Sockets and mounts\<close>

definition socket_added :: "str \<Rightarrow> str \<Rightarrow> str \<Rightarrow> int \<Rightarrow> mgr \<Rightarrow> mgr" where
  "socket_added name service spec fd m =
     m\<lparr>m_socket_listeners := hins fd spec (m_socket_listeners m),
       m_socket_triggers := hins fd (name, service) (m_socket_triggers m)\<rparr>"

text \<open>The loop over the listen specifications of one kind; False when a bind failed and the
  unit was failed.\<close>

fun bind_all :: "os \<Rightarrow> recur \<Rightarrow> str \<Rightarrow> str \<Rightarrow> (listen_kind \<times> str) list \<Rightarrow> mgr \<Rightarrow> fault + bool \<times> mgr" where
  "bind_all w rec name service [] m = Inr (True, m)"
| "bind_all w rec name service ((k, spec) # specs) m =
     (case ask (\<lambda>t. os_bind w t k spec) m of
        (Inr fd, m1) \<Rightarrow> bind_all w rec name service specs (socket_added name service spec fd m1)
      | (Inl e, m1) \<Rightarrow>
          bnd (fail_with w rec name ResResources (''Failed to bind socket '' @ spec @ '': '' @ e) m1)
            (\<lambda>m2. Inr (False, m2)))"

definition start_socket :: "os \<Rightarrow> recur \<Rightarrow> str \<Rightarrow> step" where
  "start_socket w rec name m =
     bnd (unit_at name m) (\<lambda>u.
       case socket_cfg u of
         None \<Rightarrow> bnd (mark w name Active SubDead ResSuccess m) (complete_start_job w rec name)
       | Some scfg \<Rightarrow>
           if \<not> cfg_socket_activation (m_cfg m)
           then bnd (mark w name Active SubDead ResSuccess m) (complete_start_job w rec name)
           else bnd (bind_all w rec name (activated_service u)
                  (map (Pair ListenStream) (sk_listen_stream scfg) @
                   map (Pair ListenDatagram) (sk_listen_datagram scfg) @
                   map (Pair ListenNetlink) (sk_listen_netlink scfg) @
                   map (Pair ListenSeqpacket) (sk_listen_sequential_packet scfg)) m) (\<lambda>(ok, m1).
                  if ok then bnd (mark w name Active SubRunning ResSuccess m1) (complete_start_job w rec name)
                  else Inr m1))"

definition close_socket :: "int \<Rightarrow> mgr \<Rightarrow> mgr" where
  "close_socket fd m =
     emit (ECloseSocket fd) (m\<lparr>m_socket_listeners := hdel fd (m_socket_listeners m),
       m_socket_triggers := hdel fd (m_socket_triggers m)\<rparr>)"

definition stop_socket :: "os \<Rightarrow> recur \<Rightarrow> str \<Rightarrow> step" where
  "stop_socket w rec name m =
     finalize_stop w rec name
       (fold close_socket (map fst (filter (\<lambda>(_, n, _). n = name) (m_socket_triggers m))) m)"

definition mount_flag_of :: "str \<Rightarrow> mount_flag option" where
  "mount_flag_of t = map_of [(''ro'', MsRdonly), (''nosuid'', MsNosuid), (''nodev'', MsNodev),
     (''noexec'', MsNoexec), (''sync'', MsSynchronous), (''noatime'', MsNoatime),
     (''nodiratime'', MsNodiratime)] t"

definition mount_ignored :: "str list" where
  "mount_ignored = [''rw'', ''suid'', ''dev'', ''exec'', ''async'', ''atime'', ''diratime'', ''relatime'',
     ''strictatime'']"

definition split_options :: "str option \<Rightarrow> mount_flag list \<times> str option" where
  "split_options options =
     (case options of
        None \<Rightarrow> ([], None)
      | Some o' \<Rightarrow>
          (let toks = filter (\<lambda>t. t \<noteq> []) (map trim (split_char (CHR '','') o'));
               data = filter (\<lambda>t. mount_flag_of t = None \<and> \<not> List.member mount_ignored t) toks
           in (remdups (List.map_filter mount_flag_of toks),
               if data = [] then None else Some (str_join '','' data))))"

definition start_mount :: "os \<Rightarrow> recur \<Rightarrow> str \<Rightarrow> step" where
  "start_mount w rec name m =
     bnd (unit_at name m) (\<lambda>u.
       case mount_cfg u of
         None \<Rightarrow> fail_unit w rec name ''missing [Mount] section'' m
       | Some cfg \<Rightarrow>
           (case mc_where cfg of
              None \<Rightarrow> fail_unit w rec name ''no Where= mount point'' m
            | Some target \<Rightarrow>
                if target = [] then fail_unit w rec name ''no Where= mount point'' m
                else case mc_fs_type cfg of
                  None \<Rightarrow> fail_unit w rec name ''no Type= filesystem type'' m
                | Some fstype \<Rightarrow>
                    if fstype = [] then fail_unit w rec name ''no Type= filesystem type'' m
                    else
                      (let (flags, data) = split_options (mc_options cfg);
                           (r, m1) = ask (\<lambda>t. os_mount w t (mc_what cfg) target fstype flags data) m;
                           m2 = emit (EMount (mc_what cfg) target fstype flags data) m1
                       in case r of
                            None \<Rightarrow> bnd (mark w name Active SubMounted ResSuccess m2)
                                      (complete_start_job w rec name)
                          | Some e \<Rightarrow> fail_with w rec name ResResources
                                      (''mount '' @ target @ '' failed: '' @ e) m2)))"

definition stop_mount :: "os \<Rightarrow> recur \<Rightarrow> str \<Rightarrow> step" where
  "stop_mount w rec name m =
     bnd (unit_at name m) (\<lambda>u.
       case Option.bind (mount_cfg u) mc_where of
         None \<Rightarrow> finalize_stop w rec name m
       | Some target \<Rightarrow>
           if target = [] then finalize_stop w rec name m
           else (let (r, m1) = ask (\<lambda>t. os_umount w t target) m;
                     m2 = emit (EUmount target) m1
                 in case r of
                      None \<Rightarrow> finalize_stop w rec name m2
                    | Some e \<Rightarrow> fail_with w rec name ResResources
                                (''unmount '' @ target @ '' failed: '' @ e) m2))"

section \<open>Unit types\<close>

definition glob_parent :: "str \<Rightarrow> str option" where
  "glob_parent path =
     (case rfind_idx (CHR ''/'') path of
        Some i \<Rightarrow> if i > 0 then Some (take i path) else None
      | None \<Rightarrow> None)"

definition begin_start :: "unit_state \<Rightarrow> unit_state" where
  "begin_start u = u\<lparr>u_main_pid := None, u_group_pid := None, u_control_pid := None,
     u_control_command := None, u_cmd_index := 0, u_forked_main_pid := None,
     u_result := ResSuccess\<rparr>"

definition service_start :: "os \<Rightarrow> recur \<Rightarrow> str \<Rightarrow> step" where
  "service_start w rec name m =
     (case get_unit m name of
        None \<Rightarrow> Inr m
      | Some u \<Rightarrow>
          bnd (upd_unit name begin_start m) (\<lambda>m1.
          bnd (mark w name Activating SubStartPre ResSuccess m1) (\<lambda>m2.
            let has_pre = (case service_cfg u of Some s \<Rightarrow> sc_exec_start_pre s \<noteq> [] | None \<Rightarrow> False)
            in rec (CSpawn name (if has_pre then CtlStartPre else CtlStart) 0) m2)))"

definition service_stop :: "os \<Rightarrow> recur \<Rightarrow> str \<Rightarrow> step" where
  "service_stop w rec name m =
     bnd (unit_has_processes w name m) (\<lambda>(has_main, m1).
       case get_unit m1 name of
         None \<Rightarrow> Inr m1
       | Some u \<Rightarrow>
           (let sc = service_cfg u;
                sig = (case Option.bind sc sc_kill_signal of Some s \<Rightarrow> s | None \<Rightarrow> sigterm);
                no_exec_stop = (case sc of Some s \<Rightarrow> sc_exec_stop s = [] | None \<Rightarrow> True)
            in if has_main then
                 bnd (upd_unit name (\<lambda>u. u\<lparr>u_sub := SubStopSigterm\<rparr>) (kill_tree name sig m1))
                   (arm_stop_timeout w name)
               else if no_exec_stop then finalize_stop w rec name m1
               else bnd (upd_unit name (\<lambda>u. u\<lparr>u_sub := SubStop\<rparr>) m1)
                      (rec (CSpawn name CtlStop 0))))"

text \<open>Targets, timers and devices have no process: active at once.\<close>

definition marker_start :: "os \<Rightarrow> recur \<Rightarrow> str \<Rightarrow> step" where
  "marker_start w rec name m =
     (if has_unit m name
      then bnd (mark w name Active SubDead ResSuccess m) (complete_start_job w rec name)
      else Inr m)"

definition path_start :: "os \<Rightarrow> recur \<Rightarrow> str \<Rightarrow> step" where
  "path_start w rec name m =
     (let dirs = (case Option.bind (get_unit m name) path_cfg of
            None \<Rightarrow> []
          | Some pc \<Rightarrow>
              if pc_make_directory pc
              then pc_path_changed pc @ pc_directory_not_empty pc @
                   List.map_filter glob_parent (pc_path_exists_glob pc)
              else [])
      in marker_start w rec name (fold (\<lambda>d. emit (ECreateDir d True)) dirs m))"

definition do_start :: "os \<Rightarrow> recur \<Rightarrow> str \<Rightarrow> step" where
  "do_start w rec name m =
     (case map_option u_kind (get_unit m name) of
        Some Timer \<Rightarrow> marker_start w rec name m
      | Some Target \<Rightarrow> marker_start w rec name m
      | Some Device \<Rightarrow> marker_start w rec name m
      | Some Path \<Rightarrow> path_start w rec name m
      | Some Socket \<Rightarrow> start_socket w rec name m
      | Some Mount \<Rightarrow> start_mount w rec name m
      | _ \<Rightarrow> service_start w rec name m)"

definition do_stop :: "os \<Rightarrow> recur \<Rightarrow> str \<Rightarrow> step" where
  "do_stop w rec name m =
     bnd (mark w name Deactivating SubStop ResSuccess m) (\<lambda>m1.
     let (now, m2) = ask (os_now w) m1 in
     bnd (upd_unit name (\<lambda>u. u\<lparr>u_stop_started := Some now\<rparr>) m2) (\<lambda>m3.
       case map_option u_kind (get_unit m3 name) of
         Some Timer \<Rightarrow> finalize_stop w rec name m3
       | Some Target \<Rightarrow> finalize_stop w rec name m3
       | Some Device \<Rightarrow> finalize_stop w rec name m3
       | Some Path \<Rightarrow> finalize_stop w rec name m3
       | Some Socket \<Rightarrow> stop_socket w rec name m3
       | Some Mount \<Rightarrow> stop_mount w rec name m3
       | _ \<Rightarrow> service_stop w rec name m3))"

end
