(* ===== verification/Path_Watch.thy ===== *)
theory Path_Watch
  imports Engine_State
begin

text \<open>
  The watch conditions of \<open>.path\<close> units (\<open>eval_path_triggers\<close>, \<open>path_changed_triggered\<close>,
  \<open>matches_glob_any\<close>, \<open>glob_match\<close> of \<^verbatim>\<open>rystemd/src/manager/mod.rs\<close>). The file system is asked
  one question per call, in the order of the code, and the tests short-circuit as its \<open>any\<close>
  does. The glob matcher is specified by a declarative match relation.
\<close>

section \<open>Globs\<close>

text \<open>\<open>any k \<le> length name. rec(rest, name[k..])\<close> is a search over the suffixes.\<close>

function glob_match :: "str \<Rightarrow> str \<Rightarrow> bool" where
  "glob_match [] name = (name = [])"
| "glob_match (c # pat) name =
     (if c = CHR ''*'' then
        list_ex (\<lambda>k. glob_match (dropWhile (\<lambda>x. x = CHR ''*'') pat) (drop k name)) [0..<Suc (length name)]
      else if c = CHR ''?'' then (case name of [] \<Rightarrow> False | _ # r \<Rightarrow> glob_match pat r)
      else (case name of [] \<Rightarrow> False | d # r \<Rightarrow> d = c \<and> glob_match pat r))"
  by pat_completeness auto

termination glob_match
  by (relation "measure (\<lambda>(p, _). length p)") (auto simp: less_Suc_eq_le length_dropWhile_le)

inductive glob :: "str \<Rightarrow> str \<Rightarrow> bool" where
  glob_nil: "glob [] []"
| glob_star: "glob pat r \<Longrightarrow> glob (CHR ''*'' # pat) (s @ r)"
| glob_any: "glob pat r \<Longrightarrow> glob (CHR ''?'' # pat) (d # r)"
| glob_char: "glob pat r \<Longrightarrow> c \<noteq> CHR ''*'' \<Longrightarrow> c \<noteq> CHR ''?'' \<Longrightarrow> glob (c # pat) (c # r)"

inductive_cases glob_nilE: "glob [] name"
inductive_cases glob_consE: "glob (c # pat) name"

lemma glob_stars: "glob (CHR ''*'' # pat) name \<longleftrightarrow>
    glob (CHR ''*'' # dropWhile (\<lambda>x. x = CHR ''*'') pat) name"
proof (induction pat arbitrary: name)
  case (Cons c pat)
  show ?case
  proof (cases "c = CHR ''*''")
    case True
    have "glob (CHR ''*'' # CHR ''*'' # pat) name \<longleftrightarrow> glob (CHR ''*'' # pat) name"
    proof
      assume "glob (CHR ''*'' # CHR ''*'' # pat) name"
      then obtain s r where "name = s @ r" "glob (CHR ''*'' # pat) r" by (auto elim: glob_consE)
      then obtain s' r' where "name = (s @ s') @ r'" "glob pat r'" by (auto elim!: glob_consE)
      then show "glob (CHR ''*'' # pat) name" by (metis glob_star)
    next
      assume "glob (CHR ''*'' # pat) name"
      then show "glob (CHR ''*'' # CHR ''*'' # pat) name" using glob_star [of _ name "[]"] by simp
    qed
    with True Cons.IH [of name] show ?thesis by simp
  qed simp
qed simp

lemma glob_star_iff: "glob (CHR ''*'' # pat) name \<longleftrightarrow> (\<exists>k \<le> length name. glob pat (drop k name))"
proof
  assume "glob (CHR ''*'' # pat) name"
  then obtain s r where "name = s @ r" "glob pat r" by (auto elim: glob_consE)
  then show "\<exists>k \<le> length name. glob pat (drop k name)" by (intro exI [of _ "length s"]) simp
next
  assume "\<exists>k \<le> length name. glob pat (drop k name)"
  then show "glob (CHR ''*'' # pat) name" by (metis append_take_drop_id glob_star)
qed

lemma glob_match_iff: "glob_match pat name \<longleftrightarrow> glob pat name"
proof (induction pat name rule: glob_match.induct)
  case (1 name)
  then show ?case by (auto intro: glob_nil elim: glob_nilE)
next
  case (2 c pat name)
  consider "c = CHR ''*''" | "c = CHR ''?''" | "c \<noteq> CHR ''*''" "c \<noteq> CHR ''?''" by blast
  then show ?case
  proof cases
    case 1
    have "glob_match (c # pat) name \<longleftrightarrow>
        (\<exists>k \<le> length name. glob_match (dropWhile (\<lambda>x. x = CHR ''*'') pat) (drop k name))"
      using 1 by (auto simp: list_ex_iff less_Suc_eq_le simp del: upt_Suc)
    also have "\<dots> \<longleftrightarrow> (\<exists>k \<le> length name. glob (dropWhile (\<lambda>x. x = CHR ''*'') pat) (drop k name))"
      using "2.IH"(1) [OF 1] by (auto simp: less_Suc_eq_le simp del: upt_Suc)
    also have "\<dots> \<longleftrightarrow> glob (c # pat) name"
      using glob_stars [of pat name] glob_star_iff 1 by simp
    finally show ?thesis .
  next
    case 2
    with "2.IH"(2) show ?thesis
      by (cases name) (auto intro: glob_any elim!: glob_consE)
  next
    case 3
    with "2.IH"(3) show ?thesis
      by (cases name) (auto intro: glob_char elim!: glob_consE)
  qed
qed

section \<open>Watch conditions\<close>

definition matches_glob_any :: "os \<Rightarrow> str \<Rightarrow> mgr \<Rightarrow> bool \<times> mgr" where
  "matches_glob_any w pattern m =
     (let (parent, g) = (case rfind_idx (CHR ''/'') pattern of
            Some i \<Rightarrow> (take i pattern, drop (i + 1) pattern)
          | None \<Rightarrow> ([], pattern))
      in if \<not> List.member g (CHR ''*'') \<and> \<not> List.member g (CHR ''?'')
         then ask (\<lambda>t. os_exists w t pattern) m
         else (case ask (\<lambda>t. os_list_dir w t (if parent = [] then ''.'' else parent)) m of
                 (None, m1) \<Rightarrow> (False, m1)
               | (Some names, m1) \<Rightarrow> (list_ex (glob_match g) names, m1)))"

fun any_asked :: "('x \<Rightarrow> mgr \<Rightarrow> bool \<times> mgr) \<Rightarrow> 'x list \<Rightarrow> mgr \<Rightarrow> bool \<times> mgr" where
  "any_asked q [] m = (False, m)"
| "any_asked q (x # xs) m = (case q x m of (True, m1) \<Rightarrow> (True, m1) | (False, m1) \<Rightarrow> any_asked q xs m1)"

text \<open>\<open>now\<close> is the modification time of the path, \<open>None\<close> when it is absent.\<close>

definition path_changed_triggered :: "str \<Rightarrow> nat option \<Rightarrow> path_state \<Rightarrow> bool \<times> path_state" where
  "path_changed_triggered path now st =
     (let rec_time = st\<lparr>ps_armed_mtimes := hins path now (ps_armed_mtimes st)\<rparr> in
      case (map_of (ps_armed_mtimes st) path, now) of
        (None, _) \<Rightarrow> (False, rec_time)
      | (Some None, Some _) \<Rightarrow> (True, rec_time)
      | (Some (Some prev), Some t) \<Rightarrow> if prev \<noteq> t then (True, rec_time) else (False, st)
      | (Some (Some _), None) \<Rightarrow> (False, rec_time)
      | (Some None, None) \<Rightarrow> (False, st))"

fun any_changed :: "os \<Rightarrow> str list \<Rightarrow> path_state \<Rightarrow> mgr \<Rightarrow> (bool \<times> path_state) \<times> mgr" where
  "any_changed w [] st m = ((False, st), m)"
| "any_changed w (p # ps) st m =
     (case ask (\<lambda>t. os_mtime w t p) m of (now, m1) \<Rightarrow>
        (case path_changed_triggered p now st of
           (True, st1) \<Rightarrow> ((True, st1), m1)
         | (False, st1) \<Rightarrow> any_changed w ps st1 m1))"

definition dir_not_empty :: "os \<Rightarrow> str \<Rightarrow> mgr \<Rightarrow> bool \<times> mgr" where
  "dir_not_empty w p m =
     (case ask (\<lambda>t. os_list_dir w t p) m of
        (Some (_ # _), m1) \<Rightarrow> (True, m1)
      | (_, m1) \<Rightarrow> (False, m1))"

definition eval_path_triggers :: "os \<Rightarrow> path_config \<Rightarrow> path_state \<Rightarrow> mgr \<Rightarrow>
    (bool \<times> path_state) \<times> mgr" where
  "eval_path_triggers w pc st m =
     (case any_asked (\<lambda>p. ask (\<lambda>t. os_exists w t p)) (pc_path_exists pc) m of
        (True, m1) \<Rightarrow> ((True, st), m1)
      | (False, m1) \<Rightarrow>
          (case any_asked (dir_not_empty w) (pc_directory_not_empty pc) m1 of
             (True, m2) \<Rightarrow> ((True, st), m2)
           | (False, m2) \<Rightarrow>
               (case any_asked (matches_glob_any w) (pc_path_exists_glob pc) m2 of
                  (True, m3) \<Rightarrow> ((True, st), m3)
                | (False, m3) \<Rightarrow> any_changed w (pc_path_changed pc) st m3)))"

section \<open>Properties\<close>

text \<open>C12. The backtracking glob matcher decides the declarative match relation: a star stands
  for any text, a question mark for one character, any other character for itself.\<close>

theorem glob_match_correct: "glob_match pat name \<longleftrightarrow> glob pat name"
  by (rule glob_match_iff)

text \<open>Observing a path over time: the triggers of a sequence of modification times.\<close>

fun observe :: "str \<Rightarrow> nat option list \<Rightarrow> path_state \<Rightarrow> bool list" where
  "observe p [] st = []"
| "observe p (t # ts) st =
     (case path_changed_triggered p t st of (b, st1) \<Rightarrow> b # observe p ts st1)"

fun changes :: "nat option \<Rightarrow> nat option list \<Rightarrow> bool list" where
  "changes prev [] = []"
| "changes prev (t # ts) = (t \<noteq> None \<and> t \<noteq> prev) # changes t ts"

lemma observe_changes:
  "map_of (ps_armed_mtimes st) p = Some prev \<Longrightarrow> observe p ts st = changes prev ts"
proof (induction ts arbitrary: st prev)
  case (Cons t ts)
  obtain b st1 where step: "path_changed_triggered p t st = (b, st1)" by fastforce
  have "b = (t \<noteq> None \<and> t \<noteq> prev) \<and> map_of (ps_armed_mtimes st1) p = Some t"
    using Cons.prems step
    by (auto simp: path_changed_triggered_def Let_def split: option.splits if_splits)
  with Cons.IH [of st1 t] step show ?case by simp
qed simp

text \<open>A \<open>PathChanged=\<close> watch records the first observation without firing, and from then on
  fires exactly at the observations where the path exists and its modification time differs
  from the previous observation (absence counts as a time of its own).\<close>

theorem path_changed_fires_on_change:
  assumes "map_of (ps_armed_mtimes st) p = None"
  shows "observe p (t # ts) st = False # changes t ts"
proof -
  have "path_changed_triggered p t st =
      (False, st\<lparr>ps_armed_mtimes := hins p t (ps_armed_mtimes st)\<rparr>)"
    using assms by (simp add: path_changed_triggered_def Let_def)
  then show ?thesis by (simp add: observe_changes)
qed

theorem path_changed_fires_on_change_witness:
  "observe ''/f'' [Some 1, Some 1, Some 2, None, Some 2] \<lparr>ps_armed_mtimes = [], ps_triggered = False\<rparr> =
    [False, False, True, False, True]"
  using path_changed_fires_on_change [of "\<lparr>ps_armed_mtimes = [], ps_triggered = False\<rparr>" "''/f''"
      "Some 1" "[Some 1, Some 2, None, Some 2]"]
  by simp

end
