(* ===== verification/Engine.thy ===== *)
theory Engine
  imports Services Path_Watch
begin

text \<open>
  The manager as a whole: the recursion of the job engine tied together, the control requests
  (start, stop, restart, reload, kill, shutdown, ...), and the reactions to events of the
  outside world (exited processes, timers, watched paths, readiness messages, bus names,
  devices, signals). \<open>run w n\<close> interprets the calls of the job engine with recursion depth
  \<open>n\<close>; the event handlers take the interpretation \<open>rec\<close> as an argument.
\<close>

section \<open>Tying the recursion\<close>

definition dispatch :: "os \<Rightarrow> recur \<Rightarrow> recur" where
  "dispatch w rec c m =
     (case c of
        CTryAdvance j \<Rightarrow> bnd (try_advance_job w rec j m) (\<lambda>(_, m1). Inr m1)
      | CEnqueueStart name mode \<Rightarrow> enqueue_start_job_mode w rec name mode m
      | CEnqueueStop name next mode \<Rightarrow> enqueue_stop_job_after_mode w rec name next mode m
      | CDoStart name \<Rightarrow> do_start w rec name m
      | CDoStop name \<Rightarrow> do_stop w rec name m
      | CSpawn name cmd idx \<Rightarrow> spawn_control w rec name cmd idx m
      | CStart name \<Rightarrow> bnd (start_unit w rec name m) (\<lambda>(_, m1). Inr m1)
      | CProcess \<Rightarrow> process_jobs w rec m)"

primrec run :: "os \<Rightarrow> nat \<Rightarrow> recur" where
  "run w 0 = (\<lambda>c m. Inl OutOfFuel)"
| "run w (Suc n) = dispatch w (run w n)"

section \<open>Control requests\<close>

type_synonym 'a reply = "fault + (ctl_error + 'a) \<times> mgr"

definition start_ignore_dependencies :: "os \<Rightarrow> recur \<Rightarrow> str \<Rightarrow> mgr \<Rightarrow> unit reply" where
  "start_ignore_dependencies w rec name m =
     (if \<not> has_unit m name then Inr (Inl (UnitNotFound name), m)
      else if unit_active m name then Inr (Inr (), m)
      else
        let m1 = (case map_of (m_unit_job m) name of
                    None \<Rightarrow> m
                  | Some j \<Rightarrow>
                      m\<lparr>m_unit_job := hdel name (m_unit_job m),
                        m_jobs := map (\<lambda>(i, b). (i, drop_waits name b)) (hdel j (m_jobs m))\<rparr>);
            (m2, j) = new_job JStart name [] Replace m1
        in bnd (maybe_start_job w rec j m2) (\<lambda>m3.
           bnd (process_jobs w rec m3) (\<lambda>m4. Inr (Inr (), m4))))"

definition stop_with_mode :: "os \<Rightarrow> recur \<Rightarrow> str \<Rightarrow> job_mode \<Rightarrow> mgr \<Rightarrow> nat option reply" where
  "stop_with_mode w rec name mode m =
     (if \<not> has_unit m name then Inr (Inl (UnitNotFound name), m)
      else if \<not> unit_operational m name then Inr (Inr None, m)
      else
        let current = Option.bind (map_of (m_unit_job m) name) (\<lambda>j. map_option (Pair j) (get_job m j));
            fresh = (\<lambda>m1. let j = m_next_job m1 + 1 in
              bnd (enqueue_stop_job_after_mode w rec name None mode m1) (\<lambda>m2.
              bnd (process_jobs w rec m2) (\<lambda>m3. Inr (Inr (Some j), m3))))
        in case current of
             None \<Rightarrow> fresh m
           | Some (j, b) \<Rightarrow>
               if jb_kind b = JStop \<or> jb_kind b = JRestart then
                 (if mode = ReplaceIrreversibly
                  then bnd (upd_job j (\<lambda>b. b\<lparr>jb_mode := mode\<rparr>) m) (\<lambda>m1. Inr (Inr (Some j), m1))
                  else Inr (Inr (Some j), m))
               else bnd (cancel_job w rec j MsgCanceledStop m) fresh)"

definition stop_unit :: "os \<Rightarrow> recur \<Rightarrow> str \<Rightarrow> mgr \<Rightarrow> unit reply" where
  "stop_unit w rec name m =
     bnd (stop_with_mode w rec name Replace m) (\<lambda>(r, m1).
       Inr (case r of Inl e \<Rightarrow> Inl e | Inr _ \<Rightarrow> Inr (), m1))"

text \<open>\<open>restart\<close> of an operational unit: drop a pending start job, stop, and start again after
  the stop. A socket unit also restarts its running service; that recursive call is counted by
  its own fuel.\<close>

definition restart_stop :: "os \<Rightarrow> recur \<Rightarrow> str \<Rightarrow> mgr \<Rightarrow> fault + bool \<times> mgr" where
  "restart_stop w rec name m =
     (let current = Option.bind (map_of (m_unit_job m) name) (\<lambda>j. map_option (Pair j) (get_job m j));
          stop = (\<lambda>m1. bnd (enqueue_stop_job_after_mode w rec name (Some name) Replace m1) (\<lambda>m2.
                    bnd (process_jobs w rec m2) (\<lambda>m3. Inr (True, m3))))
      in case current of
           None \<Rightarrow> stop m
         | Some (j, b) \<Rightarrow>
             if jb_kind b = JRestart then Inr (False, m)
             else if jb_kind b = JStart
             then stop (m\<lparr>m_unit_job := hdel name (m_unit_job m), m_jobs := hdel j (m_jobs m)\<rparr>)
             else stop m)"

primrec restart :: "nat \<Rightarrow> os \<Rightarrow> recur \<Rightarrow> str \<Rightarrow> mgr \<Rightarrow> unit reply" where
  "restart 0 w rec name m = Inl OutOfFuel"
| "restart (Suc n) w rec name m =
     (case get_unit m name of
        None \<Rightarrow> Inr (Inl (UnitNotFound name), m)
      | Some u \<Rightarrow>
          if unit_operational m name then
            bnd (restart_stop w rec name m) (\<lambda>(more, m1).
              if more \<and> u_kind u = Socket \<and> unit_operational m1 (activated_service u)
              then restart n w rec (activated_service u) m1
              else Inr (Inr (), m1))
          else start_unit w rec name m)"

definition reload :: "os \<Rightarrow> recur \<Rightarrow> str \<Rightarrow> mgr \<Rightarrow> unit reply" where
  "reload w rec name m =
     (case get_unit m name of
        None \<Rightarrow> Inr (Inl (UnitNotFound name), m)
      | Some u \<Rightarrow>
          (case service_cfg u of
             Some s \<Rightarrow>
               if sc_exec_reload s = [] then Inr (Inl (NoExecReload name), m)
               else bnd (spawn_control w rec name CtlReload 0 m) (\<lambda>m1. Inr (Inr (), m1))
           | None \<Rightarrow> Inr (Inl (NoExecReload name), m)))"

definition kill_unit :: "os \<Rightarrow> str \<Rightarrow> int \<Rightarrow> mgr \<Rightarrow> unit reply" where
  "kill_unit w name sig m =
     bnd (unit_has_processes w name m) (\<lambda>(alive, m1).
       if \<not> alive then Inr (Inl (NoProcesses name), m1)
       else Inr (Inr (), kill_tree name sig m1))"

definition shutdown :: "os \<Rightarrow> recur \<Rightarrow> step" where
  "shutdown w rec m =
     (if m_shutting_down m then Inr m
      else
        let (names, m1) = unit_names_where w (\<lambda>u. u_active u \<noteq> Inactive)
              (m\<lparr>m_shutting_down := True, m_wheel := wheel_default\<rparr>)
        in bnd (fold_res (\<lambda>n m. bnd (stop_unit w rec n m) (\<lambda>(_, m'). Inr m')) names m1)
             (process_jobs w rec))"

definition idle :: "mgr \<Rightarrow> bool" where
  "idle m \<longleftrightarrow> m_jobs m = [] \<and> \<not> has_service_timers (m_wheel m)"

datatype job_state = JobRunning | JobWaiting

definition list_jobs :: "mgr \<Rightarrow> (nat \<times> str \<times> job_kind \<times> job_state) list" where
  "list_jobs m =
     List.map_filter (\<lambda>j. map_option (\<lambda>b. (j, jb_unit b, jb_kind b,
         if jb_waiting b = [] then JobRunning else JobWaiting)) (get_job m j))
       (sort (hkeys (m_jobs m)))"

datatype job_report = JobPending str | JobDone job_status

definition job_status_of :: "mgr \<Rightarrow> nat list \<Rightarrow> (nat \<times> job_report) list" where
  "job_status_of m ids =
     List.map_filter (\<lambda>j. case get_job m j of
         Some b \<Rightarrow> Some (j, JobPending (jb_unit b))
       | None \<Rightarrow> map_option (\<lambda>s. (j, JobDone s)) (map_of (m_completed_jobs m) j)) ids"

definition log_levels :: "str list" where
  "log_levels = [''emerg'', ''alert'', ''crit'', ''err'', ''warning'', ''notice'', ''info'', ''debug'']"

definition set_log_level :: "str \<Rightarrow> mgr \<Rightarrow> (str + unit) \<times> mgr" where
  "set_log_level level m =
     (let l = lower level in
      if List.member log_levels l then (Inr (), m\<lparr>m_log_level := l\<rparr>) else (Inl l, m))"

section \<open>Exited processes\<close>

definition exit_success :: "service_config option \<Rightarrow> int \<Rightarrow> int option \<Rightarrow> bool" where
  "exit_success sc ecode signal =
     (case sc of
        Some s \<Rightarrow>
          (case signal of
             Some sig \<Rightarrow> ex_matches (effective_exit_success s) None (Some sig)
           | None \<Rightarrow> ex_matches (effective_exit_success s) (Some ecode) None)
      | None \<Rightarrow> ecode = 0 \<and> signal = None)"

definition signal_display :: "(int \<times> str) list" where
  "signal_display = [(1, ''SIGHUP''), (2, ''SIGINT''), (3, ''SIGQUIT''), (9, ''SIGKILL''),
     (15, ''SIGTERM''), (17, ''SIGCHLD'')]"

definition signal_name :: "int \<Rightarrow> str" where
  "signal_name sig =
     (case Option.bind (sig_from_name (show_int sig)) (map_of signal_display) of
        Some n \<Rightarrow> n | None \<Rightarrow> show_int sig)"

definition describe_exit :: "int \<Rightarrow> int option \<Rightarrow> str" where
  "describe_exit ecode signal =
     (case signal of
        Some sig \<Rightarrow> ''killed by signal '' @ signal_name sig
      | None \<Rightarrow> ''exited with status '' @ show_int ecode)"

definition exit_result :: "int option \<Rightarrow> unit_result" where
  "exit_result signal = (if signal \<noteq> None then ResSignal else ResExitCode)"

definition should_restart :: "restart_policy \<Rightarrow> bool \<Rightarrow> int option \<Rightarrow> bool" where
  "should_restart policy ok signal =
     (case policy of
        RestartNo \<Rightarrow> False
      | RestartAlways \<Rightarrow> True
      | OnSuccess \<Rightarrow> ok
      | OnFailure \<Rightarrow> \<not> ok
      | OnAbnormal \<Rightarrow> signal \<noteq> None
      | OnAbort \<Rightarrow> signal \<noteq> None
      | OnWatchdog \<Rightarrow> False)"

definition handle_active_exit :: "os \<Rightarrow> recur \<Rightarrow> str \<Rightarrow> int \<Rightarrow> int option \<Rightarrow> step" where
  "handle_active_exit w rec name ecode signal m =
     bnd (unit_at name m) (\<lambda>u.
     let sc = service_cfg u;
         ok = exit_success sc ecode signal;
         policy = (case sc of Some s \<Rightarrow> sc_restart s | None \<Rightarrow> RestartNo);
         delay = (case Option.bind (map_option sc_restart_sec sc) as_duration of Some d \<Rightarrow> d | None \<Rightarrow> 0);
         remain = (case sc of Some s \<Rightarrow> sc_remain_after_exit s | None \<Rightarrow> False)
     in if should_restart policy ok signal then
          bnd (check_start_limit w name m) (\<lambda>(hit, m1).
            if hit then
              bnd (upd_unit name (\<lambda>u. u\<lparr>u_result := ResStartLimitHit\<rparr>) m1) (\<lambda>m2.
              bnd (mark w name Failed SubFailed ResStartLimitHit m2) (poke_failed w rec name))
            else
              bnd (mark w name Activating SubAutoRestart ResSuccess m1) (\<lambda>m2.
              bnd (upd_unit name (\<lambda>u. u\<lparr>u_n_restarts := u_n_restarts u + 1\<rparr>) m2) (\<lambda>m3.
                let (now, m4) = ask (os_now w) m3 in Inr (add_timer (now + delay) RestartDelay name m4))))
        else if ok then
          bnd (mark w name (if remain then Active else Inactive)
                 (if remain then SubExited else SubDead) ResSuccess m) (\<lambda>m1.
          bnd (complete_start_job w rec name m1) (timer_dep_check w name))
        else
          bnd (upd_unit name (\<lambda>u. u\<lparr>u_result := exit_result signal\<rparr>) m) (\<lambda>m1.
          bnd (mark w name Failed SubFailed (exit_result signal) m1) (\<lambda>m2.
          bnd (poke_failed w rec name m2) (fire_on_failure w rec name))))"

definition sweep_orphaned_group :: "os \<Rightarrow> str \<Rightarrow> pid \<Rightarrow> step" where
  "sweep_orphaned_group w name pgid m =
     bnd (unit_at name m) (\<lambda>u.
       case service_cfg u of
         None \<Rightarrow> Inr m
       | Some s \<Rightarrow>
           if sc_service_type s = Forking then Inr m
           else (case ask (\<lambda>t. os_group_alive w t pgid) m of
                   (False, m1) \<Rightarrow> Inr m1
                 | (True, m1) \<Rightarrow>
                     Inr (if sc_kill_mode s = KillControlGroup
                          then emit (EKillGroup pgid sigkill) m1 else m1)))"

definition on_stop_main_exit :: "os \<Rightarrow> recur \<Rightarrow> str \<Rightarrow> step" where
  "on_stop_main_exit w rec name m = finalize_stop w rec name (kill_tree_kill name m)"

definition note_main_exit :: "int \<Rightarrow> int option \<Rightarrow> unit_state \<Rightarrow> unit_state" where
  "note_main_exit ecode signal u =
     u\<lparr>u_main_pid := None, u_group_pid := None,
       u_last_exit_code := (if signal = None then Some ecode else None),
       u_last_exit_signal := signal\<rparr>"

definition main_exit :: "os \<Rightarrow> recur \<Rightarrow> str \<Rightarrow> int \<Rightarrow> int option \<Rightarrow> step" where
  "main_exit w rec name ecode signal m =
     bnd (unit_at name m) (\<lambda>u.
     bnd (upd_unit name (note_main_exit ecode signal) m) (\<lambda>m1.
     let ok = exit_success (service_cfg u) ecode signal in
     bnd (case u_group_pid u of
            Some pgid \<Rightarrow> if u_active u = Active then sweep_orphaned_group w name pgid m1 else Inr m1
          | None \<Rightarrow> Inr m1) (\<lambda>m2.
       case u_active u of
         Deactivating \<Rightarrow> on_stop_main_exit w rec name m2
       | Activating \<Rightarrow>
           (let m3 = release_bus_name_watch name m2 in
            if ok then mark w name Inactive SubDead ResSuccess m3
            else bnd (upd_unit name (\<lambda>u. u\<lparr>u_result := exit_result signal\<rparr>) m3)
                   (fail_unit w rec name (describe_exit ecode signal)))
       | _ \<Rightarrow> handle_active_exit w rec name ecode signal m2)))"

definition run_start_post_or_finish :: "os \<Rightarrow> recur \<Rightarrow> str \<Rightarrow> step" where
  "run_start_post_or_finish w rec name m =
     bnd (unit_at name m) (\<lambda>u.
       if (case service_cfg u of Some s \<Rightarrow> sc_exec_start_post s \<noteq> [] | None \<Rightarrow> False)
       then spawn_control w rec name CtlStartPost 0 m
       else oneshot_done w rec name m)"

definition read_forked_pidfile :: "os \<Rightarrow> str \<Rightarrow> mgr \<Rightarrow> fault + pid option \<times> mgr" where
  "read_forked_pidfile w name m =
     bnd (unit_at name m) (\<lambda>u.
       case Option.bind (service_cfg u) sc_pid_file of
         None \<Rightarrow> Inr (None, m)
       | Some pf \<Rightarrow>
           (case ask (\<lambda>t. os_read_file w t pf) m of
              (None, m1) \<Rightarrow> Inr (None, m1)
            | (Some txt, m1) \<Rightarrow>
                Inr (case parse_i32 (trim txt) of
                       Some p \<Rightarrow> if p > 0 then Some p else None
                     | None \<Rightarrow> None, m1)))"

definition handle_forking_start_done :: "os \<Rightarrow> recur \<Rightarrow> str \<Rightarrow> step" where
  "handle_forking_start_done w rec name m =
     bnd (read_forked_pidfile w name m) (\<lambda>(pid, m1).
     bnd (case pid of
            Some p \<Rightarrow>
              bnd (upd_unit name (\<lambda>u. u\<lparr>u_forked_main_pid := Some p, u_main_pid := Some p\<rparr>) m1) (\<lambda>m2.
                Inr (m2\<lparr>m_pid_unit := hins p name (m_pid_unit m2)\<rparr>))
          | None \<Rightarrow> Inr m1) (\<lambda>m3.
     bnd (mark w name Active SubRunning ResSuccess m3) (complete_start_job w rec name)))"

definition clear_control :: "unit_state \<Rightarrow> unit_state" where
  "clear_control u = u\<lparr>u_control_pid := None, u_group_pid := None, u_control_command := None\<rparr>"

text \<open>The end of a start command, by service type.\<close>

definition start_command_exit ::
    "os \<Rightarrow> recur \<Rightarrow> str \<Rightarrow> service_config option \<Rightarrow> nat \<Rightarrow> bool \<Rightarrow> int \<Rightarrow> int option \<Rightarrow> step" where
  "start_command_exit w rec name sc cidx ok ecode signal m =
     (case (case sc of Some s \<Rightarrow> sc_service_type s | None \<Rightarrow> Simple) of
        Oneshot \<Rightarrow>
          if ok then
            (if (case sc of Some s \<Rightarrow> length (sc_exec_start s) > cidx + 1 | None \<Rightarrow> False)
             then bnd (upd_unit name (\<lambda>u. u\<lparr>u_cmd_index := cidx + 1\<rparr>) m)
                    (spawn_control w rec name CtlStart (cidx + 1))
             else bnd (upd_unit name (\<lambda>u. u\<lparr>u_cmd_index := 0\<rparr>) m)
                    (run_start_post_or_finish w rec name))
          else fail_with w rec name ResExitCode (''ExecStart failed: '' @ describe_exit ecode signal) m
      | Forking \<Rightarrow> handle_forking_start_done w rec name m
      | _ \<Rightarrow> main_exit w rec name ecode signal m)"

definition handle_control_exit :: "os \<Rightarrow> recur \<Rightarrow> str \<Rightarrow> int \<Rightarrow> int option \<Rightarrow> step" where
  "handle_control_exit w rec name ecode signal m =
     bnd (unit_at name m) (\<lambda>u.
     let ccmd = u_control_command u; cidx = u_cmd_index u; sc = service_cfg u;
         stopping = (u_active u = Deactivating)
     in bnd (upd_unit name clear_control m) (\<lambda>m1.
        let current_is_stop =
              (case Option.bind (map_of (m_unit_job m1) name) (get_job m1) of
                 Some b \<Rightarrow> jb_kind b = JStop | None \<Rightarrow> False);
            ignore = (case sc of
                Some s \<Rightarrow> ccmd = Some CtlStart \<and> cidx < length (sc_exec_start s) \<and>
                          ec_ignore_failure (sc_exec_start s ! cidx)
              | None \<Rightarrow> False);
            ok = exit_success sc ecode signal \<or> ignore;
            remain = (case sc of Some s \<Rightarrow> sc_remain_after_exit s | None \<Rightarrow> False)
        in if ccmd = Some CtlStop \<and> \<not> current_is_stop then Inr m1
           else if stopping then finalize_stop w rec name m1
           else case ccmd of
             Some CtlStartPre \<Rightarrow>
               if ok then spawn_control w rec name CtlStart 0 m1
               else fail_with w rec name ResExitCode
                      (''ExecStartPre failed: '' @ describe_exit ecode signal) m1
           | Some CtlStart \<Rightarrow> start_command_exit w rec name sc cidx ok ecode signal m1
           | Some CtlStartPost \<Rightarrow>
               bnd (mark w name (if remain then Active else Inactive)
                      (if remain then SubExited else SubDead) ResSuccess m1)
                 (complete_start_job w rec name)
           | Some CtlStop \<Rightarrow> finalize_stop w rec name m1
           | Some CtlReload \<Rightarrow> Inr m1
           | Some CtlKill \<Rightarrow> Inr m1
           | None \<Rightarrow> main_exit w rec name ecode signal m1))"

definition handle_process_exit :: "os \<Rightarrow> recur \<Rightarrow> str \<Rightarrow> pid \<Rightarrow> int \<Rightarrow> int option \<Rightarrow> step" where
  "handle_process_exit w rec name pid ecode signal m =
     (if map_option u_kind (get_unit m name) = Some Target then Inr m
      else if Option.bind (get_unit m name) u_control_pid = Some pid
      then handle_control_exit w rec name ecode signal m
      else main_exit w rec name ecode signal m)"

definition reap_one :: "os \<Rightarrow> recur \<Rightarrow> pid \<times> child_exit \<Rightarrow> step" where
  "reap_one w rec pe m =
     (case pe of (pid, e) \<Rightarrow>
        let name = map_of (m_pid_unit m) pid;
            m1 = m\<lparr>m_pid_unit := hdel pid (m_pid_unit m)\<rparr>
        in case name of
             None \<Rightarrow> Inr m1
           | Some n \<Rightarrow>
               (case e of
                  Exited c \<Rightarrow> handle_process_exit w rec n pid c None m1
                | Signaled s \<Rightarrow> handle_process_exit w rec n pid 0 (Some s) m1))"

definition reap :: "os \<Rightarrow> recur \<Rightarrow> step" where
  "reap w rec m = (let (children, m1) = ask (os_reap w) m in fold_res (reap_one w rec) children m1)"


section \<open>Timers that fire\<close>

definition fire_service_timer :: "os \<Rightarrow> recur \<Rightarrow> str \<Rightarrow> timer_kind \<Rightarrow> step" where
  "fire_service_timer w rec name kind m =
     (case kind of
        RestartDelay \<Rightarrow>
          if map_option u_sub (get_unit m name) = Some SubAutoRestart
          then bnd (do_start w rec name m) (process_jobs w rec) else Inr m
      | StartTimeout \<Rightarrow>
          if map_option u_active (get_unit m name) = Some Activating
          then bnd (upd_unit name (\<lambda>u. u\<lparr>u_result := ResTimeout\<rparr>) m) (\<lambda>m1.
                 fail_unit w rec name ''start operation timed out'' (kill_tree_kill name m1))
          else Inr m
      | StopTimeout \<Rightarrow>
          if map_option u_active (get_unit m name) = Some Deactivating
          then finalize_stop w rec name (kill_tree_kill name m) else Inr m
      | _ \<Rightarrow> Inr m)"

definition note_trigger :: "os \<Rightarrow> timer_kind \<Rightarrow> nat \<Rightarrow> timer_state \<Rightarrow> mgr \<Rightarrow> timer_state \<times> mgr" where
  "note_trigger w kind epoch ts m =
     (let (wall, m1) = ask (os_wall w) m; ts1 = ts\<lparr>ts_last_trigger := Some wall\<rparr>
      in case kind of
           CalendarElapse idx \<Rightarrow> (ts1\<lparr>ts_last_trigger_calendar := Some (epoch, idx)\<rparr>, m1)
         | MonotonicElapse \<Rightarrow>
             (let (now, m2) = ask (os_now w) m1 in (ts1\<lparr>ts_last_trigger_monotonic := Some now\<rparr>, m2))
         | _ \<Rightarrow> (ts1, m1))"

definition fire_timer :: "os \<Rightarrow> recur \<Rightarrow> str \<Rightarrow> timer_kind \<Rightarrow> step" where
  "fire_timer w rec name kind m =
     (case get_unit m name of
        None \<Rightarrow> fire_service_timer w rec name kind m
      | Some u \<Rightarrow>
          if u_kind u \<noteq> Timer then fire_service_timer w rec name kind m
          else
            (let (wall, m1) = ask (os_wall w) m;
                 m2 = (case u_timer u of
                         None \<Rightarrow> m1
                       | Some ts \<Rightarrow>
                           (let (ts', m') = note_trigger w kind (wall div 1000000) ts m1
                            in m'\<lparr>m_units := hins name (u\<lparr>u_timer := Some ts'\<rparr>) (m_units m')\<rparr>))
             in bnd (start_unit w rec (activated_unit u) m2) (\<lambda>(_, m3).
                bnd (rearm_timer w name m3) (process_jobs w rec))))"

section \<open>Watched paths\<close>

definition path_candidates :: "os \<Rightarrow> mgr \<Rightarrow> (str \<times> str \<times> path_config) list \<times> mgr" where
  "path_candidates w m =
     (let (names, m1) = unit_names_where w (\<lambda>u. u_kind u = Path \<and> u_active u = Active) m
      in (List.map_filter (\<lambda>n. Option.bind (get_unit m1 n) (\<lambda>u.
            map_option (\<lambda>pc. (n, activated_path_target u, pc)) (path_cfg u))) names, m1))"

definition quiescent :: "mgr \<Rightarrow> str \<Rightarrow> bool" where
  "quiescent m target \<longleftrightarrow> \<not> unit_operational m target"

definition path_state_default :: path_state where
  "path_state_default = \<lparr>ps_armed_mtimes = [], ps_triggered = False\<rparr>"

text \<open>The first loop of \<open>poll_paths\<close>: the watches that fire, and their new states. \<open>quiet\<close> is
  the set of quiescent targets, computed before the loop.\<close>

fun poll_watches :: "os \<Rightarrow> str list \<Rightarrow> (str \<times> str \<times> path_config) list \<Rightarrow> mgr \<Rightarrow>
    fault + str list \<times> mgr" where
  "poll_watches w quiet [] m = Inr ([], m)"
| "poll_watches w quiet ((name, target, pc) # cs) m =
     bnd (unit_at name m) (\<lambda>u.
     let st = (case u_path_state u of Some s \<Rightarrow> s | None \<Rightarrow> path_state_default);
         ((hit, st1), m1) =
           (if List.member quiet target
            then eval_path_triggers w pc (st\<lparr>ps_triggered := False\<rparr>) m
            else ((False, st), m));
         st2 = (if hit then st1\<lparr>ps_triggered := True\<rparr> else st1)
     in bnd (upd_unit name (\<lambda>u. u\<lparr>u_path_state := Some st2\<rparr>) m1) (\<lambda>m2.
        bnd (poll_watches w quiet cs m2) (\<lambda>(fired, m3).
          Inr (if hit then target # fired else fired, m3))))"

definition fire_path :: "os \<Rightarrow> recur \<Rightarrow> str \<Rightarrow> step" where
  "fire_path w rec target m =
     bnd (start_unit w rec target m) (\<lambda>(_, m1). process_jobs w rec m1)"

definition poll_paths :: "os \<Rightarrow> recur \<Rightarrow> step" where
  "poll_paths w rec m =
     (let (cands, m1) = path_candidates w m;
          quiet = filter (quiescent m1) (map (fst \<circ> snd) cands)
      in bnd (poll_watches w quiet cands m1) (\<lambda>(fired, m2). fold_res (fire_path w rec) fired m2))"

section \<open>The periodic tick\<close>

definition tick :: "os \<Rightarrow> recur \<Rightarrow> nat \<Rightarrow> step" where
  "tick w rec now m =
     (let (due, wheel) = pop_due now (m_wheel m) in
      bnd (fold_res (\<lambda>e. fire_timer w rec (te_unit e) (te_kind e)) due (m\<lparr>m_wheel := wheel\<rparr>)) (\<lambda>m1.
      bnd (poll_paths w rec m1) (\<lambda>m2.
      bnd (reap w rec m2) (process_jobs w rec))))"

section \<open>Readiness and bus names\<close>

fun notify_fields :: "str list \<Rightarrow> bool \<times> int option \<Rightarrow> bool \<times> int option" where
  "notify_fields [] st = st"
| "notify_fields (kv # kvs) (ready, mainpid) =
     notify_fields kvs
       (case split_once ''='' kv of
          None \<Rightarrow> (ready, mainpid)
        | Some (k, v) \<Rightarrow>
            if k = ''READY'' \<and> v = ''1'' then (True, mainpid)
            else if k = ''MAINPID'' then (ready, parse_i32 (trim v))
            else (ready, mainpid))"

definition notify_candidate :: "unit_state \<Rightarrow> bool" where
  "notify_candidate u \<longleftrightarrow>
     map_option sc_service_type (service_cfg u) = Some Notify \<and>
     (u_active u = Activating \<or> u_active u = Active)"

definition notify_target :: "mgr \<Rightarrow> str list \<Rightarrow> int option \<Rightarrow> str option" where
  "notify_target m candidates mainpid =
     (let first = (case candidates of c # _ \<Rightarrow> Some c | [] \<Rightarrow> None) in
      case mainpid of
        None \<Rightarrow> first
      | Some mp \<Rightarrow>
          (case find (\<lambda>c. map_of (m_pid_unit m) mp = Some c) candidates of
             Some c \<Rightarrow> Some c
           | None \<Rightarrow> first))"

definition handle_notify_datagram :: "os \<Rightarrow> recur \<Rightarrow> str \<Rightarrow> step" where
  "handle_notify_datagram w rec txt m =
     (let (ready, mainpid) = notify_fields (split_char (CHR 0x0A) txt) (False, None);
          (candidates, m1) = unit_names_where w notify_candidate m
      in case notify_target m1 candidates mainpid of
           None \<Rightarrow> Inr m1
         | Some name \<Rightarrow>
             bnd (unit_at name m1) (\<lambda>u.
               if ready \<and> u_active u = Activating
               then bnd (mark w name Active SubRunning ResSuccess m1) (complete_start_job w rec name)
               else Inr m1))"

definition handle_name_acquired :: "os \<Rightarrow> recur \<Rightarrow> str \<Rightarrow> step" where
  "handle_name_acquired w rec bus m =
     (case map_of (m_pending_bus_names m) bus of
        None \<Rightarrow> Inr m
      | Some name \<Rightarrow>
          (let m1 = release_name bus m in
           if map_option u_active (get_unit m1 name) = Some Activating
           then bnd (mark w name Active SubRunning ResSuccess m1) (complete_start_job w rec name)
           else Inr m1))"

section \<open>Child output\<close>

text \<open>A chunk read from an output pipe; the empty chunk is the end of the stream.\<close>

definition read_output :: "int \<Rightarrow> str \<Rightarrow> mgr \<Rightarrow> mgr" where
  "read_output fd chunk m =
     (case map_of (m_out_fds m) fd of
        None \<Rightarrow> m
      | Some name \<Rightarrow>
          if chunk = [] then m\<lparr>m_out_fds := hdel fd (m_out_fds m)\<rparr>
          else (case get_unit m name of
                  None \<Rightarrow> m
                | Some u \<Rightarrow>
                    m\<lparr>m_units := hins name (u\<lparr>u_log := log_push_chunk chunk (u_log u)\<rparr>) (m_units m)\<rparr>))"

section \<open>Devices\<close>

definition empty_unit_config :: unit_config where
  "empty_unit_config = \<lparr>uc_description = [], uc_after = [], uc_before = [], uc_requires = [],
     uc_requisite = [], uc_wants = [], uc_conflicts = [], uc_on_failure = [], uc_part_of = [],
     uc_binds_to = [], uc_default_dependencies = False, uc_documentation = [], uc_conditions = []\<rparr>"

definition empty_install :: install_config where
  "empty_install = \<lparr>ic_wanted_by = [], ic_required_by = [], ic_also = [], ic_alias = []\<rparr>"

definition bare_unit_file :: "str \<Rightarrow> unit_file" where
  "bare_unit_file descr = \<lparr>uf_path = None, uf_unit = empty_unit_config\<lparr>uc_description := descr\<rparr>,
     uf_service = None, uf_timer = None, uf_path_unit = None, uf_socket = None, uf_mount = None,
     uf_install = empty_install\<rparr>"

definition udev_unit_file :: "device \<Rightarrow> unit_file" where
  "udev_unit_file d =
     bare_unit_file (dv_subsystem d @ '' '' @ (if dv_devname d = [] then sysname d else dv_devname d))"

definition add_device_unit :: "os \<Rightarrow> device \<Rightarrow> str \<Rightarrow> mgr \<Rightarrow> mgr" where
  "add_device_unit w d name m =
     (if has_unit m name then m
      else
        (let (wall, m1) = ask (os_wall w) m;
             u = (unit_new wall name Device)\<lparr>u_load := Loaded, u_file := Some (udev_unit_file d)\<rparr>;
             (wall2, m2) = ask (os_wall w) m1;
             (u', seq) = set_active wall2 Active SubDead ResSuccess (m_next_invocation m2) u
         in m2\<lparr>m_units := hins name u' (m_units m2), m_next_invocation := seq\<rparr>))"

definition udev_register :: "os \<Rightarrow> device \<Rightarrow> mgr \<Rightarrow> mgr" where
  "udev_register w d m =
     fold (add_device_unit w d) (device_unit_names d)
       (m\<lparr>m_udev_devices := hins (dv_devpath d) d (m_udev_devices m)\<rparr>)"

definition udev_remove :: "device \<Rightarrow> mgr \<Rightarrow> mgr" where
  "udev_remove d m =
     m\<lparr>m_udev_devices := hdel (dv_devpath d) (m_udev_devices m),
       m_units := fold hdel (device_unit_names d) (m_units m)\<rparr>"

fun udev_process :: "os \<Rightarrow> (uevent_action \<times> device) list \<Rightarrow> mgr \<Rightarrow> mgr" where
  "udev_process w [] m = m"
| "udev_process w ((a, d) # evs) m =
     udev_process w evs
       (case a of
          URemove \<Rightarrow> udev_remove d m
        | UOther \<Rightarrow> m
        | _ \<Rightarrow> udev_register w d m)"

section \<open>Reload of the unit files and signals\<close>

definition preserve_runtime :: "unit_state \<Rightarrow> unit_state \<Rightarrow> unit_state" where
  "preserve_runtime old u =
     (if u_active old = Inactive then u
      else u\<lparr>u_main_pid := u_main_pid old, u_group_pid := u_group_pid old, u_cgroup := u_cgroup old,
             u_control_pid := u_control_pid old, u_control_command := u_control_command old,
             u_active := u_active old, u_sub := u_sub old, u_log := u_log old\<rparr>)"

definition unit_kind_of :: "str \<Rightarrow> unit_kind" where
  "unit_kind_of name = (case kind_from_unit_name name of Some k \<Rightarrow> k | None \<Rightarrow> Service)"

text \<open>The unit table built from disk: \<open>next\<close> so far, the load errors so far.\<close>

fun load_units :: "os \<Rightarrow> str list \<Rightarrow> unit_table \<Rightarrow> str list \<Rightarrow> mgr \<Rightarrow>
    unit_table \<times> str list \<times> mgr" where
  "load_units w [] next errors m = (next, errors, m)"
| "load_units w (name # names) next errors m =
     (case load_unit w name m of
        (Inr (Some u), m1) \<Rightarrow>
          (let u' = (case get_unit m1 name of Some old \<Rightarrow> preserve_runtime old u | None \<Rightarrow> u)
           in load_units w names (hins name u' next) errors m1)
      | (Inr None, m1) \<Rightarrow> load_units w names next errors m1
      | (Inl e, m1) \<Rightarrow>
          (let (wall, m2) = ask (os_wall w) m1;
               u = (unit_new wall name (unit_kind_of name))\<lparr>u_load := LoadError, u_load_error := Some e\<rparr>
           in load_units w names (hins name u next) (errors @ [name @ '': '' @ e]) m2))"

definition load_all :: "os \<Rightarrow> mgr \<Rightarrow> fault + str list \<times> mgr" where
  "load_all w m =
     (let (names, m1) = ask (os_discover w) m;
          (next, errors, m2) = load_units w names [] [] m1;
          m3 = m2\<lparr>m_units := next\<rparr>;
          m4 = fold (udev_register w) (map snd (m_udev_devices m3)) m3
      in bnd (rearm_all_timers w m4) (\<lambda>m5. Inr (errors, m5)))"

definition handle_signal :: "os \<Rightarrow> recur \<Rightarrow> int \<Rightarrow> step" where
  "handle_signal w rec sig m =
     (if sig = 17 then reap w rec m
      else if sig = 15 \<or> sig = 2 \<or> sig = 3 then shutdown w rec m
      else if sig = 1 then bnd (load_all w m) (\<lambda>(_, m1). Inr m1)
      else Inr m)"

end
