(* ===== verification/Engine_Inv.thy ===== *)
theory Engine_Inv
  imports Engine
begin

text \<open>
  The invariant of the job engine and its preservation by every operation. \<open>wf\<close> says that the
  unit-to-job index is exact where it points, that no runnable start job is for an unknown unit,
  that every tracked process belongs to a known unit, that no start window exceeds its burst, and
  that job numbers stay below the counter. \<open>ext\<close> relates two states of one run: units are never
  dropped, jobs keep their identity, and no job disappears without a recorded result.

  \<open>safe\<close> is the outcome: the operation ends in a well-formed extension of its state, or runs out
  of recursion depth, or aborts on a job that vanished (the one panic the code does not exclude);
  it never aborts on a missing unit or on a stale index entry. The locale \<open>engine_rec\<close> states this
  of the recursive calls; all operations are proved safe inside it, and \<open>run w n\<close> is an
  interpretation for every depth.
\<close>

section \<open>Invariant and extension\<close>

definition wf_parts :: "unit_table \<Rightarrow> (nat \<times> job) list \<Rightarrow> (str \<times> nat) list \<Rightarrow> nat \<Rightarrow>
    (pid \<times> str) list \<Rightarrow> bool" where
  "wf_parts units jobs unit_job next pids \<longleftrightarrow>
     (\<forall>n j. map_of unit_job n = Some j \<longrightarrow> (\<exists>b. map_of jobs j = Some b \<and> jb_unit b = n)) \<and>
     (\<forall>j b. map_of jobs j = Some b \<longrightarrow>
        j \<le> next \<and> (jb_kind b = JStart \<longrightarrow> jb_failed b \<or> map_of units (jb_unit b) \<noteq> None)) \<and>
     (\<forall>p n. map_of pids p = Some n \<longrightarrow> map_of units n \<noteq> None) \<and>
     (\<forall>n u. map_of units n = Some u \<longrightarrow> length (u_start_window u) \<le> start_limit_burst)"

definition wf :: "mgr \<Rightarrow> bool" where
  "wf m \<longleftrightarrow> wf_parts (m_units m) (m_jobs m) (m_unit_job m) (m_next_job m) (m_pid_unit m)"

definition answered :: "mgr \<Rightarrow> nat \<Rightarrow> bool" where
  "answered m j \<longleftrightarrow> map_of (m_jobs m) j \<noteq> None \<or> map_of (m_completed_jobs m) j \<noteq> None"

definition ext :: "mgr \<Rightarrow> mgr \<Rightarrow> bool" where
  "ext m m' \<longleftrightarrow>
     (\<forall>n. map_of (m_units m) n \<noteq> None \<longrightarrow> map_of (m_units m') n \<noteq> None) \<and>
     m_next_job m \<le> m_next_job m' \<and>
     (\<forall>j b'. map_of (m_jobs m') j = Some b' \<longrightarrow> j \<le> m_next_job m \<longrightarrow>
        (\<exists>b. map_of (m_jobs m) j = Some b \<and> jb_unit b' = jb_unit b \<and> jb_kind b' = jb_kind b)) \<and>
     (\<forall>j. answered m j \<longrightarrow> answered m' j) \<and>
     (\<forall>j. m_next_job m < j \<longrightarrow> j \<le> m_next_job m' \<longrightarrow> answered m' j)"

definition tame :: "fault \<Rightarrow> bool" where
  "tame f \<longleftrightarrow> f = OutOfFuel \<or> (\<exists>j. f = PanicJob j)"

definition safe_to :: "('a \<Rightarrow> mgr) \<Rightarrow> mgr \<Rightarrow> fault + 'a \<Rightarrow> bool" where
  "safe_to sel m r \<longleftrightarrow> (case r of Inl f \<Rightarrow> tame f | Inr x \<Rightarrow> wf (sel x) \<and> ext m (sel x))"

abbreviation safe :: "mgr \<Rightarrow> fault + mgr \<Rightarrow> bool" where
  "safe \<equiv> safe_to (\<lambda>m. m)"

abbreviation safe2 :: "mgr \<Rightarrow> fault + 'a \<times> mgr \<Rightarrow> bool" where
  "safe2 \<equiv> safe_to snd"

lemma wf_index:
  "wf m \<Longrightarrow> map_of (m_unit_job m) n = Some j \<Longrightarrow> \<exists>b. map_of (m_jobs m) j = Some b \<and> jb_unit b = n"
  by (simp add: wf_def wf_parts_def)

lemma wf_job:
  "wf m \<Longrightarrow> map_of (m_jobs m) j = Some b \<Longrightarrow>
   j \<le> m_next_job m \<and> (jb_kind b = JStart \<longrightarrow> jb_failed b \<or> map_of (m_units m) (jb_unit b) \<noteq> None)"
  unfolding wf_def wf_parts_def by blast

lemma wf_pid: "wf m \<Longrightarrow> map_of (m_pid_unit m) p = Some n \<Longrightarrow> map_of (m_units m) n \<noteq> None"
  unfolding wf_def wf_parts_def by blast

lemma wf_window: "wf m \<Longrightarrow> map_of (m_units m) n = Some u \<Longrightarrow> length (u_start_window u) \<le> start_limit_burst"
  unfolding wf_def wf_parts_def by blast

lemma wfI:
  assumes "\<And>n j. map_of (m_unit_job m) n = Some j \<Longrightarrow> \<exists>b. map_of (m_jobs m) j = Some b \<and> jb_unit b = n"
    and "\<And>j b. map_of (m_jobs m) j = Some b \<Longrightarrow>
      j \<le> m_next_job m \<and> (jb_kind b = JStart \<longrightarrow> jb_failed b \<or> map_of (m_units m) (jb_unit b) \<noteq> None)"
    and "\<And>p n. map_of (m_pid_unit m) p = Some n \<Longrightarrow> map_of (m_units m) n \<noteq> None"
    and "\<And>n u. map_of (m_units m) n = Some u \<Longrightarrow> length (u_start_window u) \<le> start_limit_burst"
  shows "wf m"
  unfolding wf_def wf_parts_def using assms by blast

lemma ext_refl [simp, intro]: "ext m m"
  by (simp add: ext_def)

lemma ext_job:
  "ext m m' \<Longrightarrow> map_of (m_jobs m') j = Some b' \<Longrightarrow> j \<le> m_next_job m \<Longrightarrow>
   \<exists>b. map_of (m_jobs m) j = Some b \<and> jb_unit b' = jb_unit b \<and> jb_kind b' = jb_kind b"
  by (simp add: ext_def)

lemma ext_trans:
  assumes "ext m m'" "ext m' m''"
  shows "ext m m''"
  unfolding ext_def
proof (intro conjI allI impI)
  fix j b''
  assume b'': "map_of (m_jobs m'') j = Some b''" and j: "j \<le> m_next_job m"
  then have "j \<le> m_next_job m'" using assms(1) by (simp add: ext_def)
  from ext_job [OF assms(2) b'' this] obtain b' where
    b': "map_of (m_jobs m') j = Some b'" "jb_unit b'' = jb_unit b'" "jb_kind b'' = jb_kind b'" by blast
  from ext_job [OF assms(1) b'(1) j] b'
  show "\<exists>b. map_of (m_jobs m) j = Some b \<and> jb_unit b'' = jb_unit b \<and> jb_kind b'' = jb_kind b" by auto
next
  fix j
  assume "m_next_job m < j" "j \<le> m_next_job m''"
  then show "answered m'' j" using assms by (cases "j \<le> m_next_job m'") (simp_all add: ext_def)
qed (use assms in \<open>simp_all add: ext_def\<close>)

lemma ext_unit: "ext m m' \<Longrightarrow> get_unit m n \<noteq> None \<Longrightarrow> get_unit m' n \<noteq> None"
  by (simp add: ext_def get_unit_def)

lemma ext_has: "ext m m' \<Longrightarrow> has_unit m n \<Longrightarrow> has_unit m' n"
  by (simp add: has_unit_def ext_unit)

lemma safe_Inr [simp]: "safe_to sel m (Inr x) \<longleftrightarrow> wf (sel x) \<and> ext m (sel x)"
  by (simp add: safe_to_def)

lemma safe_Inl [simp]: "safe_to sel m (Inl f) \<longleftrightarrow> tame f"
  by (simp add: safe_to_def)

lemma tame_simps [simp]: "tame OutOfFuel" "tame (PanicJob j)"
  by (simp_all add: tame_def)

lemma safe_ext: "ext m0 m \<Longrightarrow> safe_to sel m r \<Longrightarrow> safe_to sel m0 r"
  by (cases r) (auto intro: ext_trans)

text \<open>\<open>j\<close> is the number of a start job, finished or not.\<close>

definition start_id :: "mgr \<Rightarrow> nat \<Rightarrow> bool" where
  "start_id m j \<longleftrightarrow> j \<le> m_next_job m \<and> (\<forall>b. get_job m j = Some b \<longrightarrow> jb_kind b = JStart)"

lemma ext_start_id: "ext m m' \<Longrightarrow> start_id m j \<Longrightarrow> start_id m' j"
  unfolding start_id_def get_job_def
proof (intro conjI allI impI)
  fix b'
  assume e: "ext m m'" and j: "j \<le> m_next_job m \<and> (\<forall>b. map_of (m_jobs m) j = Some b \<longrightarrow> jb_kind b = JStart)"
    and b': "map_of (m_jobs m') j = Some b'"
  from ext_job [OF e b'] j show "jb_kind b' = JStart" by auto
qed (auto simp: ext_def)

lemma safe_bnd:
  assumes "safe_to sel m r"
    and "\<And>x. r = Inr x \<Longrightarrow> wf (sel x) \<Longrightarrow> ext m (sel x) \<Longrightarrow>
      \<forall>n. has_unit m n \<longrightarrow> has_unit (sel x) n \<Longrightarrow>
      \<forall>j. start_id m j \<longrightarrow> start_id (sel x) j \<Longrightarrow> safe_to sel' (sel x) (f x)"
  shows "safe_to sel' m (bnd r f)"
  using assms by (cases r) (auto intro: safe_ext simp: ext_has ext_start_id)

text \<open>Reading steps: they return a value and leave the state alone.\<close>

lemma safe_bnd_read:
  assumes "case r of Inl f \<Rightarrow> tame f | Inr x \<Rightarrow> safe_to sel m (f x)"
  shows "safe_to sel m (bnd r f)"
  using assms by (cases r) auto

lemma safe_fold:
  assumes "wf m" "\<And>x m. wf m \<Longrightarrow> x \<in> set xs \<Longrightarrow> safe m (f x m)"
  shows "safe m (fold_res f xs m)"
  using assms
proof (induction xs arbitrary: m)
  case (Cons x xs)
  show ?case
    by (simp, rule safe_bnd) (use Cons in auto)
qed simp

section \<open>Basic steps\<close>

text \<open>States that agree on what \<open>wf\<close> and \<open>ext\<close> look at.\<close>

definition same_core :: "mgr \<Rightarrow> mgr \<Rightarrow> bool" where
  "same_core m m' \<longleftrightarrow> m_units m' = m_units m \<and> m_jobs m' = m_jobs m \<and>
     m_unit_job m' = m_unit_job m \<and> m_next_job m' = m_next_job m \<and> m_pid_unit m' = m_pid_unit m \<and>
     m_completed_jobs m' = m_completed_jobs m"

lemma same_core_refl [simp]: "same_core m m"
  by (simp add: same_core_def)

lemma same_core_trans: "same_core m m' \<Longrightarrow> same_core m' m'' \<Longrightarrow> same_core m m''"
  by (simp add: same_core_def)

lemma same_core_wf: "same_core m m' \<Longrightarrow> wf m' = wf m"
  by (simp add: same_core_def wf_def)

lemma same_core_ext: "same_core m m' \<Longrightarrow> ext m m'"
  by (simp add: same_core_def ext_def answered_def)

lemma same_core_units: "same_core m m' \<Longrightarrow> get_unit m' n = get_unit m n"
  by (simp add: same_core_def get_unit_def)

lemma same_core_jobs: "same_core m m' \<Longrightarrow> get_job m' j = get_job m j"
  by (simp add: same_core_def get_job_def)

lemma ask_core: "ask q m = (r, m') \<Longrightarrow> same_core m m'"
  by (auto simp: ask_def same_core_def)

lemma job_ids_core: "job_ids w m = (ids, m') \<Longrightarrow> same_core m m'"
  by (simp add: job_ids_def ask_core)

lemma unit_names_core: "unit_names w m = (ns, m') \<Longrightarrow> same_core m m'"
  by (simp add: unit_names_def ask_core)

lemma unit_names_where_core: "unit_names_where w P m = (ns, m') \<Longrightarrow> same_core m m'"
  by (auto simp: unit_names_where_def split: prod.splits dest: unit_names_core)

lemma unit_names_where_has:
  assumes "unit_names_where w P m = (ns, m')" "n \<in> set ns"
  shows "has_unit m' n"
proof -
  have "get_unit m n \<noteq> None"
    using assms by (auto simp: unit_names_where_def split: prod.splits option.splits)
  then show ?thesis
    using same_core_units [OF unit_names_where_core [OF assms(1)], of n] by (simp add: has_unit_def)
qed

text \<open>A step over a state with the same core.\<close>

lemma safe_core: "same_core m m' \<Longrightarrow> safe_to sel m' r \<Longrightarrow> safe_to sel m r"
  by (rule safe_ext [OF same_core_ext])

lemma emit_core [simp]: "same_core m (emit e m)"
  by (simp add: emit_def same_core_def)

lemma get_unit_hins [simp]:
  "get_unit (m\<lparr>m_units := hins n u us\<rparr>) n' = (if n' = n then Some u else map_of us n')"
  by (simp add: get_unit_def)

text \<open>Replacing a known unit by one with an admissible start window.\<close>

lemma put_unit:
  assumes "wf m" "length (u_start_window u) \<le> start_limit_burst"
  shows "wf (m\<lparr>m_units := hins n u (m_units m)\<rparr>) \<and> ext m (m\<lparr>m_units := hins n u (m_units m)\<rparr>)"
  using assms by (auto simp: wf_def wf_parts_def ext_def answered_def)

lemma upd_unit_safe:
  assumes "wf m" "has_unit m n" "\<And>u. u_start_window (f u) = u_start_window u"
  shows "safe m (upd_unit n f m)"
proof -
  obtain u where u: "get_unit m n = Some u" using assms(2) by (auto simp: has_unit_def)
  then have "length (u_start_window (f u)) \<le> start_limit_burst"
    using assms(1,3) by (auto simp: wf_def wf_parts_def get_unit_def)
  then show ?thesis using put_unit [OF assms(1)] u by (simp add: upd_unit_def)
qed

lemma upd_unit_has: "upd_unit n f m = Inr m' \<Longrightarrow> has_unit m' k = has_unit m k"
  by (auto simp: upd_unit_def has_unit_def get_unit_def split: option.splits if_splits)

lemma set_active_window [simp]: "u_start_window (fst (set_active wall st sb r seq u)) = u_start_window u"
  by (cases st) (auto simp: set_active_def Let_def)

lemma mark_safe:
  assumes "wf m" "has_unit m n"
  shows "safe m (mark w n st sb r m)"
proof -
  obtain u where u: "get_unit m n = Some u" using assms(2) by (auto simp: has_unit_def)
  obtain wall m1 where a: "ask (os_wall w) m = (wall, m1)" by fastforce
  obtain u' seq where s: "set_active wall st sb r (m_next_invocation m1) u = (u', seq)" by fastforce
  have core: "same_core m m1" by (rule ask_core [OF a])
  have "u_start_window u' = u_start_window u"
    using set_active_window [of wall st sb r "m_next_invocation m1" u] s by simp
  then have "length (u_start_window u') \<le> start_limit_burst"
    using assms(1) u by (auto simp: wf_def wf_parts_def get_unit_def)
  from put_unit [OF _ this, of m1 n] core assms(1)
  have "wf (m1\<lparr>m_units := hins n u' (m_units m1)\<rparr>)" "ext m (m1\<lparr>m_units := hins n u' (m_units m1)\<rparr>)"
    by (auto simp: same_core_wf intro: ext_trans same_core_ext)
  then have "wf (m1\<lparr>m_units := hins n u' (m_units m1), m_next_invocation := seq\<rparr>) \<and>
      ext m (m1\<lparr>m_units := hins n u' (m_units m1), m_next_invocation := seq\<rparr>)"
    by (simp add: wf_def ext_def answered_def)
  then show ?thesis using u a s by (simp add: mark_def)
qed

lemma put_job:
  assumes wf: "wf m" and b: "get_job m j = Some b"
    and b': "jb_unit b' = jb_unit b" "jb_kind b' = jb_kind b" "jb_failed b \<longrightarrow> jb_failed b'"
  shows "wf (m\<lparr>m_jobs := hins j b' (m_jobs m)\<rparr>) \<and> ext m (m\<lparr>m_jobs := hins j b' (m_jobs m)\<rparr>)"
proof -
  have "\<exists>c. map_of (hins j b' (m_jobs m)) k = Some c \<and> jb_unit c = n" if "map_of (m_unit_job m) n = Some k" for n k
  proof -
    obtain c where "map_of (m_jobs m) k = Some c" "jb_unit c = n"
      using wf \<open>map_of (m_unit_job m) n = Some k\<close> unfolding wf_def wf_parts_def by blast
    then show ?thesis using b b' by (cases "k = j") (auto simp: get_job_def)
  qed
  then have "wf (m\<lparr>m_jobs := hins j b' (m_jobs m)\<rparr>)"
    using wf b b' by (auto simp: wf_def wf_parts_def get_job_def)
  moreover have "ext m (m\<lparr>m_jobs := hins j b' (m_jobs m)\<rparr>)"
    using b b' by (auto simp: ext_def answered_def get_job_def)
  ultimately show ?thesis by simp
qed

lemma upd_job_safe:
  assumes "wf m" "\<And>b. jb_unit (f b) = jb_unit b \<and> jb_kind (f b) = jb_kind b \<and> (jb_failed b \<longrightarrow> jb_failed (f b))"
  shows "safe m (upd_job j f m)"
  using put_job [OF assms(1), of j] assms(2) by (auto simp: upd_job_def split: option.splits)

lemma unit_at_safe: "has_unit m n \<Longrightarrow> \<exists>u. get_unit m n = Some u \<and> unit_at n m = Inr u"
  by (auto simp: unit_at_def has_unit_def)

lemma unit_job_at_wf:
  "wf m \<Longrightarrow> map_of (m_unit_job m) n = Some j \<Longrightarrow>
   \<exists>b. get_job m j = Some b \<and> jb_unit b = n \<and> unit_job_at j m = Inr b"
  by (drule (1) wf_index) (auto simp: unit_job_at_def get_job_def)

definition fresh_job :: "job_kind \<Rightarrow> str \<Rightarrow> wait_entry list \<Rightarrow> job_mode \<Rightarrow> job" where
  "fresh_job kind n ws mode = \<lparr>jb_unit = n, jb_kind = kind, jb_mode = mode,
    jb_waiting = ws, jb_started = False, jb_failed = False, jb_failed_msg = None,
    jb_start_after_stop = None, jb_expanding = False\<rparr>"

lemma add_job:
  assumes wf: "wf m" and b: "jb_unit b = n" "jb_kind b = JStart \<longrightarrow> jb_failed b \<or> has_unit m n"
    and m': "m' = m\<lparr>m_next_job := m_next_job m + 1, m_jobs := hins (m_next_job m + 1) b (m_jobs m),
      m_unit_job := hins n (m_next_job m + 1) (m_unit_job m)\<rparr>"
  shows "wf m' \<and> ext m m'"
proof
  have fresh: "k \<noteq> m_next_job m + 1" if "map_of (m_jobs m) k \<noteq> None" for k
    using wf_job [OF wf, of k] that by auto
  show "wf m'"
  proof (rule wfI)
    fix k j
    assume "map_of (m_unit_job m') k = Some j"
    then show "\<exists>c. map_of (m_jobs m') j = Some c \<and> jb_unit c = k"
      using wf_index [OF wf, of k j] fresh [of j] b by (auto simp: m' split: if_splits)
  next
    fix j c
    assume "map_of (m_jobs m') j = Some c"
    then show "j \<le> m_next_job m' \<and>
        (jb_kind c = JStart \<longrightarrow> jb_failed c \<or> map_of (m_units m') (jb_unit c) \<noteq> None)"
      using wf_job [OF wf, of j c] b by (auto simp: m' has_unit_def get_unit_def split: if_splits)
  qed (use wf_pid [OF wf] wf_window [OF wf] in \<open>auto simp: m'\<close>)
  show "ext m m'"
    using fresh by (auto simp: m' ext_def answered_def le_Suc_eq)
qed

lemma new_job_eq:
  "new_job kind n ws mode m = (m\<lparr>m_next_job := m_next_job m + 1,
     m_jobs := hins (m_next_job m + 1) (fresh_job kind n ws mode) (m_jobs m),
     m_unit_job := hins n (m_next_job m + 1) (m_unit_job m)\<rparr>, m_next_job m + 1)"
  by (simp add: new_job_def fresh_job_def Let_def)

lemma new_job_wf:
  assumes "wf m" "kind = JStart \<longrightarrow> has_unit m n" "new_job kind n ws mode m = (m', j)"
  shows "wf m'" "ext m m'" "get_job m' j = Some (fresh_job kind n ws mode)"
  using add_job [OF assms(1), of "fresh_job kind n ws mode" n m'] assms(2,3)
  by (auto simp: new_job_eq fresh_job_def get_job_def)

lemma drop_job_eq:
  "get_job m j = Some b \<Longrightarrow> drop_job j ok e n m =
     m\<lparr>m_completed_jobs := hins j \<lparr>js_unit = jb_unit b, js_ok = ok, js_error = e\<rparr> (m_completed_jobs m),
       m_jobs := hdel j (m_jobs m),
       m_unit_job := (if map_of (m_unit_job m) n = Some j then hdel n (m_unit_job m) else m_unit_job m)\<rparr>"
  by (simp add: drop_job_def record_job_result_def Let_def)

lemma drop_job_safe:
  assumes wf: "wf m" and b: "get_job m j = Some b" "jb_unit b = n"
  shows "wf (drop_job j ok e n m) \<and> ext m (drop_job j ok e n m)"
proof
  show "wf (drop_job j ok e n m)"
  proof (rule wfI)
    fix k i
    assume "map_of (m_unit_job (drop_job j ok e n m)) k = Some i"
    then have "map_of (m_unit_job m) k = Some i" and "\<not> (k = n \<and> i = j)"
      by (auto simp: drop_job_eq [OF b(1)] split: if_splits)
    moreover from this(1) obtain c where "map_of (m_jobs m) i = Some c" "jb_unit c = k"
      using wf_index [OF wf] by blast
    moreover from calculation have "i \<noteq> j" using b by (auto simp: get_job_def)
    ultimately show "\<exists>c. map_of (m_jobs (drop_job j ok e n m)) i = Some c \<and> jb_unit c = k"
      by (simp add: drop_job_eq [OF b(1)])
  next
    fix i c
    assume "map_of (m_jobs (drop_job j ok e n m)) i = Some c"
    then show "i \<le> m_next_job (drop_job j ok e n m) \<and> (jb_kind c = JStart \<longrightarrow>
        jb_failed c \<or> map_of (m_units (drop_job j ok e n m)) (jb_unit c) \<noteq> None)"
      using wf_job [OF wf, of i c] by (auto simp: drop_job_eq [OF b(1)] split: if_splits)
  qed (use wf_pid [OF wf] wf_window [OF wf] in \<open>auto simp: drop_job_eq [OF b(1)]\<close>)
  show "ext m (drop_job j ok e n m)"
    by (auto simp: drop_job_eq [OF b(1)] ext_def answered_def split: if_splits)
qed

lemma check_start_limit_safe:
  assumes "wf m" "has_unit m n"
  shows "safe2 m (check_start_limit w n m)"
proof -
  obtain now m1 where a: "ask (os_now w) m = (now, m1)" by fastforce
  have core: "same_core m m1" by (rule ask_core [OF a])
  obtain u where u: "get_unit m n = Some u" using assms(2) by (auto simp: has_unit_def)
  define win where "win = filter (\<lambda>t. t + start_limit_window \<ge> now) (u_start_window u)"
  define u' where "u' = u\<lparr>u_start_window := (if length win \<ge> start_limit_burst then win else win @ [now])\<rparr>"
  have "length (u_start_window u) \<le> start_limit_burst"
    using assms(1) u by (auto simp: wf_def wf_parts_def get_unit_def)
  then have "length win \<le> start_limit_burst"
    unfolding win_def using length_filter_le by (rule order.trans [rotated])
  then have "length (u_start_window u') \<le> start_limit_burst" by (auto simp: u'_def)
  from put_unit [OF _ this, of m1 n] core assms(1)
  have "wf (m1\<lparr>m_units := hins n u' (m_units m1)\<rparr>) \<and> ext m (m1\<lparr>m_units := hins n u' (m_units m1)\<rparr>)"
    by (auto simp: same_core_wf intro: ext_trans same_core_ext)
  moreover have "check_start_limit w n m =
      Inr (length win \<ge> start_limit_burst, m1\<lparr>m_units := hins n u' (m_units m1)\<rparr>)"
    using u a core by (simp add: check_start_limit_def same_core_units Let_def u'_def win_def)
  ultimately show ?thesis by simp
qed

end
