(* ===== verification/Engine_Safe.thy ===== *)
theory Engine_Safe
  imports Engine_Inv
begin

text \<open>
  Safety of the operations. Inside the locale \<open>engine_rec\<close> the recursive calls are assumed safe
  on the states they are made from (\<open>ready\<close>); each operation of the job engine and of the unit
  types is then safe. The lemmas follow the order of the definitions.
\<close>

definition ready :: "mgr \<Rightarrow> call \<Rightarrow> bool" where
  "ready m c = (case c of CDoStop n \<Rightarrow> has_unit m n | CSpawn n _ _ \<Rightarrow> has_unit m n | _ \<Rightarrow> True)"

section \<open>Steps that only ask the world\<close>

lemma safe_let:
  assumes "\<And>r m'. e = (r, m') \<Longrightarrow> same_core m m'"
    and "\<And>r m'. e = (r, m') \<Longrightarrow> same_core m m' \<Longrightarrow> safe_to sel m' (f r m')"
  shows "safe_to sel m (Let e (case_prod f))"
  using assms by (cases e) (simp add: safe_core)

lemma safe_case:
  assumes "\<And>r m'. e = (r, m') \<Longrightarrow> same_core m m'"
    and "\<And>r m'. e = (r, m') \<Longrightarrow> same_core m m' \<Longrightarrow> safe_to sel m' (f r m')"
  shows "safe_to sel m (case e of (r, m') \<Rightarrow> f r m')"
  using assms by (cases e) (simp add: safe_core)

lemma same_core_has: "same_core m m' \<Longrightarrow> has_unit m' n = has_unit m n"
  by (simp add: has_unit_def same_core_units)

lemma put_unit_same:
  assumes "wf m" "get_unit m n = Some u" "u_start_window u' = u_start_window u"
  shows "wf (m\<lparr>m_units := hins n u' (m_units m)\<rparr>)" "ext m (m\<lparr>m_units := hins n u' (m_units m)\<rparr>)"
proof -
  have "length (u_start_window u') \<le> start_limit_burst"
    using wf_window [OF assms(1), of n u] assms(2,3) by (simp add: get_unit_def)
  from put_unit [OF assms(1) this]
  show "wf (m\<lparr>m_units := hins n u' (m_units m)\<rparr>)" "ext m (m\<lparr>m_units := hins n u' (m_units m)\<rparr>)" by auto
qed

lemma load_unit_core: "load_unit w n m = (r, m') \<Longrightarrow> same_core m m'"
  by (auto simp: load_unit_def ask_def same_core_def split: sum.splits option.splits prod.splits)

lemma load_unit_window: "load_unit w n m = (Inr (Some u), m') \<Longrightarrow> u_start_window u = []"
  by (auto simp: load_unit_def ask_def unit_new_def split: sum.splits option.splits prod.splits)

lemma ensure_unit_loaded_safe:
  assumes "wf m" "ensure_unit_loaded w n m = (r, m')"
  shows "wf m' \<and> ext m m'"
proof (cases "has_unit m n")
  case True
  with assms show ?thesis by (auto simp: ensure_unit_loaded_def)
next
  case False
  obtain r1 m1 where l: "load_unit w n m = (r1, m1)" by fastforce
  have core: "same_core m m1" by (rule load_unit_core [OF l])
  with assms(1) have m1: "wf m1" "ext m m1" by (auto simp: same_core_wf same_core_ext)
  show ?thesis
  proof (cases "\<exists>u. r1 = Inr (Some u)")
    case True
    then obtain u where u: "r1 = Inr (Some u)" by blast
    with l have "u_start_window u = []" using load_unit_window by blast
    with put_unit [OF m1(1), of u n] m1(2) False l u assms(2) show ?thesis
      by (auto simp: ensure_unit_loaded_def intro: ext_trans)
  next
    case no_unit: False
    with False l assms(2) m1 show ?thesis
      by (auto simp: ensure_unit_loaded_def split: sum.splits option.splits)
  qed
qed

lemma condition_context_core: "condition_context w m = (c, m') \<Longrightarrow> same_core m m'"
  by (auto simp: condition_context_def ask_def same_core_def split: prod.splits)

lemma first_unmet_core: "first_unmet w ctx cs m = (c, m') \<Longrightarrow> same_core m m'"
proof (induction cs arbitrary: m)
  case (Cons a cs)
  then show ?case
    by (auto simp: split: prod.splits bool.splits dest!: ask_core intro: same_core_trans)
qed simp

lemma safe_bnd2:
  assumes "safe2 m r"
    and "\<And>x m'. r = Inr (x, m') \<Longrightarrow> wf m' \<Longrightarrow> ext m m' \<Longrightarrow>
      \<forall>n. has_unit m n \<longrightarrow> has_unit m' n \<Longrightarrow>
      \<forall>j. start_id m j \<longrightarrow> start_id m' j \<Longrightarrow> safe_to sel m' (f x m')"
  shows "safe_to sel m (bnd r (case_prod f))"
  using assms by (cases r) (auto intro: safe_ext simp: ext_has ext_start_id)

lemmas safe_asks = safe_let [OF ask_core] safe_case [OF ask_core]
  safe_let [OF unit_names_core] safe_case [OF unit_names_core]

section \<open>The job engine\<close>

locale engine_rec =
  fixes w :: os and rec :: recur
  assumes rec_safe: "wf m \<Longrightarrow> ready m c \<Longrightarrow> safe m (rec c m)"
begin

lemma rec_after:
  "wf m \<Longrightarrow> ext m0 m \<Longrightarrow> ready m c \<Longrightarrow> safe m0 (rec c m)"
  by (rule safe_ext [OF _ rec_safe])

lemma notify_waiter_safe: "wf m \<Longrightarrow> safe m (notify_waiter rec name ok j m)"
proof (cases "get_job m j")
  case (Some b)
  assume m: "wf m"
  have f: "wf (m\<lparr>m_jobs := hins j (fail_job (MsgDepFailed name) b) (m_jobs m)\<rparr>) \<and>
      ext m (m\<lparr>m_jobs := hins j (fail_job (MsgDepFailed name) b) (m_jobs m)\<rparr>)"
    by (rule put_job [OF m Some]) (simp_all add: fail_job_def)
  have d: "wf (m\<lparr>m_jobs := hins j (drop_waits name b) (m_jobs m)\<rparr>) \<and>
      ext m (m\<lparr>m_jobs := hins j (drop_waits name b) (m_jobs m)\<rparr>)"
    by (rule put_job [OF m Some]) (simp_all add: drop_waits_def)
  show ?thesis
    using m f d Some
    by (auto simp: notify_waiter_def ready_def intro!: rec_after split: option.splits)
qed (simp add: notify_waiter_def)

lemma on_job_completed_safe: "wf m \<Longrightarrow> safe m (on_job_completed w rec name ok m)"
  unfolding on_job_completed_def
  by (rule safe_let, erule job_ids_core, rule safe_fold) (auto simp: same_core_wf notify_waiter_safe)

lemma drop_then_complete:
  assumes "wf m" "get_job m j = Some b"
  shows "safe m (on_job_completed w rec (jb_unit b) ok (drop_job j r e (jb_unit b) m))"
  using drop_job_safe [OF assms refl] on_job_completed_safe by (blast intro: safe_ext)

lemma cancel_job_safe: "wf m \<Longrightarrow> safe m (cancel_job w rec j msg m)"
  by (auto simp: cancel_job_def drop_then_complete split: option.splits)

lemma finish_job_failed_safe: "wf m \<Longrightarrow> safe m (finish_job_failed w rec j m)"
  by (auto simp: finish_job_failed_def drop_then_complete split: option.splits)

lemma finish_job_safe: "wf m \<Longrightarrow> safe m (finish_job w rec j m)"
  by (auto simp: finish_job_def ready_def split: option.splits
      intro!: safe_bnd [OF drop_then_complete] rec_safe)

lemma poke_waiter_safe: "wf m \<Longrightarrow> safe m (poke_waiter w rec name j m)"
proof (cases "get_job m j")
  case (Some b)
  assume m: "wf m"
  have f: "wf (m\<lparr>m_jobs := hins j (fail_job (MsgDepFailed name) b) (m_jobs m)\<rparr>) \<and>
      ext m (m\<lparr>m_jobs := hins j (fail_job (MsgDepFailed name) b) (m_jobs m)\<rparr>)"
    by (rule put_job [OF m Some]) (simp_all add: fail_job_def)
  have d: "wf (m\<lparr>m_jobs := hins j (drop_waits name b) (m_jobs m)\<rparr>) \<and>
      ext m (m\<lparr>m_jobs := hins j (drop_waits name b) (m_jobs m)\<rparr>)"
    by (rule put_job [OF m Some]) (simp_all add: drop_waits_def)
  show ?thesis
    using m f d Some
    by (auto simp: poke_waiter_def ready_def split: option.splits
        intro!: rec_after safe_ext [OF _ finish_job_failed_safe])
qed (simp add: poke_waiter_def)

lemma poke_failed_safe: "wf m \<Longrightarrow> safe m (poke_failed w rec name m)"
  unfolding poke_failed_def
  by (rule safe_let, erule job_ids_core, rule safe_fold) (auto simp: same_core_wf poke_waiter_safe)

lemma maybe_start_job_safe:
  assumes m: "wf m" and kind: "\<And>b. get_job m j = Some b \<Longrightarrow> jb_kind b = JStart"
  shows "safe m (maybe_start_job w rec j m)"
proof (cases "get_job m j")
  case None
  then show ?thesis by (simp add: maybe_start_job_def job_at_def)
next
  case (Some b)
  show ?thesis
  proof (cases "jb_failed b \<or> jb_waiting b \<noteq> [] \<or> jb_started b")
    case True
    with m Some show ?thesis
      by (auto simp: maybe_start_job_def job_at_def finish_job_failed_safe)
  next
    case False
    with wf_job [OF m, of j b] kind Some have u: "has_unit m (jb_unit b)"
      by (auto simp: has_unit_def get_unit_def get_job_def)
    from False Some have "maybe_start_job w rec j m =
        bnd (upd_job j (\<lambda>b. b\<lparr>jb_started := True\<rparr>) m) (\<lambda>m1.
        bnd (check_start_limit w (jb_unit b) m1) (\<lambda>(hit, m2).
           if hit then
             bnd (upd_unit (jb_unit b) (\<lambda>u. u\<lparr>u_result := ResStartLimitHit\<rparr>) m2) (\<lambda>m3.
             bnd (upd_job j (fail_job MsgStartLimit) m3) (\<lambda>m4.
               finish_job_failed w rec j m4))
           else rec (CDoStart (jb_unit b)) m2))"
      by (simp add: maybe_start_job_def job_at_def)
    then show ?thesis
      using m u
      by (auto intro!: safe_bnd [OF upd_job_safe] safe_bnd2 [OF check_start_limit_safe]
          safe_bnd [OF upd_unit_safe] finish_job_failed_safe rec_safe
          simp: ready_def fail_job_def)
  qed
qed


lemma maybe_stop_job_safe:
  assumes m: "wf m"
  shows "safe m (maybe_stop_job w rec j m)"
proof (cases "get_job m j")
  case None
  then show ?thesis by (simp add: maybe_stop_job_def job_at_def)
next
  case (Some b)
  show ?thesis
  proof (cases "unit_operational m (jb_unit b) \<and> \<not> jb_started b")
    case False
    with m Some show ?thesis by (auto simp: maybe_stop_job_def job_at_def finish_job_safe)
  next
    case True
    let ?m = "m\<lparr>m_unit_job := hins (jb_unit b) j (m_unit_job m)\<rparr>"
    have "wf ?m"
      using wf_index [OF m] wf_job [OF m] wf_pid [OF m] wf_window [OF m] Some
      by (intro wfI) (auto simp: get_job_def split: if_splits)
    moreover have "ext m ?m" by (simp add: ext_def answered_def)
    moreover have "has_unit ?m (jb_unit b)"
      using True by (auto simp: unit_operational_def has_unit_def get_unit_def split: option.splits)
    ultimately have "safe m (bnd (upd_job j (\<lambda>b. b\<lparr>jb_started := True\<rparr>) ?m) (rec (CDoStop (jb_unit b))))"
      by (auto intro!: safe_ext [of m ?m] safe_bnd [OF upd_job_safe] rec_safe
          simp: ready_def)
    with True Some show ?thesis by (simp add: maybe_stop_job_def job_at_def)
  qed
qed

lemma safe_flag: "safe m r \<Longrightarrow> safe2 m (bnd r (\<lambda>m1. Inr (c, m1)))"
  by (cases r) auto

lemma try_advance_job_safe: "wf m \<Longrightarrow> safe2 m (try_advance_job w rec j m)"
  by (auto simp: try_advance_job_def intro!: safe_flag finish_job_failed_safe maybe_start_job_safe
      maybe_stop_job_safe split: option.splits job_kind.splits)

lemma process_pass_safe: "wf m \<Longrightarrow> safe2 m (process_pass w rec js c m)"
proof (induction js arbitrary: c m)
  case (Cons j js)
  then show ?case by (auto intro!: safe_bnd2 [OF try_advance_job_safe])
qed simp

lemma process_jobs_safe: "wf m \<Longrightarrow> safe m (process_jobs w rec m)"
  unfolding process_jobs_def
  by (rule safe_let, erule job_ids_core, rule safe_bnd2 [OF process_pass_safe])
    (auto simp: same_core_wf ready_def intro!: rec_safe)

lemma enqueue_stop_safe:
  assumes m: "wf m"
  shows "safe m (enqueue_stop_job_after_mode w rec name next mode m)"
proof -
  obtain m1 j where n: "new_job JStop name [] mode m = (m1, j)" by fastforce
  have m1: "wf m1" "ext m m1" using new_job_wf [OF m _ n] by simp_all
  have dep: "safe m (enqueue_dependent_stop rec d m)" if "wf m" for d m
    using that by (auto simp: enqueue_dependent_stop_def ready_def intro!: rec_safe)
  have "safe m1 (bnd (case next of
             Some next \<Rightarrow> upd_job j (\<lambda>b. b\<lparr>jb_start_after_stop := Some next\<rparr>) m1
           | None \<Rightarrow> Inr m1) (\<lambda>m2.
      let (order, m3) = unit_names w m2;
          dependents = stop_propagate (m_units m3) order name
      in bnd (fold_res (enqueue_dependent_stop rec) dependents m3) (\<lambda>m4.
           maybe_stop_job w rec j m4)))"
    using m1(1)
    by (auto intro!: safe_bnd [where sel = "\<lambda>m. m"] upd_job_safe safe_asks safe_fold dep
        maybe_stop_job_safe simp: same_core_wf split: option.splits)
  then show ?thesis
    unfolding enqueue_stop_job_after_mode_def Let_def n prod.case by (rule safe_ext [OF m1(2)])
qed

lemma start_with_mode_safe:
  assumes m0: "wf m0"
  shows "safe2 m0 (start_with_mode w rec name mode m0)"
proof -
  obtain r m where e: "ensure_unit_loaded w name m0 = (r, m)" by fastforce
  have m: "wf m" "ext m0 m" using ensure_unit_loaded_safe [OF m0 e] by auto
  have cancel: "safe2 m (bnd (cancel_job w rec j MsgCanceledStart m) (\<lambda>m1.
      bnd (mark w name Active SubExited ResSuccess m1) (\<lambda>m2. Inr (Inr None :: ctl_error + nat option, m2))))"
    if "has_unit m name" for j
    using m(1) that
    by (auto intro!: safe_bnd [OF cancel_job_safe] safe_bnd [OF mark_safe])
  have start: "safe2 m (bnd (rec (CEnqueueStart name mode) m) (\<lambda>m1.
      bnd (process_jobs w rec m1) (\<lambda>m2. Inr (Inr (Some j) :: ctl_error + nat option, m2))))" for j
    using m(1) by (auto intro!: safe_bnd [OF rec_safe] safe_bnd [OF process_jobs_safe] simp: ready_def)
  have "safe2 m (start_with_mode w rec name mode m0)"
  proof (cases "r = Inr () \<and> \<not> m_shutting_down m \<and> has_unit m name \<and> \<not> unit_active m name")
    case False
    show ?thesis
    proof (cases r)
      case (Inl a)
      with m(1) show ?thesis by (simp add: start_with_mode_def e)
    next
      case (Inr u)
      with False consider "m_shutting_down m" | "\<not> has_unit m name" | "unit_active m name" by auto
      then show ?thesis using m(1) Inr by cases (simp_all add: start_with_mode_def e)
    qed
  next
    case True
    show ?thesis
    proof (cases "Option.bind (map_of (m_unit_job m) name) (\<lambda>j. map_option (Pair j) (get_job m j))")
      case None
      with True start show ?thesis by (simp add: start_with_mode_def e)
    next
      case (Some p)
      with True cancel m(1) show ?thesis by (cases p) (simp add: start_with_mode_def e)
    qed
  qed
  then show ?thesis by (rule safe_ext [OF m(2)])
qed

lemma start_unit_safe: "wf m \<Longrightarrow> safe2 m (start_unit w rec name m)"
  unfolding start_unit_def by (rule safe_bnd2 [OF start_with_mode_safe]) auto

lemma start_drop_safe: "wf m \<Longrightarrow> safe m (bnd (start_unit w rec name m) (\<lambda>(_, m1). Inr m1))"
  by (rule safe_bnd2 [OF start_unit_safe]) auto

lemma fire_on_failure_safe:
  assumes "wf m" "has_unit m name"
  shows "safe m (fire_on_failure w rec name m)"
proof -
  obtain u where u: "unit_at name m = Inr u" using unit_at_safe [OF assms(2)] by blast
  show ?thesis
    unfolding fire_on_failure_def u bnd_Inr
    by (rule safe_bnd [OF safe_fold [OF assms(1) rec_safe]])
      (auto simp: ready_def intro!: process_jobs_safe)
qed

lemma fail_unit_safe:
  assumes m: "wf m" and n: "has_unit m name"
  shows "safe m (fail_unit w rec name msg m)"
proof -
  obtain u where u: "get_unit m name = Some u" using n by (auto simp: has_unit_def)
  define u0 where "u0 = u\<lparr>u_log := log_push_chunk (''rystemd: failed: '' @ msg @ [CHR 0x0A]) (u_log u)\<rparr>"
  define m0 where "m0 = m\<lparr>m_units := hins name u0 (m_units m)\<rparr>"
  have m0: "wf m0" "ext m m0" unfolding m0_def by (rule put_unit_same [OF m u]; simp add: u0_def)+
  have u0: "unit_at name m0 = Inr u0" "has_unit m0 name"
    by (simp_all add: m0_def unit_at_def has_unit_def)
  have job: "safe m1 (case map_of (m_unit_job m1) name of
             Some j \<Rightarrow>
               bnd (unit_job_at j m1) (\<lambda>b.
                 if jb_kind b = JStart
                 then bnd (upd_job j (\<lambda>b. b\<lparr>jb_failed_msg := Some (MsgUnitFailed msg)\<rparr>) m1)
                        (finish_job_failed w rec j)
                 else poke_failed w rec name m1)
           | None \<Rightarrow> poke_failed w rec name m1)" if "wf m1" for m1
    using that unit_job_at_wf [OF that, of name]
    by (auto intro!: safe_bnd [OF upd_job_safe] finish_job_failed_safe poke_failed_safe split: option.splits)
  have "safe m0 (fail_unit w rec name msg m)"
    unfolding fail_unit_def u option.case u0_def [symmetric] m0_def [symmetric] Let_def u0(1) bnd_Inr
    using m0(1) u0(2)
    by (auto intro!: safe_bnd [OF mark_safe] safe_bnd [OF job] fire_on_failure_safe)
  then show ?thesis by (rule safe_ext [OF m0(2)])
qed

end

end
