(* ===== verification/Expand_Safe.thy ===== *)
theory Expand_Safe
  imports Engine_Safe
begin

text \<open>
  Safety of the expansion of a start job and of the request that creates one: the loops that
  build the waiting list keep the invariant, whatever the units they start and stop do in between.
\<close>

definition exp_state :: "mgr + wait_entry list \<times> mgr \<Rightarrow> mgr" where
  "exp_state r = (case r of Inl m \<Rightarrow> m | Inr (_, m) \<Rightarrow> m)"

lemma exp_state_simps [simp]: "exp_state (Inl m) = m" "exp_state (Inr (ws, m)) = m"
  by (simp_all add: exp_state_def)

lemma start_id_core: "same_core m m' \<Longrightarrow> start_id m' j = start_id m j"
  by (simp add: start_id_def same_core_jobs) (simp add: same_core_def)

lemma pending_kind_wf: "wf m \<Longrightarrow> \<exists>k. pending_kind n m = Inr k"
  using unit_job_at_wf [of m n] by (auto simp: pending_kind_def split: option.splits)

lemma starting_wf: "wf m \<Longrightarrow> \<exists>s. starting n m = Inr s"
  using pending_kind_wf [of m n] by (auto simp: starting_def)

lemma order_after_wf: "wf m \<Longrightarrow> \<exists>ws'. order_after m a ws = Inr ws'"
  using starting_wf [of m a] by (auto simp: order_after_def)

lemma expand_order_wf: "wf m \<Longrightarrow> \<exists>ws'. expand_order ns ws m = Inr ws'"
proof (induction ns arbitrary: ws)
  case (Cons a ns)
  then obtain ws' where "order_after m a ws = Inr ws'" using order_after_wf by blast
  with Cons show ?case by (simp add: expand_order_def)
qed (simp add: expand_order_def)

lemma commit_waiting_safe:
  assumes m: "wf m" and j: "start_id m j"
  shows "wf (commit_waiting j ws m)" "ext m (commit_waiting j ws m)"
proof -
  have "wf (commit_waiting j ws m) \<and> ext m (commit_waiting j ws m)"
  proof (cases "get_job m j")
    case (Some b)
    then show ?thesis
      unfolding commit_waiting_def Some option.case Let_def
      by (intro put_job [OF m Some]) (auto simp: fail_job_def split: option.splits)
  qed (simp add: commit_waiting_def m)
  then show "wf (commit_waiting j ws m)" "ext m (commit_waiting j ws m)" by auto
qed

context engine_rec
begin

lemma maybe_start_id: "wf m \<Longrightarrow> start_id m j \<Longrightarrow> safe m (maybe_start_job w rec j m)"
  by (rule maybe_start_job_safe) (simp_all add: start_id_def)

lemma abort_expansion_safe:
  assumes "wf m" "start_id m j"
  shows "safe_to exp_state m (abort_expansion w rec j msg m)"
proof -
  have "safe m (bnd (upd_job j (fail_job msg) m) (maybe_start_job w rec j))"
    using assms by (auto intro!: safe_bnd [OF upd_job_safe] maybe_start_id simp: fail_job_def)
  then have "safe_to exp_state m (bnd (bnd (upd_job j (fail_job msg) m) (maybe_start_job w rec j))
      (\<lambda>m2. Inr (Inl m2)))"
    by (rule safe_bnd) simp
  then show ?thesis by (simp add: abort_expansion_def bnd_assoc)
qed

lemma expand_requisites_safe:
  "wf m \<Longrightarrow> start_id m j \<Longrightarrow> safe_to exp_state m (expand_requisites w rec j rs ws m)"
proof (induction rs arbitrary: ws)
  case (Cons r rs)
  obtain s where "starting r m = Inr s" using starting_wf [OF Cons.prems(1)] by blast
  with Cons show ?case by (auto intro: abort_expansion_safe)
qed simp

lemma stop_conflict_safe: "wf m \<Longrightarrow> safe m (stop_conflict rec c m)"
  using pending_kind_wf [of m c] by (auto simp: stop_conflict_def ready_def intro!: rec_safe)

lemma expand_needs_safe:
  "wf m \<Longrightarrow> start_id m j \<Longrightarrow> safe_to exp_state m (expand_needs w rec j needs ds ws m)"
proof (induction ds arbitrary: ws m)
  case (Cons d ds)
  obtain s where s: "starting d m = Inr s" using starting_wf [OF Cons.prems(1)] by blast
  have "safe_to exp_state m (bnd (rec (CEnqueueStart d Replace) m) (\<lambda>m1.
      expand_needs w rec j needs ds ws' m1))" for ws'
    using Cons by (auto intro!: safe_bnd [OF rec_safe] simp: ready_def)
  with Cons s show ?case by (auto simp: Let_def intro: abort_expansion_safe)
qed simp

lemma expand_finish_safe:
  assumes m: "wf m" and j: "start_id m j" and n: "has_unit m name"
  shows "safe m (bnd (unit_at name m) (\<lambda>u.
      bnd (expand_order (after_units u) ws m) (\<lambda>ws3.
      let (order, m4) = unit_names w m in
      bnd (expand_order (filter (declares_before name m4) order) ws3 m4) (\<lambda>ws4.
        maybe_start_job w rec j (commit_waiting j ws4 m4)))))"
proof -
  obtain u where u: "unit_at name m = Inr u" using unit_at_safe [OF n] by blast
  obtain ws3 where ws3: "expand_order (after_units u) ws m = Inr ws3"
    using expand_order_wf [OF m] by blast
  show ?thesis
    unfolding u bnd_Inr ws3
  proof (rule safe_let, erule unit_names_core)
    fix order m4
    assume core: "same_core m m4"
    then have m4: "wf m4" "start_id m4 j" using m j by (simp_all add: same_core_wf start_id_core)
    obtain ws4 where ws4: "expand_order (filter (declares_before name m4) order) ws3 m4 = Inr ws4"
      using expand_order_wf [OF m4(1)] by blast
    show "safe m4 (bnd (expand_order (filter (declares_before name m4) order) ws3 m4)
        (\<lambda>ws4. maybe_start_job w rec j (commit_waiting j ws4 m4)))"
      unfolding ws4 bnd_Inr
      by (rule safe_ext [OF commit_waiting_safe(2) [OF m4]], rule maybe_start_id)
        (use commit_waiting_safe [OF m4] m4 ext_start_id in blast)+
  qed
qed

lemma expand_transaction_safe:
  assumes m0: "wf m0" and j: "start_id m0 j" and n: "has_unit m0 name"
  shows "safe m0 (expand_transaction w rec j name m0)"
  unfolding expand_transaction_def
proof (rule safe_bnd [OF upd_job_safe [OF m0]])
  fix m
  assume m: "wf m" and k: "\<forall>n. has_unit m0 n \<longrightarrow> has_unit m n" "\<forall>j. start_id m0 j \<longrightarrow> start_id m j"
  obtain needs weak reqs where c: "start_closure (m_units m) name = (needs, weak, reqs)"
    by (metis prod_cases3)
  have needs: "safe_to exp_state m2 (expand_needs w rec j needs ds ws m2)"
    if "wf m2" "start_id m2 j" for ds ws m2
    using that by (rule expand_needs_safe)
  show "safe m (let (needs, weak, reqs) = start_closure (m_units m) name in
     bnd (expand_requisites w rec j reqs [] m) (\<lambda>r1. case r1 of
       Inl m1 \<Rightarrow> Inr m1
     | Inr (waiting1, m1) \<Rightarrow>
         bnd (fold_res (stop_conflict rec) (closure_conflicts (m_units m1) name) m1) (\<lambda>m2.
         bnd (expand_needs w rec j needs (rev (remdups (rev (needs @ weak)))) waiting1 m2) (\<lambda>r2. case r2 of
           Inl m3 \<Rightarrow> Inr m3
         | Inr (waiting2, m3) \<Rightarrow>
             bnd (unit_at name m3) (\<lambda>u.
             bnd (expand_order (after_units u) waiting2 m3) (\<lambda>waiting3.
             let (order, m4) = unit_names w m3 in
             bnd (expand_order (filter (declares_before name m4) order) waiting3 m4) (\<lambda>waiting4.
               maybe_start_job w rec j (commit_waiting j waiting4 m4))))))))"
    unfolding c Let_def prod.case
    using m k j n
    by (auto intro!: safe_bnd [OF expand_requisites_safe] safe_bnd [OF safe_fold] safe_bnd [OF needs]
        stop_conflict_safe expand_finish_safe [unfolded Let_def] split: sum.splits)
qed simp

lemma expand_start_job_safe:
  assumes m: "wf m" and j: "start_id m j" and b: "get_job m j = Some b" and n: "has_unit m (jb_unit b)"
  shows "safe m (expand_start_job w rec j m)"
proof -
  obtain u where u: "get_unit m (jb_unit b) = Some u" using n by (auto simp: has_unit_def)
  obtain ctx m1 where ctx: "condition_context w m = (ctx, m1)" by fastforce
  obtain bad m2 where bad: "first_unmet w ctx (unit_conditions u) m1 = (bad, m2)" by fastforce
  have core: "same_core m m2"
    using condition_context_core [OF ctx] first_unmet_core [OF bad] by (rule same_core_trans)
  have m2: "wf m2" "start_id m2 j" "has_unit m2 (jb_unit b)"
    using core m j n by (simp_all add: same_core_wf start_id_core same_core_has)
  have assert: "safe m2 (bnd (upd_unit (jb_unit b) (\<lambda>u. u\<lparr>u_result := ResAssert\<rparr>) m2)
      (fail_unit w rec (jb_unit b) msg))" for msg
    using m2 by (auto intro!: safe_bnd [OF upd_unit_safe] fail_unit_safe)
  have "safe m2 (expand_start_job w rec j m)" if "unit_conditions u \<noteq> []"
    using that b u ctx bad m2 assert
    by (auto simp: expand_start_job_def job_at_def Let_def intro!: finish_job_safe expand_transaction_safe
        split: option.splits)
  moreover have "safe m (expand_start_job w rec j m)" if "unit_conditions u = []"
    using that b u expand_transaction_safe [OF m j n] by (simp add: expand_start_job_def job_at_def)
  ultimately show ?thesis using safe_core [OF core] by blast
qed

lemma enqueue_start_safe:
  assumes m: "wf m"
  shows "safe m (enqueue_start_job_mode w rec name mode m)"
proof (cases "has_unit m name")
  case True
  obtain m1 j where nj: "new_job JStart name [] mode m = (m1, j)" by fastforce
  note n = new_job_wf [OF m _ nj]
  have m1: "wf m1" "ext m m1" "get_job m1 j = Some (fresh_job JStart name [] mode)"
    using n True by auto
  moreover have "start_id m1 j"
    using m1(3) nj by (auto simp: start_id_def fresh_job_def new_job_eq)
  moreover have "has_unit m1 name" using True m1(2) ext_has by blast
  ultimately have "safe m1 (expand_start_job w rec j m1)"
    by (intro expand_start_job_safe) (auto simp: fresh_job_def)
  then show ?thesis
    unfolding enqueue_start_job_mode_def nj Let_def prod.case by (rule safe_ext [OF m1(2)])
next
  case False
  let ?j = "m_next_job m + 1"
  let ?b = "fail_job (MsgNotFound name) (fresh_job JStart name [] mode)"
  let ?m = "m\<lparr>m_next_job := ?j, m_unit_job := hins name ?j (m_unit_job m), m_jobs := hins ?j ?b (m_jobs m)\<rparr>"
  have eq: "?m = m\<lparr>m_next_job := ?j, m_jobs := hins ?j ?b (m_jobs m), m_unit_job := hins name ?j (m_unit_job m)\<rparr>"
    by (rule mgr.equality) simp_all
  have m2: "wf ?m \<and> ext m ?m"
    by (rule add_job [OF m _ _ eq]) (simp_all add: fail_job_def fresh_job_def)
  have "start_id ?m ?j" by (simp add: start_id_def get_job_def fail_job_def fresh_job_def)
  with m2 have "safe ?m (maybe_start_job w rec ?j ?m)" by (intro maybe_start_id) auto
  moreover have "enqueue_start_job_mode w rec name mode m = maybe_start_job w rec ?j ?m"
    using False
    by (simp add: enqueue_start_job_mode_def new_job_eq expand_start_job_def job_at_def get_job_def
        has_unit_def get_unit_def fresh_job_def upd_job_def)
  ultimately show ?thesis using m2 by (auto intro: safe_ext)
qed

end

end
