(* ===== verification/Service_Safe.thy ===== *)
theory Service_Safe
  imports Expand_Safe
begin

text \<open>
  Safety of the unit types: arming timers, spawning and stopping, sockets and mounts, and with
  them of every recursive call. \<open>run w n\<close> interprets the locale \<open>engine_rec\<close> at every depth.
\<close>

section \<open>Steps that keep the core\<close>

lemma core_wf: "same_core m m' \<Longrightarrow> wf m \<Longrightarrow> wf m'"
  by (simp add: same_core_wf)

lemma core_has: "same_core m m' \<Longrightarrow> has_unit m n \<Longrightarrow> has_unit m' n"
  by (simp add: same_core_has)

lemma safe_ask:
  assumes "wf m" "has_unit m n"
    and "\<And>r m'. same_core m m' \<Longrightarrow> wf m' \<Longrightarrow> has_unit m' n \<Longrightarrow> safe_to sel m' (f r m')"
  shows "safe_to sel m (case ask q m of (r, m') \<Rightarrow> f r m')"
    "safe_to sel m (Let (ask q m) (case_prod f))"
proof -
  obtain r m' where a: "ask q m = (r, m')" by fastforce
  have c: "same_core m m'" by (rule ask_core [OF a])
  have "safe_to sel m (f r m')"
    by (rule safe_core [OF c], rule assms(3) [OF c core_wf [OF c assms(1)] core_has [OF c assms(2)]])
  then show "safe_to sel m (case ask q m of (r, m') \<Rightarrow> f r m')"
    "safe_to sel m (Let (ask q m) (case_prod f))" by (simp_all add: a)
qed

lemma add_timer_core [simp]: "same_core m (add_timer t k n m)"
  by (simp add: add_timer_def same_core_def)

lemma wheel_core [simp]: "same_core m (m\<lparr>m_wheel := x\<rparr>)"
  by (simp add: same_core_def)

lemma mono_from_now_core: "mono_from_now w tss nxt m = (r, m') \<Longrightarrow> same_core m m'"
proof (induction tss arbitrary: nxt m)
  case (Cons ts tss)
  then show ?case
    by (auto split: option.splits prod.splits dest!: ask_core intro: same_core_trans)
qed simp

lemma next_monotonic_core: "next_monotonic w tc t m = (r, m') \<Longrightarrow> same_core m m'"
  by (auto simp: next_monotonic_def Let_def split: option.splits if_splits dest: mono_from_now_core)

lemma arm_calendar_core: "same_core m (arm_calendar w n nxt m)"
  by (auto simp: arm_calendar_def ask_def Let_def add_timer_def same_core_def split: option.splits)

lemma arm_monotonic_core: "arm_monotonic w n nxt d m = (r, m') \<Longrightarrow> same_core m m'"
  by (auto simp: arm_monotonic_def ask_def Let_def add_timer_def same_core_def
      split: option.splits if_splits)

lemma kill_tree_core [simp]: "same_core m (kill_tree n s m)"
  by (simp add: kill_tree_def split: option.splits)

lemma kill_tree_kill_core [simp]: "same_core m (kill_tree_kill n m)"
  by (simp add: kill_tree_kill_def split: option.splits)

lemma fold_core: "(\<And>x m. same_core m (f x m)) \<Longrightarrow> same_core m (fold f xs m)"
  by (induction xs arbitrary: m) (auto intro: same_core_trans)

lemma release_name_core [simp]: "same_core m (release_name b m)"
  by (simp add: release_name_def Let_def emit_def same_core_def)

lemma release_watch_core [simp]: "same_core m (release_bus_name_watch n m)"
  by (simp add: release_bus_name_watch_def fold_core)

lemma watch_bus_name_core [simp]: "same_core m (watch_bus_name n b m)"
  by (simp add: watch_bus_name_def Let_def emit_def same_core_def)

lemma env_files_core: "env_files w fs env m = (r, m') \<Longrightarrow> same_core m m'"
proof (induction fs arbitrary: env m)
  case (Cons f fs)
  then show ?case
    by (cases f) (auto split: option.splits prod.splits dest!: ask_core intro: same_core_trans)
qed simp

lemma build_env_core: "build_env w u m = (r, m') \<Longrightarrow> same_core m m'"
  by (auto simp: build_env_def Let_def split: option.splits prod.splits dest: env_files_core)

lemma apply_directory_core: "apply_directory w sc d m = (r, m') \<Longrightarrow> same_core m m'"
  by (auto simp: apply_directory_def make_directory_def own_directory_def ask_def emit_def Let_def
      same_core_def split: option.splits prod.splits if_splits bool.splits)

lemma apply_directories_core: "apply_directories w sc ds m = (r, m') \<Longrightarrow> same_core m m'"
proof (induction ds arbitrary: m)
  case (Cons d ds)
  then show ?case
    by (auto split: option.splits prod.splits dest!: apply_directory_core intro: same_core_trans)
qed simp

lemma cleanup_directories_core [simp]: "same_core m (cleanup_directories w ds m)"
  unfolding cleanup_directories_def
  by (rule fold_core) (auto simp: cleanup_directory_def Let_def split: directory_kind.splits)

lemma add_fd_core [simp]: "same_core m (add_fd fd n m)"
  by (simp add: add_fd_def same_core_def split: option.splits)

lemma socket_added_core [simp]: "same_core m (socket_added n s sp fd m)"
  by (simp add: socket_added_def same_core_def)

lemma close_socket_core [simp]: "same_core m (close_socket fd m)"
  by (simp add: close_socket_def emit_def same_core_def)

lemma safe_fold_known:
  assumes "wf m" "\<forall>x \<in> set xs. has_unit m x"
    and "\<And>x m. wf m \<Longrightarrow> has_unit m x \<Longrightarrow> safe m (f x m)"
  shows "safe m (fold_res f xs m)"
  using assms(1,2)
proof (induction xs arbitrary: m)
  case (Cons x xs)
  then show ?case by (auto intro!: safe_bnd [OF assms(3)])
qed simp

lemma safe_at_core: "wf m \<Longrightarrow> same_core m m' \<Longrightarrow> (wf m' \<Longrightarrow> safe_to sel m' r) \<Longrightarrow> safe_to sel m r"
  by (simp add: safe_core same_core_wf)

lemma known_unit: "has_unit m n \<Longrightarrow> \<exists>u. get_unit m n = Some u"
  by (auto simp: has_unit_def)

section \<open>Timers\<close>

text \<open>Arming a timer touches the wheel, then records the timer's state in its unit.\<close>

lemma rearm_timer_cases:
  assumes "rearm_timer w name m0 = r"
  obtains m' where "same_core m0 m'" "r = Inr m'"
    | m' e where "same_core m0 m'" "unit_at name m' = Inl e" "r = Inl e"
    | t m' where "same_core m0 m'" "r = upd_unit name (\<lambda>u. u\<lparr>u_timer := t\<rparr>) m'"
proof -
  let ?m = "m0\<lparr>m_wheel := cancel_by_unit name (m_wheel m0)\<rparr>"
  have w: "same_core m0 ?m" by simp
  show ?thesis
  proof (cases "m_shutting_down ?m")
    case True
    with that(1) [OF w] assms show ?thesis by (simp add: rearm_timer_def)
  next
    case run: False
    show ?thesis
    proof (cases "unit_at name ?m")
      case (Inl e)
      with that(2) [OF w Inl] run assms show ?thesis by (simp add: rearm_timer_def)
    next
      case u: (Inr u)
      show ?thesis
      proof (cases "timer_cfg u")
        case None
        with u run that(1) [OF w] assms show ?thesis by (simp add: rearm_timer_def)
      next
        case tc: (Some tc)
        define st where "st = (case u_timer u of Some s \<Rightarrow> s
            | None \<Rightarrow> timer_state_new (map show_calendar (tc_on_calendar tc)))"
        obtain civil m1 where a: "ask (os_civil w) ?m = (civil, m1)" by fastforce
        define nc where "nc = best_calendar w civil 0 (tc_on_calendar tc) None"
        obtain nm m2 where b: "next_monotonic w tc (activated_unit u) m1 = (nm, m2)" by fastforce
        define m3 where "m3 = arm_calendar w name nc m2"
        obtain d m4 where c: "arm_monotonic w name nm (map_option (\<lambda>(e, _). e * 1000000) nc) m3 = (d, m4)"
          by fastforce
        have core: "same_core m0 m4"
          using w ask_core [OF a] next_monotonic_core [OF b] arm_calendar_core [of m2 w name nc, folded m3_def]
            arm_monotonic_core [OF c] by (blast intro: same_core_trans)
        have "rearm_timer w name m0 = upd_unit name (\<lambda>u. u\<lparr>u_timer := Some (st\<lparr>ts_next_display := d\<rparr>)\<rparr>) m4"
          using run tc u a b c by (simp add: rearm_timer_def Let_def st_def nc_def m3_def)
        with that(3) [OF core] assms show ?thesis by blast
      qed
    qed
  qed
qed

lemma rearm_timer_safe:
  assumes m0: "wf m0" and n: "has_unit m0 name"
  shows "safe m0 (rearm_timer w name m0)"
proof -
  obtain r where "rearm_timer w name m0 = r" by blast
  then show ?thesis
  proof (cases rule: rearm_timer_cases)
    case (1 m')
    with m0 show ?thesis by (simp add: \<open>rearm_timer w name m0 = r\<close> core_wf same_core_ext)
  next
    case (2 m' e)
    with unit_at_safe [OF core_has [OF 2(1) n]] show ?thesis by auto
  next
    case (3 t m')
    have "safe m' r"
      unfolding 3(2) by (rule upd_unit_safe [OF core_wf [OF 3(1) m0] core_has [OF 3(1) n]]) auto
    then show ?thesis
      unfolding \<open>rearm_timer w name m0 = r\<close> by (rule safe_core [OF 3(1)])
  qed
qed

lemma rearm_timers_safe: "wf m \<Longrightarrow> safe m (rearm_timers w m)"
  unfolding rearm_timers_def
  by (rule safe_let, erule unit_names_where_core, rule safe_fold_known)
    (auto simp: same_core_wf dest: unit_names_where_has intro: rearm_timer_safe)

lemma timer_dep_check_safe: "wf m \<Longrightarrow> safe m (timer_dep_check w n m)"
  by (simp add: timer_dep_check_def rearm_timers_safe)

lemma arm_timeout_safe:
  assumes "wf m" "has_unit m n"
  shows "safe m (arm_timeout w lim k n m)"
proof -
  obtain u where u: "unit_at n m = Inr u" using unit_at_safe [OF assms(2)] by blast
  have core: "same_core m (add_timer t k n (snd (ask q (m\<lparr>m_wheel := x\<rparr>))))" for t q x
    by (simp add: ask_def add_timer_def same_core_def)
  show ?thesis
  proof (cases "Option.bind (map_option lim (service_cfg u)) as_duration")
    case (Some d)
    show ?thesis
      using assms(1) core [of "fst (ask (os_now w) (m\<lparr>m_wheel := cancel_by_kind n k (m_wheel m)\<rparr>)) + d"
          "os_now w" "cancel_by_kind n k (m_wheel m)"]
      by (simp add: arm_timeout_def u Some Let_def case_prod_unfold same_core_wf same_core_ext)
  qed (use assms(1) in \<open>simp add: arm_timeout_def u\<close>)
qed

lemma arm_start_timeout_safe: "wf m \<Longrightarrow> has_unit m n \<Longrightarrow> safe m (arm_start_timeout w n m)"
  by (simp add: arm_start_timeout_def arm_timeout_safe)

lemma arm_stop_timeout_safe: "wf m \<Longrightarrow> has_unit m n \<Longrightarrow> safe m (arm_stop_timeout w n m)"
  by (simp add: arm_stop_timeout_def arm_timeout_safe)

lemma unit_has_processes_safe:
  assumes "wf m" "has_unit m n"
  shows "safe2 m (unit_has_processes w n m)"
proof -
  obtain u where "unit_at n m = Inr u" using unit_at_safe [OF assms(2)] by blast
  note u = this
  show ?thesis
  proof (cases "u_main_pid u = None \<and> u_group_pid u = None \<and> u_cgroup u \<noteq> None")
    case True
    then obtain dir where dir: "u_cgroup u = Some dir" by blast
    obtain e m1 where a: "ask (\<lambda>t. os_cgroup_empty w t dir) m = (e, m1)" by fastforce
    have core: "same_core m m1" by (rule ask_core [OF a])
    from core assms(1) have "wf m1" "ext m m1" by (simp_all add: same_core_wf same_core_ext)
    with True dir a show ?thesis by (simp add: unit_has_processes_def u)
  next
    case False
    with assms(1) show ?thesis by (auto simp: unit_has_processes_def u split: option.splits)
  qed
qed

section \<open>Services\<close>

context engine_rec
begin

lemma fail_with_safe: "wf m \<Longrightarrow> has_unit m n \<Longrightarrow> safe m (fail_with w rec n r msg m)"
  by (auto simp: fail_with_def intro!: safe_bnd [OF upd_unit_safe] fail_unit_safe)

lemma begin_bus_name_wait_safe:
  assumes "wf m" "has_unit m n"
  shows "safe m (begin_bus_name_wait w rec n bus m)"
proof (cases bus)
  case None
  with assms show ?thesis
    by (auto simp: begin_bus_name_wait_def intro!: safe_bnd [OF upd_unit_safe] fail_unit_safe)
next
  case (Some bn)
  have "safe m' (Inr (watch_bus_name n bn m'))" if "wf m'" for m'
    using that same_core_wf [OF watch_bus_name_core] same_core_ext [OF watch_bus_name_core] by simp
  with assms Some show ?thesis
    by (auto simp: begin_bus_name_wait_def simp del: safe_Inr intro!: safe_bnd [OF upd_unit_safe])
qed

lemma complete_start_job_safe:
  assumes m: "wf m"
  shows "safe m (complete_start_job w rec n m)"
  unfolding complete_start_job_def
proof (rule safe_bnd)
  show "safe m (case map_of (m_unit_job m) n of
            None \<Rightarrow> Inr m
          | Some j \<Rightarrow>
              bnd (unit_job_at j m) (\<lambda>b.
                if jb_kind b = JStart then finish_job w rec j m else Inr m))"
    using m unit_job_at_wf [OF m, of n] finish_job_safe [OF m] by (auto split: option.splits)
qed (rule timer_dep_check_safe)

lemma mark_complete_safe:
  "wf m \<Longrightarrow> has_unit m n \<Longrightarrow> safe m (bnd (mark w n st sb r m) (complete_start_job w rec n))"
  by (auto intro!: safe_bnd [OF mark_safe] complete_start_job_safe)

lemma finalize_stop_safe:
  assumes m: "wf m" and n: "has_unit m name"
  shows "safe m (finalize_stop w rec name m)"
proof -
  obtain u0 where u0: "unit_at name m = Inr u0" using unit_at_safe [OF n] by blast
  define m2 where "m2 = (case u_cgroup u0 of
      Some dir \<Rightarrow> emit (EReleaseCgroup dir) (release_bus_name_watch name
                (m\<lparr>m_out_fds := filter (\<lambda>p. snd p \<noteq> name) (m_out_fds m)\<rparr>))
    | None \<Rightarrow> release_bus_name_watch name (m\<lparr>m_out_fds := filter (\<lambda>p. snd p \<noteq> name) (m_out_fds m)\<rparr>))"
  have "same_core m (m\<lparr>m_out_fds := filter (\<lambda>p. snd p \<noteq> name) (m_out_fds m)\<rparr>)"
    by (simp add: same_core_def)
  then have core1: "same_core m (release_bus_name_watch name
      (m\<lparr>m_out_fds := filter (\<lambda>p. snd p \<noteq> name) (m_out_fds m)\<rparr>))"
    by (rule same_core_trans) simp
  then have core: "same_core m m2"
    unfolding m2_def by (auto split: option.splits intro: same_core_trans [OF core1])
  have m2: "wf m2" "has_unit m2 name" using core m n by (simp_all add: same_core_wf same_core_has)
  have job: "safe m4 (case map_of (m_unit_job m4) name of
               None \<Rightarrow> Inr m4
             | Some j \<Rightarrow>
                 bnd (unit_job_at j m4) (\<lambda>b.
                   if jb_kind b = JStop \<or> jb_kind b = JRestart then finish_job w rec j m4
                   else Inr m4))" if "wf m4" for m4
    using that unit_job_at_wf [OF that, of name] finish_job_safe [OF that] by (auto split: option.splits)
  have last: "safe m5 (timer_dep_check w name (cleanup_directories w ds m5))" if "wf m5" for m5 ds
    using that by (auto intro: safe_at_core [OF _ cleanup_directories_core] timer_dep_check_safe)
  have "safe m2 (finalize_stop w rec name m)"
    unfolding finalize_stop_def u0 bnd_Inr Let_def m2_def [symmetric]
    using m2 by (auto intro!: safe_bnd [OF upd_unit_safe] safe_bnd [OF mark_safe] safe_bnd [OF job] last
        simp: reset_processes_def)
  then show ?thesis by (rule safe_core [OF core])
qed

lemma oneshot_done_safe:
  assumes "wf m" "has_unit m n"
  shows "safe m (oneshot_done w rec n m)"
proof -
  obtain u where "unit_at n m = Inr u" using unit_at_safe [OF assms(2)] by blast
  with assms show ?thesis by (simp add: oneshot_done_def Let_def mark_complete_safe)
qed

lemma stage_done_safe: "wf m \<Longrightarrow> has_unit m n \<Longrightarrow> safe m (stage_done w rec n cmd m)"
  by (auto simp: stage_done_def ready_def oneshot_done_safe finalize_stop_safe
      intro: rec_safe split: control_command.splits)

text \<open>Spawning.\<close>

lemma add_pid_safe:
  assumes "wf m" "has_unit m n"
  shows "wf (m\<lparr>m_pid_unit := hins p n (m_pid_unit m)\<rparr>)" "ext m (m\<lparr>m_pid_unit := hins p n (m_pid_unit m)\<rparr>)"
  using assms by (auto simp: wf_def wf_parts_def ext_def answered_def has_unit_def get_unit_def)

lemma ensure_cgroup_safe:
  assumes m: "wf m" and n: "has_unit m n"
  shows "safe2 m (ensure_cgroup w n m)"
proof -
  obtain u where u: "unit_at n m = Inr u" using unit_at_safe [OF n] by blast
  have upd: "safe2 m3 (bnd (upd_unit n (\<lambda>u. u\<lparr>u_cgroup := Some dir\<rparr>) m3) (\<lambda>m4. Inr (Some dir, m4)))"
    if "wf m3" "has_unit m3 n" for m3 dir
    using that by (auto intro!: safe_bnd [OF upd_unit_safe])
  have core: "safe2 m2 (let m3 = (case service_cfg u of
        Some sc \<Rightarrow> emit (EApplyLimits dir (sc_cgroup_limits sc)) m2 | None \<Rightarrow> m2)
      in bnd (upd_unit n (\<lambda>u. u\<lparr>u_cgroup := Some dir\<rparr>) m3) (\<lambda>m4. Inr (Some dir, m4)))"
    if "wf m2" "has_unit m2 n" for m2 dir
  proof (cases "service_cfg u")
    case (Some sc)
    have e: "same_core m2 (emit (EApplyLimits dir (sc_cgroup_limits sc)) m2)" by simp
    show ?thesis
      unfolding Some Let_def option.case
      by (rule safe_core [OF e], rule upd)
        (rule core_wf [OF e that(1)], rule core_has [OF e that(2)])
  qed (simp add: upd that)
  have create: "safe2 m1 (case ask (\<lambda>t. os_cgroup_create w t root n) m1 of
                   (None, m2) \<Rightarrow> Inr (None, m2)
                 | (Some dir, m2) \<Rightarrow>
                     (let m3 = (case service_cfg u of
                                  Some sc \<Rightarrow> emit (EApplyLimits dir (sc_cgroup_limits sc)) m2
                                | None \<Rightarrow> m2)
                      in bnd (upd_unit n (\<lambda>u. u\<lparr>u_cgroup := Some dir\<rparr>) m3) (\<lambda>m4.
                           Inr (Some dir, m4))))"
    if "wf m1" "has_unit m1 n" for m1 root
  proof (rule safe_ask [OF that])
    fix r m'
    assume m': "wf m'" "has_unit m' n"
    show "safe2 m' (case r of None \<Rightarrow> Inr (None, m')
                 | Some dir \<Rightarrow>
                     (let m3 = (case service_cfg u of
                                  Some sc \<Rightarrow> emit (EApplyLimits dir (sc_cgroup_limits sc)) m'
                                | None \<Rightarrow> m')
                      in bnd (upd_unit n (\<lambda>u. u\<lparr>u_cgroup := Some dir\<rparr>) m3) (\<lambda>m4.
                           Inr (Some dir, m4))))"
      using core [OF m'] m'(1) by (cases r) simp_all
  qed
  have root: "safe2 m (case ask (os_cgroup_root w) m of
              (None, m1) \<Rightarrow> Inr (None, m1)
            | (Some root, m1) \<Rightarrow>
                (case ask (\<lambda>t. os_cgroup_create w t root n) m1 of
                   (None, m2) \<Rightarrow> Inr (None, m2)
                 | (Some dir, m2) \<Rightarrow>
                     (let m3 = (case service_cfg u of
                                  Some sc \<Rightarrow> emit (EApplyLimits dir (sc_cgroup_limits sc)) m2
                                | None \<Rightarrow> m2)
                      in bnd (upd_unit n (\<lambda>u. u\<lparr>u_cgroup := Some dir\<rparr>) m3) (\<lambda>m4.
                           Inr (Some dir, m4)))))"
  proof (rule safe_ask [OF m n])
    fix r m'
    assume m': "wf m'" "has_unit m' n"
    show "safe2 m' (case r of None \<Rightarrow> Inr (None, m')
            | Some root \<Rightarrow>
                (case ask (\<lambda>t. os_cgroup_create w t root n) m' of
                   (None, m2) \<Rightarrow> Inr (None, m2)
                 | (Some dir, m2) \<Rightarrow>
                     (let m3 = (case service_cfg u of
                                  Some sc \<Rightarrow> emit (EApplyLimits dir (sc_cgroup_limits sc)) m2
                                | None \<Rightarrow> m2)
                      in bnd (upd_unit n (\<lambda>u. u\<lparr>u_cgroup := Some dir\<rparr>) m3) (\<lambda>m4.
                           Inr (Some dir, m4)))))"
      using create [OF m'] m'(1) by (cases r) simp_all
  qed
  show ?thesis
    unfolding ensure_cgroup_def u bnd_Inr using m root by (simp split: option.split)
qed

lemma spawn_ok_safe:
  assumes m0: "wf m0" and n: "has_unit m0 name"
  shows "safe m0 (spawn_ok w rec name cmd sc sp m0)"
proof -
  define m1 where "m1 = add_fd (sp_stderr sp) name (add_fd (sp_stdout sp) name m0)"
  have c1: "same_core m0 m1"
    unfolding m1_def by (rule same_core_trans [OF add_fd_core add_fd_core])
  define m2 where "m2 = m1\<lparr>m_pid_unit := hins (sp_pid sp) name (m_pid_unit m1)\<rparr>"
  obtain now m3 where a: "ask (os_now w) m2 = (now, m3)" by fastforce
  have c3: "same_core m2 m3" by (rule ask_core [OF a])
  have m1: "wf m1" "has_unit m1 name" using c1 m0 n by (simp_all add: same_core_wf same_core_has)
  have m2: "wf m2" "ext m1 m2" unfolding m2_def by (rule add_pid_safe [OF m1])+
  have m3: "wf m3" "has_unit m3 name"
    using c3 m2 ext_has [OF m2(2) m1(2)] by (simp_all add: same_core_wf same_core_has)
  have bus: "safe m5 (bnd (begin_bus_name_wait w rec name b m5) (arm_start_timeout w name))"
    if "wf m5" "has_unit m5 name" for m5 b
    using that by (auto intro!: safe_bnd [OF begin_bus_name_wait_safe] arm_start_timeout_safe)
  have "safe m3 (spawn_ok w rec name cmd sc sp m0)"
    unfolding spawn_ok_def Let_def m1_def [symmetric] m2_def [symmetric] a prod.case
    using m3 by (auto intro!: safe_bnd [OF upd_unit_safe] mark_complete_safe bus arm_start_timeout_safe)
  then have "safe m2 (spawn_ok w rec name cmd sc sp m0)" by (rule safe_core [OF c3])
  then have "safe m1 (spawn_ok w rec name cmd sc sp m0)" by (rule safe_ext [OF m2(2)])
  then show ?thesis by (rule safe_core [OF c1])
qed

lemma spawn_failed_safe:
  "wf m \<Longrightarrow> has_unit m n \<Longrightarrow> safe m (spawn_failed w rec n cmd exec e m)"
  by (auto simp: spawn_failed_def stage_done_safe intro!: safe_bnd [OF upd_unit_safe] fail_unit_safe)

lemma spawn_exec_safe:
  assumes m0: "wf m0" and n: "has_unit m0 name"
  shows "safe m0 (spawn_exec w rec name cmd idx sc exec argv env user gid m0)"
  unfolding spawn_exec_def
proof (rule safe_bnd [OF ensure_cgroup_safe [OF m0 n]])
  fix x :: "str option \<times> mgr"
  assume x: "wf (snd x)" "\<forall>n. has_unit m0 n \<longrightarrow> has_unit (snd x) n"
  obtain cgroup m1 where xe: "x = (cgroup, m1)" by fastforce
  have m1: "wf m1" "has_unit m1 name" using x n by (simp_all add: xe)
  have fin: "safe m2 (case r of Inr sp \<Rightarrow> spawn_ok w rec name cmd sc sp (emit (ESpawn name cmd idx) m2)
      | Inl e \<Rightarrow> spawn_failed w rec name cmd exec e (emit (ESpawn name cmd idx) m2))"
    if "wf m2" "has_unit m2 name" for m2 and r :: "str + spawned"
  proof (rule safe_core [OF emit_core])
    note m3 = core_wf [OF emit_core that(1)] core_has [OF emit_core that(2)]
    show "safe (emit (ESpawn name cmd idx) m2) (case r of
        Inr sp \<Rightarrow> spawn_ok w rec name cmd sc sp (emit (ESpawn name cmd idx) m2)
      | Inl e \<Rightarrow> spawn_failed w rec name cmd exec e (emit (ESpawn name cmd idx) m2))"
      using spawn_ok_safe [OF m3] spawn_failed_safe [OF m3] by (auto split: sum.splits)
  qed
  have ask: "safe m1 (let (r, m2) = ask q m1; m3 = emit (ESpawn name cmd idx) m2
     in case r of Inr sp \<Rightarrow> spawn_ok w rec name cmd sc sp m3
        | Inl e \<Rightarrow> spawn_failed w rec name cmd exec e m3)" for q
    by (rule safe_ask [OF m1]) (simp only: Let_def fin)
  show "safe (snd x) (case x of (cgroup, m1) \<Rightarrow>
     let opts = \<lparr>so_argv = argv, so_env = env, so_cwd = map_option fst (sc_working_directory sc),
           so_uid = map_option fst user, so_gid = gid,
           so_groups = (case user of Some (_, _, gs) \<Rightarrow> gs | None \<Rightarrow> []), so_nice = sc_nice sc,
           so_umask = sc_umask sc, so_rlimits = sc_rlimits sc,
           so_stdout_target = sc_std_output sc, so_stderr_target = sc_std_error sc,
           so_stdin_null = (\<not> sc_std_input sc),
           so_notify_socket =
             (if sc_service_type sc = Notify
              then Some (path_join (path_join (pa_runtime_dir (cfg_paths (m_cfg m1))) ''rystemd'') ''notify'')
              else None),
           so_listen_fds = socket_fds_for name m1, so_cgroup = cgroup, so_sandbox = sc_sandbox sc\<rparr>;
         (r, m2) = ask (\<lambda>t. os_spawn w t opts) m1;
         m3 = emit (ESpawn name cmd idx) m2
     in case r of
          Inr sp \<Rightarrow> spawn_ok w rec name cmd sc sp m3
        | Inl e \<Rightarrow> spawn_failed w rec name cmd exec e m3)"
    unfolding xe snd_conv prod.case by (subst Let_def) (rule ask)
qed

lemma safe_core2:
  "wf m \<Longrightarrow> has_unit m n \<Longrightarrow> same_core m m' \<Longrightarrow> (wf m' \<Longrightarrow> has_unit m' n \<Longrightarrow> safe_to sel m' r) \<Longrightarrow>
   safe_to sel m r"
  by (rule safe_core) (auto intro: core_wf core_has)

lemma spawn_prepared_safe:
  assumes m0: "wf m0" and n: "has_unit m0 name"
  shows "safe m0 (spawn_prepared w rec name cmd idx sc exec argv env m0)"
proof -
  obtain user m1 where a: "(case sc_user sc of
      Some n \<Rightarrow> ask (\<lambda>t. os_resolve_user w t n) m0 | None \<Rightarrow> (None, m0)) = (user, m1)" by fastforce
  obtain gid m2 where b: "(case sc_group sc of
      Some n \<Rightarrow> ask (\<lambda>t. os_resolve_group w t n) m1 | None \<Rightarrow> (None, m1)) = (gid, m2)" by fastforce
  obtain e m3 where c: "(if cmd = CtlStart then apply_directories w sc (sc_directories sc) m2
      else (None, m2)) = (e, m3)" by fastforce
  have c1: "same_core m0 m1" using a by (auto split: option.splits dest: ask_core)
  have c2: "same_core m1 m2" using b by (auto split: option.splits dest: ask_core)
  have c3: "same_core m2 m3" using c by (auto split: if_splits dest: apply_directories_core)
  note core2 = same_core_trans [OF c1 c2] and core3 = same_core_trans [OF same_core_trans [OF c1 c2] c3]
  have m1: "wf m1" "has_unit m1 name" by (rule core_wf [OF c1 m0], rule core_has [OF c1 n])
  have m2: "wf m2" "has_unit m2 name" by (rule core_wf [OF core2 m0], rule core_has [OF core2 n])
  have m3: "wf m3" "has_unit m3 name" by (rule core_wf [OF core3 m0], rule core_has [OF core3 n])
  have r1: "safe m0 (fail_with w rec name r msg m1)" for r msg
    by (rule safe_core [OF c1 fail_with_safe [OF m1]])
  have r2: "safe m0 (fail_with w rec name r msg m2)" for r msg
    by (rule safe_core [OF core2 fail_with_safe [OF m2]])
  have r3: "safe m0 (fail_with w rec name r msg m3)" for r msg
    by (rule safe_core [OF core3 fail_with_safe [OF m3]])
  have r4: "safe m0 (spawn_exec w rec name cmd idx sc exec argv env user gid m3)" for user gid
    by (rule safe_core [OF core3 spawn_exec_safe [OF m3]])
  show ?thesis
    unfolding spawn_prepared_def Let_def a prod.case b c
    by (cases e; cases user; cases gid; cases "sc_user sc"; cases "sc_group sc")
      (simp_all add: r1 r2 r3 r4 split: prod.split)
qed

lemma spawn_control_safe:
  assumes m: "wf m" and n: "has_unit m name"
  shows "safe m (spawn_control w rec name cmd idx m)"
proof -
  obtain u where u: "unit_at name m = Inr u" using unit_at_safe [OF n] by blast
  show ?thesis
  proof (cases "service_cfg u")
    case None
    then show ?thesis by (simp add: spawn_control_def u stage_done_safe [OF m n])
  next
    case (Some sc)
    obtain env m1 where e: "build_env w u m = (env, m1)" by fastforce
    have core: "same_core m m1" by (rule build_env_core [OF e])
    have "safe m (spawn_prepared w rec name cmd idx sc exec (expand_env_argv (ec_argv exec) env) env m1)" for exec
      by (rule safe_core2 [OF m n core]) (rule spawn_prepared_safe)
    then show ?thesis by (simp add: spawn_control_def u Some e Let_def stage_done_safe [OF m n])
  qed
qed

section \<open>Sockets, mounts and the other unit types\<close>

lemma bind_all_safe:
  "wf m \<Longrightarrow> has_unit m name \<Longrightarrow> safe2 m (bind_all w rec name service specs m)"
proof (induction specs arbitrary: m)
  case (Cons s specs)
  obtain k spec where s: "s = (k, spec)" by fastforce
  show ?case
    unfolding s bind_all.simps
  proof (rule safe_ask [OF Cons.prems])
    fix r m'
    assume m': "wf m'" "has_unit m' name"
    show "safe2 m' (case r of Inl e \<Rightarrow>
          bnd (fail_with w rec name ResResources (''Failed to bind socket '' @ spec @ '': '' @ e) m')
            (\<lambda>m2. Inr (False, m2))
      | Inr fd \<Rightarrow> bind_all w rec name service specs (socket_added name service spec fd m'))"
    proof (cases r)
      case (Inl e)
      then show ?thesis using fail_with_safe [OF m'] by (auto intro!: safe_bnd)
    next
      case (Inr fd)
      have "safe2 m' (bind_all w rec name service specs (socket_added name service spec fd m'))"
        by (rule safe_core2 [OF m' socket_added_core]) (rule Cons.IH)
      then show ?thesis by (simp add: Inr)
    qed
  qed
qed simp

lemma start_socket_safe:
  assumes m: "wf m" and n: "has_unit m name"
  shows "safe m (start_socket w rec name m)"
proof -
  obtain u where u: "unit_at name m = Inr u" using unit_at_safe [OF n] by blast
  have "safe m (bnd (bind_all w rec name svc specs m) (\<lambda>(ok, m1).
      if ok then bnd (mark w name Active SubRunning ResSuccess m1) (complete_start_job w rec name)
      else Inr m1))" for svc specs
    by (rule safe_bnd [OF bind_all_safe [OF m n]]) (use n in \<open>auto intro!: mark_complete_safe\<close>)
  then show ?thesis
    using mark_complete_safe [OF m n] by (simp add: start_socket_def u split: option.split)
qed

lemma stop_socket_safe:
  assumes m: "wf m" and n: "has_unit m name"
  shows "safe m (stop_socket w rec name m)"
  unfolding stop_socket_def
  by (rule safe_core2 [OF m n fold_core [OF close_socket_core]]) (rule finalize_stop_safe)

lemma ask_emit_core: "same_core m (emit eff (snd (ask q m)))"
  by (simp add: ask_def emit_def same_core_def)

lemma start_mount_safe:
  assumes m: "wf m" and n: "has_unit m name"
  shows "safe m (start_mount w rec name m)"
proof -
  obtain u where u: "unit_at name m = Inr u" using unit_at_safe [OF n] by blast
  have ok: "safe m (bnd (mark w name Active SubMounted ResSuccess (emit eff (snd (ask q m))))
      (complete_start_job w rec name))" for q :: "nat \<Rightarrow> str option" and eff
    by (rule safe_core2 [OF m n ask_emit_core]) (rule mark_complete_safe)
  have bad: "safe m (fail_with w rec name r msg (emit eff (snd (ask q m))))"
    for q :: "nat \<Rightarrow> str option" and eff r msg
    by (rule safe_core2 [OF m n ask_emit_core]) (rule fail_with_safe)
  show ?thesis
    by (simp add: start_mount_def u split_def Let_def fail_unit_safe [OF m n] ok bad split: option.split)
qed

lemma stop_mount_safe:
  assumes m: "wf m" and n: "has_unit m name"
  shows "safe m (stop_mount w rec name m)"
proof -
  obtain u where u: "unit_at name m = Inr u" using unit_at_safe [OF n] by blast
  have ok: "safe m (finalize_stop w rec name (emit eff (snd (ask q m))))"
    for q :: "nat \<Rightarrow> str option" and eff
    by (rule safe_core2 [OF m n ask_emit_core]) (rule finalize_stop_safe)
  have bad: "safe m (fail_with w rec name r msg (emit eff (snd (ask q m))))"
    for q :: "nat \<Rightarrow> str option" and eff r msg
    by (rule safe_core2 [OF m n ask_emit_core]) (rule fail_with_safe)
  show ?thesis
    by (simp add: stop_mount_def u split_def Let_def finalize_stop_safe [OF m n] ok bad
        split: option.split)
qed

lemma service_start_safe:
  assumes m: "wf m"
  shows "safe m (service_start w rec name m)"
proof (cases "get_unit m name")
  case None
  with m show ?thesis by (simp add: service_start_def)
next
  case (Some u)
  then have n: "has_unit m name" by (simp add: has_unit_def)
  show ?thesis
    unfolding service_start_def Some option.case Let_def
    using m n by (auto intro!: safe_bnd [OF upd_unit_safe] safe_bnd [OF mark_safe] rec_safe
        simp: begin_start_def ready_def)
qed

lemma service_stop_safe:
  assumes m: "wf m" and n: "has_unit m name"
  shows "safe m (service_stop w rec name m)"
  unfolding service_stop_def
proof (rule safe_bnd [OF unit_has_processes_safe [OF m n]])
  fix x :: "bool \<times> mgr"
  assume x: "wf (snd x)" "\<forall>n. has_unit m n \<longrightarrow> has_unit (snd x) n"
  obtain has_main m1 where xe: "x = (has_main, m1)" by fastforce
  have m1: "wf m1" "has_unit m1 name" using x n by (simp_all add: xe)
  obtain u where u: "get_unit m1 name = Some u" using known_unit [OF m1(2)] by blast
  have kill: "safe m1 (bnd (upd_unit name (\<lambda>u. u\<lparr>u_sub := SubStopSigterm\<rparr>) (kill_tree name sig m1))
      (arm_stop_timeout w name))" for sig
    by (rule safe_core2 [OF m1 kill_tree_core])
      (auto intro!: safe_bnd [OF upd_unit_safe] arm_stop_timeout_safe)
  have stop: "safe m1 (bnd (upd_unit name (\<lambda>u. u\<lparr>u_sub := SubStop\<rparr>) m1) (rec (CSpawn name CtlStop 0)))"
    using m1 by (auto intro!: safe_bnd [OF upd_unit_safe] rec_safe simp: ready_def)
  show "safe (snd x) (case x of (has_main, m1) \<Rightarrow>
       case get_unit m1 name of
         None \<Rightarrow> Inr m1
       | Some u \<Rightarrow>
           (let sc = service_cfg u;
                sig = (case Option.bind sc sc_kill_signal of Some s \<Rightarrow> s | None \<Rightarrow> sigterm);
                no_exec_stop = (case sc of Some s \<Rightarrow> sc_exec_stop s = [] | None \<Rightarrow> True)
            in if has_main then
                 bnd (upd_unit name (\<lambda>u. u\<lparr>u_sub := SubStopSigterm\<rparr>) (kill_tree name sig m1))
                   (arm_stop_timeout w name)
               else if no_exec_stop then finalize_stop w rec name m1
               else bnd (upd_unit name (\<lambda>u. u\<lparr>u_sub := SubStop\<rparr>) m1)
                      (rec (CSpawn name CtlStop 0))))"
    using kill stop finalize_stop_safe [OF m1] by (simp add: xe u Let_def)
qed

lemma marker_start_safe: "wf m \<Longrightarrow> safe m (marker_start w rec name m)"
  by (simp add: marker_start_def mark_complete_safe)

lemma path_start_safe:
  assumes m: "wf m"
  shows "safe m (path_start w rec name m)"
proof -
  have c: "same_core m (fold (\<lambda>d. emit (ECreateDir d True)) ds m)" for ds
    by (rule fold_core) simp
  show ?thesis
    unfolding path_start_def Let_def
    by (rule safe_core [OF c], rule marker_start_safe, rule core_wf [OF c m])
qed

lemma do_start_safe: "wf m \<Longrightarrow> safe m (do_start w rec name m)"
  by (auto simp: do_start_def has_unit_def marker_start_safe path_start_safe service_start_safe
      intro: start_socket_safe start_mount_safe split: option.splits unit_kind.splits)

lemma do_stop_safe:
  assumes m: "wf m" and n: "has_unit m name"
  shows "safe m (do_stop w rec name m)"
proof -
  have kind: "safe m3 (case map_option u_kind (get_unit m3 name) of
         Some Timer \<Rightarrow> finalize_stop w rec name m3
       | Some Target \<Rightarrow> finalize_stop w rec name m3
       | Some Device \<Rightarrow> finalize_stop w rec name m3
       | Some Path \<Rightarrow> finalize_stop w rec name m3
       | Some Socket \<Rightarrow> stop_socket w rec name m3
       | Some Mount \<Rightarrow> stop_mount w rec name m3
       | _ \<Rightarrow> service_stop w rec name m3)" if "wf m3" "has_unit m3 name" for m3
    using finalize_stop_safe [OF that] stop_socket_safe [OF that] stop_mount_safe [OF that]
      service_stop_safe [OF that] by (auto split: option.split unit_kind.split)
  have "safe m1 (let (now, m2) = ask (os_now w) m1 in
     bnd (upd_unit name (\<lambda>u. u\<lparr>u_stop_started := Some now\<rparr>) m2) f)"
    if "wf m1" "has_unit m1 name" "\<And>m3. wf m3 \<Longrightarrow> has_unit m3 name \<Longrightarrow> safe m3 (f m3)" for m1 f
    by (rule safe_ask [OF that(1,2)]) (use that(3) in \<open>auto intro!: safe_bnd [OF upd_unit_safe]\<close>)
  then show ?thesis
    unfolding do_stop_def using m n kind by (auto intro!: safe_bnd [OF mark_safe])
qed

lemma advance_drop_safe:
  "wf m \<Longrightarrow> safe m (bnd (try_advance_job w rec j m) (\<lambda>(_, m1). Inr m1))"
  by (rule safe_bnd [OF try_advance_job_safe]) auto

lemma dispatch_safe: "wf m \<Longrightarrow> ready m c \<Longrightarrow> safe m (dispatch w rec c m)"
  by (cases c) (simp_all add: dispatch_def ready_def do_start_safe do_stop_safe spawn_control_safe
      process_jobs_safe start_drop_safe advance_drop_safe enqueue_stop_safe enqueue_start_safe)

end

section \<open>The recursion\<close>

lemma run_safe: "wf m \<Longrightarrow> ready m c \<Longrightarrow> safe m (run w n c m)"
proof (induction n arbitrary: m c)
  case (Suc n)
  have "engine_rec (run w n)" by unfold_locales (rule Suc.IH)
  from engine_rec.dispatch_safe [OF this Suc.prems] show ?case by simp
qed simp

interpretation engine: engine_rec w "run w n" for w n
  by unfold_locales (rule run_safe)

end
