(* ===== verification/Event_Safe.thy ===== *)
theory Event_Safe
  imports Service_Safe
begin

text \<open>
  Safety of the events: exited processes, fired timers, path watches, readiness messages, bus
  names, control requests and signals. Each keeps the invariant and never aborts on a missing
  unit. What drops units from the table (a reload of the unit files, the removal of a device)
  and the kill request are outside: they do abort, and \<open>Engine_Props\<close> shows how.
\<close>

section \<open>Exited processes\<close>

lemma drop_pid:
  "wf m \<Longrightarrow> wf (m\<lparr>m_pid_unit := hdel p (m_pid_unit m)\<rparr>) \<and> ext m (m\<lparr>m_pid_unit := hdel p (m_pid_unit m)\<rparr>)"
  by (auto simp: wf_def wf_parts_def ext_def answered_def split: if_splits)

lemma sweep_safe:
  assumes m: "wf m" and n: "has_unit m name"
  shows "safe m (sweep_orphaned_group w name pgid m)"
proof -
  obtain u where u: "unit_at name m = Inr u" using unit_at_safe [OF n] by blast
  have kill: "safe m (case ask q m of
        (False, m1) \<Rightarrow> Inr m1
      | (True, m1) \<Rightarrow> Inr (if b then emit (EKillGroup pgid sigkill) m1 else m1))" for q b
  proof (rule safe_ask [OF m n])
    fix r m'
    assume m': "wf m'"
    have "same_core m' (emit (EKillGroup pgid sigkill) m')" by simp
    from core_wf [OF this m'] same_core_ext [OF this] m'
    show "safe m' (case r of True \<Rightarrow> Inr (if b then emit (EKillGroup pgid sigkill) m' else m')
        | False \<Rightarrow> Inr m')" by (cases r) auto
  qed
  show ?thesis
    using m kill by (simp add: sweep_orphaned_group_def u split: option.split)
qed

lemma read_pidfile_safe:
  assumes m: "wf m" and n: "has_unit m name"
  shows "safe2 m (read_forked_pidfile w name m)"
proof -
  obtain u where u: "unit_at name m = Inr u" using unit_at_safe [OF n] by blast
  have "safe2 m (case ask q m of
      (None, m1) \<Rightarrow> Inr (None, m1)
    | (Some txt, m1) \<Rightarrow> Inr (f txt, m1))" for q :: "nat \<Rightarrow> str option" and f :: "str \<Rightarrow> pid option"
    by (rule safe_ask [OF m n]) (simp split: option.split)
  then show ?thesis using m by (simp add: read_forked_pidfile_def u split: option.split)
qed

context engine_rec
begin

lemma on_stop_main_exit_safe:
  assumes m: "wf m" and n: "has_unit m name"
  shows "safe m (on_stop_main_exit w rec name m)"
  unfolding on_stop_main_exit_def
  by (rule safe_core2 [OF m n kill_tree_kill_core]) (rule finalize_stop_safe)

lemma handle_active_exit_safe:
  assumes m: "wf m" and n: "has_unit m name"
  shows "safe m (handle_active_exit w rec name ecode signal m)"
proof -
  obtain u where u: "unit_at name m = Inr u" using unit_at_safe [OF n] by blast
  have limit: "safe m' (bnd (upd_unit name (\<lambda>u. u\<lparr>u_result := ResStartLimitHit\<rparr>) m') (\<lambda>m2.
      bnd (mark w name Failed SubFailed ResStartLimitHit m2) (poke_failed w rec name)))"
    if "wf m'" "has_unit m' name" for m'
    using that by (auto intro!: safe_bnd [OF upd_unit_safe] safe_bnd [OF mark_safe] poke_failed_safe)
  have arm: "safe m' (case ask q m' of (now, m4) \<Rightarrow> Inr (add_timer (now + d) RestartDelay name m4))"
    if "wf m'" "has_unit m' name" for m' q d
    by (rule safe_ask [OF that]) (use core_wf [OF add_timer_core] same_core_ext [OF add_timer_core] in simp)
  have again: "safe m' (bnd (mark w name Activating SubAutoRestart ResSuccess m') (\<lambda>m2.
      bnd (upd_unit name (\<lambda>u. u\<lparr>u_n_restarts := u_n_restarts u + 1\<rparr>) m2) (\<lambda>m3.
        let (now, m4) = ask (os_now w) m3 in Inr (add_timer (now + d) RestartDelay name m4))))"
    if "wf m'" "has_unit m' name" for m' d
    using that by (auto intro!: safe_bnd [OF mark_safe] safe_bnd [OF upd_unit_safe] arm simp del: safe_Inr)
  have restart: "safe m (bnd (check_start_limit w name m) (\<lambda>(hit, m1).
      if hit then
        bnd (upd_unit name (\<lambda>u. u\<lparr>u_result := ResStartLimitHit\<rparr>) m1) (\<lambda>m2.
        bnd (mark w name Failed SubFailed ResStartLimitHit m2) (poke_failed w rec name))
      else
        bnd (mark w name Activating SubAutoRestart ResSuccess m1) (\<lambda>m2.
        bnd (upd_unit name (\<lambda>u. u\<lparr>u_n_restarts := u_n_restarts u + 1\<rparr>) m2) (\<lambda>m3.
          let (now, m4) = ask (os_now w) m3 in Inr (add_timer (now + d) RestartDelay name m4)))))" for d
    by (rule safe_bnd [OF check_start_limit_safe [OF m n]]) (use n limit again in auto)
  have ended: "safe m (bnd (mark w name st sb ResSuccess m) (\<lambda>m1.
      bnd (complete_start_job w rec name m1) (timer_dep_check w name)))" for st sb
    using m n by (auto intro!: safe_bnd [OF mark_safe] safe_bnd [OF complete_start_job_safe]
        timer_dep_check_safe)
  have failed: "safe m (bnd (upd_unit name (\<lambda>u. u\<lparr>u_result := r\<rparr>) m) (\<lambda>m1.
      bnd (mark w name Failed SubFailed r m1) (\<lambda>m2.
      bnd (poke_failed w rec name m2) (fire_on_failure w rec name))))" for r
    using m n by (auto intro!: safe_bnd [OF upd_unit_safe] safe_bnd [OF mark_safe]
        safe_bnd [OF poke_failed_safe] fire_on_failure_safe)
  show ?thesis
    unfolding handle_active_exit_def u bnd_Inr Let_def [where s = "service_cfg _"]
      Let_def [where s = "exit_success _ _ _"] Let_def [where s = "case_option _ _ _"]
    using restart ended failed by (simp only: if_split simp_thms)
qed

lemma main_exit_safe:
  assumes m: "wf m" and n: "has_unit m name"
  shows "safe m (main_exit w rec name ecode signal m)"
proof -
  obtain u where u: "unit_at name m = Inr u" using unit_at_safe [OF n] by blast
  have swept: "safe m1 (case u_group_pid u of
            Some pgid \<Rightarrow> if u_active u = Active then sweep_orphaned_group w name pgid m1 else Inr m1
          | None \<Rightarrow> Inr m1)" if "wf m1" "has_unit m1 name" for m1
    using that sweep_safe [OF that] by (simp split: option.split)
  have gone: "safe m2 (let m3 = release_bus_name_watch name m2 in
            if ok then mark w name Inactive SubDead ResSuccess m3
            else bnd (upd_unit name (\<lambda>u. u\<lparr>u_result := r\<rparr>) m3)
                   (fail_unit w rec name msg))" if "wf m2" "has_unit m2 name" for m2 ok r msg
    unfolding Let_def
    by (rule safe_core2 [OF that release_watch_core])
      (auto intro!: mark_safe safe_bnd [OF upd_unit_safe] fail_unit_safe)
  have ends: "safe m2 (case u_active u of
         Deactivating \<Rightarrow> on_stop_main_exit w rec name m2
       | Activating \<Rightarrow>
           (let m3 = release_bus_name_watch name m2 in
            if ok then mark w name Inactive SubDead ResSuccess m3
            else bnd (upd_unit name (\<lambda>u. u\<lparr>u_result := exit_result signal\<rparr>) m3)
                   (fail_unit w rec name (describe_exit ecode signal)))
       | _ \<Rightarrow> handle_active_exit w rec name ecode signal m2)" if "wf m2" "has_unit m2 name" for m2 ok
    using on_stop_main_exit_safe [OF that] handle_active_exit_safe [OF that] gone [OF that]
    by (cases "u_active u") (simp_all only: active_state.case)
  have upd: "safe m (upd_unit name (note_main_exit ecode signal) m)"
    by (rule upd_unit_safe [OF m n]) (simp add: note_main_exit_def)
  show ?thesis
    unfolding main_exit_def u bnd_Inr Let_def [where s = "exit_success _ _ _"]
    using n by (intro safe_bnd [OF upd] safe_bnd [OF swept] ends) auto
qed

lemma run_start_post_safe:
  assumes m: "wf m" and n: "has_unit m name"
  shows "safe m (run_start_post_or_finish w rec name m)"
proof -
  obtain u where u: "unit_at name m = Inr u" using unit_at_safe [OF n] by blast
  show ?thesis
    by (simp add: run_start_post_or_finish_def u spawn_control_safe [OF m n] oneshot_done_safe [OF m n])
qed

lemma forking_done_safe:
  assumes m: "wf m" and n: "has_unit m name"
  shows "safe m (handle_forking_start_done w rec name m)"
proof -
  have pid: "safe m1 (case pid of
            Some p \<Rightarrow>
              bnd (upd_unit name (\<lambda>u. u\<lparr>u_forked_main_pid := Some p, u_main_pid := Some p\<rparr>) m1) (\<lambda>m2.
                Inr (m2\<lparr>m_pid_unit := hins p name (m_pid_unit m2)\<rparr>))
          | None \<Rightarrow> Inr m1)" if "wf m1" "has_unit m1 name" for m1 pid
    using that by (auto intro!: safe_bnd [OF upd_unit_safe] simp: add_pid_safe split: option.split)
  show ?thesis
    unfolding handle_forking_start_done_def
  proof (rule safe_bnd [OF read_pidfile_safe [OF m n]])
    fix x :: "pid option \<times> mgr"
    assume x: "wf (snd x)" "\<forall>n. has_unit m n \<longrightarrow> has_unit (snd x) n"
    with n have h: "has_unit (snd x) name" by blast
    show "safe (snd x) (case x of (pid, m1) \<Rightarrow>
        bnd (case pid of
            Some p \<Rightarrow>
              bnd (upd_unit name (\<lambda>u. u\<lparr>u_forked_main_pid := Some p, u_main_pid := Some p\<rparr>) m1) (\<lambda>m2.
                Inr (m2\<lparr>m_pid_unit := hins p name (m_pid_unit m2)\<rparr>))
          | None \<Rightarrow> Inr m1) (\<lambda>m3.
        bnd (mark w name Active SubRunning ResSuccess m3) (complete_start_job w rec name)))"
      unfolding case_prod_unfold
      by (rule safe_bnd [OF pid [OF x(1) h]]) (use h in \<open>auto intro!: mark_complete_safe\<close>)
  qed
qed

lemma start_command_exit_safe:
  assumes m: "wf m" and n: "has_unit m name"
  shows "safe m (start_command_exit w rec name sc cidx ok ecode signal m)"
proof -
  have more: "safe m (bnd (upd_unit name (\<lambda>u. u\<lparr>u_cmd_index := i\<rparr>) m) (spawn_control w rec name CtlStart i))" for i
    using m n by (auto intro!: safe_bnd [OF upd_unit_safe] spawn_control_safe)
  have post: "safe m (bnd (upd_unit name (\<lambda>u. u\<lparr>u_cmd_index := 0\<rparr>) m) (run_start_post_or_finish w rec name))"
    using m n by (auto intro!: safe_bnd [OF upd_unit_safe] run_start_post_safe)
  show ?thesis
    unfolding start_command_exit_def
    using more [of "cidx + 1"] post fail_with_safe [OF m n] forking_done_safe [OF m n] main_exit_safe [OF m n]
    by (simp split: service_type.split option.split)
qed

lemma handle_control_exit_safe:
  assumes m: "wf m" and n: "has_unit m name"
  shows "safe m (handle_control_exit w rec name ecode signal m)"
proof -
  obtain u where u: "unit_at name m = Inr u" using unit_at_safe [OF n] by blast
  have upd: "safe m (upd_unit name clear_control m)"
    by (rule upd_unit_safe [OF m n]) (simp add: clear_control_def)
  show ?thesis
    unfolding handle_control_exit_def u bnd_Inr Let_def
  proof (rule safe_bnd [OF upd])
    fix m1
    assume "wf m1" "\<forall>k. has_unit m k \<longrightarrow> has_unit m1 k"
    with n have m1: "wf m1" "has_unit m1 name" by auto
    note ops = finalize_stop_safe [OF m1] spawn_control_safe [OF m1] fail_with_safe [OF m1]
      start_command_exit_safe [OF m1] mark_complete_safe [OF m1] main_exit_safe [OF m1]
    show "safe m1 (if u_control_command u = Some CtlStop \<and>
           \<not> (case Option.bind (map_of (m_unit_job m1) name) (get_job m1) of None \<Rightarrow> False
              | Some b \<Rightarrow> jb_kind b = JStop)
        then Inr m1
        else if u_active u = Deactivating then finalize_stop w rec name m1
        else case u_control_command u of
             None \<Rightarrow> main_exit w rec name ecode signal m1
           | Some CtlStartPre \<Rightarrow>
               if exit_success (service_cfg u) ecode signal \<or>
                 (case service_cfg u of None \<Rightarrow> False
                  | Some s \<Rightarrow> u_control_command u = Some CtlStart \<and> u_cmd_index u < length (sc_exec_start s) \<and>
                      ec_ignore_failure (sc_exec_start s ! u_cmd_index u))
               then spawn_control w rec name CtlStart 0 m1
               else fail_with w rec name ResExitCode
                      (''ExecStartPre failed: '' @ describe_exit ecode signal) m1
           | Some CtlStart \<Rightarrow> start_command_exit w rec name (service_cfg u) (u_cmd_index u)
               (exit_success (service_cfg u) ecode signal \<or>
                 (case service_cfg u of None \<Rightarrow> False
                  | Some s \<Rightarrow> u_control_command u = Some CtlStart \<and> u_cmd_index u < length (sc_exec_start s) \<and>
                      ec_ignore_failure (sc_exec_start s ! u_cmd_index u))) ecode signal m1
           | Some CtlStartPost \<Rightarrow>
               bnd (mark w name (if case service_cfg u of None \<Rightarrow> False | Some s \<Rightarrow> sc_remain_after_exit s
                                 then Active else Inactive)
                      (if case service_cfg u of None \<Rightarrow> False | Some s \<Rightarrow> sc_remain_after_exit s
                       then SubExited else SubDead) ResSuccess m1)
                 (complete_start_job w rec name)
           | Some CtlStop \<Rightarrow> finalize_stop w rec name m1
           | Some CtlReload \<Rightarrow> Inr m1
           | Some CtlKill \<Rightarrow> Inr m1)"
      using ops m1(1) by (simp split: option.split control_command.split)
  qed
qed

lemma handle_process_exit_safe:
  "wf m \<Longrightarrow> has_unit m name \<Longrightarrow> safe m (handle_process_exit w rec name pid ecode signal m)"
  by (simp add: handle_process_exit_def handle_control_exit_safe main_exit_safe)

lemma reap_one_safe:
  assumes m: "wf m"
  shows "safe m (reap_one w rec pe m)"
proof -
  obtain pid e where pe: "pe = (pid, e)" by fastforce
  define m1 where "m1 = m\<lparr>m_pid_unit := hdel pid (m_pid_unit m)\<rparr>"
  have m1: "wf m1" "ext m m1" using drop_pid [OF m] by (simp_all add: m1_def)
  show ?thesis
  proof (cases "map_of (m_pid_unit m) pid")
    case None
    with m1 show ?thesis by (simp add: reap_one_def pe m1_def)
  next
    case (Some n)
    have "has_unit m n" using wf_pid [OF m Some] by (simp add: has_unit_def get_unit_def)
    then have n: "has_unit m1 n" by (rule ext_has [OF m1(2)])
    have "safe m (handle_process_exit w rec n pid c s m1)" for c s
      by (rule safe_ext [OF m1(2) handle_process_exit_safe [OF m1(1) n]])
    then show ?thesis by (simp add: reap_one_def pe Some m1_def Let_def split: child_exit.split)
  qed
qed

lemma reap_safe:
  assumes m: "wf m"
  shows "safe m (reap w rec m)"
proof -
  obtain cs m1 where a: "ask (os_reap w) m = (cs, m1)" by fastforce
  have c: "same_core m m1" by (rule ask_core [OF a])
  have "safe m1 (fold_res (reap_one w rec) cs m1)"
    by (rule safe_fold [OF core_wf [OF c m]]) (rule reap_one_safe)
  then show ?thesis by (simp add: reap_def a safe_core [OF c])
qed

text \<open>Timers and path watches that fire, readiness and bus names.\<close>

lemma fire_service_timer_safe:
  assumes m: "wf m"
  shows "safe m (fire_service_timer w rec name kind m)"
proof -
  have known: "has_unit m name" if "map_option f (get_unit m name) = Some x" for f :: "unit_state \<Rightarrow> 'x" and x
    using that by (auto simp: has_unit_def)
  have again: "safe m (bnd (do_start w rec name m) (process_jobs w rec))"
    by (rule safe_bnd [OF do_start_safe [OF m]]) (rule process_jobs_safe)
  have late: "safe m (bnd (upd_unit name (\<lambda>u. u\<lparr>u_result := ResTimeout\<rparr>) m) (\<lambda>m1.
      fail_unit w rec name msg (kill_tree_kill name m1)))" if n: "has_unit m name" for msg
  proof (rule safe_bnd [OF upd_unit_safe [OF m n]])
    fix m1
    assume m1: "wf m1" and "\<forall>k. has_unit m k \<longrightarrow> has_unit m1 k"
    with n have "has_unit m1 name" by blast
    then show "safe m1 (fail_unit w rec name msg (kill_tree_kill name m1))"
      by (rule safe_core2 [OF m1 _ kill_tree_kill_core]) (rule fail_unit_safe)
  qed simp
  have stop: "safe m (finalize_stop w rec name (kill_tree_kill name m))" if n: "has_unit m name"
    by (rule safe_core2 [OF m n kill_tree_kill_core]) (rule finalize_stop_safe)
  show ?thesis
    using m again late stop known [of u_active]
    by (simp add: fire_service_timer_def split: timer_kind.split)
qed

lemma note_trigger_core: "note_trigger w kind epoch ts m = (r, m') \<Longrightarrow> same_core m m'"
  by (auto simp: note_trigger_def ask_def same_core_def Let_def split: timer_kind.splits)

lemma fire_timer_safe:
  assumes m: "wf m"
  shows "safe m (fire_timer w rec name kind m)"
proof (cases "get_unit m name")
  case None
  then show ?thesis by (simp add: fire_timer_def fire_service_timer_safe [OF m])
next
  case (Some u)
  show ?thesis
  proof (cases "u_kind u = Timer")
    case False
    with Some show ?thesis by (simp add: fire_timer_def fire_service_timer_safe [OF m])
  next
    case True
    obtain wall m1 where a: "ask (os_wall w) m = (wall, m1)" by fastforce
    have c: "same_core m m1" by (rule ask_core [OF a])
    define m2 where "m2 = (case u_timer u of
                         None \<Rightarrow> m1
                       | Some ts \<Rightarrow>
                           (let (ts', m') = note_trigger w kind (wall div 1000000) ts m1
                            in m'\<lparr>m_units := hins name (u\<lparr>u_timer := Some ts'\<rparr>) (m_units m')\<rparr>))"
    have m2: "wf m2 \<and> ext m m2"
    proof (cases "u_timer u")
      case None
      with c m show ?thesis by (simp add: m2_def core_wf same_core_ext)
    next
      case (Some ts)
      obtain ts' m' where b: "note_trigger w kind (wall div 1000000) ts m1 = (ts', m')" by fastforce
      have c': "same_core m m'" by (rule same_core_trans [OF c note_trigger_core [OF b]])
      have "get_unit m' name = Some u" using \<open>get_unit m name = Some u\<close> c' by (simp add: same_core_units)
      from put_unit_same [OF core_wf [OF c' m] this, of "u\<lparr>u_timer := Some ts'\<rparr>"]
      show ?thesis using Some b ext_trans [OF same_core_ext [OF c']] by (simp add: m2_def)
    qed
    have n2: "has_unit m2 name" using ext_has [of m m2 name] m2 Some by (simp add: has_unit_def)
    have "safe m2 (bnd (start_unit w rec (activated_unit u) m2) (\<lambda>(_, m3).
                bnd (rearm_timer w name m3) (process_jobs w rec)))"
    proof (rule safe_bnd [OF start_unit_safe])
      fix x :: "(ctl_error + unit) \<times> mgr"
      assume x: "wf (snd x)" "\<forall>k. has_unit m2 k \<longrightarrow> has_unit (snd x) k"
      show "safe (snd x) (case x of (_, m3) \<Rightarrow> bnd (rearm_timer w name m3) (process_jobs w rec))"
        unfolding case_prod_unfold using x n2
        by (intro safe_bnd [OF rearm_timer_safe] process_jobs_safe) auto
    qed (use m2 in blast)
    then have "safe m (bnd (start_unit w rec (activated_unit u) m2) (\<lambda>(_, m3).
                bnd (rearm_timer w name m3) (process_jobs w rec)))"
      using m2 by (blast intro: safe_ext)
    then show ?thesis
      unfolding fire_timer_def Some option.case Let_def a prod.case m2_def [unfolded Let_def, symmetric]
      using True by simp
  qed
qed

lemma path_candidates_spec:
  assumes "path_candidates w m = (cs, m')"
  shows "same_core m m'" "\<forall>c \<in> set cs. has_unit m' (fst c)"
proof -
  obtain names where u: "unit_names_where w (\<lambda>u. u_kind u = Path \<and> u_active u = Active) m = (names, m')"
    using assms by (auto simp: path_candidates_def split: prod.splits)
  show "same_core m m'" by (rule unit_names_where_core [OF u])
  show "\<forall>c \<in> set cs. has_unit m' (fst c)"
    using assms u by (auto simp: path_candidates_def map_filter_def has_unit_def
        split: option.splits bind_splits)
qed

lemma any_asked_core:
  assumes "\<And>x m r m'. f x m = (r, m') \<Longrightarrow> same_core m m'"
  shows "any_asked f xs m = (r, m') \<Longrightarrow> same_core m m'"
proof (induction xs arbitrary: m)
  case (Cons x xs)
  then show ?case by (auto split: prod.splits bool.splits dest: assms intro: same_core_trans)
qed simp

lemma any_changed_core: "any_changed w ps st m = (r, m') \<Longrightarrow> same_core m m'"
proof (induction ps arbitrary: st m)
  case (Cons p ps)
  then show ?case by (auto split: prod.splits bool.splits dest!: ask_core intro: same_core_trans)
qed simp

lemma matches_glob_any_core: "matches_glob_any w g m = (r, m') \<Longrightarrow> same_core m m'"
  by (auto simp: matches_glob_any_def Let_def split: option.splits prod.splits if_splits dest: ask_core)

lemma dir_not_empty_core: "dir_not_empty w p m = (r, m') \<Longrightarrow> same_core m m'"
  by (auto simp: dir_not_empty_def split: option.splits prod.splits list.splits dest: ask_core)

lemma eval_path_core:
  assumes "eval_path_triggers w pc st m = (r, m')"
  shows "same_core m m'"
proof -
  obtain b1 m1 where a: "any_asked (\<lambda>p. ask (\<lambda>t. os_exists w t p)) (pc_path_exists pc) m = (b1, m1)"
    by fastforce
  obtain b2 m2 where b: "any_asked (dir_not_empty w) (pc_directory_not_empty pc) m1 = (b2, m2)"
    by fastforce
  obtain b3 m3 where c: "any_asked (matches_glob_any w) (pc_path_exists_glob pc) m2 = (b3, m3)"
    by fastforce
  have c1: "same_core m m1" by (rule any_asked_core [OF ask_core a])
  have c2: "same_core m m2" by (rule same_core_trans [OF c1 any_asked_core [OF dir_not_empty_core b]])
  have c3: "same_core m m3" by (rule same_core_trans [OF c2 any_asked_core [OF matches_glob_any_core c]])
  show ?thesis
    using assms a b c c1 c2 c3
    by (cases b1; cases b2; cases b3)
      (auto simp: eval_path_triggers_def intro: same_core_trans [OF c3] dest: any_changed_core)
qed

lemma poll_watches_safe:
  "wf m \<Longrightarrow> \<forall>c \<in> set cs. has_unit m (fst c) \<Longrightarrow> safe2 m (poll_watches w quiet cs m)"
proof (induction cs arbitrary: m)
  case (Cons c cs)
  obtain name target pc where c: "c = (name, target, pc)" by (cases c) auto
  have n: "has_unit m name" using Cons.prems(2) by (simp add: c)
  obtain u where u: "unit_at name m = Inr u" using unit_at_safe [OF n] by blast
  define st where "st = (case u_path_state u of Some s \<Rightarrow> s | None \<Rightarrow> path_state_default)"
  obtain hit st1 m1 where e: "(if List.member quiet target
            then eval_path_triggers w pc (st\<lparr>ps_triggered := False\<rparr>) m
            else ((False, st), m)) = ((hit, st1), m1)" by (metis surj_pair)
  have c1: "same_core m m1" using e by (auto split: if_splits dest: eval_path_core)
  have m1: "wf m1" "has_unit m1 name" by (rule core_wf [OF c1 Cons.prems(1)], rule core_has [OF c1 n])
  define st2 where "st2 = (if hit then st1\<lparr>ps_triggered := True\<rparr> else st1)"
  have "safe2 m1 (bnd (upd_unit name (\<lambda>u. u\<lparr>u_path_state := Some st2\<rparr>) m1) (\<lambda>m2.
        bnd (poll_watches w quiet cs m2) (\<lambda>(fired, m3).
          Inr (if hit then target # fired else fired, m3))))"
  proof (rule safe_bnd [OF upd_unit_safe [OF m1]])
    fix m2
    assume m2: "wf m2" "\<forall>k. has_unit m1 k \<longrightarrow> has_unit m2 k"
    have "\<forall>c \<in> set cs. has_unit m2 (fst c)" using Cons.prems(2) m2(2) core_has [OF c1] by auto
    from Cons.IH [OF m2(1) this]
    show "safe2 m2 (bnd (poll_watches w quiet cs m2) (\<lambda>(fired, m3).
          Inr (if hit then target # fired else fired, m3)))"
      by (rule safe_bnd) auto
  qed simp
  then show ?case
    unfolding c poll_watches.simps u bnd_Inr Let_def st_def [symmetric] e prod.case st2_def [symmetric]
    by (rule safe_core [OF c1])
qed simp

lemma poll_paths_safe:
  assumes m: "wf m"
  shows "safe m (poll_paths w rec m)"
proof -
  obtain cs m1 where p: "path_candidates w m = (cs, m1)" by fastforce
  note spec = path_candidates_spec [OF p]
  define quiet where "quiet = filter (quiescent m1) (map (fst \<circ> snd) cs)"
  have fire: "safe m' (fire_path w rec t m')" if "wf m'" for m' t
    unfolding fire_path_def case_prod_unfold
    by (rule safe_bnd [OF start_unit_safe [OF that]]) (rule process_jobs_safe)
  have fires: "safe m' (fold_res (fire_path w rec) ts m')" if "wf m'" for m' ts
    by (rule safe_fold [OF that]) (rule fire)
  have "safe m1 (bnd (poll_watches w quiet cs m1) (\<lambda>(fired, m2). fold_res (fire_path w rec) fired m2))"
    by (rule safe_bnd [OF poll_watches_safe [OF core_wf [OF spec(1) m] spec(2)]])
      (auto intro!: fires)
  then show ?thesis
    unfolding poll_paths_def p Let_def prod.case quiet_def [symmetric] by (rule safe_core [OF spec(1)])
qed

lemma tick_safe:
  assumes m: "wf m"
  shows "safe m (tick w rec now m)"
proof -
  obtain due q where p: "pop_due now (m_wheel m) = (due, q)" by fastforce
  have c: "same_core m (m\<lparr>m_wheel := q\<rparr>)" by simp
  have f: "safe (m\<lparr>m_wheel := q\<rparr>) (fold_res (\<lambda>e. fire_timer w rec (te_unit e) (te_kind e)) due (m\<lparr>m_wheel := q\<rparr>))"
    by (rule safe_fold [OF core_wf [OF c m]]) (rule fire_timer_safe)
  have "safe (m\<lparr>m_wheel := q\<rparr>) (bnd (fold_res (\<lambda>e. fire_timer w rec (te_unit e) (te_kind e)) due (m\<lparr>m_wheel := q\<rparr>)) (\<lambda>m1.
      bnd (poll_paths w rec m1) (\<lambda>m2.
      bnd (reap w rec m2) (process_jobs w rec))))"
    by (intro safe_bnd [OF f] safe_bnd [OF poll_paths_safe] safe_bnd [OF reap_safe] process_jobs_safe)
  then show ?thesis unfolding tick_def p Let_def prod.case by (rule safe_core [OF c])
qed

lemma handle_notify_safe:
  assumes m: "wf m"
  shows "safe m (handle_notify_datagram w rec txt m)"
proof -
  obtain ready mainpid where f: "notify_fields (split_char (CHR 0x0A) txt) (False, None) = (ready, mainpid)"
    by fastforce
  obtain cs m1 where u: "unit_names_where w notify_candidate m = (cs, m1)" by fastforce
  have c: "same_core m m1" by (rule unit_names_where_core [OF u])
  have m1: "wf m1" by (rule core_wf [OF c m])
  have "safe m1 (case notify_target m1 cs mainpid of
           None \<Rightarrow> Inr m1
         | Some name \<Rightarrow>
             bnd (unit_at name m1) (\<lambda>u.
               if ready \<and> u_active u = Activating
               then bnd (mark w name Active SubRunning ResSuccess m1) (complete_start_job w rec name)
               else Inr m1))"
  proof (cases "notify_target m1 cs mainpid")
    case (Some name)
    then have "name \<in> set cs"
      by (auto simp: notify_target_def Let_def find_Some_iff split: option.splits list.splits)
    then have n: "has_unit m1 name" by (rule unit_names_where_has [OF u])
    then obtain v where "unit_at name m1 = Inr v" using unit_at_safe by blast
    then show ?thesis using Some m1 mark_complete_safe [OF m1 n] by simp
  qed (use m1 in simp)
  then show ?thesis
    unfolding handle_notify_datagram_def f u Let_def prod.case by (rule safe_core [OF c])
qed

lemma handle_name_acquired_safe:
  assumes m: "wf m"
  shows "safe m (handle_name_acquired w rec bus m)"
proof (cases "map_of (m_pending_bus_names m) bus")
  case (Some name)
  have c: "same_core m (release_name bus m)" by simp
  have m1: "wf (release_name bus m)" by (rule core_wf [OF c m])
  have n: "has_unit (release_name bus m) name"
    if "map_option u_active (get_unit (release_name bus m) name) = Some Activating"
    using that by (auto simp: has_unit_def)
  have "safe (release_name bus m) (if map_option u_active (get_unit (release_name bus m) name) = Some Activating
      then bnd (mark w name Active SubRunning ResSuccess (release_name bus m)) (complete_start_job w rec name)
      else Inr (release_name bus m))"
    using m1 mark_complete_safe [OF m1 n] by simp
  then show ?thesis
    unfolding handle_name_acquired_def Some option.case Let_def by (rule safe_core [OF c])
qed (use m in \<open>simp add: handle_name_acquired_def\<close>)

lemma read_output_safe:
  assumes m: "wf m"
  shows "safe m (Inr (read_output fd chunk m))"
proof (cases "map_of (m_out_fds m) fd")
  case (Some name)
  have c: "same_core m (m\<lparr>m_out_fds := hdel fd (m_out_fds m)\<rparr>)" by (simp add: same_core_def)
  show ?thesis
    using m Some core_wf [OF c m] same_core_ext [OF c] put_unit_same [OF m, of name]
    by (auto simp: read_output_def split: option.split)
qed (use m in \<open>simp add: read_output_def\<close>)

end

end
