(* ===== verification/Requests_Safe.thy ===== *)
theory Requests_Safe
  imports Event_Safe
begin

text \<open>
  Safety of the control requests. \<open>start\<close>, \<open>stop\<close>, \<open>reload\<close> and \<open>shutdown\<close> are safe in the
  sense of \<open>Engine_Inv\<close>. \<open>restart\<close> and \<open>start_ignore_dependencies\<close> drop a pending job without
  recording a result, so they keep the invariant (\<open>keeps\<close>) but not the accounting of job numbers.
\<close>

definition keeps_to :: "('a \<Rightarrow> mgr) \<Rightarrow> fault + 'a \<Rightarrow> bool" where
  "keeps_to sel r \<longleftrightarrow> (case r of Inl f \<Rightarrow> tame f | Inr x \<Rightarrow> wf (sel x))"

abbreviation keeps :: "fault + mgr \<Rightarrow> bool" where "keeps \<equiv> keeps_to (\<lambda>m. m)"
abbreviation keeps2 :: "fault + 'a \<times> mgr \<Rightarrow> bool" where "keeps2 \<equiv> keeps_to snd"

lemma keeps_simps [simp]: "keeps_to sel (Inl f) \<longleftrightarrow> tame f" "keeps_to sel (Inr x) \<longleftrightarrow> wf (sel x)"
  by (simp_all add: keeps_to_def)

lemma safe_keeps: "safe_to sel m r \<Longrightarrow> keeps_to sel r"
  by (cases r) auto

lemma keeps_bnd:
  assumes "keeps_to sel r" "\<And>x. r = Inr x \<Longrightarrow> wf (sel x) \<Longrightarrow> keeps_to sel' (f x)"
  shows "keeps_to sel' (bnd r f)"
  using assms by (cases r) auto

text \<open>Dropping a pending job and its index entry.\<close>

lemma forget_job:
  assumes wf: "wf m" and j: "map_of (m_unit_job m) name = Some j"
  shows "wf (m\<lparr>m_unit_job := hdel name (m_unit_job m), m_jobs := hdel j (m_jobs m)\<rparr>)"
proof (rule wfI)
  fix k i
  assume "map_of (m_unit_job (m\<lparr>m_unit_job := hdel name (m_unit_job m), m_jobs := hdel j (m_jobs m)\<rparr>)) k = Some i"
  then have k: "map_of (m_unit_job m) k = Some i" "k \<noteq> name" by (auto split: if_splits)
  obtain b where b: "map_of (m_jobs m) i = Some b" "jb_unit b = k" using wf_index [OF wf k(1)] by blast
  have "i \<noteq> j" using wf_index [OF wf j] b k(2) by auto
  with b show "\<exists>c. map_of (m_jobs (m\<lparr>m_unit_job := hdel name (m_unit_job m), m_jobs := hdel j (m_jobs m)\<rparr>)) i
      = Some c \<and> jb_unit c = k" by simp
next
  fix i b
  assume "map_of (m_jobs (m\<lparr>m_unit_job := hdel name (m_unit_job m), m_jobs := hdel j (m_jobs m)\<rparr>)) i = Some b"
  then show "i \<le> m_next_job (m\<lparr>m_unit_job := hdel name (m_unit_job m), m_jobs := hdel j (m_jobs m)\<rparr>) \<and>
      (jb_kind b = JStart \<longrightarrow> jb_failed b \<or>
        map_of (m_units (m\<lparr>m_unit_job := hdel name (m_unit_job m), m_jobs := hdel j (m_jobs m)\<rparr>)) (jb_unit b) \<noteq> None)"
    using wf_job [OF wf, of i b] by (auto split: if_splits)
qed (use wf_pid [OF wf] wf_window [OF wf] in auto)

lemma map_jobs_wf:
  assumes wf: "wf m" and f: "\<And>b. jb_unit (f b) = jb_unit b \<and> jb_kind (f b) = jb_kind b \<and> jb_failed (f b) = jb_failed b"
  shows "wf (m\<lparr>m_jobs := map (\<lambda>(i, b). (i, f b)) (m_jobs m)\<rparr>)"
proof -
  have mo: "map_of (map (\<lambda>(i, b). (i, f b)) js) i = map_option f (map_of js i)" for js :: "(nat \<times> job) list" and i
    by (induction js) auto
  show ?thesis
    by (rule wfI) (use wf_index [OF wf] wf_job [OF wf] wf_pid [OF wf] wf_window [OF wf] f
      in \<open>auto simp: mo, metis+\<close>)
qed

context engine_rec
begin

lemma stop_with_mode_safe:
  assumes m: "wf m"
  shows "safe2 m (stop_with_mode w rec name mode m)"
proof -
  have fresh: "safe2 m1 (bnd (enqueue_stop_job_after_mode w rec name None md m1) (\<lambda>m2.
              bnd (process_jobs w rec m2) (\<lambda>m3. Inr (Inr (Some (Suc (m_next_job m1))), m3))))"
    if "wf m1" for m1 md
    by (intro safe_bnd [OF enqueue_stop_safe [OF that]] safe_bnd [OF process_jobs_safe]) simp_all
  have mode: "safe2 m (bnd (upd_job j (\<lambda>b. b\<lparr>jb_mode := md\<rparr>) m) (\<lambda>m1. Inr (Inr (Some j), m1)))" for j md
    by (rule safe_bnd [OF upd_job_safe [OF m]]) simp_all
  have replace: "safe2 m (bnd (cancel_job w rec j MsgCanceledStop m) (\<lambda>m1.
              bnd (enqueue_stop_job_after_mode w rec name None md m1) (\<lambda>m2.
              bnd (process_jobs w rec m2) (\<lambda>m3. Inr (Inr (Some (Suc (m_next_job m1))), m3)))))" for j md
    by (rule safe_bnd [OF cancel_job_safe [OF m]]) (rule fresh)
  show ?thesis
    using m by (simp add: stop_with_mode_def Let_def fresh mode replace split: option.split)
qed

lemma stop_unit_safe: "wf m \<Longrightarrow> safe2 m (stop_unit w rec name m)"
  unfolding stop_unit_def by (rule safe_bnd [OF stop_with_mode_safe]) auto

lemma shutdown_safe:
  assumes m: "wf m"
  shows "safe m (shutdown w rec m)"
proof (cases "m_shutting_down m")
  case False
  define m0 where "m0 = m\<lparr>m_shutting_down := True, m_wheel := wheel_default\<rparr>"
  obtain names m1 where u: "unit_names_where w (\<lambda>u. u_active u \<noteq> Inactive) m0 = (names, m1)" by fastforce
  have c: "same_core m m1"
    by (rule same_core_trans [OF _ unit_names_where_core [OF u]]) (simp add: m0_def same_core_def)
  have one: "safe m' (bnd (stop_unit w rec n m') (\<lambda>(_, m'). Inr m'))" if "wf m'" for n m'
    by (rule safe_bnd [OF stop_unit_safe [OF that]]) auto
  have "safe m1 (bnd (fold_res (\<lambda>n m. bnd (stop_unit w rec n m) (\<lambda>(_, m'). Inr m')) names m1)
             (process_jobs w rec))"
    by (rule safe_bnd [OF safe_fold [OF core_wf [OF c m]]]) (use one process_jobs_safe in auto)
  then have "safe m (bnd (fold_res (\<lambda>n m. bnd (stop_unit w rec n m) (\<lambda>(_, m'). Inr m')) names m1)
             (process_jobs w rec))" by (rule safe_core [OF c])
  then show ?thesis using False u by (simp add: shutdown_def m0_def)
qed (use m in \<open>simp add: shutdown_def\<close>)

lemma reload_safe:
  assumes m: "wf m"
  shows "safe2 m (reload w rec name m)"
proof (cases "get_unit m name")
  case (Some u)
  then have n: "has_unit m name" by (simp add: has_unit_def)
  have run: "safe2 m (bnd (spawn_control w rec name CtlReload 0 m)
      (\<lambda>m1. Inr (Inr () :: ctl_error + unit, m1)))"
    by (rule safe_bnd [OF spawn_control_safe [OF m n]]) simp
  with m Some show ?thesis by (simp add: reload_def split: option.split)
qed (use m in \<open>simp add: reload_def\<close>)

lemma kill_safe:
  assumes m: "wf m" and n: "has_unit m name"
  shows "safe2 m (kill_unit w name sig m)"
  unfolding kill_unit_def
proof (rule safe_bnd [OF unit_has_processes_safe [OF m n]])
  fix x :: "bool \<times> mgr"
  assume x: "wf (snd x)"
  obtain alive m1 where xe: "x = (alive, m1)" by fastforce
  have c: "same_core m1 (kill_tree name sig m1)" by simp
  from x core_wf [OF c] same_core_ext [OF c]
  show "safe2 (snd x) (case x of (alive, m1) \<Rightarrow>
      if \<not> alive then Inr (Inl (NoProcesses name), m1) else Inr (Inr (), kill_tree name sig m1))"
    by (simp add: xe)
qed

lemma start_ignore_keeps:
  assumes m: "wf m"
  shows "keeps2 (start_ignore_dependencies w rec name m)"
proof (cases "\<not> has_unit m name \<or> unit_active m name")
  case False
  then have n: "has_unit m name" by simp
  define m1 where "m1 = (case map_of (m_unit_job m) name of
                    None \<Rightarrow> m
                  | Some j \<Rightarrow>
                      m\<lparr>m_unit_job := hdel name (m_unit_job m),
                        m_jobs := map (\<lambda>(i, b). (i, drop_waits name b)) (hdel j (m_jobs m))\<rparr>)"
  have m1: "wf m1"
  proof (cases "map_of (m_unit_job m) name")
    case (Some j)
    from map_jobs_wf [OF forget_job [OF m Some], of "drop_waits name"]
    show ?thesis by (simp add: m1_def Some drop_waits_def)
  qed (simp add: m1_def m)
  have n1: "has_unit m1 name"
    using n by (simp add: m1_def has_unit_def get_unit_def split: option.split)
  obtain m2 j where j: "new_job JStart name [] Replace m1 = (m2, j)" by fastforce
  have m2: "wf m2" using new_job_wf(1) [OF m1 _ j] n1 by simp
  have n2: "has_unit m2 name" using new_job_wf(2) [OF m1 _ j] n1 ext_has by blast
  have "get_job m2 j = Some (fresh_job JStart name [] Replace)" using new_job_wf(3) [OF m1 _ j] n1 by simp
  moreover from this have "j \<le> m_next_job m2"
    using wf_job [OF m2, of j "fresh_job JStart name [] Replace"] by (simp add: get_job_def)
  ultimately have j2: "start_id m2 j" by (simp add: start_id_def fresh_job_def)
  from j2 have j3: "get_job m2 j = Some b \<Longrightarrow> jb_kind b = JStart" for b by (simp add: start_id_def)
  have "safe2 m2 (bnd (maybe_start_job w rec j m2) (\<lambda>m3.
           bnd (process_jobs w rec m3) (\<lambda>m4. Inr (Inr (), m4))))"
    by (intro safe_bnd [OF maybe_start_job_safe [OF m2]] safe_bnd [OF process_jobs_safe]) (simp_all add: j2 j3)
  then have "keeps2 (bnd (maybe_start_job w rec j m2) (\<lambda>m3.
           bnd (process_jobs w rec m3) (\<lambda>m4. Inr (Inr (), m4))))" by (rule safe_keeps)
  then show ?thesis
    unfolding start_ignore_dependencies_def Let_def m1_def [symmetric] j prod.case using False by simp
qed (use m in \<open>auto simp: start_ignore_dependencies_def\<close>)

lemma restart_stop_keeps:
  assumes m: "wf m"
  shows "keeps2 (restart_stop w rec name m)"
proof -
  have stop: "keeps2 (bnd (enqueue_stop_job_after_mode w rec name (Some name) Replace m1) (\<lambda>m2.
                    bnd (process_jobs w rec m2) (\<lambda>m3. Inr (True, m3))))" if "wf m1" for m1
    by (rule safe_keeps [where m = m1],
        intro safe_bnd [OF enqueue_stop_safe [OF that]] safe_bnd [OF process_jobs_safe]) simp_all
  show ?thesis
  proof (cases "Option.bind (map_of (m_unit_job m) name) (\<lambda>j. map_option (Pair j) (get_job m j))")
    case None
    then show ?thesis by (simp add: restart_stop_def Let_def stop [OF m])
  next
    case (Some jb)
    then obtain j b where jb: "jb = (j, b)" "map_of (m_unit_job m) name = Some j"
      by (auto split: bind_splits)
    from stop [OF forget_job [OF m jb(2)]] stop [OF m] m show ?thesis
      by (simp add: restart_stop_def Let_def Some jb(1))
  qed
qed

lemma restart_keeps: "wf m \<Longrightarrow> keeps2 (restart k w rec name m)"
proof (induction k arbitrary: name m)
  case (Suc k)
  show ?case
  proof (cases "get_unit m name")
    case (Some u)
    have "keeps2 (bnd (restart_stop w rec name m) (\<lambda>(more, m1).
              if more \<and> u_kind u = Socket \<and> unit_operational m1 (activated_service u)
              then restart k w rec (activated_service u) m1
              else Inr (Inr (), m1)))"
      by (rule keeps_bnd [OF restart_stop_keeps [OF Suc.prems]]) (use Suc.IH in auto)
    moreover have "keeps2 (start_unit w rec name m)"
      by (rule safe_keeps [OF start_unit_safe [OF Suc.prems]])
    ultimately show ?thesis by (simp add: Some)
  qed (simp add: Suc.prems)
qed simp

end

section \<open>Devices that appear\<close>

lemma add_device_wf:
  assumes m: "wf m"
  shows "wf (add_device_unit w d name m) \<and> ext m (add_device_unit w d name m)"
proof (cases "has_unit m name")
  case False
  obtain wall m1 where a: "ask (os_wall w) m = (wall, m1)" by fastforce
  obtain wall2 m2 where b: "ask (os_wall w) m1 = (wall2, m2)" by fastforce
  define u where "u = (unit_new wall name Device)\<lparr>u_load := Loaded, u_file := Some (udev_unit_file d)\<rparr>"
  obtain u' seq where s: "set_active wall2 Active SubDead ResSuccess (m_next_invocation m2) u = (u', seq)"
    by fastforce
  have c: "same_core m m2" by (rule same_core_trans [OF ask_core [OF a] ask_core [OF b]])
  have "u_start_window u' = u_start_window u"
    using set_active_window [of wall2 Active SubDead ResSuccess "m_next_invocation m2" u] unfolding s by simp
  then have "u_start_window u' = []" by (simp add: u_def unit_new_def)
  then have "wf (m2\<lparr>m_units := hins name u' (m_units m2)\<rparr>) \<and> ext m2 (m2\<lparr>m_units := hins name u' (m_units m2)\<rparr>)"
    by (intro put_unit [OF core_wf [OF c m]]) simp
  then have "wf (m2\<lparr>m_units := hins name u' (m_units m2), m_next_invocation := seq\<rparr>) \<and>
      ext m2 (m2\<lparr>m_units := hins name u' (m_units m2), m_next_invocation := seq\<rparr>)"
    by (simp add: wf_def ext_def answered_def)
  moreover have "add_device_unit w d name m = m2\<lparr>m_units := hins name u' (m_units m2), m_next_invocation := seq\<rparr>"
    using False by (simp add: add_device_unit_def a b s u_def [symmetric])
  ultimately show ?thesis using ext_trans [OF same_core_ext [OF c]] by simp
qed (use m in \<open>simp add: add_device_unit_def\<close>)

lemma udev_register_wf:
  assumes m: "wf m"
  shows "wf (udev_register w d m) \<and> ext m (udev_register w d m)"
proof -
  have step: "wf (fold (add_device_unit w d) ns m') \<and> ext m' (fold (add_device_unit w d) ns m')"
    if "wf m'" for ns m'
    using that
  proof (induction ns arbitrary: m')
    case (Cons n ns)
    from add_device_wf [OF Cons.prems, of w d n] Cons.IH [of "add_device_unit w d n m'"]
    show ?case by (auto intro: ext_trans)
  qed simp
  have c: "same_core m (m\<lparr>m_udev_devices := hins (dv_devpath d) d (m_udev_devices m)\<rparr>)"
    by (simp add: same_core_def)
  from step [OF core_wf [OF c m]] same_core_ext [OF c] show ?thesis
    unfolding udev_register_def by (blast intro: ext_trans)
qed

end
