(* ===== verification/Manager_Runs.thy ===== *)
theory Manager_Runs
  imports Requests_Safe
begin

text \<open>
  The manager as a state machine: a new manager loads its units, and then handles one event after
  another. \<open>handle_event\<close> runs one event, its recursion cut at a depth chosen per event;
  \<open>reachable\<close> are the states of the runs. The properties of the runs follow from the safety of the
  operations (\<open>Service_Safe\<close>, \<open>Event_Safe\<close>, \<open>Requests_Safe\<close>) through the interpretation
  \<open>engine\<close> of \<open>engine_rec\<close>.
\<close>

section \<open>Events and runs\<close>

text \<open>\<open>Manager::new\<close>: every table empty.\<close>

definition manager_new :: "manager_cfg \<Rightarrow> nat \<Rightarrow> mgr" where
  "manager_new cfg now = \<lparr>m_cfg = cfg, m_units = [], m_jobs = [], m_completed_jobs = [], m_unit_job = [],
     m_next_job = 0, m_log_level = ''info'', m_wheel = wheel_default, m_pid_unit = [], m_out_fds = [],
     m_socket_listeners = [], m_socket_triggers = [], m_shutting_down = False, m_boot_instant = now,
     m_pending_bus_names = [], m_next_invocation = 1, m_dbus = False, m_udev_devices = [], m_tick = 0,
     m_trace = []\<rparr>"

datatype event =
    EvStart str job_mode
  | EvStartAlone str
  | EvStop str job_mode
  | EvRestart nat str
  | EvReload str
  | EvKill str int
  | EvShutdown
  | EvResetFailed str
  | EvLogLevel str
  | EvTick nat
  | EvChildren
  | EvNotify str
  | EvBusName str
  | EvOutput int str
  | EvDevice device
  | EvDbus
  | EvLoadUnits
  | EvDeviceGone device

text \<open>\<open>reset_failed_units\<close> on one unit; an unknown one is an error that changes nothing.\<close>

definition reset_unit :: "str \<Rightarrow> step" where
  "reset_unit name m =
     (case get_unit m name of
        Some u \<Rightarrow> if u_active u = Failed
                  then upd_unit name (\<lambda>u. u\<lparr>u_active := Inactive, u_sub := SubDead, u_result := ResSuccess\<rparr>) m
                  else Inr m
      | None \<Rightarrow> Inr m)"

definition drop_reply :: "'a reply \<Rightarrow> fault + mgr" where
  "drop_reply r = bnd r (\<lambda>(_, m). Inr m)"

fun handle_event :: "os \<Rightarrow> nat \<Rightarrow> event \<Rightarrow> step" where
  "handle_event w n (EvStart name mode) m = drop_reply (start_with_mode w (run w n) name mode m)"
| "handle_event w n (EvStartAlone name) m = drop_reply (start_ignore_dependencies w (run w n) name m)"
| "handle_event w n (EvStop name mode) m = drop_reply (stop_with_mode w (run w n) name mode m)"
| "handle_event w n (EvRestart k name) m = drop_reply (restart k w (run w n) name m)"
| "handle_event w n (EvReload name) m = drop_reply (reload w (run w n) name m)"
| "handle_event w n (EvKill name sig) m = drop_reply (kill_unit w name sig m)"
| "handle_event w n EvShutdown m = shutdown w (run w n) m"
| "handle_event w n (EvResetFailed name) m = reset_unit name m"
| "handle_event w n (EvLogLevel level) m = Inr (snd (set_log_level level m))"
| "handle_event w n (EvTick now) m = tick w (run w n) now m"
| "handle_event w n EvChildren m = reap w (run w n) m"
| "handle_event w n (EvNotify txt) m = handle_notify_datagram w (run w n) txt m"
| "handle_event w n (EvBusName bus) m = handle_name_acquired w (run w n) bus m"
| "handle_event w n (EvOutput fd chunk) m = Inr (read_output fd chunk m)"
| "handle_event w n (EvDevice d) m = Inr (udev_register w d m)"
| "handle_event w n EvDbus m = Inr (m\<lparr>m_dbus := True\<rparr>)"
| "handle_event w n EvLoadUnits m = bnd (load_all w m) (\<lambda>(_, m1). Inr m1)"
| "handle_event w n (EvDeviceGone d) m = Inr (udev_remove d m)"

text \<open>Reading the units again and losing a device drop units from the table. Such an event is
  admitted if it leaves those that are in use, by a pending start or a tracked process (else the program can
  abort, see \<open>reload_then_exit_aborts\<close>); a kill request is admitted for a known unit only (for another the program aborts, see
  \<open>kill_of_unknown_unit_aborts\<close>). Every other event is admitted.\<close>

definition keeps_used :: "mgr \<Rightarrow> mgr \<Rightarrow> bool" where
  "keeps_used m m' \<longleftrightarrow>
     list_all (\<lambda>(j, b). jb_kind b = JStart \<longrightarrow> jb_failed b \<or> has_unit m' (jb_unit b)) (m_jobs m) \<and>
     list_all (\<lambda>(p, n). has_unit m' n) (m_pid_unit m)"

fun admissible :: "os \<Rightarrow> mgr \<Rightarrow> event \<Rightarrow> bool" where
  "admissible w m (EvKill name sig) = has_unit m name"
| "admissible w m EvLoadUnits = (case load_all w m of Inr (_, m') \<Rightarrow> keeps_used m m' | Inl _ \<Rightarrow> True)"
| "admissible w m (EvDeviceGone d) = keeps_used m (udev_remove d m)"
| "admissible w m _ = True"

fun drops_units :: "event \<Rightarrow> bool" where
  "drops_units EvLoadUnits = True"
| "drops_units (EvDeviceGone d) = True"
| "drops_units _ = False"

text \<open>Events that drop a pending job without recording its result.\<close>

fun forgets_jobs :: "event \<Rightarrow> bool" where
  "forgets_jobs (EvStartAlone name) = True"
| "forgets_jobs (EvRestart k name) = True"
| "forgets_jobs _ = False"

inductive reachable :: "os \<Rightarrow> mgr \<Rightarrow> bool" for w :: os where
  boot: "load_all w (manager_new cfg now) = Inr (errors, m) \<Longrightarrow> reachable w m"
| event: "reachable w m \<Longrightarrow> admissible w m ev \<Longrightarrow> handle_event w n ev m = Inr m' \<Longrightarrow> reachable w m'"

inductive_cases reachableE: "reachable w m"

section \<open>Booting\<close>

definition fresh_units :: "unit_table \<Rightarrow> bool" where
  "fresh_units us \<longleftrightarrow> (\<forall>(n, u) \<in> set us. u_start_window u = [])"

lemma fresh_hins: "fresh_units us \<Longrightarrow> u_start_window u = [] \<Longrightarrow> fresh_units (hins n u us)"
  by (induction us) (auto simp: fresh_units_def)

lemma preserve_window [simp]: "u_start_window (preserve_runtime old u) = u_start_window u"
  by (simp add: preserve_runtime_def)

lemma load_units_fresh:
  assumes "load_units w names next errors m = (units, errs, m')"
  shows "fresh_units next \<Longrightarrow> fresh_units units \<and> same_core m m'"
  using assms
proof (induction names arbitrary: "next" errors m)
  case (Cons name names)
  obtain r m1 where l: "load_unit w name m = (r, m1)" by fastforce
  have c: "same_core m m1" by (rule load_unit_core [OF l])
  show ?case
  proof (cases r)
    case (Inl err)
    obtain wall m2 where a: "ask (os_wall w) m1 = (wall, m2)" by fastforce
    have c2: "same_core m1 m2" by (rule ask_core [OF a])
    define u where "u = (unit_new wall name (unit_kind_of name))\<lparr>u_load := LoadError, u_load_error := Some err\<rparr>"
    have "u_start_window u = []" by (simp add: u_def unit_new_def)
    moreover have "load_units w names (hins name u next) (errors @ [name @ '': '' @ err]) m2 = (units, errs, m')"
      using Cons.prems(2) l a by (simp add: Inl u_def)
    ultimately show ?thesis
      using Cons.IH Cons.prems(1) fresh_hins c c2 by (blast intro: same_core_trans)
  next
    case (Inr ou)
    show ?thesis
    proof (cases ou)
      case None
      then have "load_units w names next errors m1 = (units, errs, m')" using Cons.prems(2) l Inr by simp
      with Cons.IH Cons.prems(1) c show ?thesis by (blast intro: same_core_trans)
    next
      case (Some u)
      define u' where "u' = (case get_unit m1 name of Some old \<Rightarrow> preserve_runtime old u | None \<Rightarrow> u)"
      have "u_start_window u' = []"
        using load_unit_window l Inr Some by (auto simp: u'_def split: option.split)
      moreover have "load_units w names (hins name u' next) errors m1 = (units, errs, m')"
        using Cons.prems(2) l Inr Some by (simp add: u'_def)
      ultimately show ?thesis using Cons.IH Cons.prems(1) fresh_hins c by (blast intro: same_core_trans)
    qed
  qed
qed simp

text \<open>Reading the units touches no job and no process; the units read have no start in their window.\<close>

definition same_jobs :: "mgr \<Rightarrow> mgr \<Rightarrow> bool" where
  "same_jobs m m' \<longleftrightarrow> m_jobs m' = m_jobs m \<and> m_unit_job m' = m_unit_job m \<and> m_next_job m' = m_next_job m \<and>
     m_pid_unit m' = m_pid_unit m \<and> m_completed_jobs m' = m_completed_jobs m"

lemma same_jobs_refl: "same_jobs m m"
  by (simp add: same_jobs_def)

lemma same_jobs_trans: "same_jobs m m' \<Longrightarrow> same_jobs m' m'' \<Longrightarrow> same_jobs m m''"
  by (simp add: same_jobs_def)

lemma core_jobs: "same_core m m' \<Longrightarrow> same_jobs m m' \<and> m_units m' = m_units m"
  by (simp add: same_core_def same_jobs_def)

lemma add_device_fresh:
  assumes "fresh_units (m_units m)"
  shows "same_jobs m (add_device_unit w d name m) \<and> fresh_units (m_units (add_device_unit w d name m))"
proof (cases "has_unit m name")
  case False
  obtain wall m1 where a: "ask (os_wall w) m = (wall, m1)" by fastforce
  obtain wall2 m2 where b: "ask (os_wall w) m1 = (wall2, m2)" by fastforce
  define u where "u = (unit_new wall name Device)\<lparr>u_load := Loaded, u_file := Some (udev_unit_file d)\<rparr>"
  obtain u' seq where s: "set_active wall2 Active SubDead ResSuccess (m_next_invocation m2) u = (u', seq)" by fastforce
  have c: "same_jobs m m2 \<and> m_units m2 = m_units m"
    by (rule core_jobs [OF same_core_trans [OF ask_core [OF a] ask_core [OF b]]])
  have "u_start_window u' = u_start_window u"
    using set_active_window [of wall2 Active SubDead ResSuccess "m_next_invocation m2" u] unfolding s by simp
  then have "fresh_units (hins name u' (m_units m))" by (intro fresh_hins [OF assms]) (simp add: u_def unit_new_def)
  moreover have "add_device_unit w d name m = m2\<lparr>m_units := hins name u' (m_units m2), m_next_invocation := seq\<rparr>"
    using False by (simp add: add_device_unit_def a b s u_def [symmetric])
  ultimately show ?thesis using c by (simp add: same_jobs_def)
qed (use assms in \<open>simp add: add_device_unit_def same_jobs_refl\<close>)

lemma fold_fresh:
  assumes "\<And>x m. fresh_units (m_units m) \<Longrightarrow> same_jobs m (f x m) \<and> fresh_units (m_units (f x m))"
  shows "fresh_units (m_units m) \<Longrightarrow> same_jobs m (fold f xs m) \<and> fresh_units (m_units (fold f xs m))"
proof (induction xs arbitrary: m)
  case (Cons x xs)
  from assms [OF Cons.prems, of x] Cons.IH [of "f x m"] show ?case by (auto intro: same_jobs_trans)
qed (simp add: same_jobs_refl)

lemma register_fresh:
  assumes "fresh_units (m_units m)"
  shows "same_jobs m (udev_register w d m) \<and> fresh_units (m_units (udev_register w d m))"
  using fold_fresh [OF add_device_fresh, where m = "m\<lparr>m_udev_devices := hins (dv_devpath d) d (m_udev_devices m)\<rparr>"] assms
  unfolding udev_register_def by (simp add: same_jobs_def)

lemma rearm_timer_fresh:
  assumes "fresh_units (m_units m)" "has_unit m name"
  shows "\<exists>m'. rearm_timer w name m = Inr m' \<and> same_jobs m m' \<and> fresh_units (m_units m') \<and> (\<forall>k. has_unit m k \<longrightarrow> has_unit m' k)"
proof -
  obtain r where r: "rearm_timer w name m = r" by blast
  then show ?thesis
  proof (cases rule: rearm_timer_cases)
    case (1 m')
    with r assms(1) core_jobs [OF 1(1)] core_has [OF 1(1)] show ?thesis by auto
  next
    case (2 m' e)
    with unit_at_safe [OF core_has [OF 2(1) assms(2)]] show ?thesis by auto
  next
    case (3 t m')
    note c = core_jobs [OF 3(1)]
    obtain u where u: "get_unit m' name = Some u" using core_has [OF 3(1) assms(2)] by (auto simp: has_unit_def)
    then have "(name, u) \<in> set (m_units m')" by (auto simp: get_unit_def dest: map_of_SomeD)
    with c assms(1) have "u_start_window u = []" by (auto simp: fresh_units_def)
    with c assms(1) have "fresh_units (hins name (u\<lparr>u_timer := t\<rparr>) (m_units m'))" by (intro fresh_hins) simp_all
    then show ?thesis
      using r 3(2) u c core_has [OF 3(1)] by (auto simp: upd_unit_def same_jobs_def has_unit_def get_unit_def)
  qed
qed

lemma rearm_each_fresh:
  "fresh_units (m_units m) \<Longrightarrow> \<forall>n \<in> set ns. has_unit m n \<Longrightarrow>
   \<exists>m'. fold_res (rearm_timer w) ns m = Inr m' \<and> same_jobs m m' \<and> fresh_units (m_units m')"
proof (induction ns arbitrary: m)
  case (Cons n ns)
  then have "has_unit m n" by simp
  from rearm_timer_fresh [OF Cons.prems(1) this, of w] obtain m1 where
    m1: "rearm_timer w n m = Inr m1" "same_jobs m m1" "fresh_units (m_units m1)" "\<forall>k. has_unit m k \<longrightarrow> has_unit m1 k" by blast
  with Cons.prems(2) Cons.IH [OF m1(3)] show ?case by (auto intro: same_jobs_trans)
qed (simp add: same_jobs_refl)

lemma load_all_fresh:
  "\<exists>errors m'. load_all w m = Inr (errors, m') \<and> same_jobs m m' \<and> fresh_units (m_units m')"
proof -
  obtain names m1 where a: "ask (os_discover w) m = (names, m1)" by fastforce
  obtain us errors m2 where l: "load_units w names [] [] m1 = (us, errors, m2)" by (cases "load_units w names [] [] m1") auto
  from load_units_fresh [OF l] have us: "fresh_units us" and c2: "same_core m1 m2" by (auto simp: fresh_units_def)
  define m3 where "m3 = m2\<lparr>m_units := us\<rparr>"
  have m3: "same_jobs m m3" "fresh_units (m_units m3)"
    using core_jobs [OF same_core_trans [OF ask_core [OF a] c2]] us by (simp_all add: m3_def same_jobs_def)
  define m4 where "m4 = fold (udev_register w) (map snd (m_udev_devices m3)) m3"
  have m4: "same_jobs m3 m4" "fresh_units (m_units m4)" unfolding m4_def using fold_fresh [of "udev_register w", OF register_fresh m3(2)] by auto
  define m5 where "m5 = m4\<lparr>m_wheel := wheel_default\<rparr>"
  obtain ts m6 where t: "unit_names_where w (\<lambda>u. u_kind u = Timer) m5 = (ts, m6)" by fastforce
  have c6: "same_jobs m4 m6" "fresh_units (m_units m6)"
    using core_jobs [OF unit_names_where_core [OF t]] m4(2) by (auto simp: m5_def same_jobs_def)
  have "\<forall>n \<in> set ts. has_unit m6 n" using unit_names_where_has [OF t] by blast
  from rearm_each_fresh [OF c6(2) this, of w] obtain m7 where
    m7: "fold_res (rearm_timer w) ts m6 = Inr m7" "same_jobs m6 m7" "fresh_units (m_units m7)" by blast
  have "load_all w m = Inr (errors, m7)"
    unfolding load_all_def rearm_all_timers_def rearm_timers_def Let_def a l prod.case m3_def [symmetric] m4_def [symmetric] m5_def [symmetric] t
    by (simp add: m7(1))
  with m3(1) m4(1) c6(1) m7(2,3) show ?thesis by (blast intro: same_jobs_trans)
qed

lemma manager_new_wf: "wf (manager_new cfg now)"
  by (simp add: wf_def wf_parts_def manager_new_def)

lemma keeps_used_wf:
  assumes "wf m" "same_jobs m m'" "keeps_used m m'"
    "\<And>n u. get_unit m' n = Some u \<Longrightarrow> length (u_start_window u) \<le> start_limit_burst"
  shows "wf m'"
proof (rule wfI)
  fix j b
  assume b: "map_of (m_jobs m') j = Some b"
  with assms(2) have b0: "map_of (m_jobs m) j = Some b" by (simp add: same_jobs_def)
  then have "(j, b) \<in> set (m_jobs m)" by (rule map_of_SomeD)
  with assms(3) have "jb_kind b = JStart \<longrightarrow> jb_failed b \<or> has_unit m' (jb_unit b)" by (auto simp: keeps_used_def list_all_iff)
  with wf_job [OF assms(1) b0] assms(2)
  show "j \<le> m_next_job m' \<and> (jb_kind b = JStart \<longrightarrow> jb_failed b \<or> map_of (m_units m') (jb_unit b) \<noteq> None)"
    by (auto simp: same_jobs_def has_unit_def get_unit_def)
next
  fix p n
  assume "map_of (m_pid_unit m') p = Some n"
  with assms(2) have "(p, n) \<in> set (m_pid_unit m)" by (auto simp: same_jobs_def dest: map_of_SomeD)
  with assms(3) show "map_of (m_units m') n \<noteq> None" by (auto simp: keeps_used_def list_all_iff has_unit_def get_unit_def)
next
  fix n u
  assume "map_of (m_units m') n = Some u"
  then show "length (u_start_window u) \<le> start_limit_burst" using assms(4) by (simp add: get_unit_def)
next
  fix n j
  assume "map_of (m_unit_job m') n = Some j"
  then show "\<exists>b. map_of (m_jobs m') j = Some b \<and> jb_unit b = n" using wf_index [OF assms(1)] assms(2) by (simp add: same_jobs_def)
qed

lemma fresh_window: "fresh_units (m_units m) \<Longrightarrow> get_unit m n = Some u \<Longrightarrow> length (u_start_window u) \<le> start_limit_burst"
  unfolding fresh_units_def get_unit_def by (drule map_of_SomeD) auto

lemma load_all_wf:
  assumes "wf m" "load_all w m = Inr (errors, m')" "keeps_used m m'"
  shows "wf m'"
  using load_all_fresh [of w m] assms keeps_used_wf fresh_window by fastforce

lemma boot_wf: "load_all w (manager_new cfg now) = Inr (errors, m) \<Longrightarrow> wf m"
  by (rule load_all_wf [OF manager_new_wf]) (simp_all add: keeps_used_def manager_new_def)

lemma fold_hdel_sub: "map_of (fold hdel ns us) n = Some u \<Longrightarrow> map_of us n = Some u"
proof (induction ns arbitrary: us)
  case (Cons k ns)
  then have "map_of (hdel k us) n = Some u" using Cons.IH [of "hdel k us"] by (simp del: hget_hdel)
  then show ?case by (simp split: if_splits)
qed simp

lemma udev_remove_jobs: "same_jobs m (udev_remove d m)"
  by (simp add: same_jobs_def udev_remove_def)

lemma udev_remove_wf: "wf m \<Longrightarrow> keeps_used m (udev_remove d m) \<Longrightarrow> wf (udev_remove d m)"
  by (rule keeps_used_wf [OF _ udev_remove_jobs])
    (auto simp: udev_remove_def get_unit_def intro: wf_window dest!: fold_hdel_sub)

section \<open>Every event\<close>

lemma drop_safe: "safe2 m r \<Longrightarrow> safe m (drop_reply r)"
  unfolding drop_reply_def by (erule safe_bnd) auto

lemma drop_keeps: "keeps2 r \<Longrightarrow> keeps (drop_reply r)"
  unfolding drop_reply_def by (erule keeps_bnd) auto

lemma dbus_core: "same_core m (m\<lparr>m_dbus := True\<rparr>)"
  by (simp add: same_core_def)

lemma log_level_core: "same_core m (snd (set_log_level l m))"
  by (simp add: set_log_level_def Let_def same_core_def)

lemma reset_safe: "wf m \<Longrightarrow> safe m (reset_unit name m)"
  by (auto simp: reset_unit_def has_unit_def split: option.split intro!: upd_unit_safe)

lemmas request_safe = engine.start_with_mode_safe engine.stop_with_mode_safe engine.reload_safe
  engine.shutdown_safe
lemmas event_safe = engine.tick_safe engine.reap_safe engine.handle_notify_safe
  engine.handle_name_acquired_safe

lemma handle_event_safe:
  assumes "wf m" "admissible w m ev" "\<not> forgets_jobs ev" "\<not> drops_units ev"
  shows "safe m (handle_event w n ev m)"
  using assms engine.read_output_safe [OF assms(1)] udev_register_wf [OF assms(1), of w]
    engine.kill_safe [OF assms(1)] core_wf [OF dbus_core assms(1)] same_core_ext [OF dbus_core]
    core_wf [OF log_level_core assms(1)] same_core_ext [OF log_level_core] reset_safe [OF assms(1)]
  by (cases ev) (simp_all add: drop_safe request_safe event_safe)

lemma drops_jobs:
  assumes "wf m" "admissible w m ev" "drops_units ev"
  shows "\<exists>m'. handle_event w n ev m = Inr m' \<and> same_jobs m m' \<and> wf m'"
proof (cases ev)
  case EvLoadUnits
  obtain errors m' where l: "load_all w m = Inr (errors, m')" "same_jobs m m'" using load_all_fresh by blast
  with assms(2) EvLoadUnits load_all_wf [OF assms(1) l(1)] show ?thesis by simp
next
  case (EvDeviceGone d)
  with assms udev_remove_jobs udev_remove_wf show ?thesis by simp
qed (use assms(3) in simp_all)

lemma handle_event_keeps:
  assumes "wf m" "admissible w m ev"
  shows "keeps (handle_event w n ev m)"
proof (cases "forgets_jobs ev \<or> drops_units ev")
  case True
  then show ?thesis
    using drops_jobs [OF assms] engine.start_ignore_keeps [OF assms(1)] engine.restart_keeps [OF assms(1)]
    by (cases ev) (auto simp: drop_keeps)
next
  case False
  then show ?thesis by (intro safe_keeps [OF handle_event_safe [OF assms]]) simp_all
qed

text \<open>What an event that forgets no job leaves of the jobs.\<close>

lemma handle_event_jobs:
  assumes "wf m" "admissible w m ev" "\<not> forgets_jobs ev" "handle_event w n ev m = Inr m'"
  shows "(\<forall>j. answered m j \<longrightarrow> answered m' j) \<and> (\<forall>j. m_next_job m < j \<longrightarrow> j \<le> m_next_job m' \<longrightarrow> answered m' j) \<and>
    (\<forall>j b'. map_of (m_jobs m') j = Some b' \<longrightarrow> j \<le> m_next_job m \<longrightarrow>
       (\<exists>b. map_of (m_jobs m) j = Some b \<and> jb_unit b' = jb_unit b \<and> jb_kind b' = jb_kind b)) \<and>
    (drops_units ev \<or> (\<forall>k. has_unit m k \<longrightarrow> has_unit m' k))"
proof (cases "drops_units ev")
  case True
  with drops_jobs [OF assms(1,2), of n] assms(4) show ?thesis by (auto simp: same_jobs_def answered_def)
next
  case False
  with handle_event_safe [OF assms(1-3), of n] assms(4) have e: "ext m m'" by simp
  with ext_has [OF e] show ?thesis by (auto simp: ext_def)
qed

lemma reachable_wf: "reachable w m \<Longrightarrow> wf m"
proof (induction rule: reachable.induct)
  case (boot cfg now errors m)
  then show ?case by (rule boot_wf)
next
  case (event m ev n m')
  with handle_event_keeps [OF event.IH event.hyps(2), of n] show ?case by simp
qed

section \<open>A small manager\<close>

text \<open>A world with two targets, the first requiring the second, and the state after booting in it;
  the witnesses run on it.\<close>

definition demo_file :: "str \<Rightarrow> str list \<Rightarrow> unit_file" where
  "demo_file d reqs = (bare_unit_file d)\<lparr>uf_unit := empty_unit_config\<lparr>uc_description := d, uc_requires := reqs, uc_after := reqs\<rparr>\<rparr>"

definition demo_os :: os where
  "demo_os = \<lparr>os_now = (\<lambda>t. t), os_wall = (\<lambda>t. t), os_civil = (\<lambda>t. (2024, 1, 1, 0, 0, 0, 0)),
     os_epoch = (\<lambda>c. 0), os_weekday = (\<lambda>y m d. Some 0), os_id_order = (\<lambda>t xs. xs),
     os_name_order = (\<lambda>t xs. xs), os_env = (\<lambda>k. None), os_probe = (\<lambda>t k p. True),
     os_group_of = (\<lambda>t. (0, ''root'')), os_read_file = (\<lambda>t p. None), os_resolve_user = (\<lambda>t u. None),
     os_resolve_group = (\<lambda>t g. None), os_is_dir = (\<lambda>t p. True), os_mkdir = (\<lambda>t p r. None),
     os_chmod = (\<lambda>t p m. None), os_chown = (\<lambda>t p u g. None), os_cgroup_root = (\<lambda>t. None),
     os_cgroup_create = (\<lambda>t r n. None), os_cgroup_empty = (\<lambda>t d. True),
     os_spawn = (\<lambda>t o'. Inr \<lparr>sp_pid = int t, sp_stdout = None, sp_stderr = None\<rparr>),
     os_group_alive = (\<lambda>t p. False), os_bind = (\<lambda>t k s. Inr 3),
     os_mount = (\<lambda>t a b c d e. None), os_umount = (\<lambda>t p. None), os_exists = (\<lambda>t p. False),
     os_list_dir = (\<lambda>t p. None), os_mtime = (\<lambda>t p. None), os_reap = (\<lambda>t. []),
     os_load_file = (\<lambda>t n. if n = ''a.target'' then Inr (Some (demo_file ''A'' [''b.target''], None))
        else Inr (Some (demo_file ''B'' [], None))),
     os_discover = (\<lambda>t. [''a.target'', ''b.target''])\<rparr>"

definition demo_cfg :: manager_cfg where
  "demo_cfg = \<lparr>cfg_user = False, cfg_paths = \<lparr>pa_user = False, pa_unit_path = [], pa_config_dir = ''/etc'',
     pa_runtime_dir = ''/run''\<rparr>, cfg_hostname = ''h'', cfg_machine_id = ''m'', cfg_uid = 0,
     cfg_username = ''root'', cfg_home = ''/root'', cfg_base_env = [], cfg_journal_dir = ''/j'',
     cfg_socket_activation = True\<rparr>"

definition demo0 :: mgr where
  "demo0 = (case load_all demo_os (manager_new demo_cfg 0) of Inr (_, m) \<Rightarrow> m | Inl _ \<Rightarrow> manager_new demo_cfg 0)"

lemma demo_boot: "reachable demo_os demo0"
proof -
  have "\<not> isl (load_all demo_os (manager_new demo_cfg 0))" by code_simp
  then obtain errors m where l: "load_all demo_os (manager_new demo_cfg 0) = Inr (errors, m)"
    by (cases "load_all demo_os (manager_new demo_cfg 0)") auto
  then have "demo0 = m" by (simp add: demo0_def)
  with reachable.boot [OF l] show ?thesis by simp
qed

definition demo1 :: mgr where
  "demo1 = (case handle_event demo_os 12 (EvStart ''a.target'' Replace) demo0 of Inr m \<Rightarrow> m | Inl _ \<Rightarrow> demo0)"

lemma demo1_event: "handle_event demo_os 12 (EvStart ''a.target'' Replace) demo0 = Inr demo1"
proof -
  have "\<not> isl (handle_event demo_os 12 (EvStart ''a.target'' Replace) demo0)" by code_simp
  then show ?thesis
    by (cases "handle_event demo_os 12 (EvStart ''a.target'' Replace) demo0") (simp_all add: demo1_def)
qed

lemma demo1_reachable: "reachable demo_os demo1"
  by (rule reachable.event [OF demo_boot _ demo1_event]) simp

section \<open>Properties\<close>

text \<open>C1. In every state a manager can reach by admissible events, in any order and number: the entry of a unit in the job index points to a
  pending job of that unit; a pending start job is for a known unit unless it is already failed;
  every tracked process belongs to a known unit; and no unit has more than five starts recorded in
  its start window. The events are the control requests, timer ticks, child exits, readiness messages,
  bus names, output, new and lost devices and reloads of the unit files. A reload and the loss of a device are
  admissible if they leave the units of pending start jobs and of tracked processes in the table, a kill
  if its unit is known, every other event always. (Without the condition on reloads the invariant does
  not hold: \<open>reload_then_exit_aborts\<close>.)\<close>

theorem engine_invariant:
  assumes "reachable w m"
  shows "(\<forall>n j. map_of (m_unit_job m) n = Some j \<longrightarrow> (\<exists>b. get_job m j = Some b \<and> jb_unit b = n)) \<and>
    (\<forall>j b. get_job m j = Some b \<longrightarrow> j \<le> m_next_job m \<and>
       (jb_kind b = JStart \<longrightarrow> jb_failed b \<or> has_unit m (jb_unit b))) \<and>
    (\<forall>p n. map_of (m_pid_unit m) p = Some n \<longrightarrow> has_unit m n) \<and>
    (\<forall>n u. get_unit m n = Some u \<longrightarrow> length (u_start_window u) \<le> 5)"
  using reachable_wf [OF assms]
  unfolding wf_def wf_parts_def has_unit_def get_unit_def get_job_def start_limit_burst_def by blast

theorem engine_invariant_witness:
  "\<exists>u. get_unit demo1 ''b.target'' = Some u \<and> u_active u = Active \<and> length (u_start_window u) \<le> 5"
proof -
  have "map_option u_active (get_unit demo1 ''b.target'') = Some Active" by code_simp
  then show ?thesis using engine_invariant [OF demo1_reachable] by blast
qed

text \<open>C2. From a reachable state no admissible event makes the manager abort on a unit missing from
  the unit table or on a job index entry without its job. Not admissible are a kill of an unknown unit, and a reload
  or the loss of a device that drops a unit with a pending start job or a tracked process; these three are the only
  restrictions. (It may still run out of the recursion
  depth given to it, or abort on a job that vanished while it was being expanded.)\<close>

theorem no_abort_on_missing_unit:
  assumes "reachable w m" "admissible w m ev"
  shows "handle_event w n ev m \<noteq> Inl (PanicUnit u) \<and> handle_event w n ev m \<noteq> Inl (PanicUnitJob j)"
  using handle_event_keeps [OF reachable_wf [OF assms(1)] assms(2), of n] by (auto simp: tame_def)

theorem no_abort_on_missing_unit_witness:
  "handle_event demo_os 12 (EvStop ''a.target'' Replace) demo1 \<noteq> Inl (PanicUnit ''b.target'') \<and>
   handle_event demo_os 12 (EvStop ''a.target'' Replace) demo1 \<noteq> Inl (PanicUnitJob 1)"
  by (rule no_abort_on_missing_unit [OF demo1_reachable]) simp

text \<open>C3. No job is lost by an admissible event other than a restart or a start that ignores dependencies: every job number
  that \<open>job_status\<close> answers (as pending or with its result) before the event it answers after it; every
  number given out during the event it answers; a job pending afterwards that is not new was pending
  before, for the same unit and of the same kind. And a known unit stays known, unless the event is a reload of
  the unit files or the loss of a device.\<close>

theorem jobs_accounted_for:
  assumes "reachable w m" "admissible w m ev" "\<not> forgets_jobs ev" "handle_event w n ev m = Inr m'"
  shows "(\<forall>j. job_status_of m [j] \<noteq> [] \<longrightarrow> job_status_of m' [j] \<noteq> []) \<and>
    (\<forall>j. m_next_job m < j \<longrightarrow> j \<le> m_next_job m' \<longrightarrow> job_status_of m' [j] \<noteq> []) \<and>
    (\<forall>j b'. get_job m' j = Some b' \<longrightarrow> j \<le> m_next_job m \<longrightarrow>
       (\<exists>b. get_job m j = Some b \<and> jb_unit b' = jb_unit b \<and> jb_kind b' = jb_kind b)) \<and>
    (drops_units ev \<or> (\<forall>k. has_unit m k \<longrightarrow> has_unit m' k))"
proof -
  have "answered x j \<longleftrightarrow> job_status_of x [j] \<noteq> []" for x j
    by (cases "map_of (m_jobs x) j"; cases "map_of (m_completed_jobs x) j")
      (simp_all add: answered_def job_status_of_def get_job_def map_filter_def)
  with handle_event_jobs [OF reachable_wf [OF assms(1)] assms(2-4)] show ?thesis by (simp add: get_job_def)
qed

lemma demo0_jobs: "m_next_job demo0 = 0"
  by code_simp

lemma demo1_jobs: "m_next_job demo1 = 2"
  by code_simp

theorem jobs_accounted_for_witness:
  "has_unit demo1 ''a.target'' \<and> job_status_of demo1 [1] \<noteq> [] \<and> job_status_of demo1 [2] \<noteq> []"
proof -
  have "has_unit demo0 ''a.target''" by code_simp
  then show ?thesis
    using jobs_accounted_for [OF demo_boot _ _ demo1_event]
    by (simp add: demo0_jobs demo1_jobs)
qed

end
