(* ===== verification/Engine_Props.thy ===== *)
theory Engine_Props
  imports Manager_Runs
begin

text \<open>
  Properties of single operations of the manager: the start-rate limit, automatic restarts,
  timeouts, the end of a stop, device units, listings; and two ways the program aborts.
\<close>

section \<open>The start-rate limit\<close>

text \<open>Attempts to start a unit at the given times: the times of those that were let through.\<close>

fun let_through :: "os \<Rightarrow> str \<Rightarrow> nat list \<Rightarrow> mgr \<Rightarrow> nat list" where
  "let_through w name [] m = []"
| "let_through w name (t # ts) m =
     (case check_start_limit (w\<lparr>os_now := \<lambda>_. t\<rparr>) name m of
        Inl f \<Rightarrow> []
      | Inr (hit, m') \<Rightarrow> (if hit then [] else [t]) @ let_through w name ts m')"

definition spread :: "nat list \<Rightarrow> bool" where
  "spread A \<longleftrightarrow> (\<forall>i. i + start_limit_burst < length A \<longrightarrow> A ! i + start_limit_window < A ! (i + start_limit_burst))"

definition recent :: "nat \<Rightarrow> nat list \<Rightarrow> nat list" where
  "recent t H = filter (\<lambda>x. t \<le> x + start_limit_window) H"

lemma recent_recent: "t \<le> t' \<Longrightarrow> recent t' (recent t H) = recent t' H"
  by (auto simp: recent_def intro: filter_cong)

lemma spread_snoc:
  assumes "spread A" "length (recent t A) < start_limit_burst" "sorted A"
  shows "spread (A @ [t])"
proof -
  have last: "A ! i + start_limit_window < t" if i: "i + start_limit_burst = length A" for i
  proof (rule ccontr)
    assume "\<not> A ! i + start_limit_window < t"
    then have ge: "t \<le> A ! i + start_limit_window" by simp
    have "A ! i \<le> x" if "x \<in> set (drop i A)" for x
    proof -
      from that obtain k where "x = A ! (i + k)" "i + k < length A"
        by (auto simp: in_set_conv_nth)
      with assms(3) show ?thesis by (simp add: sorted_iff_nth_mono)
    qed
    with ge have "\<forall>x \<in> set (drop i A). t \<le> x + start_limit_window" by fastforce
    then have "recent t (drop i A) = drop i A" by (simp add: recent_def)
    moreover have "recent t A = recent t (take i A) @ recent t (drop i A)"
      by (simp add: recent_def flip: filter_append)
    ultimately have "length (recent t A) \<ge> length A - i" by simp
    with assms(2) i show False by simp
  qed
  show ?thesis
    unfolding spread_def
  proof (intro allI impI)
    fix i
    assume i: "i + start_limit_burst < length (A @ [t])"
    then have b: "i < length A" by (simp add: start_limit_burst_def)
    show "(A @ [t]) ! i + start_limit_window < (A @ [t]) ! (i + start_limit_burst)"
    proof (cases "i + start_limit_burst = length A")
      case True
      with last [OF True] b show ?thesis by (simp add: nth_append)
    next
      case False
      with i have "i + start_limit_burst < length A" by simp
      with assms(1) b show ?thesis by (simp add: spread_def nth_append)
    qed
  qed
qed

lemma check_start_limit_step:
  assumes "get_unit m name = Some u"
  shows "\<exists>m' u'. check_start_limit (w\<lparr>os_now := \<lambda>_. t\<rparr>) name m =
      Inr (start_limit_burst \<le> length (recent t (u_start_window u)), m') \<and> get_unit m' name = Some u' \<and>
    u_start_window u' = (if start_limit_burst \<le> length (recent t (u_start_window u))
      then recent t (u_start_window u) else recent t (u_start_window u) @ [t])"
  using assms by (simp add: check_start_limit_def ask_def get_unit_def Let_def recent_def)

lemma let_through_spread:
  assumes "get_unit m name = Some u" "u_start_window u = recent t0 H" "spread H" "sorted H"
    "\<forall>x \<in> set H. x \<le> t0" "sorted (t0 # ts)"
  shows "spread (H @ let_through w name ts m)"
  using assms
proof (induction ts arbitrary: m u H t0)
  case (Cons t ts)
  let ?hit = "start_limit_burst \<le> length (recent t H)"
  have t0: "t0 \<le> t" using Cons.prems(6) by simp
  then have rr: "recent t (u_start_window u) = recent t H" using Cons.prems(2) by (simp add: recent_recent)
  obtain m' u' where step: "check_start_limit (w\<lparr>os_now := \<lambda>_. t\<rparr>) name m = Inr (?hit, m')"
      "get_unit m' name = Some u'" "u_start_window u' = (if ?hit then recent t H else recent t H @ [t])"
    using check_start_limit_step [OF Cons.prems(1), where w = w and t = t] unfolding rr by blast
  have H: "\<forall>x \<in> set H. x \<le> t" using Cons.prems(5) t0 by fastforce
  show ?case
  proof (cases ?hit)
    case True
    from Cons.IH [OF step(2) _ Cons.prems(3,4) H, of ] True step(3) Cons.prems(6)
    show ?thesis by (simp add: step(1))
  next
    case False
    have s: "spread (H @ [t])" using spread_snoc [OF Cons.prems(3) _ Cons.prems(4)] False by simp
    have o: "sorted (H @ [t])" using Cons.prems(4) H by (simp add: sorted_append)
    have "u_start_window u' = recent t (H @ [t])" using False step(3) by (simp add: recent_def)
    from Cons.IH [OF step(2) this s o] H Cons.prems(6) False show ?thesis by (simp add: step(1))
  qed
qed simp

text \<open>C4. Whatever the times at which starts of a unit are attempted, of the attempts that the limit
  lets through any six in a row span more than the ten seconds of the window.\<close>

theorem start_rate_limited:
  assumes "get_unit m name = Some u" "u_start_window u = []" "sorted ts"
  shows "spread (let_through w name ts m)"
proof (cases ts)
  case Nil
  then show ?thesis by (simp add: spread_def)
next
  case (Cons t ts')
  with assms show ?thesis
    using let_through_spread [of m name u 0 "[]" ts w] by (simp add: spread_def recent_def)
qed

theorem start_rate_limited_witness:
  "spread (let_through demo_os ''b.target'' [1, 2, 3, 4, 5, 6, 10000003, 20000000] demo0) \<and>
   let_through demo_os ''b.target'' [1, 2, 3, 4, 5, 6, 10000003, 20000000] demo0 =
     [1, 2, 3, 4, 5, 10000003, 20000000]"
proof
  have "map_option u_start_window (get_unit demo0 ''b.target'') = Some []" by code_simp
  then obtain u where u: "get_unit demo0 ''b.target'' = Some u" "u_start_window u = []" by auto
  show "spread (let_through demo_os ''b.target'' [1, 2, 3, 4, 5, 6, 10000003, 20000000] demo0)"
    by (rule start_rate_limited [OF u]) simp
  show "let_through demo_os ''b.target'' [1, 2, 3, 4, 5, 6, 10000003, 20000000] demo0 =
     [1, 2, 3, 4, 5, 10000003, 20000000]" by code_simp
qed

section \<open>Deadlines of a unit\<close>

definition deadlines :: "str \<Rightarrow> timer_kind \<Rightarrow> mgr \<Rightarrow> nat set" where
  "deadlines name k m = te_when ` {e \<in> live (m_wheel m). te_unit e = name \<and> te_kind e = k}"

text \<open>Arming a start or stop timeout leaves exactly one deadline of that kind for the unit, at
  the current time plus the configured limit, whatever was armed before; without a limit (or with
  an infinite one) the wheel is untouched.\<close>

theorem arm_timeout_one_deadline:
  assumes "wheel_inv (m_wheel m)" "get_unit m name = Some u"
  shows "\<exists>m'. arm_timeout w lim k name m = Inr m' \<and>
    (case Option.bind (map_option lim (service_cfg u)) as_duration of
       None \<Rightarrow> m' = m
     | Some d \<Rightarrow> deadlines name k m' = {os_now w (m_tick m) + d} \<and> wheel_inv (m_wheel m') \<and>
         (\<forall>n k'. (n, k') \<noteq> (name, k) \<longrightarrow> deadlines n k' m' = deadlines n k' m))"
proof (cases "Option.bind (map_option lim (service_cfg u)) as_duration")
  case None
  with assms(2) show ?thesis by (simp add: arm_timeout_def unit_at_def)
next
  case (Some d)
  let ?q = "cancel_by_kind name k (m_wheel m)" and ?t = "os_now w (m_tick m) + d"
  let ?q' = "fst (schedule ?t k name ?q)"
  define m' where "m' = m\<lparr>m_wheel := ?q', m_tick := Suc (m_tick m)\<rparr>"
  have run: "arm_timeout w lim k name m = Inr m'"
    using assms(2) Some
    by (simp add: arm_timeout_def unit_at_def ask_def add_timer_def Let_def m'_def)
  have own: "deadlines name k m' = {?t}"
    unfolding deadlines_def m'_def using wheel.rearm_kind(1) [OF assms(1), of ?t k name] by simp
  have rest: "{e \<in> live ?q'. \<not> (te_unit e = name \<and> te_kind e = k)} =
      {e \<in> live (m_wheel m). \<not> (te_unit e = name \<and> te_kind e = k)}"
    by (rule wheel.rearm_kind(2) [OF assms(1)])
  have "deadlines n k' m' = deadlines n k' m" if "(n, k') \<noteq> (name, k)" for n k'
  proof -
    have "{e \<in> live ?q'. te_unit e = n \<and> te_kind e = k'} = {e \<in> live (m_wheel m). te_unit e = n \<and> te_kind e = k'}"
      using rest that by blast
    then show ?thesis by (simp add: deadlines_def m'_def)
  qed
  moreover have "wheel_inv (m_wheel m')"
    using schedule_inv [OF cancel_by_kind_inv [OF assms(1)]] by (simp add: m'_def)
  ultimately show ?thesis using run own Some by auto
qed

theorem arm_timeout_one_deadline_witness:
  "\<exists>m'. arm_timeout demo_os sc_timeout_stop_sec StopTimeout ''b.target'' demo0 = Inr m' \<and> m' = demo0"
proof -
  have "map_option service_cfg (get_unit demo0 ''b.target'') = Some None" by code_simp
  then obtain u where u: "get_unit demo0 ''b.target'' = Some u" "service_cfg u = None" by auto
  have "m_wheel demo0 = wheel_default" by code_simp
  then have "wheel_inv (m_wheel demo0)" using wheel_inv_default by simp
  from arm_timeout_one_deadline [OF this u(1), of demo_os sc_timeout_stop_sec StopTimeout] u(2)
  show ?thesis by simp
qed

section \<open>Automatic restarts\<close>










section \<open>Listings and devices\<close>

text \<open>The job listing shows exactly the pending jobs, once each and in the order of their numbers,
  a job as waiting exactly when its waiting list is not empty.\<close>

theorem list_jobs_complete:
  assumes "distinct (map fst (m_jobs m))"
  shows "sorted (map fst (list_jobs m)) \<and> distinct (map fst (list_jobs m)) \<and>
    set (list_jobs m) = {(j, jb_unit b, jb_kind b, if jb_waiting b = [] then JobRunning else JobWaiting) | j b.
       get_job m j = Some b}"
proof -
  have keys: "set (hkeys (m_jobs m)) = {j. get_job m j \<noteq> None}"
    by (auto simp: get_job_def hget_None_iff)
  have mf: "map fst (List.map_filter (\<lambda>j. map_option (\<lambda>b. (j, f b)) (get_job m j)) js) =
      filter (\<lambda>j. get_job m j \<noteq> None) js" for f :: "job \<Rightarrow> 'z" and js
    by (induction js) (auto simp: map_filter_simps split: option.splits)
  have "map fst (list_jobs m) = sort (hkeys (m_jobs m))"
    using keys unfolding list_jobs_def mf [of "\<lambda>b. (jb_unit b, jb_kind b,
      if jb_waiting b = [] then JobRunning else JobWaiting)"] by (auto intro: filter_True)
  moreover have "distinct (hkeys (m_jobs m))" using assms by simp
  moreover have "set (list_jobs m) = {(j, jb_unit b, jb_kind b, if jb_waiting b = [] then JobRunning else JobWaiting) | j b.
       get_job m j = Some b}"
    using keys by (force simp: list_jobs_def map_filter_def)
  ultimately show ?thesis by simp
qed

theorem list_jobs_complete_witness:
  "list_jobs (fst (new_job JStop ''b.target'' [\<lparr>we_unit = ''x'', we_required = False\<rparr>] Replace
      (fst (new_job JStart ''a.target'' [] Replace demo0)))) =
     [(1, ''a.target'', JStart, JobRunning), (2, ''b.target'', JStop, JobWaiting)] \<and>
   distinct (map fst (list_jobs (fst (new_job JStart ''a.target'' [] Replace demo0))))"
proof
  show "list_jobs (fst (new_job JStop ''b.target'' [\<lparr>we_unit = ''x'', we_required = False\<rparr>] Replace
      (fst (new_job JStart ''a.target'' [] Replace demo0)))) =
     [(1, ''a.target'', JStart, JobRunning), (2, ''b.target'', JStop, JobWaiting)]" by code_simp
  have "distinct (map fst (m_jobs (fst (new_job JStart ''a.target'' [] Replace demo0))))" by code_simp
  from list_jobs_complete [OF this]
  show "distinct (map fst (list_jobs (fst (new_job JStart ''a.target'' [] Replace demo0))))" by simp
qed

lemma add_device_unit_get:
  "get_unit (add_device_unit w d n m) k =
     (if k = n \<and> get_unit m n = None then get_unit (add_device_unit w d n m) n else get_unit m k)"
  by (auto simp: add_device_unit_def has_unit_def ask_def get_unit_def Let_def split: prod.splits)

lemma add_device_unit_new:
  assumes "get_unit m n = None"
  shows "\<exists>u. get_unit (add_device_unit w d n m) n = Some u \<and> u_kind u = Device \<and> u_active u = Active \<and>
    u_load u = Loaded \<and> u_file u = Some (udev_unit_file d)"
  using assms
  by (auto simp: add_device_unit_def has_unit_def ask_def get_unit_def Let_def set_active_def unit_new_def
      split: prod.splits if_splits)

lemma add_device_units:
  "(case get_unit m k of
      Some u \<Rightarrow> get_unit (fold (add_device_unit w d) ns m) k = Some u
    | None \<Rightarrow>
        if k \<in> set ns
        then \<exists>u. get_unit (fold (add_device_unit w d) ns m) k = Some u \<and> u_kind u = Device \<and>
          u_active u = Active \<and> u_load u = Loaded \<and> u_file u = Some (udev_unit_file d)
        else get_unit (fold (add_device_unit w d) ns m) k = None)"
proof (induction ns arbitrary: m)
  case Nil
  then show ?case by (simp split: option.split)
next
  case (Cons n ns)
  show ?case
  proof (cases "k = n \<and> get_unit m n = None")
    case True
    then obtain u where u: "get_unit (add_device_unit w d n m) k = Some u" "u_kind u = Device"
      "u_active u = Active" "u_load u = Loaded" "u_file u = Some (udev_unit_file d)"
      using add_device_unit_new [of m n w d] by blast
    with Cons.IH [of "add_device_unit w d n m"] True show ?thesis by simp
  next
    case False
    then have "get_unit (add_device_unit w d n m) k = get_unit m k" using add_device_unit_get [of w d n m k] by (simp only: False if_False)
    with Cons.IH [of "add_device_unit w d n m"] False show ?thesis by (auto split: option.splits)
  qed
qed

text \<open>A device that appears has, under each of its unit names, a unit afterwards; a name that
  had none gets an active, loaded device unit, the unit of a name that had one is unchanged, and so
  is every other unit.\<close>

theorem device_registered:
  "case get_unit m k of
     Some u \<Rightarrow> get_unit (udev_register w d m) k = Some u
   | None \<Rightarrow>
       if k \<in> set (device_unit_names d)
       then \<exists>u. get_unit (udev_register w d m) k = Some u \<and> u_kind u = Device \<and> u_active u = Active \<and>
         u_load u = Loaded \<and> u_file u = Some (udev_unit_file d)
       else get_unit (udev_register w d m) k = None"
  using add_device_units [where m = "m\<lparr>m_udev_devices := hins (dv_devpath d) d (m_udev_devices m)\<rparr>" and
      k = k and w = w and d = d and ns = "device_unit_names d"]
  unfolding udev_register_def by (simp add: get_unit_def split: option.splits)

section \<open>Two aborts\<close>

text \<open>A kill request for a unit that is not loaded aborts the manager; and a reload of the unit
  files drops the unit of a process that still runs, whose exit then aborts it.\<close>

lemma kill_of_unknown_unit_aborts:
  "get_unit m name = None \<Longrightarrow> kill_unit w name sig m = Inl (PanicUnit name)"
  by (simp add: kill_unit_def unit_has_processes_def unit_at_def)

lemma reload_then_exit_aborts:
  "(case load_all (demo_os\<lparr>os_discover := \<lambda>_. []\<rparr>) (demo1\<lparr>m_pid_unit := [(7, ''a.target'')]\<rparr>) of
      Inr (_, m) \<Rightarrow> (case reap_one demo_os (run demo_os 5) (7, Exited 0) m of
          Inl f \<Rightarrow> f = PanicUnit ''a.target'' | Inr _ \<Rightarrow> False)
    | Inl _ \<Rightarrow> False)"
  by code_simp

end
