(* ===== verification/Calendar_Props.thy ===== *)
theory Calendar_Props
  imports Calendar
begin

text \<open>
  Correctness of the calendar component: parsed fields are sorted sets within their range,
  the parser returns exactly when no list item has a step of 0, and \<open>next_elapse\<close> returns the
  first matching second strictly after \<open>from\<close> in its search window, or \<open>None\<close> when there
  is none. The engine is a nest of loops over sorted lists that stop at the first hit;
  \<open>first_some_least\<close> is the one lemma about such a loop, used once per level.
\<close>

section \<open>Loops that stop at the first hit\<close>

definition is_first :: "('t :: linorder) set \<Rightarrow> 't option \<Rightarrow> bool" where
  "is_first S r = (case r of None \<Rightarrow> S = {} | Some t \<Rightarrow> t \<in> S \<and> (\<forall>t' \<in> S. t \<le> t'))"

lemma is_first_empty [simp]: "is_first {} None"
  by (simp add: is_first_def)

lemma is_first_SomeD: "is_first S (Some t) \<Longrightarrow> t \<in> S \<and> (\<forall>t' \<in> S. t \<le> t')"
  by (simp add: is_first_def)

lemma is_first_NoneD: "is_first S None \<Longrightarrow> S = {}"
  by (simp add: is_first_def)

lemma first_some_least:
  assumes "sorted_wrt (<) xs"
    and "\<And>x. x \<in> set xs \<Longrightarrow> is_first (S x) (f x)"
    and "\<And>x x' t t'. x < x' \<Longrightarrow> t \<in> S x \<Longrightarrow> t' \<in> S x' \<Longrightarrow> t \<le> t'"
  shows "is_first (\<Union>x \<in> set xs. S x) (first_some f xs)"
  using assms(1,2)
proof (induction xs)
  case Nil
  then show ?case by simp
next
  case (Cons x xs)
  have fx: "is_first (S x) (f x)" using Cons.prems(2) by simp
  have IH: "is_first (\<Union>x \<in> set xs. S x) (first_some f xs)"
    using Cons.prems by (intro Cons.IH) auto
  show ?case
  proof (cases "f x")
    case None
    with fx have "S x = {}" by (simp add: is_first_def)
    with None IH show ?thesis by simp
  next
    case (Some t)
    with fx have t: "t \<in> S x" "\<forall>t' \<in> S x. t \<le> t'" by (auto simp: is_first_def)
    have "t \<le> t'" if "x' \<in> set xs" "t' \<in> S x'" for x' t'
      using assms(3) [of x x' t t'] that t Cons.prems(1) by auto
    with t Some show ?thesis by (auto simp: is_first_def)
  qed
qed

section \<open>Sorted fields\<close>

fun field_ok :: "field \<Rightarrow> bool" where
  "field_ok AnyF = True"
| "field_ok (SetF s) = sorted_wrt (<) s"

definition spec_ok :: "calendar_spec \<Rightarrow> bool" where
  "spec_ok c \<longleftrightarrow> field_ok (cs_year c) \<and> field_ok (cs_month c) \<and> field_ok (cs_day c) \<and>
     field_ok (cs_dow c) \<and> field_ok (cs_hour c) \<and> field_ok (cs_minute c) \<and> field_ok (cs_second c)"

lemma sorted_wrt_upt' [simp]: "sorted_wrt (<) [a..<b]"
  by (simp flip: strict_sorted_iff)

lemma values_ge_sorted: "field_ok f \<Longrightarrow> sorted_wrt (<) (values_ge f ge mx)"
  by (cases f) (auto simp del: upt_Suc intro: sorted_wrt_filter)

lemma values_ge_set: "set (values_ge f ge mx) = {v. ge \<le> v \<and> v \<le> mx \<and> field_matches f v}"
  by (cases f) (auto simp del: upt_Suc)

section \<open>The time of day\<close>

definition time_matches :: "calendar_spec \<Rightarrow> nat \<Rightarrow> nat \<Rightarrow> nat \<Rightarrow> bool" where
  "time_matches c h mi s \<longleftrightarrow> h \<le> 23 \<and> mi \<le> 59 \<and> s \<le> 59 \<and> field_matches (cs_hour c) h \<and>
     field_matches (cs_minute c) mi \<and> field_matches (cs_second c) s"

definition time_window :: "calendar_spec \<Rightarrow> nat \<Rightarrow> nat \<Rightarrow> nat \<Rightarrow> bool \<Rightarrow> (nat \<times> nat \<times> nat) set" where
  "time_window c h0 mi0 s0 force =
     {(h, mi, s). time_matches c h mi s \<and> (force \<longrightarrow> (h0, mi0, s0) < (h, mi, s))}"

lemma next_time_first:
  assumes "spec_ok c"
  shows "is_first (time_window c h0 mi0 s0 force) (next_time c h0 mi0 s0 force)"
proof -
  let ?W = "time_window c h0 mi0 s0 force"
  let ?H = "values_ge (cs_hour c) (if force then h0 else 0) 23"
  let ?M = "\<lambda>h. values_ge (cs_minute c) (if force \<and> h = h0 then mi0 else 0) 59"
  let ?S = "\<lambda>h mi. values_ge (cs_second c) (if force \<and> h = h0 \<and> mi = mi0 then s0 else 0) 59"
  let ?fs = "\<lambda>h mi s. if \<not> force \<or> (h, mi, s) \<noteq> (h0, mi0, s0) then Some (h, mi, s) else None"
  note srt = values_ge_sorted [of "cs_hour c"] values_ge_sorted [of "cs_minute c"]
    values_ge_sorted [of "cs_second c"]
  have ok: "field_ok (cs_hour c)" "field_ok (cs_minute c)" "field_ok (cs_second c)"
    using assms by (simp_all add: spec_ok_def)
  have s: "is_first {t \<in> ?W. fst t = h \<and> fst (snd t) = mi} (first_some (?fs h mi) (?S h mi))"
    if h: "h \<in> set ?H" and mi: "mi \<in> set (?M h)" for h mi
  proof -
    have "is_first (\<Union>s \<in> set (?S h mi). {t \<in> ?W. t = (h, mi, s)}) (first_some (?fs h mi) (?S h mi))"
      by (rule first_some_least)
         (use h mi in \<open>auto simp: srt ok is_first_def time_window_def time_matches_def values_ge_set
            split: if_splits\<close>)
    moreover have "(\<Union>s \<in> set (?S h mi). {t \<in> ?W. t = (h, mi, s)}) = {t \<in> ?W. fst t = h \<and> fst (snd t) = mi}"
      using h mi by (auto simp: time_window_def time_matches_def values_ge_set split: if_splits)
    ultimately show ?thesis by simp
  qed
  have m: "is_first {t \<in> ?W. fst t = h} (first_some (\<lambda>mi. first_some (?fs h mi) (?S h mi)) (?M h))"
    if h: "h \<in> set ?H" for h
  proof -
    have "is_first (\<Union>mi \<in> set (?M h). {t \<in> ?W. fst t = h \<and> fst (snd t) = mi})
        (first_some (\<lambda>mi. first_some (?fs h mi) (?S h mi)) (?M h))"
    proof (rule first_some_least)
      show "sorted_wrt (<) (?M h)" by (rule srt(2) [OF ok(2)])
      show "is_first {t \<in> ?W. fst t = h \<and> fst (snd t) = mi} (first_some (?fs h mi) (?S h mi))"
        if "mi \<in> set (?M h)" for mi
        using h that by (rule s)
    qed (auto simp: less_eq_prod_def)
    moreover have "(\<Union>mi \<in> set (?M h). {t \<in> ?W. fst t = h \<and> fst (snd t) = mi}) = {t \<in> ?W. fst t = h}"
      using h by (auto simp: time_window_def time_matches_def values_ge_set split: if_splits)
    ultimately show ?thesis by simp
  qed
  have "is_first (\<Union>h \<in> set ?H. {t \<in> ?W. fst t = h})
      (first_some (\<lambda>h. first_some (\<lambda>mi. first_some (?fs h mi) (?S h mi)) (?M h)) ?H)"
  proof (rule first_some_least)
    show "sorted_wrt (<) ?H" by (rule srt(1) [OF ok(1)])
    show "is_first {t \<in> ?W. fst t = h} (first_some (\<lambda>mi. first_some (?fs h mi) (?S h mi)) (?M h))"
      if "h \<in> set ?H" for h
      using that by (rule m)
  qed (auto simp: less_eq_prod_def)
  moreover have "(\<Union>h \<in> set ?H. {t \<in> ?W. fst t = h}) = ?W"
    by (auto simp: time_window_def time_matches_def values_ge_set split: if_splits)
  ultimately show ?thesis by (simp add: next_time_def)
qed

section \<open>The next elapse\<close>

definition cal_matches :: "weekday_fun \<Rightarrow> calendar_spec \<Rightarrow> civil \<Rightarrow> bool" where
  "cal_matches wd c t \<longleftrightarrow>
     (case t of (y, m, d, h, mi, s, n) \<Rightarrow>
        field_matches (cs_year c) (as_u32 y) \<and> 1 \<le> m \<and> m \<le> 12 \<and> field_matches (cs_month c) m \<and>
        1 \<le> d \<and> d \<le> days_in_month y m \<and> day_ok wd c y m d \<and> time_matches c h mi s \<and> n = 0)"

text \<open>What every \<open>NaiveDateTime\<close> is: a month, a day of that month, a time of day.\<close>

definition civil_ok :: "civil \<Rightarrow> bool" where
  "civil_ok t \<longleftrightarrow> (case t of (y, m, d, h, mi, s, n) \<Rightarrow>
     1 \<le> m \<and> m \<le> 12 \<and> 1 \<le> d \<and> d \<le> days_in_month y m \<and> h \<le> 23 \<and> mi \<le> 59 \<and> s \<le> 59)"

definition window :: "weekday_fun \<Rightarrow> calendar_spec \<Rightarrow> civil \<Rightarrow> civil set" where
  "window wd c t =
     {r. cal_matches wd c r \<and> local_second t < r \<and> fst r \<le> fst t + int max_search_years}"

text \<open>The part of a window on one year, one month, one day.\<close>

definition in_year :: "civil set \<Rightarrow> int \<Rightarrow> civil set" where
  "in_year W y = {t \<in> W. fst t = y}"

definition in_month :: "civil set \<Rightarrow> int \<Rightarrow> nat \<Rightarrow> civil set" where
  "in_month W y m = {t \<in> W. fst t = y \<and> fst (snd t) = m}"

definition in_day :: "civil set \<Rightarrow> int \<Rightarrow> nat \<Rightarrow> nat \<Rightarrow> civil set" where
  "in_day W y m d = {t \<in> W. fst t = y \<and> fst (snd t) = m \<and> fst (snd (snd t)) = d}"

lemma day_ok_date: "day_ok wd c y m d \<Longrightarrow> wd y m d \<noteq> None"
  by (auto simp: day_ok_def weekday_number_def split: option.splits)

lemma is_first_image:
  assumes "is_first S r" "\<And>x y. x \<le> y \<Longrightarrow> g x \<le> g y"
  shows "is_first (g ` S) (map_option g r)"
  using assms by (cases r) (auto simp: is_first_def)

lemma elapse_day_first:
  assumes ok: "spec_ok c" and t0: "t0 = (fy, fm, fd, fh, fmi, fs, 0)"
    and W: "W = {t. cal_matches wd c t \<and> t0 < t \<and> fst t \<le> ymax}"
    and y: "fy \<le> y" "y \<le> ymax" "field_matches (cs_year c) (as_u32 y)"
    and m: "1 \<le> m" "m \<le> 12" "y = fy \<longrightarrow> fm \<le> m" "field_matches (cs_month c) m"
    and d: "1 \<le> d" "d \<le> days_in_month y m" "y = fy \<and> m = fm \<longrightarrow> fd \<le> d"
  shows "is_first (in_day W y m d) (elapse_day wd c t0 y m d)"
proof (cases "day_ok wd c y m d")
  case False
  then have "in_day W y m d = {}" by (auto simp: W cal_matches_def in_day_def)
  moreover have "elapse_day wd c t0 y m d = None" using False by (simp add: elapse_day_def t0)
  ultimately show ?thesis by simp
next
  case True
  let ?force = "y = fy \<and> m = fm \<and> d = fd"
  let ?g = "\<lambda>(h, mi, s). (y, m, d, h, mi, s, 0 :: nat)"
  have later: "t0 < (y, m, d, h, mi, s, 0) \<longleftrightarrow> (?force \<longrightarrow> (fh, fmi, fs) < (h, mi, s))" for h mi s
    using y m d by (auto simp: less_prod_def t0)
  have img: "in_day W y m d = ?g ` time_window c fh fmi fs ?force"
  proof (intro set_eqI iffI)
    fix t
    assume "t \<in> in_day W y m d"
    then obtain h mi s where "t = ?g (h, mi, s)" "time_matches c h mi s" "t0 < (y, m, d, h, mi, s, 0)"
      by (auto simp: W cal_matches_def in_day_def)
    then show "t \<in> ?g ` time_window c fh fmi fs ?force"
      unfolding later by (intro image_eqI) (auto simp: time_window_def)
  next
    fix t
    assume "t \<in> ?g ` time_window c fh fmi fs ?force"
    then obtain h mi s where "t = (y, m, d, h, mi, s, 0)" "time_matches c h mi s"
      "?force \<longrightarrow> (fh, fmi, fs) < (h, mi, s)"
      by (auto simp: time_window_def)
    then show "t \<in> in_day W y m d"
      using y m d True later by (simp add: W cal_matches_def in_day_def)
  qed
  have "elapse_day wd c t0 y m d = map_option ?g (next_time c fh fmi fs ?force)"
  proof (cases "next_time c fh fmi fs ?force")
    case None
    with True show ?thesis by (simp add: elapse_day_def t0)
  next
    case (Some r)
    obtain h mi s where r: "r = (h, mi, s)" by (cases r) auto
    have "(h, mi, s) \<in> time_window c fh fmi fs ?force"
      using next_time_first [OF ok, of fh fmi fs ?force] Some r by (auto dest: is_first_SomeD)
    then have "t0 < (y, m, d, h, mi, s, 0)" "h < 24" "mi < 60" "s < 60"
      unfolding later by (auto simp: time_window_def time_matches_def)
    with True Some r day_ok_date [OF True] show ?thesis by (simp add: elapse_day_def t0)
  qed
  moreover have "is_first (?g ` time_window c fh fmi fs ?force)
      (map_option ?g (next_time c fh fmi fs ?force))"
    by (rule is_first_image [OF next_time_first [OF ok]]) (auto simp: less_eq_prod_def)
  ultimately show ?thesis by (simp only: img)
qed

lemma elapse_month_first:
  assumes ok: "spec_ok c" and t0: "t0 = (fy, fm, fd, fh, fmi, fs, 0)" "1 \<le> fd"
    and W: "W = {t. cal_matches wd c t \<and> t0 < t \<and> fst t \<le> ymax}"
    and y: "fy \<le> y" "y \<le> ymax" "field_matches (cs_year c) (as_u32 y)"
    and m: "1 \<le> m" "m \<le> 12" "y = fy \<longrightarrow> fm \<le> m"
  shows "is_first (in_month W y m) (elapse_month wd c t0 y m)"
proof (cases "field_matches (cs_month c) m")
  case False
  then have "in_month W y m = {}" by (auto simp: W cal_matches_def in_month_def)
  moreover have "elapse_month wd c t0 y m = None" using False by (simp add: elapse_month_def t0)
  ultimately show ?thesis by simp
next
  case True
  let ?D = "[(if y = fy \<and> m = fm then fd else 1)..<Suc (days_in_month y m)]"
  have "is_first (\<Union>d \<in> set ?D. in_day W y m d) (first_some (elapse_day wd c t0 y m) ?D)"
  proof (rule first_some_least)
    show "is_first (in_day W y m d) (elapse_day wd c t0 y m d)" if "d \<in> set ?D" for d
      using that t0(2) by (intro elapse_day_first [OF ok t0(1) W y m True]) (auto split: if_splits)
  qed (auto simp: in_day_def less_eq_prod_def simp del: upt_Suc)
  moreover have "(\<Union>d \<in> set ?D. in_day W y m d) = in_month W y m"
    by (auto simp: W t0 cal_matches_def less_prod_def in_day_def in_month_def simp del: upt_Suc)
  ultimately show ?thesis using True by (simp add: elapse_month_def t0 del: upt_Suc)
qed

lemma elapse_year_first:
  assumes ok: "spec_ok c" and t0: "t0 = (fy, fm, fd, fh, fmi, fs, 0)" "1 \<le> fd" "1 \<le> fm"
    and W: "W = {t. cal_matches wd c t \<and> t0 < t \<and> fst t \<le> ymax}"
    and y: "fy \<le> y" "y \<le> ymax"
  shows "is_first (in_year W y) (elapse_year wd c t0 y)"
proof (cases "field_matches (cs_year c) (as_u32 y)")
  case False
  then have "in_year W y = {}" by (auto simp: W cal_matches_def in_year_def)
  moreover have "elapse_year wd c t0 y = None" using False by (simp add: elapse_year_def t0)
  ultimately show ?thesis by simp
next
  case True
  let ?M = "[(if y = fy then fm else 1)..<13]"
  have "is_first (\<Union>m \<in> set ?M. in_month W y m) (first_some (elapse_month wd c t0 y) ?M)"
  proof (rule first_some_least)
    show "is_first (in_month W y m) (elapse_month wd c t0 y m)" if "m \<in> set ?M" for m
      using that t0(3)
      by (intro elapse_month_first [OF ok t0(1,2) W y True]) (auto split: if_splits)
  qed (auto simp: in_month_def less_eq_prod_def)
  moreover have "(\<Union>m \<in> set ?M. in_month W y m) = in_year W y"
    by (auto simp: W t0 cal_matches_def less_prod_def in_month_def in_year_def)
  ultimately show ?thesis using True by (simp add: elapse_year_def t0)
qed

lemma next_elapse_first:
  assumes ok: "spec_ok c" and civil: "civil_ok t"
  shows "is_first (window wd c t) (next_elapse wd c t)"
proof -
  obtain fy fm fd fh fmi fs n where t: "t = (fy, fm, fd, fh, fmi, fs, n)"
    by (cases t) auto
  let ?t0 = "local_second t"
  have t0: "?t0 = (fy, fm, fd, fh, fmi, fs, 0)" "1 \<le> fd" "1 \<le> fm"
    using civil by (auto simp: t local_second_def civil_ok_def)
  let ?W = "window wd c t"
  let ?Y = "map (\<lambda>k. fst ?t0 + int k) [0..<Suc max_search_years]"
  have W: "?W = {r. cal_matches wd c r \<and> ?t0 < r \<and> fst r \<le> fy + int max_search_years}"
    by (simp add: window_def) (simp add: t)
  have "is_first (\<Union>y \<in> set ?Y. in_year ?W y) (first_some (elapse_year wd c ?t0) ?Y)"
  proof (rule first_some_least)
    show "is_first (in_year ?W y) (elapse_year wd c ?t0 y)" if "y \<in> set ?Y" for y
      using that by (intro elapse_year_first [OF ok t0 W]) (auto simp: t0 simp del: upt_Suc)
  qed (auto simp: in_year_def less_eq_prod_def sorted_wrt_map simp del: upt_Suc)
  moreover have "(\<Union>y \<in> set ?Y. in_year ?W y) = ?W"
  proof (intro set_eqI iffI)
    fix r
    assume r: "r \<in> ?W"
    then have "fst ?t0 \<le> fst r" "fst r \<le> fst ?t0 + int max_search_years"
      by (auto simp: W t0 less_prod_def)
    then have "fst r = fst ?t0 + int (nat (fst r - fst ?t0))"
      "nat (fst r - fst ?t0) \<in> set [0..<Suc max_search_years]"
      by (auto simp del: upt_Suc)
    then have "fst r \<in> set ?Y" unfolding set_map by (rule image_eqI)
    with r show "r \<in> (\<Union>y \<in> set ?Y. in_year ?W y)" by (auto simp: in_year_def simp del: upt_Suc)
  qed (auto simp: in_year_def)
  ultimately show ?thesis by (simp only: next_elapse_def Let_def)
qed

section \<open>The expression parser\<close>

text \<open>The values one list item contributes: \<open>lo, lo + step, ...\<close> up to both bounds.\<close>

lemma step_values_returns:
  assumes ret: "step_values v hi mn mx step vals = Some r"
  shows "v \<le> hi \<Longrightarrow> v \<le> mx \<Longrightarrow> mx < 4294967295 \<Longrightarrow> 0 < step"
proof -
  have "v \<le> hi \<and> v \<le> mx \<and> mx < 4294967295 \<longrightarrow> 0 < step"
  proof (rule step_values.raw_induct
      [where P = "\<lambda>v hi mn mx step vals r. v \<le> hi \<and> v \<le> mx \<and> mx < 4294967295 \<longrightarrow> 0 < step",
       OF _ ret], intro impI)
    fix f :: "nat \<Rightarrow> nat \<Rightarrow> nat \<Rightarrow> nat \<Rightarrow> nat \<Rightarrow> nat list \<Rightarrow> nat list option"
      and v hi mn mx step :: nat and vals r :: "nat list"
    assume IH: "\<And>v hi mn mx step vals r. f v hi mn mx step vals = Some r \<Longrightarrow>
        v \<le> hi \<and> v \<le> mx \<and> mx < 4294967295 \<longrightarrow> 0 < step"
      and eq: "(if v \<le> hi \<and> v \<le> mx
        then f (sat_add32 v step) hi mn mx step (if v \<ge> mn then vals @ [v] else vals)
        else Some vals) = Some r"
      and v: "v \<le> hi \<and> v \<le> mx \<and> mx < 4294967295"
    show "0 < step"
    proof (rule ccontr)
      assume "\<not> 0 < step"
      then have "step = 0" "sat_add32 v step = v" using v by (auto simp: sat_add32_def)
      with IH [of v hi mn mx step] eq v show False by auto
    qed
  qed
  then show "v \<le> hi \<Longrightarrow> v \<le> mx \<Longrightarrow> mx < 4294967295 \<Longrightarrow> 0 < step" by simp
qed

lemma step_values_zero:
  "v \<le> hi \<Longrightarrow> v \<le> mx \<Longrightarrow> mx < 4294967295 \<Longrightarrow> step_values v hi mn mx 0 vals = None"
  using step_values_returns [of v hi mn mx 0 vals] by (cases "step_values v hi mn mx 0 vals") auto

lemma progression_split:
  "{w. \<exists>k. w = v + k * (d::nat) \<and> w \<le> hi \<and> w \<le> mx \<and> mn \<le> w} =
   (if v \<le> hi \<and> v \<le> mx \<and> mn \<le> v then {v} else {}) \<union>
   {w. \<exists>k. w = v + Suc k * d \<and> w \<le> hi \<and> w \<le> mx \<and> mn \<le> w}"
  (is "?A = ?B \<union> ?C")
proof -
  have all: "(\<exists>k. Q k) \<longleftrightarrow> Q 0 \<or> (\<exists>k. Q (Suc k))" for Q :: "nat \<Rightarrow> bool"
    by (metis not0_implies_Suc)
  show ?thesis
    by (subst all) auto
qed

lemma step_values_run:
  assumes "0 < step" "mx < 4294967295"
  shows "\<exists>r. step_values v hi mn mx step vals = Some (vals @ r) \<and>
     set r = {w. \<exists>k. w = v + k * step \<and> w \<le> hi \<and> w \<le> mx \<and> mn \<le> w}"
  using assms
proof (induction "Suc (min hi mx) - v" arbitrary: v vals rule: less_induct)
  case less
  show ?case
  proof (cases "v \<le> hi \<and> v \<le> mx")
    case False
    then have "{w. \<exists>k. w = v + k * step \<and> w \<le> hi \<and> w \<le> mx \<and> mn \<le> w} = {}" by auto
    moreover have "step_values v hi mn mx step vals = Some vals"
      using False by (subst step_values.simps) auto
    ultimately show ?thesis by (intro exI [of _ "[]"]) simp
  next
    case True
    let ?v = "sat_add32 v step"
    let ?vals = "if v \<ge> mn then vals @ [v] else vals"
    have big: "min hi mx < ?v \<and> (\<forall>k. min hi mx < v + Suc k * step) \<or> ?v = v + step"
      using less.prems True by (auto simp: sat_add32_def min_def)
    have "v < ?v" using less.prems True by (auto simp: sat_add32_def min_def)
    then have "Suc (min hi mx) - ?v < Suc (min hi mx) - v" using True by auto
    from less.hyps [OF this less.prems, of ?vals] obtain r where
      r: "step_values ?v hi mn mx step ?vals = Some (?vals @ r)"
        "set r = {w. \<exists>k. w = ?v + k * step \<and> w \<le> hi \<and> w \<le> mx \<and> mn \<le> w}" by blast
    have "set r = {w. \<exists>k. w = v + Suc k * step \<and> w \<le> hi \<and> w \<le> mx \<and> mn \<le> w}"
      using big
    proof
      assume over: "min hi mx < ?v \<and> (\<forall>k. min hi mx < v + Suc k * step)"
      have "\<not> (w \<le> hi \<and> w \<le> mx)" if "w = ?v + k * step \<or> w = v + Suc k * step" for w k
      proof -
        have "?v \<le> ?v + k * step" by simp
        with over that have "min hi mx < w" by (metis order.strict_trans2)
        then show ?thesis by (simp add: min_def split: if_splits)
      qed
      then show ?thesis unfolding r(2) by blast
    next
      assume "?v = v + step"
      then show ?thesis unfolding r(2) by (auto simp: add.assoc)
    qed
    then have "set (if v \<ge> mn then v # r else r) =
        {w. \<exists>k. w = v + k * step \<and> w \<le> hi \<and> w \<le> mx \<and> mn \<le> w}"
      using True by (subst progression_split) auto
    moreover have "step_values v hi mn mx step vals = Some (vals @ (if v \<ge> mn then v # r else r))"
      using True r(1) by (simp add: step_values.simps [of v])
    ultimately show ?thesis by blast
  qed
qed


lemma step_values_pos:
  "0 < step \<Longrightarrow> mx < 4294967295 \<Longrightarrow> \<exists>r. step_values v hi mn mx step vals = Some (vals @ r) \<and>
     (\<forall>w \<in> set r. mn \<le> w \<and> w \<le> mx)"
  using step_values_run [of step mx v hi mn vals] by auto

lemma step_values_range:
  assumes "step_values v hi mn mx step vals = Some vals'" "mx < 4294967295"
    "\<forall>w \<in> set vals. mn \<le> w \<and> w \<le> mx"
  shows "\<forall>w \<in> set vals'. mn \<le> w \<and> w \<le> mx"
proof (cases "0 < step")
  case True
  from step_values_pos [OF True assms(2), of v hi mn vals] assms(1)
  obtain r where "vals' = vals @ r" "\<forall>w \<in> set r. mn \<le> w \<and> w \<le> mx" by auto
  with assms(3) show ?thesis by auto
next
  case False
  then have "\<not> (v \<le> hi \<and> v \<le> mx)" using step_values_returns [OF assms(1)] assms(2) by auto
  then have "vals' = vals" using assms(1) by (subst (asm) step_values.simps) auto
  with assms(3) show ?thesis by simp
qed

lemma parse_items_range:
  assumes "mx < 4294967295"
  shows "parse_items tok its mn mx names vals = Some (Inr vs) \<Longrightarrow>
    \<forall>w \<in> set vals. mn \<le> w \<and> w \<le> mx \<Longrightarrow> \<forall>w \<in> set vs. mn \<le> w \<and> w \<le> mx"
proof (induction its arbitrary: vals)
  case Nil
  then show ?case by (simp add: ret_def)
next
  case (Cons it its)
  from Cons.prems(1) obtain lo hi st vals' where
    "step_values lo hi mn mx st vals = Some vals'"
    "parse_items tok its mn mx names vals' = Some (Inr vs)"
    by (auto simp: err_def Let_def split: if_splits option.splits sum.splits prod.splits)
  with Cons.IH Cons.prems(2) step_values_range [OF _ assms] show ?case by blast
qed

definition field_in :: "nat \<Rightarrow> nat \<Rightarrow> field \<Rightarrow> bool" where
  "field_in mn mx f = (case f of AnyF \<Rightarrow> True
     | SetF s \<Rightarrow> s \<noteq> [] \<and> sorted_wrt (<) s \<and> list_all (\<lambda>v. mn \<le> v \<and> v \<le> mx) s)"

lemma pbnd_Inr: "pbnd r f = Some (Inr y) \<longleftrightarrow> (\<exists>x. r = Some (Inr x) \<and> f x = Some (Inr y))"
  by (auto simp: pbnd_def split: option.splits sum.splits)

lemma ret_Inr: "ret x = Some (Inr y) \<longleftrightarrow> x = y" by (auto simp: ret_def)
lemma err_Inr: "err e \<noteq> Some (Inr y)" by (auto simp: err_def)

lemma parse_field_in:
  assumes "parse_field tok mn mx names = Some (Inr f)" "mx < 4294967295"
  shows "field_in mn mx f"
proof (cases "trim tok = ''*'' \<or> trim tok = ''?''")
  case True
  with assms(1) show ?thesis by (auto simp: parse_field_def ret_Inr field_in_def)
next
  case False
  with assms(1) obtain vs where
    vs: "parse_items (trim tok) (split_char (CHR '','') (trim tok)) mn mx names [] = Some (Inr vs)"
      "vs \<noteq> []" "f = SetF (remdups_adj (sort vs))"
    by (auto simp: parse_field_def Let_def pbnd_Inr ret_Inr err_Inr split: if_splits)
  have "sort vs \<noteq> []" using vs(2) by (metis set_empty set_sort)
  with parse_items_range [OF assms(2) vs(1)] show ?thesis
    by (auto simp: vs(3) field_in_def list_all_iff strict_sorted_remdups_adj)
qed

text \<open>What the parser guarantees of a specification: each field is a wildcard or a non-empty
  strictly increasing list of values in the range of the field.\<close>

definition spec_in :: "calendar_spec \<Rightarrow> bool" where
  "spec_in c \<longleftrightarrow> field_in 1000 9999 (cs_year c) \<and> field_in 1 12 (cs_month c) \<and>
     field_in 1 31 (cs_day c) \<and> field_in 1 7 (cs_dow c) \<and> field_in 0 23 (cs_hour c) \<and>
     field_in 0 59 (cs_minute c) \<and> field_in 0 59 (cs_second c)"

lemma field_in_ok: "field_in mn mx f \<Longrightarrow> field_ok f"
  by (auto simp: field_in_def split: field.splits)

lemma spec_in_ok: "spec_in c \<Longrightarrow> spec_ok c"
  by (auto simp: spec_in_def spec_ok_def intro: field_in_ok)

lemma field_in_any [simp]: "field_in a b AnyF" by (simp add: field_in_def)
lemma field_in_one [simp]: "field_in a b (SetF [v]) \<longleftrightarrow> a \<le> v \<and> v \<le> b" by (simp add: field_in_def)

lemma parse_time_in:
  assumes "parse_time tok c = Some (Inr c')" "spec_in c"
  shows "spec_in c'"
  using assms parse_field_in
  by (auto simp: parse_time_def spec_in_def pbnd_Inr ret_Inr err_Inr Let_def
      split: option.splits if_splits)

lemma parse_date_in:
  assumes "parse_date tok c = Some (Inr c')" "spec_in c"
  shows "spec_in c'"
  using assms parse_field_in
  by (auto simp: parse_date_def spec_in_def pbnd_Inr ret_Inr err_Inr Let_def split: if_splits)

lemma parse_toks_in:
  "parse_toks s toks ht hdate c = Some (Inr (ht', c')) \<Longrightarrow> spec_in c \<Longrightarrow> spec_in c'"
proof (induction toks arbitrary: ht hdate c)
  case Nil
  then show ?case by (simp add: ret_Inr)
next
  case (Cons t toks)
  then show ?case
    by (auto simp: pbnd_Inr ret_Inr err_Inr Let_def split: if_splits
        dest: parse_time_in parse_date_in)
qed

lemma spec_in_default: "spec_in spec_default"
  by (simp add: spec_in_def spec_default_def)

lemma abbreviation_in: "abbreviation_spec s = Some c \<Longrightarrow> spec_in c"
  by (auto simp: abbreviation_spec_def Let_def spec_in_def spec_default_def field_in_def
      split: if_splits)

lemma parse_calendar_in:
  assumes "parse_calendar s = Some (Inr c)"
  shows "spec_in c"
proof -
  have mid: "spec_in x \<Longrightarrow> spec_in (x\<lparr>cs_hour := SetF [0], cs_minute := SetF [0], cs_second := SetF [0]\<rparr>)"
    "spec_in x \<Longrightarrow> field_in 1 7 f \<Longrightarrow> spec_in (x\<lparr>cs_dow := f\<rparr>)" for x f
    by (auto simp: spec_in_def)
  show ?thesis
    using assms parse_field_in [of _ 1 7]
    by (auto simp: parse_calendar_def Let_def pbnd_Inr ret_Inr err_Inr spec_in_default
        split: if_splits option.splits prod.splits
        intro!: mid dest!: parse_toks_in abbreviation_in)
qed


section \<open>When the parser returns\<close>

text \<open>No list item of the field carries a step of 0.\<close>

definition no_zero_step :: "str \<Rightarrow> bool" where
  "no_zero_step tok \<longleftrightarrow> list_all (\<lambda>it. map_option snd (split_step (trim it)) \<noteq> Some (Some 0))
     (split_char (CHR '','') (trim tok))"

lemma parse_items_returns:
  assumes "mx < 4294967295"
  shows "\<forall>it \<in> set its. \<forall>a. split_step (trim it) \<noteq> Some (a, Some 0) \<Longrightarrow>
    parse_items tok its mn mx names vals \<noteq> None"
proof (induction its arbitrary: vals)
  case Nil
  then show ?case by (simp add: ret_def)
next
  case (Cons it its)
  have step: "\<exists>g. \<forall>lo hi. step_values lo hi mn mx st vals = Some (g lo hi)" if "0 < st" for st
  proof (intro exI [of _ "\<lambda>lo hi. the (step_values lo hi mn mx st vals)"] allI)
    fix lo hi
    show "step_values lo hi mn mx st vals = Some (the (step_values lo hi mn mx st vals))"
      using step_values_pos [OF that assms, of lo hi mn vals] by auto
  qed
  show ?case
  proof (cases "split_step (trim it)")
    case None
    obtain g where "\<forall>lo hi. step_values lo hi mn mx 1 vals = Some (g lo hi)"
      using step [of 1] by auto
    with None Cons show ?thesis by (auto simp: Let_def err_def split: sum.splits)
  next
    case (Some p)
    then obtain a st where p: "split_step (trim it) = Some (a, st)" by (cases p) auto
    with Cons.prems have "st \<noteq> Some 0" by auto
    then have "0 < (case st of Some s \<Rightarrow> s | None \<Rightarrow> 1)" by (cases st) auto
    from step [OF this] obtain g where
      "\<forall>lo hi. step_values lo hi mn mx (case st of Some s \<Rightarrow> s | None \<Rightarrow> 1) vals = Some (g lo hi)"
      by auto
    with Cons p show ?thesis by (auto simp: Let_def err_def split: sum.splits)
  qed
qed

lemma parse_field_returns:
  assumes "no_zero_step tok" "mx < 4294967295"
  shows "parse_field tok mn mx names \<noteq> None"
proof -
  have "parse_items (trim tok) (split_char (CHR '','') (trim tok)) mn mx names [] \<noteq> None"
  proof (intro parse_items_returns [OF assms(2)] ballI allI notI)
    fix it a
    assume "it \<in> set (split_char (CHR '','') (trim tok))" "split_step (trim it) = Some (a, Some 0)"
    then show False using assms(1) by (auto simp: no_zero_step_def list_all_iff)
  qed
  then show ?thesis
    by (auto simp: parse_field_def Let_def pbnd_def ret_def err_def split: sum.splits)
qed

lemma parse_field_zero_step:
  assumes "split_step tok = Some (a, Some 0)" "trim tok = tok" "(CHR '','') \<notin> set tok"
    "item_bounds a (Some 0) mn mx names = Inr (lo, hi)" "lo \<le> hi" "lo \<le> mx" "mx < 4294967295"
  shows "parse_field tok mn mx names = None"
proof -
  have ne: "tok \<noteq> []" "tok \<noteq> ''*''" "tok \<noteq> ''?''"
    using assms(1) by (auto simp: split_step_def starts_with_def)
  have "split_char (CHR '','') tok = [tok]"
    using assms(3) by (auto simp: split_char_def intro: split_on_no_sep)
  moreover have "step_values lo hi mn mx 0 [] = None"
    by (rule step_values_zero) (use assms in auto)
  ultimately show ?thesis using assms ne by (simp add: parse_field_def Let_def)
qed


section \<open>Properties\<close>

text \<open>A concrete instance of chrono's calendar for the examples: the proleptic Gregorian
  weekday of a date (number of days from Monday).\<close>

definition gregorian_wd :: weekday_fun where
  "gregorian_wd y m d =
     (if 1 \<le> m \<and> m \<le> 12 \<and> 1 \<le> d \<and> d \<le> days_in_month y m then
        (let y' = (if m < 3 then y - 1 else y)
         in Some (nat ((y' + y' div 4 - y' div 100 + y' div 400
              + [0, 3, 2, 5, 0, 3, 5, 1, 4, 6, 2, 4] ! (m - 1) + int d + 6) mod 7)))
      else None)"

text \<open>C8. The next-elapse engine is right on every expression the parser accepts: it returns
  the least matching civil time after the second of \<open>t\<close> within the searched years, and
  nothing exactly when no time of those years matches.\<close>

theorem calendar_next_elapse:
  assumes "parse_calendar s = Some (Inr c)" "civil_ok t"
  shows "case next_elapse wd c t of
      Some r \<Rightarrow> r \<in> window wd c t \<and> (\<forall>r' \<in> window wd c t. r \<le> r')
    | None \<Rightarrow> window wd c t = {}"
proof -
  have "is_first (window wd c t) (next_elapse wd c t)"
    by (rule next_elapse_first [OF spec_in_ok [OF parse_calendar_in [OF assms(1)]] assms(2)])
  then show ?thesis by (cases "next_elapse wd c t") (auto simp: is_first_def)
qed

lemma parse_example: "parse_calendar ''Mon *-*-* 09:30'' =
    Some (Inr (spec_default\<lparr>cs_dow := SetF [1], cs_hour := SetF [9], cs_minute := SetF [30],
      cs_second := SetF [0]\<rparr>))"
  by code_simp

lemma next_example: "next_elapse gregorian_wd (spec_default\<lparr>cs_dow := SetF [1], cs_hour := SetF [9],
      cs_minute := SetF [30], cs_second := SetF [0]\<rparr>) (2024, 2, 27, 12, 0, 0, 5) =
    Some (2024, 3, 4, 9, 30, 0, 0)"
  by code_simp

theorem calendar_next_elapse_witness:
  "(2024, 3, 4, 9, 30, 0, 0) \<in> window gregorian_wd (spec_default\<lparr>cs_dow := SetF [1],
     cs_hour := SetF [9], cs_minute := SetF [30], cs_second := SetF [0]\<rparr>) (2024, 2, 27, 12, 0, 0, 5)"
proof -
  have "civil_ok (2024, 2, 27, 12, 0, 0, 5)" by code_simp
  from calendar_next_elapse [OF parse_example this, of gregorian_wd] show ?thesis
    unfolding next_example by simp
qed

text \<open>C9. A parsed expression is well formed: every field is a wildcard or a non-empty strictly
  increasing list of values within the range of the field.\<close>

theorem calendar_parse_wellformed:
  assumes "parse_calendar s = Some (Inr c)"
  shows "spec_in c"
  by (rule parse_calendar_in [OF assms])

theorem calendar_parse_wellformed_witness:
  "spec_in (spec_default\<lparr>cs_dow := SetF [1], cs_hour := SetF [9], cs_minute := SetF [30],
      cs_second := SetF [0]\<rparr>)"
  by (rule calendar_parse_wellformed [OF parse_example])

text \<open>C10. The field parser returns on every field none of whose items has a step of 0, for
  every field whose maximum lies below the largest 32-bit number (all fields of the grammar). A
  field of a single item with a step of 0 makes it loop for ever when the range of the item starts
  at or below its own end and the maximum of the field (a start above the maximum leaves the loop at
  once); so the parser never returns on the calendar expression \<open>*:00/0\<close>.\<close>

theorem calendar_parse_termination:
  assumes "mx < 4294967295"
  shows "(no_zero_step tok \<longrightarrow> parse_field tok mn mx names \<noteq> None) \<and>
     (split_step tok = Some (a, Some 0) \<longrightarrow> trim tok = tok \<longrightarrow> CHR '','' \<notin> set tok \<longrightarrow>
      item_bounds a (Some 0) mn mx names = Inr (lo, hi) \<longrightarrow> lo \<le> hi \<longrightarrow> lo \<le> mx \<longrightarrow>
      parse_field tok mn mx names = None) \<and>
     parse_calendar ''*:00/0'' = None"
proof (intro conjI)
  have fld: "parse_field ''00/0'' 0 59 [] = None"
    by (rule parse_field_zero_step [where a = "''00''" and lo = 0 and hi = 59]) code_simp+
  have "parse_time ''*:00/0'' spec_default = None"
  proof -
    have "split_once ''/'' ''*:00/0'' = Some (''*:00'', ''0'')" by code_simp
    moreover have "split_char (CHR '':'') ''*:00'' = [''*'', ''00'']" by code_simp
    moreover have "parse_u32 ''0'' = Some 0" by code_simp
    moreover have "parse_field ''*'' 0 23 [] = ret AnyF" by code_simp
    moreover have "''00'' @ ''/'' @ show_nat 0 = ''00/0''" by code_simp
    ultimately show ?thesis using fld
      by (simp add: parse_time_def Let_def del: split_once.simps append.simps)
  qed
  moreover have "trim ''*:00/0'' = ''*:00/0''" "abbreviation_spec ''*:00/0'' = None"
    "split_ws ''*:00/0'' = [''*:00/0'']" "is_weekday_token ''*:00/0'' = False"
    by code_simp+
  ultimately show "parse_calendar ''*:00/0'' = None"
    by (simp add: parse_calendar_def Let_def)
qed (use assms parse_field_returns parse_field_zero_step in blast)+

theorem calendar_parse_termination_witness:
  "parse_field ''Mon..Fri'' 1 7 wday_names \<noteq> None \<and> parse_field ''5/0'' 0 59 [] = None"
proof
  have m: "(7::nat) < 4294967295" "(59::nat) < 4294967295" by simp_all
  show "parse_field ''Mon..Fri'' 1 7 wday_names \<noteq> None"
    by (rule calendar_parse_termination [OF m(1), THEN conjunct1, rule_format]) code_simp
  show "parse_field ''5/0'' 0 59 [] = None"
    by (rule calendar_parse_termination [OF m(2), THEN conjunct2, THEN conjunct1, of _ "''5''" _ _ 5 59, rule_format]) code_simp+
qed

text \<open>The search window is too short for 29 February across a century that is not a leap year:
  from March 2096 the next one is in 2104.\<close>

lemma leap_day_missed:
  "\<exists>c. parse_calendar ''*-02-29'' = Some (Inr c) \<and>
     next_elapse gregorian_wd c (2096, 3, 1, 0, 0, 0, 0) = None \<and>
     cal_matches gregorian_wd c (2104, 2, 29, 0, 0, 0, 0)"
proof (intro exI conjI)
  let ?c = "spec_default\<lparr>cs_month := SetF [2], cs_day := SetF [29], cs_hour := SetF [0],
    cs_minute := SetF [0], cs_second := SetF [0]\<rparr>"
  show "parse_calendar ''*-02-29'' = Some (Inr ?c)" by code_simp
  show "next_elapse gregorian_wd ?c (2096, 3, 1, 0, 0, 0, 0) = None" by code_simp
  show "cal_matches gregorian_wd ?c (2104, 2, 29, 0, 0, 0, 0)" by code_simp
qed

text \<open>Of the full weekday names, the ones that are not \<open><short>day\<close> are not recognised.\<close>

lemma full_weekday_names:
  "map (\<lambda>n. resolve_name n wday_names) [''Monday'', ''Friday'', ''Sunday''] = [Some 1, Some 5, Some 7]"
  "map (\<lambda>n. resolve_name n wday_names) [''Tuesday'', ''Wednesday'', ''Thursday'', ''Saturday''] =
     [None, None, None, None]"
  "resolve_name ''Tueday'' wday_names = Some 2"
  by code_simp+

end
