(* ===== verification/Syscalls.thy ===== *)
theory Syscalls
  imports Text
begin

text \<open>
  The system-call names of \<^verbatim>\<open>SystemCallFilter=\<close>: the x86-64 table, the \<open>@\<close> groups and the
  resolution of a list of names to numbers (\<open>mod seccomp\<close> in \<^verbatim>\<open>rystemd/src/platform/sandbox.rs\<close>).
\<close>

definition syscalls :: "(str \<times> nat) list" where
  "syscalls =
    [(''read'', 0), (''write'', 1), (''open'', 2), (''close'', 3), (''stat'', 4), (''fstat'',
     5), (''lstat'', 6), (''poll'', 7), (''lseek'', 8), (''mmap'', 9), (''mprotect'', 10),
     (''munmap'', 11), (''brk'', 12), (''rt_sigaction'', 13), (''rt_sigprocmask'', 14),
     (''rt_sigreturn'', 15), (''ioctl'', 16), (''pread64'', 17), (''pwrite64'', 18), (''readv'',
     19), (''writev'', 20), (''access'', 21), (''pipe'', 22), (''select'', 23),
     (''sched_yield'', 24), (''mremap'', 25), (''msync'', 26), (''mincore'', 27), (''madvise'',
     28), (''shmget'', 29), (''shmat'', 30), (''shmctl'', 31), (''dup'', 32), (''dup2'', 33),
     (''pause'', 34), (''nanosleep'', 35), (''getitimer'', 36), (''alarm'', 37), (''setitimer'',
     38), (''getpid'', 39), (''sendfile'', 40), (''socket'', 41), (''connect'', 42),
     (''accept'', 43), (''sendto'', 44), (''recvfrom'', 45), (''sendmsg'', 46), (''recvmsg'',
     47), (''shutdown'', 48), (''bind'', 49), (''listen'', 50), (''getsockname'', 51),
     (''getpeername'', 52), (''socketpair'', 53), (''setsockopt'', 54), (''getsockopt'', 55),
     (''clone'', 56), (''fork'', 57), (''vfork'', 58), (''execve'', 59), (''exit'', 60),
     (''wait4'', 61), (''kill'', 62), (''uname'', 63), (''semget'', 64), (''semop'', 65),
     (''semctl'', 66), (''shmdt'', 67), (''msgget'', 68), (''msgsnd'', 69), (''msgrcv'', 70),
     (''msgctl'', 71), (''fcntl'', 72), (''flock'', 73), (''fsync'', 74), (''fdatasync'', 75),
     (''truncate'', 76), (''ftruncate'', 77), (''getdents'', 78), (''getcwd'', 79), (''chdir'',
     80), (''fchdir'', 81), (''rename'', 82), (''mkdir'', 83), (''rmdir'', 84), (''creat'', 85),
     (''link'', 86), (''unlink'', 87), (''symlink'', 88), (''readlink'', 89), (''chmod'', 90),
     (''fchmod'', 91), (''chown'', 92), (''fchown'', 93), (''lchown'', 94), (''umask'', 95),
     (''gettimeofday'', 96), (''getrlimit'', 97), (''getrusage'', 98), (''sysinfo'', 99),
     (''times'', 100), (''ptrace'', 101), (''getuid'', 102), (''syslog'', 103), (''getgid'',
     104), (''setuid'', 105), (''setgid'', 106), (''geteuid'', 107), (''getegid'', 108),
     (''setpgid'', 109), (''getppid'', 110), (''getpgrp'', 111), (''setsid'', 112),
     (''setreuid'', 113), (''setregid'', 114), (''getgroups'', 115), (''setgroups'', 116),
     (''setresuid'', 117), (''getresuid'', 118), (''setresgid'', 119), (''getresgid'', 120),
     (''getpgid'', 121), (''setfsuid'', 122), (''setfsgid'', 123), (''getsid'', 124),
     (''capget'', 125), (''capset'', 126), (''rt_sigpending'', 127), (''rt_sigtimedwait'', 128),
     (''rt_sigqueueinfo'', 129), (''rt_sigsuspend'', 130), (''sigaltstack'', 131), (''utime'',
     132), (''mknod'', 133), (''personality'', 135), (''ustat'', 136), (''statfs'', 137),
     (''fstatfs'', 138), (''sysfs'', 139), (''getpriority'', 140), (''setpriority'', 141),
     (''sched_setparam'', 142), (''sched_getparam'', 143), (''sched_setscheduler'', 144),
     (''sched_getscheduler'', 145), (''sched_get_priority_max'', 146),
     (''sched_get_priority_min'', 147), (''sched_rr_get_interval'', 148), (''mlock'', 149),
     (''munlock'', 150), (''mlockall'', 151), (''munlockall'', 152), (''vhangup'', 153),
     (''modify_ldt'', 154), (''pivot_root'', 155), (''sysctl'', 156), (''prctl'', 157),
     (''arch_prctl'', 158), (''adjtimex'', 159), (''setrlimit'', 160), (''chroot'', 161),
     (''sync'', 162), (''acct'', 163), (''settimeofday'', 164), (''mount'', 165), (''umount2'',
     166), (''swapon'', 167), (''swapoff'', 168), (''reboot'', 169), (''sethostname'', 170),
     (''setdomainname'', 171), (''iopl'', 172), (''ioperm'', 173), (''create_module'', 174),
     (''init_module'', 175), (''delete_module'', 176), (''quotactl'', 179), (''gettid'', 186),
     (''readahead'', 187), (''setxattr'', 188), (''lsetxattr'', 189), (''fsetxattr'', 190),
     (''getxattr'', 191), (''lgetxattr'', 192), (''fgetxattr'', 193), (''listxattr'', 194),
     (''llistxattr'', 195), (''flistxattr'', 196), (''removexattr'', 197), (''lremovexattr'',
     198), (''fremovexattr'', 199), (''tkill'', 200), (''time'', 201), (''futex'', 202),
     (''sched_setaffinity'', 203), (''sched_getaffinity'', 204), (''set_thread_area'', 205),
     (''io_setup'', 206), (''io_destroy'', 207), (''io_getevents'', 208), (''io_submit'', 209),
     (''io_cancel'', 210), (''get_thread_area'', 211), (''lookup_dcookie'', 212),
     (''epoll_create'', 213), (''epoll_wait_old'', 214), (''epoll_ctl_old'', 215),
     (''getdents'', 216), (''getdents64'', 217), (''set_tid_address'', 218),
     (''restart_syscall'', 219), (''semtimedop'', 220), (''fadvise64'', 221), (''timer_create'',
     222), (''timer_settime'', 223), (''timer_gettime'', 224), (''timer_getoverrun'', 225),
     (''timer_delete'', 226), (''clock_settime'', 227), (''clock_gettime'', 228),
     (''clock_getres'', 229), (''clock_nanosleep'', 230), (''exit_group'', 231),
     (''epoll_wait'', 232), (''epoll_ctl'', 233), (''tgkill'', 234), (''utimes'', 235),
     (''mbind'', 237), (''set_mempolicy'', 238), (''get_mempolicy'', 239), (''mq_open'', 240),
     (''mq_unlink'', 241), (''mq_timedsend'', 242), (''mq_timedreceive'', 243), (''mq_notify'',
     244), (''mq_getsetattr'', 245), (''kexec_load'', 246), (''waitid'', 247), (''add_key'',
     248), (''request_key'', 249), (''keyctl'', 250), (''ioprio_set'', 251), (''ioprio_get'',
     252), (''inotify_init'', 253), (''inotify_add_watch'', 254), (''inotify_rm_watch'', 255),
     (''migrate_pages'', 256), (''openat'', 257), (''mkdirat'', 258), (''mknodat'', 259),
     (''fchownat'', 260), (''futimesat'', 261), (''newfstatat'', 262), (''unlinkat'', 263),
     (''renameat'', 264), (''linkat'', 265), (''symlinkat'', 266), (''readlinkat'', 267),
     (''fchmodat'', 268), (''faccessat'', 269), (''pselect6'', 270), (''ppoll'', 271),
     (''unshare'', 272), (''set_robust_list'', 273), (''get_robust_list'', 274), (''splice'',
     275), (''tee'', 276), (''sync_file_range'', 277), (''vmsplice'', 278), (''move_pages'',
     279), (''utimensat'', 280), (''epoll_pwait'', 281), (''signalfd'', 282),
     (''timerfd_create'', 283), (''eventfd'', 284), (''fallocate'', 285), (''timerfd_settime'',
     286), (''timerfd_gettime'', 287), (''accept4'', 288), (''signalfd4'', 289), (''eventfd2'',
     290), (''epoll_create1'', 291), (''dup3'', 292), (''pipe2'', 293), (''inotify_init1'',
     294), (''preadv'', 295), (''pwritev'', 296), (''rt_tgsigqueueinfo'', 297),
     (''perf_event_open'', 298), (''recvmmsg'', 299), (''fanotify_init'', 300),
     (''fanotify_mark'', 301), (''prlimit64'', 302), (''name_to_handle_at'', 303),
     (''open_by_handle_at'', 304), (''clock_adjtime'', 305), (''syncfs'', 306), (''sendmmsg'',
     307), (''setns'', 308), (''getcpu'', 309), (''process_vm_readv'', 310),
     (''process_vm_writev'', 311), (''kcmp'', 312), (''finit_module'', 313), (''sched_setattr'',
     314), (''sched_getattr'', 315), (''renameat2'', 316), (''seccomp'', 317), (''getrandom'',
     318), (''memfd_create'', 319), (''kexec_file_load'', 320), (''bpf'', 321), (''execveat'',
     322), (''userfaultfd'', 323), (''membarrier'', 324), (''mlock2'', 325),
     (''copy_file_range'', 326), (''preadv2'', 327), (''pwritev2'', 328), (''pkey_mprotect'',
     329), (''pkey_alloc'', 330), (''pkey_free'', 331), (''statx'', 332), (''io_pgetevents'',
     333), (''rseq'', 334), (''pidfd_send_signal'', 424), (''io_uring_setup'', 425),
     (''io_uring_enter'', 426), (''io_uring_register'', 427), (''open_tree'', 428),
     (''move_mount'', 429), (''fsopen'', 430), (''fsconfig'', 431), (''fsmount'', 432),
     (''fspick'', 433), (''pidfd_open'', 434), (''clone3'', 435), (''close_range'', 436),
     (''openat2'', 437), (''pidfd_getfd'', 438), (''faccessat2'', 439), (''process_madvise'',
     440), (''epoll_pwait2'', 441), (''mount_setattr'', 442), (''quotactl_fd'', 443),
     (''landlock_create_ruleset'', 444), (''landlock_add_rule'', 445),
     (''landlock_restrict_self'', 446), (''memfd_secret'', 447), (''process_mrelease'', 448),
     (''futex_waitv'', 449), (''set_mempolicy_home_node'', 450)]"

definition syscall_nr :: "str \<Rightarrow> nat option" where
  "syscall_nr name = map_option snd (find (\<lambda>(n, _). n = name) syscalls)"

definition group_table :: "(str \<times> str list) list" where
  "group_table =
    [(''basic-io'',
      [''read'', ''write'', ''readv'', ''writev'', ''pread64'', ''pwrite64'', ''preadv'',
       ''pwritev'', ''preadv2'', ''pwritev2'', ''lseek'']),
     (''file-system'',
      [''open'', ''openat'', ''openat2'', ''creat'', ''close'', ''stat'', ''fstat'', ''lstat'',
       ''newfstatat'', ''access'', ''faccessat'', ''faccessat2'', ''chmod'', ''fchmod'',
       ''fchmodat'', ''chown'', ''fchown'', ''lchown'', ''fchownat'', ''readlink'',
       ''readlinkat'', ''rename'', ''renameat'', ''renameat2'', ''link'', ''linkat'',
       ''symlink'', ''symlinkat'', ''unlink'', ''unlinkat'', ''mkdir'', ''mkdirat'', ''rmdir'',
       ''truncate'', ''ftruncate'', ''statfs'', ''fstatfs'', ''getdents'', ''getdents64'',
       ''getcwd'', ''chdir'', ''fchdir'', ''umask'', ''getxattr'', ''lgetxattr'', ''fgetxattr'',
       ''setxattr'', ''lsetxattr'', ''fsetxattr'', ''removexattr'', ''lremovexattr'',
       ''fremovexattr'', ''listxattr'', ''llistxattr'', ''flistxattr'', ''utime'', ''utimes'',
       ''utimensat'', ''mknod'', ''mknodat'', ''copy_file_range'', ''name_to_handle_at'',
       ''open_by_handle_at'', ''inotify_init'', ''inotify_init1'', ''inotify_add_watch'',
       ''inotify_rm_watch'']),
     (''network-io'',
      [''socket'', ''socketpair'', ''bind'', ''listen'', ''accept'', ''accept4'', ''connect'',
       ''getsockname'', ''getpeername'', ''sendto'', ''recvfrom'', ''sendmsg'', ''recvmsg'',
       ''sendmmsg'', ''recvmmsg'', ''setsockopt'', ''getsockopt'', ''shutdown'']),
     (''process'',
      [''clone'', ''clone3'', ''fork'', ''vfork'', ''execve'', ''execveat'', ''exit'',
       ''exit_group'', ''wait4'', ''waitid'', ''getpid'', ''getppid'', ''gettid'',
       ''set_tid_address'', ''set_robust_list'', ''prlimit64'', ''getrlimit'', ''setrlimit'',
       ''sched_setparam'', ''sched_getparam'', ''sched_setscheduler'', ''sched_getscheduler'',
       ''sched_yield'', ''sched_setaffinity'', ''sched_getaffinity'', ''sched_setattr'',
       ''sched_getattr'', ''sched_get_priority_max'', ''sched_get_priority_min'',
       ''sched_rr_get_interval'', ''getpriority'', ''setpriority'', ''getcpu'', ''nanosleep'']),
     (''signal'',
      [''kill'', ''tkill'', ''tgkill'', ''rt_sigaction'', ''rt_sigprocmask'', ''rt_sigreturn'',
       ''rt_sigpending'', ''rt_sigtimedwait'', ''rt_sigqueueinfo'', ''rt_sigsuspend'',
       ''sigaltstack'']),
     (''ipc'',
      [''pipe'', ''pipe2'', ''socketpair'', ''dup'', ''dup2'', ''dup3'', ''semget'', ''semop'',
       ''semctl'', ''semtimedop'', ''shmget'', ''shmat'', ''shmdt'', ''shmctl'', ''msgget'',
       ''msgsnd'', ''msgrcv'', ''msgctl'', ''futex'', ''futex_waitv'', ''eventfd'',
       ''eventfd2'', ''signalfd'', ''signalfd4'', ''timerfd_create'', ''timerfd_settime'',
       ''timerfd_gettime'']),
     (''chown'',
      [''chown'', ''fchown'', ''lchown'', ''fchownat'']),
     (''setuid'',
      [''setuid'', ''setgid'', ''setreuid'', ''setregid'', ''setresuid'', ''setresgid'',
       ''setfsuid'', ''setfsgid'', ''setgroups'']),
     (''timer'',
      [''timer_create'', ''timer_settime'', ''timer_gettime'', ''timer_getoverrun'',
       ''timer_delete'', ''clock_settime'', ''clock_gettime'', ''clock_getres'',
       ''clock_nanosleep'', ''timerfd_create'', ''timerfd_settime'', ''timerfd_gettime'',
       ''alarm'']),
     (''resources'',
      [''prlimit64'', ''setrlimit'', ''setpriority'', ''ioprio_set'', ''ioprio_get'',
       ''sched_setaffinity'', ''sched_getaffinity'']),
     (''sync'',
      [''sync'', ''fsync'', ''fdatasync'', ''syncfs'', ''sync_file_range'', ''msync'']),
     (''reboot'',
      [''reboot'', ''kexec_load'', ''kexec_file_load'']),
     (''mount'',
      [''mount'', ''umount2'', ''pivot_root'', ''move_mount'', ''open_tree'', ''fsopen'',
       ''fsconfig'', ''fsmount'', ''fspick'', ''mount_setattr'']),
     (''module-load'',
      [''init_module'', ''finit_module'', ''delete_module'', ''create_module'',
       ''query_module'', ''finmod'', ''get_kernel_syms'']),
     (''raw-io'',
      [''iopl'', ''ioperm'', ''modify_ldt'']),
     (''debug'',
      [''ptrace'', ''process_vm_readv'', ''process_vm_writev'', ''kcmp'', ''perf_event_open'']),
     (''swap'',
      [''swapon'', ''swapoff'']),
     (''privileged'',
      [''setdomainname'', ''sethostname'', ''iopl'', ''ioperm'', ''reboot'', ''swapon'',
       ''swapoff'', ''acct'', ''chroot'', ''ptrace'', ''bpf'', ''perf_event_open'',
       ''quotactl'', ''mount'', ''umount2'', ''pivot_root'', ''kexec_load'',
       ''kexec_file_load'', ''init_module'', ''finit_module'', ''delete_module'',
       ''create_module'']),
     (''obsolete'',
      [''ustat'', ''query_module'', ''lookup_dcookie'', ''sysfs'']),
     (''cpu-emulation'',
      [''modify_ldt'']),
     (''pkey'',
      [''pkey_mprotect'', ''pkey_alloc'', ''pkey_free'']),
     (''system-service'',
      [''read'', ''write'', ''open'', ''openat'', ''openat2'', ''close'', ''stat'', ''fstat'',
       ''lstat'', ''newfstatat'', ''lseek'', ''mmap'', ''mprotect'', ''munmap'', ''brk'',
       ''access'', ''faccessat'', ''faccessat2'', ''fork'', ''vfork'', ''clone'', ''clone3'',
       ''arch_prctl'', ''set_tid_address'', ''set_robust_list'', ''rseq'', ''execve'',
       ''execveat'', ''exit'', ''exit_group'', ''wait4'', ''waitid'', ''kill'', ''tgkill'',
       ''tkill'', ''getpid'', ''gettid'', ''getppid'', ''getuid'', ''getgid'', ''geteuid'',
       ''getegid'', ''getgroups'', ''getpgrp'', ''getpgid'', ''getsid'', ''getppid'',
       ''getcwd'', ''chdir'', ''fchdir'', ''dup'', ''dup2'', ''dup3'', ''fcntl'', ''flock'',
       ''fsync'', ''fdatasync'', ''ioctl'', ''poll'', ''select'', ''ppoll'', ''pselect6'',
       ''epoll_create'', ''epoll_create1'', ''epoll_ctl'', ''epoll_ctl_old'', ''epoll_wait'',
       ''epoll_wait_old'', ''epoll_pwait'', ''epoll_pwait2'', ''pipe'', ''pipe2'', ''socket'',
       ''socketpair'', ''bind'', ''listen'', ''accept'', ''accept4'', ''connect'',
       ''getsockname'', ''getpeername'', ''sendto'', ''recvfrom'', ''sendmsg'', ''recvmsg'',
       ''sendmmsg'', ''recvmmsg'', ''setsockopt'', ''getsockopt'', ''shutdown'', ''nanosleep'',
       ''clock_gettime'', ''clock_getres'', ''clock_settime'', ''clock_nanosleep'',
       ''sched_yield'', ''gettimeofday'', ''time'', ''getrusage'', ''sysinfo'', ''uname'',
       ''times'', ''umask'', ''prlimit64'', ''getrlimit'', ''setrlimit'', ''rt_sigaction'',
       ''rt_sigprocmask'', ''rt_sigreturn'', ''rt_sigpending'', ''rt_sigtimedwait'',
       ''rt_sigqueueinfo'', ''rt_sigsuspend'', ''sigaltstack'', ''mknod'', ''mknodat'',
       ''readlink'', ''readlinkat'', ''symlink'', ''symlinkat'', ''link'', ''linkat'',
       ''rename'', ''renameat'', ''renameat2'', ''unlink'', ''unlinkat'', ''mkdir'',
       ''mkdirat'', ''rmdir'', ''creat'', ''truncate'', ''ftruncate'', ''statfs'', ''fstatfs'',
       ''getdents'', ''getdents64'', ''chmod'', ''fchmod'', ''fchmodat'', ''chown'', ''fchown'',
       ''fchownat'', ''lchown'', ''utime'', ''utimes'', ''utimensat'', ''setxattr'',
       ''getxattr'', ''statx'', ''sync'', ''fsync'', ''fdatasync'', ''syncfs'', ''getrandom'',
       ''getrlimit'', ''setrlimit''])]"

definition group_members :: "str \<Rightarrow> str list option" where
  "group_members g = map_of group_table g"

fun resolve_loop :: "str list \<Rightarrow> nat list \<Rightarrow> str + nat list" where
  "resolve_loop [] out = Inr out"
| "resolve_loop (n # ns) out =
     (case strip_prefix ''@'' n of
        Some g \<Rightarrow>
          (case group_members g of
             None \<Rightarrow> Inl (''SystemCallFilter: unknown group `@'' @ g @ ''`'')
           | Some ms \<Rightarrow> resolve_loop ns (out @ List.map_filter syscall_nr ms))
      | None \<Rightarrow>
          (case syscall_nr (lower n) of
             None \<Rightarrow> Inl (''SystemCallFilter: unknown syscall `'' @ n @ ''`'')
           | Some nr \<Rightarrow> resolve_loop ns (out @ [nr])))"

definition resolve_syscalls :: "str list \<Rightarrow> str + nat list" where
  "resolve_syscalls names = bnd (resolve_loop names []) (\<lambda>out. Inr (remdups_adj (sort out)))"

definition suidsgid_nrs :: "nat list" where
  "suidsgid_nrs = remdups_adj (sort (List.map_filter syscall_nr
     [''chmod'', ''fchmod'', ''fchmodat'', ''chown'', ''fchown'', ''lchown'', ''fchownat'']))"

text \<open>A duplicate entry hides the number 216 (\<open>remap_file_pages\<close>): the table names it
  \<open>getdents\<close>, whose number is 78.\<close>

lemma duplicate_getdents:
  "syscall_nr ''getdents'' = Some 78" "(''getdents'', 216) \<in> set syscalls"
  "syscall_nr ''remap_file_pages'' = None"
  by code_simp+

section \<open>Properties\<close>

definition known_name :: "str \<Rightarrow> bool" where
  "known_name n \<longleftrightarrow> (case strip_prefix ''@'' n of
     Some g \<Rightarrow> group_members g \<noteq> None | None \<Rightarrow> syscall_nr (lower n) \<noteq> None)"

definition numbers_of :: "str \<Rightarrow> nat set" where
  "numbers_of n = (case strip_prefix ''@'' n of
     Some g \<Rightarrow> {nr. \<exists>ms m. group_members g = Some ms \<and> m \<in> set ms \<and> syscall_nr m = Some nr}
   | None \<Rightarrow> {nr. syscall_nr (lower n) = Some nr})"

lemma set_map_filter: "set (List.map_filter f xs) = {y. \<exists>x \<in> set xs. f x = Some y}"
  by (force simp: map_filter_def)

lemma resolve_loop_spec:
  "case resolve_loop names out of
     Inr nrs \<Rightarrow> (\<forall>n \<in> set names. known_name n) \<and> set nrs = set out \<union> (\<Union>n \<in> set names. numbers_of n)
   | Inl e \<Rightarrow> \<exists>n \<in> set names. \<not> known_name n"
proof (induction names out rule: resolve_loop.induct)
  case (2 n ns out)
  show ?case
  proof (cases "strip_prefix ''@'' n")
    case None
    show ?thesis
    proof (cases "syscall_nr (lower n)")
      case (Some nr)
      with 2(1) [OF None Some] None show ?thesis
        by (auto simp: known_name_def numbers_of_def split: sum.splits)
    qed (use None in \<open>simp add: known_name_def\<close>)
  next
    case g: (Some g)
    show ?thesis
    proof (cases "group_members g")
      case (Some ms)
      have "numbers_of n = set (List.map_filter syscall_nr ms)"
        using g Some by (auto simp: numbers_of_def set_map_filter)
      moreover have "known_name n" using g Some by (simp add: known_name_def)
      ultimately show ?thesis using 2(2) [OF g Some] g Some by (auto split: sum.splits)
    qed (use g in \<open>simp add: known_name_def\<close>)
  qed
qed simp

text \<open>A list of system-call names resolves exactly when every name is in the table and every
  \<open>@\<close> group exists; the result is the strictly increasing list of the numbers of the named calls
  and of the known members of the named groups.\<close>

theorem resolve_syscalls_spec:
  "case resolve_syscalls names of
     Inr nrs \<Rightarrow> (\<forall>n \<in> set names. known_name n) \<and> sorted_wrt (<) nrs \<and> set nrs = (\<Union>n \<in> set names. numbers_of n)
   | Inl e \<Rightarrow> \<exists>n \<in> set names. \<not> known_name n"
  using resolve_loop_spec [of names "[]"] strict_sorted_remdups_adj [OF sorted_sort]
  by (simp add: resolve_syscalls_def split: sum.splits)

theorem resolve_syscalls_spec_witness:
  "known_name ''write'' \<and> known_name ''read'' \<and> {0, 1} = numbers_of ''write'' \<union> numbers_of ''read''"
proof -
  have "resolve_syscalls [''write'', ''read''] = Inr [0, 1]" by code_simp
  then show ?thesis using resolve_syscalls_spec [of "[''write'', ''read'']"] by auto
qed

end
