(* ===== verification/Seccomp.thy ===== *)
theory Seccomp
  imports Syscalls "HOL-Library.Word"
begin

text \<open>
  The seccomp filter of a service: \<open>seccomp::build\<close> in \<^verbatim>\<open>rystemd/src/platform/sandbox.rs\<close> assembles
  a classic BPF program from the resolved \<^verbatim>\<open>SystemCallFilter=\<close> numbers, the hard denials
  (\<^verbatim>\<open>RestrictRealtime=\<close> and its like), the address-family gate and the write-and-execute gate.
  Jump targets are symbolic while the program is put together and become 8-bit relative offsets
  at the end.

  The program is specified by running it: \<open>bpf_run\<close> is the kernel's documented meaning of the
  few instructions used (load a 32-bit word of \<open>seccomp_data\<close>, \<open>and\<close>, jump if equal, jump if a
  bit is set, return). \<open>filter_admits\<close> is what the program computes; \<open>intended\<close> is what the
  documentation of the directives promises. The main theorem is that the assembled program decides
  as intended except for the two kinds of calls where the code departs from its comments.
\<close>

unbundle bit_operations_syntax

section \<open>Instructions\<close>

definition bpf_ld :: nat where "bpf_ld = 0x20"
definition bpf_jeq :: nat where "bpf_jeq = 0x15"
definition bpf_jset :: nat where "bpf_jset = 0x45"
definition bpf_and :: nat where "bpf_and = 0x54"
definition bpf_ret :: nat where "bpf_ret = 0x06"
definition audit_arch_x86_64 :: nat where "audit_arch_x86_64 = 0xC000003E"

lemmas bpf_codes = bpf_ld_def bpf_jeq_def bpf_jset_def bpf_and_def bpf_ret_def

record sock_filter =
  sf_code :: nat
  sf_jt :: nat
  sf_jf :: nat
  sf_k :: nat

datatype tgt = TNone | TI nat | TErrno | TAllow | TFamarg | TWxArg | TPlain

record instr =
  in_code :: nat
  in_k :: nat
  in_jt :: tgt
  in_jf :: tgt

abbreviation ins :: "nat \<Rightarrow> nat \<Rightarrow> tgt \<Rightarrow> tgt \<Rightarrow> instr" where
  "ins c k t f \<equiv> \<lparr>in_code = c, in_k = k, in_jt = t, in_jf = f\<rparr>"

record af_gate =
  ag_deny :: bool
  ag_families :: "nat list"
  ag_deny_all :: bool

definition allow_base :: "str list" where
  "allow_base = [''exit'', ''exit_group'', ''rt_sigreturn'', ''rt_sigaction'', ''rt_sigprocmask'',
     ''rt_sigpending'', ''rt_sigtimedwait'', ''rt_sigqueueinfo'', ''rt_sigsuspend'', ''sigaltstack'',
     ''getpid'', ''gettid'', ''getppid'', ''tgkill'', ''kill'', ''nanosleep'', ''clock_gettime'',
     ''clock_nanosleep'', ''getrandom'', ''futex'', ''mmap'', ''mprotect'', ''munmap'', ''madvise'',
     ''brk'', ''read'', ''write'', ''openat'', ''close'', ''fstat'', ''newfstatat'', ''lseek'',
     ''pread64'', ''pwrite64'', ''ioctl'']"

section \<open>The builder\<close>

definition socket_nrs :: "nat list" where
  "socket_nrs = List.map_filter syscall_nr [''socket'', ''socketpair'']"

definition wx_nrs :: "bool \<Rightarrow> nat list" where
  "wx_nrs wx = (if wx then List.map_filter syscall_nr [''mmap'', ''mprotect'', ''pkey_mprotect''] else [])"

definition push_new :: "nat \<Rightarrow> nat list \<Rightarrow> nat list" where
  "push_new nr es = (if List.member es nr then es else es @ [nr])"

definition plain_entries :: "nat list \<Rightarrow> bool \<Rightarrow> nat list \<Rightarrow> af_gate option \<Rightarrow> bool \<Rightarrow> nat list" where
  "plain_entries nrs deny extra af wx =
     (let e0 = nrs;
          e1 = (if af \<noteq> None then fold (\<lambda>s. filter (\<lambda>e. e \<noteq> s)) socket_nrs e0 else e0);
          e2 = (if wx then fold (\<lambda>s. filter (\<lambda>e. e \<noteq> s)) (wx_nrs wx) e1 else e1);
          e3 = (if \<not> deny then fold push_new (List.map_filter syscall_nr allow_base) e2
                else fold push_new extra e2)
      in remdups_adj (sort e3))"

definition list_denies :: "nat list \<Rightarrow> bool \<Rightarrow> nat \<Rightarrow> bool" where
  "list_denies nrs deny s = (if deny then List.member nrs s else \<not> List.member nrs s)"

definition pick_t :: "bool \<Rightarrow> tgt" where
  "pick_t errno_side = (if errno_side then TErrno else TAllow)"

definition fam_default_errno :: "af_gate \<Rightarrow> bool" where
  "fam_default_errno af = (if ag_deny_all af then ag_deny af else \<not> ag_deny af)"

definition wx_gates :: "nat list \<Rightarrow> bool \<Rightarrow> bool \<Rightarrow> (nat \<times> tgt) list" where
  "wx_gates nrs deny wx =
     map (\<lambda>s. (s, if list_denies nrs deny s then TErrno else TWxArg)) (wx_nrs wx)"

definition af_gates :: "nat list \<Rightarrow> bool \<Rightarrow> af_gate option \<Rightarrow> (nat \<times> tgt) list" where
  "af_gates nrs deny af =
     (case af of
        None \<Rightarrow> []
      | Some g \<Rightarrow>
          (let const_errno = ag_deny_all g \<or> ag_families g = []
           in map (\<lambda>s. (s, if list_denies nrs deny s then TErrno
                           else if const_errno then pick_t (fam_default_errno g)
                           else TFamarg)) socket_nrs))"

text \<open>The compare chain of the gates: the previous gate's miss is redirected to the new one.\<close>

fun emit_gates :: "instr list \<Rightarrow> nat option \<Rightarrow> (nat \<times> tgt) list \<Rightarrow> instr list" where
  "emit_gates prog prev [] = prog"
| "emit_gates prog prev ((s, t) # gs) =
     (let idx = length prog;
          prog1 = prog @ [ins bpf_jeq s t TPlain];
          prog2 = (case prev of
                     None \<Rightarrow> prog1
                   | Some p \<Rightarrow> prog1[p := (prog1 ! p)\<lparr>in_jf := TI idx\<rparr>])
      in emit_gates prog2 (Some idx) gs)"

definition subst_t :: "tgt \<Rightarrow> tgt \<Rightarrow> tgt \<Rightarrow> tgt" where
  "subst_t a b t = (if t = a then b else t)"

definition retarget :: "tgt \<Rightarrow> tgt \<Rightarrow> instr list \<Rightarrow> instr list" where
  "retarget a b prog = map (\<lambda>i. i\<lparr>in_jt := subst_t a b (in_jt i), in_jf := subst_t a b (in_jf i)\<rparr>) prog"

fun emit_entries :: "instr list \<Rightarrow> tgt \<Rightarrow> tgt \<Rightarrow> nat list \<Rightarrow> instr list" where
  "emit_entries prog match_t default_t [] = prog"
| "emit_entries prog match_t default_t (nr # es) =
     emit_entries
       (prog @ [ins bpf_jeq nr match_t (if es = [] then default_t else TI (length prog + 1))])
       match_t default_t es"

definition fam_block :: "af_gate \<Rightarrow> instr list \<Rightarrow> instr list" where
  "fam_block af prog =
     retarget TFamarg (TI (length prog))
       (prog @ ins bpf_ld 16 TNone TNone #
          map (\<lambda>f. ins bpf_jeq f (pick_t (ag_deny af)) (pick_t (fam_default_errno af))) (ag_families af))"

definition wx_block :: "instr list \<Rightarrow> instr list" where
  "wx_block prog =
     retarget TWxArg (TI (length prog))
       (prog @ [ins bpf_ld 32 TNone TNone, ins bpf_and 6 TNone TNone,
                ins bpf_jset 2 (TI (length prog + 3)) TAllow, ins bpf_jset 4 TErrno TAllow])"

text \<open>Resolution of the targets; one that is still symbolic would be a panic.\<close>

fun resolve_t :: "nat \<Rightarrow> nat \<Rightarrow> tgt \<Rightarrow> nat option option" where
  "resolve_t e a TNone = Some None"
| "resolve_t e a (TI i) = Some (Some i)"
| "resolve_t e a TErrno = Some (Some e)"
| "resolve_t e a TAllow = Some (Some a)"
| "resolve_t e a TFamarg = None"
| "resolve_t e a TWxArg = None"
| "resolve_t e a TPlain = None"

definition offset :: "nat \<Rightarrow> nat option \<Rightarrow> nat" where
  "offset i t = (case t of None \<Rightarrow> 0 | Some j \<Rightarrow> (j - i - 1) mod 256)"

fun link :: "nat \<Rightarrow> nat \<Rightarrow> nat \<Rightarrow> instr list \<Rightarrow> sock_filter list option" where
  "link e a i [] = Some []"
| "link e a i (x # xs) =
     (case (resolve_t e a (in_jt x), resolve_t e a (in_jf x), link e a (Suc i) xs) of
        (Some t, Some f, Some r) \<Rightarrow>
          Some (\<lparr>sf_code = in_code x, sf_jt = offset i t, sf_jf = offset i f, sf_k = in_k x\<rparr> # r)
      | _ \<Rightarrow> None)"

definition errno_ret :: "nat \<Rightarrow> nat" where
  "errno_ret errno = (let e = (if errno = 0 then 1 else errno) in 0x50000 OR (e AND 0xFFFF))"

definition allow_ret :: nat where "allow_ret = 0x7FFF0000"

definition assemble :: "nat list \<Rightarrow> bool \<Rightarrow> nat list \<Rightarrow> af_gate option \<Rightarrow> bool \<Rightarrow> instr list" where
  "assemble nrs deny extra af wx =
     (let entries = plain_entries nrs deny extra af wx;
          default_t = pick_t (\<not> deny);
          match_t = pick_t deny;
          gates = wx_gates nrs deny wx @ af_gates nrs deny af;
          need_famarg = list_ex (\<lambda>(_, t). t = TFamarg) gates;
          need_wxarg = list_ex (\<lambda>(_, t). t = TWxArg) gates;
          prog0 = [ins bpf_ld 4 TNone TNone, ins bpf_jeq audit_arch_x86_64 (TI 2) TErrno,
                   ins bpf_ld 0 TNone TNone];
          prog1 = emit_gates prog0 None gates;
          plain_tgt = (if entries = [] then default_t else TI (length prog1));
          prog2 = emit_entries (retarget TPlain plain_tgt prog1) match_t default_t entries;
          prog3 = (case af of Some g \<Rightarrow> if need_famarg then fam_block g prog2 else prog2 | None \<Rightarrow> prog2);
          prog4 = (if need_wxarg then wx_block prog3 else prog3)
      in prog4)"

definition build_seccomp ::
    "nat list \<Rightarrow> bool \<Rightarrow> nat \<Rightarrow> nat list \<Rightarrow> af_gate option \<Rightarrow> bool \<Rightarrow> sock_filter list option" where
  "build_seccomp nrs deny errno extra af wx =
     (let prog = assemble nrs deny extra af wx;
          errno_i = length prog;
          allow_i = length prog + 1
      in link errno_i allow_i 0
           (prog @ [ins bpf_ret (errno_ret errno) TNone TNone, ins bpf_ret allow_ret TNone TNone]))"

section \<open>Running a filter\<close>

record seccomp_data =
  sd_nr :: nat
  sd_arch :: nat
  sd_arg0 :: nat
  sd_arg2 :: nat

definition load_word :: "seccomp_data \<Rightarrow> nat \<Rightarrow> nat" where
  "load_word d k = (if k = 0 then sd_nr d else if k = 4 then sd_arch d
     else if k = 16 then sd_arg0 d else if k = 32 then sd_arg2 d else 0)"

text \<open>The value returned; \<open>None\<close> when the program runs off its end or has another instruction.\<close>

function bpf_run :: "seccomp_data \<Rightarrow> sock_filter list \<Rightarrow> nat \<Rightarrow> nat option" where
  "bpf_run d [] acc = None"
| "bpf_run d (i # is) acc =
     (if sf_code i = bpf_ld then bpf_run d is (load_word d (sf_k i))
      else if sf_code i = bpf_and then bpf_run d is (acc AND sf_k i)
      else if sf_code i = bpf_jeq then bpf_run d (drop (if acc = sf_k i then sf_jt i else sf_jf i) is) acc
      else if sf_code i = bpf_jset then
        bpf_run d (drop (if acc AND sf_k i \<noteq> 0 then sf_jt i else sf_jf i) is) acc
      else if sf_code i = bpf_ret then Some (sf_k i)
      else None)"
  by pat_completeness auto

termination bpf_run
  by (relation "measure (\<lambda>(_, p, _). length p)") auto

section \<open>What the program computes\<close>

text \<open>A summary of the program's decisions, a step of the proof: it follows the code, also where the
  code departs from its comments.\<close>

definition family_allowed :: "af_gate \<Rightarrow> nat \<Rightarrow> bool" where
  "family_allowed g f \<longleftrightarrow>
     (if ag_deny_all g then \<not> ag_deny g
      else if f \<in> set (ag_families g) then \<not> ag_deny g else ag_deny g)"

definition filter_admits :: "nat list \<Rightarrow> bool \<Rightarrow> nat list \<Rightarrow> af_gate option \<Rightarrow> bool \<Rightarrow> seccomp_data \<Rightarrow> bool" where
  "filter_admits nrs deny extra af wx d \<longleftrightarrow> sd_arch d = audit_arch_x86_64 \<and>
     (if sd_nr d \<in> set (wx_nrs wx) then
        \<not> list_denies nrs deny (sd_nr d) \<and> \<not> (bit (sd_arg2 d) 1 \<and> bit (sd_arg2 d) 2)
      else if af \<noteq> None \<and> sd_nr d \<in> set socket_nrs then
        \<not> list_denies nrs deny (sd_nr d) \<and> family_allowed (the af) (sd_arg0 d)
      else if deny then sd_nr d \<notin> set nrs \<union> set extra
      else sd_nr d \<in> set nrs \<or> (\<exists>b \<in> set allow_base. syscall_nr b = Some (sd_nr d)))"

definition verdict :: "nat \<Rightarrow> bool \<Rightarrow> nat" where
  "verdict errno ok = (if ok then allow_ret else errno_ret errno)"

section \<open>The shape of the program\<close>

text \<open>A chain of compares starting at index \<open>b\<close>: each miss goes to the next one, the last to \<open>fin\<close>.\<close>

fun chain :: "nat \<Rightarrow> (nat \<times> tgt) list \<Rightarrow> tgt \<Rightarrow> instr list" where
  "chain b [] fin = []"
| "chain b ((k, t) # L) fin = ins bpf_jeq k t (if L = [] then fin else TI (Suc b)) # chain (Suc b) L fin"

lemma length_chain [simp]: "length (chain b L fin) = length L"
  by (induction b L fin rule: chain.induct) auto

lemma emit_gates_next:
  "emit_gates (prog @ [ins bpf_jeq s t TPlain]) (Some (length prog)) gs =
   prog @ chain (length prog) ((s, t) # gs) TPlain"
proof (induction gs arbitrary: prog s t)
  case (Cons g gs)
  obtain s' t' where g: "g = (s', t')" by fastforce
  show ?case
    using Cons.IH [of "prog @ [ins bpf_jeq s t (TI (Suc (length prog)))]" s' t']
    by (simp add: g Let_def nth_append)
qed simp

lemma emit_gates_chain: "emit_gates prog None gs = prog @ chain (length prog) gs TPlain"
proof (cases gs)
  case (Cons g gs')
  then show ?thesis using emit_gates_next [of prog "fst g" "snd g" gs'] by (cases g) (simp add: Let_def)
qed simp

lemma emit_entries_chain:
  "emit_entries prog m d es = prog @ chain (length prog) (map (\<lambda>e. (e, m)) es) d"
  by (induction es arbitrary: prog) auto

lemma retarget_append [simp]: "retarget a b (p @ q) = retarget a b p @ retarget a b q"
  by (simp add: retarget_def)

lemma retarget_Cons [simp]:
  "retarget a b (i # p) = i\<lparr>in_jt := subst_t a b (in_jt i), in_jf := subst_t a b (in_jf i)\<rparr> # retarget a b p"
  "retarget a b [] = []"
  by (simp_all add: retarget_def)

lemma retarget_chain [simp]:
  "\<forall>j. a \<noteq> TI j \<Longrightarrow> retarget a b (chain n L fin) = chain n (map (apsnd (subst_t a b)) L) (subst_t a b fin)"
  by (induction n L fin rule: chain.induct) (auto simp: subst_t_def)

lemma subst_t_simps [simp]: "subst_t a b a = b" "t \<noteq> a \<Longrightarrow> subst_t a b t = t"
  by (simp_all add: subst_t_def)

definition fam_code :: "af_gate option \<Rightarrow> instr list" where
  "fam_code af = (case af of None \<Rightarrow> [] | Some g \<Rightarrow> ins bpf_ld 16 TNone TNone #
     map (\<lambda>f. ins bpf_jeq f (pick_t (ag_deny g)) (pick_t (fam_default_errno g))) (ag_families g))"

definition wx_code :: "nat \<Rightarrow> instr list" where
  "wx_code n = [ins bpf_ld 32 TNone TNone, ins bpf_and 6 TNone TNone,
     ins bpf_jset 2 (TI (n + 3)) TAllow, ins bpf_jset 4 TErrno TAllow]"

definition head_code :: "instr list" where
  "head_code = [ins bpf_ld 4 TNone TNone, ins bpf_jeq audit_arch_x86_64 (TI 2) TErrno, ins bpf_ld 0 TNone TNone]"

definition gate_list :: "nat list \<Rightarrow> bool \<Rightarrow> af_gate option \<Rightarrow> bool \<Rightarrow> (nat \<times> tgt) list" where
  "gate_list nrs deny af wx = wx_gates nrs deny wx @ af_gates nrs deny af"

definition needs :: "tgt \<Rightarrow> (nat \<times> tgt) list \<Rightarrow> bool" where
  "needs t G \<longleftrightarrow> t \<in> snd ` set G"

definition route :: "nat \<Rightarrow> nat \<Rightarrow> tgt \<Rightarrow> tgt" where
  "route f w t = subst_t TWxArg (TI w) (subst_t TFamarg (TI f) t)"

definition laid_out :: "(nat \<times> tgt) list \<Rightarrow> nat list \<Rightarrow> bool \<Rightarrow> af_gate option \<Rightarrow> instr list" where
  "laid_out G E deny af =
     (let n = length G; m = length E; f = 3 + n + m;
          F = (if needs TFamarg G then fam_code af else []); w = f + length F;
          d = pick_t (\<not> deny)
      in head_code @ chain 3 (map (apsnd (route f w)) G) (if E = [] then d else TI (3 + n)) @
         chain (3 + n) (map (\<lambda>e. (e, pick_t deny)) E) d @ F @ (if needs TWxArg G then wx_code w else []))"

lemma map_subst_id: "\<not> needs a G \<Longrightarrow> map (apsnd (subst_t a b)) G = G"
  by (rule map_idI) (force simp: needs_def subst_t_def)

lemma pick_t_other [simp]: "subst_t TFamarg b (pick_t x) = pick_t x" "subst_t TWxArg b (pick_t x) = pick_t x"
  "subst_t TPlain b (pick_t x) = pick_t x"
  by (simp_all add: pick_t_def subst_t_def)

lemma retarget_fam [simp]: "retarget TFamarg b (fam_code af) = fam_code af" "retarget TWxArg b (fam_code af) = fam_code af"
  by (auto simp: fam_code_def retarget_def subst_t_def pick_t_def split: option.split)

lemma retarget_head [simp]: "retarget TFamarg b head_code = head_code" "retarget TWxArg b head_code = head_code"
  "retarget TPlain b head_code = head_code"
  by (simp_all add: head_code_def retarget_def subst_t_def)

lemma retarget_wx [simp]: "retarget TWxArg b (wx_code n) = wx_code n"
  by (simp add: wx_code_def retarget_def subst_t_def)

lemma needs_plain: "\<not> needs TPlain (gate_list nrs deny af wx)"
  by (auto simp: needs_def gate_list_def wx_gates_def af_gates_def pick_t_def Let_def split: option.splits if_splits)

lemma needs_fam_Some: "needs TFamarg (gate_list nrs deny af wx) \<Longrightarrow> af \<noteq> None"
  by (auto simp: needs_def gate_list_def wx_gates_def af_gates_def split: option.splits if_splits)

lemma needs_list_ex: "list_ex (\<lambda>(_, t). t = a) G = needs a G"
  by (force simp: needs_def list_ex_iff)

lemma retarget_entries [simp]:
  "\<forall>j. a \<noteq> TI j \<Longrightarrow> subst_t a b t = t \<Longrightarrow> subst_t a b d = d \<Longrightarrow>
   retarget a b (chain n (map (\<lambda>e. (e, t)) E) d) = chain n (map (\<lambda>e. (e, t)) E) d"
  by (simp add: comp_def)

lemma assemble_laid_out:
  "assemble nrs deny extra af wx =
   laid_out (gate_list nrs deny af wx) (plain_entries nrs deny extra af wx) deny af"
proof -
  define G where "G = gate_list nrs deny af wx"
  define E where "E = plain_entries nrs deny extra af wx"
  define n m d where "n = length G" and "m = length E" and "d = pick_t (\<not> deny)"
  define pt where "pt = (if E = [] then d else TI (3 + n))"
  define EC where "EC = chain (3 + n) (map (\<lambda>e. (e, pick_t deny)) E) d"
  have lens: "length head_code = 3" "length (chain k L x) = length L" "length EC = m" for k L x
    by (simp_all add: head_code_def EC_def m_def)
  have pt: "subst_t TFamarg b pt = pt" "subst_t TWxArg b pt = pt" for b
    by (simp_all add: pt_def d_def)
  have ec: "retarget TFamarg b EC = EC" "retarget TWxArg b EC = EC" for b
    by (simp_all add: EC_def d_def comp_def)
  have p1: "emit_gates head_code None G = head_code @ chain 3 G TPlain"
    using emit_gates_chain [of head_code G] by (simp add: lens)
  have p2: "emit_entries (retarget TPlain pt (head_code @ chain 3 G TPlain)) (pick_t deny) d E =
      head_code @ chain 3 G pt @ EC"
    using map_subst_id [of TPlain G pt] needs_plain [of nrs deny af wx]
    by (simp add: emit_entries_chain lens EC_def n_def G_def)
  have p3: "fam_block g (head_code @ chain 3 G pt @ EC) =
      head_code @ chain 3 (map (apsnd (subst_t TFamarg (TI (3 + n + m)))) G) pt @ EC @ fam_code (Some g)" for g
  proof -
    let ?p = "head_code @ chain 3 G pt @ EC"
    have "length ?p = 3 + n + m" by (simp add: lens n_def)
    then have "fam_block g ?p = retarget TFamarg (TI (3 + n + m)) (?p @ fam_code (Some g))"
      by (simp add: fam_block_def fam_code_def)
    then show ?thesis by (simp add: pt ec)
  qed
  have p4: "wx_block (head_code @ chain 3 L pt @ EC @ F) =
      head_code @ chain 3 (map (apsnd (subst_t TWxArg (TI (3 + n + m + length F)))) L) pt @ EC @ F @
        wx_code (3 + n + m + length F)"
    if "length L = n" "\<And>b. retarget TWxArg b F = F" for L F
  proof -
    let ?p = "head_code @ chain 3 L pt @ EC @ F"
    have len: "length ?p = 3 + n + m + length F" by (simp add: lens that(1))
    have "wx_block ?p = retarget TWxArg (TI (3 + n + m + length F)) (?p @ wx_code (3 + n + m + length F))"
      unfolding wx_block_def wx_code_def len ..
    then show ?thesis by (simp add: pt ec that(2))
  qed
  have fam: "af = Some (the af)" if "needs TFamarg G" using needs_fam_Some that by (auto simp: G_def)
  define F where "F = (if needs TFamarg G then fam_code af else [])"
  define L where "L = (if needs TFamarg G then map (apsnd (subst_t TFamarg (TI (3 + n + m)))) G else G)"
  have L: "map (apsnd (subst_t TFamarg (TI (3 + n + m)))) G = L" "length L = n"
    using map_subst_id by (simp_all add: L_def n_def)
  have p34: "(case af of Some g \<Rightarrow> if needs TFamarg G then fam_block g (head_code @ chain 3 G pt @ EC)
        else head_code @ chain 3 G pt @ EC | None \<Rightarrow> head_code @ chain 3 G pt @ EC) =
      head_code @ chain 3 L pt @ EC @ F"
    using fam p3 by (auto simp: L_def F_def split: option.splits)
  have FW: "retarget TWxArg b F = F" for b by (simp add: F_def)
  have nw: "needs TWxArg G \<longleftrightarrow> needs TWxArg L"
    by (auto simp: L_def needs_def subst_t_def image_image)
  have R: "map (apsnd (route (3 + n + m) w)) G = map (apsnd (subst_t TWxArg (TI w))) L" for w
    by (auto simp: L(1) [symmetric] route_def)
  have final: "(if needs TWxArg G then wx_block (head_code @ chain 3 L pt @ EC @ F)
      else head_code @ chain 3 L pt @ EC @ F) = laid_out G E deny af"
    using p4 [OF L(2) FW] map_subst_id [of TWxArg L] nw
    by (simp add: laid_out_def Let_def R n_def [symmetric] m_def [symmetric] d_def [symmetric]
        pt_def [symmetric] EC_def [symmetric] F_def [symmetric])
  have len1: "length (emit_gates head_code None G) = 3 + n" by (simp add: p1 lens n_def)
  show ?thesis
    unfolding assemble_def Let_def head_code_def [symmetric] gate_list_def [symmetric] G_def [symmetric]
      E_def [symmetric] needs_list_ex d_def [symmetric] len1 pt_def [symmetric]
    unfolding p1 p2 p34 final ..
qed

section \<open>Running a linked program\<close>

text \<open>\<open>P\<close> is the linked form of \<open>S\<close>, small enough that no offset wraps.\<close>

definition linked :: "nat \<Rightarrow> nat \<Rightarrow> instr list \<Rightarrow> sock_filter list \<Rightarrow> bool" where
  "linked e a S P \<longleftrightarrow> link e a 0 S = Some P \<and> length S \<le> 256"

definition goes :: "nat \<Rightarrow> nat \<Rightarrow> tgt \<Rightarrow> nat \<Rightarrow> bool" where
  "goes e a t j \<longleftrightarrow> resolve_t e a t = Some (Some j)"

lemma link_nth:
  "link e a i0 S = Some P \<Longrightarrow> length P = length S \<and>
   (\<forall>i < length S. sf_code (P ! i) = in_code (S ! i) \<and> sf_k (P ! i) = in_k (S ! i) \<and>
      Some (sf_jt (P ! i)) = map_option (offset (i0 + i)) (resolve_t e a (in_jt (S ! i))) \<and>
      Some (sf_jf (P ! i)) = map_option (offset (i0 + i)) (resolve_t e a (in_jf (S ! i))))"
proof (induction S arbitrary: i0 P)
  case (Cons x S)
  from Cons.prems obtain t f r where r: "resolve_t e a (in_jt x) = Some t" "resolve_t e a (in_jf x) = Some f"
    "link e a (Suc i0) S = Some r"
    "P = \<lparr>sf_code = in_code x, sf_jt = offset i0 t, sf_jf = offset i0 f, sf_k = in_k x\<rparr> # r"
    by (auto split: option.splits)
  show ?case using Cons.IH [OF r(3)] r by (auto simp: nth_Cons split: nat.splits)
qed simp

lemma link_exists:
  "\<forall>x \<in> set S. resolve_t e a (in_jt x) \<noteq> None \<and> resolve_t e a (in_jf x) \<noteq> None \<Longrightarrow>
   \<exists>P. link e a i S = Some P"
proof (induction S arbitrary: i)
  case (Cons x S)
  then obtain t f r where "resolve_t e a (in_jt x) = Some t" "resolve_t e a (in_jf x) = Some f"
    "link e a (Suc i) S = Some r" by fastforce
  then show ?case by simp
qed simp

lemma linked_drop:
  assumes "linked e a S P" "i < length S"
  shows "drop i P = P ! i # drop (Suc i) P"
  using assms link_nth [of e a 0 S P] by (simp add: linked_def Cons_nth_drop_Suc)

lemma run_plain:
  assumes "linked e a S P" "i < length S" "S ! i = ins c k TNone TNone"
  shows "c = bpf_ld \<Longrightarrow> bpf_run d (drop i P) acc = bpf_run d (drop (Suc i) P) (load_word d k)"
    and "c = bpf_and \<Longrightarrow> bpf_run d (drop i P) acc = bpf_run d (drop (Suc i) P) (acc AND k)"
    and "c = bpf_ret \<Longrightarrow> bpf_run d (drop i P) acc = Some k"
  using link_nth [of e a 0 S P] assms linked_drop [OF assms(1,2)]
  by (simp_all add: linked_def bpf_codes)

lemma drop_offset:
  assumes "i < j" "j \<le> 256 + i"
  shows "drop (Suc (offset i (Some j) + i)) P = drop j P"
  using assms by (simp add: offset_def)

lemma run_jump:
  assumes "linked e a S P" "i < length S" "S ! i = ins c k t f" "goes e a t jt" "goes e a f jf"
    "i < jt" "i < jf" "jt < length S" "jf < length S"
  shows "c = bpf_jeq \<Longrightarrow> bpf_run d (drop i P) acc = bpf_run d (drop (if acc = k then jt else jf) P) acc"
    and "c = bpf_jset \<Longrightarrow>
      bpf_run d (drop i P) acc = bpf_run d (drop (if acc AND k \<noteq> 0 then jt else jf) P) acc"
proof -
  have P: "sf_code (P ! i) = c" "sf_k (P ! i) = k" "sf_jt (P ! i) = offset i (Some jt)"
    "sf_jf (P ! i) = offset i (Some jf)"
    using link_nth [of e a 0 S P] assms(1-5) by (auto simp: linked_def goes_def)
  have "jt \<le> 256 + i" "jf \<le> 256 + i" using assms by (simp_all add: linked_def)
  note d = drop_offset [OF assms(6) this(1), of P] drop_offset [OF assms(7) this(2), of P]
  show "c = bpf_jeq \<Longrightarrow> bpf_run d (drop i P) acc = bpf_run d (drop (if acc = k then jt else jf) P) acc"
    unfolding linked_drop [OF assms(1,2)] by (simp add: P d [unfolded P] bpf_codes)
  show "c = bpf_jset \<Longrightarrow>
      bpf_run d (drop i P) acc = bpf_run d (drop (if acc AND k \<noteq> 0 then jt else jf) P) acc"
    unfolding linked_drop [OF assms(1,2)] by (simp add: P d [unfolded P] bpf_codes)
qed

lemma run_chain:
  assumes "linked e a S P" "S = X @ chain (length X) L fin @ Y" "L \<noteq> []" "goes e a fin jf"
    "length X + length L \<le> jf" "jf < length S"
    "\<And>k t. (k, t) \<in> set L \<Longrightarrow> goes e a t (g t) \<and> length X + length L \<le> g t \<and> g t < length S"
  shows "bpf_run d (drop (length X) P) acc =
    bpf_run d (drop (case map_of L acc of Some t \<Rightarrow> g t | None \<Rightarrow> jf) P) acc"
  using assms(2-7)
proof (induction L arbitrary: X)
  case (Cons p L)
  obtain k t where p: "p = (k, t)" by fastforce
  let ?f = "if L = [] then fin else TI (Suc (length X))"
  let ?jf = "if L = [] then jf else Suc (length X)"
  have t: "goes e a t (g t)" "length X + length L < g t" "g t < length S"
    using Cons.prems(6) [of k t] by (auto simp: p)
  have i: "length X < length S" "S ! length X = ins bpf_jeq k t ?f"
    using Cons.prems(1) by (simp_all add: p nth_append)
  have f: "goes e a ?f ?jf" "length X < ?jf" "?jf < length S"
    using Cons.prems by (auto simp: goes_def)
  have step: "bpf_run d (drop (length X) P) acc = bpf_run d (drop (if acc = k then g t else ?jf) P) acc"
    by (rule run_jump(1) [OF assms(1) i t(1) f(1)]) (use t f in auto)
  show ?case
  proof (cases "acc = k \<or> L = []")
    case True
    with step show ?thesis by (auto simp: p)
  next
    case False
    have "bpf_run d (drop (length (X @ [ins bpf_jeq k t ?f])) P) acc =
        bpf_run d (drop (case map_of L acc of Some t \<Rightarrow> g t | None \<Rightarrow> jf) P) acc"
    proof (rule Cons.IH)
      show "S = (X @ [ins bpf_jeq k t ?f]) @ chain (length (X @ [ins bpf_jeq k t ?f])) L fin @ Y"
        using Cons.prems(1) by (simp add: p)
    qed (use Cons.prems False in auto)
    with step False show ?thesis by (simp add: p)
  qed
qed simp

section \<open>The program decides as summarised\<close>

lemma set_fold_push_new: "set (fold push_new xs es) = set es \<union> set xs"
  by (induction xs arbitrary: es) (auto simp: push_new_def)

lemma set_fold_filter: "set (fold (\<lambda>s. filter (\<lambda>e. e \<noteq> s)) xs es) = set es - set xs"
  by (induction xs arbitrary: es) auto

lemma set_plain_entries:
  "set (plain_entries nrs deny extra af wx) =
     (set nrs - (if af \<noteq> None then set socket_nrs else {}) - set (wx_nrs wx)) \<union>
     (if deny then set extra else {nr. \<exists>b \<in> set allow_base. syscall_nr b = Some nr})"
  by (simp add: plain_entries_def Let_def set_fold_push_new set_fold_filter wx_nrs_def set_map_filter)

lemma map_of_tabulate: "map_of (map (\<lambda>x. (x, f x)) xs) y = (if y \<in> set xs then Some (f y) else None)"
  by (induction xs) auto

definition gate_decision :: "nat list \<Rightarrow> bool \<Rightarrow> af_gate option \<Rightarrow> bool \<Rightarrow> nat \<Rightarrow> tgt option" where
  "gate_decision nrs deny af wx nr =
     (if nr \<in> set (wx_nrs wx) then Some (if list_denies nrs deny nr then TErrno else TWxArg)
      else if af \<noteq> None \<and> nr \<in> set socket_nrs then
        Some (if list_denies nrs deny nr then TErrno
              else if ag_deny_all (the af) \<or> ag_families (the af) = [] then pick_t (fam_default_errno (the af))
              else TFamarg)
      else None)"

lemma gates_disjoint: "set (wx_nrs wx) \<inter> set socket_nrs = {}"
proof -
  have "set (wx_nrs True) \<inter> set socket_nrs = {}" by code_simp
  then show ?thesis by (cases wx) (auto simp: wx_nrs_def)
qed

lemma map_of_gate_list:
  "map_of (gate_list nrs deny af wx) nr = gate_decision nrs deny af wx nr"
  using gates_disjoint [of wx]
  by (auto simp: gate_list_def wx_gates_def af_gates_def gate_decision_def map_add_def map_of_tabulate Let_def
      split: option.split)

lemma map_of_apsnd: "map_of (map (apsnd f) L) k = map_option f (map_of L k)"
  by (induction L) auto

lemma gate_targets:
  "(k, t) \<in> set (gate_list nrs deny af wx) \<Longrightarrow> t = TErrno \<or> t = TAllow \<or> t = TWxArg \<or> t = TFamarg"
  by (auto simp: gate_list_def wx_gates_def af_gates_def pick_t_def Let_def split: option.splits if_splits)

lemma wx_gates_nonempty: "wx_nrs True \<noteq> []" "socket_nrs \<noteq> []"
  by code_simp+

lemma allow_base_known: "\<exists>b \<in> set allow_base. syscall_nr b = Some 60"
proof -
  have "syscall_nr ''exit'' = Some 60" "''exit'' \<in> set allow_base" by code_simp+
  then show ?thesis by blast
qed

lemma program_nonempty:
  assumes "nrs \<noteq> [] \<or> extra \<noteq> [] \<or> af \<noteq> None \<or> wx"
  shows "gate_list nrs deny af wx \<noteq> [] \<or> plain_entries nrs deny extra af wx \<noteq> []"
proof (cases "af \<noteq> None \<or> wx")
  case True
  then show ?thesis using wx_gates_nonempty
    by (auto simp: gate_list_def wx_gates_def af_gates_def Let_def)
next
  case False
  then have "set (plain_entries nrs deny extra af wx) =
      set nrs \<union> (if deny then set extra else {nr. \<exists>b \<in> set allow_base. syscall_nr b = Some nr})"
    by (simp add: set_plain_entries wx_nrs_def)
  then have "set (plain_entries nrs deny extra af wx) \<noteq> {}"
    using assms False allow_base_known by auto
  then show ?thesis by auto
qed

lemma and_bit_test: "(A AND 6) AND 2 \<noteq> 0 \<longleftrightarrow> bit A 1" "(A AND 6) AND 4 \<noteq> 0 \<longleftrightarrow> bit A 2" for A :: nat
proof -
  have "(A AND 6) AND 2 = A AND 2 ^ 1" "(A AND 6) AND 4 = A AND 2 ^ 2"
    by (simp_all add: and.assoc)
  then show "(A AND 6) AND 2 \<noteq> 0 \<longleftrightarrow> bit A 1" "(A AND 6) AND 4 \<noteq> 0 \<longleftrightarrow> bit A 2"
    by (simp_all only: and_exp_eq_0_iff_not_bit not_not)
qed

lemma and_bit_pos [simp]:
  "0 < (A AND 6) AND 2 \<longleftrightarrow> bit A (Suc 0)" "0 < (A AND 6) AND 4 \<longleftrightarrow> bit A 2"
  "(A AND 6) AND 2 = 0 \<longleftrightarrow> \<not> bit A (Suc 0)" "(A AND 6) AND 4 = 0 \<longleftrightarrow> \<not> bit A 2" for A :: nat
  using and_bit_test [of A, unfolded One_nat_def] by (metis neq0_conv)+

definition side :: "nat \<Rightarrow> bool \<Rightarrow> nat" where
  "side e errno_side = (if errno_side then e else Suc e)"

lemma goes_pick: "goes e (Suc e) (pick_t b) (side e b)"
  by (simp add: goes_def pick_t_def side_def)

lemma side_less: "e + 1 < n \<Longrightarrow> side e b < n" "x \<le> e \<Longrightarrow> x \<le> side e b" "x < e \<Longrightarrow> x < side e b"
  by (auto simp: side_def)

lemma run_fam:
  assumes P: "linked e (Suc e) S P" "S = A @ fam_code (Some g) @ B"
    and g: "ag_families g = [x]" and e: "length A + 2 \<le> e" "e + 1 < length S"
  shows "bpf_run d (drop (length A) P) acc =
    bpf_run d (drop (side e (if sd_arg0 d = x then ag_deny g else fam_default_errno g)) P) (sd_arg0 d)"
proof -
  have i: "length A < length S" "Suc (length A) < length S" using e by auto
  have S: "S ! length A = ins bpf_ld 16 TNone TNone"
    "S ! Suc (length A) = ins bpf_jeq x (pick_t (ag_deny g)) (pick_t (fam_default_errno g))"
    by (simp_all add: P(2) fam_code_def g nth_append)
  have "bpf_run d (drop (length A) P) acc = bpf_run d (drop (Suc (length A)) P) (sd_arg0 d)"
    using run_plain(1) [OF P(1) i(1) S(1)] by (simp add: load_word_def)
  also have "\<dots> = bpf_run d (drop (if sd_arg0 d = x then side e (ag_deny g) else side e (fam_default_errno g)) P) (sd_arg0 d)"
    by (rule run_jump(1) [OF P(1) i(2) S(2) goes_pick goes_pick]) (use e side_less in auto)
  finally show ?thesis by simp
qed

lemma run_wx:
  assumes P: "linked e (Suc e) S P" "S = A @ wx_code (length A) @ B"
    and e: "length A + 4 \<le> e" "e + 1 < length S"
  shows "bpf_run d (drop (length A) P) acc =
    bpf_run d (drop (side e (bit (sd_arg2 d) 1 \<and> bit (sd_arg2 d) 2)) P) (sd_arg2 d AND 6)"
proof -
  let ?n = "length A" and ?v = "sd_arg2 d AND 6"
  have i: "?n < length S" "?n + 1 < length S" "?n + 2 < length S" "?n + 3 < length S" using e by auto
  have S: "S ! ?n = ins bpf_ld 32 TNone TNone" "S ! (?n + 1) = ins bpf_and 6 TNone TNone"
    "S ! (?n + 2) = ins bpf_jset 2 (TI (?n + 3)) (pick_t False)"
    "S ! (?n + 3) = ins bpf_jset 4 (pick_t True) (pick_t False)"
    by (simp_all add: P(2) wx_code_def nth_append pick_t_def)
  have "bpf_run d (drop ?n P) acc = bpf_run d (drop (?n + 1) P) (sd_arg2 d)"
    using run_plain(1) [OF P(1) i(1) S(1)] by (simp add: load_word_def)
  also have "\<dots> = bpf_run d (drop (?n + 2) P) ?v"
    using run_plain(2) [OF P(1) i(2) S(2)] by simp
  also have "\<dots> = bpf_run d (drop (if ?v AND 2 \<noteq> 0 then ?n + 3 else side e False) P) ?v"
    by (rule run_jump(2) [OF P(1) i(3) S(3) _ goes_pick]) (use e side_less i in \<open>auto simp: goes_def\<close>)
  also have "\<dots> = bpf_run d (drop (side e (bit (sd_arg2 d) 1 \<and> bit (sd_arg2 d) 2)) P) ?v"
  proof (cases "?v AND 2 \<noteq> 0")
    case True
    have "bpf_run d (drop (?n + 3) P) ?v =
        bpf_run d (drop (if ?v AND 4 \<noteq> 0 then side e True else side e False) P) ?v"
      by (rule run_jump(2) [OF P(1) i(4) S(4) goes_pick goes_pick]) (use e side_less in auto)
    with True show ?thesis by simp
  next
    case False
    then show ?thesis by simp
  qed
  finally show ?thesis .
qed

lemma run_entries:
  assumes P: "linked e (Suc e) S P" "S = A @ chain (length A) (map (\<lambda>x. (x, pick_t b)) E) (pick_t c) @ B"
    and e: "E \<noteq> []" "length A + length E \<le> e" "e + 1 < length S"
  shows "bpf_run d (drop (length A) P) acc = bpf_run d (drop (side e (if acc \<in> set E then b else c)) P) acc"
proof -
  have "bpf_run d (drop (length A) P) acc = bpf_run d (drop (case map_of (map (\<lambda>x. (x, pick_t b)) E) acc of
      Some t \<Rightarrow> side e b | None \<Rightarrow> side e c) P) acc"
    by (rule run_chain [OF P _ goes_pick, where g = "\<lambda>_. side e b"])
      (use e side_less in \<open>auto intro: goes_pick\<close>)
  then show ?thesis by (simp add: map_of_tabulate if_distrib cong: if_cong)
qed

lemma run_head:
  assumes P: "linked e (Suc e) S P" "S = head_code @ B" and e: "3 \<le> e" "e + 1 < length S"
  shows "bpf_run d P 0 =
    (if sd_arch d = audit_arch_x86_64 then bpf_run d (drop 3 P) (sd_nr d) else bpf_run d (drop e P) (sd_arch d))"
proof -
  have i: "0 < length S" "1 < length S" "2 < length S" using e by auto
  have S: "S ! 0 = ins bpf_ld 4 TNone TNone" "S ! 1 = ins bpf_jeq audit_arch_x86_64 (TI 2) TErrno"
    "S ! 2 = ins bpf_ld 0 TNone TNone"
    by (simp_all add: P(2) head_code_def)
  have "bpf_run d (drop 0 P) 0 = bpf_run d (drop 1 P) (sd_arch d)"
    using run_plain(1) [OF P(1) i(1) S(1), of d 0] by (simp add: load_word_def)
  moreover have "bpf_run d (drop 1 P) (sd_arch d) =
      bpf_run d (drop (if sd_arch d = audit_arch_x86_64 then 2 else e) P) (sd_arch d)"
    by (rule run_jump(1) [OF P(1) i(2) S(2)]) (use e in \<open>auto simp: goes_def\<close>)
  moreover have "bpf_run d (drop 2 P) acc = bpf_run d (drop 3 P) (sd_nr d)" for acc
    using run_plain(1) [OF P(1) i(3) S(3), of d acc] by (simp add: load_word_def)
  ultimately show ?thesis by simp
qed

text \<open>Where the chain of the gates leads.\<close>

definition leads :: "nat \<Rightarrow> nat \<Rightarrow> nat \<Rightarrow> tgt \<Rightarrow> nat" where
  "leads e f w t = (case t of TErrno \<Rightarrow> e | TAllow \<Rightarrow> Suc e | TFamarg \<Rightarrow> f | TWxArg \<Rightarrow> w | _ \<Rightarrow> 0)"

lemma run_gates:
  assumes P: "linked e (Suc e) S P" "S = A @ chain (length A) (map (apsnd (route f w)) G) fin @ B"
    and G: "G = gate_list nrs deny af wx"
    and e: "e + 1 < length S" "length A + length G \<le> e"
      "needs TFamarg G \<Longrightarrow> length A + length G \<le> f \<and> f < e"
      "needs TWxArg G \<Longrightarrow> length A + length G \<le> w \<and> w < e"
    and fin: "goes e (Suc e) fin jf" "length A + length G \<le> jf" "jf < length S"
  shows "bpf_run d (drop (length A) P) acc =
    bpf_run d (drop (if G = [] then length A else
      case gate_decision nrs deny af wx acc of Some t \<Rightarrow> leads e f w t | None \<Rightarrow> jf) P) acc"
proof (cases "G = []")
  case False
  define g where "g t = (case t of TI j \<Rightarrow> j | TErrno \<Rightarrow> e | _ \<Rightarrow> Suc e)" for t
  have route: "goes e (Suc e) (route f w t) (g (route f w t)) \<and> g (route f w t) = leads e f w t \<and>
      length A + length G \<le> leads e f w t \<and> leads e f w t < length S" if "(k, t) \<in> set G" for k t
  proof -
    have "needs t G" using that by (force simp: needs_def)
    with gate_targets [of k t nrs deny af wx] that e show ?thesis
      by (auto simp: G goes_def g_def leads_def route_def subst_t_def)
  qed
  have "bpf_run d (drop (length A) P) acc = bpf_run d (drop
      (case map_of (map (apsnd (route f w)) G) acc of Some t \<Rightarrow> g t | None \<Rightarrow> jf) P) acc"
  proof (rule run_chain [OF P])
    fix k t assume "(k, t) \<in> set (map (apsnd (route f w)) G)"
    then obtain t0 where "t = route f w t0" "(k, t0) \<in> set G" by auto
    with route [of k t0] show "goes e (Suc e) t (g t) \<and>
        length A + length (map (apsnd (route f w)) G) \<le> g t \<and> g t < length S" by auto
  qed (use False fin in auto)
  also have "(case map_of (map (apsnd (route f w)) G) acc of Some t \<Rightarrow> g t | None \<Rightarrow> jf) =
      (case gate_decision nrs deny af wx acc of Some t \<Rightarrow> leads e f w t | None \<Rightarrow> jf)"
  proof (cases "gate_decision nrs deny af wx acc")
    case (Some t)
    then have "map_of G acc = Some t" by (simp add: G map_of_gate_list)
    with route [OF map_of_SomeD] Some show ?thesis by (simp add: G map_of_apsnd map_of_gate_list)
  qed (simp add: G map_of_apsnd map_of_gate_list)
  finally show ?thesis using False by simp
qed simp

text \<open>The verdict after the gates, for a native call.\<close>

lemma decision_policy:
  assumes "sd_arch d = audit_arch_x86_64" "nr = sd_nr d"
  shows "filter_admits nrs deny extra af wx d \<longleftrightarrow>
    (case gate_decision nrs deny af wx nr of
       Some TErrno \<Rightarrow> False
     | Some TAllow \<Rightarrow> True
     | Some TFamarg \<Rightarrow> family_allowed (the af) (sd_arg0 d)
     | Some TWxArg \<Rightarrow> \<not> (bit (sd_arg2 d) 1 \<and> bit (sd_arg2 d) 2)
     | _ \<Rightarrow> (if nr \<in> set (plain_entries nrs deny extra af wx) then \<not> deny else deny))"
  using assms
  by (auto simp: filter_admits_def gate_decision_def set_plain_entries pick_t_def fam_default_errno_def
      family_allowed_def)

definition layout_end :: "(nat \<times> tgt) list \<Rightarrow> nat list \<Rightarrow> bool \<Rightarrow> af_gate option \<Rightarrow> nat" where
  "layout_end G E deny af = length (laid_out G E deny af)"

lemma native_verdict:
  fixes nrs deny extra af wx
  defines "G \<equiv> gate_list nrs deny af wx" and "E \<equiv> plain_entries nrs deny extra af wx"
  defines "e \<equiv> layout_end G E deny af"
  assumes P: "linked e (Suc e) S P" "S = laid_out G E deny af @ R" "length R = 2"
    and ne: "nrs \<noteq> [] \<or> extra \<noteq> [] \<or> af \<noteq> None \<or> wx"
    and fam: "\<And>g. af = Some g \<Longrightarrow> length (ag_families g) \<le> 1"
    and arch: "sd_arch d = audit_arch_x86_64"
  shows "\<exists>acc. bpf_run d (drop 3 P) (sd_nr d) =
    bpf_run d (drop (side e (\<not> filter_admits nrs deny extra af wx d)) P) acc"
proof -
  let ?nr = "sd_nr d"
  define n m where "n = length G" and "m = length E"
  define f where "f = 3 + n + m"
  define F where "F = (if needs TFamarg G then fam_code af else [])"
  define w where "w = f + length F"
  define W where "W = (if needs TWxArg G then wx_code w else [])"
  define dt where "dt = pick_t (\<not> deny)"
  define pt where "pt = (if E = [] then dt else TI (3 + n))"
  define GC EC where "GC = chain 3 (map (apsnd (route f w)) G) pt"
    and "EC = chain (3 + n) (map (\<lambda>x. (x, pick_t deny)) E) dt"
  have lay: "laid_out G E deny af = head_code @ GC @ EC @ F @ W"
    unfolding laid_out_def Let_def GC_def EC_def F_def W_def w_def f_def n_def m_def pt_def dt_def ..
  have lens: "length head_code = 3" "length GC = n" "length EC = m"
    by (simp_all add: head_code_def GC_def EC_def n_def m_def)
  have S: "S = head_code @ GC @ EC @ F @ W @ R" using P(2) by (simp add: lay)
  have e: "e = w + length W" by (simp add: e_def layout_end_def lay lens w_def f_def)
  have lenS: "length S = e + 2" using P(2,3) by (simp add: e_def layout_end_def)
  have gates: "needs TFamarg G \<Longrightarrow> \<exists>g x. af = Some g \<and> ag_families g = [x] \<and> \<not> ag_deny_all g"
  proof -
    assume "needs TFamarg G"
    then obtain g where g: "af = Some g" "ag_families g \<noteq> []" "\<not> ag_deny_all g"
      by (auto simp: needs_def G_def gate_list_def wx_gates_def af_gates_def pick_t_def Let_def
          split: option.splits if_splits)
    with fam [OF g(1)] obtain x where "ag_families g = [x]" by (cases "ag_families g") auto
    with g show ?thesis by blast
  qed
  have Flen: "needs TFamarg G \<Longrightarrow> length F = 2" using gates by (auto simp: F_def fam_code_def)
  have Wlen: "needs TWxArg G \<Longrightarrow> length W = 4" by (simp add: W_def wx_code_def)
  define jp where "jp = (if E = [] then side e (\<not> deny) else 3 + n)"
  have jp: "goes e (Suc e) pt jp" "3 + n \<le> jp" "jp < length S"
    using goes_pick [of e "\<not> deny"] side_less lenS e
    by (auto simp: pt_def jp_def dt_def goes_def f_def w_def m_def)
  have run_plain_part: "bpf_run d (drop jp P) ?nr =
      bpf_run d (drop (side e (if ?nr \<in> set E then deny else \<not> deny)) P) ?nr"
  proof (cases "E = []")
    case False
    have A: "length (head_code @ GC) = 3 + n" by (simp add: lens)
    have "S = (head_code @ GC) @ chain (length (head_code @ GC)) (map (\<lambda>x. (x, pick_t deny)) E) (pick_t (\<not> deny)) @ F @ W @ R"
      unfolding A using S by (simp add: EC_def dt_def)
    from run_entries [OF P(1) this False, of d ?nr] show ?thesis
      using False e lenS unfolding A by (simp add: jp_def w_def f_def m_def)
  qed (simp add: jp_def)
  have run_fam_part: "bpf_run d (drop f P) ?nr =
      bpf_run d (drop (side e (\<not> family_allowed (the af) (sd_arg0 d))) P) (sd_arg0 d)" if need: "needs TFamarg G"
  proof -
    from gates [OF need] obtain g x where g: "af = Some g" "ag_families g = [x]" "\<not> ag_deny_all g" by blast
    have A: "length (head_code @ GC @ EC) = f" by (simp add: lens f_def)
    have "S = (head_code @ GC @ EC) @ fam_code (Some g) @ W @ R" using S need g by (simp add: F_def)
    from run_fam [OF P(1) this g(2), of d ?nr] show ?thesis
      using e lenS Flen [OF need] g unfolding A
      by (simp add: w_def family_allowed_def fam_default_errno_def)
  qed
  have run_wx_part: "bpf_run d (drop w P) ?nr =
      bpf_run d (drop (side e (bit (sd_arg2 d) 1 \<and> bit (sd_arg2 d) 2)) P) (sd_arg2 d AND 6)" if need: "needs TWxArg G"
  proof -
    have A: "length (head_code @ GC @ EC @ F) = w" by (simp add: lens f_def w_def)
    have "S = (head_code @ GC @ EC @ F) @ wx_code (length (head_code @ GC @ EC @ F)) @ R"
      unfolding A using S need by (simp add: W_def)
    from run_wx [OF P(1) this, of d ?nr] show ?thesis
      using e lenS Wlen [OF need] unfolding A by simp
  qed
  have start: "bpf_run d (drop 3 P) ?nr = bpf_run d (drop (case gate_decision nrs deny af wx ?nr of
      Some t \<Rightarrow> leads e f w t | None \<Rightarrow> jp) P) ?nr"
  proof -
    have A: "length head_code = 3" by (simp add: lens)
    have "S = head_code @ chain (length head_code) (map (apsnd (route f w)) G) pt @ EC @ F @ W @ R"
      unfolding A using S by (simp add: GC_def)
    from run_gates [OF P(1) this G_def [THEN meta_eq_to_obj_eq], of jp d ?nr]
    have "bpf_run d (drop 3 P) ?nr = bpf_run d (drop (if G = [] then 3 else
        case gate_decision nrs deny af wx ?nr of Some t \<Rightarrow> leads e f w t | None \<Rightarrow> jp) P) ?nr"
      using e lenS jp Flen Wlen unfolding A by (simp add: f_def w_def n_def)
    moreover have "gate_decision nrs deny af wx ?nr = None \<and> jp = 3" if "G = []"
    proof -
      have "E \<noteq> []" using program_nonempty [OF ne, of deny] that by (simp add: G_def E_def)
      then show ?thesis
        using map_of_gate_list [of nrs deny af wx ?nr] that by (simp add: G_def jp_def n_def)
    qed
    ultimately show ?thesis by (cases "G = []") simp_all
  qed
  have pol: "filter_admits nrs deny extra af wx d \<longleftrightarrow> (case gate_decision nrs deny af wx ?nr of
       Some TErrno \<Rightarrow> False | Some TAllow \<Rightarrow> True
     | Some TFamarg \<Rightarrow> family_allowed (the af) (sd_arg0 d)
     | Some TWxArg \<Rightarrow> \<not> (bit (sd_arg2 d) 1 \<and> bit (sd_arg2 d) 2)
     | _ \<Rightarrow> (if ?nr \<in> set E then \<not> deny else deny))"
    unfolding E_def by (rule decision_policy [OF arch refl])
  show ?thesis
  proof (cases "gate_decision nrs deny af wx ?nr")
    case None
    with start run_plain_part pol show ?thesis by (auto split: if_splits)
  next
    case (Some t)
    then have "map_of G ?nr = Some t" by (simp add: G_def map_of_gate_list)
    then have inG: "(?nr, t) \<in> set G" by (rule map_of_SomeD)
    then have need: "needs t G" by (force simp: needs_def)
    from gate_targets inG consider "t = TErrno" | "t = TAllow" | "t = TWxArg" | "t = TFamarg"
      unfolding G_def by blast
    then show ?thesis
      by cases (use start Some pol need run_wx_part run_fam_part in \<open>auto simp: leads_def side_def\<close>)
  qed
qed

lemma chain_targets:
  "x \<in> set (chain b L fin) \<Longrightarrow> in_jt x \<in> snd ` set L \<and> (in_jf x = fin \<or> (\<exists>j. in_jf x = TI j))"
  by (induction b L fin rule: chain.induct) (auto split: if_splits)

definition settled :: "instr \<Rightarrow> bool" where
  "settled x \<longleftrightarrow> in_jt x \<notin> {TFamarg, TWxArg, TPlain} \<and> in_jf x \<notin> {TFamarg, TWxArg, TPlain}"

lemma settled_resolves: "settled x \<Longrightarrow> resolve_t e a (in_jt x) \<noteq> None \<and> resolve_t e a (in_jf x) \<noteq> None"
  by (cases "in_jt x"; cases "in_jf x") (auto simp: settled_def)

definition loose :: "tgt set" where
  "loose = {TFamarg, TWxArg, TPlain}"

lemma chain_settled:
  assumes "snd ` set L \<inter> loose = {}" "fin \<notin> loose" "x \<in> set (chain b L fin)"
  shows "settled x"
proof -
  have "in_jt x \<notin> loose" using chain_targets [OF assms(3)] assms(1) by blast
  moreover have "in_jf x \<notin> loose" using chain_targets [OF assms(3)] assms(2) by (auto simp: loose_def)
  ultimately show ?thesis by (simp add: settled_def loose_def)
qed

lemma assemble_settled: "x \<in> set (assemble nrs deny extra af wx) \<Longrightarrow> settled x"
proof -
  have pick: "pick_t b \<notin> loose" for b by (simp add: pick_t_def loose_def)
  have ti: "TI j \<notin> loose" for j by (simp add: loose_def)
  have gates: "snd ` set (map (apsnd (route f w)) (gate_list nrs deny af wx)) \<inter> loose = {}" for f w
    by (auto simp: route_def subst_t_def loose_def dest!: gate_targets)
  have entries: "snd ` set (map (\<lambda>x. (x, pick_t deny)) E) \<inter> loose = {}" for E :: "nat list"
    by (auto simp: loose_def pick_t_def split: if_splits)
  have head: "x \<in> set head_code \<Longrightarrow> settled x" by (auto simp: head_code_def settled_def)
  have fam: "x \<in> set (fam_code af) \<Longrightarrow> settled x"
    by (auto simp: fam_code_def settled_def pick_t_def split: option.splits if_splits)
  have wxc: "x \<in> set (wx_code n) \<Longrightarrow> settled x" for n by (auto simp: wx_code_def settled_def)
  assume "x \<in> set (assemble nrs deny extra af wx)"
  then show ?thesis
    unfolding assemble_laid_out laid_out_def Let_def
    by (auto split: if_splits dest: head fam wxc chain_settled [OF gates ti] chain_settled [OF gates pick]
        chain_settled [OF entries pick])
qed

section \<open>Properties\<close>

lemma build_decides:
  assumes "nrs \<noteq> [] \<or> extra \<noteq> [] \<or> af \<noteq> None \<or> wx"
    and "\<And>g. af = Some g \<Longrightarrow> length (ag_families g) \<le> 1"
  shows "\<exists>P. build_seccomp nrs deny errno extra af wx = Some P \<and>
    (length P \<le> 256 \<longrightarrow>
       (\<forall>d. bpf_run d P 0 = Some (verdict errno (filter_admits nrs deny extra af wx d))))"
proof -
  define G E where "G = gate_list nrs deny af wx" and "E = plain_entries nrs deny extra af wx"
  define L where "L = laid_out G E deny af"
  define e where "e = layout_end G E deny af"
  define R where "R = [ins bpf_ret (errno_ret errno) TNone TNone, ins bpf_ret allow_ret TNone TNone]"
  have asm: "assemble nrs deny extra af wx = L" by (simp add: assemble_laid_out L_def G_def E_def)
  have "\<exists>P. link e (Suc e) 0 (L @ R) = Some P"
  proof (rule link_exists, rule ballI)
    fix x assume "x \<in> set (L @ R)"
    then have "settled x" using assemble_settled [of x nrs deny extra af wx] by (auto simp: asm R_def settled_def)
    then show "resolve_t e (Suc e) (in_jt x) \<noteq> None \<and> resolve_t e (Suc e) (in_jf x) \<noteq> None"
      by (rule settled_resolves)
  qed
  then obtain P where P: "link e (Suc e) 0 (L @ R) = Some P" by blast
  have eL: "e = length L" by (simp add: e_def layout_end_def L_def)
  have b: "build_seccomp nrs deny errno extra af wx = Some P"
    using P by (simp add: build_seccomp_def asm R_def eL)
  have "bpf_run d P 0 = Some (verdict errno (filter_admits nrs deny extra af wx d))" if len: "length P \<le> 256" for d
  proof -
    have lnk: "linked e (Suc e) (L @ R) P" using P link_nth [OF P] len by (simp add: linked_def)
    have "(L @ R) ! e = ins bpf_ret (errno_ret errno) TNone TNone" "(L @ R) ! Suc e = ins bpf_ret allow_ret TNone TNone"
      by (simp_all add: eL R_def nth_append)
    then have ret: "bpf_run d (drop (side e (\<not> ok)) P) acc = Some (verdict errno ok)" for ok acc
      using run_plain(3) [OF lnk, of e bpf_ret "errno_ret errno"] run_plain(3) [OF lnk, of "Suc e" bpf_ret allow_ret]
      by (simp add: side_def verdict_def eL R_def)
    have "\<exists>B. L @ R = head_code @ B" by (auto simp: L_def laid_out_def Let_def)
    then obtain B where B: "L @ R = head_code @ B" by blast
    have e3: "3 \<le> e" by (simp add: eL L_def laid_out_def Let_def head_code_def)
    note head = run_head [OF lnk B e3, of d]
    show ?thesis
    proof (cases "sd_arch d = audit_arch_x86_64")
      case True
      obtain acc where "bpf_run d (drop 3 P) (sd_nr d) =
          bpf_run d (drop (side e (\<not> filter_admits nrs deny extra af wx d)) P) acc"
        using native_verdict [OF lnk [unfolded e_def G_def E_def] _ _ assms True, of R]
        unfolding e_def G_def E_def L_def by (auto simp: R_def)
      with head ret True show ?thesis by (simp add: eL R_def)
    next
      case False
      then have "\<not> filter_admits nrs deny extra af wx d" by (simp add: filter_admits_def)
      with head ret [of False "sd_arch d"] False show ?thesis by (simp add: eL R_def side_def)
    qed
  qed
  with b show ?thesis by blast
qed

subsection \<open>What the directives promise\<close>

text \<open>Written from the documentation, with the numbers of the calls: independent restrictions, all of
  which a call has to pass. A foreign architecture is refused. A deny-list refuses what it lists; an
  allow-list admits what it lists and the base a process needs to run. A hard denial refuses a call
  independent of the list's mode. \<^verbatim>\<open>RestrictAddressFamilies=\<close> refuses \<^verbatim>\<open>socket\<close> (41) and
  \<^verbatim>\<open>socketpair\<close> (53) for a family not permitted; \<^verbatim>\<open>MemoryDenyWriteExecute=\<close> refuses
  \<^verbatim>\<open>mmap\<close> (9), \<^verbatim>\<open>mprotect\<close> (10) and \<^verbatim>\<open>pkey_mprotect\<close> (329) with both PROT_WRITE and
  PROT_EXEC.\<close>

definition base_call :: "nat \<Rightarrow> bool" where
  "base_call nr \<longleftrightarrow> (\<exists>b \<in> set allow_base. syscall_nr b = Some nr)"

definition family_permitted :: "af_gate \<Rightarrow> nat \<Rightarrow> bool" where
  "family_permitted g f \<longleftrightarrow> (ag_deny g \<longleftrightarrow> \<not> (ag_deny_all g \<or> f \<in> set (ag_families g)))"

definition intended :: "nat list \<Rightarrow> bool \<Rightarrow> nat list \<Rightarrow> af_gate option \<Rightarrow> bool \<Rightarrow> seccomp_data \<Rightarrow> bool" where
  "intended nrs deny extra af wx d \<longleftrightarrow>
     sd_arch d = 0xC000003E
     \<and> (if deny then sd_nr d \<notin> set nrs else sd_nr d \<in> set nrs \<or> base_call (sd_nr d))
     \<and> sd_nr d \<notin> set extra
     \<and> (sd_nr d \<in> {41, 53} \<longrightarrow> (\<forall>g. af = Some g \<longrightarrow> family_permitted g (sd_arg0 d)))
     \<and> (wx \<and> sd_nr d \<in> {9, 10, 329} \<longrightarrow> \<not> (bit (sd_arg2 d) 1 \<and> bit (sd_arg2 d) 2))"

text \<open>The two departures, both of allow-lists: a hard denial of a call that the list or the base admits
  is overlooked; and a call of the base that has a gate of its own (with
  \<^verbatim>\<open>MemoryDenyWriteExecute=\<close> this is \<^verbatim>\<open>mmap\<close> and \<^verbatim>\<open>mprotect\<close>) is refused, whatever its
  arguments, unless the list itself names it.\<close>

definition denial_overlooked :: "nat list \<Rightarrow> bool \<Rightarrow> nat list \<Rightarrow> seccomp_data \<Rightarrow> bool" where
  "denial_overlooked nrs deny extra d \<longleftrightarrow>
     \<not> deny \<and> sd_nr d \<in> set extra \<and> (sd_nr d \<in> set nrs \<or> base_call (sd_nr d))"

definition base_call_refused :: "nat list \<Rightarrow> bool \<Rightarrow> af_gate option \<Rightarrow> bool \<Rightarrow> seccomp_data \<Rightarrow> bool" where
  "base_call_refused nrs deny af wx d \<longleftrightarrow>
     \<not> deny \<and> base_call (sd_nr d) \<and> sd_nr d \<notin> set nrs \<and>
     (wx \<and> sd_nr d \<in> {9, 10, 329} \<or> af \<noteq> None \<and> sd_nr d \<in> {41, 53})"

lemma gated_nrs: "socket_nrs = [41, 53]" "wx_nrs True = [9, 10, 329]" "wx_nrs False = []"
  by code_simp+

lemma family_allowed_permitted: "family_allowed g f \<longleftrightarrow> family_permitted g f"
  by (auto simp: family_allowed_def family_permitted_def)

lemma filter_admits_intended:
  assumes "set extra \<inter> {9, 10, 41, 53, 329} = {}"
  shows "\<not> denial_overlooked nrs deny extra d \<Longrightarrow> \<not> base_call_refused nrs deny af wx d \<Longrightarrow>
      filter_admits nrs deny extra af wx d \<longleftrightarrow> intended nrs deny extra af wx d"
    and "base_call_refused nrs deny af wx d \<Longrightarrow> \<not> filter_admits nrs deny extra af wx d"
    and "denial_overlooked nrs deny extra d \<Longrightarrow>
      filter_admits nrs deny extra af wx d \<longleftrightarrow> intended nrs deny [] af wx d"
proof -
  have n: "x \<notin> set extra" if "x \<in> {9, 10, 41, 53, 329}" for x using assms that by blast
  note defs = filter_admits_def intended_def denial_overlooked_def base_call_refused_def gated_nrs
    list_denies_def audit_arch_x86_64_def base_call_def [symmetric] family_allowed_permitted
  show "\<not> denial_overlooked nrs deny extra d \<Longrightarrow> \<not> base_call_refused nrs deny af wx d \<Longrightarrow>
      filter_admits nrs deny extra af wx d \<longleftrightarrow> intended nrs deny extra af wx d"
    using n [of "sd_nr d"] by (cases wx; cases af; cases deny) (auto simp: defs)
  show "base_call_refused nrs deny af wx d \<Longrightarrow> \<not> filter_admits nrs deny extra af wx d"
    by (auto simp: defs)
  show "denial_overlooked nrs deny extra d \<Longrightarrow>
      filter_admits nrs deny extra af wx d \<longleftrightarrow> intended nrs deny [] af wx d"
    using n [of "sd_nr d"] by (cases wx; cases af) (auto simp: defs)
qed

definition decides_as_intended ::
  "nat list \<Rightarrow> bool \<Rightarrow> nat \<Rightarrow> nat list \<Rightarrow> af_gate option \<Rightarrow> bool \<Rightarrow> sock_filter list \<Rightarrow> seccomp_data \<Rightarrow> bool"
where
  "decides_as_intended nrs deny errno extra af wx P d \<longleftrightarrow>
     bpf_run d P 0 = Some (verdict errno
       (if base_call_refused nrs deny af wx d then False
        else if denial_overlooked nrs deny extra d then intended nrs deny [] af wx d
        else intended nrs deny extra af wx d))"

lemma build_as_intended:
  assumes "nrs \<noteq> [] \<or> extra \<noteq> [] \<or> af \<noteq> None \<or> wx"
    and "\<And>g. af = Some g \<Longrightarrow> length (ag_families g) \<le> 1"
    and "set extra \<inter> {9, 10, 41, 53, 329} = {}"
  shows "\<exists>P. build_seccomp nrs deny errno extra af wx = Some P \<and>
    (length P \<le> 256 \<longrightarrow> (\<forall>d. decides_as_intended nrs deny errno extra af wx P d))"
  using build_decides [OF assms(1,2), of deny errno] filter_admits_intended [OF assms(3), of nrs deny]
  by (auto simp: decides_as_intended_def)

text \<open>C13. The seccomp filter can always be assembled, and when it has at most 256 instructions (so that
  no jump offset is cut to 8 bits), at most one address family is listed and no hard denial is of a
  mapping or socket call, then for every call of every architecture it returns the allow value
  exactly when the directives, as documented, admit the call (\<open>intended\<close>), and the errno value
  otherwise, with two exceptions, both of allow-lists, where the code departs from its comments: a
  hard denial of a call that the list or the base admits is overlooked (the call is decided as if it
  were not hard-denied), and a base call with a gate (\<^verbatim>\<open>mmap\<close> and \<^verbatim>\<open>mprotect\<close> with the
  write-and-execute gate) is refused unless the list names it.\<close>

theorem seccomp_decides_policy:
  assumes "nrs \<noteq> [] \<or> extra \<noteq> [] \<or> af \<noteq> None \<or> wx"
    and "\<And>g. af = Some g \<Longrightarrow> length (ag_families g) \<le> 1"
    and "set extra \<inter> {9, 10, 41, 53, 329} = {}"
  shows "\<exists>P. build_seccomp nrs deny errno extra af wx = Some P \<and>
    (length P \<le> 256 \<longrightarrow> (\<forall>d. bpf_run d P 0 = Some (verdict errno
       (if base_call_refused nrs deny af wx d then False
        else if denial_overlooked nrs deny extra d then intended nrs deny [] af wx d
        else intended nrs deny extra af wx d))))"
  using build_as_intended [OF assms, of deny errno] by (simp only: decides_as_intended_def)

theorem seccomp_decides_policy_witness:
  "\<exists>P. build_seccomp [0, 41] False 0 [0, 144] (Some \<lparr>ag_deny = False, ag_families = [1], ag_deny_all = False\<rparr>) True = Some P \<and>
     (length P \<le> 256 \<longrightarrow> (\<forall>d. bpf_run d P 0 = Some (verdict 0
       (if base_call_refused [0, 41] False (Some \<lparr>ag_deny = False, ag_families = [1], ag_deny_all = False\<rparr>) True d then False
        else if denial_overlooked [0, 41] False [0, 144] d
             then intended [0, 41] False [] (Some \<lparr>ag_deny = False, ag_families = [1], ag_deny_all = False\<rparr>) True d
        else intended [0, 41] False [0, 144] (Some \<lparr>ag_deny = False, ag_families = [1], ag_deny_all = False\<rparr>) True d))))"
  by (rule seccomp_decides_policy) simp_all

text \<open>Both departures: an allow-list that names a hard-denied call admits it (as
  \<^verbatim>\<open>sched_setscheduler\<close> in spite of \<^verbatim>\<open>RestrictRealtime=\<close>), and with the write-and-execute
  gate an allow-list refuses an \<^verbatim>\<open>mmap\<close> or \<^verbatim>\<open>mprotect\<close> it does not name, even a read-only one.\<close>

lemma allow_list_overlooks_denial:
  assumes "build_seccomp nrs False errno extra None False = Some P" "length P \<le> 256"
    and "nr \<in> set nrs" "nr \<in> set extra" "set extra \<inter> {9, 10, 41, 53, 329} = {}"
  shows "bpf_run \<lparr>sd_nr = nr, sd_arch = 0xC000003E, sd_arg0 = a, sd_arg2 = b\<rparr> P 0 = Some allow_ret"
proof -
  have "nrs \<noteq> []" using assms(3) by auto
  with build_as_intended [of nrs extra None False False errno] assms show ?thesis
    by (auto simp: decides_as_intended_def base_call_refused_def denial_overlooked_def intended_def verdict_def)
qed

lemma gate_refuses_base_call:
  assumes "build_seccomp nrs False errno [] None True = Some P" "length P \<le> 256"
    and "nr \<in> {9, 10}" "nr \<notin> set nrs"
  shows "base_call nr \<and>
    bpf_run \<lparr>sd_nr = nr, sd_arch = 0xC000003E, sd_arg0 = a, sd_arg2 = 1\<rparr> P 0 = Some (errno_ret errno)"
proof -
  have "syscall_nr ''mmap'' = Some 9" "syscall_nr ''mprotect'' = Some 10" by code_simp+
  moreover have "''mmap'' \<in> set allow_base" "''mprotect'' \<in> set allow_base" by (simp_all add: allow_base_def)
  ultimately have "base_call nr" using assms(3) unfolding base_call_def by blast
  with build_as_intended [of nrs "[]" None True False errno] assms show ?thesis
    by (auto simp: decides_as_intended_def base_call_refused_def verdict_def)
qed

text \<open>With two families only the first is compared: its miss already returns the default. And with
  more than about 250 numbers the offset to the return is cut to 8 bits: a denied call passes.\<close>

lemma second_family_refused:
  "map_option (\<lambda>P. map (\<lambda>f. bpf_run \<lparr>sd_nr = 41, sd_arch = audit_arch_x86_64, sd_arg0 = f, sd_arg2 = 0\<rparr> P 0) [1, 2])
     (build_seccomp [] True 0 [] (Some \<lparr>ag_deny = False, ag_families = [1, 2], ag_deny_all = False\<rparr>) False) =
   Some [Some allow_ret, Some (errno_ret 1)]"
  by code_simp

lemma build_laid_out:
  "build_seccomp nrs deny errno extra af wx =
     (let prog = laid_out (gate_list nrs deny af wx) (plain_entries nrs deny extra af wx) deny af; n = length prog
      in link n (Suc n) 0 (prog @ [ins bpf_ret (errno_ret errno) TNone TNone, ins bpf_ret allow_ret TNone TNone]))"
  by (simp add: build_seccomp_def assemble_laid_out Let_def)

lemma chain_nth:
  "j < length L \<Longrightarrow> chain b L fin ! j =
     ins bpf_jeq (fst (L ! j)) (snd (L ! j)) (if Suc j = length L then fin else TI (b + Suc j))"
  by (induction b L fin arbitrary: j rule: chain.induct) (auto simp: nth_Cons split: nat.split)

lemma run_misses:
  assumes P: "link e (Suc e) 0 (head_code @ chain 3 L TAllow @ R) = Some P" "e = 3 + length L" "length R = 2"
    and miss: "\<And>j. i \<le> j \<Longrightarrow> j < length L \<Longrightarrow> fst (L ! j) \<noteq> acc" and i: "i < length L"
    and t: "snd ` set L \<subseteq> {TErrno}"
  shows "bpf_run d (drop (3 + i) P) acc = bpf_run d (drop (Suc e) P) acc"
  using i miss
proof (induction "length L - i" arbitrary: i)
  case (Suc n)
  let ?S = "head_code @ chain 3 L TAllow @ R"
  have len: "length P = 5 + length L" using link_nth [OF P(1)] P(3) by (simp add: head_code_def)
  have "?S ! (3 + i) = ins bpf_jeq (fst (L ! i)) (snd (L ! i)) (if Suc i = length L then TAllow else TI (3 + Suc i))"
    using Suc.prems(1) chain_nth [of i L 3 TAllow] by (simp add: nth_append head_code_def)
  moreover have "snd (L ! i) = TErrno" using t Suc.prems(1) nth_mem by fastforce
  moreover have "3 + i < length ?S" using Suc.prems(1) P(3) by (simp add: head_code_def)
  note link_nth [OF P(1), THEN conjunct2, rule_format, OF this, unfolded add_0]
  ultimately have k: "sf_code (P ! (3 + i)) = bpf_jeq \<and> sf_k (P ! (3 + i)) = fst (L ! i) \<and>
      sf_jf (P ! (3 + i)) = offset (3 + i) (Some (if Suc i = length L then Suc e else 3 + Suc i))"
    by (cases "Suc i = length L") simp_all
  have "drop (3 + i) P = P ! (3 + i) # drop (Suc (3 + i)) P"
    using Suc.prems(1) len Cons_nth_drop_Suc [of "3 + i" P] by simp
  then have "bpf_run d (drop (3 + i) P) acc =
      bpf_run d (drop (if Suc i = length L then Suc e else 3 + Suc i) P) acc"
    using k Suc.prems(2) [OF order_refl Suc.prems(1)] P(2) by (auto simp: bpf_codes offset_def ac_simps)
  also have "\<dots> = bpf_run d (drop (Suc e) P) acc"
    using Suc.hyps(1) [of "Suc i"] Suc.hyps(2) Suc.prems by simp
  finally show ?case .
qed simp

lemma long_deny_list_leaks:
  "\<exists>P. build_seccomp [0..<300] True 0 [] None False = Some P \<and>
     bpf_run \<lparr>sd_nr = 0, sd_arch = audit_arch_x86_64, sd_arg0 = 0, sd_arg2 = 0\<rparr> P 0 = Some allow_ret"
proof -
  define L where "L = map (\<lambda>x. (x, TErrno)) [0..<300::nat]"
  define R where "R = [ins bpf_ret (errno_ret 0) TNone TNone, ins bpf_ret allow_ret TNone TNone]"
  let ?S = "head_code @ chain 3 L TAllow @ R"
  let ?d = "\<lparr>sd_nr = 0, sd_arch = audit_arch_x86_64, sd_arg0 = 0, sd_arg2 = 0\<rparr>"
  have L: "length L = 300" by (simp add: L_def)
  have E: "plain_entries [0..<300] True [] None False = [0..<300]"
    by (simp add: plain_entries_def Let_def sorted_sort_id remdups_adj_distinct)
  have G: "gate_list [0..<300] True None False = []"
    by (simp add: gate_list_def wx_gates_def wx_nrs_def af_gates_def)
  have lay: "laid_out [] [0..<300] True None = head_code @ chain 3 L TAllow"
    by (simp add: laid_out_def Let_def needs_def pick_t_def L_def)
  have b: "build_seccomp [0..<300] True 0 [] None False = link 303 304 0 ?S"
    unfolding build_laid_out E G lay R_def [symmetric] by (simp add: L head_code_def R_def)
  have "\<exists>P. link 303 304 0 ?S = Some P"
  proof (rule link_exists, rule ballI)
    fix x assume "x \<in> set ?S"
    then have "settled x" using chain_targets [of x 3 L TAllow]
      by (auto simp: settled_def head_code_def R_def L_def)
    then show "resolve_t 303 304 (in_jt x) \<noteq> None \<and> resolve_t 303 304 (in_jf x) \<noteq> None"
      by (rule settled_resolves)
  qed
  then obtain P where P: "link 303 (Suc 303) 0 ?S = Some P" by auto
  have len: "length ?S = 305" "length P = 305" using link_nth [OF P] L by (simp_all add: head_code_def R_def)
  note nth = link_nth [OF P, THEN conjunct2, unfolded len(1), rule_format]
  have S: "?S ! 0 = ins bpf_ld 4 TNone TNone" "?S ! 1 = ins bpf_jeq audit_arch_x86_64 (TI 2) TErrno"
    "?S ! 2 = ins bpf_ld 0 TNone TNone" "?S ! 3 = ins bpf_jeq 0 TErrno (TI 4)"
    "?S ! 304 = ins bpf_ret allow_ret TNone TNone"
    using chain_nth [of 0 L 3 TAllow] L by (simp_all add: head_code_def nth_append R_def L_def)
  have dr: "drop i P = P ! i # drop (Suc i) P" if "i < 305" for i
    using that len by (simp add: Cons_nth_drop_Suc)
  have "bpf_run ?d (drop 0 P) 0 = bpf_run ?d (drop 1 P) audit_arch_x86_64"
    by (subst dr) (use nth [of 0] len S(1) in \<open>simp_all add: bpf_codes load_word_def\<close>)
  also have "\<dots> = bpf_run ?d (drop 2 P) audit_arch_x86_64"
    using dr [of 1] nth [of 1] len S(2) by (simp add: bpf_codes offset_def numeral_2_eq_2)
  also have "\<dots> = bpf_run ?d (drop 3 P) 0"
    using dr [of 2] nth [of 2] len S(3) by (simp add: bpf_codes load_word_def numeral_3_eq_3)
  also have "\<dots> = bpf_run ?d (drop (3 + 44) P) 0"
    using dr [of 3] nth [of 3] len S(4) by (simp add: bpf_codes offset_def)
  also have "\<dots> = bpf_run ?d (drop (Suc 303) P) 0"
    by (rule run_misses [OF P]) (auto simp: L_def R_def)
  also have "\<dots> = Some allow_ret"
    by (subst dr) (use nth [of 304] S(5) in \<open>simp_all add: bpf_codes\<close>)
  finally show ?thesis using b P by auto
qed

end
