(* ===== verification/Unit_Syntax.thy ===== *)
theory Unit_Syntax
  imports Names
begin

text \<open>
  The unit-file syntax, \<^verbatim>\<open>rystemd/src/unit/parse.rs\<close>: the structural parser (sections, keys and
  values in file order), the C-style escapes, and the splitting of a value into words. An error
  message is the text the program prints. Both parsers are specified by round trips: the text of
  a file parses back to the file, and the quoted text of a list of words splits back into it.
\<close>

section \<open>Raw unit files\<close>

record parse_error =
  pe_line :: nat
  pe_msg :: str

definition show_parse_error :: "parse_error \<Rightarrow> str" where
  "show_parse_error e = ''line '' @ show_nat (pe_line e) @ '': '' @ pe_msg e"

record raw_section =
  rs_name :: str
  rs_entries :: "(str \<times> str) list"

record raw_unit_file =
  rf_sections :: "raw_section list"

definition raw_entries :: "raw_unit_file \<Rightarrow> str \<Rightarrow> (str \<times> str) list" where
  "raw_entries f sect = concat (map rs_entries (filter (\<lambda>s. rs_name s = sect) (rf_sections f)))"

definition raw_list :: "raw_unit_file \<Rightarrow> str \<Rightarrow> str \<Rightarrow> str list" where
  "raw_list f sect key = map snd (filter (\<lambda>(k, _). k = key) (raw_entries f sect))"

definition raw_scalar :: "raw_unit_file \<Rightarrow> str \<Rightarrow> str \<Rightarrow> str option" where
  "raw_scalar f sect key =
     (case rev (map snd (filter (\<lambda>(k, _). k = key) (raw_entries f sect))) of
        [] \<Rightarrow> None | v # _ \<Rightarrow> Some v)"

definition valid_key :: "str \<Rightarrow> bool" where
  "valid_key key \<longleftrightarrow> key \<noteq> [] \<and>
     list_all (\<lambda>c. is_alnum c \<or> c = CHR ''_'' \<or> c = CHR ''-'' \<or> c = CHR ''.'') key"

type_synonym parse_state = "raw_unit_file \<times> nat option"

definition push_entry :: "nat \<Rightarrow> str \<times> str \<Rightarrow> raw_unit_file \<Rightarrow> raw_unit_file" where
  "push_entry i e f =
     (let s = rf_sections f ! i in
      f\<lparr>rf_sections := (rf_sections f)[i := s\<lparr>rs_entries := rs_entries s @ [e]\<rparr>]\<rparr>)"

definition parse_header :: "nat \<Rightarrow> str \<Rightarrow> parse_state \<Rightarrow> parse_error + parse_state" where
  "parse_header line trimmed st =
     (let (f, current) = st in
      case find_idx (\<lambda>c. c = CHR '']'') trimmed of
        None \<Rightarrow> Inl \<lparr>pe_line = line, pe_msg = ''section header missing closing '' @ [CHR 0x27] @ '']'' @ [CHR 0x27]\<rparr>
      | Some close \<Rightarrow>
          (let name = trim (take (close - 1) (drop 1 trimmed)) in
           if trim (drop (close + 1) trimmed) \<noteq> [] then
             Inl \<lparr>pe_line = line, pe_msg = ''trailing garbage after section header `['' @ name @ '']`''\<rparr>
           else if name = [] then Inl \<lparr>pe_line = line, pe_msg = ''empty section name''\<rparr>
           else
             Inr (f\<lparr>rf_sections := rf_sections f @ [\<lparr>rs_name = name, rs_entries = []\<rparr>]\<rparr>,
                  Some (length (rf_sections f)))))"

definition parse_assignment :: "nat \<Rightarrow> str \<Rightarrow> nat \<Rightarrow> parse_state \<Rightarrow> parse_error + parse_state" where
  "parse_assignment line trimmed eq st =
     (let (f, current) = st; key = trim (take eq trimmed) in
      if \<not> valid_key key then Inl \<lparr>pe_line = line, pe_msg = ''invalid key `'' @ key @ ''`''\<rparr>
      else
        (let value = trim_start (drop (eq + 1) trimmed) in
         case current of
           Some sec \<Rightarrow> Inr (push_entry sec (key, value) f, current)
         | None \<Rightarrow> Inl \<lparr>pe_line = line, pe_msg = ''`'' @ key @ ''=` appears before any [Section] header''\<rparr>))"

definition parse_unit_line :: "nat \<Rightarrow> str \<Rightarrow> parse_state \<Rightarrow> parse_error + parse_state" where
  "parse_unit_line line raw0 st =
     (let raw = strip_cr raw0;
          trimmed = trim raw
      in if trimmed = [] then Inr st
         else if hd trimmed = CHR ''#'' \<or> hd trimmed = CHR '';'' then Inr st
         else if hd trimmed = CHR ''['' then parse_header line trimmed st
         else
           (case find_idx (\<lambda>c. c = CHR ''='') trimmed of
              Some eq \<Rightarrow> parse_assignment line trimmed eq st
            | None \<Rightarrow> Inl \<lparr>pe_line = line, pe_msg = ''invalid line `'' @ trimmed @ ''`''\<rparr>))"

fun parse_unit_lines :: "nat \<Rightarrow> str list \<Rightarrow> parse_state \<Rightarrow> parse_error + parse_state" where
  "parse_unit_lines line [] st = Inr st"
| "parse_unit_lines line (l # ls) st =
     bnd (parse_unit_line line l st) (parse_unit_lines (line + 1) ls)"

definition parse_unit_text :: "str \<Rightarrow> parse_error + raw_unit_file" where
  "parse_unit_text txt = bnd (parse_unit_lines 1 (text_lines txt) (\<lparr>rf_sections = []\<rparr>, None)) (\<lambda>(f, _). Inr f)"

section \<open>Escapes\<close>

definition simple_escape :: "char \<Rightarrow> char option" where
  "simple_escape e =
     (if e = CHR ''a'' then Some (CHR 0x07) else if e = CHR ''b'' then Some (CHR 0x08)
      else if e = CHR ''f'' then Some (CHR 0x0C) else if e = CHR ''n'' then Some (CHR 0x0A)
      else if e = CHR ''r'' then Some (CHR 0x0D) else if e = CHR ''t'' then Some (CHR 0x09)
      else if e = CHR ''v'' then Some (CHR 0x0B) else if e = CHR ''s'' then Some (CHR '' '')
      else None)"

definition unescape_one :: "char \<Rightarrow> char" where
  "unescape_one c = (case simple_escape c of Some d \<Rightarrow> d | None \<Rightarrow> c)"

definition hex_val :: "char \<Rightarrow> nat option" where
  "hex_val c =
     (if is_digit c then Some (code c - 48)
      else if 97 \<le> code c \<and> code c \<le> 102 then Some (code c - 87)
      else if 65 \<le> code c \<and> code c \<le> 70 then Some (code c - 55)
      else None)"

text \<open>\<open>u8::from_str_radix\<close> of two bytes; a leading \<open>+\<close> is allowed.\<close>

definition hex_byte :: "str \<Rightarrow> nat option" where
  "hex_byte s =
     (case s of
        [a, b] \<Rightarrow>
          if a = CHR ''+'' then hex_val b
          else (case (hex_val a, hex_val b) of (Some x, Some y) \<Rightarrow> Some (16 * x + y) | _ \<Rightarrow> None)
      | _ \<Rightarrow> None)"

text \<open>\<open>char::from\<close> of a byte, in UTF-8.\<close>

definition latin1 :: "nat \<Rightarrow> str" where
  "latin1 v = (if v < 128 then [char_of v] else [char_of (192 + v div 64), char_of (128 + v mod 64)])"

text \<open>The first two characters of a text, and the rest.\<close>

definition take_char :: "str \<Rightarrow> str \<times> str" where
  "take_char s = (case s of [] \<Rightarrow> ([], []) | c # _ \<Rightarrow> (take (utf8_len c) s, drop (utf8_len c) s))"

definition take_two :: "str \<Rightarrow> str \<times> str" where
  "take_two s = (let (a, r) = take_char s; (b, r') = take_char r in (a @ b, r'))"

lemma take_char_shorter: "length (snd (take_char s)) \<le> length s"
  by (simp add: take_char_def split: list.split)

lemma take_two_shorter [simp]: "length (snd (take_two s)) \<le> length s"
  using take_char_shorter [of s] take_char_shorter [of "snd (take_char s)"]
  by (auto simp: take_two_def split: prod.splits)

fun cunescape :: "str \<Rightarrow> str" where
  "cunescape [] = []"
| "cunescape (c # cs) =
     (if c \<noteq> CHR 0x5C then c # cunescape cs
      else
        (case cs of
           [] \<Rightarrow> [CHR 0x5C]
         | e # r \<Rightarrow>
             (case simple_escape e of
                Some d \<Rightarrow> d # cunescape r
              | None \<Rightarrow>
                  if e = CHR 0x5C \<or> e = CHR 0x22 \<or> e = CHR 0x27 then e # cunescape r
                  else if e = CHR ''x'' then
                    (case hex_byte (fst (take_two r)) of
                       Some v \<Rightarrow> latin1 v
                     | None \<Rightarrow> [CHR 0x5C, CHR ''x''] @ fst (take_two r)) @ cunescape (snd (take_two r))
                  else CHR 0x5C # e # cunescape r)))"

declare cunescape.simps [simp del]

definition strip_whole_quotes :: "str \<Rightarrow> str option" where
  "strip_whole_quotes raw =
     (if length raw \<ge> 2 \<and> hd raw = CHR 0x22 \<and> last raw = CHR 0x22 then
        Some (cunescape (butlast (tl raw)))
      else if length raw \<ge> 2 \<and> hd raw = CHR 0x27 \<and> last raw = CHR 0x27 then Some (butlast (tl raw))
      else None)"

definition unquote_scalar :: "str \<Rightarrow> str + str" where
  "unquote_scalar raw =
     (case strip_whole_quotes raw of Some inner \<Rightarrow> Inr inner | None \<Rightarrow> Inr (cunescape raw))"

section \<open>Words\<close>

datatype tok_mode = TokUnquoted | TokSingle | TokDouble

fun tok_loop :: "tok_mode \<Rightarrow> str list \<Rightarrow> str \<Rightarrow> str \<Rightarrow> str + str list" where
  "tok_loop mode words cur [] =
     (case mode of
        TokSingle \<Rightarrow> Inl ''unbalanced single quote''
      | TokDouble \<Rightarrow> Inl ''unbalanced double quote''
      | TokUnquoted \<Rightarrow> Inr (if cur = [] then words else words @ [cur]))"
| "tok_loop mode words cur (c # cs) =
     (case mode of
        TokUnquoted \<Rightarrow>
          if c = CHR 0x27 then tok_loop TokSingle words cur cs
          else if c = CHR 0x22 then tok_loop TokDouble words cur cs
          else if is_ws c then
            (if cur = [] then tok_loop TokUnquoted words cur cs
             else tok_loop TokUnquoted (words @ [cur]) [] cs)
          else if c = CHR 0x5C then
            (case cs of
               e # r \<Rightarrow> tok_loop TokUnquoted words (cur @ [unescape_one e]) r
             | [] \<Rightarrow> tok_loop TokUnquoted words (cur @ [CHR 0x5C]) [])
          else tok_loop TokUnquoted words (cur @ [c]) cs
      | TokSingle \<Rightarrow>
          if c = CHR 0x27 then tok_loop TokUnquoted words cur cs
          else tok_loop TokSingle words (cur @ [c]) cs
      | TokDouble \<Rightarrow>
          if c = CHR 0x22 then tok_loop TokUnquoted words cur cs
          else if c = CHR 0x5C then
            (case cs of
               e # r \<Rightarrow> tok_loop TokDouble words (cur @ [unescape_one e]) r
             | [] \<Rightarrow> tok_loop TokDouble words (cur @ [CHR 0x5C]) [])
          else tok_loop TokDouble words (cur @ [c]) cs)"

declare tok_loop.simps [simp del]

definition tokenize :: "str \<Rightarrow> str + str list" where
  "tokenize raw = tok_loop TokUnquoted [] [] raw"

lemma tok_Nil [simp]:
  "tok_loop TokUnquoted words cur [] = Inr (if cur = [] then words else words @ [cur])"
  by (simp add: tok_loop.simps)

subsection \<open>Quoted text\<close>

text \<open>A piece of a word: bare characters, a single-quoted and a double-quoted text. \<open>\<close>\<close>

datatype piece = PBare str | PSingle str | PDouble str

fun piece_value :: "piece \<Rightarrow> str" where
  "piece_value (PBare s) = s"
| "piece_value (PSingle s) = s"
| "piece_value (PDouble s) = s"

definition bare_char :: "char \<Rightarrow> str" where
  "bare_char c = (if is_ws c \<or> c = CHR 0x27 \<or> c = CHR 0x22 \<or> c = CHR 0x5C then [CHR 0x5C, c] else [c])"

definition quoted_char :: "char \<Rightarrow> str" where
  "quoted_char c = (if c = CHR 0x22 \<or> c = CHR 0x5C then [CHR 0x5C, c] else [c])"

fun show_piece :: "piece \<Rightarrow> str" where
  "show_piece (PBare s) = concat (map bare_char s)"
| "show_piece (PSingle s) = CHR 0x27 # s @ [CHR 0x27]"
| "show_piece (PDouble s) = CHR 0x22 # concat (map quoted_char s) @ [CHR 0x22]"

fun piece_ok :: "piece \<Rightarrow> bool" where
  "piece_ok (PSingle s) \<longleftrightarrow> CHR 0x27 \<notin> set s"
| "piece_ok _ = True"

definition word_value :: "piece list \<Rightarrow> str" where
  "word_value w = concat (map piece_value w)"

definition show_word :: "piece list \<Rightarrow> str" where
  "show_word w = concat (map show_piece w)"

lemma unescape_special:
  "is_ws c \<or> c = CHR 0x27 \<or> c = CHR 0x22 \<or> c = CHR 0x5C \<Longrightarrow> unescape_one c = c"
  by (auto simp: unescape_one_def simple_escape_def is_ws_def)

lemma tok_bare_char:
  "tok_loop TokUnquoted words cur (bare_char c @ s) = tok_loop TokUnquoted words (cur @ [c]) s"
  using unescape_special [of c]
  by (auto simp: bare_char_def tok_loop.simps is_ws_def)

lemma tok_quoted_char:
  "tok_loop TokDouble words cur (quoted_char c @ s) = tok_loop TokDouble words (cur @ [c]) s"
  using unescape_special [of c] by (auto simp: quoted_char_def tok_loop.simps)

lemma tok_bare:
  "tok_loop TokUnquoted words cur (concat (map bare_char p) @ s) = tok_loop TokUnquoted words (cur @ p) s"
  by (induction p arbitrary: cur) (simp_all add: tok_bare_char)

lemma tok_double:
  "tok_loop TokDouble words cur (concat (map quoted_char p) @ s) = tok_loop TokDouble words (cur @ p) s"
  by (induction p arbitrary: cur) (simp_all add: tok_quoted_char)

lemma tok_single:
  "CHR 0x27 \<notin> set p \<Longrightarrow>
   tok_loop TokSingle words cur (p @ s) = tok_loop TokSingle words (cur @ p) s"
  by (induction p arbitrary: cur) (auto simp: tok_loop.simps)

lemma tok_piece:
  "piece_ok p \<Longrightarrow>
   tok_loop TokUnquoted words cur (show_piece p @ s) = tok_loop TokUnquoted words (cur @ piece_value p) s"
proof (cases p)
  case (PSingle x)
  assume "piece_ok p"
  then show ?thesis using tok_single [of x words cur "CHR 0x27 # s"]
    by (simp add: PSingle tok_loop.simps is_ws_def)
next
  case (PDouble x)
  then show ?thesis using tok_double [of words cur x "CHR 0x22 # s"]
    by (simp add: tok_loop.simps is_ws_def)
qed (simp add: tok_bare)

lemma tok_word:
  "list_all piece_ok w \<Longrightarrow>
   tok_loop TokUnquoted words cur (show_word w @ s) = tok_loop TokUnquoted words (cur @ word_value w) s"
  by (induction w arbitrary: cur) (simp_all add: show_word_def word_value_def tok_piece)

lemma tok_spaces:
  "list_all is_ws sp \<Longrightarrow> sp \<noteq> [] \<Longrightarrow>
   tok_loop TokUnquoted words cur (sp @ s) =
     tok_loop TokUnquoted (if cur = [] then words else words @ [cur]) [] s"
proof (induction sp arbitrary: words cur)
  case (Cons c sp)
  have one: "tok_loop TokUnquoted ws k (c # t) =
      tok_loop TokUnquoted (if k = [] then ws else ws @ [k]) [] t" for ws k t
    using Cons.prems(1) by (auto simp: tok_loop.simps is_ws_def)
  show ?case
  proof (cases "sp = []")
    case True
    with one show ?thesis by simp
  next
    case False
    with Cons one [of words cur "sp @ s"] show ?thesis by simp
  qed
qed simp

text \<open>Words separated by white space.\<close>

fun show_words :: "(piece list \<times> str) list \<Rightarrow> str" where
  "show_words [] = []"
| "show_words ((w, sp) # r) = show_word w @ sp @ show_words r"

lemma tok_words:
  assumes "list_all (\<lambda>(w, sp). list_all piece_ok w \<and> sp \<noteq> [] \<and> list_all is_ws sp) ws" "list_all piece_ok w"
  shows "tok_loop TokUnquoted words [] (show_words ws @ show_word w) =
    Inr (words @ filter (\<lambda>x. x \<noteq> []) (map (word_value \<circ> fst) ws @ [word_value w]))"
  using assms
proof (induction ws arbitrary: words)
  case Nil
  then show ?case using tok_word [of w words "[]" "[]"] by simp
next
  case (Cons p ws)
  obtain v sp where p: "p = (v, sp)" by fastforce
  with Cons show ?case
    using tok_word [of v words "[]" "sp @ show_words ws @ show_word w"]
      tok_spaces [of sp words "word_value v" "show_words ws @ show_word w"]
    by simp
qed

section \<open>The text of a unit file\<close>

lemma trim_end_pad: "list_all is_ws b \<Longrightarrow> trim_end (s @ b) = trim_end s"
  by (auto simp: trim_end_def list_all_iff intro: dropWhile_append2)

lemma not_in_ws: "list_all is_ws a \<Longrightarrow> \<not> is_ws c \<Longrightarrow> c \<notin> set a"
  by (auto simp: list_all_iff)

lemma trim_start_pad: "list_all is_ws a \<Longrightarrow> trim_start (a @ s) = trim_start s"
  by (auto simp: trim_start_def list_all_iff intro: dropWhile_append2)

lemma trim_pad:
  assumes "list_all is_ws a" "list_all is_ws b"
  shows "trim (a @ s @ b) = trim s"
proof (cases "\<forall>c \<in> set s. is_ws c")
  case True
  with assms have "\<forall>c \<in> set (a @ s @ b). is_ws c" by (auto simp: list_all_iff)
  then have "trim_start (a @ s @ b) = []" "trim_start s = []"
    using True unfolding trim_start_ws by blast+
  then show ?thesis by (simp add: trim_def)
next
  case False
  then have "trim_start (s @ b) = trim_start s @ b"
    by (induction s) (auto simp: trim_start_def)
  with assms show ?thesis by (simp add: trim_def trim_start_pad trim_end_pad)
qed

lemma trim_strip_cr [simp]: "trim (strip_cr l) = trim l"
proof (cases "strip_suffix [CHR 0x0D] l")
  case (Some r)
  then have "l = r @ [CHR 0x0D]"
    by (auto simp: strip_suffix_def strip_prefix_Some)
  with Some trim_pad [of "[]" "[CHR 0x0D]" r] show ?thesis
    by (simp add: strip_cr_def is_ws_def)
qed (simp add: strip_cr_def)

datatype uline =
    UBlank
  | UComment char str
  | UHeader str str str
  | UEntry str str str str

text \<open>The header text has padding inside the brackets, an assignment padding around the \<open>=\<close>.\<close>

fun show_uline :: "uline \<Rightarrow> str" where
  "show_uline UBlank = []"
| "show_uline (UComment c s) = c # s"
| "show_uline (UHeader a name b) = ''['' @ a @ name @ b @ '']''"
| "show_uline (UEntry key a b v) = key @ a @ ''='' @ b @ v"

definition trimmed :: "str \<Rightarrow> bool" where
  "trimmed s \<longleftrightarrow> s = [] \<or> \<not> is_ws (hd s) \<and> \<not> is_ws (last s)"

fun uline_ok :: "uline \<Rightarrow> bool" where
  "uline_ok UBlank \<longleftrightarrow> True"
| "uline_ok (UComment c s) \<longleftrightarrow> c = CHR ''#'' \<or> c = CHR '';''"
| "uline_ok (UHeader a name b) \<longleftrightarrow> list_all is_ws a \<and> list_all is_ws b \<and> name \<noteq> [] \<and> trimmed name \<and>
     CHR '']'' \<notin> set name"
| "uline_ok (UEntry key a b v) \<longleftrightarrow> valid_key key \<and> list_all is_ws a \<and> list_all is_ws b \<and> trimmed v"

fun add_uline :: "uline \<Rightarrow> raw_section list \<Rightarrow> raw_section list" where
  "add_uline (UHeader a name b) ss = ss @ [\<lparr>rs_name = name, rs_entries = []\<rparr>]"
| "add_uline (UEntry key a b v) ss =
     butlast ss @ [(last ss)\<lparr>rs_entries := rs_entries (last ss) @ [(key, v)]\<rparr>]"
| "add_uline _ ss = ss"

text \<open>No assignment before the first header.\<close>

fun headed :: "uline list \<Rightarrow> bool" where
  "headed [] = True"
| "headed (UHeader a name b # ls) = True"
| "headed (UEntry key a b v # ls) = False"
| "headed (_ # ls) = headed ls"

definition state_of :: "raw_section list \<Rightarrow> parse_state" where
  "state_of ss = (\<lparr>rf_sections = ss\<rparr>, if ss = [] then None else Some (length ss - 1))"

lemma valid_key_chars:
  assumes "valid_key key"
  shows "trim key = key" "CHR ''='' \<notin> set key" "key \<noteq> []"
    "\<not> is_ws (hd key)" "hd key \<noteq> CHR ''#''" "hd key \<noteq> CHR '';''" "hd key \<noteq> CHR ''[''"
proof -
  have c: "\<not> is_ws c \<and> c \<noteq> CHR ''='' \<and> c \<noteq> CHR ''#'' \<and> c \<noteq> CHR '';'' \<and> c \<noteq> CHR ''[''" if "c \<in> set key" for c
    using assms that
    by (auto simp: valid_key_def list_all_iff is_alnum_def is_alpha_def is_digit_def is_ws_def code_def)
  then show "trim key = key" "CHR ''='' \<notin> set key" by (auto intro: trim_no_ws)
  show ne: "key \<noteq> []" using assms by (simp add: valid_key_def)
  show "\<not> is_ws (hd key)" "hd key \<noteq> CHR ''#''" "hd key \<noteq> CHR '';''" "hd key \<noteq> CHR ''[''"
    using c [OF hd_in_set [OF ne]] by auto
qed

lemma trimmed_trim: "trimmed s \<Longrightarrow> trim s = s"
  by (simp add: trimmed_def trim_id)

lemma parse_unit_line_trim:
  "parse_unit_line n l st =
     (if trim l = [] then Inr st
      else if hd (trim l) = CHR ''#'' \<or> hd (trim l) = CHR '';'' then Inr st
      else if hd (trim l) = CHR ''['' then parse_header n (trim l) st
      else
        (case find_idx (\<lambda>c. c = CHR ''='') (trim l) of
           Some eq \<Rightarrow> parse_assignment n (trim l) eq st
         | None \<Rightarrow> Inl \<lparr>pe_line = n, pe_msg = ''invalid line `'' @ trim l @ ''`''\<rparr>))"
  unfolding parse_unit_line_def Let_def trim_strip_cr by (rule refl)


lemma parse_header_ok:
  assumes "find_idx (\<lambda>c. c = CHR '']'') l = Some close" "trim (take (close - 1) (drop 1 l)) = name"
    "trim (drop (close + 1) l) = []" "name \<noteq> []"
  shows "parse_header n l (f, current) =
    Inr (f\<lparr>rf_sections := rf_sections f @ [\<lparr>rs_name = name, rs_entries = []\<rparr>]\<rparr>, Some (length (rf_sections f)))"
  unfolding parse_header_def Let_def prod.case assms(1) option.case assms(2,3) using assms(4) by simp

lemma trim_Nil [simp]: "trim [] = []"
  by (simp add: trim_def trim_start_def trim_end_def)

lemma parse_header_line:
  assumes "uline_ok (UHeader a name b)"
  shows "parse_unit_line n (show_uline (UHeader a name b)) (state_of ss) =
    Inr (state_of (ss @ [\<lparr>rs_name = name, rs_entries = []\<rparr>]))"
proof -
  define l where "l = CHR ''['' # a @ name @ b @ [CHR '']'']"
  have "\<not> is_ws (CHR '']'')" by (simp add: is_ws_def)
  then have ws: "CHR '']'' \<notin> set a" "CHR '']'' \<notin> set b" "CHR '']'' \<notin> set name" "name \<noteq> []"
    using assms by (auto dest: not_in_ws)
  have t: "trim l = l" unfolding l_def by (rule trim_id) (simp add: is_ws_def)
  have "find_idx (\<lambda>c. c = CHR '']'') ((CHR ''['' # a @ name @ b) @ CHR '']'' # []) = Some (length (CHR ''['' # a @ name @ b))"
    by (rule find_idx_append) (use ws in auto)
  then have i: "find_idx (\<lambda>c. c = CHR '']'') l = Some (Suc (length (a @ name @ b)))" by (simp add: l_def)
  have "trim (a @ name @ b) = name" using assms trim_pad [of a b name] by (simp add: trimmed_trim)
  moreover have "take (Suc (length (a @ name @ b)) - 1) (drop 1 l) = a @ name @ b" by (simp add: l_def)
  ultimately have n: "trim (take (Suc (length (a @ name @ b)) - 1) (drop 1 l)) = name" by (simp only:)
  have "drop (Suc (length (a @ name @ b)) + 1) l = []" by (simp add: l_def)
  then have e: "trim (drop (Suc (length (a @ name @ b)) + 1) l) = []" by (simp only: trim_Nil)
  have "hd l = CHR ''[''" "l \<noteq> []" by (simp_all add: l_def)
  then have "parse_unit_line n l (state_of ss) = parse_header n l (state_of ss)"
    unfolding parse_unit_line_trim t by simp
  also have "\<dots> = Inr (state_of (ss @ [\<lparr>rs_name = name, rs_entries = []\<rparr>]))"
    unfolding state_of_def parse_header_ok [OF i n e ws(4)] by simp
  finally show ?thesis by (simp add: l_def)
qed

lemma parse_unit_line_pad:
  "list_all is_ws a \<Longrightarrow> list_all is_ws b \<Longrightarrow> parse_unit_line n (a @ l @ b) st = parse_unit_line n l st"
  unfolding parse_unit_line_trim by (simp only: trim_pad)

lemma parse_assignment_ok:
  assumes "trim (take eq l) = key" "valid_key key" "trim_start (drop (eq + 1) l) = v"
  shows "parse_assignment n l eq (f, Some sec) = Inr (push_entry sec (key, v) f, Some sec)"
  unfolding parse_assignment_def Let_def prod.case assms(1) assms(3) using assms(2) by simp

lemma push_last:
  "ss \<noteq> [] \<Longrightarrow> push_entry (length ss - 1) e \<lparr>rf_sections = ss\<rparr> =
   \<lparr>rf_sections = butlast ss @ [(last ss)\<lparr>rs_entries := rs_entries (last ss) @ [e]\<rparr>]\<rparr>"
  by (cases ss rule: rev_cases) (simp_all add: push_entry_def Let_def)

lemma parse_entry_line:
  assumes "uline_ok (UEntry key a b v)" "ss \<noteq> []"
  shows "parse_unit_line n (show_uline (UEntry key a b v)) (state_of ss) =
    Inr (state_of (add_uline (UEntry key a b v) ss))"
proof -
  define l where "l = key @ a @ ''='' @ b @ v"
  have k: "valid_key key" and ab: "list_all is_ws a" "list_all is_ws b" and v: "trimmed v"
    using assms(1) by auto
  have tk: "trim key = key" and key: "CHR ''='' \<notin> set key" "key \<noteq> []" "\<not> is_ws (hd key)"
    "hd key \<noteq> CHR ''#''" "hd key \<noteq> CHR '';''" "hd key \<noteq> CHR ''[''"
    using valid_key_chars [OF k] by auto
  define r where "r = (if v = [] then key @ a @ ''='' else l)"
  have eqb: "\<not> is_ws (CHR ''='')" by (simp add: is_ws_def)
  have r: "r \<noteq> []" "hd r = hd key" "\<not> is_ws (last r)"
    using key(2) v eqb by (auto simp: r_def l_def trimmed_def)
  have lr: "trim l = r"
  proof (cases "v = []")
    case True
    have "trim ([] @ r @ b) = trim r" by (rule trim_pad) (use ab in simp_all)
    with True r key(3) show ?thesis by (simp add: l_def r_def trim_id)
  next
    case False
    with r key(3) show ?thesis by (simp add: r_def trim_id)
  qed
  have aeq: "CHR ''='' \<notin> set a" by (rule not_in_ws [OF ab(1) eqb])
  have rk: "r = (key @ a) @ CHR ''='' # (if v = [] then [] else b @ v)" by (simp add: r_def l_def)
  have i: "find_idx (\<lambda>c. c = CHR ''='') r = Some (length (key @ a))"
    unfolding rk by (rule find_idx_append) (use key(1) aeq in auto)
  have "trim ([] @ key @ a) = trim key" by (rule trim_pad) (use ab in simp_all)
  then have t: "trim (take (length (key @ a)) r) = key" unfolding rk by (simp add: tk)
  have "trim_start (b @ v) = v"
    using ab v by (simp add: trim_start_pad trim_start_no_ws trimmed_def disj_imp)
  then have d: "trim_start (drop (length (key @ a) + 1) r) = v"
    unfolding rk by (simp add: trim_start_def)
  have "parse_unit_line n l (state_of ss) = parse_assignment n r (length (key @ a)) (state_of ss)"
    unfolding parse_unit_line_trim lr i using r key by simp
  also have "\<dots> = Inr (state_of (add_uline (UEntry key a b v) ss))"
    unfolding state_of_def using parse_assignment_ok [OF t k d] push_last [OF assms(2)] assms(2) by simp
  finally show ?thesis by (simp add: l_def)
qed

lemma parse_noise_line:
  "parse_unit_line n (show_uline UBlank) st = Inr st"
  "uline_ok (UComment c s) \<Longrightarrow> parse_unit_line n (show_uline (UComment c s)) st = Inr st"
proof -
  show "parse_unit_line n (show_uline UBlank) st = Inr st" unfolding parse_unit_line_trim by simp
  assume c: "uline_ok (UComment c s)"
  have "\<not> is_ws c" using c by (auto simp: is_ws_def)
  then have "trim_start (c # s) = c # s" "trim_end (c # s) \<noteq> [] \<and> hd (trim_end (c # s)) = c"
    by (auto simp: trim_start_def trim_end_def dropWhile_append hd_append split: if_splits)
  then have "trim (c # s) \<noteq> [] \<and> hd (trim (c # s)) = c" by (simp add: trim_def)
  with c show "parse_unit_line n (show_uline (UComment c s)) st = Inr st"
    unfolding parse_unit_line_trim by simp
qed

text \<open>A line of the text with its padding.\<close>

definition show_padded :: "str \<times> uline \<times> str \<Rightarrow> str" where
  "show_padded p = (case p of (pre, l, post) \<Rightarrow> pre @ show_uline l @ post)"

definition padded_ok :: "str \<times> uline \<times> str \<Rightarrow> bool" where
  "padded_ok p \<longleftrightarrow> (case p of (pre, l, post) \<Rightarrow> list_all is_ws pre \<and> list_all is_ws post \<and> uline_ok l)"

definition headed_after :: "raw_section list \<Rightarrow> uline list \<Rightarrow> bool" where
  "headed_after ss ls \<longleftrightarrow> ss \<noteq> [] \<or> headed ls"

lemma parse_padded_line:
  assumes "padded_ok (pre, l, post)" "headed_after ss (l # ls)"
  shows "parse_unit_line n (show_padded (pre, l, post)) (state_of ss) = Inr (state_of (add_uline l ss))"
    and "headed_after (add_uline l ss) ls"
proof -
  from assms(1) have pads: "list_all is_ws pre" "list_all is_ws post" and l: "uline_ok l"
    by (auto simp: padded_ok_def)
  have "parse_unit_line n (show_uline l) (state_of ss) = Inr (state_of (add_uline l ss))"
  proof (cases l)
    case (UHeader a name b)
    with l show ?thesis using parse_header_line [of a name b n ss] by (simp del: show_uline.simps)
  next
    case (UEntry key a b v)
    with assms(2) have "ss \<noteq> []" by (simp add: headed_after_def)
    with l UEntry show ?thesis using parse_entry_line [of key a b v ss n] by (simp del: show_uline.simps add_uline.simps)
  next
    case (UComment c s)
    with l show ?thesis using parse_noise_line(2) [of c s n "state_of ss"] by (simp del: show_uline.simps)
  qed (use parse_noise_line(1) [of n "state_of ss"] in simp)
  then show "parse_unit_line n (show_padded (pre, l, post)) (state_of ss) = Inr (state_of (add_uline l ss))"
    by (simp add: show_padded_def parse_unit_line_pad [OF pads])
  show "headed_after (add_uline l ss) ls"
    using assms(2) by (cases l) (auto simp: headed_after_def)
qed

lemma parse_padded_lines:
  assumes "list_all padded_ok ps" "headed_after ss (map (fst \<circ> snd) ps)"
  shows "parse_unit_lines n (map show_padded ps) (state_of ss) =
    Inr (state_of (fold add_uline (map (fst \<circ> snd) ps) ss))"
  using assms
proof (induction ps arbitrary: n ss)
  case (Cons p ps)
  obtain pre l post where p: "p = (pre, l, post)" by (cases p)
  from Cons.prems have ok: "padded_ok (pre, l, post)" "headed_after ss (l # map (fst \<circ> snd) ps)"
    and rest: "list_all padded_ok ps" by (simp_all add: p comp_def)
  from Cons.IH [OF rest parse_padded_line(2) [OF ok]] parse_padded_line(1) [OF ok, of n] show ?case
    by (simp add: p)
qed simp

lemma split_lines:
  "\<forall>l \<in> set ls. CHR 0x0A \<notin> set l \<Longrightarrow>
   split_char (CHR 0x0A) (concat (map (\<lambda>l. l @ [CHR 0x0A]) ls)) = ls @ [[]]"
  unfolding split_char_def
proof (induction ls)
  case (Cons a ls)
  have "split_on (\<lambda>x. x = CHR 0x0A) (a @ CHR 0x0A # concat (map (\<lambda>l. l @ [CHR 0x0A]) ls)) =
      a # split_on (\<lambda>x. x = CHR 0x0A) (concat (map (\<lambda>l. l @ [CHR 0x0A]) ls))"
    by (rule split_on_sep) (use Cons.prems in auto)
  with Cons show ?case by simp
qed simp

lemma text_lines_joined:
  "\<forall>l \<in> set ls. CHR 0x0A \<notin> set l \<Longrightarrow>
   text_lines (concat (map (\<lambda>l. l @ [CHR 0x0A]) ls)) = map strip_cr ls"
  by (simp add: text_lines_def split_lines)

lemma parse_strip_cr: "parse_unit_line n (strip_cr l) st = parse_unit_line n l st"
  unfolding parse_unit_line_trim trim_strip_cr ..

lemma parse_lines_strip_cr: "parse_unit_lines n (map strip_cr ls) = parse_unit_lines n ls"
  by (induction ls arbitrary: n) (auto simp: parse_strip_cr)

lemma parse_shown_text:
  assumes "list_all padded_ok ps" "headed (map (fst \<circ> snd) ps)"
    "\<forall>p \<in> set ps. CHR 0x0A \<notin> set (show_padded p)"
  shows "parse_unit_text (concat (map (\<lambda>p. show_padded p @ [CHR 0x0A]) ps)) =
    Inr \<lparr>rf_sections = fold add_uline (map (fst \<circ> snd) ps) []\<rparr>"
proof -
  have "text_lines (concat (map (\<lambda>p. show_padded p @ [CHR 0x0A]) ps)) = map strip_cr (map show_padded ps)"
    using text_lines_joined [of "map show_padded ps"] assms(3) by (simp add: comp_def)
  moreover have "parse_unit_lines 1 (map strip_cr (map show_padded ps)) (\<lparr>rf_sections = []\<rparr>, None) =
      Inr (state_of (fold add_uline (map (fst \<circ> snd) ps) []))"
    using parse_padded_lines [of ps "[]" 1] assms(1,2)
    by (simp only: parse_lines_strip_cr) (simp add: headed_after_def state_of_def)
  ultimately show ?thesis unfolding parse_unit_text_def by (simp add: state_of_def split: if_splits)
qed

section \<open>Properties\<close>

text \<open>C14. The text of a unit file - headers and assignments with any white space around them and
  around the \<open>=\<close>, blank lines and comments anywhere, no assignment before the first header -
  parses to exactly its sections, in order, each with its assignments in order, the value without
  the white space around it.\<close>

theorem unit_text_roundtrip:
  assumes "list_all padded_ok ps" "headed (map (fst \<circ> snd) ps)"
    "\<forall>p \<in> set ps. CHR 0x0A \<notin> set (show_padded p)"
  shows "parse_unit_text (concat (map (\<lambda>p. show_padded p @ [CHR 0x0A]) ps)) =
    Inr \<lparr>rf_sections = fold add_uline (map (fst \<circ> snd) ps) []\<rparr>"
  by (rule parse_shown_text [OF assms])

theorem unit_text_roundtrip_witness:
  "parse_unit_text (''# a service'' @ [CHR 0x0A] @ ''[Unit]'' @ [CHR 0x0A] @ ''  A = b c '' @ [CHR 0x0A]) =
     Inr \<lparr>rf_sections = [\<lparr>rs_name = ''Unit'', rs_entries = [(''A'', ''b c'')]\<rparr>]\<rparr>"
proof -
  let ?ps = "[([], UComment (CHR ''#'') '' a service'', []), ([], UHeader [] ''Unit'' [], []),
    (''  '', UEntry ''A'' '' '' '' '' ''b c'', '' '')]"
  have "list_all padded_ok ?ps" by code_simp
  moreover have "headed (map (fst \<circ> snd) ?ps)" by code_simp
  moreover have "\<forall>p \<in> set ?ps. CHR 0x0A \<notin> set (show_padded p)" by code_simp
  ultimately show ?thesis using unit_text_roundtrip [of ?ps] by (simp add: show_padded_def)
qed

text \<open>Words written with any mixture of bare text (its white space, quotes and backslashes
  escaped), single and double quotes, separated by white space, are split back into the words -
  except that words whose text is empty, though quoted, are dropped.\<close>

theorem words_roundtrip:
  assumes "list_all (\<lambda>(w, sp). list_all piece_ok w \<and> sp \<noteq> [] \<and> list_all is_ws sp) ws" "list_all piece_ok w"
  shows "tokenize (show_words ws @ show_word w) =
    Inr (filter (\<lambda>x. x \<noteq> []) (map (word_value \<circ> fst) ws @ [word_value w]))"
  unfolding tokenize_def using tok_words [OF assms, of "[]"] by simp

theorem words_roundtrip_witness:
  "tokenize (''/bin/sh -c '' @ CHR 0x27 # ''a b'' @ [CHR 0x27, CHR '' '', CHR 0x22, CHR 0x22]) =
     Inr [''/bin/sh'', ''-c'', ''a b'']"
  using words_roundtrip [of "[([PBare ''/bin/sh''], '' ''), ([PBare ''-c''], '' ''), ([PSingle ''a b''], '' '')]" "[PDouble []]"]
  by (simp add: show_word_def word_value_def bare_char_def is_ws_def)

text \<open>The module comment promises \<open>\xHH\<close> escapes; the word splitter does not know them.\<close>

lemma tokenize_no_hex_escape: "tokenize [CHR 0x5C, CHR ''x'', CHR ''4'', CHR ''1''] = Inr [''x41'']"
  by code_simp

end
