(* ===== verification/Unit_Build.thy ===== *)
theory Unit_Build
  imports Unit_Syntax Unit_Types Syscalls
begin

text \<open>
  The typed interpretation of a raw unit file, \<^verbatim>\<open>build\<close> and its helpers in
  \<^verbatim>\<open>rystemd/src/unit/mod.rs\<close>: booleans, sizes, limits, quotas, sandbox directives, commands and
  the sections of each kind of unit. An error is the message the program prints (\<open>BMsg\<close>) or the
  error of the parser that was called. The parser of calendar expressions may not return; the
  builders that call it have the value \<open>None\<close> then. The model is of the Linux x86-64 build.
\<close>

datatype build_error = BMsg str | BSpan span_error | BExit exit_status_error | BCalendar cal_error

fun show_build_error :: "build_error \<Rightarrow> str" where
  "show_build_error (BMsg s) = s"
| "show_build_error (BSpan e) = show_span_error e"
| "show_build_error (BExit e) = show_exit_error e"
| "show_build_error (BCalendar e) = show_cal_error e"

abbreviation bquote :: str where "bquote \<equiv> [CHR 0x60]"

definition lift_str :: "str + 'a \<Rightarrow> build_error + 'a" where
  "lift_str r = (case r of Inl e \<Rightarrow> Inl (BMsg e) | Inr x \<Rightarrow> Inr x)"

definition lift_span :: "span_error + 'a \<Rightarrow> build_error + 'a" where
  "lift_span r = (case r of Inl e \<Rightarrow> Inl (BSpan e) | Inr x \<Rightarrow> Inr x)"

definition lift_exit :: "exit_status_error + 'a \<Rightarrow> build_error + 'a" where
  "lift_exit r = (case r of Inl e \<Rightarrow> Inl (BExit e) | Inr x \<Rightarrow> Inr x)"

section \<open>Values\<close>

definition eq_nocase :: "str \<Rightarrow> str \<Rightarrow> bool" where
  "eq_nocase a b \<longleftrightarrow> lower a = lower b"

definition parse_bool :: "str \<Rightarrow> build_error + bool" where
  "parse_bool v =
     (let l = lower v in
      if List.member [''1'', ''yes'', ''true'', ''on''] l then Inr True
      else if List.member [''0'', ''no'', ''false'', ''off''] l then Inr False
      else Inl (BMsg (''invalid boolean `'' @ l @ bquote)))"

text \<open>\<open>u32::from_str_radix(v, 8)\<close>.\<close>

definition is_octal :: "char \<Rightarrow> bool" where
  "is_octal c \<longleftrightarrow> 48 \<le> code c \<and> code c \<le> 55"

definition octal_u32 :: "str \<Rightarrow> nat option" where
  "octal_u32 s =
     (let t = (case s of c # cs \<Rightarrow> if c = CHR ''+'' then cs else s | [] \<Rightarrow> s);
          n = foldl (\<lambda>a c. 8 * a + digit_val c) 0 t
      in if t = [] \<or> \<not> list_all is_octal t \<or> n \<ge> 2 ^ 32 then None else Some n)"

definition parse_octal :: "str \<Rightarrow> build_error + nat" where
  "parse_octal v =
     (case octal_u32 v of Some n \<Rightarrow> Inr n | None \<Rightarrow> Inl (BMsg (''invalid octal `'' @ v @ bquote)))"

definition parse_directory :: "directory_kind \<Rightarrow> str \<Rightarrow> build_error + directory_spec" where
  "parse_directory kind value =
     (let (name, suffix) = (case split_once '':'' value of Some (n, s) \<Rightarrow> (n, Some s) | None \<Rightarrow> (value, None)) in
      if trim name = [] then Inl (BMsg (''empty directory name in `'' @ value @ bquote))
      else
        (let spec = \<lparr>ds_kind = kind, ds_name = trim name, ds_mode = None, ds_recursive = False\<rparr> in
         case suffix of
           None \<Rightarrow> Inr spec
         | Some s0 \<Rightarrow>
             (let s = trim s0 in
              if s = [] then Inr spec
              else if s = ''recursive'' then Inr (spec\<lparr>ds_recursive := True\<rparr>)
              else (case octal_u32 s of
                      Some mode \<Rightarrow> Inr (spec\<lparr>ds_mode := Some mode\<rparr>)
                    | None \<Rightarrow> Inl (BMsg (''invalid directory mode/option `'' @ value @ bquote))))))"

definition u64_max :: nat where "u64_max = 2 ^ 64 - 1"

definition parse_u64 :: "str \<Rightarrow> nat option" where
  "parse_u64 = parse_uint (2 ^ 64)"

definition parse_limit :: "str \<Rightarrow> build_error + nat" where
  "parse_limit v =
     (if eq_nocase v ''infinity'' then Inr u64_max
      else (case parse_u64 v of
              Some n \<Rightarrow> Inr n | None \<Rightarrow> Inl (BMsg (''invalid rlimit value `'' @ v @ bquote))))"

definition parse_rlimit :: "rlimit_resource \<Rightarrow> str \<Rightarrow> build_error + rlimit" where
  "parse_rlimit resource v =
     (let (soft, hard) = (case split_once '':'' v of
            Some (s, h) \<Rightarrow> (trim s, trim h) | None \<Rightarrow> (trim v, trim v))
      in bnd (parse_limit soft) (\<lambda>s. bnd (parse_limit hard) (\<lambda>h.
           Inr \<lparr>rl_resource = resource, rl_soft = s, rl_hard = h\<rparr>)))"

definition size_suffixes :: "(char \<times> nat) list" where
  "size_suffixes = [(CHR ''K'', 1024), (CHR ''k'', 1024), (CHR ''M'', 1024 ^ 2), (CHR ''m'', 1024 ^ 2),
     (CHR ''G'', 1024 ^ 3), (CHR ''g'', 1024 ^ 3), (CHR ''T'', 1024 ^ 4), (CHR ''t'', 1024 ^ 4),
     (CHR ''P'', 1024 ^ 5), (CHR ''p'', 1024 ^ 5), (CHR ''E'', 1024 ^ 6), (CHR ''e'', 1024 ^ 6)]"

definition split_size :: "str \<Rightarrow> str \<times> nat" where
  "split_size s =
     (if s = [] then (s, 1)
      else (case map_of size_suffixes (last s) of Some k \<Rightarrow> (butlast s, k) | None \<Rightarrow> (s, 1)))"

definition parse_bytes :: "str \<Rightarrow> build_error + nat" where
  "parse_bytes v =
     (let s = trim v in
      if eq_nocase s ''infinity'' then Inr u64_max
      else
        (let (num, mult) = split_size (filter (\<lambda>c. c \<noteq> CHR '' '') s) in
         case parse_u64 (trim num) of
           None \<Rightarrow> Inl (BMsg (''invalid size `'' @ v @ bquote))
         | Some n \<Rightarrow>
             if n * mult < 2 ^ 64 then Inr (n * mult)
             else Inl (BMsg (''size overflow `'' @ v @ bquote))))"

subsection \<open>Single-precision numbers\<close>

text \<open>The binary32 value nearest to \<open>n / d\<close>; see \<open>f_round\<close> for binary64.\<close>

definition f32_round :: "nat \<Rightarrow> nat \<Rightarrow> f64" where
  "f32_round n d =
     (if n = 0 then Fin 0 0
      else let e0 = int (bitlen n) - int (bitlen d) - 24;
               (n0, d0) = scale n d e0;
               e = max (-149) (if n0 \<ge> d0 * 2 ^ 24 then e0 + 1 else e0);
               (n1, d1) = scale n d e;
               q = round_even n1 d1
           in if e > 104 \<or> e = 104 \<and> q \<ge> 2 ^ 24 then FInf else Fin q e)"

text \<open>A finite value as a fraction.\<close>

definition f_frac :: "nat \<Rightarrow> int \<Rightarrow> nat \<times> nat" where
  "f_frac m e = (if e \<ge> 0 then (m * 2 ^ nat e, 1) else (m, 2 ^ nat (- e)))"

fun f_le :: "f64 \<Rightarrow> f64 \<Rightarrow> bool" where
  "f_le a FInf = True"
| "f_le FInf (Fin m e) = False"
| "f_le (Fin m e) (Fin m' e') =
     (let (n, d) = f_frac m e; (n', d') = f_frac m' e' in n * d' \<le> n' * d)"

fun f32_div_nat :: "f64 \<Rightarrow> nat \<Rightarrow> f64" where
  "f32_div_nat FInf k = FInf"
| "f32_div_nat (Fin m e) k = (let (n, d) = f_frac m e in f32_round n (d * k))"

text \<open>The decimal grammar of \<open>str::parse::<f32>\<close>: digits with at most one dot, at least one digit,
  an optional exponent; the value as a fraction.\<close>

definition decimal_frac :: "str \<Rightarrow> (nat \<times> nat) option" where
  "decimal_frac s =
     (let int_part = takeWhile is_digit s; r1 = dropWhile is_digit s;
          (frac_part, r2) = (case r1 of
             c # cs \<Rightarrow> if c = CHR ''.'' then (takeWhile is_digit cs, dropWhile is_digit cs) else ([], r1)
           | [] \<Rightarrow> ([], []));
          n = digits_val (int_part @ frac_part); d = 10 ^ length frac_part
      in if int_part = [] \<and> frac_part = [] then None
         else (case r2 of
                 [] \<Rightarrow> Some (n, d)
               | c # cs \<Rightarrow>
                   if c = CHR ''e'' \<or> c = CHR ''E'' then
                     (let (neg, ds) = (case cs of
                            x # xs \<Rightarrow> if x = CHR ''-'' then (True, xs) else if x = CHR ''+'' then (False, xs) else (False, cs)
                          | [] \<Rightarrow> (False, []))
                      in if ds = [] \<or> \<not> list_all is_digit ds then None
                         else if neg then Some (n, d * 10 ^ digits_val ds)
                         else Some (n * 10 ^ digits_val ds, d))
                   else None))"

text \<open>\<open>Some None\<close> stands for a number that is negative, infinite or not a number.\<close>

definition parse_f32 :: "str \<Rightarrow> f64 option option" where
  "parse_f32 s =
     (let (neg, t) = (case s of
            c # cs \<Rightarrow> if c = CHR ''-'' then (True, cs) else if c = CHR ''+'' then (False, cs) else (False, s)
          | [] \<Rightarrow> (False, []))
      in if t = [] then None
         else (case decimal_frac t of
                 Some (n, d) \<Rightarrow> Some (if neg then None else Some (f32_round n d))
               | None \<Rightarrow>
                   if List.member [''inf'', ''infinity'', ''nan''] (lower t) then Some None else None))"

definition parse_cpu_quota :: "str \<Rightarrow> str + f64 option" where
  "parse_cpu_quota v =
     (let s0 = trim v in
      if eq_nocase s0 ''infinity'' then Inr None
      else
        (let s = trim (case strip_suffix ''%'' s0 of Some r \<Rightarrow> r | None \<Rightarrow> s0) in
         case parse_f32 s of
           None \<Rightarrow> Inl (''expected a percentage like `50%` or `infinity`, got `'' @ v @ bquote)
         | Some pct \<Rightarrow>
             (case pct of
                Some p \<Rightarrow>
                  if f_le (f32_round 1 1000) p \<and> f_le p (f32_round 1000000 1)
                  then Inr (Some (f32_div_nat p 100))
                  else Inl (''CPUQuota out of range: `'' @ v @ bquote)
              | None \<Rightarrow> Inl (''CPUQuota out of range: `'' @ v @ bquote))))"

section \<open>Lists and scalars\<close>

definition unit_scalar :: "raw_unit_file \<Rightarrow> str \<Rightarrow> str \<Rightarrow> str option" where
  "unit_scalar raw sect key = raw_scalar raw sect key"

definition list_of :: "raw_unit_file \<Rightarrow> str \<Rightarrow> str \<Rightarrow> (str \<Rightarrow> str) \<Rightarrow> str list" where
  "list_of raw sect key ex = concat (map (\<lambda>v. split_ws (ex v)) (raw_list raw sect key))"

text \<open>\<open>if let Some(v) = unit_scalar(...) { cfg.field = parse(v)?; }\<close>.\<close>

definition with_scalar :: "raw_unit_file \<Rightarrow> str \<Rightarrow> str \<Rightarrow> (str \<Rightarrow> 'c \<Rightarrow> build_error + 'c) \<Rightarrow> 'c \<Rightarrow> build_error + 'c" where
  "with_scalar raw sect key f c =
     (case unit_scalar raw sect key of None \<Rightarrow> Inr c | Some v \<Rightarrow> f v c)"

definition set_field :: "('a \<Rightarrow> 'c \<Rightarrow> 'c) \<Rightarrow> build_error + 'a \<Rightarrow> 'c \<Rightarrow> build_error + 'c" where
  "set_field put r c = bnd r (\<lambda>x. Inr (put x c))"

definition all_values :: "raw_unit_file \<Rightarrow> str \<Rightarrow> str \<Rightarrow> (str \<Rightarrow> 'c \<Rightarrow> build_error + 'c) \<Rightarrow> 'c \<Rightarrow> build_error + 'c" where
  "all_values raw sect key f = fold_res f (raw_list raw sect key)"

section \<open>Conditions\<close>

definition condition_kinds :: "(str \<times> condition_kind) list" where
  "condition_kinds = [(''PathExists'', CondPathExists), (''FileNotEmpty'', CondFileNotEmpty),
     (''DirectoryNotEmpty'', CondDirectoryNotEmpty), (''PathIsReadWrite'', CondPathIsReadWrite),
     (''PathIsSymbolicLink'', CondPathIsSymbolicLink), (''User'', CondUser), (''Group'', CondGroup),
     (''Host'', CondHost)]"

definition parse_condition :: "condition_kind \<Rightarrow> str \<Rightarrow> bool \<Rightarrow> build_error + unit_condition" where
  "parse_condition kind raw_value is_assert =
     (let v0 = trim raw_value;
          (negate, v) = (case strip_prefix ''!'' v0 of Some r \<Rightarrow> (True, trim_start r) | None \<Rightarrow> (False, v0))
      in if List.member v (CHR ''|'') then
           Inl (BMsg (''OR (`|`) lists in '' @ (if is_assert then ''Assert'' else ''Condition'') @ '' are not supported''))
         else Inr \<lparr>cd_kind = kind, cd_value = v, cd_negate = negate, cd_is_assert = is_assert\<rparr>)"

definition build_conditions :: "raw_unit_file \<Rightarrow> (str \<Rightarrow> str) \<Rightarrow> build_error + unit_condition list" where
  "build_conditions raw ex =
     fold_res (\<lambda>(suffix, kind).
       fold_res (\<lambda>(is_assert, prefix).
         all_values raw ''Unit'' (prefix @ suffix) (\<lambda>v cs.
           bnd (parse_condition kind (ex v) is_assert) (\<lambda>c. Inr (cs @ [c]))))
         [(False, ''Condition''), (True, ''Assert'')])
       condition_kinds []"

section \<open>Sockets, paths and mounts\<close>

definition bool_scalar :: "raw_unit_file \<Rightarrow> str \<Rightarrow> str \<Rightarrow> (str \<Rightarrow> str) \<Rightarrow> bool \<Rightarrow> build_error + bool" where
  "bool_scalar raw sect key ex dflt =
     (case unit_scalar raw sect key of Some v \<Rightarrow> parse_bool (ex v) | None \<Rightarrow> Inr dflt)"

definition build_socket :: "raw_unit_file \<Rightarrow> (str \<Rightarrow> str) \<Rightarrow> build_error + socket_config" where
  "build_socket raw ex =
     bnd (bool_scalar raw ''Socket'' ''Accept'' ex False) (\<lambda>accept.
     Inr \<lparr>sk_listen_stream = list_of raw ''Socket'' ''ListenStream'' ex,
          sk_listen_datagram = list_of raw ''Socket'' ''ListenDatagram'' ex,
          sk_listen_netlink = list_of raw ''Socket'' ''ListenNetlink'' ex,
          sk_listen_sequential_packet = list_of raw ''Socket'' ''ListenSequentialPacket'' ex,
          sk_accept = accept,
          sk_service = map_option ex (unit_scalar raw ''Socket'' ''Service'')\<rparr>)"

definition build_path :: "raw_unit_file \<Rightarrow> (str \<Rightarrow> str) \<Rightarrow> build_error + path_config" where
  "build_path raw ex =
     bnd (bool_scalar raw ''Path'' ''MakeDirectory'' ex False) (\<lambda>mk.
     Inr \<lparr>pc_path_exists = list_of raw ''Path'' ''PathExists'' ex,
          pc_path_exists_glob = list_of raw ''Path'' ''PathExistsGlob'' ex,
          pc_path_changed = list_of raw ''Path'' ''PathChanged'' ex,
          pc_directory_not_empty = list_of raw ''Path'' ''DirectoryNotEmpty'' ex,
          pc_unit = map_option ex (unit_scalar raw ''Path'' ''Unit''),
          pc_make_directory = mk\<rparr>)"

text \<open>\<open>String::from_utf8\<close> accepts well-formed UTF-8 only.\<close>

definition is_cont :: "char \<Rightarrow> bool" where
  "is_cont c \<longleftrightarrow> 128 \<le> code c \<and> code c < 192"

fun utf8_valid :: "str \<Rightarrow> bool" where
  "utf8_valid [] = True"
| "utf8_valid (a # s) =
     (if code a < 128 then utf8_valid s
      else (case s of
              [] \<Rightarrow> False
            | b # s1 \<Rightarrow>
                if 194 \<le> code a \<and> code a < 224 then is_cont b \<and> utf8_valid s1
                else (case s1 of
                        [] \<Rightarrow> False
                      | c # s2 \<Rightarrow>
                          if 224 \<le> code a \<and> code a < 240 then
                            is_cont b \<and> is_cont c \<and> (code a = 224 \<longrightarrow> 160 \<le> code b) \<and>
                            (code a = 237 \<longrightarrow> code b < 160) \<and> utf8_valid s2
                          else (case s2 of
                                  [] \<Rightarrow> False
                                | d # s3 \<Rightarrow>
                                    240 \<le> code a \<and> code a < 245 \<and> is_cont b \<and> is_cont c \<and> is_cont d \<and>
                                    (code a = 240 \<longrightarrow> 144 \<le> code b) \<and> (code a = 244 \<longrightarrow> code b < 144) \<and>
                                    utf8_valid s3))))"

fun unescape_path :: "str \<Rightarrow> str" where
  "unescape_path [] = []"
| "unescape_path (c # cs) =
     (if c = CHR ''-'' then CHR ''/'' # unescape_path cs
      else if c = CHR 0x5C \<and> length cs \<ge> 3 \<and> hd cs = CHR ''x'' then
        (case hex_byte (take 2 (tl cs)) of
           Some v \<Rightarrow> char_of v # unescape_path (drop 3 cs)
         | None \<Rightarrow> CHR 0x5C # unescape_path cs)
      else c # unescape_path cs)"

definition mount_path_from_unit_name :: "str \<Rightarrow> str option" where
  "mount_path_from_unit_name name =
     (case strip_suffix ''.mount'' name of
        None \<Rightarrow> None
      | Some stem \<Rightarrow>
          (let out = CHR ''/'' # unescape_path stem in if utf8_valid out then Some out else None))"

definition build_mount :: "raw_unit_file \<Rightarrow> (str \<Rightarrow> str) \<Rightarrow> specifier_context \<Rightarrow> build_error + mount_config" where
  "build_mount raw ex spec =
     bnd (case unit_scalar raw ''Mount'' ''Where'' of
            Some v \<Rightarrow> bnd (lift_str (unquote_scalar (ex v))) (\<lambda>p. Inr (Some p))
          | None \<Rightarrow> Inr (mount_path_from_unit_name (sp_unit_name spec))) (\<lambda>wh.
     Inr \<lparr>mc_what = map_option ex (unit_scalar raw ''Mount'' ''What''),
          mc_where = wh,
          mc_fs_type = map_option ex (unit_scalar raw ''Mount'' ''Type''),
          mc_options = map_option ex (unit_scalar raw ''Mount'' ''Options'')\<rparr>)"

section \<open>Timers\<close>

definition spans_of :: "raw_unit_file \<Rightarrow> str \<Rightarrow> (str \<Rightarrow> str) \<Rightarrow> build_error + nat list" where
  "spans_of raw key ex = map_res (\<lambda>v. lift_span (parse_timespan (ex v))) (raw_list raw ''Timer'' key)"

definition span_scalar :: "raw_unit_file \<Rightarrow> str \<Rightarrow> str \<Rightarrow> (str \<Rightarrow> str) \<Rightarrow> nat \<Rightarrow> build_error + nat" where
  "span_scalar raw sect key ex dflt =
     (case unit_scalar raw sect key of Some v \<Rightarrow> lift_span (parse_timespan (ex v)) | None \<Rightarrow> Inr dflt)"

fun calendars_of :: "(str \<Rightarrow> str) \<Rightarrow> str list \<Rightarrow> (build_error + calendar_spec list) option" where
  "calendars_of ex [] = Some (Inr [])"
| "calendars_of ex (v # vs) =
     (case parse_calendar (ex v) of
        None \<Rightarrow> None
      | Some (Inl e) \<Rightarrow> Some (Inl (BCalendar e))
      | Some (Inr c) \<Rightarrow> map_option (\<lambda>r. bnd r (\<lambda>cs. Inr (c # cs))) (calendars_of ex vs))"

definition timer_rest :: "raw_unit_file \<Rightarrow> (str \<Rightarrow> str) \<Rightarrow> calendar_spec list \<Rightarrow> build_error + timer_config" where
  "timer_rest raw ex cal =
     bnd (spans_of raw ''OnBootSec'' ex) (\<lambda>boot.
     bnd (spans_of raw ''OnStartupSec'' ex) (\<lambda>startup.
     bnd (spans_of raw ''OnUnitActiveSec'' ex) (\<lambda>act.
     bnd (spans_of raw ''OnUnitInactiveSec'' ex) (\<lambda>inact.
     bnd (bool_scalar raw ''Timer'' ''Persistent'' ex False) (\<lambda>pers.
     bnd (span_scalar raw ''Timer'' ''AccuracySec'' ex (60 * 1000000)) (\<lambda>acc.
     bnd (span_scalar raw ''Timer'' ''RandomizedDelaySec'' ex 0) (\<lambda>rnd.
     bnd (bool_scalar raw ''Timer'' ''RemainAfterElapse'' ex False) (\<lambda>remain.
     Inr \<lparr>tc_on_calendar = cal, tc_on_boot_sec = boot, tc_on_startup_sec = startup,
          tc_on_active_sec = act, tc_on_inactive_sec = inact, tc_persistent = pers,
          tc_accuracy_sec = acc, tc_randomized_delay_sec = rnd,
          tc_unit = map_option ex (unit_scalar raw ''Timer'' ''Unit''),
          tc_remain_after_elapse = remain, tc_wake_system = False\<rparr>))))))))"

definition build_timer :: "raw_unit_file \<Rightarrow> (str \<Rightarrow> str) \<Rightarrow> (build_error + timer_config) option" where
  "build_timer raw ex =
     map_option (\<lambda>r. bnd r (timer_rest raw ex)) (calendars_of ex (raw_list raw ''Timer'' ''OnCalendar''))"

section \<open>Sandbox directives\<close>

definition family_table :: "(str \<times> nat) list" where
  "family_table = [(''UNSPEC'', 0), (''UNIX'', 1), (''LOCAL'', 1), (''FILE'', 1), (''INET'', 2),
     (''AX25'', 3), (''IPX'', 4), (''APPLETALK'', 5), (''NETROM'', 6), (''BRIDGE'', 7), (''ATMPVC'', 8),
     (''X25'', 9), (''INET6'', 10), (''ROSE'', 11), (''DECnet'', 12), (''NETBEUI'', 13),
     (''SECURITY'', 14), (''KEY'', 15), (''NETLINK'', 16), (''ROUTE'', 16), (''PACKET'', 17),
     (''ASH'', 18), (''ECONET'', 19), (''ATMSVC'', 20), (''RDS'', 21), (''SNA'', 22), (''IRDA'', 23),
     (''PPPOX'', 24), (''WANPIPE'', 25), (''LLC'', 26), (''IB'', 27), (''MPLS'', 28), (''CAN'', 29),
     (''TIPC'', 30), (''BLUETOOTH'', 31), (''IUCV'', 32), (''RX'', 33), (''ISDN'', 34), (''PHONET'', 35),
     (''IEEE802154'', 36), (''CAIF'', 37), (''ALG'', 38), (''NFC'', 39), (''VSOCK'', 40), (''KCM'', 41),
     (''QIPCRTR'', 42), (''XDP'', 44), (''MCTP'', 45)]"

definition address_family_number :: "str \<Rightarrow> nat option" where
  "address_family_number name =
     (case parse_u32 name of
        Some n \<Rightarrow> Some n
      | None \<Rightarrow>
          (let up = upper name
           in map_of family_table (case strip_prefix ''AF_'' up of Some r \<Rightarrow> r | None \<Rightarrow> up)))"

definition strip_tilde :: "str \<Rightarrow> str" where
  "strip_tilde s = dropWhile (\<lambda>c. c = CHR ''~'') s"

fun families_loop :: "str list \<Rightarrow> bool \<times> bool \<times> nat list \<Rightarrow> build_error + bool \<times> bool \<times> nat list" where
  "families_loop [] st = Inr st"
| "families_loop (tok # toks) (deny, deny_all, families) =
     (let deny' = (deny \<or> starts_with ''~'' tok); name = strip_tilde tok in
      if eq_nocase name ''all'' then families_loop toks (deny', True, families)
      else (case address_family_number name of
              None \<Rightarrow> Inl (BMsg (''RestrictAddressFamilies: unknown family `'' @ name @ bquote))
            | Some n \<Rightarrow> families_loop toks (deny', deny_all, families @ [n])))"

definition parse_address_families :: "str \<Rightarrow> build_error + bool \<times> nat list \<times> bool" where
  "parse_address_families v =
     bnd (families_loop (split_ws v) (False, False, [])) (\<lambda>(deny, deny_all, families).
       Inr (deny, remdups_adj (sort families), deny_all))"

definition parse_protect :: "str \<Rightarrow> build_error + protect_mode" where
  "parse_protect v =
     (let s = trim v in
      if List.member [''yes'', ''true'', ''1'', ''read-only''] s then Inr ProtectReadOnly
      else if s = ''tmpfs'' then Inr ProtectTmpfs
      else if List.member [''no'', ''false'', ''0'', []] s then Inr ProtectNo
      else Inl (BMsg (''invalid ProtectHome value `'' @ s @ ''` (expected yes|read-only|tmpfs|no)'')))"

definition parse_protect_system :: "str \<Rightarrow> build_error + protect_system_level" where
  "parse_protect_system v =
     (let s = trim v in
      if List.member [''yes'', ''true'', ''1''] s then Inr SystemYes
      else if s = ''full'' then Inr SystemFull
      else if s = ''strict'' then Inr SystemStrict
      else if List.member [''no'', ''false'', ''0'', []] s then Inr SystemNo
      else Inl (BMsg (''invalid ProtectSystem value `'' @ s @ ''` (expected yes|full|strict|no)'')))"

definition errno_table :: "(str \<times> nat) list" where
  "errno_table = [(''EPERM'', 1), (''ENOENT'', 2), (''ESRCH'', 3), (''EINTR'', 4), (''EIO'', 5),
     (''EAGAIN'', 11), (''EACCES'', 13), (''EFAULT'', 14), (''ENOTBLK'', 15), (''EBUSY'', 16),
     (''EEXIST'', 17), (''ENODEV'', 19), (''ENOTDIR'', 20), (''EISDIR'', 21), (''EINVAL'', 22),
     (''ENFILE'', 23), (''ENOSPC'', 28), (''EROFS'', 30), (''ENOSYS'', 38), (''ERESTARTSYS'', 85),
     (''ENOTSUP'', 95), (''EUCLEAN'', 117)]"

definition parse_errno :: "str \<Rightarrow> build_error + nat" where
  "parse_errno v0 =
     (let v = trim v0 in
      case map_of errno_table (upper v) of
        Some n \<Rightarrow> Inr n
      | None \<Rightarrow> (case parse_u32 v of
                    Some n \<Rightarrow> Inr n
                  | None \<Rightarrow> Inl (BMsg (''SystemCallErrorNumber: unknown errno `'' @ v @ bquote))))"

text \<open>The tokens of all the \<^verbatim>\<open>SystemCallFilter=\<close> lines; an empty line clears what came before.\<close>

definition filter_tokens :: "str list \<Rightarrow> str list" where
  "filter_tokens lines = fold (\<lambda>l toks. if trim l = [] then [] else toks @ split_ws l) lines []"

definition parse_syscall_filter :: "raw_unit_file \<Rightarrow> (str \<Rightarrow> str) \<Rightarrow> sandbox_config \<Rightarrow> build_error + sandbox_config" where
  "parse_syscall_filter raw ex s =
     (let lines = map ex (raw_list raw ''Service'' ''SystemCallFilter'') in
      if lines = [] then Inr s
      else
        (let tokens = filter_tokens lines in
         bnd (if tokens = [] then Inr s
              else bnd (lift_str (resolve_syscalls (map strip_tilde tokens))) (\<lambda>nrs.
                     Inr (s\<lparr>sb_syscall_deny := starts_with ''~'' (hd tokens), sb_syscall_nrs := nrs\<rparr>))) (\<lambda>s'.
         bnd (parse_errno ''EPERM'') (\<lambda>n. Inr (s'\<lparr>sb_syscall_errno := n\<rparr>)))))"

definition compat_keys :: "str list" where
  "compat_keys = [''SystemCallArchitectures'', ''RestrictNamespaces'', ''RemoveIPC'', ''DeviceAllow'',
     ''DevicePolicy'', ''IPAddressDeny'', ''IPAddressAllow'', ''SocketBindDeny'', ''SocketBindAllow'',
     ''DynamicUser'', ''ProtectKernelTunables'', ''ProtectKernelModules'', ''ProtectKernelLogs'',
     ''ProtectControlGroups'', ''ProtectClock'', ''ProtectHostname'', ''ProtectProc'', ''ProcSubset'',
     ''RestrictFileSystems'']"

definition compat_of :: "raw_unit_file \<Rightarrow> (str \<Rightarrow> str) \<Rightarrow> (str \<times> str) list" where
  "compat_of raw ex =
     concat (map (\<lambda>key. map (\<lambda>v. (key, ex v))
       (filter (\<lambda>v. trim v \<noteq> []) (raw_list raw ''Service'' key))) compat_keys)"

type_synonym 'c build_step = "'c \<Rightarrow> build_error + 'c"

definition run_steps :: "'c build_step list \<Rightarrow> 'c build_step" where
  "run_steps steps = fold_res (\<lambda>f. f) steps"

definition sandbox_steps :: "raw_unit_file \<Rightarrow> (str \<Rightarrow> str) \<Rightarrow> sandbox_config build_step list" where
  "sandbox_steps raw ex =
     (let sc = with_scalar raw ''Service'' in
     [sc ''NoNewPrivileges'' (\<lambda>v. set_field (\<lambda>b s. s\<lparr>sb_no_new_privileges := b\<rparr>) (parse_bool (ex v))),
      sc ''PrivateTmp'' (\<lambda>v. set_field (\<lambda>b s. s\<lparr>sb_private_tmp := b\<rparr>) (parse_bool (ex v))),
      sc ''PrivateDevices'' (\<lambda>v. set_field (\<lambda>b s. s\<lparr>sb_private_devices := b\<rparr>) (parse_bool (ex v))),
      sc ''RestrictRealtime'' (\<lambda>v. set_field (\<lambda>b s. s\<lparr>sb_restrict_realtime := b\<rparr>) (parse_bool (ex v))),
      sc ''LockPersonality'' (\<lambda>v. set_field (\<lambda>b s. s\<lparr>sb_lock_personality := b\<rparr>) (parse_bool (ex v))),
      sc ''RestrictSUIDSGID'' (\<lambda>v. set_field (\<lambda>b s. s\<lparr>sb_restrict_suidsgid := b\<rparr>) (parse_bool (ex v))),
      sc ''RestrictAddressFamilies'' (\<lambda>v s.
        if trim (ex v) = [] then Inr s
        else bnd (parse_address_families (ex v)) (\<lambda>(deny, families, deny_all).
          Inr (s\<lparr>sb_af_present := True, sb_af_deny := deny, sb_af_families := families,
                 sb_af_deny_all := deny_all\<rparr>))),
      sc ''MemoryDenyWriteExecute'' (\<lambda>v. set_field (\<lambda>b s. s\<lparr>sb_memory_deny_write_execute := b\<rparr>) (parse_bool (ex v))),
      sc ''ProtectHome'' (\<lambda>v. set_field (\<lambda>b s. s\<lparr>sb_protect_home := b\<rparr>) (parse_protect (ex v))),
      sc ''ProtectSystem'' (\<lambda>v. set_field (\<lambda>b s. s\<lparr>sb_protect_system := b\<rparr>) (parse_protect_system (ex v))),
      (\<lambda>s. Inr (s\<lparr>sb_read_only_paths := list_of raw ''Service'' ''ReadOnlyPaths'' ex\<rparr>)),
      sc ''CapabilityBoundingSet'' (\<lambda>v s.
        Inr (s\<lparr>sb_bounding_invert := starts_with ''~'' (trim_start (ex v)),
               sb_bounding_set := filter (\<lambda>c. c \<noteq> []) (map strip_tilde (split_ws (ex v)))\<rparr>)),
      (\<lambda>s. Inr (s\<lparr>sb_ambient_set := split_ws (ex (case unit_scalar raw ''Service'' ''AmbientCapabilities'' of
                     Some v \<Rightarrow> v | None \<Rightarrow> []))\<rparr>)),
      parse_syscall_filter raw ex,
      sc ''SystemCallErrorNumber'' (\<lambda>v s.
        let e = upper (trim (ex v)) in
        if e = [] then Inr s else set_field (\<lambda>n s. s\<lparr>sb_syscall_errno := n\<rparr>) (parse_errno e) s),
      (\<lambda>s. Inr (s\<lparr>sb_compat := sb_compat s @ compat_of raw ex\<rparr>))])"

definition parse_sandbox :: "raw_unit_file \<Rightarrow> (str \<Rightarrow> str) \<Rightarrow> service_config build_step" where
  "parse_sandbox raw ex c =
     bnd (run_steps (sandbox_steps raw ex) (sc_sandbox c)) (\<lambda>s. Inr (c\<lparr>sc_sandbox := s\<rparr>))"

section \<open>Services\<close>

definition parse_stdio :: "str \<Rightarrow> build_error + stdio_target" where
  "parse_stdio v =
     (let ignore = starts_with ''-'' v; s = (if ignore then drop 1 v else v) in
      if List.member [''journal'', ''kmsg'', ''syslog'', ''inherit'', ''journal+console''] s then Inr StdJournal
      else if s = ''null'' then Inr StdDiscard
      else (case strip_prefix ''file:'' s of
              Some f \<Rightarrow> Inr (StdFile f)
            | None \<Rightarrow>
                if ignore then Inr StdJournal
                else Inl (BMsg (''unsupported StandardOutput/std error value `'' @ v @ bquote))))"

definition exec_entry :: "str \<Rightarrow> exec_command list \<Rightarrow> build_error + exec_command list" where
  "exec_entry expanded out =
     (let trimmed = trim_start expanded;
          (ignore, rest) = (case strip_prefix ''-'' trimmed of Some r \<Rightarrow> (True, trim_start r) | None \<Rightarrow> (False, trimmed))
      in if trim rest = [] then Inr out
         else bnd (lift_str (tokenize rest)) (\<lambda>argv.
           Inr (if argv = [] then out else out @ [\<lparr>ec_argv = argv, ec_ignore_failure = ignore\<rparr>])))"

definition exec_list :: "raw_unit_file \<Rightarrow> str \<Rightarrow> (str \<Rightarrow> str) \<Rightarrow> build_error + exec_command list" where
  "exec_list raw key ex = all_values raw ''Service'' key (\<lambda>v. exec_entry (ex v)) []"

definition parse_service_type :: "str \<Rightarrow> build_error + service_type" where
  "parse_service_type v =
     (let l = lower v in
      if l = ''simple'' then Inr Simple else if l = ''exec'' then Inr Exec
      else if l = ''oneshot'' then Inr Oneshot else if l = ''forking'' then Inr Forking
      else if l = ''notify'' then Inr Notify else if l = ''dbus'' then Inr Dbus
      else if l = ''idle'' then Inr Idle
      else Inl (BMsg (''invalid service Type `'' @ l @ bquote)))"

definition parse_restart :: "str \<Rightarrow> build_error + restart_policy" where
  "parse_restart v =
     (let l = lower v in
      if l = ''no'' then Inr RestartNo else if l = ''on-success'' then Inr OnSuccess
      else if l = ''on-failure'' then Inr OnFailure else if l = ''on-abnormal'' then Inr OnAbnormal
      else if l = ''on-abort'' then Inr OnAbort else if l = ''on-watchdog'' then Inr OnWatchdog
      else if l = ''always'' then Inr RestartAlways
      else Inl (BMsg (''invalid Restart policy `'' @ l @ bquote)))"

definition parse_kill_mode :: "str \<Rightarrow> build_error + kill_mode" where
  "parse_kill_mode v =
     (let l = lower v in
      if List.member [''control-group'', ''mixed'', ''none''] l then Inr KillControlGroup
      else if l = ''process'' then Inr KillProcess
      else Inl (BMsg (''unsupported KillMode `'' @ l @ bquote)))"

definition parse_std_input :: "str \<Rightarrow> build_error + bool" where
  "parse_std_input v =
     (let l = lower v in
      if List.member [''null'', ''data''] l then Inr False
      else if List.member [''inherit'', ''tty''] l then Inr True
      else Inl (BMsg (''unsupported StandardInput `'' @ l @ bquote)))"

fun env_assignments :: "str list \<Rightarrow> (str \<times> str) list \<Rightarrow> build_error + (str \<times> str) list" where
  "env_assignments [] env = Inr env"
| "env_assignments (tok # toks) env =
     (case split_once ''='' tok of
        Some (k, v) \<Rightarrow> env_assignments toks (env @ [(k, v)])
      | None \<Rightarrow> Inl (BMsg (''Environment assignment `'' @ tok @ ''` lacks `=`'')))"

definition environment_file :: "str \<Rightarrow> str \<times> bool" where
  "environment_file tok = (case strip_prefix ''-'' tok of Some p \<Rightarrow> (p, True) | None \<Rightarrow> (tok, False))"

definition parse_kill_signal :: "str \<Rightarrow> str \<Rightarrow> build_error + int option" where
  "parse_kill_signal v expanded =
     (case split_ws expanded of
        [] \<Rightarrow> Inl (BMsg (''invalid KillSignal `'' @ v @ bquote))
      | w # _ \<Rightarrow> (case sig_from_name w of
                    Some n \<Rightarrow> Inr (Some n) | None \<Rightarrow> Inl (BMsg (''invalid KillSignal `'' @ v @ bquote))))"

definition parse_weight :: "str \<Rightarrow> str \<Rightarrow> str \<Rightarrow> build_error + nat" where
  "parse_weight key v text =
     (case parse_u32 text of
        None \<Rightarrow> Inl (BMsg (''invalid '' @ key @ '' `'' @ v @ bquote))
      | Some n \<Rightarrow>
          if n = 0 \<or> n > 10000 then Inl (BMsg (key @ '' out of range 1..=10000: `'' @ v @ bquote)) else Inr n)"

definition parse_device_weight :: "str \<Rightarrow> str \<Rightarrow> build_error + str \<times> nat" where
  "parse_device_weight v expanded =
     (case split_ws expanded of
        [path, w] \<Rightarrow>
          (case parse_u32 w of
             None \<Rightarrow> Inl (BMsg (''invalid IODeviceWeight weight `'' @ v @ bquote))
           | Some n \<Rightarrow>
               if n = 0 \<or> n > 10000 then Inl (BMsg (''IODeviceWeight out of range 1..=10000: `'' @ v @ bquote))
               else Inr (path, n))
      | _ \<Rightarrow> Inl (BMsg (''IODeviceWeight expects `path weight`: `'' @ v @ bquote)))"

definition parse_tasks_max :: "str \<Rightarrow> str \<Rightarrow> build_error + nat" where
  "parse_tasks_max v t =
     (if eq_nocase (trim t) ''infinity'' then Inr u64_max
      else (case parse_u64 (trim t) of
              Some n \<Rightarrow> Inr n | None \<Rightarrow> Inl (BMsg (''invalid TasksMax `'' @ v @ bquote))))"

definition directory_keys :: "(str \<times> directory_kind) list" where
  "directory_keys = [(''RuntimeDirectory'', DirRuntime), (''StateDirectory'', DirState),
     (''CacheDirectory'', DirCache), (''LogsDirectory'', DirLogs), (''ConfigurationDirectory'', DirConfiguration)]"

definition build_directories :: "raw_unit_file \<Rightarrow> (str \<Rightarrow> str) \<Rightarrow> service_config build_step" where
  "build_directories raw ex =
     fold_res (\<lambda>(dir, kind). all_values raw ''Service'' dir (\<lambda>v.
       fold_res (\<lambda>tok c. bnd (parse_directory kind tok) (\<lambda>d. Inr (c\<lparr>sc_directories := sc_directories c @ [d]\<rparr>)))
         (split_ws (ex v)))) directory_keys"

abbreviation upd_limits :: "(cgroup_limits \<Rightarrow> cgroup_limits) \<Rightarrow> service_config \<Rightarrow> service_config" where
  "upd_limits f c \<equiv> c\<lparr>sc_cgroup_limits := f (sc_cgroup_limits c)\<rparr>"

abbreviation add_rlimit :: "rlimit \<Rightarrow> service_config \<Rightarrow> service_config" where
  "add_rlimit r c \<equiv> c\<lparr>sc_rlimits := sc_rlimits c @ [r]\<rparr>"

definition exec_steps :: "raw_unit_file \<Rightarrow> (str \<Rightarrow> str) \<Rightarrow> service_config build_step list" where
  "exec_steps raw ex =
     (let sc = with_scalar raw ''Service'' in
     [sc ''Type'' (\<lambda>v. set_field (\<lambda>t c. c\<lparr>sc_service_type := t\<rparr>) (parse_service_type (ex v))),
      sc ''BusName'' (\<lambda>v. set_field (\<lambda>b c. c\<lparr>sc_bus_name := Some b\<rparr>) (lift_str (unquote_scalar (ex v)))),
      sc ''RemainAfterExit'' (\<lambda>v. set_field (\<lambda>b c. c\<lparr>sc_remain_after_exit := b\<rparr>) (parse_bool (ex v))),
      set_field (\<lambda>x c. c\<lparr>sc_exec_start_pre := x\<rparr>) (exec_list raw ''ExecStartPre'' ex),
      set_field (\<lambda>x c. c\<lparr>sc_exec_start := x\<rparr>) (exec_list raw ''ExecStart'' ex),
      set_field (\<lambda>x c. c\<lparr>sc_exec_start_post := x\<rparr>) (exec_list raw ''ExecStartPost'' ex),
      set_field (\<lambda>x c. c\<lparr>sc_exec_stop := x\<rparr>) (exec_list raw ''ExecStop'' ex),
      set_field (\<lambda>x c. c\<lparr>sc_exec_reload := x\<rparr>) (exec_list raw ''ExecReload'' ex),
      sc ''Restart'' (\<lambda>v. set_field (\<lambda>p c. c\<lparr>sc_restart := p\<rparr>) (parse_restart (ex v))),
      sc ''RestartSec'' (\<lambda>v. set_field (\<lambda>t c. c\<lparr>sc_restart_sec := t\<rparr>) (lift_span (parse_timespan (ex v)))),
      sc ''RestartRandomizedDelaySec'' (\<lambda>v. set_field (\<lambda>t c. c\<lparr>sc_restart_randomized_delay_sec := t\<rparr>)
        (lift_span (parse_timespan (ex v)))),
      sc ''TimeoutStartSec'' (\<lambda>v. set_field (\<lambda>t c. c\<lparr>sc_timeout_start_sec := t\<rparr>) (lift_span (parse_timespan (ex v)))),
      sc ''TimeoutStopSec'' (\<lambda>v. set_field (\<lambda>t c. c\<lparr>sc_timeout_stop_sec := t\<rparr>) (lift_span (parse_timespan (ex v))))])"

definition process_steps :: "raw_unit_file \<Rightarrow> (str \<Rightarrow> str) \<Rightarrow> service_config build_step list" where
  "process_steps raw ex =
     (let sc = with_scalar raw ''Service'' in
     [all_values raw ''Service'' ''Environment'' (\<lambda>v c.
        bnd (lift_str (tokenize (ex v))) (\<lambda>toks.
        bnd (env_assignments toks (sc_environment c)) (\<lambda>env. Inr (c\<lparr>sc_environment := env\<rparr>)))),
      all_values raw ''Service'' ''EnvironmentFile'' (\<lambda>v c.
        bnd (lift_str (tokenize (ex v))) (\<lambda>toks.
        Inr (c\<lparr>sc_environment_files := sc_environment_files c @ map environment_file toks\<rparr>))),
      sc ''WorkingDirectory'' (\<lambda>v c. Inr (c\<lparr>sc_working_directory := Some (environment_file (ex v))\<rparr>)),
      sc ''User'' (\<lambda>v c. Inr (c\<lparr>sc_user := Some (ex v)\<rparr>)),
      sc ''Group'' (\<lambda>v c. Inr (c\<lparr>sc_group := Some (ex v)\<rparr>)),
      sc ''Nice'' (\<lambda>v c. case parse_i32 (ex v) of
        Some n \<Rightarrow> Inr (c\<lparr>sc_nice := Some n\<rparr>) | None \<Rightarrow> Inl (BMsg (''invalid Nice `'' @ v @ bquote))),
      sc ''UMask'' (\<lambda>v. set_field (\<lambda>n c. c\<lparr>sc_umask := Some n\<rparr>) (parse_octal (ex v))),
      sc ''KillSignal'' (\<lambda>v. set_field (\<lambda>n c. c\<lparr>sc_kill_signal := n\<rparr>) (parse_kill_signal v (ex v))),
      sc ''KillMode'' (\<lambda>v. set_field (\<lambda>k c. c\<lparr>sc_kill_mode := k\<rparr>) (parse_kill_mode (ex v))),
      sc ''SendSIGKILL'' (\<lambda>v. set_field (\<lambda>b c. c\<lparr>sc_send_sigkill := b\<rparr>) (parse_bool (ex v))),
      sc ''SuccessExitStatus'' (\<lambda>v. set_field (\<lambda>x c. c\<lparr>sc_success_exit_status := Some x\<rparr>)
        (lift_exit (parse_exit_status (ex v)))),
      sc ''PIDFile'' (\<lambda>v. set_field (\<lambda>p c. c\<lparr>sc_pid_file := Some p\<rparr>) (lift_str (unquote_scalar (ex v))))])"

definition limit_steps :: "raw_unit_file \<Rightarrow> (str \<Rightarrow> str) \<Rightarrow> service_config build_step list" where
  "limit_steps raw ex =
     (let sc = with_scalar raw ''Service''; all = all_values raw ''Service'' in
     [all ''LimitNOFILE'' (\<lambda>v. set_field add_rlimit (parse_rlimit NoFile (ex v))),
      all ''LimitNPROC'' (\<lambda>v. set_field add_rlimit (parse_rlimit NProc (ex v))),
      all ''LimitCORE'' (\<lambda>v. set_field add_rlimit (parse_rlimit Core (ex v))),
      all ''LimitAS'' (\<lambda>v. set_field add_rlimit (parse_rlimit AddressSpace (ex v))),
      sc ''MemoryMax'' (\<lambda>v. set_field (\<lambda>n. upd_limits (\<lambda>l. l\<lparr>cg_memory_max := Some n\<rparr>)) (parse_bytes (ex v))),
      sc ''MemoryHigh'' (\<lambda>v. set_field (\<lambda>n. upd_limits (\<lambda>l. l\<lparr>cg_memory_high := Some n\<rparr>)) (parse_bytes (ex v))),
      sc ''CPUWeight'' (\<lambda>v. set_field (\<lambda>n. upd_limits (\<lambda>l. l\<lparr>cg_cpu_weight := Some n\<rparr>))
        (parse_weight ''CPUWeight'' v (trim (ex v)))),
      sc ''CPUQuota'' (\<lambda>v c. case parse_cpu_quota (ex v) of
        Inl e \<Rightarrow> Inl (BMsg (''invalid CPUQuota `'' @ v @ ''`: '' @ e))
      | Inr q \<Rightarrow> Inr (upd_limits (\<lambda>l. l\<lparr>cg_cpu_quota := q\<rparr>) c)),
      sc ''IOWeight'' (\<lambda>v. set_field (\<lambda>n. upd_limits (\<lambda>l. l\<lparr>cg_io_weight := Some n\<rparr>))
        (parse_weight ''IOWeight'' v (trim (ex v)))),
      all ''IODeviceWeight'' (\<lambda>v. set_field (\<lambda>d. upd_limits (\<lambda>l. l\<lparr>cg_io_device_weights := cg_io_device_weights l @ [d]\<rparr>))
        (parse_device_weight v (ex v))),
      sc ''TasksMax'' (\<lambda>v. set_field (\<lambda>n. upd_limits (\<lambda>l. l\<lparr>cg_tasks_max := Some n\<rparr>)) (parse_tasks_max v (ex v))),
      sc ''StandardOutput'' (\<lambda>v. set_field (\<lambda>t c. c\<lparr>sc_std_output := t\<rparr>) (parse_stdio (ex v))),
      sc ''StandardError'' (\<lambda>v. set_field (\<lambda>t c. c\<lparr>sc_std_error := t\<rparr>) (parse_stdio (ex v))),
      sc ''StandardInput'' (\<lambda>v. set_field (\<lambda>b c. c\<lparr>sc_std_input := b\<rparr>) (parse_std_input (ex v))),
      build_directories raw ex,
      parse_sandbox raw ex])"

definition build_service :: "raw_unit_file \<Rightarrow> (str \<Rightarrow> str) \<Rightarrow> build_error + service_config" where
  "build_service raw ex =
     run_steps (exec_steps raw ex @ process_steps raw ex @ limit_steps raw ex) service_default"

section \<open>Unit files\<close>

definition build_unit_section :: "raw_unit_file \<Rightarrow> (str \<Rightarrow> str) \<Rightarrow> build_error + unit_config" where
  "build_unit_section raw ex =
     bnd (case unit_scalar raw ''Unit'' ''Description'' of
            Some v \<Rightarrow> lift_str (unquote_scalar (ex v)) | None \<Rightarrow> Inr []) (\<lambda>descr.
     bnd (bool_scalar raw ''Unit'' ''DefaultDependencies'' ex True) (\<lambda>deps.
     bnd (build_conditions raw ex) (\<lambda>conds.
     Inr \<lparr>uc_description = descr,
          uc_after = list_of raw ''Unit'' ''After'' ex,
          uc_before = list_of raw ''Unit'' ''Before'' ex,
          uc_requires = list_of raw ''Unit'' ''Requires'' ex,
          uc_requisite = list_of raw ''Unit'' ''Requisite'' ex,
          uc_wants = list_of raw ''Unit'' ''Wants'' ex,
          uc_conflicts = list_of raw ''Unit'' ''Conflicts'' ex,
          uc_on_failure = list_of raw ''Unit'' ''OnFailure'' ex,
          uc_part_of = list_of raw ''Unit'' ''PartOf'' ex,
          uc_binds_to = list_of raw ''Unit'' ''BindsTo'' ex,
          uc_default_dependencies = deps,
          uc_documentation = map ex (raw_list raw ''Unit'' ''Documentation''),
          uc_conditions = conds\<rparr>)))"

definition build_install :: "raw_unit_file \<Rightarrow> (str \<Rightarrow> str) \<Rightarrow> install_config" where
  "build_install raw ex =
     \<lparr>ic_wanted_by = list_of raw ''Install'' ''WantedBy'' ex,
      ic_required_by = list_of raw ''Install'' ''RequiredBy'' ex,
      ic_also = list_of raw ''Install'' ''Also'' ex,
      ic_alias = list_of raw ''Install'' ''Alias'' ex\<rparr>"

text \<open>\<open>Some\<close> of the built section when the unit has this kind.\<close>

definition section_if :: "bool \<Rightarrow> build_error + 'a \<Rightarrow> build_error + 'a option" where
  "section_if b r = (if b then bnd r (\<lambda>x. Inr (Some x)) else Inr None)"

definition build_rest :: "raw_unit_file \<Rightarrow> specifier_context \<Rightarrow> unit_kind \<Rightarrow> unit_config \<Rightarrow>
    service_config option \<Rightarrow> timer_config option \<Rightarrow> build_error + unit_file" where
  "build_rest raw spec kind unit svc tmr =
     (let ex = sp_expand spec in
      bnd (section_if (kind = Path) (build_path raw ex)) (\<lambda>pth.
      bnd (section_if (kind = Socket) (build_socket raw ex)) (\<lambda>sk.
      bnd (section_if (kind = Mount) (build_mount raw ex spec)) (\<lambda>mnt.
      Inr \<lparr>uf_path = None, uf_unit = unit, uf_service = svc, uf_timer = tmr, uf_path_unit = pth,
           uf_socket = sk, uf_mount = mnt, uf_install = build_install raw ex\<rparr>))))"

definition build :: "raw_unit_file \<Rightarrow> specifier_context \<Rightarrow> (build_error + unit_file) option" where
  "build raw spec =
     (let ex = sp_expand spec in
      case build_unit_section raw ex of
        Inl e \<Rightarrow> Some (Inl e)
      | Inr unit \<Rightarrow>
          (case kind_from_unit_name (sp_unit_name spec) of
             None \<Rightarrow> Some (Inl (BMsg (''unsupported unit type in name `'' @ sp_unit_name spec @ bquote)))
           | Some kind \<Rightarrow>
               (case section_if (kind = Service) (build_service raw ex) of
                  Inl e \<Rightarrow> Some (Inl e)
                | Inr svc \<Rightarrow>
                    if kind = Timer then
                      map_option (\<lambda>r. bnd r (\<lambda>t. build_rest raw spec kind unit svc (Some t))) (build_timer raw ex)
                    else Some (build_rest raw spec kind unit svc None))))"

end
