(* ===== verification/Unit_Build_Props.thy ===== *)
theory Unit_Build_Props
  imports Unit_Build
begin

text \<open>
  What the builders of \<open>Unit_Build\<close> guarantee: the sections of a built unit are those of its kind,
  every number of a service configuration is in the range of its field, sizes and mount points
  round-trip, and merging the sections of a drop-in lets the drop-in's scalars win.
\<close>

section \<open>The sections of a unit\<close>

lemma section_if_Inr: "section_if b r = Inr x \<Longrightarrow> (x \<noteq> None) = b"
  by (auto simp: section_if_def bnd_eq_Inr split: if_splits)

lemma build_rest_sections:
  assumes "build_rest raw spec k unit svc tmr = Inr uf"
  shows "uf_service uf = svc \<and> uf_timer uf = tmr \<and> (uf_path_unit uf \<noteq> None) = (k = Path) \<and>
    (uf_socket uf \<noteq> None) = (k = Socket) \<and> (uf_mount uf \<noteq> None) = (k = Mount) \<and> uf_unit uf = unit"
  using assms by (auto simp: build_rest_def bnd_eq_Inr Let_def dest!: section_if_Inr)

lemma build_Inr:
  assumes "build raw spec = Some (Inr uf)"
  obtains k where "kind_from_unit_name (sp_unit_name spec) = Some k"
    "(uf_service uf \<noteq> None) = (k = Service)" "(uf_timer uf \<noteq> None) = (k = Timer)"
    "(uf_path_unit uf \<noteq> None) = (k = Path)" "(uf_socket uf \<noteq> None) = (k = Socket)"
    "(uf_mount uf \<noteq> None) = (k = Mount)"
    "build_unit_section raw (sp_expand spec) = Inr (uf_unit uf)"
    "\<And>s. uf_service uf = Some s \<Longrightarrow> build_service raw (sp_expand spec) = Inr s"
proof -
  let ?ex = "sp_expand spec"
  from assms obtain unit where u: "build_unit_section raw ?ex = Inr unit"
    by (auto simp: build_def Let_def split: sum.splits)
  from assms u obtain k where k: "kind_from_unit_name (sp_unit_name spec) = Some k"
    by (auto simp: build_def Let_def split: option.splits)
  from assms u k obtain svc where s: "section_if (k = Service) (build_service raw ?ex) = Inr svc"
    by (auto simp: build_def Let_def split: sum.splits)
  have svc: "build_service raw ?ex = Inr x" if "svc = Some x" for x
    using s that by (auto simp: section_if_def bnd_eq_Inr split: if_splits)
  show ?thesis
  proof (cases "k = Timer")
    case True
    with assms u k s obtain t where "build_rest raw spec k unit svc (Some t) = Inr uf"
      by (auto simp: build_def Let_def bnd_eq_Inr)
    from that [OF k] build_rest_sections [OF this] section_if_Inr [OF s] True u svc show ?thesis by auto
  next
    case False
    with assms u k s have "build_rest raw spec k unit svc None = Inr uf"
      by (auto simp: build_def Let_def)
    from that [OF k] build_rest_sections [OF this] section_if_Inr [OF s] False u svc show ?thesis by auto
  qed
qed

section \<open>Ranges\<close>

definition ok_step :: "('c \<Rightarrow> bool) \<Rightarrow> 'c build_step \<Rightarrow> bool" where
  "ok_step P f \<longleftrightarrow> (\<forall>c c'. P c \<longrightarrow> f c = Inr c' \<longrightarrow> P c')"

lemma ok_stepI: "(\<And>c c'. P c \<Longrightarrow> f c = Inr c' \<Longrightarrow> P c') \<Longrightarrow> ok_step P f"
  by (auto simp: ok_step_def)

lemma ok_stepD: "ok_step P f \<Longrightarrow> P c \<Longrightarrow> f c = Inr c' \<Longrightarrow> P c'"
  by (auto simp: ok_step_def)

lemma ok_fold: "(\<And>x. x \<in> set xs \<Longrightarrow> ok_step P (f x)) \<Longrightarrow> ok_step P (fold_res f xs)"
proof (induction xs)
  case (Cons x xs)
  then have "ok_step P (f x)" "ok_step P (fold_res f xs)" by auto
  then show ?case unfolding ok_step_def fold_res.simps bnd_eq_Inr by blast
qed (simp add: ok_step_def)

lemma ok_run_steps: "list_all (ok_step P) steps \<Longrightarrow> ok_step P (run_steps steps)"
  unfolding run_steps_def by (rule ok_fold) (simp add: list_all_iff)

lemma ok_all_values: "(\<And>v. ok_step P (f v)) \<Longrightarrow> ok_step P (all_values raw sect key f)"
  unfolding all_values_def by (rule ok_fold) auto

lemma ok_scalar: "(\<And>v. ok_step P (f v)) \<Longrightarrow> ok_step P (with_scalar raw sect key f)"
  by (auto simp: ok_step_def with_scalar_def split: option.splits)

lemma ok_set_field: "(\<And>x c. r = Inr x \<Longrightarrow> P c \<Longrightarrow> P (put x c)) \<Longrightarrow> ok_step P (set_field put r)"
  by (auto simp: ok_step_def set_field_def bnd_eq_Inr)

lemma ok_pure: "(\<And>c. P c \<Longrightarrow> P (f c)) \<Longrightarrow> ok_step P (\<lambda>c. Inr (f c))"
  by (auto simp: ok_step_def)

lemmas ok_steps = ok_scalar ok_all_values ok_set_field ok_pure

lemma span_loop_le: "span_loop s t cs = Inr r \<Longrightarrow> t \<le> infinity_usec \<Longrightarrow> r \<le> infinity_usec"
  by (induction s t cs rule: span_loop.induct)
    (subst (asm) (2) span_loop.simps, auto simp: Let_def split: if_splits option.splits)

lemma lift_span_le: "lift_span (parse_timespan v) = Inr t \<Longrightarrow> t \<le> infinity_usec"
  by (auto simp: lift_span_def parse_timespan_def Let_def split: sum.splits if_splits dest: span_loop_le)

lemma parse_bytes_lt: "parse_bytes v = Inr n \<Longrightarrow> n < 2 ^ 64"
  by (auto simp: parse_bytes_def Let_def u64_max_def split: if_splits option.splits prod.splits)

lemma parse_limit_lt: "parse_limit v = Inr n \<Longrightarrow> n < 2 ^ 64"
  by (auto simp: parse_limit_def u64_max_def parse_u64_def split: if_splits option.splits dest: parse_uint_bound)

lemma parse_rlimit_lt: "parse_rlimit res v = Inr r \<Longrightarrow> rl_soft r < 2 ^ 64 \<and> rl_hard r < 2 ^ 64"
  by (auto simp: parse_rlimit_def Let_def bnd_eq_Inr split: prod.splits dest: parse_limit_lt)

lemma parse_weight_range: "parse_weight key v t = Inr n \<Longrightarrow> 1 \<le> n \<and> n \<le> 10000"
  by (auto simp: parse_weight_def split: option.splits if_splits)

lemma parse_device_weight_range: "parse_device_weight v t = Inr (p, n) \<Longrightarrow> 1 \<le> n \<and> n \<le> 10000"
  by (auto simp: parse_device_weight_def split: list.splits option.splits if_splits)

lemma parse_tasks_max_lt: "parse_tasks_max v t = Inr n \<Longrightarrow> n < 2 ^ 64"
  by (auto simp: parse_tasks_max_def u64_max_def parse_u64_def split: if_splits option.splits dest: parse_uint_bound)

lemma parse_octal_lt: "parse_octal v = Inr n \<Longrightarrow> n < 2 ^ 32"
  by (auto simp: parse_octal_def octal_u32_def Let_def split: option.splits if_splits list.splits)

lemma parse_errno_lt: "parse_errno v = Inr n \<Longrightarrow> n < 2 ^ 32"
proof -
  have "\<forall>p \<in> set errno_table. snd p < 2 ^ 32" by code_simp
  then show "parse_errno v = Inr n \<Longrightarrow> n < 2 ^ 32"
    by (auto simp: parse_errno_def Let_def parse_u32_def split: option.splits
        dest!: map_of_SomeD parse_uint_bound)
qed

lemma sig_from_name_range: "sig_from_name s = Some n \<Longrightarrow> 1 \<le> n \<and> n \<le> 31"
  by (auto simp: sig_from_name_def signal_try_from_def Let_def split: option.splits if_splits)

lemma parse_kill_signal_range: "parse_kill_signal v e = Inr (Some n) \<Longrightarrow> 1 \<le> n \<and> n \<le> 31"
  by (auto simp: parse_kill_signal_def split: list.splits option.splits dest: sig_from_name_range)

text \<open>A quota is a fraction of one processor: a percentage between 0.001 and 1000000 (the binary32
  numbers nearest to these) divided by 100; in particular it is finite.\<close>

definition quota_ok :: "f64 \<Rightarrow> bool" where
  "quota_ok q \<longleftrightarrow> (\<exists>p. f_le (f32_round 1 1000) p \<and> f_le p (f32_round 1000000 1) \<and> q = f32_div_nat p 100)"

lemma parse_cpu_quota_ok: "parse_cpu_quota v = Inr q \<Longrightarrow> pred_option quota_ok q"
  by (auto simp: parse_cpu_quota_def quota_ok_def Let_def split: if_splits option.splits)

definition limits_ok :: "cgroup_limits \<Rightarrow> bool" where
  "limits_ok l \<longleftrightarrow> pred_option (\<lambda>n. n < 2 ^ 64) (cg_memory_max l) \<and> pred_option (\<lambda>n. n < 2 ^ 64) (cg_memory_high l) \<and>
     pred_option (\<lambda>n. n < 2 ^ 64) (cg_tasks_max l) \<and> pred_option (\<lambda>n. 1 \<le> n \<and> n \<le> 10000) (cg_cpu_weight l) \<and>
     pred_option (\<lambda>n. 1 \<le> n \<and> n \<le> 10000) (cg_io_weight l) \<and> pred_option quota_ok (cg_cpu_quota l) \<and>
     list_all (\<lambda>(_, n). 1 \<le> n \<and> n \<le> 10000) (cg_io_device_weights l)"

definition sandbox_ok :: "sandbox_config \<Rightarrow> bool" where
  "sandbox_ok s \<longleftrightarrow> sorted_wrt (<) (sb_syscall_nrs s) \<and> sorted_wrt (<) (sb_af_families s) \<and>
     sb_syscall_errno s < 2 ^ 32"

definition times_ok :: "service_config \<Rightarrow> bool" where
  "times_ok c \<longleftrightarrow> sc_restart_sec c \<le> infinity_usec \<and> sc_restart_randomized_delay_sec c \<le> infinity_usec \<and>
     sc_timeout_start_sec c \<le> infinity_usec \<and> sc_timeout_stop_sec c \<le> infinity_usec"

definition service_ok :: "service_config \<Rightarrow> bool" where
  "service_ok c \<longleftrightarrow> times_ok c \<and> limits_ok (sc_cgroup_limits c) \<and> sandbox_ok (sc_sandbox c) \<and>
     list_all (\<lambda>r. rl_soft r < 2 ^ 64 \<and> rl_hard r < 2 ^ 64) (sc_rlimits c) \<and>
     pred_option (\<lambda>n. n < 2 ^ 32) (sc_umask c) \<and> pred_option (\<lambda>n. 1 \<le> n \<and> n \<le> 31) (sc_kill_signal c) \<and>
     pred_option (\<lambda>n. - (2 ^ 31) \<le> n \<and> n < 2 ^ 31) (sc_nice c) \<and>
     list_all (\<lambda>d. ds_name d \<noteq> [] \<and> pred_option (\<lambda>n. n < 2 ^ 32) (ds_mode d)) (sc_directories c) \<and>
     (\<forall>e \<in> set (sc_exec_start_pre c @ sc_exec_start c @ sc_exec_start_post c @ sc_exec_stop c @ sc_exec_reload c).
        ec_argv e \<noteq> [])"

lemma strict_remdups_sort: "sorted_wrt (<) (remdups_adj (sort xs))" for xs :: "nat list"
  by (rule strict_sorted_remdups_adj) simp

lemma parse_families_sorted: "parse_address_families v = Inr (d, fs, a) \<Longrightarrow> sorted_wrt (<) fs"
  by (auto simp: parse_address_families_def bnd_eq_Inr strict_remdups_sort split: prod.splits)

lemma resolve_sorted: "resolve_syscalls ns = Inr nrs \<Longrightarrow> sorted_wrt (<) nrs"
  by (auto simp: resolve_syscalls_def bnd_eq_Inr strict_remdups_sort)

lemma lift_str_Inr: "lift_str r = Inr x \<longleftrightarrow> r = Inr x"
  by (auto simp: lift_str_def split: sum.splits)

lemma syscall_filter_ok: "ok_step sandbox_ok (parse_syscall_filter raw ex)"
proof (rule ok_stepI)
  fix s s' assume s: "sandbox_ok s" "parse_syscall_filter raw ex s = Inr s'"
  show "sandbox_ok s'"
  proof (cases "map ex (raw_list raw ''Service'' ''SystemCallFilter'') = []")
    case True
    with s show ?thesis by (simp add: parse_syscall_filter_def)
  next
    case False
    with s(2) obtain s1 n where s1: "s1 = s \<or> (\<exists>nrs d. sorted_wrt (<) nrs \<and> s1 = s\<lparr>sb_syscall_deny := d, sb_syscall_nrs := nrs\<rparr>)"
      and n: "parse_errno ''EPERM'' = Inr n" "s' = s1\<lparr>sb_syscall_errno := n\<rparr>"
      by (auto simp: parse_syscall_filter_def Let_def bnd_eq_Inr lift_str_Inr dest: resolve_sorted split: if_splits)
    with s(1) parse_errno_lt [OF n(1)] show ?thesis by (auto simp: sandbox_ok_def)
  qed
qed

lemma sandbox_steps_ok: "list_all (ok_step sandbox_ok) (sandbox_steps raw ex)"
  unfolding sandbox_steps_def Let_def list.pred_inject
  by (intro conjI TrueI ok_steps syscall_filter_ok ok_scalar; (rule ok_stepI)?)
    (auto simp: sandbox_ok_def Let_def set_field_def bnd_eq_Inr
      dest: parse_errno_lt parse_families_sorted split: if_splits)

lemma exec_list_argv: "exec_list raw key ex = Inr cs \<Longrightarrow> \<forall>c \<in> set cs. ec_argv c \<noteq> []"
proof -
  have "ok_step (\<lambda>cs. \<forall>c \<in> set cs. ec_argv c \<noteq> []) (all_values raw ''Service'' key (\<lambda>v. exec_entry (ex v)))"
    by (intro ok_all_values ok_stepI)
      (auto simp: exec_entry_def Let_def bnd_eq_Inr split: if_splits option.splits prod.splits)
  then show "exec_list raw key ex = Inr cs \<Longrightarrow> \<forall>c \<in> set cs. ec_argv c \<noteq> []"
    unfolding exec_list_def by (elim ok_stepD) auto
qed

lemma parse_directory_ok:
  "parse_directory k v = Inr d \<Longrightarrow> ds_name d \<noteq> [] \<and> pred_option (\<lambda>n. n < 2 ^ 32) (ds_mode d)"
  by (auto simp: parse_directory_def octal_u32_def Let_def split: prod.splits option.splits if_splits)

lemma parse_i32_range: "parse_i32 s = Some n \<Longrightarrow> - (2 ^ 31) \<le> n \<and> n < 2 ^ 31"
  by (auto simp: parse_i32_def split: list.splits if_splits dest!: parse_uint_bound)

lemma kill_signal_ok: "parse_kill_signal v e = Inr n \<Longrightarrow> pred_option (\<lambda>n. 1 \<le> n \<and> n \<le> 31) n"
  by (cases n) (auto dest: parse_kill_signal_range)

lemmas service_ok_defs = service_ok_def times_ok_def

lemma exec_steps_ok: "list_all (ok_step service_ok) (exec_steps raw ex)"
  unfolding exec_steps_def Let_def list.pred_inject
  by (intro conjI TrueI ok_steps) (auto simp: service_ok_defs dest: lift_span_le exec_list_argv)

lemma process_steps_ok: "list_all (ok_step service_ok) (process_steps raw ex)"
  unfolding process_steps_def Let_def list.pred_inject
  by (intro conjI TrueI ok_steps; (rule ok_stepI)?)
    (auto simp: service_ok_defs bnd_eq_Inr set_field_def dest: parse_octal_lt kill_signal_ok parse_i32_range
      split: option.splits)

lemma directories_ok: "ok_step service_ok (build_directories raw ex)"
  unfolding build_directories_def
  by (intro ok_fold; clarify; intro ok_all_values ok_fold ok_stepI)
    (auto simp: service_ok_def times_ok_def bnd_eq_Inr dest: parse_directory_ok)

lemma sandbox_ok_step: "ok_step service_ok (parse_sandbox raw ex)"
  using ok_stepD [OF ok_run_steps [OF sandbox_steps_ok]]
  by (auto simp: ok_step_def parse_sandbox_def bnd_eq_Inr service_ok_def times_ok_def)

lemma limit_steps_ok: "list_all (ok_step service_ok) (limit_steps raw ex)"
  unfolding limit_steps_def Let_def list.pred_inject
  by (intro conjI TrueI ok_steps directories_ok sandbox_ok_step; (rule ok_stepI)?)
    (auto simp: service_ok_defs limits_ok_def split: sum.splits
      dest: parse_cpu_quota_ok parse_rlimit_lt parse_bytes_lt parse_weight_range parse_device_weight_range parse_tasks_max_lt)

lemma service_default_ok: "service_ok service_default"
  by (simp add: service_default_def cgroup_default_def sandbox_default_def service_ok_defs limits_ok_def
      sandbox_ok_def infinity_usec_def)

lemma build_service_ok: "build_service raw ex = Inr c \<Longrightarrow> service_ok c"
  unfolding build_service_def
  by (rule ok_stepD [OF ok_run_steps _ _, rotated 1]) 
    (auto simp: service_default_ok exec_steps_ok process_steps_ok limit_steps_ok)

section \<open>Sizes\<close>

lemma parse_uint_all_digits:
  assumes "s \<noteq> []" "list_all is_digit s"
  shows "parse_uint b s = (if digits_val s < b then Some (digits_val s) else None)"
proof (cases s)
  case (Cons c cs)
  with assms have "c \<noteq> CHR ''+''" using digit_not_plus by auto
  with assms Cons show ?thesis by (simp add: parse_uint_def)
qed (use assms in simp)

definition size_suffix :: "str \<Rightarrow> nat \<Rightarrow> bool" where
  "size_suffix sfx k \<longleftrightarrow> sfx = [] \<and> k = 1 \<or> (\<exists>c. sfx = [c] \<and> map_of size_suffixes c = Some k)"

lemma size_suffix_chars:
  "\<forall>p \<in> set size_suffixes. \<not> is_ws (fst p) \<and> fst p \<noteq> CHR '' '' \<and> \<not> is_digit (fst p)"
  by code_simp

lemma size_suffix_char: "map_of size_suffixes c = Some k \<Longrightarrow> \<not> is_ws c \<and> c \<noteq> CHR '' '' \<and> \<not> is_digit c"
  using size_suffix_chars by (fastforce dest: map_of_SomeD)

lemma digit_no_size_suffix: "is_digit c \<Longrightarrow> map_of size_suffixes c = None"
  using size_suffix_char [of c] by (cases "map_of size_suffixes c") auto

lemma digit_not_space: "is_digit c \<Longrightarrow> c \<noteq> CHR '' ''"
  by (auto simp: is_digit_def code_def)

lemma digit_lower: "is_digit c \<Longrightarrow> to_lower c \<noteq> CHR ''i''"
  by (auto simp: is_digit_def to_lower_def code_def)

lemma show_nat_not_infinity: "lower (show_nat n @ s) \<noteq> lower ''infinity''"
proof -
  obtain c cs where c: "show_nat n = c # cs" using show_nat_ne by (cases "show_nat n") auto
  then have "is_digit c" using show_nat_digits [of n] by simp
  from digit_lower [OF this] c show ?thesis by (simp add: lower_def to_lower_def code_def)
qed

text \<open>C16. A size written as a decimal number with an optional binary suffix parses to the exact
  product when that fits 64 bits, and is rejected otherwise: as an overflow, or as invalid when
  already the number does not fit.\<close>

theorem size_parse_exact:
  assumes "size_suffix sfx k"
  shows "parse_bytes (show_nat n @ sfx) =
    (if n \<ge> 2 ^ 64 then Inl (BMsg (''invalid size `'' @ show_nat n @ sfx @ bquote))
     else if n * k < 2 ^ 64 then Inr (n * k)
     else Inl (BMsg (''size overflow `'' @ show_nat n @ sfx @ bquote)))"
proof -
  let ?v = "show_nat n @ sfx"
  have ws: "\<forall>c \<in> set ?v. \<not> is_ws c"
    using assms show_nat_no_ws [of n] size_suffix_char by (auto simp: size_suffix_def)
  then have t: "trim ?v = ?v" "trim (show_nat n) = show_nat n" by (auto intro!: trim_no_ws)
  have f: "filter (\<lambda>c. c \<noteq> CHR '' '') ?v = ?v"
  proof -
    have "c \<noteq> CHR '' ''" if "c \<in> set ?v" for c
      using that assms size_suffix_char [of c k] digit_not_space [of c] show_nat_digits [of n]
      unfolding size_suffix_def list_all_iff by auto
    then show ?thesis by (simp only: filter_id_conv) blast
  qed
  have sp: "split_size ?v = (show_nat n, k)"
  proof (cases "sfx = []")
    case True
    have "is_digit (last (show_nat n))"
      using show_nat_digits [of n] show_nat_ne [of n] by (simp add: list_all_iff)
    with True assms show ?thesis
      using show_nat_ne [of n] by (auto simp: split_size_def digit_no_size_suffix size_suffix_def)
  next
    case False
    with assms show ?thesis by (auto simp: split_size_def size_suffix_def)
  qed
  have u: "parse_u64 (show_nat n) = (if n < 2 ^ 64 then Some n else None)"
    using parse_uint_all_digits [OF show_nat_ne show_nat_digits, of "2 ^ 64" n]
    by (simp add: parse_u64_def digits_val_show_nat)
  show ?thesis
    unfolding parse_bytes_def Let_def t(1) eq_nocase_def f sp prod.case t(2) u
    using show_nat_not_infinity [of n sfx] by simp
qed

theorem size_parse_exact_witness:
  "parse_bytes ''512M'' = Inr 536870912 \<and> parse_bytes ''17179869184G'' = Inl (BMsg ''size overflow `17179869184G`'')"
proof -
  have "show_nat 512 @ ''M'' = ''512M''" "show_nat 17179869184 @ ''G'' = ''17179869184G''" by code_simp+
  moreover have "size_suffix ''M'' (1024 ^ 2)" "size_suffix ''G'' (1024 ^ 3)"
    by (simp_all add: size_suffix_def size_suffixes_def)
  ultimately show ?thesis
    using size_parse_exact [of "''M''" "1024 ^ 2" 512] size_parse_exact [of "''G''" "1024 ^ 3" 17179869184] by simp
qed

section \<open>Mount points\<close>

definition hex_digit :: "nat \<Rightarrow> char" where
  "hex_digit n = (if n < 10 then char_of (48 + n) else char_of (87 + n))"

definition escape_char :: "char set \<Rightarrow> char \<Rightarrow> str" where
  "escape_char X c =
     (if c = CHR ''/'' then ''-''
      else if c \<in> X then [CHR 0x5C, CHR ''x'', hex_digit (code c div 16), hex_digit (code c mod 16)]
      else [c])"

lemma hex_digits: "\<forall>n \<in> {..<16}. hex_val (hex_digit n) = Some n \<and> hex_digit n \<noteq> CHR ''+''"
  unfolding lessThan_atLeast0 atLeastLessThan_upt by code_simp

lemma hex_val_digit: "n < 16 \<Longrightarrow> hex_val (hex_digit n) = Some n \<and> hex_digit n \<noteq> CHR ''+''"
  using hex_digits by simp

lemma hex_byte_digits: "n < 256 \<Longrightarrow> hex_byte [hex_digit (n div 16), hex_digit (n mod 16)] = Some n"
  using hex_val_digit [of "n div 16"] hex_val_digit [of "n mod 16"] by (simp add: hex_byte_def less_mult_imp_div_less)

lemma unescape_escape_char:
  "CHR ''-'' \<in> X \<Longrightarrow> CHR 0x5C \<in> X \<Longrightarrow> unescape_path (escape_char X c @ s) = c # unescape_path s"
  using hex_byte_digits [of "code c"] by (auto simp: escape_char_def)

lemma unescape_escape:
  "CHR ''-'' \<in> X \<Longrightarrow> CHR 0x5C \<in> X \<Longrightarrow> unescape_path (concat (map (escape_char X) p)) = p"
  using unescape_escape_char by (induction p) auto

text \<open>The mount point of a mount unit named by the escaped path (slashes as dashes, and at least
  dashes and backslashes as hexadecimal escapes) is the path with a leading slash.\<close>

theorem mount_path_roundtrip:
  assumes "CHR ''-'' \<in> X" "CHR 0x5C \<in> X" "utf8_valid (CHR ''/'' # p)"
  shows "mount_path_from_unit_name (concat (map (escape_char X) p) @ ''.mount'') = Some (CHR ''/'' # p)"
  using assms by (simp add: mount_path_from_unit_name_def unescape_escape Let_def)

theorem mount_path_roundtrip_witness:
  "mount_path_from_unit_name (''srv-my'' @ CHR 0x5C # ''x2ddata.mount'') = Some ''/srv/my-data''"
proof -
  let ?p = "''srv/my-data''" and ?X = "{CHR ''-'', CHR 0x5C}"
  have "utf8_valid (CHR ''/'' # ?p)" by code_simp
  moreover have "concat (map (escape_char ?X) ?p) = ''srv-my'' @ CHR 0x5C # ''x2ddata''"
    by (simp add: escape_char_def hex_digit_def code_def) code_simp
  ultimately show ?thesis using mount_path_roundtrip [of ?X ?p] by simp
qed

section \<open>Built units\<close>

definition demo_raw :: raw_unit_file where
  "demo_raw = \<lparr>rf_sections =
     [\<lparr>rs_name = ''Service'', rs_entries = [(''ExecStart'', ''/bin/true''), (''Nice'', ''5'')]\<rparr>,
      \<lparr>rs_name = ''Service'', rs_entries = [(''MemoryMax'', ''1K''), (''Nice'', ''7'')]\<rparr>]\<rparr>"

definition demo_spec :: specifier_context where
  "demo_spec = \<lparr>sp_unit_name = ''a.service'', sp_runtime_dir = [], sp_user_name = [], sp_uid = [],
     sp_home = [], sp_hostname = [], sp_machine_id = []\<rparr>"

text \<open>A unit file that builds is of the kind its name says, and it has exactly the section of
  that kind.\<close>

theorem built_sections:
  assumes "build raw spec = Some (Inr uf)"
  shows "\<exists>k. kind_from_unit_name (sp_unit_name spec) = Some k \<and>
    (uf_service uf \<noteq> None) = (k = Service) \<and> (uf_timer uf \<noteq> None) = (k = Timer) \<and>
    (uf_path_unit uf \<noteq> None) = (k = Path) \<and> (uf_socket uf \<noteq> None) = (k = Socket) \<and>
    (uf_mount uf \<noteq> None) = (k = Mount)"
  using assms by (elim build_Inr) blast

text \<open>C15. The numbers of a built service are in the range of their fields: times are saturated
  microseconds, memory, task and resource limits fit 64 bits, weights are between 1 and 10000, the
  CPU quota comes from a percentage between 0.001 and 1000000, the kill signal is between 1 and 31, the umask, the directory modes
  and the filter's error number fit 32 bits, the
  priority is a signed 32-bit integer, system calls and families are strictly increasing lists, and no
  command is empty.\<close>

theorem built_service_in_range:
  assumes "build raw spec = Some (Inr uf)" "uf_service uf = Some c"
  shows "service_ok c"
  using assms build_service_ok by (elim build_Inr) blast

lemma raw_list_cong: "raw_entries a = raw_entries b \<Longrightarrow> raw_list a = raw_list b"
  by (intro ext) (simp add: raw_list_def)

lemma raw_scalar_cong: "raw_entries a = raw_entries b \<Longrightarrow> raw_scalar a = raw_scalar b"
  by (intro ext) (simp add: raw_scalar_def)

lemma raw_entries_append:
  "raw_entries \<lparr>rf_sections = rf_sections a @ rf_sections b\<rparr> s = raw_entries a s @ raw_entries b s"
  by (simp add: raw_entries_def)

lemma raw_scalar_append:
  "raw_scalar \<lparr>rf_sections = rf_sections a @ rf_sections b\<rparr> s k =
    (case raw_scalar b s k of Some v \<Rightarrow> Some v | None \<Rightarrow> raw_scalar a s k)"
  by (simp add: raw_scalar_def raw_entries_append split: list.splits)

lemma lookups_cong:
  assumes "raw_entries a = raw_entries b"
  shows "unit_scalar a = unit_scalar b" "list_of a = list_of b" "all_values a = all_values b"
    "with_scalar a = with_scalar b"
  by (intro ext; simp add: unit_scalar_def list_of_def all_values_def with_scalar_def
      raw_list_cong [OF assms] raw_scalar_cong [OF assms])+

lemma same_values:
  assumes "raw_entries a = raw_entries b"
  shows "bool_scalar a = bool_scalar b" "span_scalar a = span_scalar b" "spans_of a = spans_of b"
    "build_conditions a = build_conditions b" "exec_list a = exec_list b" "compat_of a = compat_of b"
    "parse_syscall_filter a = parse_syscall_filter b" "build_directories a = build_directories b"
  by (intro ext; simp only: bool_scalar_def span_scalar_def spans_of_def build_conditions_def exec_list_def
      compat_of_def parse_syscall_filter_def build_directories_def lookups_cong [OF assms] raw_list_cong [OF assms])+

lemma same_sandbox:
  assumes "raw_entries a = raw_entries b"
  shows "parse_sandbox a = parse_sandbox b"
proof -
  have "sandbox_steps a = sandbox_steps b"
    by (intro ext) (simp only: sandbox_steps_def same_values [OF assms] lookups_cong [OF assms])
  then show ?thesis by (intro ext) (simp only: parse_sandbox_def same_values [OF assms])
qed

lemma same_steps:
  assumes "raw_entries a = raw_entries b"
  shows "exec_steps a = exec_steps b" "process_steps a = process_steps b" "limit_steps a = limit_steps b"
    "timer_rest a = timer_rest b"
  by (intro ext; simp only: exec_steps_def process_steps_def limit_steps_def timer_rest_def
      same_sandbox [OF assms] same_values [OF assms] lookups_cong [OF assms])+

lemma same_sections:
  assumes "raw_entries a = raw_entries b"
  shows "build_unit_section a = build_unit_section b" "build_timer a = build_timer b"
    "build_path a = build_path b" "build_socket a = build_socket b" "build_mount a = build_mount b"
    "build_install a = build_install b" "build_service a = build_service b"
  by (intro ext; simp only: build_unit_section_def build_timer_def build_path_def build_socket_def
      build_mount_def build_install_def build_service_def same_steps [OF assms] same_values [OF assms]
      lookups_cong [OF assms] raw_list_cong [OF assms])+

lemma same_build:
  assumes "raw_entries a = raw_entries b"
  shows "build a = build b"
proof -
  have "build_rest a = build_rest b"
    by (intro ext) (simp only: build_rest_def same_sections [OF assms])
  then show ?thesis by (intro ext) (simp only: build_def same_sections [OF assms])
qed

lemma demo_built:
  "\<exists>uf c. build demo_raw demo_spec = Some (Inr uf) \<and> uf_service uf = Some c \<and> sc_nice c = Some 7 \<and>
     cg_memory_max (sc_cgroup_limits c) = Some 1024 \<and> map ec_argv (sc_exec_start c) = [[''/bin/true'']]"
proof -
  have "case build demo_raw demo_spec of Some (Inr uf) \<Rightarrow>
      (case uf_service uf of Some c \<Rightarrow> sc_nice c = Some 7 \<and> cg_memory_max (sc_cgroup_limits c) = Some 1024 \<and>
         map ec_argv (sc_exec_start c) = [[''/bin/true'']] | None \<Rightarrow> False) | _ \<Rightarrow> False"
    by code_simp
  then show ?thesis by (auto split: option.splits sum.splits)
qed

theorem built_sections_witness:
  "\<exists>uf. build demo_raw demo_spec = Some (Inr uf) \<and> uf_service uf \<noteq> None \<and> uf_timer uf = None"
proof -
  obtain uf c where uf: "build demo_raw demo_spec = Some (Inr uf)" "uf_service uf = Some c"
    using demo_built by blast
  from built_sections [OF uf(1)] uf show ?thesis by auto
qed

theorem built_service_in_range_witness:
  "\<exists>uf c. build demo_raw demo_spec = Some (Inr uf) \<and> uf_service uf = Some c \<and> service_ok c"
proof -
  obtain uf c where uf: "build demo_raw demo_spec = Some (Inr uf)" "uf_service uf = Some c"
    using demo_built by blast
  from built_service_in_range [OF uf] uf show ?thesis by auto
qed

end
