(* ===== verification/File_System.thy ===== *)
theory File_System
  imports Names "HOL-Library.Char_ord" "HOL-Library.List_Lexorder"
begin

text \<open>
  The file system the program works on through \<^verbatim>\<open>std::fs\<close>: a table of regular files with their
  contents, a table of symbolic links with the path each names, and the list of directories, all
  under absolute paths without \<open>.\<close> and \<open>..\<close>. Any call can be refused by the operating system: the
  function \<open>fs_fail\<close> says for which call and path, and with which message, and \<open>fs_part\<close> how much of
  a refused write has reached the file; theorems quantify over both. Directories on the way to a path are not links. A directory is listed in the order of the
  tables, which is arbitrary.
\<close>

datatype fs_call = CallRead | CallList | CallCreate | CallWrite | CallMkdir | CallRemove | CallRename | CallLink

datatype io_error = IoNotFound | IoExists | IoOther str

fun show_io :: "io_error \<Rightarrow> str" where
  "show_io IoNotFound = ''No such file or directory (os error 2)''"
| "show_io IoExists = ''File exists (os error 17)''"
| "show_io (IoOther e) = e"

record fsys =
  fs_files :: "(str \<times> str) list"
  fs_links :: "(str \<times> str) list"
  fs_dirs :: "str list"
  fs_fail :: "fs_call \<Rightarrow> str \<Rightarrow> str option"
  fs_part :: "str \<Rightarrow> nat"

section \<open>Looking\<close>

text \<open>Path resolution gives up after 40 links.\<close>

primrec follow_links :: "nat \<Rightarrow> fsys \<Rightarrow> str \<Rightarrow> str" where
  "follow_links 0 fs p = p"
| "follow_links (Suc n) fs p =
     (case map_of (fs_links fs) p of Some t \<Rightarrow> follow_links n fs t | None \<Rightarrow> p)"

definition follow :: "fsys \<Rightarrow> str \<Rightarrow> str" where
  "follow fs p = follow_links 40 fs p"

definition is_file :: "fsys \<Rightarrow> str \<Rightarrow> bool" where
  "is_file fs p \<longleftrightarrow> map_of (fs_files fs) (follow fs p) \<noteq> None"

definition is_dir :: "fsys \<Rightarrow> str \<Rightarrow> bool" where
  "is_dir fs p \<longleftrightarrow> List.member (fs_dirs fs) (follow fs p)"

definition path_exists :: "fsys \<Rightarrow> str \<Rightarrow> bool" where
  "path_exists fs p \<longleftrightarrow> is_file fs p \<or> is_dir fs p \<or> follow fs p = ''/dev/null''"

definition is_symlink :: "fsys \<Rightarrow> str \<Rightarrow> bool" where
  "is_symlink fs p \<longleftrightarrow> map_of (fs_links fs) p \<noteq> None"

definition read_link :: "fsys \<Rightarrow> str \<Rightarrow> str option" where
  "read_link fs p = map_of (fs_links fs) p"

text \<open>\<open>symlink_metadata(p).is_ok()\<close>.\<close>

definition entry_exists :: "fsys \<Rightarrow> str \<Rightarrow> bool" where
  "entry_exists fs p \<longleftrightarrow> map_of (fs_files fs) p \<noteq> None \<or> map_of (fs_links fs) p \<noteq> None \<or> List.member (fs_dirs fs) p"

definition read_to_string :: "fsys \<Rightarrow> str \<Rightarrow> io_error + str" where
  "read_to_string fs p =
     (case fs_fail fs CallRead p of
        Some e \<Rightarrow> Inl (IoOther e)
      | None \<Rightarrow> (case map_of (fs_files fs) (follow fs p) of Some t \<Rightarrow> Inr t | None \<Rightarrow> Inl IoNotFound))"

text \<open>\<open>Path::file_name\<close> and the names directly below a directory.\<close>

definition path_file_name :: "str \<Rightarrow> str" where
  "path_file_name p = last (split_char (CHR ''/'') p)"

definition entry_name :: "str \<Rightarrow> str \<Rightarrow> str option" where
  "entry_name d p =
     (case strip_prefix (path_join d []) p of
        Some n \<Rightarrow> if n \<noteq> [] \<and> \<not> List.member n (CHR ''/'') then Some n else None
      | None \<Rightarrow> None)"

definition read_dir :: "fsys \<Rightarrow> str \<Rightarrow> io_error + str list" where
  "read_dir fs d =
     (case fs_fail fs CallList d of
        Some e \<Rightarrow> Inl (IoOther e)
      | None \<Rightarrow>
          if is_dir fs d
          then Inr (remdups (List.map_filter (entry_name (follow fs d))
                 (hkeys (fs_files fs) @ hkeys (fs_links fs) @ fs_dirs fs)))
          else Inl IoNotFound)"

section \<open>Changing\<close>

type_synonym fs_step = "fsys \<Rightarrow> (io_error + unit) \<times> fsys"

definition guarded :: "fs_call \<Rightarrow> str \<Rightarrow> fs_step \<Rightarrow> fs_step" where
  "guarded c p f fs = (case fs_fail fs c p of Some e \<Rightarrow> (Inl (IoOther e), fs) | None \<Rightarrow> f fs)"

definition put_file :: "str \<Rightarrow> str \<Rightarrow> fsys \<Rightarrow> fsys" where
  "put_file p txt fs = fs\<lparr>fs_files := hins (follow fs p) txt (fs_files fs)\<rparr>"

definition drop_entry :: "str \<Rightarrow> fsys \<Rightarrow> fsys" where
  "drop_entry p fs = fs\<lparr>fs_files := hdel p (fs_files fs), fs_links := hdel p (fs_links fs)\<rparr>"

text \<open>\<open>File::create\<close> truncates or creates; \<open>write_all\<close> adds to the file just opened, and leaves a part
  of its text behind when it is refused.\<close>

definition create_file :: "str \<Rightarrow> fs_step" where
  "create_file p = guarded CallCreate p (\<lambda>fs. (Inr (), put_file p [] fs))"

definition file_text :: "fsys \<Rightarrow> str \<Rightarrow> str" where
  "file_text fs p = (case map_of (fs_files fs) (follow fs p) of Some t \<Rightarrow> t | None \<Rightarrow> [])"

definition write_all :: "str \<Rightarrow> str \<Rightarrow> fs_step" where
  "write_all p txt fs =
     (case fs_fail fs CallWrite p of
        Some e \<Rightarrow> (Inl (IoOther e), put_file p (file_text fs p @ take (fs_part fs p) txt) fs)
      | None \<Rightarrow> (Inr (), put_file p (file_text fs p @ txt) fs))"

text \<open>\<open>OpenOptions::new().create(true).append(true)\<close> followed by \<open>write_all\<close>.\<close>

definition append_file :: "str \<Rightarrow> str \<Rightarrow> fs_step" where
  "append_file p txt fs =
     (case fs_fail fs CallCreate p of
        Some e \<Rightarrow> (Inl (IoOther e), fs)
      | None \<Rightarrow> write_all p txt (if is_file fs p then fs else put_file p [] fs))"

text \<open>\<open>create_dir_all\<close>: the directory and every one above it.\<close>

fun dirs_above :: "str \<Rightarrow> str list \<Rightarrow> str list" where
  "dirs_above pre [] = []"
| "dirs_above pre (w # ws) =
     (let p = pre @ (if pre = ''/'' then w else CHR ''/'' # w) in p # dirs_above p ws)"

definition dir_chain :: "str \<Rightarrow> str list" where
  "dir_chain p = dirs_above ''/'' (filter (\<lambda>w. w \<noteq> []) (split_char (CHR ''/'') p))"

definition create_dir_all :: "str \<Rightarrow> fs_step" where
  "create_dir_all p = guarded CallMkdir p (\<lambda>fs.
     if is_file fs p then (Inl IoExists, fs)
     else (Inr (), fs\<lparr>fs_dirs := fs_dirs fs @ filter (\<lambda>d. \<not> List.member (fs_dirs fs) d) (dir_chain p)\<rparr>))"

definition remove_file :: "str \<Rightarrow> fs_step" where
  "remove_file p = guarded CallRemove p (\<lambda>fs.
     if map_of (fs_files fs) p = None \<and> map_of (fs_links fs) p = None then (Inl IoNotFound, fs)
     else (Inr (), drop_entry p fs))"

definition below :: "str \<Rightarrow> str \<Rightarrow> bool" where
  "below d p \<longleftrightarrow> p = d \<or> starts_with (path_join d []) p"

definition remove_dir_all :: "str \<Rightarrow> fs_step" where
  "remove_dir_all d = guarded CallRemove d (\<lambda>fs.
     if \<not> List.member (fs_dirs fs) d then (Inl IoNotFound, fs)
     else (Inr (), fs\<lparr>fs_files := filter (\<lambda>e. \<not> below d (fst e)) (fs_files fs),
                      fs_links := filter (\<lambda>e. \<not> below d (fst e)) (fs_links fs),
                      fs_dirs := filter (\<lambda>e. \<not> below d e) (fs_dirs fs)\<rparr>))"

text \<open>\<open>rename\<close> of a file or a link; what was at the new path is replaced.\<close>

definition rename_file :: "str \<Rightarrow> str \<Rightarrow> fs_step" where
  "rename_file a b = guarded CallRename a (\<lambda>fs.
     case (map_of (fs_files fs) a, map_of (fs_links fs) a) of
       (Some t, _) \<Rightarrow> (Inr (), let fs' = drop_entry b (drop_entry a fs) in fs'\<lparr>fs_files := hins b t (fs_files fs')\<rparr>)
     | (None, Some l) \<Rightarrow> (Inr (), let fs' = drop_entry b (drop_entry a fs) in fs'\<lparr>fs_links := hins b l (fs_links fs')\<rparr>)
     | (None, None) \<Rightarrow> (Inl IoNotFound, fs))"

text \<open>\<^verbatim>\<open>platform/fs.rs\<close>: \<open>link_file\<close> on Unix.\<close>

definition link_file :: "str \<Rightarrow> str \<Rightarrow> fs_step" where
  "link_file target link = guarded CallLink link (\<lambda>fs.
     if entry_exists fs link then (Inl IoExists, fs)
     else (Inr (), fs\<lparr>fs_links := hins link target (fs_links fs)\<rparr>))"

section \<open>Laws\<close>

definition calm :: "fsys \<Rightarrow> bool" where
  "calm fs \<longleftrightarrow> (\<forall>c p. fs_fail fs c p = None)"

lemma guarded_calm [simp]: "calm fs \<Longrightarrow> guarded c p f fs = f fs"
  by (simp add: guarded_def calm_def)

lemma follow_plain [simp]: "map_of (fs_links fs) p = None \<Longrightarrow> follow fs p = p"
  by (simp add: follow_def eval_nat_numeral)

lemma path_join_inj: "\<not> starts_with ''/'' a \<Longrightarrow> \<not> starts_with ''/'' b \<Longrightarrow> d \<noteq> [] \<Longrightarrow>
    path_join d a = path_join d b \<longleftrightarrow> a = b"
  by (simp add: path_join_def)

lemma plain_name_relative: "is_plain_unit_name n \<Longrightarrow> \<not> starts_with ''/'' n"
  by (cases n) (auto simp: is_plain_unit_name_def starts_with_def strip_prefix_def split: if_splits)

end
