(* ===== verification/Repo.thy ===== *)
theory Repo
  imports File_System Unit_Syntax Unit_Types
begin

text \<open>
  Unit documents and the repository of unit definitions: \<^verbatim>\<open>rystemd/src/repo\<close> (\<^verbatim>\<open>domain.rs\<close>,
  \<^verbatim>\<open>backend.rs\<close>, \<^verbatim>\<open>error.rs\<close>, \<^verbatim>\<open>mod.rs\<close>) over \<open>File_System\<close>. An operation that changes files
  returns its result and the new file system. \<open>UnitType\<close> and \<open>UnitKind\<close> have the same suffixes and
  are one type here, as are \<open>UnitDocument\<close> and \<open>RawUnitFile\<close>.
\<close>

section \<open>Unit documents\<close>

datatype repo_error = RIo io_error | RInvalidName str | RParse nat str | RAlreadyExists str | RNotFound str

fun show_repo_error :: "repo_error \<Rightarrow> str" where
  "show_repo_error (RIo e) = show_io e"
| "show_repo_error (RInvalidName s) = ''invalid unit name: '' @ s"
| "show_repo_error (RParse l m) = ''line '' @ show_nat l @ '': '' @ m"
| "show_repo_error (RAlreadyExists s) = ''unit definition already exists: '' @ s"
| "show_repo_error (RNotFound s) = ''unit definition not found: '' @ s"

abbreviation rquote :: str where "rquote \<equiv> [CHR 0x60]"

definition doc_header :: "nat \<Rightarrow> str \<Rightarrow> str \<Rightarrow> parse_state \<Rightarrow> repo_error + parse_state" where
  "doc_header line body rest st =
     (case split_once '']'' rest of
        None \<Rightarrow> Inl (RParse line (''section header missing closing `]'' @ rquote))
      | Some (name0, trailing) \<Rightarrow>
          (let name = trim name0 in
           if name = [] \<or> trim trailing \<noteq> []
           then Inl (RParse line (''invalid section header `'' @ body @ rquote))
           else (let (d, _) = st in
                 Inr (d\<lparr>rf_sections := rf_sections d @ [\<lparr>rs_name = name, rs_entries = []\<rparr>]\<rparr>,
                      Some (length (rf_sections d))))))"

definition doc_entry :: "nat \<Rightarrow> str \<Rightarrow> parse_state \<Rightarrow> repo_error + parse_state" where
  "doc_entry line body st =
     (case split_once ''='' body of
        None \<Rightarrow> Inl (RParse line (''invalid line `'' @ body @ rquote))
      | Some (key0, value) \<Rightarrow>
          (let key = trim key0 in
           if key = [] \<or> \<not> list_all (\<lambda>c. is_alnum c \<or> List.member ''_-.'' c) key
           then Inl (RParse line (''invalid key `'' @ key @ rquote))
           else (case st of
                   (d, Some sec) \<Rightarrow> Inr (push_entry sec (key, trim_start value) d, Some sec)
                 | (d, None) \<Rightarrow>
                     Inl (RParse line (rquote @ key @ ''=` appears before any [Section] header'')))))"

definition doc_line :: "nat \<Rightarrow> str \<Rightarrow> parse_state \<Rightarrow> repo_error + parse_state" where
  "doc_line line raw st =
     (let body = trim (strip_cr raw) in
      if body = [] \<or> starts_with ''#'' body \<or> starts_with '';'' body then Inr st
      else (case strip_prefix ''['' body of
              Some rest \<Rightarrow> doc_header line body rest st
            | None \<Rightarrow> doc_entry line body st))"

fun doc_lines :: "nat \<Rightarrow> str list \<Rightarrow> parse_state \<Rightarrow> repo_error + parse_state" where
  "doc_lines n [] st = Inr st"
| "doc_lines n (l # ls) st = bnd (doc_line n l st) (doc_lines (n + 1) ls)"

definition doc_parse :: "str \<Rightarrow> repo_error + raw_unit_file" where
  "doc_parse txt = bnd (doc_lines 1 (text_lines txt) (\<lparr>rf_sections = []\<rparr>, None)) (\<lambda>(d, _). Inr d)"

definition doc_section_text :: "raw_section \<Rightarrow> str" where
  "doc_section_text s =
     ''['' @ rs_name s @ '']'' @ [CHR 0x0A] @ concat (map (\<lambda>(k, v). k @ ''='' @ v @ [CHR 0x0A]) (rs_entries s))"

fun doc_sections_text :: "raw_section list \<Rightarrow> str" where
  "doc_sections_text [] = []"
| "doc_sections_text [s] = doc_section_text s"
| "doc_sections_text (s # t # ss) = doc_section_text s @ [CHR 0x0A] @ doc_sections_text (t # ss)"

definition doc_to_text :: "raw_unit_file \<Rightarrow> str" where
  "doc_to_text d = doc_sections_text (rf_sections d)"

record unit_definition =
  ud_name :: str
  ud_kind :: unit_kind
  ud_document :: raw_unit_file

definition definition_parse :: "str \<Rightarrow> str \<Rightarrow> repo_error + unit_definition" where
  "definition_parse name txt =
     (case kind_from_unit_name name of
        None \<Rightarrow> Inl (RInvalidName (''unit name `'' @ name @ ''` has no recognized unit suffix''))
      | Some k \<Rightarrow> bnd (doc_parse txt) (\<lambda>d. Inr \<lparr>ud_name = name, ud_kind = k, ud_document = d\<rparr>))"

section \<open>Directory persistence\<close>

definition backend_list_names :: "fsys \<Rightarrow> str \<Rightarrow> repo_error + str list" where
  "backend_list_names fs root =
     (case read_dir fs root of
        Inl IoNotFound \<Rightarrow> Inr []
      | Inl e \<Rightarrow> Inl (RIo e)
      | Inr ns \<Rightarrow> Inr (sort (filter (\<lambda>n. is_file fs (path_join root n) \<and> kind_from_unit_name n \<noteq> None) ns)))"

definition backend_read :: "fsys \<Rightarrow> str \<Rightarrow> str \<Rightarrow> repo_error + unit_definition option" where
  "backend_read fs root name =
     (case read_to_string fs (path_join root name) of
        Inr txt \<Rightarrow> bnd (definition_parse name txt) (\<lambda>u. Inr (Some u))
      | Inl IoNotFound \<Rightarrow> Inr None
      | Inl e \<Rightarrow> Inl (RIo e))"

definition backend_read_path :: "fsys \<Rightarrow> str \<Rightarrow> repo_error + unit_definition" where
  "backend_read_path fs p =
     (case read_to_string fs p of
        Inr txt \<Rightarrow> definition_parse (path_file_name p) txt
      | Inl e \<Rightarrow> Inl (RIo e))"

type_synonym repo_step = "fsys \<Rightarrow> (repo_error + unit) \<times> fsys"

definition backend_delete :: "str \<Rightarrow> str \<Rightarrow> repo_step" where
  "backend_delete root name fs =
     (case remove_file (path_join root name) fs of
        (Inl IoNotFound, fs1) \<Rightarrow> (Inr (), fs1)
      | (Inl e, fs1) \<Rightarrow> (Inl (RIo e), fs1)
      | (Inr _, fs1) \<Rightarrow> (Inr (), fs1))"

text \<open>The name of the temporary file holds the process number and a counter of writes, \<open>tag\<close> here.\<close>

definition temp_name :: "str \<Rightarrow> str \<Rightarrow> str" where
  "temp_name tag name = ''.'' @ name @ ''.rystemd-tmp-'' @ tag"

definition write_temp :: "str \<Rightarrow> str \<Rightarrow> repo_step" where
  "write_temp temp txt fs =
     (case create_file temp fs of
        (Inl e, fs1) \<Rightarrow> (Inl (RIo e), fs1)
      | (Inr _, fs1) \<Rightarrow>
          (case write_all temp txt fs1 of
             (Inl e, fs2) \<Rightarrow> (Inl (RIo e), fs2)
           | (Inr _, fs2) \<Rightarrow> (Inr (), fs2)))"

definition backend_write :: "str \<Rightarrow> str \<Rightarrow> unit_definition \<Rightarrow> repo_step" where
  "backend_write tag root u fs =
     (case create_dir_all root fs of
        (Inl e, fs1) \<Rightarrow> (Inl (RIo e), fs1)
      | (Inr _, fs1) \<Rightarrow>
          (let temp = path_join root (temp_name tag (ud_name u)) in
           case write_temp temp (doc_to_text (ud_document u)) fs1 of
             (Inl e, fs2) \<Rightarrow> (Inl e, snd (remove_file temp fs2))
           | (Inr _, fs2) \<Rightarrow>
               (case rename_file temp (path_join root (ud_name u)) fs2 of
                  (Inl e, fs3) \<Rightarrow> (Inl (RIo e), snd (remove_file temp fs3))
                | (Inr _, fs3) \<Rightarrow> (Inr (), fs3))))"

section \<open>The repository\<close>

definition validate_name :: "str \<Rightarrow> repo_error + unit" where
  "validate_name name =
     (if \<not> is_plain_unit_name name
      then Inl (RInvalidName (''unit name `'' @ name @ ''` is not a plain unit file name''))
      else if kind_from_unit_name name = None
      then Inl (RInvalidName (''unit name `'' @ name @ ''` has no recognized unit suffix''))
      else Inr ())"

definition open_roots :: "str list \<Rightarrow> repo_error + str list" where
  "open_roots roots = (if roots = [] then Inl (RInvalidName ''repository needs at least one root'') else Inr roots)"

text \<open>\<open>seen.insert(name.clone())\<close>: a name is read from the first root that lists it.\<close>

definition list_name :: "fsys \<Rightarrow> str \<Rightarrow> str \<Rightarrow> str list \<times> unit_definition list \<Rightarrow>
    repo_error + str list \<times> unit_definition list" where
  "list_name fs root name st =
     (let (seen, out) = st in
      if List.member seen name then Inr st
      else bnd (backend_read fs root name) (\<lambda>r.
             Inr (name # seen, case r of Some u \<Rightarrow> out @ [u] | None \<Rightarrow> out)))"

definition list_root :: "fsys \<Rightarrow> str \<Rightarrow> str list \<times> unit_definition list \<Rightarrow>
    repo_error + str list \<times> unit_definition list" where
  "list_root fs root st = bnd (backend_list_names fs root) (\<lambda>ns. fold_res (list_name fs root) ns st)"

definition repo_list :: "fsys \<Rightarrow> str list \<Rightarrow> repo_error + unit_definition list" where
  "repo_list fs roots = bnd (fold_res (list_root fs) roots ([], [])) (\<lambda>(_, out). Inr (sort_key ud_name out))"

fun read_roots :: "fsys \<Rightarrow> str list \<Rightarrow> str \<Rightarrow> repo_error + unit_definition option" where
  "read_roots fs [] name = Inr None"
| "read_roots fs (r # rs) name =
     bnd (backend_read fs r name) (\<lambda>u. case u of Some u \<Rightarrow> Inr (Some u) | None \<Rightarrow> read_roots fs rs name)"

definition repo_read :: "fsys \<Rightarrow> str list \<Rightarrow> str \<Rightarrow> repo_error + unit_definition option" where
  "repo_read fs roots name = bnd (validate_name name) (\<lambda>_. read_roots fs roots name)"

text \<open>An operation with a check first: the file system is unchanged when the check fails.\<close>

definition checked :: "repo_error + 'a \<Rightarrow> ('a \<Rightarrow> repo_step) \<Rightarrow> repo_step" where
  "checked r f fs = (case r of Inl e \<Rightarrow> (Inl e, fs) | Inr x \<Rightarrow> f x fs)"

definition repo_write :: "str \<Rightarrow> str list \<Rightarrow> unit_definition \<Rightarrow> repo_step" where
  "repo_write tag roots u = checked (validate_name (ud_name u)) (\<lambda>_. backend_write tag (hd roots) u)"

definition repo_create :: "str \<Rightarrow> str list \<Rightarrow> unit_definition \<Rightarrow> repo_step" where
  "repo_create tag roots u = checked (validate_name (ud_name u)) (\<lambda>_ fs.
     checked (backend_read fs (hd roots) (ud_name u)) (\<lambda>r.
       if r \<noteq> None then (\<lambda>fs. (Inl (RAlreadyExists (ud_name u)), fs)) else backend_write tag (hd roots) u) fs)"

definition repo_update :: "str \<Rightarrow> str list \<Rightarrow> unit_definition \<Rightarrow> repo_step" where
  "repo_update tag roots u = checked (validate_name (ud_name u)) (\<lambda>_ fs.
     checked (backend_read fs (hd roots) (ud_name u)) (\<lambda>r.
       if r = None then (\<lambda>fs. (Inl (RNotFound (ud_name u)), fs)) else backend_write tag (hd roots) u) fs)"

definition repo_delete :: "str list \<Rightarrow> str \<Rightarrow> repo_step" where
  "repo_delete roots name = checked (validate_name name) (\<lambda>_. backend_delete (hd roots) name)"

definition repo_mutate :: "str \<Rightarrow> str list \<Rightarrow> str \<Rightarrow> (unit_definition option \<Rightarrow> unit_definition option) \<Rightarrow> repo_step" where
  "repo_mutate tag roots name f = checked (validate_name name) (\<lambda>_ fs.
     checked (backend_read fs (hd roots) name) (\<lambda>r.
       case f r of
         Some u \<Rightarrow> (if ud_name u \<noteq> name then (\<lambda>fs. (Inl (RInvalidName ''mutate closure changed the unit name''), fs))
                    else backend_write tag (hd roots) u)
       | None \<Rightarrow> backend_delete (hd roots) name) fs)"

end
