(* ===== verification/Repo_Props.thy ===== *)
theory Repo_Props
  imports Repo
begin

text \<open>
  What the repository promises: its parser agrees with the manager's parser of unit files, what it
  writes it reads back, a write is atomic under any failure of the operating system, and the whole
  behaves as a map from names to unit definitions.
\<close>

section \<open>The two parsers\<close>

lemma split_once_find:
  "split_once [c] s = map_option (\<lambda>i. (take i s, drop (i + 1) s)) (find_idx (\<lambda>x. x = c) s)"
proof (induction s)
  case (Cons x s)
  then show ?case by (cases "x = c") (auto simp: starts_with_def option.map_comp comp_def)
qed simp

definition agree :: "repo_error + parse_state \<Rightarrow> parse_error + parse_state \<Rightarrow> bool" where
  "agree r s \<longleftrightarrow> (\<exists>a. r = Inr a \<and> s = Inr a) \<or> (\<exists>e msg. r = Inl (RParse (pe_line e) msg) \<and> s = Inl e)"

lemma agree_Inr [simp]: "agree (Inr a) (Inr b) \<longleftrightarrow> a = b"
  by (auto simp: agree_def)

lemma agree_Inl [simp]: "agree (Inl (RParse l msg)) (Inl e) \<longleftrightarrow> l = pe_line e"
  by (simp add: agree_def)

lemma agree_bnd: "agree r s \<Longrightarrow> (\<And>x. agree (f x) (g x)) \<Longrightarrow> agree (bnd r f) (bnd s g)"
  unfolding agree_def [of r s] by (auto simp: agree_def [of "Inl _"])

lemma agree_header: "agree (doc_header l (CHR ''['' # rest) rest st) (parse_header l (CHR ''['' # rest) st)"
  by (auto simp: doc_header_def parse_header_def split_once_find Let_def split: option.splits prod.splits)

lemma valid_key_doc: "valid_key k \<longleftrightarrow> \<not> (k = [] \<or> \<not> list_all (\<lambda>c. is_alnum c \<or> List.member ''_-.'' c) k)"
  by (auto simp: valid_key_def)

lemma agree_line: "agree (doc_line l raw st) (parse_unit_line l raw st)"
proof -
  let ?t = "trim (strip_cr raw)"
  consider "?t = []" | "?t \<noteq> []" "hd ?t = CHR ''#'' \<or> hd ?t = CHR '';''" | rest where "?t = CHR ''['' # rest"
    | "?t \<noteq> []" "hd ?t \<noteq> CHR ''#''" "hd ?t \<noteq> CHR '';''" "hd ?t \<noteq> CHR ''[''"
    by (cases ?t) auto
  then show ?thesis
  proof cases
    case 3
    then have "starts_with ''#'' ?t = False" "starts_with '';'' ?t = False" "strip_prefix ''['' ?t = Some rest"
      by (auto simp: starts_with_def strip_prefix_def)
    with 3 agree_header [of l rest st] show ?thesis by (simp add: doc_line_def parse_unit_line_def Let_def)
  next
    case 4
    then have "starts_with ''#'' ?t = False" "starts_with '';'' ?t = False" "strip_prefix ''['' ?t = None"
      by (cases ?t; auto simp: starts_with_def strip_prefix_def)+
    with 4 show ?thesis
      by (auto simp: doc_line_def parse_unit_line_def Let_def doc_entry_def parse_assignment_def split_once_find
          valid_key_doc split: option.splits prod.splits)
  next
    case 2
    then show ?thesis
      by (cases ?t) (auto simp: doc_line_def parse_unit_line_def Let_def starts_with_def strip_prefix_def)
  qed (simp add: doc_line_def parse_unit_line_def)
qed

lemma agree_lines: "agree (doc_lines l ls st) (parse_unit_lines l ls st)"
  by (induction ls arbitrary: l st) (auto intro: agree_bnd agree_line)

lemma doc_parse_accepts: "parse_unit_text txt = Inr f \<Longrightarrow> doc_parse txt = Inr f"
  using agree_lines [of 1 "text_lines txt" "(\<lparr>rf_sections = []\<rparr>, None)"]
  by (auto simp: doc_parse_def parse_unit_text_def agree_def)

text \<open>C17. The repository's parser and the manager's parser of unit files accept the same texts with
  the same sections, and reject the others at the same line.\<close>

theorem parsers_agree:
  "case (doc_parse txt, parse_unit_text txt) of
     (Inr d, Inr f) \<Rightarrow> d = f
   | (Inl (RParse l _), Inl e) \<Rightarrow> l = pe_line e
   | _ \<Rightarrow> False"
  using agree_lines [of 1 "text_lines txt" "(\<lparr>rf_sections = []\<rparr>, None)"]
  by (auto simp: doc_parse_def parse_unit_text_def agree_def)

section \<open>Reading what was written\<close>

definition section_ok :: "raw_section \<Rightarrow> bool" where
  "section_ok s \<longleftrightarrow> rs_name s \<noteq> [] \<and> trimmed (rs_name s) \<and> CHR '']'' \<notin> set (rs_name s) \<and> CHR 0x0A \<notin> set (rs_name s) \<and>
     list_all (\<lambda>(k, v). valid_key k \<and> trimmed v \<and> CHR 0x0A \<notin> set v) (rs_entries s)"

definition doc_ok :: "raw_unit_file \<Rightarrow> bool" where
  "doc_ok d \<longleftrightarrow> list_all section_ok (rf_sections d)"

definition section_lines :: "raw_section \<Rightarrow> uline list" where
  "section_lines s = UHeader [] (rs_name s) [] # map (\<lambda>(k, v). UEntry k [] [] v) (rs_entries s)"

fun doc_ulines :: "raw_section list \<Rightarrow> uline list" where
  "doc_ulines [] = []"
| "doc_ulines [s] = section_lines s"
| "doc_ulines (s # t # ss) = section_lines s @ UBlank # doc_ulines (t # ss)"

abbreviation line_text :: "uline \<Rightarrow> str" where "line_text u \<equiv> show_padded ([], u, [])"

lemma section_text_lines:
  "doc_section_text s = concat (map (\<lambda>u. line_text u @ [CHR 0x0A]) (section_lines s))"
proof -
  have "concat (map (\<lambda>(k, v). k @ ''='' @ v @ [CHR 0x0A]) es) =
      concat (map (\<lambda>u. line_text u @ [CHR 0x0A]) (map (\<lambda>(k, v). UEntry k [] [] v) es))" for es
    by (induction es) (auto simp: show_padded_def)
  then show ?thesis by (simp add: doc_section_text_def section_lines_def show_padded_def)
qed

lemma doc_text_lines:
  "doc_sections_text ss = concat (map (\<lambda>u. line_text u @ [CHR 0x0A]) (doc_ulines ss))"
  by (induction ss rule: doc_sections_text.induct) (simp_all add: section_text_lines show_padded_def)

lemma add_entries:
  "fold add_uline (map (\<lambda>(k, v). UEntry k [] [] v) es) (ss @ [s]) = ss @ [s\<lparr>rs_entries := rs_entries s @ es\<rparr>]"
  by (induction es arbitrary: s) auto

lemma add_section: "fold add_uline (section_lines s) ss = ss @ [s]"
  using add_entries [of "rs_entries s" ss "\<lparr>rs_name = rs_name s, rs_entries = []\<rparr>"]
  by (simp add: section_lines_def)

lemma add_doc: "fold add_uline (doc_ulines ss) acc = acc @ ss"
  by (induction ss arbitrary: acc rule: doc_ulines.induct) (simp_all add: add_section)

lemma doc_ulines_ok:
  assumes "list_all section_ok ss"
  shows "\<forall>u \<in> set (doc_ulines ss). uline_ok u \<and> CHR 0x0A \<notin> set (line_text u)" "headed (doc_ulines ss)"
proof -
  have key: "CHR 0x0A \<notin> set k" if "valid_key k" for k
    using that by (auto simp: valid_key_def list_all_iff is_alnum_def is_digit_def is_alpha_def code_def)
  have s: "\<forall>u \<in> set (section_lines s). uline_ok u \<and> CHR 0x0A \<notin> set (line_text u)" if "section_ok s" for s
    using that key by (auto simp: section_ok_def section_lines_def list_all_iff show_padded_def)
  show "\<forall>u \<in> set (doc_ulines ss). uline_ok u \<and> CHR 0x0A \<notin> set (line_text u)"
    using assms s by (induction ss rule: doc_ulines.induct) (auto simp: show_padded_def)
  show "headed (doc_ulines ss)"
    by (cases ss rule: doc_ulines.cases) (simp_all add: section_lines_def)
qed

lemma doc_roundtrip:
  assumes "doc_ok d"
  shows "doc_parse (doc_to_text d) = Inr d"
proof -
  let ?us = "doc_ulines (rf_sections d)" and ?ps = "map (\<lambda>u. ([], u, [])) (doc_ulines (rf_sections d))"
  note ok = doc_ulines_ok [OF assms [unfolded doc_ok_def]]
  have m: "map (fst \<circ> snd) ?ps = ?us" by (simp add: comp_def)
  have "list_all padded_ok ?ps" "headed (map (fst \<circ> snd) ?ps)" "\<forall>p \<in> set ?ps. CHR 0x0A \<notin> set (show_padded p)"
    using ok unfolding m by (auto simp: list_all_iff padded_ok_def)
  from parse_shown_text [OF this] have "parse_unit_text (doc_to_text d) = Inr \<lparr>rf_sections = rf_sections d\<rparr>"
    unfolding m add_doc by (simp add: doc_to_text_def doc_text_lines comp_def)
  moreover have "\<lparr>rf_sections = rf_sections d\<rparr> = d" by simp
  ultimately have "parse_unit_text (doc_to_text d) = Inr d" by simp
  then show ?thesis by (rule doc_parse_accepts)
qed

section \<open>Writes are atomic\<close>

text \<open>What is recorded under a path itself, without following links.\<close>

definition entry :: "fsys \<Rightarrow> str \<Rightarrow> str option \<times> str option" where
  "entry fs p = (map_of (fs_files fs) p, map_of (fs_links fs) p)"

lemma entry_put_file: "snd (entry fs p) = None \<Longrightarrow> entry (put_file p t fs) = (entry fs)(p := (Some t, None))"
  by (auto simp: entry_def put_file_def fun_eq_iff)

lemma entry_drop: "entry (drop_entry p fs) = (entry fs)(p := (None, None))"
  by (auto simp: entry_def drop_entry_def fun_eq_iff)

lemma entry_mkdir: "entry (snd (create_dir_all d fs)) = entry fs"
  by (auto simp: create_dir_all_def guarded_def entry_def fun_eq_iff split: option.splits)

lemma entry_create:
  "create_file p fs = (r, fs') \<Longrightarrow> snd (entry fs p) = None \<Longrightarrow>
   entry fs' = (case r of Inr _ \<Rightarrow> (entry fs)(p := (Some [], None)) | Inl _ \<Rightarrow> entry fs)"
  by (auto simp: create_file_def guarded_def entry_put_file split: option.splits)

lemma entry_write:
  assumes "write_all p t fs = (r, fs')" "entry fs p = (Some t0, None)"
  shows "\<exists>t1. entry fs' = (entry fs)(p := (Some t1, None)) \<and> (r = Inr () \<longrightarrow> t1 = t0 @ t)"
proof -
  from assms(2) have "snd (entry fs p) = None" "file_text fs p = t0"
    by (auto simp: file_text_def entry_def)
  with assms(1) show ?thesis by (auto simp: write_all_def entry_put_file split: option.splits)
qed

lemma entry_remove:
  "remove_file p fs = (r, fs') \<Longrightarrow>
   entry fs' = (case r of Inr _ \<Rightarrow> (entry fs)(p := (None, None)) | Inl _ \<Rightarrow> entry fs)"
  by (auto simp: remove_file_def guarded_def entry_drop split: option.splits if_splits)

lemma entry_rename:
  assumes "rename_file a b fs = (r, fs')" "entry fs a = (Some t, None)" "a \<noteq> b"
  shows "entry fs' = (case r of Inr _ \<Rightarrow> (entry fs)(a := (None, None), b := (Some t, None)) | Inl _ \<Rightarrow> entry fs)"
  using assms by (auto simp: rename_file_def guarded_def entry_def drop_entry_def Let_def fun_eq_iff split: option.splits)

lemma entry_cleanup: "p \<noteq> temp \<Longrightarrow> entry (snd (remove_file temp fs)) p = entry fs p"
  using entry_remove [of temp fs] by (cases "remove_file temp fs") (auto split: sum.splits)

lemma entry_write_temp:
  assumes "write_temp temp txt fs = (r, fs')" "snd (entry fs temp) = None"
  shows "(\<forall>p. p \<noteq> temp \<longrightarrow> entry fs' p = entry fs p) \<and> (r = Inr () \<longrightarrow> entry fs' temp = (Some txt, None))"
proof -
  obtain r1 fs1 where c: "create_file temp fs = (r1, fs1)" by fastforce
  note e1 = entry_create [OF c assms(2)]
  show ?thesis
  proof (cases r1)
    case (Inl e)
    with c e1 assms(1) show ?thesis by (auto simp: write_temp_def)
  next
    case (Inr u)
    obtain r2 fs2 where w: "write_all temp txt fs1 = (r2, fs2)" by fastforce
    have "entry fs1 temp = (Some [], None)" using e1 Inr by simp
    from entry_write [OF w this] Inr c w e1 assms(1) show ?thesis
      by (auto simp: write_temp_def split: sum.splits)
  qed
qed

lemma temp_name_neq: "temp_name tag n \<noteq> n"
proof
  assume "temp_name tag n = n"
  then have "length (temp_name tag n) = length n" by simp
  then show False by (simp add: temp_name_def)
qed

lemma temp_path_neq:
  assumes "root \<noteq> []" "is_plain_unit_name n"
  shows "path_join root (temp_name tag n) \<noteq> path_join root n"
proof -
  have "\<not> starts_with ''/'' (temp_name tag n)" by (simp add: temp_name_def starts_with_def)
  from path_join_inj [OF this plain_name_relative [OF assms(2)] assms(1)] show ?thesis
    using temp_name_neq by simp
qed

lemma write_entries:
  assumes "backend_write tag root u fs = (r, fs')" "path_join root (temp_name tag (ud_name u)) = temp"
    "snd (entry fs temp) = None" "temp \<noteq> path_join root (ud_name u)" "p \<noteq> temp"
  shows "entry fs' p = (if r = Inr () \<and> p = path_join root (ud_name u)
     then (Some (doc_to_text (ud_document u)), None) else entry fs p) \<and>
    (r = Inr () \<longrightarrow> entry fs' temp = (None, None)) \<and> (\<forall>e. r = Inl e \<longrightarrow> (\<exists>i. e = RIo i))"
proof -
  obtain r1 fs1 where m: "create_dir_all root fs = (r1, fs1)" by fastforce
  have e1: "entry fs1 = entry fs" using entry_mkdir [of root fs] m by simp
  obtain r2 fs2 where t: "write_temp temp (doc_to_text (ud_document u)) fs1 = (r2, fs2)" by fastforce
  have e2: "(\<forall>p. p \<noteq> temp \<longrightarrow> entry fs2 p = entry fs p) \<and>
      (r2 = Inr () \<longrightarrow> entry fs2 temp = (Some (doc_to_text (ud_document u)), None))"
    using entry_write_temp [OF t] assms(3) e1 by simp
  have io: "\<exists>i. e = RIo i" if "r2 = Inl e" for e
    using t that by (auto simp: write_temp_def split: sum.splits prod.splits)
  obtain r3 fs3 where n: "rename_file temp (path_join root (ud_name u)) fs2 = (r3, fs3)" by fastforce
  show ?thesis
  proof (cases r1)
    case (Inl e)
    with assms m e1 show ?thesis by (auto simp: backend_write_def)
  next
    case r1: (Inr x)
    show ?thesis
    proof (cases r2)
      case (Inl e)
      with assms m t r1 e2 io [OF Inl] show ?thesis
        by (auto simp: backend_write_def Let_def entry_cleanup)
    next
      case (Inr y)
      with e2 have "entry fs2 temp = (Some (doc_to_text (ud_document u)), None)" by simp
      note e3 = entry_rename [OF n this assms(4)]
      with assms m t n r1 Inr e2 show ?thesis
        by (cases r3) (auto simp: backend_write_def Let_def entry_cleanup)
    qed
  qed
qed

lemma temp_name_no_kind: "CHR ''.'' \<notin> set tag \<Longrightarrow> kind_from_unit_name (temp_name tag n) = None"
proof -
  assume t: "CHR ''.'' \<notin> set tag"
  have "CHR ''.'' \<notin> set (''rystemd-tmp-'' @ tag)" using t by simp
  from rfind_idx_append [OF this, of "CHR ''.'' # n"]
  have "rfind_idx (CHR ''.'') (temp_name tag n) = Some (length (CHR ''.'' # n))"
    by (simp add: temp_name_def)
  then show ?thesis
    by (simp add: kind_from_unit_name_def temp_name_def kind_from_suffix_def)
qed

text \<open>C18. Whatever call the operating system refuses, and however much of a refused write reaches the
  file: writing a unit definition replaces the file at its path by the complete new text, or fails
  with an I/O error and leaves it as it was; every other file but the temporary one is untouched;
  the temporary file is gone after a success, and never has the name of a unit.\<close>

theorem write_atomic:
  assumes "backend_write tag root u fs = (r, fs')" "root \<noteq> []" "is_plain_unit_name (ud_name u)"
    "read_link fs (path_join root (temp_name tag (ud_name u))) = None" "CHR ''.'' \<notin> set tag"
  shows "(\<forall>p. p \<noteq> path_join root (temp_name tag (ud_name u)) \<longrightarrow>
      entry fs' p = (if r = Inr () \<and> p = path_join root (ud_name u)
        then (Some (doc_to_text (ud_document u)), None) else entry fs p)) \<and>
    (r = Inr () \<longrightarrow> entry fs' (path_join root (temp_name tag (ud_name u))) = (None, None)) \<and>
    (\<forall>e. r = Inl e \<longrightarrow> (\<exists>i. e = RIo i)) \<and> kind_from_unit_name (temp_name tag (ud_name u)) = None"
proof -
  have l: "snd (entry fs (path_join root (temp_name tag (ud_name u)))) = None"
    using assms(4) by (simp add: entry_def read_link_def)
  note w = write_entries [OF assms(1) refl l temp_path_neq [OF assms(2,3)]]
  have "path_join root (ud_name u) \<noteq> path_join root (temp_name tag (ud_name u))"
    using temp_path_neq [OF assms(2,3)] by metis
  from w [OF this] w temp_name_no_kind [OF assms(5)] show ?thesis by blast
qed

theorem write_atomic_witness:
  "\<exists>fs'. backend_write ''7-0'' ''/u'' \<lparr>ud_name = ''a.service'', ud_kind = Service, ud_document = \<lparr>rf_sections = []\<rparr>\<rparr>
       \<lparr>fs_files = [(''/u/a.service'', ''[Unit]'')], fs_links = [], fs_dirs = [''/u''],
        fs_fail = (\<lambda>c p. if c = CallRename then Some ''busy'' else None), fs_part = (\<lambda>p. 0)\<rparr> = (Inl (RIo (IoOther ''busy'')), fs') \<and>
     entry fs' ''/u/a.service'' = (Some ''[Unit]'', None)"
proof -
  let ?u = "\<lparr>ud_name = ''a.service'', ud_kind = Service, ud_document = \<lparr>rf_sections = []\<rparr>\<rparr>"
  let ?fs = "\<lparr>fs_files = [(''/u/a.service'', ''[Unit]'')], fs_links = [], fs_dirs = [''/u''],
        fs_fail = (\<lambda>c p. if c = CallRename then Some ''busy'' else None), fs_part = (\<lambda>p. 0)\<rparr>"
  obtain r fs' where w: "backend_write ''7-0'' ''/u'' ?u ?fs = (r, fs')" by fastforce
  have "fst (backend_write ''7-0'' ''/u'' ?u ?fs) = Inl (RIo (IoOther ''busy''))" by code_simp
  with w have r: "r = Inl (RIo (IoOther ''busy''))" by simp
  have "path_join ''/u'' ''a.service'' = ''/u/a.service''"
    "path_join ''/u'' (temp_name ''7-0'' ''a.service'') \<noteq> ''/u/a.service''" by code_simp+
  with write_atomic [OF w] r have "entry fs' ''/u/a.service'' = entry ?fs ''/u/a.service''"
    by (simp add: is_plain_unit_name_def read_link_def)
  with w r show ?thesis by (simp add: entry_def)
qed

section \<open>The repository is a map\<close>

text \<open>The contract of a store of named documents, and the map it stands for after any sequence of
  writes and deletions.\<close>

datatype 'd store_cmd = Put str 'd | Del str

fun store_exec :: "(str \<Rightarrow> 'd \<Rightarrow> 's \<Rightarrow> 's) \<Rightarrow> (str \<Rightarrow> 's \<Rightarrow> 's) \<Rightarrow> 'd store_cmd \<Rightarrow> 's \<Rightarrow> 's" where
  "store_exec put del (Put n d) = put n d"
| "store_exec put del (Del n) = del n"

definition map_put :: "str \<Rightarrow> 'd \<Rightarrow> (str \<rightharpoonup> 'd) \<Rightarrow> (str \<rightharpoonup> 'd)" where
  "map_put n d m = m(n \<mapsto> d)"

definition map_del :: "str \<Rightarrow> (str \<rightharpoonup> 'd) \<Rightarrow> (str \<rightharpoonup> 'd)" where
  "map_del n m = m(n := None)"

fun cmd_ok :: "(str \<Rightarrow> bool) \<Rightarrow> ('d \<Rightarrow> bool) \<Rightarrow> 'd store_cmd \<Rightarrow> bool" where
  "cmd_ok P Q (Put n d) \<longleftrightarrow> P n \<and> Q d"
| "cmd_ok P Q (Del n) \<longleftrightarrow> P n"

locale unit_store =
  fixes lookup :: "'s \<Rightarrow> str \<rightharpoonup> 'd"
    and put :: "str \<Rightarrow> 'd \<Rightarrow> 's \<Rightarrow> 's"
    and del :: "str \<Rightarrow> 's \<Rightarrow> 's"
    and invar :: "'s \<Rightarrow> bool"
    and name_ok :: "str \<Rightarrow> bool"
    and storable :: "'d \<Rightarrow> bool"
  assumes lookup_put: "invar s \<Longrightarrow> name_ok n \<Longrightarrow> storable d \<Longrightarrow> lookup (put n d s) = (lookup s)(n \<mapsto> d)"
    and invar_put: "invar s \<Longrightarrow> name_ok n \<Longrightarrow> storable d \<Longrightarrow> invar (put n d s)"
    and lookup_del: "invar s \<Longrightarrow> name_ok n \<Longrightarrow> lookup (del n s) = (lookup s)(n := None)"
    and invar_del: "invar s \<Longrightarrow> name_ok n \<Longrightarrow> invar (del n s)"
begin

lemma exec_lookup:
  "invar s \<Longrightarrow> cmd_ok name_ok storable c \<Longrightarrow>
   invar (store_exec put del c s) \<and> lookup (store_exec put del c s) = store_exec map_put map_del c (lookup s)"
  by (cases c) (simp_all add: lookup_put invar_put lookup_del invar_del map_put_def map_del_def)

lemma run_lookup:
  "invar s \<Longrightarrow> list_all (cmd_ok name_ok storable) cs \<Longrightarrow>
   invar (fold (store_exec put del) cs s) \<and>
   lookup (fold (store_exec put del) cs s) = fold (store_exec map_put map_del) cs (lookup s)"
  by (induction cs arbitrary: s) (simp_all add: exec_lookup)

end

definition valid_name :: "str \<Rightarrow> bool" where
  "valid_name n \<longleftrightarrow> validate_name n = Inr ()"

text \<open>A directory of unit files no other program works on: the system refuses nothing, the root is no
  file and no link, its entries are no links, and every unit file in it parses.\<close>

definition store_ok :: "str \<Rightarrow> str \<Rightarrow> fsys \<Rightarrow> bool" where
  "store_ok tag root fs \<longleftrightarrow> calm fs \<and> root \<noteq> [] \<and> CHR ''.'' \<notin> set tag \<and> CHR ''/'' \<notin> set tag \<and>
     entry fs root = (None, None) \<and>
     (\<forall>n. CHR ''/'' \<notin> set n \<longrightarrow> snd (entry fs (path_join root n)) = None) \<and>
     (\<forall>n t. valid_name n \<longrightarrow> fst (entry fs (path_join root n)) = Some t \<longrightarrow> (\<exists>d. doc_parse t = Inr d))"

definition store_lookup :: "str \<Rightarrow> fsys \<Rightarrow> str \<rightharpoonup> raw_unit_file" where
  "store_lookup root fs n =
     (if valid_name n
      then (case fst (entry fs (path_join root n)) of
              Some t \<Rightarrow> (case doc_parse t of Inr d \<Rightarrow> Some d | Inl _ \<Rightarrow> None)
            | None \<Rightarrow> None)
      else None)"

definition unit_of :: "str \<Rightarrow> raw_unit_file \<Rightarrow> unit_definition" where
  "unit_of n d = \<lparr>ud_name = n, ud_kind = the (kind_from_unit_name n), ud_document = d\<rparr>"

lemma valid_nameD:
  assumes "valid_name n"
  shows "is_plain_unit_name n" "kind_from_unit_name n \<noteq> None" "CHR ''/'' \<notin> set n" "n \<noteq> []"
  using assms by (auto simp: valid_name_def validate_name_def is_plain_unit_name_def split: if_splits)

lemma path_join_root: "root \<noteq> [] \<Longrightarrow> n \<noteq> [] \<Longrightarrow> \<not> starts_with ''/'' n \<Longrightarrow> path_join root n \<noteq> root"
  by (auto simp: path_join_def starts_with_def)

lemma valid_path_inj:
  "root \<noteq> [] \<Longrightarrow> valid_name a \<Longrightarrow> valid_name b \<Longrightarrow> path_join root a = path_join root b \<longleftrightarrow> a = b"
  using path_join_inj plain_name_relative valid_nameD(1) by blast

lemma calm_write: "calm fs \<Longrightarrow> write_all p t fs = (Inr (), put_file p (file_text fs p @ t) fs)"
  by (simp add: write_all_def calm_def)

lemma calm_step [simp]:
  "calm (fs\<lparr>fs_files := x\<rparr>) = calm fs" "calm (fs\<lparr>fs_links := x\<rparr>) = calm fs" "calm (fs\<lparr>fs_dirs := ds\<rparr>) = calm fs"
  "calm (put_file p t fs) = calm fs" "calm (drop_entry p fs) = calm fs"
  by (simp_all add: calm_def put_file_def drop_entry_def)

lemma calm_backend_write:
  assumes "calm fs" "entry fs root = (None, None)" "snd (entry fs (path_join root (temp_name tag (ud_name u)))) = None"
  shows "\<exists>fs'. backend_write tag root u fs = (Inr (), fs') \<and> calm fs'"
proof -
  let ?temp = "path_join root (temp_name tag (ud_name u))"
  have "\<not> is_file fs root" using assms(2) by (simp add: is_file_def entry_def)
  then obtain fs1 where m: "create_dir_all root fs = (Inr (), fs1)" "calm fs1" "entry fs1 = entry fs"
    using assms(1) entry_mkdir [of root fs] by (auto simp: create_dir_all_def)
  let ?fs2 = "put_file ?temp (file_text (put_file ?temp [] fs1) ?temp @ doc_to_text (ud_document u)) (put_file ?temp [] fs1)"
  have t: "write_temp ?temp (doc_to_text (ud_document u)) fs1 = (Inr (), ?fs2)"
    using m by (simp add: write_temp_def create_file_def calm_write)
  have "snd (entry fs1 ?temp) = None" using m(3) assms(3) by simp
  then have "fst (entry ?fs2 ?temp) \<noteq> None" by (simp add: entry_put_file)
  then have "\<exists>fs3. rename_file ?temp (path_join root (ud_name u)) ?fs2 = (Inr (), fs3) \<and> calm fs3"
    using m(2) by (auto simp: rename_file_def Let_def entry_def split: option.splits)
  with m t show ?thesis by (auto simp: backend_write_def Let_def)
qed

lemma temp_name_plain: "valid_name n \<Longrightarrow> CHR ''/'' \<notin> set tag \<Longrightarrow> CHR ''/'' \<notin> set (temp_name tag n)"
  by (auto simp: temp_name_def dest: valid_nameD)

definition repo_put :: "str \<Rightarrow> str \<Rightarrow> str \<Rightarrow> raw_unit_file \<Rightarrow> fsys \<Rightarrow> fsys" where
  "repo_put tag root n d fs = snd (repo_write tag [root] (unit_of n d) fs)"

definition repo_del :: "str \<Rightarrow> str \<Rightarrow> fsys \<Rightarrow> fsys" where
  "repo_del root n fs = snd (repo_delete [root] n fs)"

lemma write_ok:
  assumes "store_ok tag root fs" "valid_name (ud_name u)"
  shows "\<exists>fs'. backend_write tag root u fs = (Inr (), fs') \<and> calm fs' \<and>
    entry fs' = (entry fs)(path_join root (ud_name u) := (Some (doc_to_text (ud_document u)), None),
      path_join root (temp_name tag (ud_name u)) := (None, None))"
proof -
  let ?temp = "path_join root (temp_name tag (ud_name u))"
  have l: "snd (entry fs ?temp) = None"
    using assms temp_name_plain [OF assms(2), of tag] by (auto simp: store_ok_def)
  obtain fs' where w: "backend_write tag root u fs = (Inr (), fs')" "calm fs'"
    using calm_backend_write [OF _ _ l] assms(1) by (auto simp: store_ok_def)
  have neq: "?temp \<noteq> path_join root (ud_name u)"
    using temp_path_neq assms valid_nameD(1) by (auto simp: store_ok_def)
  have "entry fs' p = ((entry fs)(path_join root (ud_name u) := (Some (doc_to_text (ud_document u)), None),
      ?temp := (None, None))) p" for p
    using write_entries [OF w(1) refl l neq] neq by (cases "p = ?temp") (auto dest: write_entries [OF w(1) refl l neq])
  then have "entry fs' = (entry fs)(path_join root (ud_name u) := (Some (doc_to_text (ud_document u)), None),
      ?temp := (None, None))" by (rule ext)
  with w show ?thesis by blast
qed

lemma valid_not_temp: "valid_name m \<Longrightarrow> CHR ''.'' \<notin> set tag \<Longrightarrow> m \<noteq> temp_name tag n"
  using temp_name_no_kind valid_nameD(2) by metis

lemma valid_path_temp:
  assumes "store_ok tag root fs" "valid_name m"
  shows "path_join root m \<noteq> path_join root (temp_name tag n)"
proof -
  have "\<not> starts_with ''/'' (temp_name tag n)" by (simp add: temp_name_def starts_with_def)
  with path_join_inj [of m "temp_name tag n" root] plain_name_relative valid_nameD(1) [OF assms(2)]
    valid_not_temp [OF assms(2), of tag n] assms(1)
  show ?thesis by (auto simp: store_ok_def)
qed

lemma repo_put_entry:
  assumes "store_ok tag root fs" "valid_name n"
  shows "calm (repo_put tag root n d fs) \<and> entry (repo_put tag root n d fs) =
    (entry fs)(path_join root n := (Some (doc_to_text d), None), path_join root (temp_name tag n) := (None, None))"
  using write_ok [OF assms(1), of "unit_of n d"] assms(2)
  by (auto simp: repo_put_def repo_write_def checked_def unit_of_def valid_name_def)

lemma repo_put_lookup:
  assumes "store_ok tag root fs" "valid_name n" "doc_ok d"
  shows "store_lookup root (repo_put tag root n d fs) = (store_lookup root fs)(n \<mapsto> d)"
proof
  fix m
  show "store_lookup root (repo_put tag root n d fs) m = ((store_lookup root fs)(n \<mapsto> d)) m"
  proof (cases "valid_name m")
    case True
    have "root \<noteq> []" using assms(1) by (simp add: store_ok_def)
    with True repo_put_entry [OF assms(1,2), of d] valid_path_temp [OF assms(1) True, of n]
      valid_path_inj [OF _ True assms(2)] doc_roundtrip [OF assms(3)] assms(2)
    show ?thesis by (auto simp: store_lookup_def)
  qed (use assms(2) in \<open>auto simp: store_lookup_def\<close>)
qed

lemma repo_put_ok:
  assumes "store_ok tag root fs" "valid_name n" "doc_ok d"
  shows "store_ok tag root (repo_put tag root n d fs)"
proof -
  note e = repo_put_entry [OF assms(1,2), of d]
  have r: "path_join root n \<noteq> root" "path_join root (temp_name tag n) \<noteq> root"
    using assms(1) path_join_root plain_name_relative valid_nameD [OF assms(2)]
    by (auto simp: store_ok_def temp_name_def starts_with_def)
  show ?thesis
    using assms(1) e r doc_roundtrip [OF assms(3)] by (auto simp: store_ok_def)
qed

lemma repo_del_entry:
  assumes "store_ok tag root fs" "valid_name n"
  shows "calm (repo_del root n fs) \<and> entry (repo_del root n fs) = (entry fs)(path_join root n := (None, None)) \<and>
    fst (repo_delete [root] n fs) = Inr ()"
proof -
  obtain r fs' where r: "remove_file (path_join root n) fs = (r, fs')" by fastforce
  have c: "calm fs" using assms(1) by (simp add: store_ok_def)
  from r c consider "r = Inr ()" | "r = Inl IoNotFound" "fs' = fs" "entry fs (path_join root n) = (None, None)"
    by (auto simp: remove_file_def entry_def split: if_splits)
  moreover have "calm fs'" using r c by (auto simp: remove_file_def split: if_splits)
  ultimately show ?thesis
    using entry_remove [OF r] r assms(2)
    by cases (auto simp: repo_del_def repo_delete_def backend_delete_def checked_def valid_name_def)
qed

lemma repo_del_lookup:
  assumes "store_ok tag root fs" "valid_name n"
  shows "store_lookup root (repo_del root n fs) = (store_lookup root fs)(n := None)"
proof
  fix m
  have "root \<noteq> []" using assms(1) by (simp add: store_ok_def)
  then show "store_lookup root (repo_del root n fs) m = ((store_lookup root fs)(n := None)) m"
    using repo_del_entry [OF assms] valid_path_inj [of root m n] assms(2) by (auto simp: store_lookup_def)
qed

lemma repo_del_ok: "store_ok tag root fs \<Longrightarrow> valid_name n \<Longrightarrow> store_ok tag root (repo_del root n fs)"
  using repo_del_entry [of tag root fs n] by (auto simp: store_ok_def)

interpretation store: unit_store "store_lookup root" "repo_put tag root" "repo_del root" "store_ok tag root"
    valid_name doc_ok for tag root
  by unfold_locales (simp_all add: repo_put_lookup repo_put_ok repo_del_lookup repo_del_ok)

text \<open>A client of the repository, and the same client of a map.\<close>

datatype repo_op = OpRead str | OpWrite unit_definition | OpCreate unit_definition | OpUpdate unit_definition |
  OpDelete str | OpMutate str "unit_definition option \<Rightarrow> unit_definition option"

datatype repo_reply = Done | Found "unit_definition option" | Refused repo_error

definition reply_of :: "(repo_error + unit) \<times> fsys \<Rightarrow> repo_reply \<times> fsys" where
  "reply_of r = (case r of (Inl e, fs) \<Rightarrow> (Refused e, fs) | (Inr _, fs) \<Rightarrow> (Done, fs))"

fun repo_do :: "str \<Rightarrow> str \<Rightarrow> repo_op \<Rightarrow> fsys \<Rightarrow> repo_reply \<times> fsys" where
  "repo_do tag root (OpRead n) fs = (case repo_read fs [root] n of Inl e \<Rightarrow> (Refused e, fs) | Inr u \<Rightarrow> (Found u, fs))"
| "repo_do tag root (OpWrite u) fs = reply_of (repo_write tag [root] u fs)"
| "repo_do tag root (OpCreate u) fs = reply_of (repo_create tag [root] u fs)"
| "repo_do tag root (OpUpdate u) fs = reply_of (repo_update tag [root] u fs)"
| "repo_do tag root (OpDelete n) fs = reply_of (repo_delete [root] n fs)"
| "repo_do tag root (OpMutate n f) fs = reply_of (repo_mutate tag [root] n f fs)"

definition store_name :: "repo_op \<Rightarrow> str" where
  "store_name op = (case op of OpRead n \<Rightarrow> n | OpWrite u \<Rightarrow> ud_name u | OpCreate u \<Rightarrow> ud_name u | OpUpdate u \<Rightarrow> ud_name u
     | OpDelete n \<Rightarrow> n | OpMutate n f \<Rightarrow> n)"

definition found :: "(str \<rightharpoonup> raw_unit_file) \<Rightarrow> str \<Rightarrow> unit_definition option" where
  "found m n = map_option (unit_of n) (m n)"

fun map_reply :: "(str \<rightharpoonup> raw_unit_file) \<Rightarrow> repo_op \<Rightarrow> repo_reply \<times> raw_unit_file store_cmd list" where
  "map_reply m (OpRead n) = (Found (found m n), [])"
| "map_reply m (OpWrite u) = (Done, [Put (ud_name u) (ud_document u)])"
| "map_reply m (OpCreate u) =
     (if m (ud_name u) \<noteq> None then (Refused (RAlreadyExists (ud_name u)), [])
      else (Done, [Put (ud_name u) (ud_document u)]))"
| "map_reply m (OpUpdate u) =
     (if m (ud_name u) = None then (Refused (RNotFound (ud_name u)), [])
      else (Done, [Put (ud_name u) (ud_document u)]))"
| "map_reply m (OpDelete n) = (Done, [Del n])"
| "map_reply m (OpMutate n f) =
     (case f (found m n) of
        None \<Rightarrow> (Done, [Del n])
      | Some u \<Rightarrow>
          if ud_name u = n then (Done, [Put n (ud_document u)])
          else (Refused (RInvalidName ''mutate closure changed the unit name''), []))"

definition map_do :: "repo_op \<Rightarrow> (str \<rightharpoonup> raw_unit_file) \<Rightarrow> repo_reply \<times> (str \<rightharpoonup> raw_unit_file)" where
  "map_do op m =
     (case validate_name (store_name op) of
        Inl e \<Rightarrow> (Refused e, m)
      | Inr _ \<Rightarrow> (let (r, cs) = map_reply m op in (r, fold (store_exec map_put map_del) cs m)))"

fun run_ops :: "('o \<Rightarrow> 's \<Rightarrow> 'r \<times> 's) \<Rightarrow> 'o list \<Rightarrow> 's \<Rightarrow> 'r list \<times> 's" where
  "run_ops step [] s = ([], s)"
| "run_ops step (op # ops) s =
     (let (r, s1) = step op s; (rs, s2) = run_ops step ops s1 in (r # rs, s2))"

fun op_ok :: "repo_op \<Rightarrow> bool" where
  "op_ok (OpWrite u) = doc_ok (ud_document u)"
| "op_ok (OpCreate u) = doc_ok (ud_document u)"
| "op_ok (OpUpdate u) = doc_ok (ud_document u)"
| "op_ok (OpMutate n f) = (\<forall>x. pred_option (\<lambda>u. doc_ok (ud_document u)) (f x))"
| "op_ok _ = True"

lemma backend_read_found:
  assumes "store_ok tag root fs" "valid_name n"
  shows "backend_read fs root n = Inr (found (store_lookup root fs) n)"
proof -
  let ?p = "path_join root n"
  have l: "map_of (fs_links fs) ?p = None" and c: "\<And>c p. fs_fail fs c p = None"
    using assms valid_nameD(3) [OF assms(2)] by (auto simp: store_ok_def entry_def calm_def)
  have d: "\<exists>d. doc_parse t = Inr d" if "map_of (fs_files fs) ?p = Some t" for t
    using assms that by (auto simp: store_ok_def entry_def)
  from valid_nameD(2) [OF assms(2)] obtain k where k: "kind_from_unit_name n = Some k" by auto
  show ?thesis
  proof (cases "map_of (fs_files fs) ?p")
    case None
    with l c assms(2) show ?thesis
      by (simp add: backend_read_def read_to_string_def found_def store_lookup_def entry_def)
  next
    case (Some t)
    from d [OF this] obtain d where "doc_parse t = Inr d" ..
    with Some l c k assms(2) show ?thesis
      by (simp add: backend_read_def read_to_string_def found_def store_lookup_def entry_def
          definition_parse_def unit_of_def)
  qed
qed

lemma write_put:
  assumes "store_ok tag root fs" "valid_name (ud_name u)"
  shows "backend_write tag root u fs = (Inr (), repo_put tag root (ud_name u) (ud_document u) fs)"
proof -
  have "backend_write tag root (unit_of (ud_name u) (ud_document u)) fs = backend_write tag root u fs"
    unfolding backend_write_def unit_of_def unit_definition.select_convs ..
  moreover have "fst (backend_write tag root u fs) = Inr ()" using write_ok [OF assms] by auto
  ultimately show ?thesis
    using assms(2) by (auto simp: repo_put_def repo_write_def checked_def unit_of_def valid_name_def
        intro: prod_eqI)
qed

lemma delete_del:
  assumes "store_ok tag root fs" "valid_name n"
  shows "backend_delete root n fs = (Inr (), repo_del root n fs)"
  using repo_del_entry [OF assms] assms(2)
  by (auto simp: repo_del_def repo_delete_def checked_def valid_name_def intro: prod_eqI)

definition simulates :: "str \<Rightarrow> str \<Rightarrow> 'r \<times> fsys \<Rightarrow> 'r \<times> (str \<rightharpoonup> raw_unit_file) \<Rightarrow> bool" where
  "simulates tag root a b \<longleftrightarrow> fst a = fst b \<and> store_lookup root (snd a) = snd b \<and> store_ok tag root (snd a)"

lemma simulates_put:
  "store_ok tag root fs \<Longrightarrow> valid_name (ud_name u) \<Longrightarrow> doc_ok (ud_document u) \<Longrightarrow>
   simulates tag root (reply_of (backend_write tag root u fs))
     (Done, fold (store_exec map_put map_del) [Put (ud_name u) (ud_document u)] (store_lookup root fs))"
  by (simp add: simulates_def write_put reply_of_def map_put_def store.lookup_put store.invar_put)

lemma simulates_del:
  "store_ok tag root fs \<Longrightarrow> valid_name n \<Longrightarrow>
   simulates tag root (reply_of (backend_delete root n fs))
     (Done, fold (store_exec map_put map_del) [Del n] (store_lookup root fs))"
  by (simp add: simulates_def delete_del reply_of_def map_del_def store.lookup_del store.invar_del)

lemma repo_do_map:
  assumes "store_ok tag root fs" "op_ok op"
  shows "simulates tag root (repo_do tag root op fs) (map_do op (store_lookup root fs))"
proof (cases "validate_name (store_name op)")
  case (Inl e)
  with assms show ?thesis
    by (cases op) (auto simp: map_do_def store_name_def simulates_def reply_of_def repo_read_def repo_write_def
        repo_create_def repo_update_def repo_delete_def repo_mutate_def checked_def)
next
  case (Inr x)
  then have v: "valid_name (store_name op)" "validate_name (store_name op) = Inr ()" by (simp_all add: valid_name_def)
  note r = backend_read_found [OF assms(1) v(1)]
  show ?thesis
  proof (cases op)
    case (OpRead n)
    with v r assms show ?thesis
      by (simp add: map_do_def store_name_def simulates_def repo_read_def split: option.splits)
  next
    case (OpWrite u)
    with v simulates_put [OF assms(1)] assms(2) show ?thesis
      by (simp add: map_do_def store_name_def repo_write_def checked_def)
  next
    case (OpCreate u)
    with v r simulates_put [OF assms(1)] assms show ?thesis
      by (auto simp: map_do_def store_name_def repo_create_def checked_def found_def simulates_def reply_of_def)
  next
    case (OpUpdate u)
    with v r simulates_put [OF assms(1)] assms show ?thesis
      by (auto simp: map_do_def store_name_def repo_update_def checked_def found_def simulates_def reply_of_def)
  next
    case (OpDelete n)
    with v simulates_del [OF assms(1)] show ?thesis
      by (simp add: map_do_def store_name_def repo_delete_def checked_def)
  next
    case (OpMutate n f)
    show ?thesis
    proof (cases "f (found (store_lookup root fs) n)")
      case None
      with OpMutate v r simulates_del [OF assms(1)] show ?thesis
        by (simp add: map_do_def store_name_def repo_mutate_def checked_def)
    next
      case (Some u)
      with OpMutate assms(2) have "doc_ok (ud_document u)" by (auto simp: pred_option_def)
      with Some OpMutate v r simulates_put [OF assms(1), of u] assms show ?thesis
        by (auto simp: map_do_def store_name_def repo_mutate_def checked_def simulates_def reply_of_def)
    qed
  qed
qed

lemma run_simulates:
  "store_ok tag root fs \<Longrightarrow> list_all op_ok ops \<Longrightarrow>
   simulates tag root (run_ops (repo_do tag root) ops fs) (run_ops map_do ops (store_lookup root fs))"
proof (induction ops arbitrary: fs)
  case Nil
  then show ?case by (simp add: simulates_def)
next
  case (Cons op ops)
  obtain r fs1 where o: "repo_do tag root op fs = (r, fs1)" by fastforce
  obtain r' m1 where m: "map_do op (store_lookup root fs) = (r', m1)" by fastforce
  have s: "r = r'" "store_lookup root fs1 = m1" "store_ok tag root fs1"
    using repo_do_map [of tag root fs op] Cons.prems o m by (simp_all add: simulates_def)
  have "simulates tag root (run_ops (repo_do tag root) ops fs1) (run_ops map_do ops m1)"
    using Cons.IH [OF s(3)] Cons.prems(2) s(2) by simp
  with o m s(1) show ?case
    by (cases "run_ops (repo_do tag root) ops fs1"; cases "run_ops map_do ops m1") (simp add: simulates_def)
qed

text \<open>C19. On a directory no other program works on, any sequence of reads, writes, creations,
  updates, deletions and mutations answers exactly as a map from valid names to documents would,
  refusals included, and ends in a directory that reads as that map.\<close>

theorem repo_refines_map:
  assumes "store_ok tag root fs" "list_all op_ok ops" "run_ops (repo_do tag root) ops fs = (rs, fs')"
  shows "run_ops map_do ops (store_lookup root fs) = (rs, store_lookup root fs') \<and> store_ok tag root fs'"
  using run_simulates [OF assms(1,2)] assms(3) by (auto simp: simulates_def intro: prod_eqI)

definition empty_fs :: fsys where
  "empty_fs = \<lparr>fs_files = [], fs_links = [], fs_dirs = [], fs_fail = (\<lambda>c p. None), fs_part = (\<lambda>p. 0)\<rparr>"

definition demo_unit :: unit_definition where
  "demo_unit = \<lparr>ud_name = ''a.service'', ud_kind = Service,
     ud_document = \<lparr>rf_sections = [\<lparr>rs_name = ''Service'', rs_entries = [(''ExecStart'', ''/bin/a'')]\<rparr>]\<rparr>\<rparr>"

theorem repo_refines_map_witness:
  "\<exists>fs'. run_ops (repo_do ''7'' ''/u'') [OpCreate demo_unit, OpRead ''a.service'', OpCreate demo_unit] empty_fs =
     ([Done, Found (Some demo_unit), Refused (RAlreadyExists ''a.service'')], fs') \<and>
     store_lookup ''/u'' fs' ''a.service'' = Some (ud_document demo_unit)"
proof -
  let ?ops = "[OpCreate demo_unit, OpRead ''a.service'', OpCreate demo_unit]"
  have ok: "store_ok ''7'' ''/u'' empty_fs" "list_all op_ok ?ops"
    by (auto simp: store_ok_def empty_fs_def calm_def entry_def demo_unit_def doc_ok_def section_ok_def
        trimmed_def is_ws_def valid_key_def is_alnum_def is_alpha_def code_def)
  obtain rs fs' where r: "run_ops (repo_do ''7'' ''/u'') ?ops empty_fs = (rs, fs')" by fastforce
  from repo_refines_map [OF ok r]
  have m: "run_ops map_do ?ops (store_lookup ''/u'' empty_fs) = (rs, store_lookup ''/u'' fs')" by simp
  have e: "store_lookup ''/u'' empty_fs = Map.empty"
    by (auto simp: store_lookup_def empty_fs_def entry_def fun_eq_iff)
  have v: "validate_name ''a.service'' = Inr ()" "kind_from_unit_name ''a.service'' = Some Service" by code_simp+
  have "rs = [Done, Found (Some demo_unit), Refused (RAlreadyExists ''a.service'')]"
    "[''a.service'' \<mapsto> ud_document demo_unit] = store_lookup ''/u'' fs'"
    using m unfolding e by (auto simp: map_do_def store_name_def demo_unit_def v found_def unit_of_def map_put_def)
  with r show ?thesis by (metis fun_upd_same)
qed

end
