(* ===== verification/Unit_Load.thy ===== *)
theory Unit_Load
  imports Repo Unit_Build Engine
begin

text \<open>
  Where unit files come from: the search paths (\<^verbatim>\<open>rystemd/src/paths.rs\<close>), and loading a unit from
  disk (\<open>load_unit\<close>, \<open>read_unit_file\<close>, \<open>discover_names\<close> in \<^verbatim>\<open>rystemd/src/manager/mod.rs\<close>) over
  \<open>File_System\<close>. The engine takes the interpreted file of a unit from its world; \<open>reads_from\<close>
  says that the world answers as these definitions do. The model is of the build without the
  \<^verbatim>\<open>boot\<close> feature, as the default is.
\<close>

section \<open>Search paths\<close>

definition env_or :: "(str \<Rightarrow> str option) \<Rightarrow> str \<Rightarrow> str \<Rightarrow> str" where
  "env_or env k d = (case env k of Some v \<Rightarrow> v | None \<Rightarrow> d)"

definition paths_system :: "(str \<Rightarrow> str option) \<Rightarrow> paths" where
  "paths_system env =
     \<lparr>pa_user = False,
      pa_unit_path = (case env ''RYSTEMD_UNIT_PATH'' of
         Some p \<Rightarrow> split_char (CHR '':'') p
       | None \<Rightarrow> [''/etc/systemd/system'', ''/run/systemd/system'', ''/usr/lib/systemd/system'']),
      pa_config_dir = env_or env ''RYSTEMD_CONFIG_DIR'' ''/etc/systemd/system'',
      pa_runtime_dir = env_or env ''RYSTEMD_RUNTIME_DIR'' ''/run''\<rparr>"

definition user_config_dir :: "(str \<Rightarrow> str option) \<Rightarrow> str" where
  "user_config_dir env =
     (case env ''XDG_CONFIG_HOME'' of
        Some c \<Rightarrow> path_join (path_join c ''systemd'') ''user''
      | None \<Rightarrow>
          (case env ''HOME'' of
             Some h \<Rightarrow> path_join (path_join (path_join h ''.config'') ''systemd'') ''user''
           | None \<Rightarrow> ''.''))"

definition paths_user :: "(str \<Rightarrow> str option) \<Rightarrow> str + paths" where
  "paths_user env =
     bnd (case env ''RYSTEMD_RUNTIME_DIR'' of
            Some p \<Rightarrow> Inr p
          | None \<Rightarrow> (case env ''XDG_RUNTIME_DIR'' of
                       Some p \<Rightarrow> Inr p
                     | None \<Rightarrow> Inl ''XDG_RUNTIME_DIR is not set (needed for user mode)'')) (\<lambda>runtime.
     Inr \<lparr>pa_user = True,
          pa_unit_path = (case env ''RYSTEMD_UNIT_PATH'' of
             Some p \<Rightarrow> split_char (CHR '':'') p
           | None \<Rightarrow> [user_config_dir env, ''/etc/systemd/user'', ''/usr/lib/systemd/user'']),
          pa_config_dir = env_or env ''RYSTEMD_CONFIG_DIR'' (user_config_dir env),
          pa_runtime_dir = runtime\<rparr>)"

definition control_socket :: "(str \<Rightarrow> str option) \<Rightarrow> paths \<Rightarrow> str" where
  "control_socket env pa =
     (case env ''RYSTEMD_SOCKET'' of
        Some s \<Rightarrow> s
      | None \<Rightarrow> path_join (path_join (pa_runtime_dir pa) ''rystemd'') ''control'')"

definition default_target :: "paths \<Rightarrow> str" where
  "default_target pa = path_join (pa_config_dir pa) ''default.target''"

text \<open>The template of \<open>getty@tty1.service\<close> is \<open>getty@.service\<close>.\<close>

definition template_name :: "str \<Rightarrow> str option" where
  "template_name name =
     (case (find_idx (\<lambda>c. c = CHR ''@'') name, rfind_idx (CHR ''.'') name) of
        (Some at, Some dot) \<Rightarrow>
          if dot > at then Some (take (at + 1) name @ ''.'' @ drop (dot + 1) name) else None
      | _ \<Rightarrow> None)"

definition first_file :: "fsys \<Rightarrow> str list \<Rightarrow> str \<Rightarrow> str option" where
  "first_file fs dirs name = List.find (is_file fs) (map (\<lambda>d. path_join d name) dirs)"

definition find_unit :: "fsys \<Rightarrow> paths \<Rightarrow> str \<Rightarrow> str option" where
  "find_unit fs pa name =
     (if \<not> is_plain_unit_name name then None
      else case first_file fs (pa_unit_path pa) name of
             Some p \<Rightarrow> Some p
           | None \<Rightarrow> Option.bind (template_name name) (first_file fs (pa_unit_path pa)))"

text \<open>\<open>Path::extension\<close> is \<open>conf\<close>.\<close>

definition is_conf :: "str \<Rightarrow> bool" where
  "is_conf name = (case rfind_idx (CHR ''.'') name of Some i \<Rightarrow> i > 0 \<and> drop (i + 1) name = ''conf'' | None \<Rightarrow> False)"

definition dropins_in :: "fsys \<Rightarrow> str \<Rightarrow> str \<Rightarrow> str list" where
  "dropins_in fs name dir =
     (let d = path_join dir (name @ ''.d'') in
      case read_dir fs d of
        Inl _ \<Rightarrow> []
      | Inr ns \<Rightarrow> map (path_join d) (filter (\<lambda>n. is_conf n \<and> is_file fs (path_join d n)) ns))"

text \<open>\<open>out.sort()\<close>: paths are compared component by component.\<close>

definition dropins :: "fsys \<Rightarrow> paths \<Rightarrow> str \<Rightarrow> str list" where
  "dropins fs pa name =
     sort_key (split_char (CHR ''/'')) (concat (map (dropins_in fs name) (rev (pa_unit_path pa))))"

definition dir_deps :: "fsys \<Rightarrow> paths \<Rightarrow> str \<Rightarrow> str \<Rightarrow> str list" where
  "dir_deps fs pa name kind =
     concat (map (\<lambda>dir. let d = path_join dir (name @ ''.'' @ kind) in
       case read_dir fs d of
         Inl _ \<Rightarrow> []
       | Inr ns \<Rightarrow> filter (\<lambda>n. is_symlink fs (path_join d n) \<or> is_file fs (path_join d n)) ns) (pa_unit_path pa))"

section \<open>Loading a unit\<close>

definition specifier :: "manager_cfg \<Rightarrow> str \<Rightarrow> specifier_context" where
  "specifier cfg name =
     \<lparr>sp_unit_name = name, sp_runtime_dir = pa_runtime_dir (cfg_paths cfg), sp_user_name = cfg_username cfg,
      sp_uid = show_nat (cfg_uid cfg), sp_home = cfg_home cfg, sp_hostname = cfg_hostname cfg,
      sp_machine_id = cfg_machine_id cfg\<rparr>"

definition is_builtin :: "str \<Rightarrow> bool" where
  "is_builtin name \<longleftrightarrow> name = ''basic.target'' \<or> name = ''multi-user.target'' \<or> name = ''default.target''"

definition kind_unit_needs_file :: "unit_kind \<Rightarrow> bool" where
  "kind_unit_needs_file k \<longleftrightarrow> k = Target"

definition unit_config_default :: unit_config where
  "unit_config_default =
     \<lparr>uc_description = [], uc_after = [], uc_before = [], uc_requires = [], uc_requisite = [], uc_wants = [],
      uc_conflicts = [], uc_on_failure = [], uc_part_of = [], uc_binds_to = [], uc_default_dependencies = False,
      uc_documentation = [], uc_conditions = []\<rparr>"

definition builtin_target_file :: "str \<Rightarrow> unit_file" where
  "builtin_target_file name =
     \<lparr>uf_path = None,
      uf_unit = unit_config_default\<lparr>uc_description :=
        (if name = ''basic.target'' then ''Basic System''
         else if name = ''multi-user.target'' then ''Multi-User System''
         else if name = ''default.target'' then ''Default''
         else [])\<rparr>,
      uf_service = None, uf_timer = None, uf_path_unit = None, uf_socket = None, uf_mount = None,
      uf_install = \<lparr>ic_wanted_by = [], ic_required_by = [], ic_also = [], ic_alias = []\<rparr>\<rparr>"

definition read_unit_file :: "fsys \<Rightarrow> str \<Rightarrow> str + raw_unit_file" where
  "read_unit_file fs path =
     (case backend_read_path fs path of
        Inl e \<Rightarrow> Inl (''can'' @ [CHR 0x27] @ ''t read '' @ path @ '': '' @ show_repo_error e)
      | Inr u \<Rightarrow> Inr (ud_document u))"

fun read_dropins :: "fsys \<Rightarrow> str list \<Rightarrow> raw_unit_file \<Rightarrow> str + raw_unit_file" where
  "read_dropins fs [] raw = Inr raw"
| "read_dropins fs (p # ps) raw =
     (case read_unit_file fs p of
        Inl e \<Rightarrow> Inl (''drop-in error: '' @ e)
      | Inr d \<Rightarrow> read_dropins fs ps (raw\<lparr>rf_sections := rf_sections raw @ rf_sections d\<rparr>))"

definition unit_defaults_empty :: "unit_config \<Rightarrow> bool" where
  "unit_defaults_empty c \<longleftrightarrow> uc_after c = [] \<and> uc_wants c = [] \<and> uc_requires c = []"

definition add_dir_deps :: "fsys \<Rightarrow> paths \<Rightarrow> str \<Rightarrow> unit_file \<Rightarrow> unit_file" where
  "add_dir_deps fs pa name f =
     (let u = uf_unit f in
      f\<lparr>uf_unit := u\<lparr>uc_wants := uc_wants u @ dir_deps fs pa name ''wants'',
                     uc_requires := uc_requires u @ dir_deps fs pa name ''requires''\<rparr>\<rparr>)"

definition synthesize_target :: "str \<Rightarrow> unit_file \<Rightarrow> unit_file" where
  "synthesize_target name f =
     (let u = uf_unit f;
          u1 = (if name = ''default.target'' \<and> unit_defaults_empty u
                then u\<lparr>uc_wants := uc_wants u @ [''multi-user.target''], uc_after := uc_after u @ [''multi-user.target'']\<rparr>
                else u);
          u2 = (if name = ''basic.target'' then u1\<lparr>uc_description := ''Basic System''\<rparr> else u1);
          u3 = (if name = ''multi-user.target'' then u2\<lparr>uc_description := ''Multi-User System''\<rparr> else u2)
      in f\<lparr>uf_unit := u3\<rparr>)"

definition finish_load :: "fsys \<Rightarrow> manager_cfg \<Rightarrow> str \<Rightarrow> str option \<Rightarrow> raw_unit_file \<Rightarrow>
    (str + (unit_file \<times> str option) option) option" where
  "finish_load fs cfg name main raw0 =
     (case read_dropins fs (dropins fs (cfg_paths cfg) name) raw0 of
        Inl e \<Rightarrow> Some (Inl e)
      | Inr raw \<Rightarrow>
          (case build raw (specifier cfg name) of
             None \<Rightarrow> None
           | Some (Inl e) \<Rightarrow> Some (Inl (show_build_error e))
           | Some (Inr f) \<Rightarrow>
               (let f1 = add_dir_deps fs (cfg_paths cfg) name f;
                    f2 = (if unit_kind_of name = Target \<and> main = None then synthesize_target name f1 else f1)
                in Some (Inr (Some (f2, main))))))"

text \<open>\<open>load_unit\<close> up to the unit state around the file. \<open>None\<close>: the parser of calendar expressions
  does not return.\<close>

definition load_file :: "fsys \<Rightarrow> manager_cfg \<Rightarrow> str \<Rightarrow> (str + (unit_file \<times> str option) option) option" where
  "load_file fs cfg name =
     (let kind = unit_kind_of name; main = find_unit fs (cfg_paths cfg) name in
      if kind = Target \<and> main = None \<and> \<not> is_builtin name
      then Some (Inr (Some (builtin_target_file name, None)))
      else
        (case main of
           Some p \<Rightarrow>
             (case read_unit_file fs p of
                Inl e \<Rightarrow> Some (Inl (''parse error: '' @ e))
              | Inr parsed \<Rightarrow> finish_load fs cfg name main parsed)
         | None \<Rightarrow>
             if \<not> is_builtin name \<and> \<not> kind_unit_needs_file kind then Some (Inr None)
             else finish_load fs cfg name None \<lparr>rf_sections = []\<rparr>))"

section \<open>Discovery\<close>

definition recognized :: "str \<Rightarrow> bool" where
  "recognized f \<longleftrightarrow> ends_with ''.service'' f \<or> ends_with ''.timer'' f \<or> ends_with ''.target'' f \<or>
     ends_with ''.path'' f \<or> ends_with ''.socket'' f \<or> ends_with ''.mount'' f"

definition listed_names :: "fsys \<Rightarrow> paths \<Rightarrow> str list" where
  "listed_names fs pa =
     (case repo_list fs (pa_unit_path pa) of
        Inl _ \<Rightarrow> []
      | Inr us \<Rightarrow> filter recognized (map ud_name us))"

definition implied_names :: "fsys \<Rightarrow> str \<Rightarrow> str \<Rightarrow> str list" where
  "implied_names fs dir fname =
     (case strip_suffix ''.wants'' fname of
        Some base \<Rightarrow> (base @ ''.target'') #
          (case read_dir fs (path_join dir fname) of Inr ns \<Rightarrow> ns | Inl _ \<Rightarrow> [])
      | None \<Rightarrow>
          (case strip_suffix ''.requires'' fname of
             Some base \<Rightarrow> [base @ ''.target'']
           | None \<Rightarrow> []))"

definition dependency_names :: "fsys \<Rightarrow> paths \<Rightarrow> str list" where
  "dependency_names fs pa =
     concat (map (\<lambda>dir. case read_dir fs dir of
        Inl _ \<Rightarrow> [] | Inr ns \<Rightarrow> concat (map (implied_names fs dir) ns)) (pa_unit_path pa))"

definition discover_names :: "fsys \<Rightarrow> manager_cfg \<Rightarrow> str list" where
  "discover_names fs cfg =
     (let pa = cfg_paths cfg in
      sort (remdups (listed_names fs pa @ dependency_names fs pa @
        [''basic.target'', ''multi-user.target'', ''default.target''] @
        (case read_link fs (default_target pa) of Some t \<Rightarrow> [path_file_name t] | None \<Rightarrow> []))))"

text \<open>The world of the engine reads unit files from this file system.\<close>

definition reads_from :: "os \<Rightarrow> fsys \<Rightarrow> manager_cfg \<Rightarrow> bool" where
  "reads_from w fs cfg \<longleftrightarrow>
     (\<forall>t name. load_file fs cfg name = Some (os_load_file w t name)) \<and> (\<forall>t. os_discover w t = discover_names fs cfg)"

end
