(* ===== verification/Unit_Load_Props.thy ===== *)
theory Unit_Load_Props
  imports Unit_Load Repo_Props Manager_Runs
begin

text \<open>
  Which file a unit is loaded from, what a load of every unit leaves in the unit table, and where
  loading goes wrong: drop-ins, the names implied by dependency directories, and one bad file.
\<close>

section \<open>Looking for a unit file\<close>

lemma first_file_Some:
  assumes "first_file fs dirs n = Some p"
  obtains i where "i < length dirs" "p = path_join (dirs ! i) n" "is_file fs p"
    "\<forall>j < i. \<not> is_file fs (path_join (dirs ! j) n)"
  using assms by (auto simp: first_file_def find_Some_iff)

lemma first_file_None: "first_file fs dirs n = None \<longleftrightarrow> (\<forall>d \<in> set dirs. \<not> is_file fs (path_join d n))"
  by (auto simp: first_file_def find_None_iff)

lemma template_name_plain:
  "template_name name = Some n \<Longrightarrow> CHR ''/'' \<notin> set name \<Longrightarrow> CHR ''/'' \<notin> set n"
  by (auto simp: template_name_def split: option.splits if_splits dest: in_set_takeD in_set_dropD)

lemma find_unit_Some:
  assumes "find_unit fs pa name = Some p"
  obtains n i where "is_file fs p" "CHR ''/'' \<notin> set n" "i < length (pa_unit_path pa)"
    "p = path_join (pa_unit_path pa ! i) n" "\<forall>j < i. \<not> is_file fs (path_join (pa_unit_path pa ! j) n)"
    "n = name \<or> template_name name = Some n \<and> (\<forall>d \<in> set (pa_unit_path pa). \<not> is_file fs (path_join d name))"
proof -
  from assms have plain: "CHR ''/'' \<notin> set name"
    by (auto simp: find_unit_def is_plain_unit_name_def split: if_splits)
  show ?thesis
  proof (cases "first_file fs (pa_unit_path pa) name")
    case (Some q)
    with assms have "first_file fs (pa_unit_path pa) name = Some p"
      by (simp add: find_unit_def split: if_splits)
    then show ?thesis using plain that by (elim first_file_Some) blast
  next
    case None
    with assms obtain n where n: "template_name name = Some n" "first_file fs (pa_unit_path pa) n = Some p"
      by (auto simp: find_unit_def bind_eq_Some_conv split: if_splits)
    from n(2) None n(1) template_name_plain [OF n(1) plain] that show ?thesis
      by (elim first_file_Some) (auto simp: first_file_None)
  qed
qed

text \<open>C20. The file of a unit is a regular file directly below the first search directory that has
  one of its name; only when no directory has one, below the first that has its template; and never
  outside the search directories.\<close>

theorem find_unit_precedence:
  assumes "find_unit fs pa name = Some p"
  shows "is_file fs p \<and> (\<exists>n i. CHR ''/'' \<notin> set n \<and> i < length (pa_unit_path pa) \<and>
    p = path_join (pa_unit_path pa ! i) n \<and> (\<forall>j < i. \<not> is_file fs (path_join (pa_unit_path pa ! j) n)) \<and>
    (n = name \<or> template_name name = Some n \<and> (\<forall>d \<in> set (pa_unit_path pa). \<not> is_file fs (path_join d name))))"
  using assms by (rule find_unit_Some) blast

definition demo_fs :: fsys where
  "demo_fs = empty_fs\<lparr>
     fs_files := [(''/etc/u/a.service'', ''[Service]'' @ [CHR 0x0A] @ ''ExecStart=/bin/a'' @ [CHR 0x0A]),
                  (''/usr/u/a.service'', []), (''/usr/u/getty@.service'', []),
                  (''/etc/u/a.service.d/x.conf'', ''[Service]'' @ [CHR 0x0A] @ ''Nice=5'' @ [CHR 0x0A])],
     fs_dirs := [''/etc/u'', ''/usr/u'', ''/etc/u/a.service.d'']\<rparr>"

definition demo_paths :: paths where
  "demo_paths = \<lparr>pa_user = False, pa_unit_path = [''/etc/u'', ''/usr/u''], pa_config_dir = ''/etc/u'',
     pa_runtime_dir = ''/run''\<rparr>"

definition load_cfg :: manager_cfg where
  "load_cfg = \<lparr>cfg_user = False, cfg_paths = demo_paths, cfg_hostname = [], cfg_machine_id = [], cfg_uid = 0,
     cfg_username = [], cfg_home = [], cfg_base_env = [], cfg_journal_dir = [], cfg_socket_activation = True\<rparr>"

theorem find_unit_precedence_witness:
  "find_unit demo_fs demo_paths ''getty@tty1.service'' = Some ''/usr/u/getty@.service'' \<and>
   is_file demo_fs ''/usr/u/getty@.service''"
proof -
  have "find_unit demo_fs demo_paths ''getty@tty1.service'' = Some ''/usr/u/getty@.service''" by code_simp
  from this find_unit_precedence [OF this] show ?thesis by blast
qed

section \<open>Drop-ins\<close>

lemma split_char_last: "c \<notin> set n \<Longrightarrow> \<exists>w ws. split_char c (a @ c # n) = w # ws @ [n]"
proof (induction a)
  case Nil
  then have "\<forall>x \<in> set n. \<not> x = c" by auto
  from split_on_no_sep [OF this] show ?case by (simp add: split_char_def)
next
  case (Cons x a)
  then obtain w ws where "split_on (\<lambda>x. x = c) (a @ c # n) = w # ws @ [n]" by (auto simp: split_char_def)
  then show ?case by (auto simp: split_char_def)
qed

lemma last_split_char: "c \<notin> set n \<Longrightarrow> last (split_char c (a @ c # n)) = n"
  using split_char_last [of c n a] by auto

lemma path_file_name_join:
  assumes "CHR ''/'' \<notin> set n" "n \<noteq> []" "d \<noteq> []"
  shows "path_file_name (path_join d n) = n"
proof -
  have rel: "\<not> starts_with ''/'' n" using assms(1,2) by (cases n) (auto simp: starts_with_def)
  show ?thesis
  proof (cases "ends_with ''/'' d")
    case True
    with assms(3) obtain a where "d = a @ ''/''"
      by (cases d rule: rev_cases) (simp_all add: ends_with_def starts_with_def)
    with True rel assms show ?thesis using last_split_char [OF assms(1), of a] by (simp add: path_join_def path_file_name_def)
  next
    case False
    with rel assms show ?thesis using last_split_char [OF assms(1), of d] by (simp add: path_join_def path_file_name_def)
  qed
qed

lemma is_conf_no_kind: "is_conf n \<Longrightarrow> kind_from_unit_name n = None"
  by (auto simp: is_conf_def kind_from_unit_name_def kind_from_suffix_def split: option.splits)

lemma read_dir_names: "read_dir fs d = Inr ns \<Longrightarrow> n \<in> set ns \<Longrightarrow> n \<noteq> [] \<and> CHR ''/'' \<notin> set n"
  by (auto simp: read_dir_def entry_name_def set_map_filter split: option.splits if_splits)

lemma dropin_unreadable:
  assumes "p \<in> set (dropins fs pa name)"
  shows "\<exists>e. read_unit_file fs p = Inl e"
proof -
  from assms obtain dir where "p \<in> set (dropins_in fs name dir)"
    by (auto simp: dropins_def)
  then obtain n ns where p: "p = path_join (path_join dir (name @ ''.d'')) n" "is_conf n"
    "read_dir fs (path_join dir (name @ ''.d'')) = Inr ns" "n \<in> set ns"
    by (cases "read_dir fs (path_join dir (name @ ''.d''))") (auto simp: dropins_in_def Let_def)
  have "path_join dir (name @ ''.d'') \<noteq> []" by (simp add: path_join_def)
  with p read_dir_names [OF p(3,4)] have "path_file_name p = n" by (simp add: path_file_name_join)
  with is_conf_no_kind [OF p(2)] show ?thesis
    by (auto simp: read_unit_file_def backend_read_path_def definition_parse_def split: sum.splits)
qed

lemma read_dropins_fails: "\<forall>p \<in> set ps. \<exists>e. read_unit_file fs p = Inl e \<Longrightarrow> ps \<noteq> [] \<Longrightarrow> \<exists>e. read_dropins fs ps raw = Inl e"
  by (cases ps) auto

text \<open>No drop-in is ever applied: the drop-ins are read through the repository, which takes
  only names with the suffix of a unit, so a unit with a file, or a built-in target, that has a drop-in
  in a readable directory fails to load.\<close>

theorem dropins_unusable:
  assumes "dropins fs (cfg_paths cfg) name \<noteq> []" "find_unit fs (cfg_paths cfg) name \<noteq> None \<or> is_builtin name"
  shows "\<exists>e. load_file fs cfg name = Some (Inl e)"
proof -
  have "\<exists>e. read_dropins fs (dropins fs (cfg_paths cfg) name) raw = Inl e" for raw
    by (rule read_dropins_fails) (use assms(1) dropin_unreadable in auto)
  then have "\<exists>e. finish_load fs cfg name main raw = Some (Inl e)" for main raw
    by (metis (no_types, lifting) finish_load_def old.sum.simps(5))
  with assms(2) show ?thesis
    by (cases "find_unit fs (cfg_paths cfg) name") (auto simp: load_file_def Let_def split: sum.splits)
qed

theorem dropins_unusable_witness: "\<exists>e. load_file demo_fs load_cfg ''a.service'' = Some (Inl e)"
proof -
  have "dropins demo_fs (cfg_paths load_cfg) ''a.service'' \<noteq> []"
    "find_unit demo_fs (cfg_paths load_cfg) ''a.service'' \<noteq> None" by code_simp+
  then show ?thesis using dropins_unusable [of demo_fs load_cfg "''a.service''"] by blast
qed

text \<open>A unit search directory listed first has its drop-ins read last only when its path happens to sort
  last: the drop-in of \<^verbatim>\<open>/etc\<close> is read before that of \<^verbatim>\<open>/usr\<close>, which then overrides it.\<close>

lemma dropins_in_path_order:
  "dropins (empty_fs\<lparr>fs_files := [(''/etc/u/a.service.d/x.conf'', []), (''/usr/u/a.service.d/x.conf'', [])],
      fs_dirs := [''/etc/u/a.service.d'', ''/usr/u/a.service.d'']\<rparr>) demo_paths ''a.service'' =
    [''/etc/u/a.service.d/x.conf'', ''/usr/u/a.service.d/x.conf'']"
  by code_simp

section \<open>Discovery\<close>

text \<open>The dependency directory of a target implies a target whose name ends in \<open>.target\<close> twice.\<close>

lemma wants_dir_implies_phantom:
  "discover_names (empty_fs\<lparr>fs_dirs := [''/etc/u'', ''/etc/u/multi-user.target.wants'']\<rparr>) load_cfg =
    [''basic.target'', ''default.target'', ''multi-user.target'', ''multi-user.target.target'']"
  by code_simp

text \<open>One unit file that does not parse hides every unit file.\<close>

lemma bad_file_hides_all:
  "discover_names (empty_fs\<lparr>fs_files := [(''/etc/u/a.service'', ''[Service]''), (''/etc/u/b.service'', ''garbage'')],
      fs_dirs := [''/etc/u'']\<rparr>) load_cfg = [''basic.target'', ''default.target'', ''multi-user.target'']"
  by code_simp

section \<open>Loading every unit\<close>

text \<open>What a unit state says of its file.\<close>

type_synonym file_view = "load_state \<times> unit_file option \<times> str option \<times> str option"

definition file_view :: "unit_state \<Rightarrow> file_view" where
  "file_view u = (u_load u, u_file u, u_path u, u_load_error u)"

definition table_view :: "unit_table \<Rightarrow> str \<rightharpoonup> file_view" where
  "table_view us n = map_option file_view (map_of us n)"

lemma table_view_hins: "table_view (hins n u us) = (table_view us)(n \<mapsto> file_view u)"
  by (auto simp: table_view_def fun_eq_iff)

definition disk_view :: "str + (unit_file \<times> str option) option \<Rightarrow> file_view option" where
  "disk_view r = (case r of
     Inl e \<Rightarrow> Some (LoadError, None, None, Some e)
   | Inr None \<Rightarrow> None
   | Inr (Some (f, p)) \<Rightarrow> Some (Loaded, Some f, p, None))"

definition disk_errors :: "(str \<Rightarrow> str + (unit_file \<times> str option) option) \<Rightarrow> str list \<Rightarrow> str list" where
  "disk_errors ld ns = concat (map (\<lambda>n. case ld n of Inl e \<Rightarrow> [n @ '': '' @ e] | Inr _ \<Rightarrow> []) ns)"

lemma file_view_preserve [simp]: "file_view (preserve_runtime old u) = file_view u"
  by (simp add: file_view_def preserve_runtime_def)

lemma load_unit_view:
  assumes "\<And>t n. os_load_file w t n = ld n" "load_unit w name m = (r, m')"
  shows "m_udev_devices m' = m_udev_devices m \<and> (case ld name of
     Inl e \<Rightarrow> r = Inl e
   | Inr None \<Rightarrow> r = Inr None
   | Inr (Some (f, p)) \<Rightarrow> \<exists>u. r = Inr (Some u) \<and> file_view u = (Loaded, Some f, p, None))"
  using assms(2) by (auto simp: load_unit_def ask_def assms(1) file_view_def unit_new_def
      split: sum.splits option.splits)

lemma load_units_step:
  assumes "\<And>t n. os_load_file w t n = ld n"
  obtains next' m' where
    "load_units w (name # names) next errors m = load_units w names next' (errors @ disk_errors ld [name]) m'"
    "table_view next' = (case disk_view (ld name) of Some v \<Rightarrow> (table_view next)(name \<mapsto> v) | None \<Rightarrow> table_view next)"
    "m_udev_devices m' = m_udev_devices m"
proof -
  obtain r m1 where l: "load_unit w name m = (r, m1)" by fastforce
  note v = load_unit_view [OF assms l]
  show ?thesis
  proof (cases "ld name")
    case (Inl e)
    with v l that show ?thesis
      by (simp add: disk_errors_def disk_view_def table_view_hins file_view_def unit_new_def ask_def Let_def)
  next
    case (Inr x)
    show ?thesis
    proof (cases x)
      case None
      with Inr v l that show ?thesis by (simp add: disk_errors_def disk_view_def)
    next
      case (Some fp)
      with Inr v obtain f p u where "fp = (f, p)" "r = Inr (Some u)" "file_view u = (Loaded, Some f, p, None)"
        by (cases fp) auto
      define u' where "u' = (case get_unit m1 name of Some old \<Rightarrow> preserve_runtime old u | None \<Rightarrow> u)"
      have "file_view u' = file_view u" by (simp add: u'_def split: option.splits)
      with \<open>fp = (f, p)\<close> \<open>r = Inr (Some u)\<close> \<open>file_view u = _\<close> Some Inr l v that [of "hins name u' next" m1] show ?thesis
        by (simp add: disk_errors_def disk_view_def table_view_hins u'_def)
    qed
  qed
qed

lemma load_units_view:
  assumes "\<And>t n. os_load_file w t n = ld n" "load_units w names next errors m = (us, errs, m')"
  shows "table_view us n = (if n \<in> set names \<and> disk_view (ld n) \<noteq> None then disk_view (ld n) else table_view next n) \<and>
    errs = errors @ disk_errors ld names \<and> m_udev_devices m' = m_udev_devices m"
  using assms(2)
proof (induction names arbitrary: "next" errors m)
  case Nil
  then show ?case by (simp add: disk_errors_def)
next
  case (Cons name names)
  obtain next' m1 where s:
    "load_units w (name # names) next errors m = load_units w names next' (errors @ disk_errors ld [name]) m1"
    "table_view next' = (case disk_view (ld name) of Some v \<Rightarrow> (table_view next)(name \<mapsto> v) | None \<Rightarrow> table_view next)"
    "m_udev_devices m1 = m_udev_devices m"
    by (rule load_units_step [OF assms(1)])
  from Cons.IH [of next' "errors @ disk_errors ld [name]" m1] Cons.prems s(1)
  have "table_view us n = (if n \<in> set names \<and> disk_view (ld n) \<noteq> None then disk_view (ld n) else table_view next' n)"
    "errs = (errors @ disk_errors ld [name]) @ disk_errors ld names" "m_udev_devices m' = m_udev_devices m"
    using s(3) by auto
  with s(2) show ?case by (auto simp: disk_errors_def split: option.splits)
qed

text \<open>Arming timers changes no unit's file.\<close>

lemma rearm_timer_view: "rearm_timer w n m = Inr m' \<Longrightarrow> table_view (m_units m') = table_view (m_units m)"
  by (erule rearm_timer_cases) (auto simp: same_core_def upd_unit_def get_unit_def table_view_def file_view_def
      fun_eq_iff split: option.splits)

lemma rearm_timers_view:
  assumes "rearm_all_timers w m = Inr m'"
  shows "table_view (m_units m') = table_view (m_units m)"
proof -
  have f: "fold_res (rearm_timer w) ns m1 = Inr m2 \<Longrightarrow> table_view (m_units m2) = table_view (m_units m1)" for ns m1 m2
    by (induction ns arbitrary: m1) (auto simp: bnd_eq_Inr rearm_timer_view)
  show ?thesis
    using assms by (auto simp: rearm_all_timers_def rearm_timers_def Let_def unit_names_where_def unit_names_def ask_def
        dest!: f)
qed

text \<open>The units of the devices: each name belongs to the first registered device that has it.\<close>

definition device_view :: "device list \<Rightarrow> str \<rightharpoonup> file_view" where
  "device_view ds n = (case find (\<lambda>d. n = sysfs_unit_name d \<or> n = subsystem_unit_name d) ds of
     Some d \<Rightarrow> Some (Loaded, Some (udev_unit_file d), None, None) | None \<Rightarrow> None)"

lemma set_active_file: "set_active t a sb r k u = (u', sq) \<Longrightarrow> file_view u' = file_view u"
  by (auto simp: set_active_def Let_def file_view_def split: if_splits active_state.splits)

lemma add_device_view:
  "table_view (m_units (add_device_unit w d name m)) n =
     (case table_view (m_units m) n of
        Some v \<Rightarrow> Some v
      | None \<Rightarrow> if n = name then Some (Loaded, Some (udev_unit_file d), None, None) else None)"
proof (cases "has_unit m name")
  case True
  then show ?thesis by (auto simp: add_device_unit_def has_unit_def get_unit_def table_view_def split: option.splits)
next
  case False
  then have "table_view (m_units m) name = None" by (simp add: has_unit_def get_unit_def table_view_def)
  with False show ?thesis
    by (auto simp: add_device_unit_def Let_def ask_def table_view_hins split: prod.splits option.splits
        dest!: set_active_file) (simp_all add: file_view_def unit_new_def)
qed

lemma udev_register_view:
  "table_view (m_units (udev_register w d m)) n =
     (case table_view (m_units m) n of
        Some v \<Rightarrow> Some v
      | None \<Rightarrow> if n = sysfs_unit_name d \<or> n = subsystem_unit_name d
                then Some (Loaded, Some (udev_unit_file d), None, None) else None)"
  by (simp add: udev_register_def device_unit_names_def add_device_view split: option.split)

lemma udev_registers_view:
  "table_view (m_units (fold (udev_register w) ds m)) n =
     (case table_view (m_units m) n of Some v \<Rightarrow> Some v | None \<Rightarrow> device_view ds n)"
  by (induction ds arbitrary: m) (auto simp: device_view_def udev_register_view split: option.splits)

text \<open>The names the disk implies, written out: a unit file the repository lists, with a suffix of a unit;
  the three built-in targets; what the link of the default target points to; and for each directory
  \<open>B.wants\<close> or \<open>B.requires\<close> of a search directory the name \<open>B.target\<close>, for \<open>B.wants\<close> every entry of it
  as well.\<close>

definition discovered :: "fsys \<Rightarrow> paths \<Rightarrow> str \<Rightarrow> bool" where
  "discovered fs pa n \<longleftrightarrow>
     (\<exists>us. repo_list fs (pa_unit_path pa) = Inr us \<and> n \<in> ud_name ` set us \<and>
        (\<exists>x \<in> {''.service'', ''.timer'', ''.target'', ''.path'', ''.socket'', ''.mount''}. ends_with x n))
     \<or> n \<in> {''basic.target'', ''multi-user.target'', ''default.target''}
     \<or> (\<exists>t. read_link fs (default_target pa) = Some t \<and> n = path_file_name t)
     \<or> (\<exists>dir \<in> set (pa_unit_path pa). \<exists>ns. read_dir fs dir = Inr ns \<and>
          (\<exists>base. base @ ''.wants'' \<in> set ns \<and>
             (n = base @ ''.target'' \<or>
              (\<exists>es. read_dir fs (path_join dir (base @ ''.wants'')) = Inr es \<and> n \<in> set es))
           \<or> base @ ''.requires'' \<in> set ns \<and> n = base @ ''.target''))"

lemma strip_suffix_Some: "strip_suffix p s = Some r \<longleftrightarrow> s = r @ p"
  by (auto simp: strip_suffix_def strip_prefix_Some) (metis rev_append rev_rev_ident)

lemma wants_not_requires: "strip_suffix ''.wants'' (base @ ''.requires'') = None"
proof -
  have "strip_suffix ''.wants'' (base @ ''.requires'') \<noteq> Some r" for r
  proof
    assume "strip_suffix ''.wants'' (base @ ''.requires'') = Some r"
    then have "rev (base @ ''.requires'') = rev (r @ ''.wants'')" by (simp only: strip_suffix_Some)
    then show False by simp
  qed
  then show ?thesis by (cases "strip_suffix ''.wants'' (base @ ''.requires'')") auto
qed

lemma implied_name:
  "n \<in> set (implied_names fs dir f) \<longleftrightarrow>
     (\<exists>base. f = base @ ''.wants'' \<and>
        (n = base @ ''.target'' \<or> (\<exists>es. read_dir fs (path_join dir f) = Inr es \<and> n \<in> set es))
      \<or> f = base @ ''.requires'' \<and> n = base @ ''.target'')"
proof (cases "strip_suffix ''.wants'' f")
  case (Some base)
  then have f: "f = base @ ''.wants''" by (simp add: strip_suffix_Some)
  have "f \<noteq> b @ ''.requires''" for b using Some wants_not_requires [of b] by auto
  with f Some show ?thesis by (cases "read_dir fs (path_join dir f)") (auto simp: implied_names_def)
next
  case None
  then have "f \<noteq> base @ ''.wants''" for base by auto
  with None show ?thesis
    by (cases "strip_suffix ''.requires'' f") (auto simp: implied_names_def strip_suffix_Some)
qed

lemma discover_names_set: "set (discover_names fs cfg) = {n. discovered fs (cfg_paths cfg) n}"
proof -
  have l: "n \<in> set (listed_names fs pa) \<longleftrightarrow>
      (\<exists>us. repo_list fs (pa_unit_path pa) = Inr us \<and> n \<in> ud_name ` set us \<and>
        (\<exists>x \<in> {''.service'', ''.timer'', ''.target'', ''.path'', ''.socket'', ''.mount''}. ends_with x n))" for n pa
    by (cases "repo_list fs (pa_unit_path pa)") (auto simp: listed_names_def recognized_def)
  have d: "n \<in> set (dependency_names fs pa) \<longleftrightarrow>
      (\<exists>dir \<in> set (pa_unit_path pa). \<exists>ns. read_dir fs dir = Inr ns \<and>
         (\<exists>f \<in> set ns. n \<in> set (implied_names fs dir f)))" for n pa
    by (force simp: dependency_names_def split: sum.splits)
  have t: "n \<in> set (case read_link fs q of Some t \<Rightarrow> [path_file_name t] | None \<Rightarrow> []) \<longleftrightarrow>
      (\<exists>t. read_link fs q = Some t \<and> n = path_file_name t)" for n q
    by (cases "read_link fs q") simp_all
  show ?thesis
    unfolding discover_names_def Let_def set_sort set_remdups set_append discovered_def set_eq_iff Un_iff
      mem_Collect_eq l d t implied_name
    by (intro allI) (simp, blast)
qed

lemma discover_names_sorted:
  "discover_names fs cfg = sorted_list_of_set {n. discovered fs (cfg_paths cfg) n}"
  unfolding discover_names_set [symmetric]
  unfolding discover_names_def Let_def set_sort set_remdups sorted_list_of_set_sort_remdups ..

text \<open>C21. A load of every unit leaves exactly the units the disk and the registered devices imply. A name the disk
  implies (\<open>discovered\<close>) that has a file or is a target is in the table, with the
  interpreted file and its path, or with the error of its load; every other name of a registered device is in
  the table with the file made for the device; no other name is. The reported errors are those of the
  implied units that failed, in the order of their names. What a single unit's file says is taken
  from \<open>load_file\<close>.\<close>

theorem load_all_reads_disk:
  assumes "reads_from w fs (m_cfg m)" "load_all w m = Inr (errors, m')"
  shows "table_view (m_units m') n =
      (case if discovered fs (cfg_paths (m_cfg m)) n then disk_view (the (load_file fs (m_cfg m) n)) else None of
         Some v \<Rightarrow> Some v
       | None \<Rightarrow> device_view (map snd (m_udev_devices m)) n) \<and>
    errors = disk_errors (\<lambda>n. the (load_file fs (m_cfg m) n))
      (sorted_list_of_set {n. discovered fs (cfg_paths (m_cfg m)) n})"
proof -
  let ?ld = "\<lambda>n. the (load_file fs (m_cfg m) n)" and ?ns = "discover_names fs (m_cfg m)"
  have ld: "os_load_file w t n = ?ld n" for t n
  proof -
    have "load_file fs (m_cfg m) n = Some (os_load_file w t n)" using assms(1) unfolding reads_from_def by blast
    then show ?thesis by simp
  qed
  obtain m1 where a: "ask (os_discover w) m = (?ns, m1)" "m_udev_devices m1 = m_udev_devices m"
    using assms(1) by (auto simp: reads_from_def ask_def)
  obtain us errs m2 where l: "load_units w ?ns [] [] m1 = (us, errs, m2)" by (cases "load_units w ?ns [] [] m1") auto
  note v = load_units_view [of w ?ld, OF ld l]
  let ?m = "fold (udev_register w) (map snd (m_udev_devices m)) (m2\<lparr>m_units := us\<rparr>)"
  have d: "m_udev_devices m2 = m_udev_devices m" using v a(2) by simp
  with assms(2) a l have r: "errors = errs" "rearm_all_timers w ?m = Inr m'"
    by (auto simp: load_all_def Let_def bnd_eq_Inr)
  have "n \<in> set ?ns \<longleftrightarrow> discovered fs (cfg_paths (m_cfg m)) n" by (simp add: discover_names_set)
  then have "table_view us n = (if discovered fs (cfg_paths (m_cfg m)) n then disk_view (?ld n) else None)"
    using v [of n] by (cases "disk_view (?ld n)") (simp_all add: table_view_def)
  moreover have "table_view (m_units m') n =
      (case table_view us n of Some v \<Rightarrow> Some v | None \<Rightarrow> device_view (map snd (m_udev_devices m)) n)"
    using rearm_timers_view [OF r(2)] udev_registers_view [of w "map snd (m_udev_devices m)" "m2\<lparr>m_units := us\<rparr>" n] by simp
  moreover have "errors = disk_errors ?ld (sorted_list_of_set {n. discovered fs (cfg_paths (m_cfg m)) n})"
    using v r(1) by (simp flip: discover_names_sorted)
  ultimately show ?thesis by simp
qed

definition disk_os :: os where
  "disk_os = demo_os\<lparr>os_load_file := (\<lambda>t n. the (load_file empty_fs load_cfg n)),
     os_discover := (\<lambda>t. discover_names empty_fs load_cfg)\<rparr>"

lemma empty_find_unit: "find_unit empty_fs pa n = None"
proof -
  have "first_file empty_fs dirs n = None" for dirs n
    by (simp add: first_file_None is_file_def empty_fs_def)
  then show ?thesis by (cases "template_name n") (simp_all add: find_unit_def)
qed

lemma disk_os_reads: "reads_from disk_os empty_fs load_cfg"
proof -
  have b: "finish_load empty_fs load_cfg n None \<lparr>rf_sections = []\<rparr> \<noteq> None" if "is_builtin n" for n
  proof -
    have "\<forall>n \<in> set [''basic.target'', ''multi-user.target'', ''default.target''].
        finish_load empty_fs load_cfg n None \<lparr>rf_sections = []\<rparr> \<noteq> None" by code_simp
    with that show ?thesis by (auto simp: is_builtin_def)
  qed
  have "load_file empty_fs load_cfg n \<noteq> None" for n
    using b [of n] by (auto simp: load_file_def Let_def empty_find_unit kind_unit_needs_file_def)
  then show ?thesis by (simp add: reads_from_def disk_os_def)
qed

theorem load_all_reads_disk_witness:
  "\<exists>errors m' f. load_all disk_os (manager_new load_cfg 0) = Inr (errors, m') \<and> errors = [] \<and>
     table_view (m_units m') ''basic.target'' = Some (Loaded, Some f, None, None)"
proof -
  have "\<not> isl (load_all disk_os (manager_new load_cfg 0))" by code_simp
  then obtain errors m' where l: "load_all disk_os (manager_new load_cfg 0) = Inr (errors, m')"
    by (cases "load_all disk_os (manager_new load_cfg 0)") auto
  have c: "m_cfg (manager_new load_cfg 0) = load_cfg" "m_udev_devices (manager_new load_cfg 0) = []"
    by (simp_all add: manager_new_def)
  have d: "discover_names empty_fs load_cfg = [''basic.target'', ''default.target'', ''multi-user.target'']"
    by code_simp
  have e: "disk_errors (\<lambda>n. the (load_file empty_fs load_cfg n)) [''basic.target'', ''default.target'', ''multi-user.target''] = []"
    by code_simp
  have "case load_file empty_fs load_cfg ''basic.target'' of Some (Inr (Some (f, None))) \<Rightarrow> True | _ \<Rightarrow> False"
    by code_simp
  then obtain f where f: "load_file empty_fs load_cfg ''basic.target'' = Some (Inr (Some (f, None)))"
    by (auto split: option.splits sum.splits)
  have r: "reads_from disk_os empty_fs (m_cfg (manager_new load_cfg 0))" using disk_os_reads c by simp
  have "discovered empty_fs (cfg_paths load_cfg) ''basic.target''" by (simp add: discovered_def)
  with load_all_reads_disk [OF r l, of "''basic.target''"] l f show ?thesis
    by (simp add: c d e disk_view_def flip: discover_names_sorted)
qed

end
