(* ===== verification/Enable.thy ===== *)
theory Enable
  imports Unit_Load
begin

text \<open>
  Enablement and masking, \<^verbatim>\<open>rystemd/src/enable.rs\<close>, over \<open>File_System\<close>: an operation returns its
  result with the new file system. \<open>Also=\<close> makes \<open>enable\<close> and \<open>disable\<close> recursive with no bound in
  the code; the depth is an argument here, and \<open>None\<close> means that it does not suffice (at no depth
  at all when the code recurses for ever). \<open>cwd\<close> is the working directory, when there is one.
\<close>

section \<open>Install sections\<close>

definition install_spec :: "str \<Rightarrow> specifier_context" where
  "install_spec name = \<lparr>sp_unit_name = name, sp_runtime_dir = [], sp_user_name = [], sp_uid = [], sp_home = [],
     sp_hostname = [], sp_machine_id = []\<rparr>"

definition install_section :: "fsys \<Rightarrow> str \<Rightarrow> str \<Rightarrow> install_config option" where
  "install_section fs path name =
     (case read_to_string fs path of
        Inl _ \<Rightarrow> None
      | Inr txt \<Rightarrow>
          (case parse_unit_text txt of
             Inl _ \<Rightarrow> None
           | Inr raw \<Rightarrow>
               (let ex = sp_expand (install_spec name);
                    words = (\<lambda>key. concat (map (\<lambda>v. split_ws (ex v)) (raw_list raw ''Install'' key)))
                in Some \<lparr>ic_wanted_by = words ''WantedBy'', ic_required_by = words ''RequiredBy'',
                         ic_also = map ex (raw_list raw ''Install'' ''Also''),
                         ic_alias = map ex (raw_list raw ''Install'' ''Alias'')\<rparr>)))"

definition normalize_file_name :: "str \<Rightarrow> str" where
  "normalize_file_name name =
     (if list_ex (\<lambda>s. ends_with (CHR ''.'' # s) name) [''service'', ''timer'', ''target''] then name
      else name @ ''.service'')"

definition is_masked :: "fsys \<Rightarrow> paths \<Rightarrow> str \<Rightarrow> bool" where
  "is_masked fs pa name =
     (case List.find (\<lambda>t. t \<noteq> None) (map (\<lambda>d. read_link fs (path_join d (normalize_file_name name))) (pa_unit_path pa)) of
        Some (Some target) \<Rightarrow> target = ''/dev/null''
      | _ \<Rightarrow> False)"

definition wants_link :: "paths \<Rightarrow> str \<Rightarrow> str \<Rightarrow> str \<Rightarrow> str" where
  "wants_link pa target suffix name = path_join (path_join (pa_config_dir pa) (target @ suffix)) name"

definition alias_link :: "paths \<Rightarrow> str \<Rightarrow> str" where
  "alias_link pa alias = path_join (pa_config_dir pa) (normalize_file_name alias)"

definition install_links_exist :: "fsys \<Rightarrow> paths \<Rightarrow> str \<Rightarrow> install_config \<Rightarrow> bool" where
  "install_links_exist fs pa name ins \<longleftrightarrow>
     list_ex (\<lambda>t. path_exists fs (wants_link pa t ''.wants'' name) \<or> path_exists fs (wants_link pa t ''.requires'' name))
       (ic_wanted_by ins @ ic_required_by ins) \<or>
     list_ex (\<lambda>a. path_exists fs (alias_link pa a)) (ic_alias ins)"

definition enabled_state :: "fsys \<Rightarrow> paths \<Rightarrow> str \<Rightarrow> str" where
  "enabled_state fs pa name0 =
     (let name = normalize_file_name name0 in
      if is_masked fs pa name then ''masked''
      else case find_unit fs pa name of
        None \<Rightarrow> ''not-found''
      | Some path \<Rightarrow>
          (case install_section fs path name of
             None \<Rightarrow> ''static''
           | Some ins \<Rightarrow>
               if ic_wanted_by ins = [] \<and> ic_required_by ins = [] \<and> ic_alias ins = [] then ''static''
               else if install_links_exist fs pa name ins then ''enabled'' else ''disabled''))"

section \<open>Enabling\<close>

definition absolute_of :: "str option \<Rightarrow> str \<Rightarrow> str" where
  "absolute_of cwd p =
     (if starts_with ''/'' p then p else path_join (case cwd of Some d \<Rightarrow> d | None \<Rightarrow> ''/'') p)"

type_synonym 'a fs_result = "(str + 'a) \<times> fsys"

text \<open>\<open>f()?\<close> on a file-system call, and sequencing of fallible steps.\<close>

definition try_fs :: "fs_step \<Rightarrow> fsys \<Rightarrow> unit fs_result" where
  "try_fs f fs = (case f fs of (Inl e, fs1) \<Rightarrow> (Inl (show_io e), fs1) | (Inr _, fs1) \<Rightarrow> (Inr (), fs1))"

definition fbind :: "'a fs_result \<Rightarrow> ('a \<Rightarrow> fsys \<Rightarrow> 'b fs_result) \<Rightarrow> 'b fs_result" where
  "fbind r f = (case r of (Inl e, fs) \<Rightarrow> (Inl e, fs) | (Inr x, fs) \<Rightarrow> f x fs)"

text \<open>\<open>f().ok()\<close>: the outcome is ignored.\<close>

definition ignoring :: "fs_step \<Rightarrow> fsys \<Rightarrow> fsys" where
  "ignoring f fs = snd (f fs)"

definition place_link :: "str \<Rightarrow> str \<Rightarrow> str \<Rightarrow> fsys \<Rightarrow> unit fs_result" where
  "place_link dir target link fs =
     fbind (try_fs (create_dir_all dir) fs) (\<lambda>_ fs1.
       let fs2 = (if path_exists fs1 link then ignoring (remove_file link) fs1 else fs1);
           fs3 = ignoring (remove_file link) fs2
       in try_fs (link_file target link) fs3)"

definition place_alias :: "str \<Rightarrow> str \<Rightarrow> str \<Rightarrow> fsys \<Rightarrow> unit fs_result" where
  "place_alias dir target link fs =
     fbind (try_fs (create_dir_all dir) fs) (\<lambda>_ fs1.
       try_fs (link_file target link) (ignoring (remove_file link) fs1))"

definition wanted_suffix :: "install_config \<Rightarrow> str \<Rightarrow> str" where
  "wanted_suffix ins t = (if List.member (ic_wanted_by ins) t then ''.wants'' else ''.requires'')"

fun enable_targets :: "paths \<Rightarrow> str \<Rightarrow> str \<Rightarrow> install_config \<Rightarrow> str list \<Rightarrow> str list \<Rightarrow> fsys \<Rightarrow> str list fs_result" where
  "enable_targets pa name target ins [] msgs fs = (Inr msgs, fs)"
| "enable_targets pa name target ins (t # ts) msgs fs =
     (let dir = path_join (pa_config_dir pa) (t @ wanted_suffix ins t); link = path_join dir name in
      fbind (place_link dir target link fs) (\<lambda>_.
        enable_targets pa name target ins ts (msgs @ [''Created symlink '' @ link @ '' -> '' @ target])))"

fun enable_aliases :: "paths \<Rightarrow> str \<Rightarrow> str list \<Rightarrow> str list \<Rightarrow> fsys \<Rightarrow> str list fs_result" where
  "enable_aliases pa target [] msgs fs = (Inr msgs, fs)"
| "enable_aliases pa target (a # as) msgs fs =
     (let link = alias_link pa a in
      fbind (place_alias (pa_config_dir pa) target link fs) (\<lambda>_.
        enable_aliases pa target as (msgs @ [''Created alias '' @ link @ '' -> '' @ target])))"

text \<open>\<open>for also in ... { messages.extend(op(also)?) }\<close>.\<close>

fun each_also :: "(str \<Rightarrow> fsys \<Rightarrow> str list fs_result option) \<Rightarrow> str list \<Rightarrow> str list \<Rightarrow> fsys \<Rightarrow> str list fs_result option" where
  "each_also rec [] msgs fs = Some (Inr msgs, fs)"
| "each_also rec (a # as) msgs fs =
     (case rec (normalize_file_name a) fs of
        None \<Rightarrow> None
      | Some (Inl e, fs1) \<Rightarrow> Some (Inl e, fs1)
      | Some (Inr ms, fs1) \<Rightarrow> each_also rec as (msgs @ ms) fs1)"

primrec enable :: "nat \<Rightarrow> str option \<Rightarrow> paths \<Rightarrow> str \<Rightarrow> fsys \<Rightarrow> str list fs_result option" where
  "enable 0 cwd pa name0 fs = None"
| "enable (Suc n) cwd pa name0 fs =
     (let name = normalize_file_name name0 in
      case find_unit fs pa name of
        None \<Rightarrow> Some (Inl (''Failed to enable unit: Unit file '' @ name @ '' not found.''), fs)
      | Some path \<Rightarrow>
          (case install_section fs path name of
             None \<Rightarrow> Some (Inl (''Unit '' @ name @ '' has no installation config (no [Install] section).''), fs)
           | Some ins \<Rightarrow>
               (let target = absolute_of cwd path in
                case fbind (enable_targets pa name target ins (ic_wanted_by ins @ ic_required_by ins) [] fs)
                       (enable_aliases pa target (ic_alias ins)) of
                  (Inl e, fs1) \<Rightarrow> Some (Inl e, fs1)
                | (Inr msgs, fs1) \<Rightarrow> each_also (enable n cwd pa) (ic_also ins) msgs fs1)))"

section \<open>Disabling\<close>

text \<open>\<open>link_existing\<close>: one directory entry \<open>f\<close> of the configuration directory.\<close>

definition clean_entry :: "paths \<Rightarrow> str \<Rightarrow> str \<Rightarrow> str \<Rightarrow> fsys \<Rightarrow> fsys" where
  "clean_entry pa name suffix f fs =
     (case strip_suffix suffix f of
        None \<Rightarrow> fs
      | Some base \<Rightarrow>
          (let d = path_join (pa_config_dir pa) (base @ ''.'' @ suffix) in
           if List.member base (CHR ''.'') then
             (case read_dir fs d of
                Inl _ \<Rightarrow> fs
              | Inr ls \<Rightarrow> fold (\<lambda>l fs. if l = name then ignoring (remove_file (path_join d l)) fs else fs) ls fs)
           else fs))"

definition link_existing :: "paths \<Rightarrow> str \<Rightarrow> fsys \<Rightarrow> fsys" where
  "link_existing pa name fs0 =
     fold (\<lambda>suffix fs.
       case read_dir fs (pa_config_dir pa) of
         Inl _ \<Rightarrow> fs
       | Inr ns \<Rightarrow> fold (clean_entry pa name suffix) ns fs) [''wants'', ''requires''] fs0"

definition remove_link :: "str \<Rightarrow> str list \<times> fsys \<Rightarrow> str list \<times> fsys" where
  "remove_link link st =
     (let (removed, fs) = st in
      if entry_exists fs link
      then (removed @ [''Removed '' @ link], ignoring (remove_file link) fs)
      else (removed, fs))"

definition install_link_list :: "paths \<Rightarrow> str \<Rightarrow> install_config \<Rightarrow> str list" where
  "install_link_list pa name ins =
     concat (map (\<lambda>t. [wants_link pa t ''.wants'' name, wants_link pa t ''.requires'' name])
       (ic_wanted_by ins @ ic_required_by ins)) @ map (alias_link pa) (ic_alias ins)"

definition disable_done :: "str \<Rightarrow> str list \<Rightarrow> str list" where
  "disable_done name removed = (if removed = [] then [''Unit '' @ name @ '' was not enabled.''] else removed)"

primrec disable :: "nat \<Rightarrow> paths \<Rightarrow> str \<Rightarrow> fsys \<Rightarrow> str list fs_result option" where
  "disable 0 pa name0 fs = None"
| "disable (Suc n) pa name0 fs0 =
     (let name = normalize_file_name name0;
          fs = link_existing pa name fs0
      in case Option.bind (find_unit fs pa name) (\<lambda>p. install_section fs p name) of
           None \<Rightarrow> Some (Inr (disable_done name []), fs)
         | Some ins \<Rightarrow>
             (let (removed, fs1) = fold remove_link (install_link_list pa name ins) ([], fs) in
              case each_also (disable n pa) (ic_also ins) removed fs1 of
                None \<Rightarrow> None
              | Some (Inl e, fs2) \<Rightarrow> Some (Inl e, fs2)
              | Some (Inr removed', fs2) \<Rightarrow> Some (Inr (disable_done name removed'), fs2)))"

section \<open>Masking\<close>

definition path_parent :: "str \<Rightarrow> str option" where
  "path_parent p =
     (if p = ''/'' then None
      else case rfind_idx (CHR ''/'') p of Some 0 \<Rightarrow> Some ''/'' | Some i \<Rightarrow> Some (take i p) | None \<Rightarrow> Some [])"

definition mask :: "paths \<Rightarrow> str \<Rightarrow> fsys \<Rightarrow> unit fs_result" where
  "mask pa name0 fs =
     (case pa_unit_path pa of
        [] \<Rightarrow> (Inl ''no unit search path to mask into'', fs)
      | root # _ \<Rightarrow>
          (let link = path_join root (normalize_file_name name0) in
           fbind (case path_parent link of Some p \<Rightarrow> try_fs (create_dir_all p) fs | None \<Rightarrow> (Inr (), fs)) (\<lambda>_ fs1.
             try_fs (link_file ''/dev/null'' link) (ignoring (remove_file link) fs1))))"

definition unmask :: "paths \<Rightarrow> str \<Rightarrow> fsys \<Rightarrow> unit fs_result" where
  "unmask pa name0 fs =
     (case pa_unit_path pa of
        [] \<Rightarrow> (Inr (), fs)
      | root # _ \<Rightarrow>
          (let name = normalize_file_name name0; link = path_join root name in
           if entry_exists fs link \<and> is_masked fs pa name then try_fs (remove_file link) fs else (Inr (), fs)))"

end
