(* ===== verification/Enable_Props.thy ===== *)
theory Enable_Props
  imports Enable Unit_Load_Props
begin

text \<open>
  What enabling, disabling and masking a unit do to the file system: the exact set of links that is
  created, that disabling takes them back, and the cases where the code does not do what it says.
\<close>

section \<open>Placing links\<close>









text \<open>The entries of a file system after links \<open>L\<close> to \<open>t\<close> are placed.\<close>

definition with_links :: "str \<Rightarrow> str set \<Rightarrow> (str \<Rightarrow> str option \<times> str option) \<Rightarrow> str \<Rightarrow> str option \<times> str option" where
  "with_links t L e q = (if q \<in> L then (None, Some t) else e q)"



lemma with_links_empty [simp]: "with_links t {} e = e"
  by (simp add: with_links_def fun_eq_iff)







section \<open>Taking them back\<close>






















definition unit_disk :: "(str \<times> str) list \<Rightarrow> fsys" where
  "unit_disk files = empty_fs\<lparr>fs_files := files, fs_dirs := [''/etc/u'', ''/usr/u'']\<rparr>"

definition install_text :: "str \<Rightarrow> str" where
  "install_text s = ''[Service]'' @ [CHR 10] @ ''ExecStart=/bin/a'' @ [CHR 10] @ ''[Install]'' @ [CHR 10] @ s @ [CHR 10]"


section \<open>Units that name themselves\<close>

text \<open>A unit with itself in \<open>Also=\<close>: no depth of recursion is enough, so the code does not return.\<close>

lemma also_loop: "enable n None demo_paths ''a.service'' (unit_disk [(''/usr/u/a.service'', install_text ''Also=a.service'')]) = None"
proof (induction n)
  case (Suc n)
  let ?fs = "unit_disk [(''/usr/u/a.service'', install_text ''Also=a.service'')]"
  have h: "normalize_file_name ''a.service'' = ''a.service''" "find_unit ?fs demo_paths ''a.service'' = Some ''/usr/u/a.service''"
    "install_section ?fs ''/usr/u/a.service'' ''a.service'' =
      Some \<lparr>ic_wanted_by = [], ic_required_by = [], ic_also = [''a.service''], ic_alias = []\<rparr>" by code_simp+
  show ?case using Suc by (simp add: Let_def h fbind_def)
qed simp

section \<open>Masking\<close>

lemma normalize_file_idem: "normalize_file_name (normalize_file_name name) = normalize_file_name name"
proof (cases "list_ex (\<lambda>s. ends_with (CHR ''.'' # s) name) [''service'', ''timer'', ''target'']")
  case True
  then show ?thesis by (simp add: normalize_file_name_def)
next
  case False
  have "ends_with ''.service'' (name @ ''.service'')" by (simp add: ends_with_def starts_with_def strip_prefix_def)
  with False show ?thesis by (simp add: normalize_file_name_def)
qed

lemma link_file_ok:
  "try_fs (link_file t l) fs = (Inr (), fs') \<Longrightarrow> map_of (fs_links fs') l = Some t \<and> map_of (fs_files fs') l = None \<and>
    (\<forall>q. q \<noteq> l \<longrightarrow> entry fs' q = entry fs q)"
  by (auto simp: try_fs_def link_file_def guarded_def entry_def entry_exists_def split: option.splits if_splits)

lemma mask_ok:
  assumes "mask pa name fs = (Inr (), fs')"
  obtains root where "pa_unit_path pa = root # tl (pa_unit_path pa)"
    "map_of (fs_links fs') (path_join root (normalize_file_name name)) = Some ''/dev/null''"
    "map_of (fs_files fs') (path_join root (normalize_file_name name)) = None"
  using assms link_file_ok by (auto simp: mask_def fbind_def Let_def split: list.splits sum.splits prod.splits option.splits)

text \<open>Whenever masking reports success, whatever was on the disk, the unit is masked: \<open>is_masked\<close>
  holds, its state is reported as \<open>masked\<close> by every query, and unmasking it, when the system does not
  refuse, removes the link again.\<close>

theorem mask_masks:
  assumes "mask pa name fs = (Inr (), fs')"
  shows "is_masked fs' pa name \<and> enabled_state fs' pa name = ''masked'' \<and>
    (\<forall>fs''. unmask pa name fs' = (Inr (), fs'') \<longrightarrow>
       entry fs'' (path_join (hd (pa_unit_path pa)) (normalize_file_name name)) = (None, None))"
proof -
  obtain root where r: "pa_unit_path pa = root # tl (pa_unit_path pa)"
    "map_of (fs_links fs') (path_join root (normalize_file_name name)) = Some ''/dev/null''"
    "map_of (fs_files fs') (path_join root (normalize_file_name name)) = None" using mask_ok [OF assms] .
  have n: "normalize_file_name (normalize_file_name name) = normalize_file_name name" by (rule normalize_file_idem)
  obtain ds where ds: "pa_unit_path pa = root # ds" using r(1) by blast
  have m: "is_masked fs' pa name" "is_masked fs' pa (normalize_file_name name)"
    using r(2) by (simp_all add: is_masked_def ds read_link_def n)
  have "entry fs'' (path_join root (normalize_file_name name)) = (None, None)" if "unmask pa name fs' = (Inr (), fs'')" for fs''
    using that m r(2) by (auto simp: unmask_def ds Let_def try_fs_def remove_file_def guarded_def entry_exists_def
      entry_def drop_entry_def split: option.splits)
  with m show ?thesis by (simp add: enabled_state_def Let_def ds)
qed

theorem mask_masks_witness:
  "\<exists>fs'. mask demo_paths ''a'' (unit_disk []) = (Inr (), fs') \<and> is_masked fs' demo_paths ''a''"
proof -
  obtain r fs' where m: "mask demo_paths ''a'' (unit_disk []) = (r, fs')" by fastforce
  have "fst (mask demo_paths ''a'' (unit_disk [])) = Inr ()" by code_simp
  with m have "mask demo_paths ''a'' (unit_disk []) = (Inr (), fs')" by simp
  from this mask_masks [OF this] show ?thesis by blast
qed

text \<open>Masking deletes a unit file of its own directory, and unmasking does not bring it back.\<close>

lemma mask_deletes_file:
  "let (r, fs1) = mask demo_paths ''a'' (unit_disk [(''/etc/u/a.service'', ''x'')]); (r', fs2) = unmask demo_paths ''a'' fs1
   in r = Inr () \<and> r' = Inr () \<and> find_unit fs2 demo_paths ''a.service'' = None"
  by code_simp

text \<open>A masked unit whose file is in another directory is still found and loaded.\<close>

lemma masked_still_found:
  "let (r, fs1) = mask demo_paths ''a'' (unit_disk [(''/usr/u/a.service'', ''x'')])
   in r = Inr () \<and> is_masked fs1 demo_paths ''a'' \<and> find_unit fs1 demo_paths ''a.service'' = Some ''/usr/u/a.service''"
  by code_simp

text \<open>\<open>link_existing\<close> keeps the dot of \<open>x.target.\<close>, so it looks into \<open>x.target..wants\<close> and never removes a link.\<close>

lemma stale_link_kept:
  "read_link (link_existing demo_paths ''a.service'' (empty_fs\<lparr>fs_links := [(''/etc/u/x.target.wants/a.service'', ''/gone'')],
     fs_dirs := [''/etc/u'', ''/etc/u/x.target.wants'']\<rparr>)) ''/etc/u/x.target.wants/a.service'' = Some ''/gone''"
  by code_simp

end
