(* ===== verification/Journal.thy ===== *)
theory Journal
  imports File_System
begin

text \<open>
  The journal of a unit's output, \<^verbatim>\<open>rystemd/src/journal.rs\<close>: one active file per unit below a directory,
  rotated segments \<open>unit.1\<close> to \<open>unit.N\<close>, one record a line. Disk errors lose the line and nothing
  else. The files of the journal directory are regular files: \<open>metadata().len()\<close> is asked of them only.
\<close>

record journal =
  jn_dir :: str
  jn_max_bytes :: nat
  jn_max_segments :: nat

record journal_record =
  jc_secs :: nat
  jc_unit :: str
  jc_text :: str

section \<open>Records\<close>

definition tab :: char where "tab = CHR 0x09"
definition newline :: char where "newline = CHR 0x0A"

definition parse_record :: "str \<Rightarrow> journal_record option" where
  "parse_record line =
     (case split_once [tab] line of
        None \<Rightarrow> None
      | Some (ts, rest) \<Rightarrow>
          (case parse_uint (2 ^ 64) ts of
             None \<Rightarrow> None
           | Some secs \<Rightarrow>
               (case split_once [tab] rest of
                  Some (unit, text) \<Rightarrow> Some \<lparr>jc_secs = secs, jc_unit = unit, jc_text = text\<rparr>
                | None \<Rightarrow> Some \<lparr>jc_secs = secs, jc_unit = rest, jc_text = []\<rparr>)))"

definition one_line :: "str \<Rightarrow> str" where
  "one_line text = map (\<lambda>c. if c = newline then CHR '' '' else c) text"

definition record_line :: "str \<Rightarrow> nat \<Rightarrow> str \<Rightarrow> str" where
  "record_line unit secs text = show_nat secs @ [tab] @ unit @ [tab] @ one_line text @ [newline]"

section \<open>Segments\<close>

definition segment :: "journal \<Rightarrow> str \<Rightarrow> nat \<Rightarrow> str" where
  "segment jn unit i = path_join (jn_dir jn) (unit @ ''.'' @ show_nat i)"

definition active_segment :: "journal \<Rightarrow> str \<Rightarrow> str" where
  "active_segment jn unit = path_join (jn_dir jn) unit"

definition segment_paths :: "journal \<Rightarrow> str \<Rightarrow> str list" where
  "segment_paths jn unit = map (segment jn unit) (rev [1..<Suc (jn_max_segments jn)]) @ [active_segment jn unit]"

text \<open>\<open>let _ = f()\<close>: the outcome is ignored.\<close>

definition ignored :: "fs_step \<Rightarrow> fsys \<Rightarrow> fsys" where
  "ignored f fs = snd (f fs)"

definition rotate_one :: "journal \<Rightarrow> str \<Rightarrow> nat \<Rightarrow> fsys \<Rightarrow> fsys" where
  "rotate_one jn unit i =
     (if i = jn_max_segments jn then ignored (remove_file (segment jn unit i))
      else ignored (rename_file (segment jn unit (i + 1)) (segment jn unit i)))"

definition journal_rotate :: "journal \<Rightarrow> str \<Rightarrow> fsys \<Rightarrow> fsys" where
  "journal_rotate jn unit fs =
     ignored (rename_file (active_segment jn unit) (segment jn unit 1))
       (fold (rotate_one jn unit) (rev [1..<Suc (jn_max_segments jn)]) fs)"

section \<open>Operations\<close>

definition file_len :: "fsys \<Rightarrow> str \<Rightarrow> nat option" where
  "file_len fs p = map_option length (map_of (fs_files fs) (follow fs p))"

definition reached_cap :: "journal \<Rightarrow> str \<Rightarrow> fsys \<Rightarrow> bool" where
  "reached_cap jn unit fs =
     (case file_len fs (active_segment jn unit) of Some n \<Rightarrow> jn_max_bytes jn \<le> n | None \<Rightarrow> False)"

definition journal_append :: "journal \<Rightarrow> str \<Rightarrow> nat \<Rightarrow> str \<Rightarrow> fsys \<Rightarrow> fsys" where
  "journal_append jn unit secs text fs =
     (if \<not> is_plain_unit_name unit then fs
      else case (if is_dir fs (jn_dir jn) then (Inr (), fs) else create_dir_all (jn_dir jn) fs) of
        (Inl _, fs1) \<Rightarrow> fs1
      | (Inr _, fs1) \<Rightarrow>
          (let fs2 = (if reached_cap jn unit fs1 then journal_rotate jn unit fs1 else fs1)
           in ignored (append_file (active_segment jn unit) (record_line unit secs text)) fs2))"

definition segment_records :: "nat option \<Rightarrow> str \<Rightarrow> journal_record list" where
  "segment_records since text =
     filter (\<lambda>r. case since of Some s \<Rightarrow> s \<le> jc_secs r | None \<Rightarrow> True)
       (List.map_filter parse_record (text_lines text))"

definition journal_read :: "journal \<Rightarrow> str \<Rightarrow> nat option \<Rightarrow> fsys \<Rightarrow> journal_record list" where
  "journal_read jn unit since fs =
     (if \<not> is_plain_unit_name unit then []
      else concat (map (\<lambda>p. case read_to_string fs p of Inl _ \<Rightarrow> [] | Inr t \<Rightarrow> segment_records since t)
             (segment_paths jn unit)))"

definition journal_tail :: "journal \<Rightarrow> str \<Rightarrow> nat \<Rightarrow> fsys \<Rightarrow> journal_record list" where
  "journal_tail jn unit n fs = rev (take n (rev (journal_read jn unit None fs)))"

definition journal_exists :: "journal \<Rightarrow> str \<Rightarrow> fsys \<Rightarrow> bool" where
  "journal_exists jn unit fs \<longleftrightarrow> is_plain_unit_name unit \<and> path_exists fs (active_segment jn unit)"

definition unit_of_segment :: "str \<Rightarrow> str" where
  "unit_of_segment name =
     (case rfind_idx (CHR ''.'') name of
        Some i \<Rightarrow> if parse_uint (2 ^ 64) (drop (i + 1) name) \<noteq> None then take i name else name
      | None \<Rightarrow> name)"

definition journal_units :: "journal \<Rightarrow> fsys \<Rightarrow> str list" where
  "journal_units jn fs =
     (case read_dir fs (jn_dir jn) of
        Inl _ \<Rightarrow> []
      | Inr names \<Rightarrow> sort (remdups (map unit_of_segment names)))"

end
