(* ===== verification/Journal_Props.thy ===== *)
theory Journal_Props
  imports Journal Repo_Props
begin

text \<open>
  What the journal keeps: a record that is appended is read back last, and a rotation keeps the records
  of the file that was active and loses every older one.
\<close>

section \<open>Lines\<close>

lemma split_on_append: "p d \<Longrightarrow> split_on p (a @ d # b) = split_on p a @ split_on p b"
  by (induction a) (auto split: list.splits)

lemma text_lines_Nil [simp]: "text_lines [] = []"
  by (simp add: text_lines_def split_char_def)

lemma text_lines_snoc:
  assumes "a = [] \<or> last a = newline" "newline \<notin> set l"
  shows "text_lines (a @ l @ [newline]) = text_lines a @ [strip_cr l]"
proof -
  have l: "split_on (\<lambda>x. x = newline) l = [l]" using assms(2) by (intro split_on_no_sep) auto
  then have ll: "split_on (\<lambda>x. x = newline) (l @ [newline]) = [l, []]"
    using split_on_append [of "\<lambda>x. x = newline" newline l "[]"] by simp
  show ?thesis
  proof (cases a rule: rev_cases)
    case Nil
    with ll show ?thesis by (simp add: text_lines_def Let_def split_char_def newline_def)
  next
    case (snoc b c)
    with assms(1) have c: "a = b @ [newline]" by simp
    have "split_on (\<lambda>x. x = newline) (b @ newline # (l @ [newline])) = split_on (\<lambda>x. x = newline) b @ [l, []]"
      using split_on_append [of "\<lambda>x. x = newline" newline b "l @ [newline]"] ll by simp
    moreover have "split_on (\<lambda>x. x = newline) (b @ [newline]) = split_on (\<lambda>x. x = newline) b @ [[]]"
      using split_on_append [of "\<lambda>x. x = newline" newline b "[]"] by simp
    ultimately show ?thesis
      unfolding c by (simp add: text_lines_def Let_def split_char_def newline_def butlast_append)
  qed
qed

text \<open>A record that survives its line: the unit has no tab and no newline, the text does not end in a
  carriage return.\<close>

definition recordable :: "str \<Rightarrow> nat \<Rightarrow> str \<Rightarrow> bool" where
  "recordable unit secs text \<longleftrightarrow> tab \<notin> set unit \<and> newline \<notin> set unit \<and> secs < 2 ^ 64 \<and>
     (text = [] \<or> last text \<noteq> CHR 0x0D)"

definition record_body :: "str \<Rightarrow> nat \<Rightarrow> str \<Rightarrow> str" where
  "record_body unit secs text = show_nat secs @ tab # unit @ tab # one_line text"

lemma show_nat_plain: "tab \<notin> set (show_nat n)" "newline \<notin> set (show_nat n)"
  using show_nat_no_ws [of n] by (auto simp: is_ws_def code_def tab_def newline_def)

lemma strip_cr_id: "s \<noteq> [] \<Longrightarrow> last s \<noteq> CHR 0x0D \<Longrightarrow> strip_cr s = s"
  by (cases s rule: rev_cases) (auto simp: strip_cr_def strip_suffix_def strip_prefix_def starts_with_def)

lemma record_body_last: "recordable unit secs text \<Longrightarrow> strip_cr (record_body unit secs text) = record_body unit secs text"
proof (rule strip_cr_id)
  assume r: "recordable unit secs text"
  show "last (record_body unit secs text) \<noteq> CHR 0x0D"
  proof (cases "text = []")
    case False
    then have "last (record_body unit secs text) = (if last text = newline then CHR '' '' else last text)"
      by (simp add: record_body_def one_line_def last_map)
    with r False show ?thesis by (auto simp: recordable_def)
  qed (simp add: record_body_def one_line_def tab_def)
qed (simp add: record_body_def)

lemma parse_record_body:
  assumes "recordable unit secs text"
  shows "parse_record (record_body unit secs text) = Some \<lparr>jc_secs = secs, jc_unit = unit, jc_text = one_line text\<rparr>"
proof -
  have "tab \<notin> set unit" "secs < 2 ^ 64" using assms by (auto simp: recordable_def)
  then show ?thesis
    using split_once_char [OF show_nat_plain(1), of secs "unit @ tab # one_line text"]
      split_once_char [of tab unit "one_line text"] parse_show_uint [of secs "2 ^ 64"]
    by (simp add: parse_record_def record_body_def)
qed

lemma record_body_one_line: "newline \<notin> set unit \<Longrightarrow> newline \<notin> set (record_body unit secs text)"
  using show_nat_plain(2) by (auto simp: record_body_def one_line_def tab_def newline_def)

definition ends_line :: "str \<Rightarrow> bool" where
  "ends_line t \<longleftrightarrow> t = [] \<or> last t = newline"

lemma segment_records_snoc:
  assumes "recordable unit secs text" "ends_line t"
  shows "segment_records since (t @ record_line unit secs text) =
    segment_records since t @ segment_records since (record_line unit secs text)"
    "segment_records since (record_line unit secs text) =
      (if (case since of Some s \<Rightarrow> s \<le> secs | None \<Rightarrow> True) then [\<lparr>jc_secs = secs, jc_unit = unit, jc_text = one_line text\<rparr>] else [])"
proof -
  have r: "record_line unit secs text = record_body unit secs text @ [newline]"
    by (simp add: record_line_def record_body_def)
  have n: "newline \<notin> set (record_body unit secs text)" using assms(1) by (simp add: record_body_one_line recordable_def)
  note l = text_lines_snoc [OF _ n] record_body_last [OF assms(1)] parse_record_body [OF assms(1)]
  show "segment_records since (record_line unit secs text) =
      (if (case since of Some s \<Rightarrow> s \<le> secs | None \<Rightarrow> True) then [\<lparr>jc_secs = secs, jc_unit = unit, jc_text = one_line text\<rparr>] else [])"
    using l(1) [of "[]"] l(2,3) by (simp add: segment_records_def r List.map_filter_def split: option.splits)
  then show "segment_records since (t @ record_line unit secs text) =
    segment_records since t @ segment_records since (record_line unit secs text)"
    using l(1) [of t] l(2,3) assms(2)
    by (simp add: segment_records_def r ends_line_def List.map_filter_def split: option.splits)
qed

section \<open>Files of a journal\<close>

definition journal_paths :: "journal \<Rightarrow> str \<Rightarrow> str set" where
  "journal_paths jn unit = insert (active_segment jn unit) (segment jn unit ` {1..})"

text \<open>Nothing is refused, and none of the unit's paths is a link.\<close>

definition journal_clear :: "journal \<Rightarrow> str \<Rightarrow> fsys \<Rightarrow> bool" where
  "journal_clear jn unit fs \<longleftrightarrow> calm fs \<and> (\<forall>p \<in> journal_paths jn unit. snd (entry fs p) = None)"

lemma plain_relative:
  assumes "is_plain_unit_name unit"
  shows "\<not> starts_with ''/'' unit" "\<not> starts_with ''/'' (unit @ s)"
proof -
  show a: "\<not> starts_with ''/'' unit" using plain_name_relative assms .
  obtain c cs where "unit = c # cs" using assms by (cases unit) (auto simp: is_plain_unit_name_def)
  with a show "\<not> starts_with ''/'' (unit @ s)" by (simp add: starts_with_def strip_prefix_def)
qed

lemma show_nat_inj: "show_nat i = show_nat j \<longleftrightarrow> i = j"
  by (metis digits_val_show_nat)

lemma segment_neq:
  assumes "is_plain_unit_name unit"
  shows "segment jn unit i \<noteq> active_segment jn unit" "segment jn unit i = segment jn unit j \<longleftrightarrow> i = j"
  using plain_relative [OF assms] by (auto simp: segment_def active_segment_def path_join_def show_nat_inj)

definition text_at :: "fsys \<Rightarrow> str \<Rightarrow> str option" where
  "text_at fs p = fst (entry fs p)"

lemma journal_read_text:
  assumes "is_plain_unit_name unit" "journal_clear jn unit fs"
  shows "journal_read jn unit since fs =
    concat (map (\<lambda>p. case text_at fs p of None \<Rightarrow> [] | Some t \<Rightarrow> segment_records since t) (segment_paths jn unit))"
proof -
  have "set (segment_paths jn unit) \<subseteq> journal_paths jn unit"
    by (auto simp: segment_paths_def journal_paths_def)
  then have "\<forall>p \<in> set (segment_paths jn unit). map_of (fs_links fs) p = None \<and> fs_fail fs CallRead p = None"
    using assms(2) by (auto simp: journal_clear_def entry_def calm_def)
  then have "\<forall>p \<in> set (segment_paths jn unit). (case read_to_string fs p of Inl _ \<Rightarrow> [] | Inr t \<Rightarrow> segment_records since t) =
      (case text_at fs p of None \<Rightarrow> [] | Some t \<Rightarrow> segment_records since t)"
    by (auto simp: read_to_string_def text_at_def entry_def split: option.splits)
  then show ?thesis using assms(1) by (simp add: journal_read_def cong: map_cong)
qed

lemma append_file_text:
  assumes "calm fs" "snd (entry fs p) = None"
  shows "calm (ignored (append_file p txt) fs) \<and> entry (ignored (append_file p txt) fs) =
    (entry fs)(p := (Some (case text_at fs p of Some t \<Rightarrow> t @ txt | None \<Rightarrow> txt), None))"
proof -
  have l: "map_of (fs_links fs) p = None" using assms(2) by (simp add: entry_def)
  then show ?thesis using assms(1)
    by (auto simp: ignored_def append_file_def write_all_def is_file_def file_text_def text_at_def calm_def
      entry_def put_file_def fun_eq_iff split: option.splits)
qed

text \<open>C23. A record that is appended below the size cap is read back: whatever the journal of the unit
  holds, reading it gives the records of before and then the new one, with its newlines turned into
  spaces; a reader that asks for later records only gets the new one exactly when it is late enough. The
  active file has to end in a full line, which appending keeps.\<close>

theorem journal_append_read:
  assumes "is_plain_unit_name unit" "journal_clear jn unit fs" "is_dir fs (jn_dir jn)" "recordable unit secs text"
    "\<not> reached_cap jn unit fs" "\<forall>t. text_at fs (active_segment jn unit) = Some t \<longrightarrow> ends_line t"
  shows "let fs' = journal_append jn unit secs text fs in
    journal_clear jn unit fs' \<and> (\<exists>t. text_at fs' (active_segment jn unit) = Some t \<and> ends_line t) \<and>
    journal_read jn unit since fs' = journal_read jn unit since fs @
      (if (case since of Some s \<Rightarrow> s \<le> secs | None \<Rightarrow> True) then [\<lparr>jc_secs = secs, jc_unit = unit, jc_text = one_line text\<rparr>] else [])"
proof -
  let ?p = "active_segment jn unit"
  define fs' where "fs' = ignored (append_file ?p (record_line unit secs text)) fs"
  have a: "journal_append jn unit secs text fs = fs'"
    using assms(1,3,5) by (simp add: journal_append_def fs'_def)
  have c: "calm fs" "snd (entry fs ?p) = None" using assms(2) by (auto simp: journal_clear_def journal_paths_def)
  note e = append_file_text [OF c, of "record_line unit secs text", folded fs'_def]
  then have clear: "journal_clear jn unit fs'" using assms(2) by (auto simp: journal_clear_def)
  have segs: "text_at fs' (segment jn unit i) = text_at fs (segment jn unit i)" for i
    using e segment_neq(1) [OF assms(1)] by (simp add: text_at_def)
  have act: "text_at fs' ?p = Some (case text_at fs ?p of Some t \<Rightarrow> t @ record_line unit secs text | None \<Rightarrow> record_line unit secs text)"
    using e by (simp add: text_at_def)
  have "(case text_at fs' ?p of None \<Rightarrow> [] | Some t \<Rightarrow> segment_records since t) =
      (case text_at fs ?p of None \<Rightarrow> [] | Some t \<Rightarrow> segment_records since t) @ segment_records since (record_line unit secs text)"
    using act assms(6) segment_records_snoc(1) [OF assms(4)] by (auto split: option.splits)
  moreover have "\<exists>t. text_at fs' ?p = Some t \<and> ends_line t"
    using act by (auto simp: ends_line_def record_line_def split: option.splits)
  ultimately show ?thesis
    using clear segs segment_records_snoc(2) [OF assms(4), of "[]"]
    by (simp add: a journal_read_text [OF assms(1)] assms(2) segment_paths_def o_def ends_line_def)
qed

definition demo_journal :: journal where
  "demo_journal = \<lparr>jn_dir = ''/j'', jn_max_bytes = 40, jn_max_segments = 4\<rparr>"

definition journal_fs :: "(str \<times> str) list \<Rightarrow> fsys" where
  "journal_fs files = empty_fs\<lparr>fs_files := files, fs_dirs := [''/j'']\<rparr>"

theorem journal_append_read_witness:
  "journal_read demo_journal ''a'' None (journal_append demo_journal ''a'' 7 ''hi'' (journal_fs [])) =
    [\<lparr>jc_secs = 7, jc_unit = ''a'', jc_text = ''hi''\<rparr>]"
proof -
  have c: "journal_clear demo_journal ''a'' (journal_fs [])"
    by (simp add: journal_clear_def calm_def journal_fs_def empty_fs_def entry_def)
  have h: "is_plain_unit_name ''a''" "is_dir (journal_fs []) (jn_dir demo_journal)" "recordable ''a'' 7 ''hi''"
    "\<not> reached_cap demo_journal ''a'' (journal_fs [])"
    "text_at (journal_fs []) (active_segment demo_journal ''a'') = None"
    "journal_read demo_journal ''a'' None (journal_fs []) = []" "one_line ''hi'' = ''hi''" by code_simp+
  show ?thesis
    using journal_append_read [OF h(1) c h(2-4), of None] h(5-7) by (simp add: Let_def)
qed

section \<open>Rotation\<close>

lemma rename_text:
  assumes "calm fs" "snd (entry fs a) = None" "snd (entry fs b) = None" "a \<noteq> b"
  shows "calm (ignored (rename_file a b) fs) \<and> entry (ignored (rename_file a b) fs) =
    (if text_at fs a = None then entry fs else (entry fs)(a := (None, None), b := entry fs a))"
  using assms by (auto simp: ignored_def rename_file_def calm_def text_at_def entry_def drop_entry_def Let_def
    fun_eq_iff split: option.splits)

lemma remove_text:
  assumes "calm fs"
  shows "calm (ignored (remove_file p) fs) \<and> entry (ignored (remove_file p) fs) = (entry fs)(p := (None, None))"
  using assms by (auto simp: ignored_def remove_file_def calm_def guarded_def entry_def drop_entry_def fun_eq_iff)

text \<open>After the loop has come down to \<open>k\<close>, every segment above \<open>k\<close> is gone.\<close>

definition gone_above :: "journal \<Rightarrow> str \<Rightarrow> nat \<Rightarrow> fsys \<Rightarrow> fsys \<Rightarrow> bool" where
  "gone_above jn unit k fs fs' \<longleftrightarrow> journal_clear jn unit fs' \<and>
     (\<forall>i. k < i \<and> i \<le> jn_max_segments jn \<longrightarrow> text_at fs' (segment jn unit i) = None) \<and>
     (\<forall>p. p \<notin> segment jn unit ` {1..jn_max_segments jn} \<longrightarrow> entry fs' p = entry fs p)"

lemma rotate_one_gone:
  assumes plain: "is_plain_unit_name unit" and "gone_above jn unit (Suc k) fs fs'" "1 \<le> k" "k < jn_max_segments jn"
  shows "gone_above jn unit k fs (rotate_one jn unit k fs')"
proof -
  let ?a = "segment jn unit (Suc k)" and ?b = "segment jn unit k"
  define fs2 where "fs2 = ignored (rename_file ?a ?b) fs'"
  have ab: "?a \<noteq> ?b" using segment_neq(2) [OF plain] by simp
  have mem: "?a \<in> journal_paths jn unit" "?b \<in> journal_paths jn unit" using assms(3) by (auto simp: journal_paths_def)
  with assms(2) have c: "calm fs'" "snd (entry fs' ?a) = None" "snd (entry fs' ?b) = None"
    by (auto simp: gone_above_def journal_clear_def)
  have e: "calm fs2" "entry fs2 = (if text_at fs' ?a = None then entry fs' else (entry fs')(?a := (None, None), ?b := entry fs' ?a))"
    using rename_text [OF c ab] by (simp_all add: fs2_def)
  have links: "snd (entry fs2 p) = None" if "p \<in> journal_paths jn unit" for p
    using that assms(2) c by (auto simp: e(2) gone_above_def journal_clear_def)
  have gone: "text_at fs2 (segment jn unit i) = None" if "k < i" "i \<le> jn_max_segments jn" for i
  proof (cases "i = Suc k")
    case True
    with ab show ?thesis by (auto simp: text_at_def e(2))
  next
    case False
    with that have "text_at fs' (segment jn unit i) = None" "segment jn unit i \<noteq> ?a" "segment jn unit i \<noteq> ?b"
      using assms(2) segment_neq(2) [OF plain] by (auto simp: gone_above_def)
    then show ?thesis by (simp add: text_at_def e(2))
  qed
  have other: "entry fs2 p = entry fs p" if "p \<notin> segment jn unit ` {1..jn_max_segments jn}" for p
  proof -
    have "p \<noteq> ?a" "p \<noteq> ?b" using that assms(3,4) by auto
    with that assms(2) show ?thesis by (simp add: e(2) gone_above_def)
  qed
  have "rotate_one jn unit k fs' = fs2" using assms(4) by (simp add: rotate_one_def fs2_def)
  with e(1) links gone other show ?thesis by (simp add: gone_above_def journal_clear_def)
qed

lemma rotate_loop_gone:
  assumes "is_plain_unit_name unit" "journal_clear jn unit fs" "1 \<le> k" "k \<le> jn_max_segments jn"
  shows "gone_above jn unit k fs (fold (rotate_one jn unit) (rev [k..<Suc (jn_max_segments jn)]) fs)"
  using assms(4,3)
proof (induction rule: inc_induct)
  case base
  note r = remove_text [of fs "segment jn unit (jn_max_segments jn)"]
  have "calm fs" using assms(2) by (simp add: journal_clear_def)
  with r base assms(2) show ?case
    by (auto simp: gone_above_def journal_clear_def rotate_one_def)
next
  case (step k)
  then have "rev [k..<Suc (jn_max_segments jn)] = rev [Suc k..<Suc (jn_max_segments jn)] @ [k]"
    by (simp add: upt_conv_Cons)
  with step rotate_one_gone [OF assms(1) step.IH] show ?case by simp
qed

text \<open>Rotating a journal, whatever it holds, leaves one rotated segment: the active file becomes
  \<open>unit.1\<close>, every segment from \<open>unit.2\<close> on is gone, no other path changes, and what can still be read is
  exactly what the active file held. So the disk use is bounded by one segment beside the active file,
  however many segments are configured.\<close>

theorem rotation_keeps_one:
  assumes "is_plain_unit_name unit" "journal_clear jn unit fs" "1 \<le> jn_max_segments jn"
    "text_at fs (active_segment jn unit) = Some t"
  shows "let fs' = journal_rotate jn unit fs in
    text_at fs' (active_segment jn unit) = None \<and> text_at fs' (segment jn unit 1) = Some t \<and>
    (\<forall>i. 2 \<le> i \<and> i \<le> jn_max_segments jn \<longrightarrow> text_at fs' (segment jn unit i) = None) \<and>
    (\<forall>p. p \<notin> journal_paths jn unit \<longrightarrow> entry fs' p = entry fs p) \<and>
    journal_read jn unit since fs' = segment_records since t"
proof -
  let ?N = "jn_max_segments jn" and ?a = "active_segment jn unit" and ?b = "segment jn unit 1"
  define fs1 where "fs1 = fold (rotate_one jn unit) (rev [1..<Suc ?N]) fs"
  define fs2 where "fs2 = ignored (rename_file ?a ?b) fs1"
  have r: "journal_rotate jn unit fs = fs2" by (simp only: journal_rotate_def fs1_def fs2_def)
  have g: "gone_above jn unit 1 fs fs1" unfolding fs1_def by (rule rotate_loop_gone [OF assms(1,2) _ assms(3)]) simp
  have ab: "?a \<noteq> ?b" using segment_neq(1) [OF assms(1), of jn 1] by metis
  have "?a \<noteq> segment jn unit i" for i using segment_neq(1) [OF assms(1), of jn i] by metis
  then have "?a \<notin> segment jn unit ` {1..?N}" by blast
  with g have a: "entry fs1 ?a = entry fs ?a" by (simp add: gone_above_def)
  have c: "calm fs1" "snd (entry fs1 ?a) = None" "snd (entry fs1 ?b) = None"
    using g by (auto simp: gone_above_def journal_clear_def journal_paths_def)
  have e: "calm fs2" "entry fs2 = (entry fs1)(?a := (None, None), ?b := entry fs ?a)"
    using rename_text [OF c ab] assms(4) a by (simp_all add: fs2_def text_at_def)
  have clear: "journal_clear jn unit fs2"
    using e g c(2) a by (auto simp: gone_above_def journal_clear_def)
  have one: "text_at fs2 ?a = None" "text_at fs2 ?b = Some t" using e(2) ab assms(4) by (simp_all add: text_at_def)
  have rest: "text_at fs2 (segment jn unit i) = None" if "2 \<le> i" "i \<le> ?N" for i
  proof -
    have "segment jn unit i \<noteq> ?a" "segment jn unit i \<noteq> ?b" using segment_neq [OF assms(1)] that by auto
    with g that show ?thesis by (simp add: e(2) text_at_def gone_above_def)
  qed
  have other: "entry fs2 p = entry fs p" if "p \<notin> journal_paths jn unit" for p
  proof -
    have "p \<noteq> ?a" "p \<noteq> ?b" "p \<notin> segment jn unit ` {1..?N}" using that by (auto simp: journal_paths_def)
    with g show ?thesis by (simp add: e(2) gone_above_def)
  qed
  have "rev [1..<Suc ?N] = rev [2..<Suc ?N] @ [1]" using assms(3) by (simp add: upt_conv_Cons numeral_2_eq_2)
  moreover have "concat (map (\<lambda>p. case text_at fs2 p of None \<Rightarrow> [] | Some t \<Rightarrow> segment_records since t)
      (map (segment jn unit) (rev [2..<Suc ?N]))) = []"
    using rest by (auto simp: concat_eq_Nil_conv)
  ultimately have "journal_read jn unit since fs2 = segment_records since t"
    unfolding journal_read_text [OF assms(1) clear] segment_paths_def using one
    by (simp del: upt_Suc)
  with one rest other show ?thesis by (simp add: r)
qed

theorem rotation_keeps_one_witness:
  "let fs = journal_fs [(''/j/a'', ''3'' @ [tab] @ ''a'' @ [tab] @ ''z'' @ [newline]),
       (''/j/a.1'', ''2'' @ [tab] @ ''a'' @ [tab] @ ''y'' @ [newline])]
   in length (journal_read demo_journal ''a'' None fs) = 2 \<and>
      journal_read demo_journal ''a'' None (journal_rotate demo_journal ''a'' fs) =
        [\<lparr>jc_secs = 3, jc_unit = ''a'', jc_text = ''z''\<rparr>]"
proof -
  let ?t = "''3'' @ [tab] @ ''a'' @ [tab] @ ''z'' @ [newline]"
  let ?fs = "journal_fs [(''/j/a'', ?t), (''/j/a.1'', ''2'' @ [tab] @ ''a'' @ [tab] @ ''y'' @ [newline])]"
  have c: "journal_clear demo_journal ''a'' ?fs"
    by (simp add: journal_clear_def calm_def journal_fs_def empty_fs_def entry_def)
  have h: "is_plain_unit_name ''a''" "1 \<le> jn_max_segments demo_journal"
    "text_at ?fs (active_segment demo_journal ''a'') = Some ?t"
    "segment_records None ?t = [\<lparr>jc_secs = 3, jc_unit = ''a'', jc_text = ''z''\<rparr>]"
    "length (journal_read demo_journal ''a'' None ?fs) = 2" by code_simp+
  from rotation_keeps_one [OF h(1) c h(2,3), of None] h(4,5) show ?thesis by (simp add: Let_def)
qed

end
