(* ===== verification/Json.thy ===== *)
theory Json
  imports File_System
begin

text \<open>
  JSON values as the program handles them with \<^verbatim>\<open>serde_json\<close>: whole numbers as integers, any other
  number by its text, an object as its kvs in the order of the keys (the library keeps them in a
  \<open>BTreeMap\<close>). Reading and printing JSON text is the library's.
\<close>

datatype json = JNull | JBool bool | JNum int | JFloat str | JStr str | JArr "json list" | JObj "(str \<times> json) list"

definition jobject :: "(str \<times> json) list \<Rightarrow> json" where
  "jobject kvs = JObj (sort_key fst kvs)"

section \<open>Reading values\<close>

text \<open>\<open>Value::get\<close> of a key and \<open>as_str\<close>, \<open>as_bool\<close>, \<open>as_u64\<close>, \<open>as_array\<close>.\<close>

fun jget :: "json \<Rightarrow> str \<Rightarrow> json option" where
  "jget (JObj kvs) k = map_of kvs k"
| "jget _ k = None"

fun as_str :: "json \<Rightarrow> str option" where
  "as_str (JStr s) = Some s"
| "as_str _ = None"

fun as_bool :: "json \<Rightarrow> bool option" where
  "as_bool (JBool b) = Some b"
| "as_bool _ = None"

fun as_u64 :: "json \<Rightarrow> nat option" where
  "as_u64 (JNum i) = (if 0 \<le> i \<and> i < 2 ^ 64 then Some (nat i) else None)"
| "as_u64 _ = None"

fun as_i64 :: "json \<Rightarrow> int option" where
  "as_i64 (JNum i) = (if - (2 ^ 63) \<le> i \<and> i < 2 ^ 63 then Some i else None)"
| "as_i64 _ = None"

fun as_array :: "json \<Rightarrow> json list option" where
  "as_array (JArr a) = Some a"
| "as_array _ = None"

section \<open>Making values\<close>

definition jstrs :: "str list \<Rightarrow> json" where
  "jstrs ss = JArr (map JStr ss)"

definition jnat :: "nat \<Rightarrow> json" where
  "jnat n = JNum (int n)"

definition jopt :: "('a \<Rightarrow> json) \<Rightarrow> 'a option \<Rightarrow> json" where
  "jopt f x = (case x of Some y \<Rightarrow> f y | None \<Rightarrow> JNull)"

section \<open>Decoding\<close>

text \<open>Fields of a struct, as a derived \<open>Deserialize\<close> reads them from an object: a missing field is an
  error unless its type is an option; \<open>null\<close> is the option's \<open>None\<close>.\<close>

definition jfield :: "(json \<Rightarrow> 'a option) \<Rightarrow> str \<Rightarrow> json \<Rightarrow> 'a option" where
  "jfield dec k v = Option.bind (jget v k) dec"

definition jfield_opt :: "(json \<Rightarrow> 'a option) \<Rightarrow> str \<Rightarrow> json \<Rightarrow> 'a option option" where
  "jfield_opt dec k v =
     (case jget v k of None \<Rightarrow> Some None | Some JNull \<Rightarrow> Some None | Some x \<Rightarrow> map_option Some (dec x))"

fun all_some :: "'a option list \<Rightarrow> 'a list option" where
  "all_some [] = Some []"
| "all_some (None # xs) = None"
| "all_some (Some x # xs) = map_option (Cons x) (all_some xs)"

definition jlist :: "(json \<Rightarrow> 'a option) \<Rightarrow> json \<Rightarrow> 'a list option" where
  "jlist dec v = Option.bind (as_array v) (\<lambda>a. all_some (map dec a))"

text \<open>\<open>as_array().map(|a| a.iter().filter_map(as_str))\<close>.\<close>

definition str_vec :: "json \<Rightarrow> str list option" where
  "str_vec v = map_option (List.map_filter as_str) (as_array v)"

section \<open>What is made is read\<close>

lemma jobject_get [simp]: "distinct (map fst kvs) \<Longrightarrow> jget (jobject kvs) k = map_of kvs k"
proof -
  assume d: "distinct (map fst kvs)"
  then have "distinct (map fst (sort_key fst kvs))" by (simp add: distinct_map)
  with d have "map_of (sort_key fst kvs) = map_of kvs" by (simp add: map_of_inject_set)
  then show ?thesis by (simp add: jobject_def)
qed

lemma str_vec_jstrs [simp]: "str_vec (jstrs ss) = Some ss"
  by (simp add: str_vec_def jstrs_def List.map_filter_def o_def)

lemma all_some_map: "(\<And>x. x \<in> set xs \<Longrightarrow> f x = Some (g x)) \<Longrightarrow> all_some (map f xs) = Some (map g xs)"
  by (induction xs) auto

lemma jlist_map: "(\<And>x. x \<in> set xs \<Longrightarrow> dec (enc x) = Some x) \<Longrightarrow> jlist dec (JArr (map enc xs)) = Some xs"
  using all_some_map [of xs "dec \<circ> enc" id] by (simp add: jlist_def)

lemma jlist_strs [simp]: "jlist as_str (jstrs ss) = Some ss"
  by (simp add: jstrs_def jlist_map)

end
