(* ===== verification/Ops.thy ===== *)
theory Ops
  imports Json Journal Enable Manager_Runs
begin

text \<open>
  The typed operations of the manager that every control surface shares, \<^verbatim>\<open>rystemd/src/manager/ops.rs\<close>,
  over the manager, its disk and its journal. A mutating operation is a step of \<open>server\<close>: it answers with
  a value or an error message and the new state, or it faults like the engine does. The world of the engine
  is a function of the disk, so that reloading units after a change of the disk sees it.
\<close>

record server =
  sv_mgr :: mgr
  sv_fs :: fsys
  sv_journal :: journal

record env =
  ev_world :: "fsys \<Rightarrow> os"
  ev_depth :: nat
  ev_cwd :: "str option"

type_synonym 'a sv = "server \<Rightarrow> fault + (str + 'a) \<times> server"

section \<open>Steps\<close>

definition sv_ok :: "'a \<Rightarrow> 'a sv" where
  "sv_ok x s = Inr (Inr x, s)"

definition sv_err :: "str \<Rightarrow> 'a sv" where
  "sv_err e s = Inr (Inl e, s)"

text \<open>\<open>?\<close>: an error ends the operation.\<close>

definition sv_then :: "'a sv \<Rightarrow> ('a \<Rightarrow> 'b sv) \<Rightarrow> 'b sv" where
  "sv_then f g s =
     (case f s of
        Inl x \<Rightarrow> Inl x
      | Inr (Inl e, s1) \<Rightarrow> Inr (Inl e, s1)
      | Inr (Inr x, s1) \<Rightarrow> g x s1)"

fun for_each :: "('x \<Rightarrow> unit sv) \<Rightarrow> 'x list \<Rightarrow> unit sv" where
  "for_each f [] = sv_ok ()"
| "for_each f (x # xs) = sv_then (f x) (\<lambda>_. for_each f xs)"

fun gather :: "('x \<Rightarrow> 'a list sv) \<Rightarrow> 'x list \<Rightarrow> 'a list \<Rightarrow> 'a list sv" where
  "gather f [] acc = sv_ok acc"
| "gather f (x # xs) acc = sv_then (f x) (\<lambda>ys. gather f xs (acc @ ys))"

fun show_ctl_error :: "ctl_error \<Rightarrow> str" where
  "show_ctl_error (UnitNotFound n) = ''Unit '' @ n @ '' not found.''"
| "show_ctl_error (LoadFailed e) = e"
| "show_ctl_error (JobIrreversible n) = ''Job for '' @ n @ '' is irreversible.''"
| "show_ctl_error (NoExecReload n) = ''Unit '' @ n @ '' has no ExecReload.''"
| "show_ctl_error (NoProcesses n) = ''Unit '' @ n @ '' has no processes.''"

text \<open>A request to the engine, and an operation on the disk.\<close>

definition on_mgr :: "env \<Rightarrow> (os \<Rightarrow> recur \<Rightarrow> mgr \<Rightarrow> 'a reply) \<Rightarrow> 'a sv" where
  "on_mgr E f s =
     (let w = ev_world E (sv_fs s) in
      case f w (run w (ev_depth E)) (sv_mgr s) of
        Inl x \<Rightarrow> Inl x
      | Inr (Inl e, m) \<Rightarrow> Inr (Inl (show_ctl_error e), s\<lparr>sv_mgr := m\<rparr>)
      | Inr (Inr x, m) \<Rightarrow> Inr (Inr x, s\<lparr>sv_mgr := m\<rparr>))"

definition on_disk :: "(fsys \<Rightarrow> 'a fs_result) \<Rightarrow> 'a sv" where
  "on_disk f s = (let (r, fs) = f (sv_fs s) in Inr (r, s\<lparr>sv_fs := fs\<rparr>))"

definition on_disk_deep :: "(fsys \<Rightarrow> 'a fs_result option) \<Rightarrow> 'a sv" where
  "on_disk_deep f s = (case f (sv_fs s) of None \<Rightarrow> Inl OutOfFuel | Some (r, fs) \<Rightarrow> Inr (r, s\<lparr>sv_fs := fs\<rparr>))"

definition sv_paths :: "server \<Rightarrow> paths" where
  "sv_paths s = cfg_paths (m_cfg (sv_mgr s))"

definition sv_start :: "env \<Rightarrow> str \<Rightarrow> unit sv" where
  "sv_start E n = on_mgr E (\<lambda>w rec. start_unit w rec n)"

definition sv_stop :: "env \<Rightarrow> str \<Rightarrow> unit sv" where
  "sv_stop E n = on_mgr E (\<lambda>w rec. stop_unit w rec n)"

definition sv_restart :: "env \<Rightarrow> str \<Rightarrow> unit sv" where
  "sv_restart E n = on_mgr E (\<lambda>w rec. restart (ev_depth E) w rec n)"

definition sv_reload_all :: "env \<Rightarrow> str list sv" where
  "sv_reload_all E s =
     (case load_all (ev_world E (sv_fs s)) (sv_mgr s) of
        Inl x \<Rightarrow> Inl x
      | Inr (errs, m) \<Rightarrow> Inr (Inr errs, s\<lparr>sv_mgr := m\<rparr>))"

definition sv_enable :: "env \<Rightarrow> str \<Rightarrow> str list sv" where
  "sv_enable E n s = on_disk_deep (enable (ev_depth E) (ev_cwd E) (sv_paths s) n) s"

definition sv_disable :: "env \<Rightarrow> str \<Rightarrow> str list sv" where
  "sv_disable E n s = on_disk_deep (disable (ev_depth E) (sv_paths s) n) s"

section \<open>Names of states\<close>

fun load_str :: "load_state \<Rightarrow> str" where
  "load_str Loaded = ''loaded''"
| "load_str NotFound = ''not-found''"
| "load_str LoadError = ''error''"

fun active_str :: "active_state \<Rightarrow> str" where
  "active_str Inactive = ''inactive''"
| "active_str Activating = ''activating''"
| "active_str Active = ''active''"
| "active_str Deactivating = ''deactivating''"
| "active_str Failed = ''failed''"

fun result_str :: "unit_result \<Rightarrow> str" where
  "result_str ResSuccess = ''success''"
| "result_str ResExitCode = ''exit-code''"
| "result_str ResSignal = ''signal''"
| "result_str ResTimeout = ''timeout''"
| "result_str ResStartLimitHit = ''start-limit-hit''"
| "result_str ResDependency = ''dependency''"
| "result_str ResAssert = ''assert''"
| "result_str ResResources = ''resources''"
| "result_str ResProtocol = ''protocol''"
| "result_str ResWatchdog = ''watchdog''"
| "result_str ResExec = ''exec''"
| "result_str ResUser = ''user''"
| "result_str ResGroup = ''group''"
| "result_str ResUnknown = ''unknown''"

definition epoch :: "nat \<Rightarrow> nat" where
  "epoch wall = wall div 1000000"

section \<open>Queries\<close>

record unit_status =
  us_name :: str
  us_description :: str
  us_load :: str
  us_active :: str
  us_sub :: str
  us_result :: str
  us_main_pid :: "int option"
  us_path :: "str option"
  us_active_enter :: "nat option"
  us_log :: "str list"
  us_enabled :: str

record unit_summary =
  sm_unit :: str
  sm_loaded :: str
  sm_active :: str
  sm_sub :: str
  sm_description :: str

record timer_info =
  ti_unit :: str
  ti_activates :: str
  ti_next :: "nat option"
  ti_next_left :: "int option"
  ti_last :: "nat option"
  ti_last_passed :: "int option"
  ti_spec :: "str list"

record unit_file_info =
  fi_file :: str
  fi_path :: str
  fi_state :: str

record cat_entry =
  ce_unit :: str
  ce_path :: str
  ce_text :: str

record repo_info =
  ri_root :: str
  ri_roots :: "str list"

definition unit_description :: "unit_state \<Rightarrow> str" where
  "unit_description u = (case u_file u of Some f \<Rightarrow> uc_description (uf_unit f) | None \<Rightarrow> [])"

definition sorted_names :: "server \<Rightarrow> str list" where
  "sorted_names s = sort (hkeys (m_units (sv_mgr s)))"

definition sorted_names_where :: "(unit_state \<Rightarrow> bool) \<Rightarrow> server \<Rightarrow> str list" where
  "sorted_names_where P s =
     filter (\<lambda>n. case get_unit (sv_mgr s) n of Some u \<Rightarrow> P u | None \<Rightarrow> False) (sorted_names s)"

definition status_of :: "server \<Rightarrow> str \<Rightarrow> unit_status option" where
  "status_of s name =
     map_option (\<lambda>u. \<lparr>us_name = u_name u, us_description = unit_description u, us_load = load_str (u_load u),
         us_active = active_str (u_active u), us_sub = sub_state_str (u_sub u), us_result = result_str (u_result u),
         us_main_pid = u_main_pid u, us_path = u_path u, us_active_enter = map_option epoch (u_active_enter u),
         us_log = lr_lines (u_log u), us_enabled = enabled_state (sv_fs s) (sv_paths s) (u_name u)\<rparr>)
       (get_unit (sv_mgr s) name)"

definition str_contains :: "str \<Rightarrow> str \<Rightarrow> bool" where
  "str_contains pat s \<longleftrightarrow> split_once pat s \<noteq> None"

definition summary_wanted :: "str list \<Rightarrow> str option \<Rightarrow> str option \<Rightarrow> str \<Rightarrow> unit_state \<Rightarrow> bool" where
  "summary_wanted types state pattern n u \<longleftrightarrow>
     (case pattern of None \<Rightarrow> True
      | Some p \<Rightarrow> str_contains p n \<or> (case u_file u of Some f \<Rightarrow> str_contains p (uc_description (uf_unit f)) | None \<Rightarrow> False)) \<and>
     (types = [] \<or> list_ex (\<lambda>t. ends_with (CHR ''.'' # t) n) types) \<and>
     (case state of None \<Rightarrow> True | Some st \<Rightarrow> active_str (u_active u) = st)"

definition unit_summary_of :: "str \<Rightarrow> unit_state \<Rightarrow> unit_summary" where
  "unit_summary_of n u = \<lparr>sm_unit = n, sm_loaded = load_str (u_load u), sm_active = active_str (u_active u),
     sm_sub = sub_state_str (u_sub u), sm_description = unit_description u\<rparr>"

definition list_unit_summaries :: "server \<Rightarrow> str list \<Rightarrow> str option \<Rightarrow> str option \<Rightarrow> unit_summary list" where
  "list_unit_summaries s types state pattern =
     List.map_filter (\<lambda>n. case get_unit (sv_mgr s) n of
         Some u \<Rightarrow> if summary_wanted types state pattern n u then Some (unit_summary_of n u) else None
       | None \<Rightarrow> None)
       (sorted_names_where (\<lambda>u. u_load u = Loaded) s)"

definition timer_info_of :: "nat \<Rightarrow> str \<Rightarrow> unit_state \<Rightarrow> timer_info option" where
  "timer_info_of now_secs n u =
     map_option (\<lambda>t.
       let nxt = map_option epoch (ts_next_display t); lst = map_option epoch (ts_last_trigger t)
       in \<lparr>ti_unit = n, ti_activates = activated_unit u, ti_next = nxt,
           ti_next_left = map_option (\<lambda>e. int (e - now_secs)) nxt, ti_last = lst,
           ti_last_passed = map_option (\<lambda>e. int (now_secs - e)) lst,
           ti_spec = (case timer_cfg u of Some c \<Rightarrow> map show_calendar (tc_on_calendar c) | None \<Rightarrow> [])\<rparr>)
       (u_timer u)"

definition list_timer_info :: "nat \<Rightarrow> server \<Rightarrow> timer_info list" where
  "list_timer_info now_secs s =
     List.map_filter (\<lambda>n. Option.bind (get_unit (sv_mgr s) n) (timer_info_of now_secs n))
       (sorted_names_where (\<lambda>u. u_kind u = Timer \<and> u_load u = Loaded) s)"

definition listed_suffix :: "str \<Rightarrow> bool" where
  "listed_suffix f \<longleftrightarrow> ends_with ''.service'' f \<or> ends_with ''.timer'' f \<or> ends_with ''.target'' f \<or> ends_with ''.socket'' f"

definition list_unit_file_info :: "server \<Rightarrow> unit_file_info list" where
  "list_unit_file_info s =
     sort_key fi_file (concat (map (\<lambda>d.
       case read_dir (sv_fs s) d of
         Inl _ \<Rightarrow> []
       | Inr ns \<Rightarrow>
           List.map_filter (\<lambda>f. let p = path_join d f in
             if is_file (sv_fs s) p \<and> listed_suffix f
             then Some \<lparr>fi_file = f, fi_path = p, fi_state = enabled_state (sv_fs s) (sv_paths s) f\<rparr> else None) ns)
       (pa_unit_path (sv_paths s))))"

definition cat_one :: "server \<Rightarrow> str \<Rightarrow> str + cat_entry" where
  "cat_one s n =
     (case get_unit (sv_mgr s) n of
        None \<Rightarrow> Inl (''Unit '' @ n @ '' not found.'')
      | Some u \<Rightarrow>
          (case u_path u of
             Some p \<Rightarrow>
               (case backend_read_path (sv_fs s) p of
                  Inl e \<Rightarrow> Inl (show_repo_error e)
                | Inr d \<Rightarrow> Inr \<lparr>ce_unit = n, ce_path = p, ce_text = doc_to_text (ud_document d)\<rparr>)
           | None \<Rightarrow> Inr \<lparr>ce_unit = n, ce_path = ''(synthesized)'', ce_text = []\<rparr>))"

definition cat_units :: "server \<Rightarrow> str list \<Rightarrow> str + cat_entry list" where
  "cat_units s units = map_res (cat_one s) units"

text \<open>\<open>{:016x}\<close>.\<close>

fun hex_digits :: "nat \<Rightarrow> nat \<Rightarrow> str" where
  "hex_digits 0 n = []"
| "hex_digits (Suc k) n = hex_digits k (n div 16) @ [(''0123456789abcdef'' ! (n mod 16))]"

definition show_properties :: "server \<Rightarrow> str \<Rightarrow> unit_state \<Rightarrow> (str \<times> json) list" where
  "show_properties s n u =
     [(''Id'', JStr n), (''LoadState'', JStr (load_str (u_load u))), (''ActiveState'', JStr (active_str (u_active u))),
      (''SubState'', JStr (sub_state_str (u_sub u))),
      (''MainPID'', JNum (case u_main_pid u of Some p \<Rightarrow> p | None \<Rightarrow> 0)),
      (''Description'', JStr (unit_description u)),
      (''UnitFileState'', JStr (enabled_state (sv_fs s) (sv_paths s) n)),
      (''ActiveEnterTimestamp'', JStr (case u_active_enter u of Some t \<Rightarrow> show_nat (epoch t) | None \<Rightarrow> [])),
      (''InvocationID'', JStr (case u_invocation_id u of Some i \<Rightarrow> hex_digits 16 i | None \<Rightarrow> [])),
      (''NRestarts'', jnat (u_n_restarts u)),
      (''RestartRandomizedDelayUSec'',
        JStr (case service_cfg u of Some c \<Rightarrow> show_timespan (sc_restart_randomized_delay_sec c) | None \<Rightarrow> ''0''))]"

definition show_units :: "server \<Rightarrow> str list \<Rightarrow> str list \<Rightarrow> json list" where
  "show_units s units props =
     List.map_filter (\<lambda>n. map_option (\<lambda>u.
         jobject (filter (\<lambda>(k, _). props = [] \<or> List.member props k) (show_properties s n u)))
       (get_unit (sv_mgr s) n))
     (if units = [] then sorted_names s else units)"

definition get_default :: "server \<Rightarrow> str" where
  "get_default s =
     (case read_link (sv_fs s) (default_target (sv_paths s)) of
        Some p \<Rightarrow> path_file_name p
      | None \<Rightarrow> ''default.target'')"

definition repo_info_of :: "server \<Rightarrow> repo_info" where
  "repo_info_of s = \<lparr>ri_root = hd (pa_unit_path (sv_paths s)), ri_roots = pa_unit_path (sv_paths s)\<rparr>"

definition deps_of :: "server \<Rightarrow> str \<Rightarrow> str list" where
  "deps_of s n =
     map normalize_unit
       ((case Option.bind (get_unit (sv_mgr s) n) u_file of
           Some f \<Rightarrow> uc_requires (uf_unit f) @ uc_wants (uf_unit f) | None \<Rightarrow> []) @
        dir_deps (sv_fs s) (sv_paths s) n ''wants'' @ dir_deps (sv_fs s) (sv_paths s) n ''requires'')"

definition list_dependencies :: "server \<Rightarrow> str \<Rightarrow> bool \<Rightarrow> str list" where
  "list_dependencies s name0 reverse =
     (let name = normalize_unit name0 in
      sort (remdups (if reverse then filter (\<lambda>n. List.member (deps_of s n) name) (hkeys (m_units (sv_mgr s)))
                     else deps_of s name)))"

section \<open>Changes\<close>

definition set_default :: "env \<Rightarrow> str \<Rightarrow> unit sv" where
  "set_default E name s =
     (let target = default_target (sv_paths s) in
      case find_unit (sv_fs s) (sv_paths s) name of
        None \<Rightarrow> sv_err (''unit '' @ name @ '' not found'') s
      | Some link \<Rightarrow>
          sv_then (on_disk (\<lambda>fs.
              fbind (case path_parent target of Some p \<Rightarrow> try_fs (create_dir_all p) fs | None \<Rightarrow> (Inr (), fs)) (\<lambda>_ fs1.
                try_fs (link_file link target) (ignoring (remove_file target) fs1))))
            (\<lambda>_ s1. case sv_start E name s1 of Inl x \<Rightarrow> Inl x | Inr (_, s2) \<Rightarrow> Inr (Inr (), s2)) s)"

definition isolate :: "env \<Rightarrow> str \<Rightarrow> unit sv" where
  "isolate E name0 s =
     (let name = normalize_unit name0;
          (names, m) = unit_names_where (ev_world E (sv_fs s)) (\<lambda>u. u_active u \<noteq> Inactive \<and> u_kind u = Service) (sv_mgr s)
      in sv_then (for_each (sv_stop E) (filter (\<lambda>n. n \<noteq> name) names)) (\<lambda>_. sv_start E name) (s\<lparr>sv_mgr := m\<rparr>))"

definition restartable :: "server \<Rightarrow> str \<Rightarrow> bool" where
  "restartable s n \<longleftrightarrow>
     (case get_unit (sv_mgr s) n of Some u \<Rightarrow> u_active u = Active \<or> u_active u = Activating | None \<Rightarrow> False)"

definition try_restart_units :: "env \<Rightarrow> str list \<Rightarrow> unit sv" where
  "try_restart_units E = for_each (\<lambda>n s. if restartable s n then sv_restart E n s else sv_ok () s)"

definition restart_or_start_units :: "env \<Rightarrow> str list \<Rightarrow> unit sv" where
  "restart_or_start_units E = for_each (\<lambda>n s. if restartable s n then sv_restart E n s else sv_start E n s)"

definition reset_failed_one :: "str \<Rightarrow> unit sv" where
  "reset_failed_one n s =
     (case get_unit (sv_mgr s) n of
        None \<Rightarrow> sv_err (''Unit '' @ n @ '' not found.'') s
      | Some u \<Rightarrow>
          if u_active u = Failed
          then sv_ok () (s\<lparr>sv_mgr := (sv_mgr s)\<lparr>m_units := hins n
                 (u\<lparr>u_active := Inactive, u_sub := SubDead, u_result := ResSuccess\<rparr>) (m_units (sv_mgr s))\<rparr>\<rparr>)
          else sv_ok () s)"

definition reset_failed_units :: "str list \<Rightarrow> unit sv" where
  "reset_failed_units = for_each reset_failed_one"

definition mask_units :: "env \<Rightarrow> str list \<Rightarrow> unit sv" where
  "mask_units E names =
     sv_then (for_each (\<lambda>n s. on_disk (mask (sv_paths s) (normalize_unit n)) s) names)
       (\<lambda>_. sv_then (sv_reload_all E) (\<lambda>_. sv_ok ()))"

definition unmask_units :: "env \<Rightarrow> str list \<Rightarrow> unit sv" where
  "unmask_units E names =
     sv_then (for_each (\<lambda>n s. on_disk (unmask (sv_paths s) (normalize_unit n)) s) names)
       (\<lambda>_. sv_then (sv_reload_all E) (\<lambda>_. sv_ok ()))"

definition reenable_units :: "env \<Rightarrow> str list \<Rightarrow> str list sv" where
  "reenable_units E names =
     sv_then (gather (\<lambda>n. sv_then (sv_disable E (normalize_unit n)) (\<lambda>removed.
           sv_then (sv_enable E (normalize_unit n)) (\<lambda>made. sv_ok (removed @ made)))) names [])
       (\<lambda>out. sv_then (sv_reload_all E) (\<lambda>_. sv_ok out))"

definition is_segment_of :: "str \<Rightarrow> str \<Rightarrow> bool" where
  "is_segment_of unit f \<longleftrightarrow> f = unit \<or> starts_with (unit @ ''.'') f"

definition clean_journal :: "str \<Rightarrow> str \<Rightarrow> fsys \<Rightarrow> bool \<times> fsys" where
  "clean_journal jdir unit fs =
     (case read_dir fs jdir of
        Inl _ \<Rightarrow> (False, fs)
      | Inr ns \<Rightarrow>
          (let segs = filter (is_segment_of unit) ns in
           (segs \<noteq> [], fold (\<lambda>f fs. let p = path_join jdir f in
              if is_dir fs p then ignoring (remove_dir_all p) fs else ignoring (remove_file p) fs) segs fs)))"

definition clean_one :: "env \<Rightarrow> str \<Rightarrow> server \<Rightarrow> str \<times> server" where
  "clean_one E name s =
     (let unit = normalize_unit name;
          dirs = (case Option.bind (get_unit (sv_mgr s) unit) service_cfg of Some c \<Rightarrow> sc_directories c | None \<Rightarrow> []);
          fs1 = fold (\<lambda>d. ignoring (remove_dir_all (path_join (base_dir (ev_world E (sv_fs s)) (sv_mgr s) (ds_kind d)) (ds_name d))))
                  dirs (sv_fs s);
          (removed, fs2) = clean_journal (jn_dir (sv_journal s)) unit fs1
      in (if dirs \<noteq> [] \<or> removed then ''Cleaned runtime state of '' @ unit @ ''.''
          else ''Clean '' @ unit @ '': nothing to clean.'', s\<lparr>sv_fs := fs2\<rparr>))"

fun clean_units :: "env \<Rightarrow> str list \<Rightarrow> server \<Rightarrow> str list \<times> server" where
  "clean_units E [] s = ([], s)"
| "clean_units E (n # ns) s =
     (let (msg, s1) = clean_one E n s; (msgs, s2) = clean_units E ns s1 in (msg # msgs, s2))"

end
