(* ===== verification/Ipc.thy ===== *)
theory Ipc
  imports Ops
begin

text \<open>
  The control protocol, \<^verbatim>\<open>rystemd/src/ipc.rs\<close>: one JSON request a line, dispatched to the typed operations,
  one JSON response a line; and the daemon's end of a connection (\<open>drain_control_client\<close>,
  \<open>flush_control_response\<close> in \<^verbatim>\<open>rystemd/src/manager/mod.rs\<close>). The JSON text format is a parameter, a
  \<open>codec\<close>.
\<close>

record codec =
  cd_parse :: "str \<Rightarrow> str + json"
  cd_print :: "json \<Rightarrow> str"

section \<open>Reading a request\<close>

definition req_list :: "json \<Rightarrow> str \<Rightarrow> json list" where
  "req_list req key = (case Option.bind (jget req key) as_array of Some a \<Rightarrow> a | None \<Rightarrow> [])"

definition req_units :: "json \<Rightarrow> str list" where
  "req_units req = List.map_filter (\<lambda>v. map_option normalize_unit (as_str v)) (req_list req ''units'')"

definition req_strs :: "json \<Rightarrow> str \<Rightarrow> str list" where
  "req_strs req key = List.map_filter as_str (req_list req key)"

definition req_str :: "json \<Rightarrow> str \<Rightarrow> str option" where
  "req_str req key = Option.bind (jget req key) as_str"

definition req_job_mode :: "json \<Rightarrow> str + job_mode" where
  "req_job_mode req =
     (let mode = (case req_str req ''job_mode'' of Some s \<Rightarrow> s | None \<Rightarrow> ''replace'') in
      if mode = ''replace'' then Inr Replace
      else if mode = ''replace-irreversibly'' then Inr ReplaceIrreversibly
      else Inl (''unsupported job mode `'' @ mode @ [CHR 0x60]))"

section \<open>Values of the answers\<close>

definition status_json :: "unit_status \<Rightarrow> json" where
  "status_json u = jobject
     [(''name'', JStr (us_name u)), (''description'', JStr (us_description u)), (''load'', JStr (us_load u)),
      (''active'', JStr (us_active u)), (''sub'', JStr (us_sub u)), (''result'', JStr (us_result u)),
      (''main_pid'', jopt JNum (us_main_pid u)), (''path'', jopt JStr (us_path u)),
      (''active_enter'', jopt jnat (us_active_enter u)), (''log'', jstrs (us_log u)), (''enabled'', JStr (us_enabled u))]"

definition summary_json :: "unit_summary \<Rightarrow> json" where
  "summary_json u = jobject
     [(''unit'', JStr (sm_unit u)), (''loaded'', JStr (sm_loaded u)), (''active'', JStr (sm_active u)),
      (''sub'', JStr (sm_sub u)), (''description'', JStr (sm_description u))]"

definition timer_json :: "timer_info \<Rightarrow> json" where
  "timer_json t = jobject
     [(''unit'', JStr (ti_unit t)), (''activates'', JStr (ti_activates t)), (''next'', jopt jnat (ti_next t)),
      (''next_left'', jopt JNum (ti_next_left t)), (''last'', jopt jnat (ti_last t)),
      (''last_passed'', jopt JNum (ti_last_passed t)), (''spec'', jstrs (ti_spec t))]"

definition file_info_json :: "unit_file_info \<Rightarrow> json" where
  "file_info_json f = jobject [(''file'', JStr (fi_file f)), (''path'', JStr (fi_path f)), (''state'', JStr (fi_state f))]"

definition cat_json :: "cat_entry \<Rightarrow> json" where
  "cat_json c = jobject [(''unit'', JStr (ce_unit c)), (''path'', JStr (ce_path c)), (''text'', JStr (ce_text c))]"

definition repo_json :: "repo_info \<Rightarrow> json" where
  "repo_json r = jobject [(''root'', JStr (ri_root r)), (''roots'', jstrs (ri_roots r))]"

definition record_json :: "journal_record \<Rightarrow> json" where
  "record_json r = jobject [(''secs'', jnat (jc_secs r)), (''unit'', JStr (jc_unit r)), (''text'', JStr (jc_text r))]"

fun job_kind_str :: "job_kind \<Rightarrow> str" where
  "job_kind_str JStart = ''start''"
| "job_kind_str JStop = ''stop''"
| "job_kind_str JRestart = ''restart''"

fun show_job_msg :: "job_msg \<Rightarrow> str" where
  "show_job_msg (MsgNotFound n) = ''Unit '' @ n @ '' not found.''"
| "show_job_msg (MsgRequisite r) = ''Required unit '' @ r @ '' is not active (requisite).''"
| "show_job_msg (MsgDepMissing d) = ''Dependency failed: '' @ d @ '' (unit not found).''"
| "show_job_msg (MsgDepFailed d) = ''Dependency failed: '' @ d"
| "show_job_msg MsgStartLimit = ''Start request repeated too quickly (start-limit-hit).''"
| "show_job_msg MsgCanceledStart = ''Job canceled by a replacement start.''"
| "show_job_msg MsgCanceledStop = ''Job canceled by a replacement stop.''"
| "show_job_msg (MsgUnitFailed m) = m"

definition job_json :: "nat \<times> str \<times> job_kind \<times> job_state \<Rightarrow> json" where
  "job_json j = (case j of (i, unit, kind, st) \<Rightarrow> jobject
     [(''id'', jnat i), (''unit'', JStr unit), (''type'', JStr (job_kind_str kind)),
      (''state'', JStr (case st of JobRunning \<Rightarrow> ''running'' | JobWaiting \<Rightarrow> ''waiting''))])"

definition report_json :: "nat \<times> job_report \<Rightarrow> json" where
  "report_json r = (case r of
     (i, JobPending unit) \<Rightarrow> jobject
       [(''id'', jnat i), (''unit'', JStr unit), (''state'', JStr ''pending''), (''ok'', JNull), (''error'', JNull)]
   | (i, JobDone st) \<Rightarrow> jobject
       [(''id'', jnat i), (''unit'', JStr (js_unit st)), (''state'', JStr ''done''), (''ok'', JBool (js_ok st)),
        (''error'', jopt (JStr \<circ> show_job_msg) (js_error st))])"

section \<open>Operations\<close>

definition ok_null :: "unit sv \<Rightarrow> json sv" where
  "ok_null f = sv_then f (\<lambda>_. sv_ok JNull)"

definition answer :: "(server \<Rightarrow> json) \<Rightarrow> json sv" where
  "answer f s = sv_ok (f s) s"

definition or_error :: "str + 'a \<Rightarrow> 'a sv" where
  "or_error r s = Inr (r, s)"

definition need :: "str \<Rightarrow> 'a option \<Rightarrow> 'a sv" where
  "need e x = or_error (case x of Some y \<Rightarrow> Inr y | None \<Rightarrow> Inl e)"

definition unless_masked :: "str \<Rightarrow> 'a sv \<Rightarrow> 'a sv" where
  "unless_masked u f s = (if is_masked (sv_fs s) (sv_paths s) u then sv_err (''Unit '' @ u @ '' is masked.'') s else f s)"

definition job_id_list :: "nat option sv \<Rightarrow> nat list sv" where
  "job_id_list f = sv_then f (\<lambda>j. sv_ok (case j of Some i \<Rightarrow> [i] | None \<Rightarrow> []))"

definition jobs_json :: "nat list \<Rightarrow> json" where
  "jobs_json ids = jobject [(''jobs'', JArr (map jnat ids))]"

definition op_start :: "env \<Rightarrow> json \<Rightarrow> json sv" where
  "op_start E req =
     sv_then (or_error (req_job_mode req)) (\<lambda>mode.
     sv_then (gather (\<lambda>u. unless_masked u (job_id_list (on_mgr E (\<lambda>w rec. start_with_mode w rec u mode)))) (req_units req) [])
       (\<lambda>ids. sv_ok (jobs_json ids)))"

definition op_start_ignore :: "env \<Rightarrow> json \<Rightarrow> json sv" where
  "op_start_ignore E req =
     ok_null (for_each (\<lambda>u. unless_masked u (on_mgr E (\<lambda>w rec. start_ignore_dependencies w rec u))) (req_units req))"

definition op_stop :: "env \<Rightarrow> json \<Rightarrow> json sv" where
  "op_stop E req =
     sv_then (or_error (req_job_mode req)) (\<lambda>mode.
     sv_then (gather (\<lambda>u. job_id_list (on_mgr E (\<lambda>w rec. stop_with_mode w rec u mode))) (req_units req) [])
       (\<lambda>ids. sv_ok (jobs_json ids)))"

definition op_list_dependencies :: "json \<Rightarrow> json sv" where
  "op_list_dependencies req =
     sv_then (need ''list_dependencies: missing name'' (req_str req ''name'')) (\<lambda>name.
       answer (\<lambda>s. jstrs (list_dependencies s name
         (case Option.bind (jget req ''reverse'') as_bool of Some b \<Rightarrow> b | None \<Rightarrow> False))))"

definition op_kill :: "env \<Rightarrow> json \<Rightarrow> json sv" where
  "op_kill E req =
     sv_then (need ''kill: no unit'' (case req_units req of u # _ \<Rightarrow> Some u | [] \<Rightarrow> None)) (\<lambda>u.
       ok_null (on_mgr E (\<lambda>w rec. kill_unit w u
         (case Option.bind (req_str req ''signal'') sig_from_name of Some sig \<Rightarrow> sig | None \<Rightarrow> sigterm))))"

definition op_status :: "json \<Rightarrow> json sv" where
  "op_status req = answer (\<lambda>s. JArr (map status_json (List.map_filter (status_of s)
     (if req_units req = [] then sorted_names s else req_units req))))"

definition active_of :: "server \<Rightarrow> str \<Rightarrow> str + str \<times> str" where
  "active_of s u =
     (case get_unit (sv_mgr s) u of
        Some x \<Rightarrow> Inr (u, active_str (u_active x))
      | None \<Rightarrow> Inl (''Unit '' @ u @ '' not found.''))"

definition active_badness :: "str \<Rightarrow> int" where
  "active_badness st = (if st = ''failed'' then 4 else if st = ''inactive'' then 3 else 0)"

definition op_is_active :: "json \<Rightarrow> json sv" where
  "op_is_active req s =
     (case map_res (active_of s) (req_units req) of
        Inl e \<Rightarrow> sv_err e s
      | Inr states \<Rightarrow> sv_ok (jobject
          [(''states'', JArr (map (\<lambda>(u, st). jstrs [u, st]) states)),
           (''exit'', JNum (fold max (map (active_badness \<circ> snd) states) 0))]) s)"

fun all_failed :: "server \<Rightarrow> str list \<Rightarrow> str + bool" where
  "all_failed s [] = Inr True"
| "all_failed s (u # us) =
     (case get_unit (sv_mgr s) u of
        None \<Rightarrow> Inl (''Unit '' @ u @ '' not found.'')
      | Some x \<Rightarrow> if u_active x \<noteq> Failed then Inr False else all_failed s us)"

definition op_is_failed :: "json \<Rightarrow> json sv" where
  "op_is_failed req s = sv_then (or_error (all_failed s (req_units req))) (\<lambda>b. sv_ok (JArr [JBool b])) s"

definition now_secs :: "env \<Rightarrow> server \<Rightarrow> nat" where
  "now_secs E s = epoch (os_wall (ev_world E (sv_fs s)) (m_tick (sv_mgr s)))"

definition op_log_level :: "json \<Rightarrow> json sv" where
  "op_log_level req s =
     (case req_str req ''level'' of
        None \<Rightarrow> sv_ok (JStr (m_log_level (sv_mgr s))) s
      | Some level \<Rightarrow>
          (case set_log_level level (sv_mgr s) of
             (Inl l, m) \<Rightarrow> sv_err (''unknown log level `'' @ l @ [CHR 0x60]) (s\<lparr>sv_mgr := m\<rparr>)
           | (Inr _, m) \<Rightarrow> sv_ok (JStr (m_log_level m)) (s\<lparr>sv_mgr := m\<rparr>)))"

definition journal_query :: "server \<Rightarrow> str option \<Rightarrow> nat option \<Rightarrow> nat option \<Rightarrow> journal_record list" where
  "journal_query s unit since tail =
     (let jn = sv_journal s; fs = sv_fs s;
          records = sort_key jc_secs (case unit of
            Some u \<Rightarrow> journal_read jn u since fs
          | None \<Rightarrow> concat (map (\<lambda>u. journal_read jn u since fs) (journal_units jn fs)))
      in case tail of Some n \<Rightarrow> rev (take n (rev records)) | None \<Rightarrow> records)"

definition op_journal :: "json \<Rightarrow> json sv" where
  "op_journal req = answer (\<lambda>s. jobject
     [(''records'', JArr (map record_json (journal_query s (req_str req ''unit'')
         (Option.bind (jget req ''since'') as_u64) (Option.bind (jget req ''tail'') as_u64)))),
      (''dir'', JStr (jn_dir (sv_journal s)))])"

definition op_daemon_reload :: "env \<Rightarrow> json sv" where
  "op_daemon_reload E = sv_then (sv_reload_all E) (\<lambda>errs. if errs = [] then sv_ok JNull else sv_err (str_join ''; '' errs))"

definition degraded :: "server \<Rightarrow> bool" where
  "degraded s \<longleftrightarrow> list_ex (\<lambda>(_, u). u_active u = Failed) (m_units (sv_mgr s))"

definition op_clean :: "env \<Rightarrow> json \<Rightarrow> json sv" where
  "op_clean E req s = (let (msgs, s1) = clean_units E (req_units req) s in sv_ok (jstrs msgs) s1)"

text \<open>The operations by name.\<close>

definition unit_ops :: "env \<Rightarrow> (str \<times> (json \<Rightarrow> json sv)) list" where
  "unit_ops E =
     [(''start'', op_start E),
      (''start_ignore_dependencies'', op_start_ignore E),
      (''stop'', op_stop E),
      (''restart'', \<lambda>req. ok_null (for_each (sv_restart E) (req_units req))),
      (''try_restart'', \<lambda>req. ok_null (try_restart_units E (req_units req))),
      (''restart_or_start'', \<lambda>req. ok_null (restart_or_start_units E (req_units req))),
      (''reset_failed'', \<lambda>req. ok_null (reset_failed_units (req_units req))),
      (''clean'', op_clean E),
      (''list_dependencies'', op_list_dependencies),
      (''reload'', \<lambda>req. ok_null (for_each (\<lambda>u. on_mgr E (\<lambda>w rec. reload w rec u)) (req_units req))),
      (''kill'', op_kill E),
      (''status'', op_status),
      (''is_active'', op_is_active),
      (''is_failed'', op_is_failed),
      (''list_units'', \<lambda>req. answer (\<lambda>s. JArr (map summary_json
         (list_unit_summaries s (req_strs req ''types'') (req_str req ''state'') (req_str req ''pattern''))))),
      (''list_unit_files'', \<lambda>req. answer (\<lambda>s. JArr (map file_info_json (list_unit_file_info s)))),
      (''list_timers'', \<lambda>req. answer (\<lambda>s. JArr (map timer_json (list_timer_info (now_secs E s) s)))),
      (''cat'', \<lambda>req s. sv_then (or_error (cat_units s (req_units req))) (\<lambda>cs. sv_ok (JArr (map cat_json cs))) s),
      (''show'', \<lambda>req. answer (\<lambda>s. JArr (show_units s (req_units req) (req_strs req ''properties''))))]"

definition manager_ops :: "env \<Rightarrow> (str \<times> (json \<Rightarrow> json sv)) list" where
  "manager_ops E =
     [(''daemon_reload'', \<lambda>req. op_daemon_reload E),
      (''daemon_reexec'', \<lambda>req. sv_ok JNull),
      (''list_jobs'', \<lambda>req. answer (\<lambda>s. JArr (map job_json (list_jobs (sv_mgr s))))),
      (''job_status'', \<lambda>req. answer (\<lambda>s. JArr (map report_json
         (job_status_of (sv_mgr s) (List.map_filter as_u64 (req_list req ''job_ids'')))))),
      (''log_level'', op_log_level),
      (''get_default'', \<lambda>req. answer (\<lambda>s. JStr (get_default s))),
      (''repo'', \<lambda>req. answer (\<lambda>s. repo_json (repo_info_of s))),
      (''journal'', op_journal),
      (''set_default'', \<lambda>req. sv_then (need ''set_default: missing name'' (req_str req ''name''))
         (\<lambda>n. ok_null (set_default E n))),
      (''isolate'', \<lambda>req. sv_then (need ''isolate: missing name'' (req_str req ''name'')) (\<lambda>n. ok_null (isolate E n))),
      (''enable'', \<lambda>req. sv_then (gather (sv_enable E) (req_units req) []) (\<lambda>ms. sv_ok (jstrs ms))),
      (''disable'', \<lambda>req. sv_then (gather (sv_disable E) (req_units req) []) (\<lambda>ms. sv_ok (jstrs ms))),
      (''mask'', \<lambda>req. ok_null (mask_units E (req_units req))),
      (''unmask'', \<lambda>req. ok_null (unmask_units E (req_units req))),
      (''reenable'', \<lambda>req. sv_then (reenable_units E (req_units req)) (\<lambda>ms. sv_ok (jstrs ms))),
      (''is_enabled'', \<lambda>req. answer (\<lambda>s. jstrs (map (enabled_state (sv_fs s) (sv_paths s)) (req_units req)))),
      (''is_system_running'', \<lambda>req. answer (\<lambda>s.
         jobject [(''running'', JBool (\<not> degraded s)), (''degraded'', JBool (degraded s))])),
      (''shutdown'', \<lambda>req. ok_null (on_mgr E (\<lambda>w rec m. bnd (shutdown w rec m) (\<lambda>m1. Inr (Inr (), m1)))))]"

definition op_table :: "env \<Rightarrow> (str \<times> (json \<Rightarrow> json sv)) list" where
  "op_table E = unit_ops E @ manager_ops E"

definition run_op :: "env \<Rightarrow> str option \<Rightarrow> json \<Rightarrow> json sv" where
  "run_op E op req =
     (case op of
        None \<Rightarrow> sv_err ''missing op''
      | Some name \<Rightarrow>
          (case map_of (op_table E) name of
             Some f \<Rightarrow> f req
           | None \<Rightarrow> sv_err (''unknown op `'' @ name @ [CHR 0x60])))"

definition error_json :: "str \<Rightarrow> json" where
  "error_json e = jobject [(''ok'', JBool False), (''error'', JStr e)]"

definition response_json :: "str + json \<Rightarrow> json" where
  "response_json r = (case r of Inr d \<Rightarrow> jobject [(''ok'', JBool True), (''data'', d)] | Inl e \<Rightarrow> error_json e)"

definition dispatch_line :: "codec \<Rightarrow> env \<Rightarrow> str \<Rightarrow> server \<Rightarrow> fault + json \<times> server" where
  "dispatch_line cd E line s =
     (case cd_parse cd line of
        Inl e \<Rightarrow> Inr (error_json (''bad request: '' @ e), s)
      | Inr req \<Rightarrow> bnd (run_op E (req_str req ''op'') req s) (\<lambda>(r, s1). Inr (response_json r, s1)))"

section \<open>Connections\<close>

text \<open>One control connection: the bytes read so far, or the response that is still to be written.\<close>

record client =
  cl_buffer :: str
  cl_out :: "str option"

definition max_request :: nat where "max_request = 16 * 1024"
definition max_pending_response :: nat where "max_pending_response = 1024 * 1024"

definition response_text :: "codec \<Rightarrow> json \<Rightarrow> str" where
  "response_text cd resp =
     (let out = cd_print cd resp @ [newline] in
      if length out > max_pending_response
      then cd_print cd (error_json (''response truncated: '' @ show_nat (length out) @ '' bytes exceeded cap '' @
             show_nat max_pending_response)) @ [newline]
      else out)"

text \<open>What a read of the socket gives before it would block: pieces of data, the end of the stream, or an
  error.\<close>

datatype read_event = Data str | Eof | ReadFailed

text \<open>The read loop: \<open>None\<close> when the client is dropped.\<close>

fun read_all :: "read_event list \<Rightarrow> str \<Rightarrow> str option" where
  "read_all [] buf = Some buf"
| "read_all (Data d # es) buf = (if d = [] then None else read_all es (buf @ d))"
| "read_all (Eof # es) buf = None"
| "read_all (ReadFailed # es) buf = None"

definition drain_client :: "codec \<Rightarrow> env \<Rightarrow> read_event list \<Rightarrow> client \<Rightarrow> server \<Rightarrow> fault + client option \<times> server" where
  "drain_client cd E events c s =
     (if cl_out c \<noteq> None then Inr (Some c, s)
      else case read_all events (cl_buffer c) of
        None \<Rightarrow> Inr (None, s)
      | Some buf \<Rightarrow>
          (case find_idx (\<lambda>b. b = newline) buf of
             None \<Rightarrow> Inr (if length buf \<ge> max_request then None else Some (c\<lparr>cl_buffer := buf\<rparr>), s)
           | Some i \<Rightarrow>
               bnd (dispatch_line cd E (take i buf) s) (\<lambda>(resp, s1).
                 Inr (Some \<lparr>cl_buffer = [], cl_out = Some (response_text cd resp)\<rparr>, s1))))"

text \<open>What the writes of one flush accept: a number of bytes, or nothing more for now, or a failure.\<close>

datatype write_event = Wrote nat | WouldBlock | WriteFailed

text \<open>The bytes sent, and the client if it stays.\<close>

fun flush_client :: "write_event list \<Rightarrow> client \<Rightarrow> str \<times> client option" where
  "flush_client [] c = ([], Some c)"
| "flush_client (e # es) c =
     (case cl_out c of
        None \<Rightarrow> ([], Some c)
      | Some out \<Rightarrow>
          (case e of
             Wrote n \<Rightarrow>
               if n = 0 then ([], None)
               else if drop n out = [] then (take n out, None)
               else (let (sent, r) = flush_client es (c\<lparr>cl_out := Some (drop n out)\<rparr>) in (take n out @ sent, r))
           | WouldBlock \<Rightarrow> ([], Some c)
           | WriteFailed \<Rightarrow> ([], None)))"

end
