(* ===== verification/Control.thy ===== *)
theory Control
  imports Ipc
begin

text \<open>
  The control interface, \<^verbatim>\<open>rystemd/src/control.rs\<close>: the operations of the trait \<open>Control\<close> as values, the
  in-process implementation (\<open>local_op\<close>) and the one over the socket (\<open>remote_op\<close>: encode the request,
  exchange one line with the daemon, decode the answer). The message of a failed decoding is the
  library's, a parameter \<open>bad\<close>.
\<close>

datatype control_op =
    OpStart "str list" | OpStop "str list" | OpRestart "str list" | OpTryRestart "str list" | OpReload "str list"
  | OpResetFailed "str list" | OpClean "str list" | OpKill str str | OpReloadDaemon | OpIsolate str | OpSetDefault str
  | OpEnable "str list" | OpDisable "str list" | OpMask "str list" | OpUnmask "str list" | OpReenable "str list"
  | OpListDependencies str bool | OpStatus "str list" | OpListUnits "str list" "str option" | OpListTimers
  | OpListUnitFiles | OpIsEnabled "str list" | OpIsActive "str list" | OpGetDefault | OpRepo
  | OpJournal "str option" "nat option" "nat option"

datatype control_value =
    VUnit | VStrs "str list" | VStr str | VStatus "unit_status list" | VSummaries "unit_summary list"
  | VTimers "timer_info list" | VFiles "unit_file_info list" | VRepo repo_info | VJournal "journal_record list" str

section \<open>In process\<close>

definition normalized :: "str list \<Rightarrow> str list" where
  "normalized us = map normalize_unit us"

definition v_unit :: "unit sv \<Rightarrow> control_value sv" where
  "v_unit f = sv_then f (\<lambda>_. sv_ok VUnit)"

definition v_strs :: "str list sv \<Rightarrow> control_value sv" where
  "v_strs f = sv_then f (\<lambda>ss. sv_ok (VStrs ss))"

definition v_query :: "(server \<Rightarrow> control_value) \<Rightarrow> control_value sv" where
  "v_query f s = sv_ok (f s) s"

definition query_names :: "server \<Rightarrow> str list \<Rightarrow> str list" where
  "query_names s us = (if normalized us = [] then sorted_names s else normalized us)"

definition active_or_unknown :: "server \<Rightarrow> str \<Rightarrow> str" where
  "active_or_unknown s u = (case get_unit (sv_mgr s) u of Some x \<Rightarrow> active_str (u_active x) | None \<Rightarrow> ''unknown'')"

fun local_op :: "env \<Rightarrow> control_op \<Rightarrow> control_value sv" where
  "local_op E (OpStart us) = v_unit (for_each (\<lambda>u. unless_masked u (sv_start E u)) (normalized us))"
| "local_op E (OpStop us) = v_unit (for_each (sv_stop E) (normalized us))"
| "local_op E (OpRestart us) = v_unit (for_each (sv_restart E) (normalized us))"
| "local_op E (OpTryRestart us) = v_unit (try_restart_units E (normalized us))"
| "local_op E (OpReload us) = v_unit (for_each (\<lambda>u. on_mgr E (\<lambda>w rec. reload w rec u)) (normalized us))"
| "local_op E (OpResetFailed us) = v_unit (reset_failed_units (normalized us))"
| "local_op E (OpClean us) = (\<lambda>s. let (ms, s1) = clean_units E (normalized us) s in sv_ok (VStrs ms) s1)"
| "local_op E (OpKill u sig) =
     (case sig_from_name sig of
        None \<Rightarrow> sv_err (''unknown signal `'' @ sig @ [CHR 0x60])
      | Some n \<Rightarrow> v_unit (on_mgr E (\<lambda>w rec. kill_unit w (normalize_unit u) n)))"
| "local_op E OpReloadDaemon =
     sv_then (sv_reload_all E) (\<lambda>errs. if errs = [] then sv_ok VUnit else sv_err (str_join ''; '' errs))"
| "local_op E (OpIsolate u) = v_unit (isolate E u)"
| "local_op E (OpSetDefault u) = v_unit (set_default E u)"
| "local_op E (OpEnable us) = v_strs (gather (sv_enable E) (normalized us) [])"
| "local_op E (OpDisable us) = v_strs (gather (sv_disable E) (normalized us) [])"
| "local_op E (OpMask us) = v_unit (mask_units E (normalized us))"
| "local_op E (OpUnmask us) = v_unit (unmask_units E (normalized us))"
| "local_op E (OpReenable us) = v_strs (reenable_units E (normalized us))"
| "local_op E (OpListDependencies u rv) = v_query (\<lambda>s. VStrs (list_dependencies s (normalize_unit u) rv))"
| "local_op E (OpStatus us) = v_query (\<lambda>s. VStatus (List.map_filter (status_of s) (query_names s us)))"
| "local_op E (OpListUnits types st) = v_query (\<lambda>s. VSummaries (list_unit_summaries s types st None))"
| "local_op E OpListTimers = v_query (\<lambda>s. VTimers (list_timer_info (now_secs E s) s))"
| "local_op E OpListUnitFiles = v_query (\<lambda>s. VFiles (list_unit_file_info s))"
| "local_op E (OpIsEnabled us) = v_query (\<lambda>s. VStrs (map (enabled_state (sv_fs s) (sv_paths s)) (normalized us)))"
| "local_op E (OpIsActive us) = v_query (\<lambda>s. VStrs (map (active_or_unknown s) (normalized us)))"
| "local_op E OpGetDefault = v_query (\<lambda>s. VStr (get_default s))"
| "local_op E OpRepo = v_query (\<lambda>s. VRepo (repo_info_of s))"
| "local_op E (OpJournal u since tail) = v_query (\<lambda>s. VJournal (journal_query s u since tail) (jn_dir (sv_journal s)))"

section \<open>Decoding answers\<close>

fun as_i32 :: "json \<Rightarrow> int option" where
  "as_i32 (JNum i) = (if - (2 ^ 31) \<le> i \<and> i < 2 ^ 31 then Some i else None)"
| "as_i32 _ = None"

definition json_status :: "json \<Rightarrow> unit_status option" where
  "json_status v =
     Option.bind (jfield as_str ''name'' v) (\<lambda>name.
     Option.bind (jfield as_str ''description'' v) (\<lambda>description.
     Option.bind (jfield as_str ''load'' v) (\<lambda>load.
     Option.bind (jfield as_str ''active'' v) (\<lambda>active.
     Option.bind (jfield as_str ''sub'' v) (\<lambda>sub.
     Option.bind (jfield as_str ''result'' v) (\<lambda>res.
     Option.bind (jfield_opt as_i32 ''main_pid'' v) (\<lambda>pid.
     Option.bind (jfield_opt as_str ''path'' v) (\<lambda>path.
     Option.bind (jfield_opt as_u64 ''active_enter'' v) (\<lambda>enter.
     Option.bind (jfield (jlist as_str) ''log'' v) (\<lambda>log.
     Option.bind (jfield as_str ''enabled'' v) (\<lambda>enabled.
     Some \<lparr>us_name = name, us_description = description, us_load = load, us_active = active, us_sub = sub,
       us_result = res, us_main_pid = pid, us_path = path, us_active_enter = enter, us_log = log,
       us_enabled = enabled\<rparr>)))))))))))"

definition json_summary :: "json \<Rightarrow> unit_summary option" where
  "json_summary v =
     Option.bind (jfield as_str ''unit'' v) (\<lambda>unit.
     Option.bind (jfield as_str ''loaded'' v) (\<lambda>loaded.
     Option.bind (jfield as_str ''active'' v) (\<lambda>active.
     Option.bind (jfield as_str ''sub'' v) (\<lambda>sub.
     Option.bind (jfield as_str ''description'' v) (\<lambda>description.
     Some \<lparr>sm_unit = unit, sm_loaded = loaded, sm_active = active, sm_sub = sub, sm_description = description\<rparr>)))))"

definition json_timer :: "json \<Rightarrow> timer_info option" where
  "json_timer v =
     Option.bind (jfield as_str ''unit'' v) (\<lambda>unit.
     Option.bind (jfield as_str ''activates'' v) (\<lambda>activates.
     Option.bind (jfield_opt as_u64 ''next'' v) (\<lambda>nxt.
     Option.bind (jfield_opt as_i64 ''next_left'' v) (\<lambda>next_left.
     Option.bind (jfield_opt as_u64 ''last'' v) (\<lambda>lst.
     Option.bind (jfield_opt as_i64 ''last_passed'' v) (\<lambda>last_passed.
     Option.bind (jfield (jlist as_str) ''spec'' v) (\<lambda>spec.
     Some \<lparr>ti_unit = unit, ti_activates = activates, ti_next = nxt, ti_next_left = next_left, ti_last = lst,
       ti_last_passed = last_passed, ti_spec = spec\<rparr>)))))))"

definition json_file_info :: "json \<Rightarrow> unit_file_info option" where
  "json_file_info v =
     Option.bind (jfield as_str ''file'' v) (\<lambda>file.
     Option.bind (jfield as_str ''path'' v) (\<lambda>path.
     Option.bind (jfield as_str ''state'' v) (\<lambda>st.
     Some \<lparr>fi_file = file, fi_path = path, fi_state = st\<rparr>)))"

definition json_repo :: "json \<Rightarrow> repo_info option" where
  "json_repo v =
     Option.bind (jfield as_str ''root'' v) (\<lambda>root.
     Option.bind (jfield (jlist as_str) ''roots'' v) (\<lambda>roots.
     Some \<lparr>ri_root = root, ri_roots = roots\<rparr>))"

definition json_record :: "json \<Rightarrow> journal_record option" where
  "json_record v =
     Option.bind (jfield as_u64 ''secs'' v) (\<lambda>secs.
     Option.bind (jfield as_str ''unit'' v) (\<lambda>unit.
     Option.bind (jfield as_str ''text'' v) (\<lambda>text.
     Some \<lparr>jc_secs = secs, jc_unit = unit, jc_text = text\<rparr>)))"

section \<open>Over the socket\<close>

definition units_req :: "str \<Rightarrow> str list \<Rightarrow> json" where
  "units_req op us = jobject [(''op'', JStr op), (''units'', jstrs (normalized us))]"

definition name_req :: "str \<Rightarrow> str \<Rightarrow> json" where
  "name_req op u = jobject [(''op'', JStr op), (''name'', JStr (normalize_unit u))]"

definition plain_req :: "str \<Rightarrow> json" where
  "plain_req op = jobject [(''op'', JStr op)]"

definition opt_field :: "str \<Rightarrow> json option \<Rightarrow> (str \<times> json) list" where
  "opt_field k v = (case v of Some x \<Rightarrow> [(k, x)] | None \<Rightarrow> [])"

fun encode_op :: "control_op \<Rightarrow> json" where
  "encode_op (OpStart us) = units_req ''start'' us"
| "encode_op (OpStop us) = units_req ''stop'' us"
| "encode_op (OpRestart us) = units_req ''restart'' us"
| "encode_op (OpTryRestart us) = units_req ''try_restart'' us"
| "encode_op (OpReload us) = units_req ''reload'' us"
| "encode_op (OpResetFailed us) = units_req ''reset_failed'' us"
| "encode_op (OpClean us) = units_req ''clean'' us"
| "encode_op (OpKill u sig) =
     jobject [(''op'', JStr ''kill''), (''units'', jstrs [normalize_unit u]), (''signal'', JStr sig)]"
| "encode_op OpReloadDaemon = plain_req ''daemon_reload''"
| "encode_op (OpIsolate u) = name_req ''isolate'' u"
| "encode_op (OpSetDefault u) = name_req ''set_default'' u"
| "encode_op (OpEnable us) = units_req ''enable'' us"
| "encode_op (OpDisable us) = units_req ''disable'' us"
| "encode_op (OpMask us) = units_req ''mask'' us"
| "encode_op (OpUnmask us) = units_req ''unmask'' us"
| "encode_op (OpReenable us) = units_req ''reenable'' us"
| "encode_op (OpListDependencies u rv) = jobject
     [(''op'', JStr ''list_dependencies''), (''name'', JStr (normalize_unit u)), (''reverse'', JBool rv)]"
| "encode_op (OpStatus us) = units_req ''status'' us"
| "encode_op (OpListUnits types st) = jobject
     [(''op'', JStr ''list_units''), (''types'', jstrs types), (''state'', jopt JStr st), (''pattern'', JNull)]"
| "encode_op OpListTimers = plain_req ''list_timers''"
| "encode_op OpListUnitFiles = plain_req ''list_unit_files''"
| "encode_op (OpIsEnabled us) = units_req ''is_enabled'' us"
| "encode_op (OpIsActive us) = units_req ''is_active'' us"
| "encode_op OpGetDefault = plain_req ''get_default''"
| "encode_op OpRepo = plain_req ''repo''"
| "encode_op (OpJournal u since tail) = jobject
     ([(''op'', JStr ''journal'')] @ opt_field ''unit'' (map_option JStr u) @
      opt_field ''since'' (map_option jnat since) @ opt_field ''tail'' (map_option jnat tail))"

definition some_strs :: "json \<Rightarrow> str list" where
  "some_strs v = (case str_vec v of Some ss \<Rightarrow> ss | None \<Rightarrow> [])"

definition strs_or :: "str \<Rightarrow> json \<Rightarrow> str + control_value" where
  "strs_or e v = (case str_vec v of Some ss \<Rightarrow> Inr (VStrs ss) | None \<Rightarrow> Inl e)"

definition decoded :: "(json \<Rightarrow> str) \<Rightarrow> ('a \<Rightarrow> control_value) \<Rightarrow> (json \<Rightarrow> 'a option) \<Rightarrow> json \<Rightarrow> str + control_value" where
  "decoded bad f dec v = (case dec v of Some x \<Rightarrow> Inr (f x) | None \<Rightarrow> Inl (bad v))"

definition decode_active :: "json \<Rightarrow> str list" where
  "decode_active v =
     (case Option.bind (jget v ''states'') as_array of
        None \<Rightarrow> []
      | Some a \<Rightarrow> List.map_filter (\<lambda>x. Option.bind (as_array x) (\<lambda>p. if length p > 1 then as_str (p ! 1) else None)) a)"

definition decode_journal :: "(json \<Rightarrow> str) \<Rightarrow> json \<Rightarrow> str + control_value" where
  "decode_journal bad v =
     (let rs = (case jget v ''records'' of Some r \<Rightarrow> r | None \<Rightarrow> JArr []);
          dir = (case Option.bind (jget v ''dir'') as_str of Some d \<Rightarrow> d | None \<Rightarrow> [])
      in decoded bad (\<lambda>records. VJournal records dir) (jlist json_record) rs)"

fun decode_op :: "(json \<Rightarrow> str) \<Rightarrow> control_op \<Rightarrow> json \<Rightarrow> str + control_value" where
  "decode_op bad (OpClean us) v = strs_or ''failed to parse clean result'' v"
| "decode_op bad (OpEnable us) v = Inr (VStrs (some_strs v))"
| "decode_op bad (OpDisable us) v = Inr (VStrs (some_strs v))"
| "decode_op bad (OpReenable us) v = strs_or ''failed to parse reenable result'' v"
| "decode_op bad (OpListDependencies u rv) v = strs_or ''failed to parse list_dependencies result'' v"
| "decode_op bad (OpStatus us) v = decoded bad VStatus (jlist json_status) v"
| "decode_op bad (OpListUnits types st) v = decoded bad VSummaries (jlist json_summary) v"
| "decode_op bad OpListTimers v = decoded bad VTimers (jlist json_timer) v"
| "decode_op bad OpListUnitFiles v = decoded bad VFiles (jlist json_file_info) v"
| "decode_op bad (OpIsEnabled us) v = decoded bad VStrs (jlist as_str) v"
| "decode_op bad (OpIsActive us) v = Inr (VStrs (decode_active v))"
| "decode_op bad OpGetDefault v = Inr (VStr (case as_str v of Some n \<Rightarrow> n | None \<Rightarrow> ''default.target''))"
| "decode_op bad OpRepo v = decoded bad VRepo json_repo v"
| "decode_op bad (OpJournal u since tail) v = decode_journal bad v"
| "decode_op bad _ v = Inr VUnit"

text \<open>\<^verbatim>\<open>platform/net.rs\<close>, \<open>request\<close>: one line each way. A daemon that drops the client sends nothing.\<close>

definition read_response :: "codec \<Rightarrow> str \<Rightarrow> str + json" where
  "read_response cd out =
     (case cd_parse cd out of
        Inl e \<Rightarrow> Inl (''bad response: '' @ e)
      | Inr v \<Rightarrow>
          if Option.bind (jget v ''ok'') as_bool = Some True
          then Inr (case jget v ''data'' of Some d \<Rightarrow> d | None \<Rightarrow> JNull)
          else Inl (case Option.bind (jget v ''error'') as_str of Some e \<Rightarrow> e | None \<Rightarrow> ''unknown error''))"

definition sent_out :: "client option \<Rightarrow> str" where
  "sent_out c = (case Option.bind c cl_out of Some out \<Rightarrow> out | None \<Rightarrow> [])"

definition exchange :: "codec \<Rightarrow> env \<Rightarrow> json \<Rightarrow> json sv" where
  "exchange cd E req s =
     bnd (drain_client cd E [Data (cd_print cd req @ [newline])] \<lparr>cl_buffer = [], cl_out = None\<rparr> s) (\<lambda>(c, s1).
       Inr (read_response cd (sent_out c), s1))"

definition remote_op :: "codec \<Rightarrow> (json \<Rightarrow> str) \<Rightarrow> env \<Rightarrow> control_op \<Rightarrow> control_value sv" where
  "remote_op cd bad E op = sv_then (exchange cd E (encode_op op)) (\<lambda>v. or_error (decode_op bad op v))"

end
