(* ===== verification/Control_Props.thy ===== *)
theory Control_Props
  imports Control Unit_Load_Props Journal_Props "HOL-Library.Countable"
begin

text \<open>
  The two implementations of the control interface agree: over the socket, with any JSON codec that reads
  what it prints, an operation has the answer and the effect it has in process, except for the four
  operations whose code differs.
\<close>

section \<open>Steps\<close>

lemma sv_then_ok [simp]: "sv_then (sv_ok x) f = f x"
  by (simp add: sv_then_def sv_ok_def fun_eq_iff)

lemma sv_then_err [simp]: "sv_then (sv_err e) f = sv_err e"
  by (simp add: sv_then_def sv_err_def fun_eq_iff)

lemma sv_then_assoc: "sv_then (sv_then f g) h = sv_then f (\<lambda>x. sv_then (g x) h)"
  by (auto simp: sv_then_def fun_eq_iff split: sum.split prod.split)

lemma sv_then_cong: "f s = g s \<Longrightarrow> sv_then f h s = sv_then g h s"
  by (simp add: sv_then_def)

lemma sv_then_answer [simp]: "sv_then (answer f) g s = g (f s) s"
  by (simp add: sv_then_def answer_def sv_ok_def)

lemma or_error_Inr [simp]: "or_error (Inr x) = sv_ok x"
  by (simp add: or_error_def sv_ok_def fun_eq_iff)

lemma or_error_Inl [simp]: "or_error (Inl e) = sv_err e"
  by (simp add: or_error_def sv_err_def fun_eq_iff)

lemma need_Some [simp]: "need e (Some x) = sv_ok x"
  by (simp add: need_def)

lemma for_each_forget:
  assumes "\<And>x. sv_then (f x) (\<lambda>_. sv_ok ()) = g x"
  shows "sv_then (gather f xs acc) (\<lambda>_. h) = sv_then (for_each g xs) (\<lambda>_. h)"
proof (induction xs arbitrary: acc)
  case (Cons x xs)
  have "sv_then (gather f (x # xs) acc) (\<lambda>_. h) = sv_then (f x) (\<lambda>ys. sv_then (for_each g xs) (\<lambda>_. h))"
    using Cons.IH by (simp add: sv_then_assoc)
  also have "\<dots> = sv_then (g x) (\<lambda>_. sv_then (for_each g xs) (\<lambda>_. h))"
    by (simp add: sv_then_assoc flip: assms)
  finally show ?case by (simp add: sv_then_assoc)
qed simp

lemma start_forget: "sv_then (job_id_list (on_mgr E (\<lambda>w rec. start_with_mode w rec u Replace))) (\<lambda>_. sv_ok ()) = sv_start E u"
  by (auto simp: fun_eq_iff sv_then_def job_id_list_def on_mgr_def sv_start_def start_unit_def sv_ok_def Let_def
    bnd_def split: sum.split prod.split)

lemma stop_forget: "sv_then (job_id_list (on_mgr E (\<lambda>w rec. stop_with_mode w rec u Replace))) (\<lambda>_. sv_ok ()) = sv_stop E u"
  by (auto simp: fun_eq_iff sv_then_def job_id_list_def on_mgr_def sv_stop_def stop_unit_def sv_ok_def Let_def
    bnd_def split: sum.split prod.split)

lemma unless_masked_then: "sv_then (unless_masked u f) g s =
    (if is_masked (sv_fs s) (sv_paths s) u then Inr (Inl (''Unit '' @ u @ '' is masked.''), s) else sv_then f g s)"
  by (simp add: sv_then_def unless_masked_def sv_err_def)

lemma start_masked_forget:
  "sv_then (unless_masked u (job_id_list (on_mgr E (\<lambda>w rec. start_with_mode w rec u Replace)))) (\<lambda>_. sv_ok ()) =
    unless_masked u (sv_start E u)"
  by (simp add: fun_eq_iff unless_masked_then start_forget) (simp add: unless_masked_def sv_err_def)

section \<open>One exchange\<close>

definition codec_ok :: "codec \<Rightarrow> bool" where
  "codec_ok cd \<longleftrightarrow> (\<forall>v. cd_parse cd (cd_print cd v) = Inr v \<and> cd_parse cd (cd_print cd v @ [newline]) = Inr v \<and>
     newline \<notin> set (cd_print cd v))"

text \<open>The daemon's answer to a request is within the cap on responses.\<close>

definition answer_fits :: "codec \<Rightarrow> env \<Rightarrow> json \<Rightarrow> server \<Rightarrow> bool" where
  "answer_fits cd E req s \<longleftrightarrow> (\<forall>r s1. run_op E (req_str req ''op'') req s = Inr (r, s1) \<longrightarrow>
     length (cd_print cd (response_json r)) < max_pending_response)"

lemma read_response_ok:
  assumes "codec_ok cd"
  shows "read_response cd (cd_print cd (response_json r) @ [newline]) = r"
proof -
  have "cd_parse cd (cd_print cd (response_json r) @ [newline]) = Inr (response_json r)"
    using assms by (simp add: codec_ok_def)
  then show ?thesis
    by (cases r) (simp_all add: read_response_def response_json_def error_json_def)
qed

lemma exchange_runs:
  assumes "codec_ok cd" "answer_fits cd E req s"
  shows "exchange cd E req s = run_op E (req_str req ''op'') req s"
proof -
  let ?p = "cd_print cd req"
  have p: "cd_parse cd ?p = Inr req" "newline \<notin> set ?p" using assms(1) by (simp_all add: codec_ok_def)
  have "find_idx (\<lambda>b. b = newline) (?p @ newline # []) = Some (length ?p)" using p(2) by (intro find_idx_append) auto
  then have d: "drain_client cd E [Data (?p @ [newline])] \<lparr>cl_buffer = [], cl_out = None\<rparr> s =
      bnd (run_op E (req_str req ''op'') req s) (\<lambda>(r, s1).
        Inr (Some \<lparr>cl_buffer = [], cl_out = Some (response_text cd (response_json r))\<rparr>, s1))"
    by (simp add: drain_client_def dispatch_line_def p bnd_assoc split: prod.split) (auto simp: bnd_def split: sum.split)
  show ?thesis
  proof (cases "run_op E (req_str req ''op'') req s")
    case (Inr rs)
    obtain r s1 where rs: "rs = (r, s1)" by fastforce
    with Inr assms(2) have "length (cd_print cd (response_json r)) < max_pending_response" by (simp add: answer_fits_def)
    then have "response_text cd (response_json r) = cd_print cd (response_json r) @ [newline]"
      by (simp add: response_text_def Let_def)
    with Inr rs read_response_ok [OF assms(1)] show ?thesis by (simp add: exchange_def d sent_out_def)
  qed (simp add: exchange_def d)
qed

section \<open>Decoding what was encoded\<close>

lemmas decoding = jfield_def jfield_opt_def jopt_def jnat_def

definition status_width :: "unit_status \<Rightarrow> bool" where
  "status_width u \<longleftrightarrow> (\<forall>p. us_main_pid u = Some p \<longrightarrow> - (2 ^ 31) \<le> p \<and> p < 2 ^ 31) \<and>
     (\<forall>t. us_active_enter u = Some t \<longrightarrow> t < 2 ^ 64)"

definition timer_width :: "timer_info \<Rightarrow> bool" where
  "timer_width t \<longleftrightarrow> (\<forall>n. ti_next t = Some n \<longrightarrow> n < 2 ^ 64) \<and> (\<forall>n. ti_last t = Some n \<longrightarrow> n < 2 ^ 64) \<and>
     (\<forall>i. ti_next_left t = Some i \<longrightarrow> 0 \<le> i \<and> i < 2 ^ 63) \<and> (\<forall>i. ti_last_passed t = Some i \<longrightarrow> 0 \<le> i \<and> i < 2 ^ 63)"

lemma decode_status: "status_width u \<Longrightarrow> json_status (status_json u) = Some u"
  by (cases u; cases "us_main_pid u"; cases "us_path u"; cases "us_active_enter u")
    (simp_all add: json_status_def status_json_def decoding status_width_def)

lemma decode_summary: "json_summary (summary_json u) = Some u"
  by (simp add: json_summary_def summary_json_def decoding)

lemma decode_timer: "timer_width t \<Longrightarrow> json_timer (timer_json t) = Some t"
  by (cases t; cases "ti_next t"; cases "ti_next_left t"; cases "ti_last t"; cases "ti_last_passed t")
    (simp_all add: json_timer_def timer_json_def decoding timer_width_def)

lemma decode_file_info: "json_file_info (file_info_json f) = Some f"
  by (simp add: json_file_info_def file_info_json_def decoding)

lemma decode_repo: "json_repo (repo_json r) = Some r"
  by (simp add: json_repo_def repo_json_def decoding)

lemma decode_record: "jc_secs r < 2 ^ 64 \<Longrightarrow> json_record (record_json r) = Some r"
  by (simp add: json_record_def record_json_def decoding)

text \<open>Every time read from the journal has 64 bits.\<close>

lemma parse_record_secs: "parse_record l = Some r \<Longrightarrow> jc_secs r < 2 ^ 64"
  using parse_uint_bound by (fastforce simp: parse_record_def split: option.splits prod.splits)

lemma journal_read_secs: "r \<in> set (journal_read jn u since fs) \<Longrightarrow> jc_secs r < 2 ^ 64"
  using parse_record_secs
  by (fastforce simp: journal_read_def segment_records_def List.map_filter_def split: if_splits sum.splits)

lemma journal_query_secs: "r \<in> set (journal_query s u since tail) \<Longrightarrow> jc_secs r < 2 ^ 64"
  using journal_read_secs
  by (auto simp: journal_query_def Let_def split: option.splits dest!: in_set_takeD)

section \<open>Requests\<close>

lemma normalized_idem [simp]: "List.map_filter (\<lambda>v. map_option normalize_unit (as_str v)) (map JStr (normalized us)) = normalized us"
  by (simp add: List.map_filter_def normalized_def o_def normalize_unit_idem)

lemma units_req_fields [simp]:
  "req_str (units_req op us) ''op'' = Some op" "req_units (units_req op us) = normalized us"
  "req_str (units_req op us) ''job_mode'' = None"
  by (simp_all add: units_req_def req_str_def req_units_def req_list_def jstrs_def)

lemma units_req_mode [simp]: "req_job_mode (units_req op us) = Inr Replace"
  by (simp add: req_job_mode_def)

lemma name_req_fields [simp]:
  "req_str (name_req op u) ''op'' = Some op" "req_str (name_req op u) ''name'' = Some (normalize_unit u)"
  by (simp_all add: name_req_def req_str_def)

lemma plain_req_fields [simp]: "req_str (plain_req op) ''op'' = Some op"
  by (simp add: plain_req_def req_str_def)

lemma then_null [simp]: "sv_then (ok_null f) (\<lambda>v. sv_ok VUnit) = v_unit f"
  by (simp add: ok_null_def v_unit_def sv_then_assoc)

lemma then_strs [simp]: "sv_then (sv_then f (\<lambda>ms. sv_ok (jstrs ms))) (\<lambda>v. sv_ok (VStrs (some_strs v))) = v_strs f"
  "sv_then (sv_then f (\<lambda>ms. sv_ok (jstrs ms))) (\<lambda>v. or_error (strs_or e v)) = v_strs f"
  by (simp_all add: v_strs_def sv_then_assoc some_strs_def strs_or_def)

text \<open>The operations whose code differs between the two: killing with an unknown signal, asking for the
  state of an unknown unit, setting a default target by a name that is not normalized.\<close>

fun agreeing :: "env \<Rightarrow> control_op \<Rightarrow> server \<Rightarrow> bool" where
  "agreeing E (OpKill u sig) s \<longleftrightarrow> sig_from_name sig \<noteq> None"
| "agreeing E (OpIsActive us) s \<longleftrightarrow> (\<forall>u \<in> set (normalized us). get_unit (sv_mgr s) u \<noteq> None)"
| "agreeing E (OpSetDefault u) s \<longleftrightarrow> normalize_unit u = u"
| "agreeing E (OpStatus us) s \<longleftrightarrow> (\<forall>n u. status_of s n = Some u \<longrightarrow> status_width u)"
| "agreeing E OpListTimers s \<longleftrightarrow> (\<forall>t \<in> set (list_timer_info (now_secs E s) s). timer_width t)"
| "agreeing E (OpJournal u since tail) s \<longleftrightarrow> (\<forall>n. since = Some n \<longrightarrow> n < 2 ^ 64) \<and> (\<forall>n. tail = Some n \<longrightarrow> n < 2 ^ 64)"
| "agreeing E _ s \<longleftrightarrow> True"

definition served :: "(json \<Rightarrow> str) \<Rightarrow> env \<Rightarrow> control_op \<Rightarrow> control_value sv" where
  "served bad E op = sv_then (run_op E (req_str (encode_op op) ''op'') (encode_op op)) (\<lambda>v. or_error (decode_op bad op v))"

lemmas op_lookup = run_op_def op_table_def unit_ops_def manager_ops_def

lemma served_jobs: "served bad E (OpStart us) = local_op E (OpStart us)" "served bad E (OpStop us) = local_op E (OpStop us)"
  by (simp_all add: served_def op_lookup op_start_def op_stop_def sv_then_assoc v_unit_def
    for_each_forget [OF start_masked_forget] for_each_forget [OF stop_forget])

lemma served_plain:
  "served bad E (OpRestart us) = local_op E (OpRestart us)" "served bad E (OpTryRestart us) = local_op E (OpTryRestart us)"
  "served bad E (OpReload us) = local_op E (OpReload us)" "served bad E (OpResetFailed us) = local_op E (OpResetFailed us)"
  "served bad E (OpMask us) = local_op E (OpMask us)" "served bad E (OpUnmask us) = local_op E (OpUnmask us)"
  "served bad E (OpEnable us) = local_op E (OpEnable us)" "served bad E (OpDisable us) = local_op E (OpDisable us)"
  "served bad E (OpReenable us) = local_op E (OpReenable us)"
  by (simp_all add: served_def op_lookup)

lemma sv_then_query: "sv_then (answer f) (\<lambda>v. or_error (g v)) s = Inr (g (f s), s)"
  by (simp add: or_error_def)

lemma sv_ok_at: "sv_ok x s = Inr (Inr x, s)"
  by (simp add: sv_ok_def)

lemma served_named:
  "served bad E (OpIsolate u) = local_op E (OpIsolate u)"
  "served bad E (OpListDependencies u rv) = local_op E (OpListDependencies u rv)"
  "normalize_unit u = u \<Longrightarrow> served bad E (OpSetDefault u) = local_op E (OpSetDefault u)"
proof -
  have "isolate E (normalize_unit u) = isolate E u" by (simp add: isolate_def normalize_unit_idem fun_eq_iff)
  then show "served bad E (OpIsolate u) = local_op E (OpIsolate u)"
    by (simp add: served_def op_lookup)
  show "served bad E (OpListDependencies u rv) = local_op E (OpListDependencies u rv)"
    by (simp add: served_def op_lookup op_list_dependencies_def fun_eq_iff req_str_def sv_then_query v_query_def strs_or_def
      sv_ok_at)
  show "served bad E (OpSetDefault u) = local_op E (OpSetDefault u)" if "normalize_unit u = u"
    using that by (simp add: served_def op_lookup)
qed

lemma served_queries:
  "served bad E (OpListUnits types st) = local_op E (OpListUnits types st)"
  "served bad E OpListUnitFiles = local_op E OpListUnitFiles"
  "served bad E (OpIsEnabled us) = local_op E (OpIsEnabled us)"
  "served bad E OpGetDefault = local_op E OpGetDefault" "served bad E OpRepo = local_op E OpRepo"
proof -
  note q = served_def op_lookup fun_eq_iff sv_then_query v_query_def sv_ok_at decoded_def
  have "req_strs (encode_op (OpListUnits types st)) ''types'' = types" "req_str (encode_op (OpListUnits types st)) ''state'' = st"
    "req_str (encode_op (OpListUnits types st)) ''pattern'' = None" "req_str (encode_op (OpListUnits types st)) ''op'' = Some ''list_units''"
    by (cases st; simp add: req_strs_def req_list_def jstrs_def req_str_def jopt_def List.map_filter_def o_def)+
  then show "served bad E (OpListUnits types st) = local_op E (OpListUnits types st)"
    by (simp add: q jlist_map decode_summary del: encode_op.simps)
  show "served bad E OpListUnitFiles = local_op E OpListUnitFiles" by (simp add: q jlist_map decode_file_info)
  show "served bad E (OpIsEnabled us) = local_op E (OpIsEnabled us)" by (simp add: q)
  show "served bad E OpGetDefault = local_op E OpGetDefault" by (simp add: q)
  show "served bad E OpRepo = local_op E OpRepo" by (simp add: q decode_repo)
qed

lemma served_wide:
  "agreeing E (OpStatus us) s \<Longrightarrow> served bad E (OpStatus us) s = local_op E (OpStatus us) s"
  "agreeing E OpListTimers s \<Longrightarrow> served bad E OpListTimers s = local_op E OpListTimers s"
proof -
  note q = served_def op_lookup sv_then_query v_query_def sv_ok_at decoded_def
  assume "agreeing E (OpStatus us) s"
  then have "\<forall>u \<in> set (List.map_filter (status_of s) (query_names s us)). json_status (status_json u) = Some u"
    by (auto simp: List.map_filter_def decode_status)
  then show "served bad E (OpStatus us) s = local_op E (OpStatus us) s"
    by (simp add: q op_status_def jlist_map query_names_def)
next
  note q = served_def op_lookup sv_then_query v_query_def sv_ok_at decoded_def
  assume "agreeing E OpListTimers s"
  then show "served bad E OpListTimers s = local_op E OpListTimers s"
    by (simp add: q jlist_map decode_timer)
qed

lemma active_states:
  assumes "\<forall>u \<in> set us. get_unit (sv_mgr s) u \<noteq> None"
  shows "map_res (active_of s) us = Inr (map (\<lambda>u. (u, active_or_unknown s u)) us)"
  using assms by (induction us) (auto simp: active_of_def active_or_unknown_def)

lemma served_active:
  assumes "agreeing E (OpIsActive us) s"
  shows "served bad E (OpIsActive us) s = local_op E (OpIsActive us) s"
proof -
  have "map_res (active_of s) (normalized us) = Inr (map (\<lambda>u. (u, active_or_unknown s u)) (normalized us))"
    using assms by (intro active_states) simp
  then show ?thesis
    by (simp add: served_def op_lookup sv_then_def op_is_active_def sv_ok_at v_query_def decode_active_def
      List.map_filter_def jstrs_def o_def or_error_def)
qed

lemma served_other:
  "served bad E (OpClean us) = local_op E (OpClean us)" "served bad E OpReloadDaemon = local_op E OpReloadDaemon"
  "agreeing E (OpKill u sig) s \<Longrightarrow> served bad E (OpKill u sig) s = local_op E (OpKill u sig) s"
proof -
  show "served bad E (OpClean us) = local_op E (OpClean us)"
    by (simp add: served_def op_lookup op_clean_def fun_eq_iff sv_then_def sv_ok_at strs_or_def or_error_def Let_def
      split: prod.split)
  have "sv_then (if errs = [] then sv_ok JNull else sv_err e) (\<lambda>_. sv_ok VUnit) = (if errs = [] then sv_ok VUnit else sv_err e)"
    for errs :: "str list" and e by simp
  then show "served bad E OpReloadDaemon = local_op E OpReloadDaemon"
    by (simp add: served_def op_lookup op_daemon_reload_def sv_then_assoc)
  assume "agreeing E (OpKill u sig) s"
  then show "served bad E (OpKill u sig) s = local_op E (OpKill u sig) s"
    by (auto simp: served_def op_lookup op_kill_def req_str_def req_units_def req_list_def jstrs_def List.map_filter_def
      normalize_unit_idem)
qed

lemma served_journal:
  assumes "agreeing E (OpJournal u since tail) s"
  shows "served bad E (OpJournal u since tail) s = local_op E (OpJournal u since tail) s"
proof -
  let ?r = "encode_op (OpJournal u since tail)"
  have r: "req_str ?r ''op'' = Some ''journal''" "req_str ?r ''unit'' = u"
    "Option.bind (jget ?r ''since'') as_u64 = since" "Option.bind (jget ?r ''tail'') as_u64 = tail"
    using assms by (cases u; cases since; cases tail; simp add: req_str_def opt_field_def jnat_def)+
  have "jlist json_record (JArr (map record_json (journal_query s u since tail))) = Some (journal_query s u since tail)"
    using journal_query_secs by (intro jlist_map decode_record)
  then show ?thesis
    using r by (simp add: served_def op_lookup op_journal_def sv_then_query v_query_def sv_ok_at decode_journal_def
      decoded_def del: encode_op.simps)
qed

lemma served_local: "agreeing E op s \<Longrightarrow> served bad E op s = local_op E op s"
  by (cases op) (simp_all only: served_jobs served_plain served_named served_queries served_wide served_active
    served_other served_journal agreeing.simps not_False_eq_True)

text \<open>C24. The control interface is the same in process and over the socket. Take any JSON codec that reads
  back what it prints and never prints a newline, and an answer within the one-megabyte cap. Then an
  operation sent to the daemon as a line of JSON and answered by a line of JSON gives the caller the same
  value or the same error message, faults in the same case, and leaves the manager, the disk and the
  journal in the same state as the operation called in process. The exceptions are listed by
  \<open>agreeing\<close>: killing with an unknown signal, the state of an unknown unit, a default target whose name
  is not normalized, and numbers wider than their types in the source.\<close>

theorem socket_agrees:
  assumes "codec_ok cd" "answer_fits cd E (encode_op op) s" "agreeing E op s"
  shows "remote_op cd bad E op s = local_op E op s"
  using exchange_runs [OF assms(1,2)] served_local [OF assms(3), of bad]
  unfolding remote_op_def served_def by (metis sv_then_cong)

text \<open>A codec that reads what it prints, with short texts for two given values.\<close>

instance json :: countable
  by countable_datatype

definition pair_codec :: "json \<Rightarrow> json \<Rightarrow> codec" where
  "pair_codec v1 v2 = \<lparr>
     cd_parse = (\<lambda>t. Inr (if hd t = CHR ''a'' then v1 else if hd t = CHR ''b'' then v2
       else from_nat (digits_val (takeWhile is_digit (tl t))))),
     cd_print = (\<lambda>v. if v = v1 then ''a'' else if v = v2 then ''b'' else CHR ''c'' # show_nat (to_nat v))\<rparr>"

lemma pair_codec_ok: "codec_ok (pair_codec v1 v2)"
proof -
  have d: "takeWhile is_digit (show_nat n) = show_nat n" "takeWhile is_digit (show_nat n @ [newline]) = show_nat n" for n
    using show_nat_digits [of n] by (auto simp: list_all_iff newline_def is_digit_def code_def)
  show ?thesis using show_nat_plain(2) by (simp add: codec_ok_def pair_codec_def d digits_val_show_nat) (simp add: newline_def)
qed

definition demo_env :: env where
  "demo_env = \<lparr>ev_world = (\<lambda>_. disk_os), ev_depth = 8, ev_cwd = None\<rparr>"

definition demo_server :: server where
  "demo_server = \<lparr>sv_mgr = (case load_all disk_os (manager_new load_cfg 0) of Inr (_, m) \<Rightarrow> m | Inl _ \<Rightarrow> manager_new load_cfg 0),
     sv_fs = empty_fs, sv_journal = demo_journal\<rparr>"

theorem socket_agrees_witness:
  "let op = OpStart [''basic.target'']; cd = pair_codec (encode_op op) (response_json (Inr (jobs_json [1])))
   in \<exists>s. remote_op cd (\<lambda>_. []) demo_env op demo_server = Inr (Inr VUnit, s)"
proof -
  let ?op = "OpStart [''basic.target'']"
  let ?v = "response_json (Inr (jobs_json [1]))"
  have r: "case run_op demo_env (req_str (encode_op ?op) ''op'') (encode_op ?op) demo_server of
      Inr (r, s1) \<Rightarrow> r = Inr (jobs_json [1]) | Inl _ \<Rightarrow> True" by code_simp
  have "length (cd_print (pair_codec (encode_op ?op) ?v) ?v) < max_pending_response"
    by (simp add: pair_codec_def max_pending_response_def)
  with r have f: "answer_fits (pair_codec (encode_op ?op) ?v) demo_env (encode_op ?op) demo_server"
    by (auto simp: answer_fits_def simp del: encode_op.simps)
  have "case local_op demo_env ?op demo_server of Inr (Inr v, s) \<Rightarrow> v = VUnit | _ \<Rightarrow> False" by code_simp
  then obtain s where "local_op demo_env ?op demo_server = Inr (Inr VUnit, s)"
    by (auto split: sum.splits prod.splits simp del: local_op.simps)
  with socket_agrees [OF pair_codec_ok f] show ?thesis by (auto simp: Let_def simp del: encode_op.simps local_op.simps)
qed

section \<open>Where they differ\<close>

lemma kill_differs:
  assumes "sig_from_name sig = None"
  shows "local_op E (OpKill u sig) = sv_err (''unknown signal `'' @ sig @ [CHR 0x60])"
    and "served bad E (OpKill u sig) = v_unit (on_mgr E (\<lambda>w rec. kill_unit w (normalize_unit u) sigterm))"
  using assms by (simp_all add: served_def op_lookup op_kill_def req_str_def req_units_def req_list_def jstrs_def
    List.map_filter_def normalize_unit_idem)

lemma unknown_active_differs:
  assumes "get_unit (sv_mgr s) (normalize_unit u) = None"
  shows "local_op E (OpIsActive [u]) s = Inr (Inr (VStrs [''unknown'']), s)"
    and "served bad E (OpIsActive [u]) s = Inr (Inl (''Unit '' @ normalize_unit u @ '' not found.''), s)"
proof -
  have n: "normalized [u] = [normalize_unit u]" by (simp add: normalized_def)
  show "local_op E (OpIsActive [u]) s = Inr (Inr (VStrs [''unknown'']), s)"
    using assms by (simp add: v_query_def sv_ok_at active_or_unknown_def n)
  show "served bad E (OpIsActive [u]) s = Inr (Inl (''Unit '' @ normalize_unit u @ '' not found.''), s)"
    using assms by (simp add: served_def op_lookup sv_then_def op_is_active_def active_of_def sv_err_def n)
qed

lemma set_default_not_normalized:
  "find_unit (sv_fs s) (sv_paths s) u = None \<Longrightarrow>
    local_op E (OpSetDefault u) s = Inr (Inl (''unit '' @ u @ '' not found''), s)"
  by (simp add: v_unit_def sv_then_def set_default_def sv_err_def Let_def)

end
