(* ===== verification/Ipc_Props.thy ===== *)
theory Ipc_Props
  imports Ipc
begin

text \<open>
  A control connection: however the network cuts a request into pieces, it is dispatched once, whole; what
  is written back is the response, in order, up to a failure.
\<close>

section \<open>Requests in pieces\<close>

text \<open>The daemon wakes up once per element: the reads of that wake-up, until they would block.\<close>

fun feed_client :: "codec \<Rightarrow> env \<Rightarrow> read_event list list \<Rightarrow> client \<Rightarrow> server \<Rightarrow> fault + client option \<times> server" where
  "feed_client cd E [] c s = Inr (Some c, s)"
| "feed_client cd E (w # ws) c s =
     bnd (drain_client cd E w c s) (\<lambda>(c', s1). case c' of None \<Rightarrow> Inr (None, s1) | Some c1 \<Rightarrow> feed_client cd E ws c1 s1)"

fun piece :: "read_event \<Rightarrow> str" where
  "piece (Data d) = d"
| "piece _ = []"

definition wake_text :: "read_event list \<Rightarrow> str" where
  "wake_text w = concat (map piece w)"

lemma read_all_pieces: "\<forall>e \<in> set es. piece e \<noteq> [] \<Longrightarrow> read_all es buf = Some (buf @ wake_text es)"
proof (induction es arbitrary: buf)
  case (Cons e es)
  then show ?case by (cases e) (auto simp: wake_text_def)
qed (simp add: wake_text_def)

lemma feed_answered: "cl_out c \<noteq> None \<Longrightarrow> feed_client cd E ws c s = Inr (Some c, s)"
  by (induction ws) (simp_all add: drain_client_def)

lemma newline_cut:
  assumes "a @ b = line @ newline # rest" "newline \<notin> set line"
  shows "(newline \<notin> set a \<and> length a \<le> length line) \<or> (\<exists>r. a = line @ newline # r)"
proof -
  from assms(1) consider us where "a = line @ us" "us @ b = newline # rest" | us where "a @ us = line" "b = us @ newline # rest"
    by (auto simp: append_eq_append_conv2)
  then show ?thesis
  proof cases
    case 1
    then show ?thesis using assms(2) by (cases us) auto
  next
    case 2
    then show ?thesis using assms(2) by auto
  qed
qed

lemma feed_pieces:
  assumes "\<forall>w \<in> set ws. \<forall>e \<in> set w. piece e \<noteq> []" "buf @ concat (map wake_text ws) = line @ newline # rest"
    "newline \<notin> set line" "newline \<notin> set buf" "length line < max_request"
  shows "feed_client cd E ws \<lparr>cl_buffer = buf, cl_out = None\<rparr> s =
    bnd (dispatch_line cd E line s) (\<lambda>(resp, s1). Inr (Some \<lparr>cl_buffer = [], cl_out = Some (response_text cd resp)\<rparr>, s1))"
  using assms(1,2,4)
proof (induction ws arbitrary: buf)
  case Nil
  then show ?case using assms(3) by simp
next
  case (Cons w ws)
  let ?b = "buf @ wake_text w"
  have r: "read_all w buf = Some ?b" using Cons.prems(1) by (intro read_all_pieces) simp
  have e: "?b @ concat (map wake_text ws) = line @ newline # rest" using Cons.prems(2) by simp
  from newline_cut [OF e assms(3)] show ?case
  proof
    assume n: "newline \<notin> set ?b \<and> length ?b \<le> length line"
    then have "find_idx (\<lambda>b. b = newline) ?b = None" by (auto simp: find_idx_None)
    with r n assms(5) have "drain_client cd E w \<lparr>cl_buffer = buf, cl_out = None\<rparr> s = Inr (Some \<lparr>cl_buffer = ?b, cl_out = None\<rparr>, s)"
      by (simp add: drain_client_def)
    moreover have "feed_client cd E ws \<lparr>cl_buffer = ?b, cl_out = None\<rparr> s =
      bnd (dispatch_line cd E line s) (\<lambda>(resp, s1). Inr (Some \<lparr>cl_buffer = [], cl_out = Some (response_text cd resp)\<rparr>, s1))"
      by (rule Cons.IH) (use Cons.prems(1) e n in auto)
    ultimately show ?thesis by simp
  next
    assume "\<exists>r. ?b = line @ newline # r"
    then obtain q where q: "?b = line @ newline # q" by blast
    have "find_idx (\<lambda>b. b = newline) (line @ newline # q) = Some (length line)" using assms(3) by (intro find_idx_append) auto
    then have "drain_client cd E w \<lparr>cl_buffer = buf, cl_out = None\<rparr> s =
        bnd (dispatch_line cd E line s) (\<lambda>(resp, s1). Inr (Some \<lparr>cl_buffer = [], cl_out = Some (response_text cd resp)\<rparr>, s1))"
      using r unfolding q by (simp add: drain_client_def)
    then show ?thesis
      by (cases "dispatch_line cd E line s") (auto simp: feed_answered)
  qed
qed

text \<open>C25. A request is dispatched exactly once and whole, however it arrives. Take a line without a newline
  and shorter than the request limit, sent with its newline and anything after it, cut into non-empty pieces
  at any places and spread over any number of wake-ups. Then the daemon ends with the response to that line,
  waiting to be written, and with the state that dispatching the line alone leads to.\<close>

theorem request_any_chunking:
  assumes "\<forall>w \<in> set ws. \<forall>e \<in> set w. piece e \<noteq> []" "concat (map wake_text ws) = line @ newline # rest"
    "newline \<notin> set line" "length line < max_request"
  shows "feed_client cd E ws \<lparr>cl_buffer = [], cl_out = None\<rparr> s =
    bnd (dispatch_line cd E line s) (\<lambda>(resp, s1). Inr (Some \<lparr>cl_buffer = [], cl_out = Some (response_text cd resp)\<rparr>, s1))"
  by (rule feed_pieces) (use assms in simp_all)

theorem request_any_chunking_witness:
  "let cd = \<lparr>cd_parse = (\<lambda>t. Inl t), cd_print = (\<lambda>v. ''{}'')\<rparr>
   in \<forall>E s. feed_client cd E [[Data ''a'', Data ''b''], [Data (''c'' @ [newline])]] \<lparr>cl_buffer = [], cl_out = None\<rparr> s =
     Inr (Some \<lparr>cl_buffer = [], cl_out = Some (''{}'' @ [newline])\<rparr>, s)"
proof -
  let ?cd = "\<lparr>cd_parse = (\<lambda>t. Inl t), cd_print = (\<lambda>v. ''{}'')\<rparr>"
  let ?ws = "[[Data ''a'', Data ''b''], [Data (''c'' @ [newline])]]"
  have "feed_client ?cd E ?ws \<lparr>cl_buffer = [], cl_out = None\<rparr> s =
      bnd (dispatch_line ?cd E ''abc'' s) (\<lambda>(resp, s1). Inr (Some \<lparr>cl_buffer = [], cl_out = Some (response_text ?cd resp)\<rparr>, s1))" for E s
    by (rule request_any_chunking [where rest = "[]"]) (simp_all add: wake_text_def newline_def max_request_def)
  moreover have "dispatch_line ?cd E ''abc'' s = Inr (error_json (''bad request: '' @ ''abc''), s)" for E s
    by (simp add: dispatch_line_def)
  moreover have "response_text ?cd v = ''{}'' @ [newline]" for v by (simp add: response_text_def max_pending_response_def)
  ultimately show ?thesis by (simp only: Let_def bnd_Inr prod.case) simp
qed

text \<open>A peer that ends its side together with its request is dropped, request and all.\<close>

lemma half_closed_dropped:
  "drain_client cd E [Data (line @ [newline]), Eof] \<lparr>cl_buffer = [], cl_out = None\<rparr> s = Inr (None, s)"
  by (simp add: drain_client_def)

section \<open>Responses in pieces\<close>

lemma flush_in_order:
  assumes "flush_client es c = (sent, r)" "cl_out c = Some out"
  shows "case r of
      Some c' \<Rightarrow> (\<exists>rest. cl_out c' = Some rest \<and> sent @ rest = out)
    | None \<Rightarrow> sent = out \<or> (\<exists>rest. sent @ rest = out) \<and> (Wrote 0 \<in> set es \<or> WriteFailed \<in> set es)"
  using assms
proof (induction es arbitrary: c sent out)
  case (Cons e es)
  show ?case
  proof (cases e)
    case (Wrote n)
    show ?thesis
    proof (cases "n = 0 \<or> drop n out = []")
      case False
      then obtain sent' where f: "flush_client es (c\<lparr>cl_out := Some (drop n out)\<rparr>) = (sent', r)" "sent = take n out @ sent'"
        using Cons.prems Wrote by (auto split: prod.splits)
      have "cl_out (c\<lparr>cl_out := Some (drop n out)\<rparr>) = Some (drop n out)" by simp
      from Cons.IH [OF f(1) this] f(2) show ?thesis
        by (auto split: option.splits) (metis append_take_drop_id)+
    next
      case True
      then show ?thesis using Cons.prems Wrote by (auto split: if_splits)
    qed
  qed (use Cons.prems in auto)
qed auto

end
