(* ===== verification/Dbus.thy ===== *)
theory Dbus
  imports Ipc
begin

text \<open>
  The D-Bus bridge: \<^verbatim>\<open>rystemd/src/dbus.rs\<close> (object paths, authorization, the method handlers, the monitor
  thread) and the manager's side in \<^verbatim>\<open>rystemd/src/manager/mod.rs\<close> (\<open>handle_dbus_op\<close>, \<open>drain_dbus\<close>). The bus
  itself is a parameter: who a caller is, whether a name has an owner, whether an object registers.
\<close>

section \<open>Object paths and authorization\<close>

definition hex_char :: "nat \<Rightarrow> char" where
  "hex_char d = ''0123456789abcdef'' ! d"

definition label_char :: "char \<Rightarrow> str" where
  "label_char b = (if is_alnum b then [b] else [CHR ''_'', hex_char (code b div 16), hex_char (code b mod 16)])"

definition unit_dbus_path :: "str \<Rightarrow> str" where
  "unit_dbus_path name = ''/org/freedesktop/systemd1/unit/'' @ concat (map label_char name)"

text \<open>What the bus library takes for an object path: a slash before each element, no element empty, letters,
  digits and underscores only.\<close>

definition valid_object_path :: "str \<Rightarrow> bool" where
  "valid_object_path p \<longleftrightarrow> p = ''/'' \<or>
     (case p of CHR ''/'' # r \<Rightarrow> \<forall>w \<in> set (split_char (CHR ''/'') r). w \<noteq> [] \<and> (\<forall>c \<in> set w. is_alnum c \<or> c = CHR ''_'')
      | _ \<Rightarrow> False)"

definition uid_allowed :: "nat \<Rightarrow> nat \<Rightarrow> bool" where
  "uid_allowed caller_uid manager_uid \<longleftrightarrow> caller_uid = manager_uid \<or> caller_uid = 0"

datatype fdo_error = FdoFailed str | AccessDenied str

text \<open>What the bus says of a caller: its name, and the answer to the credentials lookup (an error, or the
  user id if there is one).\<close>

record caller =
  ca_sender :: "str option"
  ca_creds :: "str + nat option"

definition authorize :: "caller \<Rightarrow> nat \<Rightarrow> fdo_error + unit" where
  "authorize c manager_uid =
     (case ca_sender c of
        None \<Rightarrow> Inl (AccessDenied ''no sender identity'')
      | Some _ \<Rightarrow>
          (case ca_creds c of
             Inl e \<Rightarrow> Inl (FdoFailed e)
           | Inr None \<Rightarrow> Inl (AccessDenied ''no unix identity'')
           | Inr (Some uid) \<Rightarrow>
               if uid_allowed uid manager_uid then Inr () else Inl (AccessDenied ''caller not authorized'')))"

section \<open>Requests to the manager\<close>

record unit_entry =
  ue_name :: str
  ue_load :: str
  ue_active :: str
  ue_sub :: str
  ue_description :: str

record unit_info1 =
  ui_entry :: unit_entry
  ui_following :: str
  ui_object_path :: str
  ui_job_id :: nat
  ui_job_type :: str
  ui_job_path :: str

record job_info =
  ji_id :: nat
  ji_unit :: str
  ji_type :: str
  ji_state :: str
  ji_unit_path :: str
  ji_job_path :: str

record process_info =
  pi_cgroup :: str
  pi_pid :: nat
  pi_cmdline :: str

datatype db_op =
    DbListUnits | DbGetUnit str | DbStartUnit str | DbStopUnit str | DbListUnits1 | DbGetUnit1 str | DbLoadUnit str
  | DbListJobs | DbGetUnitProcesses str

datatype db_reply =
    ReUnitList "unit_entry list" | ReUnit "unit_entry option" | ReStarted | ReStopped | ReError str
  | ReUnitList1 "unit_info1 list" | ReUnit1 "unit_info1 option" | ReUnitPath str | ReJobList "job_info list"
  | ReProcessList "process_info list"

definition dbus_entry :: "server \<Rightarrow> str \<Rightarrow> unit_entry option" where
  "dbus_entry s name =
     map_option (\<lambda>u. \<lparr>ue_name = u_name u, ue_load = load_str (u_load u), ue_active = active_str (u_active u),
         ue_sub = sub_state_str (u_sub u), ue_description = unit_description u\<rparr>) (get_unit (sv_mgr s) name)"

definition dbus_entries :: "server \<Rightarrow> unit_entry list" where
  "dbus_entries s = List.map_filter (dbus_entry s) (sorted_names s)"

definition job_path :: "nat \<Rightarrow> str" where
  "job_path j = ''/org/freedesktop/systemd1/job/'' @ show_nat j"

text \<open>The first job of the unit in the order of the job table; \<open>as u32\<close> wraps.\<close>

definition job_of_unit :: "env \<Rightarrow> server \<Rightarrow> str \<Rightarrow> (nat \<times> job) option" where
  "job_of_unit E s name =
     (let m = sv_mgr s; ids = fst (job_ids (ev_world E (sv_fs s)) m) in
      case List.find (\<lambda>j. map_option jb_unit (get_job m j) = Some name) ids of
        Some j \<Rightarrow> map_option (Pair j) (get_job m j)
      | None \<Rightarrow> None)"

definition unit_info1_of :: "env \<Rightarrow> server \<Rightarrow> str \<Rightarrow> unit_entry \<Rightarrow> unit_info1" where
  "unit_info1_of E s name e =
     (case job_of_unit E s name of
        Some (j, b) \<Rightarrow> \<lparr>ui_entry = e, ui_following = [], ui_object_path = unit_dbus_path name,
          ui_job_id = j mod 2 ^ 32, ui_job_type = job_kind_str (jb_kind b), ui_job_path = job_path j\<rparr>
      | None \<Rightarrow> \<lparr>ui_entry = e, ui_following = [], ui_object_path = unit_dbus_path name,
          ui_job_id = 0, ui_job_type = [], ui_job_path = ''/''\<rparr>)"

definition job_info_of :: "nat \<times> job \<Rightarrow> job_info" where
  "job_info_of jb = (case jb of (j, b) \<Rightarrow>
     \<lparr>ji_id = j mod 2 ^ 32, ji_unit = jb_unit b, ji_type = job_kind_str (jb_kind b),
      ji_state = (if jb_waiting b = [] then ''running'' else ''waiting''),
      ji_unit_path = unit_dbus_path (jb_unit b), ji_job_path = job_path j\<rparr>)"

definition dbus_jobs :: "server \<Rightarrow> job_info list" where
  "dbus_jobs s = List.map_filter (\<lambda>j. map_option (\<lambda>b. job_info_of (j, b)) (get_job (sv_mgr s) j))
     (sort (hkeys (m_jobs (sv_mgr s))))"

definition read_cmdline :: "fsys \<Rightarrow> nat \<Rightarrow> str" where
  "read_cmdline fs pid =
     (case read_to_string fs (''/proc/'' @ show_nat pid @ ''/cmdline'') of
        Inl _ \<Rightarrow> []
      | Inr t \<Rightarrow> trim (map (\<lambda>b. if code b = 0 then CHR '' '' else b) t))"

definition unit_processes :: "server \<Rightarrow> str \<Rightarrow> process_info list" where
  "unit_processes s name =
     (case get_unit (sv_mgr s) name of
        None \<Rightarrow> []
      | Some u \<Rightarrow>
          (case u_cgroup u of
             Some dir \<Rightarrow>
               (case read_to_string (sv_fs s) (path_join dir ''cgroup.procs'') of
                  Inl _ \<Rightarrow> []
                | Inr t \<Rightarrow> map (\<lambda>pid. \<lparr>pi_cgroup = dir, pi_pid = pid, pi_cmdline = read_cmdline (sv_fs s) pid\<rparr>)
                    (List.map_filter (\<lambda>l. parse_u32 (trim l)) (text_lines t)))
           | None \<Rightarrow>
               (case u_main_pid u of
                  Some pid \<Rightarrow> (let p = nat (pid mod 2 ^ 32) in
                    [\<lparr>pi_cgroup = [], pi_pid = p, pi_cmdline = read_cmdline (sv_fs s) p\<rparr>])
                | None \<Rightarrow> [])))"

text \<open>A step whose error becomes a reply.\<close>

definition as_reply :: "db_reply \<Rightarrow> unit sv \<Rightarrow> server \<Rightarrow> fault + db_reply \<times> server" where
  "as_reply done f s =
     (case f s of
        Inl x \<Rightarrow> Inl x
      | Inr (Inl e, s1) \<Rightarrow> Inr (ReError e, s1)
      | Inr (Inr _, s1) \<Rightarrow> Inr (done, s1))"

definition dbus_load_unit :: "env \<Rightarrow> str \<Rightarrow> server \<Rightarrow> db_reply \<times> server" where
  "dbus_load_unit E n s =
     (if has_unit (sv_mgr s) n then (ReUnitPath (unit_dbus_path n), s)
      else case load_unit (ev_world E (sv_fs s)) n (sv_mgr s) of
        (Inr (Some u), m) \<Rightarrow> (ReUnitPath (unit_dbus_path n), s\<lparr>sv_mgr := m\<lparr>m_units := hins n u (m_units m)\<rparr>\<rparr>)
      | (Inr None, m) \<Rightarrow> (ReError (''No such unit '' @ [CHR 0x27] @ n @ [CHR 0x27]), s\<lparr>sv_mgr := m\<rparr>)
      | (Inl e, m) \<Rightarrow> (ReError e, s\<lparr>sv_mgr := m\<rparr>))"

fun handle_dbus_op :: "env \<Rightarrow> db_op \<Rightarrow> server \<Rightarrow> fault + db_reply \<times> server" where
  "handle_dbus_op E DbListUnits s = Inr (ReUnitList (dbus_entries s), s)"
| "handle_dbus_op E (DbGetUnit n) s = Inr (ReUnit (dbus_entry s (normalize_unit n)), s)"
| "handle_dbus_op E (DbStartUnit n) s = as_reply ReStarted (sv_start E (normalize_unit n)) s"
| "handle_dbus_op E (DbStopUnit n) s = as_reply ReStopped (sv_stop E (normalize_unit n)) s"
| "handle_dbus_op E DbListUnits1 s =
     Inr (ReUnitList1 (List.map_filter (\<lambda>n. map_option (unit_info1_of E s n) (dbus_entry s n)) (sorted_names s)), s)"
| "handle_dbus_op E (DbGetUnit1 n) s =
     Inr (ReUnit1 (map_option (unit_info1_of E s (normalize_unit n)) (dbus_entry s (normalize_unit n))), s)"
| "handle_dbus_op E (DbLoadUnit n) s = Inr (dbus_load_unit E (normalize_unit n) s)"
| "handle_dbus_op E DbListJobs s = Inr (ReJobList (dbus_jobs s), s)"
| "handle_dbus_op E (DbGetUnitProcesses n) s = Inr (ReProcessList (unit_processes s (normalize_unit n)), s)"

datatype db_event = NameAcquired str | NameLost str

definition handle_dbus_event :: "env \<Rightarrow> db_event \<Rightarrow> server \<Rightarrow> fault + server" where
  "handle_dbus_event E ev s =
     (case ev of
        NameAcquired bus \<Rightarrow>
          (let w = ev_world E (sv_fs s) in
           bnd (handle_name_acquired w (run w (ev_depth E)) bus (sv_mgr s)) (\<lambda>m. Inr (s\<lparr>sv_mgr := m\<rparr>)))
      | NameLost _ \<Rightarrow> Inr s)"

fun handle_requests :: "env \<Rightarrow> db_op list \<Rightarrow> server \<Rightarrow> fault + db_reply list \<times> server" where
  "handle_requests E [] s = Inr ([], s)"
| "handle_requests E (op # ops) s =
     bnd (handle_dbus_op E op s) (\<lambda>(r, s1). bnd (handle_requests E ops s1) (\<lambda>(rs, s2). Inr (r # rs, s2)))"

text \<open>One pass of the manager over the bridge: the snapshot it pushes, the replies it sends.\<close>

definition drain_dbus :: "env \<Rightarrow> db_op list \<Rightarrow> db_event list \<Rightarrow> server \<Rightarrow>
    fault + (unit_entry list \<times> db_reply list) \<times> server" where
  "drain_dbus E reqs evs s =
     (let snapshot = dbus_entries s in
      bnd (handle_requests E reqs s) (\<lambda>(rs, s1).
      bnd (fold_res (handle_dbus_event E) evs s1) (\<lambda>s2.
        let w = ev_world E (sv_fs s2) in
        bnd (process_jobs w (run w (ev_depth E)) (sv_mgr s2)) (\<lambda>m.
          Inr ((snapshot, rs), s2\<lparr>sv_mgr := m\<rparr>)))))"

section \<open>Method handlers\<close>

text \<open>How the channel to the manager fares: the manager answers in time, it is gone, or it answers after the
  caller has given up.\<close>

datatype bridge_link = LinkUp | LinkClosed | LinkLate

definition bridge_call :: "bridge_link \<Rightarrow> env \<Rightarrow> db_op \<Rightarrow> server \<Rightarrow> fault + (str + db_reply) \<times> server" where
  "bridge_call l E op s =
     (case l of
        LinkClosed \<Rightarrow> Inr (Inl ''manager channel closed'', s)
      | LinkUp \<Rightarrow> bnd (handle_dbus_op E op s) (\<lambda>(r, s1). Inr (Inr r, s1))
      | LinkLate \<Rightarrow> bnd (handle_dbus_op E op s) (\<lambda>(_, s1). Inr (Inl ''manager did not reply (timeout)'', s1)))"

datatype bus_method =
    ListUnits | GetUnit str | StartUnit str | StopUnit str
  | ListUnits1 | GetUnit1 str | LoadUnit1 str | ListJobs1 | GetUnitProcesses1 str

datatype bus_value =
    BvUnits "unit_entry list" | BvUnit unit_entry | BvDone | BvUnits1 "unit_info1 list" | BvPath str
  | BvJobs "job_info list" | BvProcesses "process_info list"

text \<open>A call is refused with an error, returns a value, or its handler panics: the lists \<open>unwrap\<close> the check of
  their object paths. \<open>pe\<close> is the library's message for an invalid path.\<close>

datatype bus_answer = Refused fdo_error | Returned bus_value | HandlerPanic

definition unexpected :: bus_answer where
  "unexpected = Refused (FdoFailed ''unexpected reply'')"

definition checked_path :: "str \<Rightarrow> str \<Rightarrow> bus_answer" where
  "checked_path pe p = (if valid_object_path p then Returned (BvPath p) else Refused (FdoFailed pe))"

definition unwrap_paths :: "str list \<Rightarrow> bus_value \<Rightarrow> bus_answer" where
  "unwrap_paths ps v = (if list_all valid_object_path ps then Returned v else HandlerPanic)"

fun method_op :: "bus_method \<Rightarrow> db_op" where
  "method_op ListUnits = DbListUnits"
| "method_op (GetUnit n) = DbGetUnit n"
| "method_op (StartUnit n) = DbStartUnit n"
| "method_op (StopUnit n) = DbStopUnit n"
| "method_op ListUnits1 = DbListUnits1"
| "method_op (GetUnit1 n) = DbGetUnit1 n"
| "method_op (LoadUnit1 n) = DbLoadUnit n"
| "method_op ListJobs1 = DbListJobs"
| "method_op (GetUnitProcesses1 n) = DbGetUnitProcesses n"

definition method_result :: "str \<Rightarrow> bus_method \<Rightarrow> db_reply \<Rightarrow> bus_answer" where
  "method_result pe meth reply =
     (case meth of
        ListUnits \<Rightarrow> (case reply of ReUnitList rows \<Rightarrow> Returned (BvUnits rows) | _ \<Rightarrow> unexpected)
      | GetUnit n \<Rightarrow>
          (case reply of ReUnit (Some r) \<Rightarrow> Returned (BvUnit r) | ReUnit None \<Rightarrow> Refused (FdoFailed ''no such unit'')
            | _ \<Rightarrow> unexpected)
      | StartUnit n \<Rightarrow>
          (case reply of ReStarted \<Rightarrow> Returned BvDone | ReError e \<Rightarrow> Refused (FdoFailed e) | _ \<Rightarrow> unexpected)
      | StopUnit n \<Rightarrow>
          (case reply of ReStopped \<Rightarrow> Returned BvDone | ReError e \<Rightarrow> Refused (FdoFailed e) | _ \<Rightarrow> unexpected)
      | ListUnits1 \<Rightarrow> (case reply of ReUnitList1 rows \<Rightarrow> unwrap_paths (concat (map (\<lambda>r. [ui_object_path r, ui_job_path r]) rows)) (BvUnits1 rows) | _ \<Rightarrow> unexpected)
      | GetUnit1 n \<Rightarrow>
          (case reply of ReUnit1 (Some r) \<Rightarrow> checked_path pe (ui_object_path r)
            | ReUnit1 None \<Rightarrow> Refused (FdoFailed (''No such unit '' @ [CHR 0x27] @ n @ [CHR 0x27]))
            | _ \<Rightarrow> unexpected)
      | LoadUnit1 n \<Rightarrow>
          (case reply of ReUnitPath p \<Rightarrow> checked_path pe p | ReError e \<Rightarrow> Refused (FdoFailed e) | _ \<Rightarrow> unexpected)
      | ListJobs1 \<Rightarrow> (case reply of ReJobList js \<Rightarrow> unwrap_paths (concat (map (\<lambda>j. [ji_unit_path j, ji_job_path j]) js)) (BvJobs js) | _ \<Rightarrow> unexpected)
      | GetUnitProcesses1 n \<Rightarrow>
          (case reply of ReProcessList ps \<Rightarrow> Returned (BvProcesses ps) | _ \<Rightarrow> unexpected))"

fun needs_authorization :: "bus_method \<Rightarrow> bool" where
  "needs_authorization (StartUnit n) = True"
| "needs_authorization (StopUnit n) = True"
| "needs_authorization _ = False"

definition bus_call :: "str \<Rightarrow> bridge_link \<Rightarrow> env \<Rightarrow> nat \<Rightarrow> caller \<Rightarrow> bus_method \<Rightarrow> server \<Rightarrow>
    fault + bus_answer \<times> server" where
  "bus_call pe l E manager_uid c meth s =
     (case if needs_authorization meth then authorize c manager_uid else Inr () of
        Inl e \<Rightarrow> Inr (Refused e, s)
      | Inr _ \<Rightarrow>
          bnd (bridge_call l E (method_op meth) s) (\<lambda>(r, s1).
            Inr (case r of Inl e \<Rightarrow> Refused (FdoFailed e) | Inr reply \<Rightarrow> method_result pe meth reply, s1)))"

section \<open>The monitor thread\<close>

datatype db_watch = WatchAdd str | WatchRemove str

text \<open>What the bus answers when asked for the owner of a name: for the additions of a round, by position,
  and for the polling of a round; \<open>None\<close> is a failed lookup.\<close>

record bus =
  bus_add :: "nat \<Rightarrow> nat \<Rightarrow> str \<Rightarrow> bool option"
  bus_poll :: "nat \<Rightarrow> str \<Rightarrow> bool option"

fun drain_watches :: "(nat \<Rightarrow> str \<Rightarrow> bool option) \<Rightarrow> nat \<Rightarrow> db_watch list \<Rightarrow> (str \<times> bool) list \<Rightarrow>
    db_event list \<times> (str \<times> bool) list" where
  "drain_watches own k [] watched = ([], watched)"
| "drain_watches own k (WatchAdd name # ws) watched =
     (case own k name of
        None \<Rightarrow> drain_watches own (Suc k) ws watched
      | Some here \<Rightarrow>
          (let (evs, watched1) = drain_watches own (Suc k) ws (hins name here watched)
           in (if here then NameAcquired name # evs else evs, watched1)))"
| "drain_watches own k (WatchRemove name # ws) watched = drain_watches own (Suc k) ws (hdel name watched)"

definition poll_one :: "(str \<Rightarrow> bool option) \<Rightarrow> str \<times> bool \<Rightarrow> db_event list \<times> (str \<times> bool)" where
  "poll_one own nw =
     (case nw of (name, was) \<Rightarrow>
       (case own name of
          None \<Rightarrow> ([], (name, was))
        | Some here \<Rightarrow> (if here \<and> \<not> was then [NameAcquired name] else [], (name, here))))"

definition poll_names :: "(str \<Rightarrow> bool option) \<Rightarrow> (str \<times> bool) list \<Rightarrow> db_event list \<times> (str \<times> bool) list" where
  "poll_names own watched =
     (concat (map (fst \<circ> poll_one own) watched), map (snd \<circ> poll_one own) watched)"

datatype bus_signal = UnitNew str str | UnitRemoved str str

text \<open>Registering the units of a snapshot: the objects served, the names seen, the signals sent. \<open>reg\<close>
  says whether the object server takes a path.\<close>

fun register_units :: "(str \<Rightarrow> bool) \<Rightarrow> unit_entry list \<Rightarrow> (str \<times> unit_entry) list \<Rightarrow>
    (str \<times> unit_entry) list \<times> str list \<times> bus_signal list" where
  "register_units reg [] units = (units, [], [])"
| "register_units reg (e # es) units =
     (let name = ue_name e; path = unit_dbus_path name in
      if map_of units name \<noteq> None
      then (let (units1, seen, sigs) = register_units reg es (hins name e units) in (units1, name # seen, sigs))
      else if \<not> reg path then register_units reg es units
      else (let (units1, seen, sigs) = register_units reg es (hins name e units)
            in (units1, name # seen, UnitNew name path # sigs)))"

definition deregister_units :: "(str \<Rightarrow> bool) \<Rightarrow> str list \<Rightarrow> (str \<times> unit_entry) list \<Rightarrow>
    (str \<times> unit_entry) list \<times> bus_signal list" where
  "deregister_units unreg seen units =
     (filter (\<lambda>(n, _). List.member seen n) units,
      List.map_filter (\<lambda>(n, _). if \<not> List.member seen n \<and> unreg (unit_dbus_path n)
        then Some (UnitRemoved n (unit_dbus_path n)) else None) units)"

definition apply_unit_snapshot :: "(str \<Rightarrow> bool) \<Rightarrow> (str \<Rightarrow> bool) \<Rightarrow> unit_entry list \<Rightarrow> (str \<times> unit_entry) list \<Rightarrow>
    (str \<times> unit_entry) list \<times> bus_signal list" where
  "apply_unit_snapshot reg unreg snap units =
     (let (units1, seen, new) = register_units reg snap units; (units2, gone) = deregister_units unreg seen units1
      in (units2, new @ gone))"

record monitor =
  mo_watched :: "(str \<times> bool) list"
  mo_units :: "(str \<times> unit_entry) list"

record round_input =
  rd_watches :: "db_watch list"
  rd_snapshots :: "unit_entry list list"

definition monitor_round :: "bus \<Rightarrow> bool \<Rightarrow> (str \<Rightarrow> bool) \<Rightarrow> (str \<Rightarrow> bool) \<Rightarrow> nat \<Rightarrow> round_input \<Rightarrow> monitor \<Rightarrow>
    db_event list \<times> bus_signal list \<times> monitor" where
  "monitor_round b conn reg unreg r inp mo =
     (let (evs1, watched) = drain_watches (bus_add b r) 0 (rd_watches inp) (mo_watched mo);
          (units, sigs) = (if conn \<and> rd_snapshots inp \<noteq> []
             then apply_unit_snapshot reg unreg (last (rd_snapshots inp)) (mo_units mo) else (mo_units mo, []));
          (evs2, watched1) = poll_names (bus_poll b r) watched
      in (evs1 @ evs2, sigs, \<lparr>mo_watched = watched1, mo_units = units\<rparr>))"

text \<open>Round after round: all events sent so far, and the monitor.\<close>

fun monitor_rounds :: "bus \<Rightarrow> bool \<Rightarrow> (str \<Rightarrow> bool) \<Rightarrow> (str \<Rightarrow> bool) \<Rightarrow> nat \<Rightarrow> round_input list \<Rightarrow> monitor \<Rightarrow>
    db_event list \<times> monitor" where
  "monitor_rounds b conn reg unreg r [] mo = ([], mo)"
| "monitor_rounds b conn reg unreg r (i # is) mo =
     (let (evs, _, mo1) = monitor_round b conn reg unreg r i mo;
          (evs', mo2) = monitor_rounds b conn reg unreg (Suc r) is mo1
      in (evs @ evs', mo2))"

end
