(* ===== verification/Dbus_Props.thy ===== *)
theory Dbus_Props
  imports Dbus Control_Props
begin

text \<open>
  Properties of the D-Bus bridge: object paths name units one to one, only the owner or root changes the
  manager through the native interface, the served objects are those of the last snapshot, and an owner
  of a watched name is reported.
\<close>

section \<open>Object paths\<close>

lemma hex_char_inj: "i < 16 \<Longrightarrow> j < 16 \<Longrightarrow> hex_char i = hex_char j \<Longrightarrow> i = j"
proof -
  have "\<forall>i \<in> {..<16}. \<forall>j \<in> {..<16}. hex_char i = hex_char j \<longrightarrow> i = j"
    unfolding lessThan_atLeast0 atLeastLessThan_upt by code_simp
  then show "i < 16 \<Longrightarrow> j < 16 \<Longrightarrow> hex_char i = hex_char j \<Longrightarrow> i = j" by blast
qed

lemma hex_char_alnum: "i < 16 \<Longrightarrow> is_alnum (hex_char i)"
proof -
  have "\<forall>i \<in> {..<16}. is_alnum (hex_char i)"
    unfolding lessThan_atLeast0 atLeastLessThan_upt by code_simp
  then show "i < 16 \<Longrightarrow> is_alnum (hex_char i)" by blast
qed

lemma underscore_alnum: "\<not> is_alnum (CHR ''_'')"
  by code_simp

lemma code_split: "code c div 16 < 16"
  using code_lt [of c] by (simp add: less_mult_imp_div_less)

lemma label_char_prefix: "label_char c @ x = label_char d @ y \<Longrightarrow> c = d \<and> x = y"
proof -
  assume e: "label_char c @ x = label_char d @ y"
  have "code c = code d" if "hex_char (code c div 16) = hex_char (code d div 16)" "hex_char (code c mod 16) = hex_char (code d mod 16)"
    using that hex_char_inj code_split by (metis div_mult_mod_eq mod_less_divisor zero_less_numeral)
  then show ?thesis
    using e underscore_alnum by (auto simp: label_char_def split: if_splits) (metis char_of_code)+
qed

lemma label_char_ne: "label_char c \<noteq> []"
  by (simp add: label_char_def)

lemma labels_inj: "concat (map label_char a) = concat (map label_char b) \<Longrightarrow> a = b"
proof (induction a arbitrary: b)
  case Nil
  then show ?case by (cases b) (simp_all add: label_char_ne)
next
  case (Cons c a)
  from Cons.prems obtain d b' where b: "b = d # b'" by (cases b) (simp_all add: label_char_ne)
  with Cons.prems have "c = d \<and> concat (map label_char a) = concat (map label_char b')"
    by (intro label_char_prefix) simp
  with Cons.IH b show ?case by simp
qed

lemma labels_chars: "c \<in> set (concat (map label_char a)) \<Longrightarrow> is_alnum c \<or> c = CHR ''_''"
  using hex_char_alnum code_split by (auto simp: label_char_def split: if_splits)

text \<open>The object path of a unit determines the unit: different names have different paths, whatever
  characters they have. And the path is a valid object path exactly when the name is not empty, so the
  \<open>unwrap\<close> of the path in the method handlers panics for no unit with a name.\<close>

theorem dbus_path_faithful:
  "(unit_dbus_path a = unit_dbus_path b \<longleftrightarrow> a = b) \<and> (valid_object_path (unit_dbus_path a) \<longleftrightarrow> a \<noteq> [])"
proof
  show "unit_dbus_path a = unit_dbus_path b \<longleftrightarrow> a = b" using labels_inj by (auto simp: unit_dbus_path_def)
  let ?l = "concat (map label_char a)"
  have "CHR ''/'' \<notin> set ?l"
  proof
    assume "CHR ''/'' \<in> set ?l"
    from labels_chars [OF this] have "is_alnum (CHR ''/'') \<or> CHR ''/'' = CHR ''_''" .
    moreover have "\<not> is_alnum (CHR ''/'')" by code_simp
    ultimately show False by simp
  qed
  then have "split_on (\<lambda>x. x = CHR ''/'') ?l = [?l]" by (intro split_on_no_sep) auto
  then have "split_char (CHR ''/'') (''org/freedesktop/systemd1/unit/'' @ ?l) = [''org'', ''freedesktop'', ''systemd1'', ''unit'', ?l]"
    by (simp add: split_char_def)
  moreover have "\<forall>w \<in> set [''org'', ''freedesktop'', ''systemd1'', ''unit'']. w \<noteq> [] \<and> (\<forall>c \<in> set w. is_alnum c \<or> c = CHR ''_'')"
    by code_simp
  ultimately have "valid_object_path (unit_dbus_path a) \<longleftrightarrow> ?l \<noteq> [] \<and> (\<forall>c \<in> set ?l. is_alnum c \<or> c = CHR ''_'')"
    by (simp add: valid_object_path_def unit_dbus_path_def del: set_concat)
  moreover have "?l = [] \<longleftrightarrow> a = []" by (cases a) (simp_all add: label_char_ne)
  ultimately show "valid_object_path (unit_dbus_path a) \<longleftrightarrow> a \<noteq> []" using labels_chars by blast
qed

section \<open>Authorization\<close>

lemma authorize_Inr: "authorize c uid = Inr () \<longleftrightarrow> ca_sender c \<noteq> None \<and> (\<exists>u. ca_creds c = Inr (Some u) \<and> uid_allowed u uid)"
  by (auto simp: authorize_def split: option.splits sum.splits)

lemma read_methods_keep:
  assumes "bus_call pe l E uid c meth s = Inr (r, s')" "\<not> needs_authorization meth" "\<forall>n. meth \<noteq> LoadUnit1 n"
  shows "s' = s"
  using assms by (cases meth; cases l) (auto simp: bus_call_def bridge_call_def)

text \<open>C26. Over the bus, only the owner of the manager or root changes it through any method but
  \<open>LoadUnit\<close>: if the state after a call differs from that before, the bus has vouched for a caller with
  the manager's user id or id 0. A start or stop by anybody else is refused and changes nothing, however the
  channel to the manager fares.\<close>

theorem bus_call_authorized:
  assumes "bus_call pe l E uid c meth s = Inr (r, s')" "\<forall>n. meth \<noteq> LoadUnit1 n" "s' \<noteq> s"
  shows "ca_sender c \<noteq> None \<and> (\<exists>u. ca_creds c = Inr (Some u) \<and> (u = uid \<or> u = 0))"
proof (cases "needs_authorization meth")
  case True
  with assms(1,3) have "authorize c uid = Inr ()"
    by (cases "authorize c uid") (auto simp: bus_call_def)
  then show ?thesis by (simp add: authorize_Inr uid_allowed_def)
next
  case False
  with read_methods_keep [OF assms(1) _ assms(2)] assms(3) show ?thesis by simp
qed

definition root_caller :: caller where
  "root_caller = \<lparr>ca_sender = Some '':1.7'', ca_creds = Inr (Some 0)\<rparr>"

theorem bus_call_authorized_witness:
  "\<exists>r s'. bus_call [] LinkUp demo_env 1000 root_caller (StartUnit ''basic.target'') demo_server = Inr (r, s') \<and>
     s' \<noteq> demo_server \<and> ca_creds root_caller = Inr (Some 0)"
proof -
  have "case bus_call [] LinkUp demo_env 1000 root_caller (StartUnit ''basic.target'') demo_server of
      Inr (r, s') \<Rightarrow> m_next_job (sv_mgr s') \<noteq> m_next_job (sv_mgr demo_server) | Inl _ \<Rightarrow> False" by code_simp
  then obtain r s' where b: "bus_call [] LinkUp demo_env 1000 root_caller (StartUnit ''basic.target'') demo_server = Inr (r, s')"
    "s' \<noteq> demo_server" by (auto split: sum.splits)
  have "\<forall>n. StartUnit ''basic.target'' \<noteq> LoadUnit1 n" by simp
  from bus_call_authorized [OF b(1) this b(2)] b show ?thesis by (auto simp: root_caller_def)
qed

text \<open>The \<open>LoadUnit\<close> method of the compatible interface adds a unit for a caller nobody knows.\<close>

lemma load_unit_unauthorized:
  "case bus_call [] LinkUp demo_env 1000 \<lparr>ca_sender = None, ca_creds = Inr None\<rparr> (LoadUnit1 ''x.target'') demo_server of
     Inr (r, s') \<Rightarrow> \<not> has_unit (sv_mgr demo_server) ''x.target'' \<and> has_unit (sv_mgr s') ''x.target''
   | Inl _ \<Rightarrow> False"
  by code_simp

section \<open>Served objects\<close>

definition snapshot_map :: "unit_entry list \<Rightarrow> str \<Rightarrow> unit_entry option" where
  "snapshot_map es = map_of (map (\<lambda>e. (ue_name e, e)) es)"

lemma snapshot_map_Cons: "snapshot_map (e # es) = (snapshot_map es)(ue_name e \<mapsto> e)"
  by (simp add: snapshot_map_def)

lemma snapshot_map_None: "n \<notin> ue_name ` set es \<Longrightarrow> snapshot_map es n = None"
  by (auto simp: snapshot_map_def map_of_eq_None_iff)

lemma register_units_known: "register_units reg (e # es) units = (units1, seen, sigs) \<Longrightarrow> map_of units (ue_name e) \<noteq> None \<Longrightarrow>
    \<exists>seen'. register_units reg es (hins (ue_name e) e units) = (units1, seen', sigs) \<and> seen = ue_name e # seen'"
  by (auto simp: Let_def split: prod.splits)

lemma register_units_refused: "register_units reg (e # es) units = (units1, seen, sigs) \<Longrightarrow> map_of units (ue_name e) = None \<Longrightarrow>
    \<not> reg (unit_dbus_path (ue_name e)) \<Longrightarrow> register_units reg es units = (units1, seen, sigs)"
  by (simp add: Let_def)

lemma register_units_new: "register_units reg (e # es) units = (units1, seen, sigs) \<Longrightarrow> map_of units (ue_name e) = None \<Longrightarrow>
    reg (unit_dbus_path (ue_name e)) \<Longrightarrow>
    \<exists>seen' sigs'. register_units reg es (hins (ue_name e) e units) = (units1, seen', sigs') \<and> seen = ue_name e # seen' \<and>
      sigs = UnitNew (ue_name e) (unit_dbus_path (ue_name e)) # sigs'"
  by (auto simp: Let_def split: prod.splits)

lemma register_units_lookup:
  assumes "distinct (map ue_name es)" "register_units reg es units = (units1, seen, sigs)"
  shows "map_of units1 n = (if map_of units n \<noteq> None \<or> reg (unit_dbus_path n)
      then (case snapshot_map es n of Some e \<Rightarrow> Some e | None \<Rightarrow> map_of units n) else None)"
  using assms
proof (induction es arbitrary: units units1 seen sigs)
  case Nil
  then show ?case by (simp add: snapshot_map_def)
next
  case (Cons e es)
  let ?n = "ue_name e"
  from Cons.prems(1) have d: "distinct (map ue_name es)" "?n \<notin> ue_name ` set es" by simp_all
  note sn = snapshot_map_None [OF d(2)]
  show ?case
  proof (cases "map_of units ?n = None \<and> \<not> reg (unit_dbus_path ?n)")
    case True
    with register_units_refused [OF Cons.prems(2)] have r: "register_units reg es units = (units1, seen, sigs)" by simp
    show ?thesis using Cons.IH [OF d(1) r] True sn by (simp add: snapshot_map_Cons)
  next
    case False
    then obtain seen' sigs' where r: "register_units reg es (hins ?n e units) = (units1, seen', sigs')"
      using register_units_known [OF Cons.prems(2)] register_units_new [OF Cons.prems(2)] by blast
    show ?thesis using Cons.IH [OF d(1) r] False sn by (simp add: snapshot_map_Cons split: option.split)
  qed
qed

lemma register_units_seen:
  assumes "distinct (map ue_name es)" "register_units reg es units = (units1, seen, sigs)"
  shows "set seen = {n \<in> ue_name ` set es. map_of units n \<noteq> None \<or> reg (unit_dbus_path n)} \<and>
    set sigs = (\<lambda>n. UnitNew n (unit_dbus_path n)) ` {n \<in> ue_name ` set es. map_of units n = None \<and> reg (unit_dbus_path n)}"
  using assms
proof (induction es arbitrary: units units1 seen sigs)
  case (Cons e es)
  let ?n = "ue_name e"
  from Cons.prems(1) have d: "distinct (map ue_name es)" "?n \<notin> ue_name ` set es" by simp_all
  have same: "{n \<in> ue_name ` set es. P (map_of (hins ?n e units) n) n} = {n \<in> ue_name ` set es. P (map_of units n) n}" for P
  proof (rule Collect_cong)
    fix n
    have "n \<noteq> ?n" if "n \<in> ue_name ` set es" using d(2) that by blast
    then show "(n \<in> ue_name ` set es \<and> P (map_of (hins ?n e units) n) n) = (n \<in> ue_name ` set es \<and> P (map_of units n) n)"
      by auto
  qed
  note ih = Cons.IH [OF d(1)]
  consider (old) "map_of units ?n \<noteq> None" | (no) "map_of units ?n = None" "\<not> reg (unit_dbus_path ?n)"
    | (new) "map_of units ?n = None" "reg (unit_dbus_path ?n)" by blast
  then show ?case
  proof cases
    case no
    from ih [OF register_units_refused [OF Cons.prems(2) no]] no show ?thesis by auto
  next
    case old
    from register_units_known [OF Cons.prems(2) old] obtain seen' where
      r: "register_units reg es (hins ?n e units) = (units1, seen', sigs)" "seen = ?n # seen'" by blast
    from ih [OF r(1)] have "set seen' = {n \<in> ue_name ` set es. map_of units n \<noteq> None \<or> reg (unit_dbus_path n)}"
      "set sigs = (\<lambda>n. UnitNew n (unit_dbus_path n)) ` {n \<in> ue_name ` set es. map_of units n = None \<and> reg (unit_dbus_path n)}"
      using same [of "\<lambda>x n. x \<noteq> None \<or> reg (unit_dbus_path n)"] same [of "\<lambda>x n. x = None \<and> reg (unit_dbus_path n)"]
      by (simp_all del: hget_hins)
    with r(2) old show ?thesis by auto
  next
    case new
    from register_units_new [OF Cons.prems(2) new] obtain seen' sigs' where
      r: "register_units reg es (hins ?n e units) = (units1, seen', sigs')" "seen = ?n # seen'"
        "sigs = UnitNew ?n (unit_dbus_path ?n) # sigs'" by blast
    from ih [OF r(1)] have "set seen' = {n \<in> ue_name ` set es. map_of units n \<noteq> None \<or> reg (unit_dbus_path n)}"
      "set sigs' = (\<lambda>n. UnitNew n (unit_dbus_path n)) ` {n \<in> ue_name ` set es. map_of units n = None \<and> reg (unit_dbus_path n)}"
      using same [of "\<lambda>x n. x \<noteq> None \<or> reg (unit_dbus_path n)"] same [of "\<lambda>x n. x = None \<and> reg (unit_dbus_path n)"]
      by (simp_all del: hget_hins)
    with r(2,3) new show ?thesis by auto
  qed
qed simp

lemma register_units_keys:
  "register_units reg es units = (units1, seen, sigs) \<Longrightarrow> set (hkeys units1) = set (hkeys units) \<union> set seen"
proof (induction es arbitrary: units units1 seen sigs)
  case (Cons e es)
  show ?case
  proof (cases "map_of units (ue_name e) = None \<and> \<not> reg (unit_dbus_path (ue_name e))")
    case True
    show ?thesis by (rule Cons.IH [OF register_units_refused [OF Cons.prems conjunct1 [OF True] conjunct2 [OF True]]])
  next
    case False
    then obtain seen' sigs' where r: "register_units reg es (hins (ue_name e) e units) = (units1, seen', sigs')" "seen = ue_name e # seen'"
      using register_units_known [OF Cons.prems] register_units_new [OF Cons.prems] by blast
    from Cons.IH [OF r(1)] show ?thesis unfolding hkeys_hins r(2) by simp
  qed
qed simp

text \<open>C27. After a snapshot, the objects served on the compatible interface are those of the snapshot: a unit
  is served exactly when the snapshot has it and its object is, or could be, registered, and its properties
  are those of the snapshot, for units served before too. The signals sent are one \<open>UnitNew\<close> for each unit
  that was not served and now is, and one \<open>UnitRemoved\<close> for each that is no longer.\<close>

theorem snapshot_served:
  assumes "distinct (map ue_name snap)" "apply_unit_snapshot reg unreg snap units = (units', sigs)"
  shows "map_of units' n = (if map_of units n \<noteq> None \<or> reg (unit_dbus_path n) then snapshot_map snap n else None) \<and>
    set sigs = (\<lambda>n. UnitNew n (unit_dbus_path n)) ` {n \<in> ue_name ` set snap. map_of units n = None \<and> reg (unit_dbus_path n)} \<union>
      (\<lambda>n. UnitRemoved n (unit_dbus_path n)) ` {n \<in> set (hkeys units) - ue_name ` set snap. unreg (unit_dbus_path n)}"
proof -
  obtain units1 seen new where r: "register_units reg snap units = (units1, seen, new)" using prod_cases3 by blast
  define gone where "gone = List.map_filter (\<lambda>(n, _). if \<not> List.member seen n \<and> unreg (unit_dbus_path n)
        then Some (UnitRemoved n (unit_dbus_path n)) else None) units1"
  have u: "units' = filter (\<lambda>p. fst p \<in> set seen) units1" "sigs = new @ gone"
    using assms(2) by (auto simp: apply_unit_snapshot_def deregister_units_def r gone_def split_def)
  note spec = register_units_lookup [OF assms(1) r] conjunct1 [OF register_units_seen [OF assms(1) r]]
    conjunct2 [OF register_units_seen [OF assms(1) r]]
  have known: "n \<in> ue_name ` set snap \<longleftrightarrow> snapshot_map snap n \<noteq> None" for n
    by (force simp: snapshot_map_def map_of_eq_None_iff)
  have "map_of units' n = (if n \<in> set seen then map_of units1 n else None)"
    unfolding u by (rule hget_filter_key)
  also have "\<dots> = (if map_of units n \<noteq> None \<or> reg (unit_dbus_path n) then snapshot_map snap n else None)"
    using spec(1) [of n] spec(2) known [of n] by auto
  finally have m: "map_of units' n = (if map_of units n \<noteq> None \<or> reg (unit_dbus_path n) then snapshot_map snap n else None)" .
  have "set gone = (\<lambda>n. UnitRemoved n (unit_dbus_path n)) ` {n \<in> set (hkeys units1) - set seen. unreg (unit_dbus_path n)}"
    by (force simp: gone_def List.map_filter_def split: if_splits)
  also have "set (hkeys units1) - set seen = set (hkeys units) - ue_name ` set snap"
    using register_units_keys [OF r] spec(2) by (auto simp: hget_None_iff)
  finally show ?thesis using m spec(3) u(2) by simp
qed

definition entry_of :: "str \<Rightarrow> unit_entry" where
  "entry_of n = \<lparr>ue_name = n, ue_load = ''loaded'', ue_active = ''active'', ue_sub = ''running'', ue_description = []\<rparr>"

theorem snapshot_served_witness:
  "let (units, sigs) = apply_unit_snapshot (\<lambda>_. True) (\<lambda>_. True) [entry_of ''b''] [(''a'', entry_of ''a'')]
   in map_of units ''b'' = Some (entry_of ''b'') \<and> map_of units ''a'' = None"
proof -
  obtain units sigs where a: "apply_unit_snapshot (\<lambda>_. True) (\<lambda>_. True) [entry_of ''b''] [(''a'', entry_of ''a'')] = (units, sigs)"
    by fastforce
  have "distinct (map ue_name [entry_of ''b''])" by simp
  from snapshot_served [OF this a, of "''b''"] snapshot_served [OF this a, of "''a''"] a show ?thesis
    by (simp add: snapshot_map_def entry_of_def)
qed

section \<open>Watched names\<close>

definition tracked :: "str \<Rightarrow> (str \<times> bool) list \<Rightarrow> bool \<Rightarrow> bool" where
  "tracked name watched sent \<longleftrightarrow> (\<exists>b. map_of watched name = Some b \<and> (b \<longrightarrow> sent))"

lemma drain_keeps:
  assumes "WatchRemove name \<notin> set ws" "tracked name watched sent" "drain_watches own k ws watched = (evs, watched')"
  shows "tracked name watched' (sent \<or> NameAcquired name \<in> set evs)"
  using assms
proof (induction ws arbitrary: k watched sent evs)
  case (Cons w ws)
  show ?case
  proof (cases w)
    case (WatchAdd n)
    show ?thesis
    proof (cases "own k n")
      case None
      with Cons WatchAdd show ?thesis by simp
    next
      case (Some here)
      with Cons.prems(3) WatchAdd obtain evs1 where d: "drain_watches own (Suc k) ws (hins n here watched) = (evs1, watched')"
        "evs = (if here then NameAcquired n # evs1 else evs1)" by (auto split: prod.splits)
      have "tracked name (hins n here watched) (sent \<or> (here \<and> n = name))"
        using Cons.prems(2) by (auto simp: tracked_def)
      from Cons.IH [OF _ this d(1)] Cons.prems(1) d(2) show ?thesis by (auto simp: tracked_def)
    qed
  next
    case (WatchRemove n)
    with Cons.prems have "n \<noteq> name" "drain_watches own (Suc k) ws (hdel n watched) = (evs, watched')" by auto
    moreover from this Cons.prems(2) have "tracked name (hdel n watched) sent" by (simp add: tracked_def)
    ultimately show ?thesis using Cons.IH Cons.prems(1) by simp
  qed
qed (simp add: tracked_def)

lemma drain_adds:
  assumes "WatchRemove name \<notin> set vs" "own (k + length us) name \<noteq> None"
    "drain_watches own k (us @ WatchAdd name # vs) watched = (evs, watched')"
  shows "tracked name watched' (NameAcquired name \<in> set evs)"
  using assms
proof (induction us arbitrary: k watched evs)
  case Nil
  then obtain here evs1 where d: "own k name = Some here" "drain_watches own (Suc k) vs (hins name here watched) = (evs1, watched')"
    "evs = (if here then NameAcquired name # evs1 else evs1)" by (auto split: prod.splits)
  have "tracked name (hins name here watched) here" by (simp add: tracked_def)
  from drain_keeps [OF Nil.prems(1) this d(2)] d(3) show ?case by (auto simp: tracked_def)
next
  case (Cons u us)
  have k: "own (Suc k + length us) name \<noteq> None" using Cons.prems(2) by simp
  have "\<exists>evs1 watched1. drain_watches own (Suc k) (us @ WatchAdd name # vs) watched1 = (evs1, watched') \<and> set evs1 \<subseteq> set evs"
    using Cons.prems(3) by (cases u) (force split: option.splits prod.splits if_splits)+
  then obtain evs1 watched1 where d: "drain_watches own (Suc k) (us @ WatchAdd name # vs) watched1 = (evs1, watched')"
    "set evs1 \<subseteq> set evs" by blast
  from Cons.IH [OF Cons.prems(1) k d(1)] d(2) show ?case by (auto simp: tracked_def)
qed

lemma map_of_poll: "map_of (map (snd \<circ> poll_one own) watched) name =
    map_option (\<lambda>b. case own name of None \<Rightarrow> b | Some here \<Rightarrow> here) (map_of watched name)"
  by (induction watched) (auto simp: poll_one_def split: option.splits)

lemma poll_keeps:
  assumes "tracked name watched sent" "poll_names own watched = (evs, watched')"
  shows "tracked name watched' (sent \<or> NameAcquired name \<in> set evs)"
    and "own name = Some True \<Longrightarrow> sent \<or> NameAcquired name \<in> set evs"
proof -
  from assms(1) obtain b where b: "map_of watched name = Some b" "b \<longrightarrow> sent" by (auto simp: tracked_def)
  have w: "map_of watched' name = Some (case own name of None \<Rightarrow> b | Some here \<Rightarrow> here)"
    "evs = concat (map (fst \<circ> poll_one own) watched)"
    using assms(2) b(1) by (auto simp: poll_names_def map_of_poll)
  have fires: "NameAcquired name \<in> set evs" if "own name = Some True" "\<not> b"
    using map_of_SomeD [OF b(1)] that by (force simp: w(2) poll_one_def)
  then show "own name = Some True \<Longrightarrow> sent \<or> NameAcquired name \<in> set evs" using b(2) by blast
  show "tracked name watched' (sent \<or> NameAcquired name \<in> set evs)"
    using w(1) b(2) fires by (auto simp: tracked_def split: option.splits)
qed

lemma round_splits:
  assumes "monitor_round b conn reg unreg r inp mo = (evs, sigs, mo')"
  obtains evs1 watched evs2 where "drain_watches (bus_add b r) 0 (rd_watches inp) (mo_watched mo) = (evs1, watched)"
    "poll_names (bus_poll b r) watched = (evs2, mo_watched mo')" "evs = evs1 @ evs2"
  using assms by (auto simp: monitor_round_def Let_def split: prod.splits)

lemma rounds_deliver:
  assumes "\<forall>x \<in> set is. WatchRemove name \<notin> set (rd_watches x)" "tracked name (mo_watched mo) sent"
    "j < length is" "bus_poll b (r + j) name = Some True"
  shows "sent \<or> NameAcquired name \<in> set (fst (monitor_rounds b conn reg unreg r is mo))"
  using assms
proof (induction "is" arbitrary: r mo sent j)
  case (Cons i "is")
  obtain evs sigs mo1 where m: "monitor_round b conn reg unreg r i mo = (evs, sigs, mo1)" using prod_cases3 by blast
  obtain evs1 watched evs2 where d: "drain_watches (bus_add b r) 0 (rd_watches i) (mo_watched mo) = (evs1, watched)"
    "poll_names (bus_poll b r) watched = (evs2, mo_watched mo1)" "evs = evs1 @ evs2" by (rule round_splits [OF m])
  have t: "tracked name watched (sent \<or> NameAcquired name \<in> set evs1)"
    using drain_keeps [OF _ Cons.prems(2) d(1)] Cons.prems(1) by simp
  note p = poll_keeps [OF t d(2)]
  have e: "set (fst (monitor_rounds b conn reg unreg r (i # is) mo)) =
      set evs \<union> set (fst (monitor_rounds b conn reg unreg (Suc r) is mo1))"
    by (simp add: m split: prod.split)
  show ?case
  proof (cases j)
    case 0
    with Cons.prems(4) have "bus_poll b r name = Some True" by simp
    from p(2) [OF this] e d(3) show ?thesis by auto
  next
    case (Suc j')
    then have j: "j' < length is" "bus_poll b (Suc r + j') name = Some True" using Cons.prems(3,4) by simp_all
    from Cons.IH [OF _ p(1) j] Cons.prems(1) e d(3) show ?thesis by auto
  qed
qed simp

text \<open>C28. An owner of a watched name is reported. Let the manager ask for a name, let the lookup at that
  moment succeed, whatever it answers, and let the watch not be withdrawn. Then as soon as one of the
  following rounds finds the name owned, the event that the name is acquired has been sent: at the
  registration, if the owner was there first, or at the transition. Failed lookups in between and
  repeated registrations do no harm.\<close>

theorem name_acquired_delivered:
  assumes "rd_watches i = us @ WatchAdd name # vs" "WatchRemove name \<notin> set vs" "bus_add b r (length us) name \<noteq> None"
    "\<forall>x \<in> set is. WatchRemove name \<notin> set (rd_watches x)" "j \<le> length is" "bus_poll b (r + j) name = Some True"
  shows "NameAcquired name \<in> set (fst (monitor_rounds b conn reg unreg r (i # is) mo))"
proof -
  obtain evs sigs mo1 where m: "monitor_round b conn reg unreg r i mo = (evs, sigs, mo1)" using prod_cases3 by blast
  obtain evs1 watched evs2 where d: "drain_watches (bus_add b r) 0 (rd_watches i) (mo_watched mo) = (evs1, watched)"
    "poll_names (bus_poll b r) watched = (evs2, mo_watched mo1)" "evs = evs1 @ evs2" by (rule round_splits [OF m])
  have t: "tracked name watched (NameAcquired name \<in> set evs1)"
    using drain_adds [OF assms(2), of "bus_add b r" 0 us] assms(3) d(1) by (simp add: assms(1))
  note p = poll_keeps [OF t d(2)]
  have e: "set (fst (monitor_rounds b conn reg unreg r (i # is) mo)) =
      set evs \<union> set (fst (monitor_rounds b conn reg unreg (Suc r) is mo1))"
    by (simp add: m split: prod.split)
  show ?thesis
  proof (cases j)
    case 0
    with assms(6) have "bus_poll b r name = Some True" by simp
    from p(2) [OF this] e d(3) show ?thesis by auto
  next
    case (Suc j')
    then have "j' < length is" "bus_poll b (Suc r + j') name = Some True" using assms(5,6) by simp_all
    from rounds_deliver [OF assms(4) p(1) this] e d(3) show ?thesis by auto
  qed
qed

definition late_bus :: bus where
  "late_bus = \<lparr>bus_add = (\<lambda>r k n. Some False), bus_poll = (\<lambda>r n. Some (2 \<le> r))\<rparr>"

theorem name_acquired_delivered_witness:
  "NameAcquired ''n'' \<in> set (fst (monitor_rounds late_bus True (\<lambda>_. True) (\<lambda>_. True) 0
     [\<lparr>rd_watches = [WatchAdd ''n''], rd_snapshots = []\<rparr>, \<lparr>rd_watches = [], rd_snapshots = []\<rparr>,
      \<lparr>rd_watches = [], rd_snapshots = []\<rparr>] \<lparr>mo_watched = [], mo_units = []\<rparr>))"
  by (rule name_acquired_delivered [where us = "[]" and vs = "[]" and j = 2]) (simp_all add: late_bus_def)

text \<open>When the lookup at the registration fails, the name is not watched and never reported.\<close>

lemma failed_lookup_drops_watch:
  "monitor_rounds \<lparr>bus_add = (\<lambda>r k n. None), bus_poll = (\<lambda>r n. Some True)\<rparr> conn reg unreg 0
     [\<lparr>rd_watches = [WatchAdd ''n''], rd_snapshots = []\<rparr>, \<lparr>rd_watches = [], rd_snapshots = []\<rparr>] \<lparr>mo_watched = [], mo_units = []\<rparr> =
   ([], \<lparr>mo_watched = [], mo_units = []\<rparr>)"
  by (simp add: monitor_round_def poll_names_def Let_def)

end
