(* ===== verification/Cli.thy ===== *)
theory Cli
  imports Control
begin

text \<open>
  The command line client, \<^verbatim>\<open>rystemctl/src/cli.rs\<close> over \<^verbatim>\<open>client.rs\<close>: a command becomes requests to the
  manager, operations on the disk, lines of output and an exit code. Argument parsing is the library's:
  the model starts from the parsed command. What is outside the process is a parameter, the record
  \<open>outside\<close>: the daemon behind the socket, the clocks, sleeping, the terminal's colours.
\<close>

section \<open>The process and its surroundings\<close>

datatype paint = Cyan | Green | Yellow | Red | Dim

datatype shell = Bash | Fish | Zsh | PowerShell | Nushell

text \<open>\<open>o_call\<close> is one request and its answer, \<open>o_pause\<close> a sleep of so many milliseconds, in which the daemon
  goes on; \<open>o_instant\<close> the monotonic clock in milliseconds, \<open>o_epoch\<close> the time of day in seconds, \<open>o_date\<close> its
  rendering by the calendar library, \<open>o_print\<close> and \<open>o_bad\<close> the JSON library's text of a value and of a decoding
  error.\<close>

record 'd outside =
  o_call :: "json \<Rightarrow> 'd \<Rightarrow> (str + json) \<times> 'd"
  o_pause :: "nat \<Rightarrow> 'd \<Rightarrow> 'd"
  o_instant :: "'d \<Rightarrow> nat"
  o_epoch :: "'d \<Rightarrow> nat"
  o_disk :: "'d \<Rightarrow> fsys"
  o_set_disk :: "fsys \<Rightarrow> 'd \<Rightarrow> 'd"
  o_env :: "str \<Rightarrow> str option"
  o_cwd :: "str option"
  o_depth :: nat
  o_paint :: "paint \<Rightarrow> str \<Rightarrow> str"
  o_date :: "nat \<Rightarrow> str"
  o_print :: "json \<Rightarrow> str"
  o_bad :: "json \<Rightarrow> str"
  o_completions :: "shell \<Rightarrow> str"
  o_version :: str

record 'd ctl =
  ct_world :: 'd
  ct_out :: str
  ct_err :: str

text \<open>A step ends with an error, with a panic, or with a value; it may also never end, or exhaust the
  stack, which is \<open>None\<close>.\<close>

datatype cli_stop = CliFailed str | CliPanicked

type_synonym ('d, 'a) act = "'d ctl \<Rightarrow> ((cli_stop + 'a) \<times> 'd ctl) option"

definition ct_ok :: "'a \<Rightarrow> ('d, 'a) act" where
  "ct_ok x t = Some (Inr x, t)"

definition ct_fail :: "str \<Rightarrow> ('d, 'a) act" where
  "ct_fail e t = Some (Inl (CliFailed e), t)"

definition ct_panic :: "('d, 'a) act" where
  "ct_panic t = Some (Inl CliPanicked, t)"

definition ct_then :: "('d, 'a) act \<Rightarrow> ('a \<Rightarrow> ('d, 'b) act) \<Rightarrow> ('d, 'b) act" where
  "ct_then f g t =
     (case f t of
        None \<Rightarrow> None
      | Some (Inl e, t1) \<Rightarrow> Some (Inl e, t1)
      | Some (Inr x, t1) \<Rightarrow> g x t1)"

text \<open>\<open>let _ = f\<close>: the result is dropped.\<close>

definition ct_ignore :: "('d, 'a) act \<Rightarrow> ('d, unit) act" where
  "ct_ignore f t = (case f t of None \<Rightarrow> None | Some (Inl CliPanicked, t1) \<Rightarrow> Some (Inl CliPanicked, t1) | Some (_, t1) \<Rightarrow> Some (Inr (), t1))"

definition ct_lift :: "str + 'a \<Rightarrow> ('d, 'a) act" where
  "ct_lift r = (case r of Inl e \<Rightarrow> ct_fail e | Inr x \<Rightarrow> ct_ok x)"

definition ct_need :: "str \<Rightarrow> 'a option \<Rightarrow> ('d, 'a) act" where
  "ct_need e r = (case r of None \<Rightarrow> ct_fail e | Some x \<Rightarrow> ct_ok x)"

fun ct_each :: "('x \<Rightarrow> ('d, unit) act) \<Rightarrow> 'x list \<Rightarrow> ('d, unit) act" where
  "ct_each f [] = ct_ok ()"
| "ct_each f (x # xs) = ct_then (f x) (\<lambda>_. ct_each f xs)"

definition ct_read :: "('d \<Rightarrow> 'a) \<Rightarrow> ('d, 'a) act" where
  "ct_read f t = Some (Inr (f (ct_world t)), t)"

text \<open>\<open>println!\<close>.\<close>

definition say :: "str \<Rightarrow> ('d, unit) act" where
  "say txt t = Some (Inr (), t\<lparr>ct_out := ct_out t @ txt @ [newline]\<rparr>)"

definition say_all :: "str list \<Rightarrow> ('d, unit) act" where
  "say_all = ct_each say"

definition ask_daemon :: "'d outside \<Rightarrow> json \<Rightarrow> ('d, json) act" where
  "ask_daemon ox v t = (case o_call ox v (ct_world t) of (r, d) \<Rightarrow> ct_lift r (t\<lparr>ct_world := d\<rparr>))"

text \<open>An operation of the library on the disk.\<close>

definition on_own_disk :: "'d outside \<Rightarrow> (fsys \<Rightarrow> ((str + 'a) \<times> fsys) option) \<Rightarrow> ('d, 'a) act" where
  "on_own_disk ox f t =
     (case f (o_disk ox (ct_world t)) of
        None \<Rightarrow> None
      | Some (r, fs) \<Rightarrow> ct_lift r (t\<lparr>ct_world := o_set_disk ox fs (ct_world t)\<rparr>))"

section \<open>The parsed command\<close>

record job_options =
  jo_wait :: bool
  jo_mode :: "str option"

datatype command =
    CmdStart job_options "str list" | CmdStop job_options "str list" | CmdRestart job_options "str list"
  | CmdTryRestart job_options "str list" | CmdReload "str list" | CmdRestartOrStart "str list"
  | CmdKill str "str option" | CmdMask "str list" | CmdUnmask "str list" | CmdResetFailed "str list"
  | CmdReenable "str list" | CmdClean "str list" | CmdListDependencies str bool | CmdListSockets bool bool
  | CmdStatus "str list" bool | CmdIsActive "str list" | CmdIsFailed "str list" | CmdIsEnabled "str list"
  | CmdEnable "str list" bool | CmdDisable "str list" bool | CmdDaemonReload | CmdDaemonReexec | CmdListJobs
  | CmdLogLevel "str option" | CmdListUnits "str list option" "str option" bool bool | CmdListUnitFiles bool
  | CmdListTimers bool bool | CmdCat "str list" | CmdShow "str list" "str list" bool | CmdGetDefault | CmdRepo
  | CmdJournal "str option" "nat option" bool "nat option"
  | CmdJournalctl "str option" "nat option" bool "nat option" "str option"
  | CmdSetDefault str | CmdIsolate str | CmdIsSystemRunning | CmdPoweroff
  | CmdEdit "str list" | CmdPreset "str list" | CmdLink "str list" | CmdRevert "str list" | CmdCancel "str list"
  | CmdVersion | CmdCompletions shell

record cli =
  cl_user :: bool
  cl_no_pager :: bool
  cl_quiet :: bool
  cl_no_block :: bool
  cl_show_transaction :: bool
  cl_cmd :: command

section \<open>Requests\<close>

definition cli_paths :: "'d outside \<Rightarrow> bool \<Rightarrow> str + paths" where
  "cli_paths ox user = (if user then paths_user (o_env ox) else Inr (paths_system (o_env ox)))"

text \<open>\<open>Client::for_mode\<close> finds the socket and connects only with a request.\<close>

definition client_for :: "'d outside \<Rightarrow> cli \<Rightarrow> ('d, paths) act" where
  "client_for ox c = ct_lift (cli_paths ox (cl_user c))"

definition op_with :: "'d outside \<Rightarrow> cli \<Rightarrow> str \<Rightarrow> (str \<times> json) list \<Rightarrow> ('d, json) act" where
  "op_with ox c op extra = ct_then (client_for ox c) (\<lambda>_. ask_daemon ox (jobject ((''op'', JStr op) # extra)))"

definition simple_op :: "'d outside \<Rightarrow> cli \<Rightarrow> str \<Rightarrow> ('d, json) act" where
  "simple_op ox c op = op_with ox c op []"

definition units_op :: "'d outside \<Rightarrow> cli \<Rightarrow> str \<Rightarrow> str list \<Rightarrow> ('d, json) act" where
  "units_op ox c op us = op_with ox c op [(''units'', jstrs (normalized us))]"

definition exit_with :: "int \<Rightarrow> ('d, 'a) act \<Rightarrow> ('d, int) act" where
  "exit_with n f = ct_then f (\<lambda>_. ct_ok n)"

text \<open>\<open>v[k]\<close>, and its text or nothing.\<close>

definition jidx :: "json \<Rightarrow> str \<Rightarrow> json" where
  "jidx v k = (case jget v k of Some x \<Rightarrow> x | None \<Rightarrow> JNull)"

definition str_or :: "str \<Rightarrow> json \<Rightarrow> str" where
  "str_or e v = (case as_str v of Some s \<Rightarrow> s | None \<Rightarrow> e)"

definition str_at :: "json \<Rightarrow> str \<Rightarrow> str" where
  "str_at v k = str_or [] (jidx v k)"

definition rows_of :: "json \<Rightarrow> json list" where
  "rows_of v = (case as_array v of Some a \<Rightarrow> a | None \<Rightarrow> [])"

section \<open>Waiting\<close>

definition job_ids_from :: "json \<Rightarrow> nat list" where
  "job_ids_from v =
     (case Option.bind (jget v ''jobs'') as_array of Some rows \<Rightarrow> List.map_filter as_u64 rows | None \<Rightarrow> [])"

text \<open>The three waiting loops ask, and ask again 20 milliseconds later while the answer is \<open>None\<close>, until a
  deadline.\<close>

partial_function (option) poll_loop ::
    "'d outside \<Rightarrow> nat \<Rightarrow> str \<Rightarrow> ('d, unit option) act \<Rightarrow> 'd ctl \<Rightarrow> ((cli_stop + unit) \<times> 'd ctl) option" where
  "poll_loop ox limit msg step t =
     (case step t of
        None \<Rightarrow> None
      | Some (r, t1) \<Rightarrow>
          (case r of
             Inl e \<Rightarrow> Some (Inl e, t1)
           | Inr (Some _) \<Rightarrow> Some (Inr (), t1)
           | Inr None \<Rightarrow>
               if limit \<le> o_instant ox (ct_world t1) then Some (Inl (CliFailed msg), t1)
               else poll_loop ox limit msg step (t1\<lparr>ct_world := o_pause ox 20 (ct_world t1)\<rparr>)))"

definition wait_limit :: nat where "wait_limit = 300000"

definition poll_for :: "'d outside \<Rightarrow> str \<Rightarrow> ('d, unit option) act \<Rightarrow> ('d, unit) act" where
  "poll_for ox msg step t = poll_loop ox (o_instant ox (ct_world t) + wait_limit) msg step t"

definition jobs_answer :: "json \<Rightarrow> str + unit option" where
  "jobs_answer v =
     (case as_array v of
        None \<Rightarrow> Inl ''invalid job status response''
      | Some rows \<Rightarrow>
          if list_ex (\<lambda>row. Option.bind (jget row ''state'') as_str = Some ''pending'') rows then Inr None
          else (case List.find (\<lambda>row. Option.bind (jget row ''ok'') as_bool = Some False) rows of
                  Some row \<Rightarrow> Inl (case Option.bind (jget row ''error'') as_str of Some e \<Rightarrow> e | None \<Rightarrow> ''job canceled'')
                | None \<Rightarrow> Inr (Some ())))"

definition wait_for_jobs :: "'d outside \<Rightarrow> cli \<Rightarrow> nat list \<Rightarrow> ('d, unit) act" where
  "wait_for_jobs ox c ids = ct_then (client_for ox c) (\<lambda>_.
     poll_for ox ''timed out waiting for job completion''
       (ct_then (op_with ox c ''job_status'' [(''job_ids'', JArr (map jnat ids))]) (\<lambda>v. ct_lift (jobs_answer v))))"

definition jobs_pending :: "str list \<Rightarrow> json \<Rightarrow> bool" where
  "jobs_pending wanted jobs \<longleftrightarrow>
     list_ex (\<lambda>row. case Option.bind (jget row ''unit'') as_str of Some u \<Rightarrow> List.member wanted u | None \<Rightarrow> False) (rows_of jobs)"

definition any_failed :: "json list \<Rightarrow> bool" where
  "any_failed rows \<longleftrightarrow> list_ex (\<lambda>row. Option.bind (jget row ''ActiveState'') as_str = Some ''failed'') rows"

definition wait_for_units :: "'d outside \<Rightarrow> cli \<Rightarrow> str list \<Rightarrow> ('d, unit) act" where
  "wait_for_units ox c us = ct_then (client_for ox c) (\<lambda>_.
     poll_for ox ''timed out waiting for job completion''
       (ct_then (simple_op ox c ''list_jobs'') (\<lambda>jobs.
          if jobs_pending (normalized us) jobs then ct_ok None
          else ct_then (op_with ox c ''show'' [(''units'', jstrs (normalized us)), (''properties'', jstrs [''ActiveState''])]) (\<lambda>states.
            if any_failed (rows_of states) then ct_fail ''start job failed'' else ct_ok (Some ())))))"

definition still_up :: "json \<Rightarrow> bool" where
  "still_up row \<longleftrightarrow>
     (let a = Option.bind (jget row ''ActiveState'') as_str in
      a = Some ''activating'' \<or> a = Some ''deactivating'' \<or>
      (a = Some ''active'' \<and> Option.bind (jget row ''SubState'') as_str = Some ''running''))"

definition ends_answer :: "json \<Rightarrow> str + unit option" where
  "ends_answer v =
     (case as_array v of
        None \<Rightarrow> Inl ''invalid unit state response''
      | Some rows \<Rightarrow>
          if list_ex still_up rows then Inr None
          else if any_failed rows then Inl ''start job failed'' else Inr (Some ()))"

definition wait_for_terminating_units :: "'d outside \<Rightarrow> cli \<Rightarrow> str list \<Rightarrow> ('d, unit) act" where
  "wait_for_terminating_units ox c us = ct_then (client_for ox c) (\<lambda>_.
     poll_for ox ''timed out waiting for unit termination''
       (ct_then (op_with ox c ''show'' [(''units'', jstrs (normalized us)), (''properties'', jstrs [''ActiveState'', ''SubState''])])
          (\<lambda>states. ct_lift (ends_answer states))))"

fun start_each_ignoring :: "'d outside \<Rightarrow> cli \<Rightarrow> str list \<Rightarrow> nat list \<Rightarrow> ('d, nat list) act" where
  "start_each_ignoring ox c [] ids = ct_ok ids"
| "start_each_ignoring ox c (u # us) ids =
     ct_then (op_with ox c ''start_ignore_dependencies'' [(''units'', jstrs [u])]) (\<lambda>v.
       start_each_ignoring ox c us (ids @ job_ids_from v))"

definition queue_jobs :: "'d outside \<Rightarrow> cli \<Rightarrow> str \<Rightarrow> str list \<Rightarrow> job_options \<Rightarrow> ('d, nat list) act" where
  "queue_jobs ox c op us opts =
     (if op = ''start'' \<and> jo_mode opts = Some ''ignore-dependencies''
      then ct_then (client_for ox c) (\<lambda>_. start_each_ignoring ox c (normalized us) [])
      else ct_then (op_with ox c op ((''units'', jstrs (normalized us)) # opt_field ''job_mode'' (map_option JStr (jo_mode opts))))
             (\<lambda>v. ct_ok (job_ids_from v)))"

definition units_op_with_options :: "'d outside \<Rightarrow> cli \<Rightarrow> str \<Rightarrow> str list \<Rightarrow> job_options \<Rightarrow> ('d, unit) act" where
  "units_op_with_options ox c op us opts =
     (let should_wait = jo_wait opts \<or> (\<not> cl_no_block c \<and> (op = ''start'' \<or> op = ''stop'')) in
      ct_then (queue_jobs ox c op us opts) (\<lambda>ids.
        if should_wait \<and> ids \<noteq> [] then
          ct_then (wait_for_jobs ox c ids) (\<lambda>_.
            if jo_wait opts \<and> op = ''start'' then wait_for_terminating_units ox c us else ct_ok ())
        else if jo_wait opts then wait_for_units ox c us
        else ct_ok ()))"

section \<open>Formatting\<close>

text \<open>\<open>{:<n}\<close> counts characters: the bytes that do not continue one.\<close>

definition char_count :: "str \<Rightarrow> nat" where
  "char_count s = length (filter (\<lambda>b. \<not> (0x80 \<le> code b \<and> code b < 0xC0)) s)"

definition pad :: "nat \<Rightarrow> str \<Rightarrow> str" where
  "pad n s = s @ replicate (n - char_count s) (CHR '' '')"

text \<open>\<open>{:0n}\<close> of a signed number.\<close>

definition pad0 :: "nat \<Rightarrow> int \<Rightarrow> str" where
  "pad0 n i =
     (let sign = (if i < 0 then ''-'' else ''''); ds = show_nat (nat \<bar>i\<bar>)
      in sign @ replicate (n - length sign - length ds) (CHR ''0'') @ ds)"

text \<open>Division of signed numbers truncates.\<close>

definition tdiv :: "int \<Rightarrow> int \<Rightarrow> int" where
  "tdiv a b = (if a < 0 then - (- a div b) else a div b)"

definition to_i64 :: "nat \<Rightarrow> int" where
  "to_i64 n = (int n + 2 ^ 63) mod 2 ^ 64 - 2 ^ 63"

definition to_i32 :: "int \<Rightarrow> int" where
  "to_i32 i = (i + 2 ^ 31) mod 2 ^ 32 - 2 ^ 31"

text \<open>The date of a day number.\<close>

definition civil_from_days :: "int \<Rightarrow> int \<times> nat \<times> nat" where
  "civil_from_days days =
     (let z = days + 719468;
          era = tdiv (if z \<ge> 0 then z else z - 146096) 146097;
          doe = nat ((z - era * 146097) mod 2 ^ 64);
          yoe = (doe - doe div 1460 + doe div 36524 - doe div 146096) div 365;
          y = int yoe + era * 400;
          doy = doe - (365 * yoe + yoe div 4 - yoe div 100);
          mp = (5 * doy + 2) div 153;
          d = doy - (153 * mp + 2) div 5 + 1;
          m = (if mp < 10 then mp + 3 else mp - 9)
      in (if m \<le> 2 then y + 1 else y, m, d))"

definition fmt_ts :: "nat \<Rightarrow> str" where
  "fmt_ts secs =
     (let days = tdiv (to_i64 secs) 86400; rest = secs mod 86400;
          h = rest div 3600; mi = rest mod 3600 div 60; s = rest mod 60; (y, m, d) = civil_from_days days
      in pad0 4 y @ ''-'' @ pad0 2 (int m) @ ''-'' @ pad0 2 (int d) @ '' '' @
         pad0 2 (int h) @ '':'' @ pad0 2 (int mi) @ '':'' @ pad0 2 (int s))"

definition fmt_epoch :: "'d outside \<Rightarrow> 'd \<Rightarrow> nat \<Rightarrow> str" where
  "fmt_epoch ox d secs = o_date ox secs @ ''; '' @ fmt_ago (o_epoch ox d - secs)"

section \<open>Lists and states\<close>

definition job_row :: "json \<Rightarrow> str" where
  "job_row row =
     pad 3 (show_nat (case as_u64 (jidx row ''id'') of Some n \<Rightarrow> n | None \<Rightarrow> 0)) @ '' '' @ pad 36 (str_at row ''unit'') @ '' '' @
     pad 8 (str_at row ''type'') @ '' '' @ str_at row ''state''"

definition cmd_list_jobs :: "'d outside \<Rightarrow> cli \<Rightarrow> ('d, int) act" where
  "cmd_list_jobs ox c = ct_then (simple_op ox c ''list_jobs'') (\<lambda>rows.
     exit_with 0 (if cl_quiet c then ct_ok () else say_all (''JOB UNIT TYPE STATE'' # map job_row (rows_of rows))))"

definition cmd_log_level :: "'d outside \<Rightarrow> cli \<Rightarrow> str option \<Rightarrow> ('d, int) act" where
  "cmd_log_level ox c level =
     ct_then (case level of Some l \<Rightarrow> op_with ox c ''log_level'' [(''level'', JStr l)] | None \<Rightarrow> simple_op ox c ''log_level'') (\<lambda>v.
       exit_with 0 (case as_str v of Some l \<Rightarrow> if cl_quiet c then ct_ok () else say l | None \<Rightarrow> ct_ok ()))"

definition json_at :: "json \<Rightarrow> nat \<Rightarrow> json" where
  "json_at v i = (case as_array v of Some a \<Rightarrow> if i < length a then a ! i else JNull | None \<Rightarrow> JNull)"

definition cmd_is_active :: "'d outside \<Rightarrow> cli \<Rightarrow> str list \<Rightarrow> ('d, int) act" where
  "cmd_is_active ox c us = ct_then (units_op ox c ''is_active'' us) (\<lambda>v.
     let states = map (\<lambda>x. str_or [] (json_at x 1)) (rows_of (jidx v ''states'')) in
     exit_with (to_i32 (case Option.bind (jget v ''exit'') as_i64 of Some n \<Rightarrow> n | None \<Rightarrow> 0))
       (if cl_quiet c then ct_ok () else say_all states))"

definition first_bool :: "json \<Rightarrow> bool" where
  "first_bool v = (case rows_of v of x # _ \<Rightarrow> as_bool x = Some True | [] \<Rightarrow> False)"

definition cmd_is_failed :: "'d outside \<Rightarrow> cli \<Rightarrow> str list \<Rightarrow> ('d, int) act" where
  "cmd_is_failed ox c us = ct_then (units_op ox c ''is_failed'' us) (\<lambda>v.
     if first_bool v then exit_with 0 (say ''failed'') else exit_with 1 (say ''active''))"

definition state_badness :: "str \<Rightarrow> int" where
  "state_badness st = (if st = ''not-found'' then 3 else if st = ''disabled'' \<or> st = ''masked'' then 1 else 0)"

definition cmd_is_enabled :: "'d outside \<Rightarrow> cli \<Rightarrow> str list \<Rightarrow> ('d, int) act" where
  "cmd_is_enabled ox c us = ct_then (client_for ox c) (\<lambda>pa.
     ct_then (ct_read (\<lambda>d. map (enabled_state (o_disk ox d) pa) us)) (\<lambda>states.
       exit_with (fold max (map state_badness states) 0) (say_all states)))"

section \<open>Enabling\<close>

definition say_ok :: "'d outside \<Rightarrow> str list \<Rightarrow> ('d, unit) act" where
  "say_ok ox ms = say_all (map (o_paint ox Green) ms)"

definition enable_one :: "'d outside \<Rightarrow> paths \<Rightarrow> str \<Rightarrow> ('d, unit) act" where
  "enable_one ox pa u = ct_then (on_own_disk ox (enable (o_depth ox) (o_cwd ox) pa (normalize_unit u))) (say_ok ox)"

definition disable_one :: "'d outside \<Rightarrow> paths \<Rightarrow> str \<Rightarrow> ('d, unit) act" where
  "disable_one ox pa u = ct_then (on_own_disk ox (disable (o_depth ox) pa (normalize_unit u))) (say_ok ox)"

definition best_effort_reload :: "'d outside \<Rightarrow> cli \<Rightarrow> ('d, unit) act" where
  "best_effort_reload ox c = ct_ignore (simple_op ox c ''daemon_reload'')"

definition cmd_enable :: "'d outside \<Rightarrow> cli \<Rightarrow> str list \<Rightarrow> bool \<Rightarrow> ('d, int) act" where
  "cmd_enable ox c us now = ct_then (client_for ox c) (\<lambda>pa.
     ct_then (ct_each (enable_one ox pa) us) (\<lambda>_.
       if now then exit_with 0 (units_op ox c ''start'' us) else exit_with 0 (best_effort_reload ox c)))"

definition cmd_disable :: "'d outside \<Rightarrow> cli \<Rightarrow> str list \<Rightarrow> bool \<Rightarrow> ('d, int) act" where
  "cmd_disable ox c us now = ct_then (client_for ox c) (\<lambda>pa.
     ct_then (ct_each (disable_one ox pa) us) (\<lambda>_.
       if now then exit_with 0 (units_op ox c ''stop'' us) else ct_ok 0))"

definition cmd_reenable :: "'d outside \<Rightarrow> cli \<Rightarrow> str list \<Rightarrow> ('d, int) act" where
  "cmd_reenable ox c us = ct_then (client_for ox c) (\<lambda>pa.
     ct_then (ct_each (\<lambda>u. ct_then (disable_one ox pa u) (\<lambda>_. enable_one ox pa u)) us) (\<lambda>_.
       exit_with 0 (best_effort_reload ox c)))"

definition cmd_clean :: "'d outside \<Rightarrow> cli \<Rightarrow> str list \<Rightarrow> ('d, int) act" where
  "cmd_clean ox c us = ct_then (units_op ox c ''clean'' us) (\<lambda>v. exit_with 0 (say_ok ox (List.map_filter as_str (rows_of v))))"

definition cmd_kill :: "'d outside \<Rightarrow> cli \<Rightarrow> str \<Rightarrow> str option \<Rightarrow> ('d, int) act" where
  "cmd_kill ox c u sig = ct_then (client_for ox c) (\<lambda>_.
     ct_then (case sig of
         None \<Rightarrow> ct_ok sigterm
       | Some s \<Rightarrow> ct_need (''kill: unknown signal '' @ [CHR 0x22] @ s @ [CHR 0x22]) (sig_from_name s)) (\<lambda>n.
       exit_with 0 (op_with ox c ''kill'' [(''units'', jstrs [normalize_unit u]), (''signal'', JStr (signal_name n))])))"

definition cmd_list_dependencies :: "'d outside \<Rightarrow> cli \<Rightarrow> str \<Rightarrow> bool \<Rightarrow> ('d, int) act" where
  "cmd_list_dependencies ox c u rv =
     ct_then (op_with ox c ''list_dependencies'' [(''name'', JStr (normalize_unit u)), (''reverse'', JBool rv)]) (\<lambda>v.
       exit_with 0 (say_all (List.map_filter as_str (rows_of v))))"

section \<open>Tables\<close>

definition unit_row :: "json \<Rightarrow> str" where
  "unit_row r = pad 32 (str_at r ''unit'') @ '' '' @ pad 8 (str_at r ''loaded'') @ '' '' @ pad 8 (str_at r ''active'') @ '' '' @
     pad 10 (str_at r ''sub'') @ '' '' @ str_at r ''description''"

definition cmd_list_units :: "'d outside \<Rightarrow> cli \<Rightarrow> str list \<Rightarrow> str option \<Rightarrow> bool \<Rightarrow> ('d, int) act" where
  "cmd_list_units ox c types st no_legend =
     ct_then (op_with ox c ''list_units'' [(''types'', jstrs types), (''state'', jopt JStr st), (''pattern'', JNull)]) (\<lambda>v.
       exit_with 0 (say_all
         ((if no_legend then []
           else [pad 32 ''UNIT'' @ '' '' @ pad 8 ''LOAD'' @ '' '' @ pad 8 ''ACTIVE'' @ '' '' @ pad 10 ''SUB'' @ '' DESCRIPTION'']) @
          map unit_row (rows_of v))))"

definition cmd_list_sockets :: "'d outside \<Rightarrow> cli \<Rightarrow> bool \<Rightarrow> ('d, int) act" where
  "cmd_list_sockets ox c no_legend = cmd_list_units ox c [''socket''] None no_legend"

definition style_state :: "'d outside \<Rightarrow> str \<Rightarrow> str" where
  "style_state ox st = (if st = ''enabled'' then o_paint ox Green st else if st = ''disabled'' then o_paint ox Yellow st else st)"

definition cmd_list_unit_files :: "'d outside \<Rightarrow> cli \<Rightarrow> bool \<Rightarrow> ('d, int) act" where
  "cmd_list_unit_files ox c no_legend = ct_then (simple_op ox c ''list_unit_files'') (\<lambda>v.
     exit_with 0 (say_all
       ((if no_legend then [] else [pad 32 ''UNIT FILE'' @ '' STATE'']) @
        map (\<lambda>r. pad 32 (str_at r ''file'') @ '' '' @ style_state ox (str_at r ''state'')) (rows_of v))))"

definition or_dash :: "('a \<Rightarrow> str) \<Rightarrow> 'a option \<Rightarrow> str" where
  "or_dash f x = (case x of Some y \<Rightarrow> f y | None \<Rightarrow> ''-'')"

definition timer_row :: "'d outside \<Rightarrow> 'd \<Rightarrow> json \<Rightarrow> str" where
  "timer_row ox d r =
     (let nxt = or_dash (fmt_epoch ox d) (Option.bind (jget r ''next'') as_u64);
          next_left = (case Option.bind (jget r ''next_left'') as_i64 of
              Some n \<Rightarrow> if n > 0 then fmt_left (nat n) @ '' left'' else [] | None \<Rightarrow> []);
          lst = or_dash (fmt_epoch ox d) (Option.bind (jget r ''last'') as_u64);
          last_passed = (case Option.bind (jget r ''last_passed'') as_i64 of
              Some n \<Rightarrow> if n \<ge> 0 then fmt_ago (nat n) else [] | None \<Rightarrow> [])
      in pad 26 (o_paint ox Cyan nxt) @ '' '' @ pad 12 next_left @ '' '' @ pad 26 lst @ '' '' @ pad 12 last_passed @ '' '' @
         pad 20 (str_at r ''unit'') @ '' '' @ str_at r ''activates'')"

definition cmd_list_timers :: "'d outside \<Rightarrow> cli \<Rightarrow> bool \<Rightarrow> ('d, int) act" where
  "cmd_list_timers ox c no_legend = ct_then (simple_op ox c ''list_timers'') (\<lambda>v.
     ct_then (ct_read (\<lambda>d. map (timer_row ox d) (rows_of v))) (\<lambda>rows.
       exit_with 0 (say_all
         ((if no_legend then []
           else [pad 26 ''NEXT'' @ '' '' @ pad 12 ''LEFT'' @ '' '' @ pad 26 ''LAST'' @ '' '' @ pad 12 ''PASSED'' @ '' '' @
                 pad 20 ''UNIT'' @ '' ACTIVATES'']) @ rows))))"

section \<open>Status, cat, show, journal, repository\<close>

definition bullet :: str where
  "bullet = [CHR 0xE2, CHR 0x97, CHR 0x8F]"

definition field_or :: "str \<Rightarrow> json \<Rightarrow> str \<Rightarrow> str" where
  "field_or e u k = (case Option.bind (jget u k) as_str of Some s \<Rightarrow> s | None \<Rightarrow> e)"

definition status_lines :: "'d outside \<Rightarrow> 'd \<Rightarrow> json \<Rightarrow> str list" where
  "status_lines ox d u =
     (let active = field_or ''?'' u ''active'';
          dot = (if active = ''active'' then o_paint ox Green bullet else if active = ''failed'' then o_paint ox Red bullet else bullet);
          enabled = field_or [] u ''enabled'';
          since = or_dash (fmt_epoch ox d) (Option.bind (jget u ''active_enter'') as_u64);
          main_pid = (case Option.bind (jget u ''main_pid'') as_i64 of Some n \<Rightarrow> n | None \<Rightarrow> 0);
          log = (case Option.bind (jget u ''log'') as_array of Some a \<Rightarrow> a | None \<Rightarrow> [])
      in [dot @ '' '' @ o_paint ox Cyan (field_or ''?'' u ''name'') @ '' - '' @ field_or [] u ''description'',
          ''     Loaded: '' @ o_paint ox Yellow (field_or ''?'' u ''load'') @ '' ('' @ field_or [] u ''path'' @
            (if enabled = [] then [] else ''; '' @ enabled) @ '')'',
          ''     Active: '' @ o_paint ox Yellow active @ '' ('' @ o_paint ox Dim (field_or ''?'' u ''sub'') @ '') since '' @ since] @
         (if main_pid > 0 then [''   Main PID: '' @ show_nat (nat main_pid)] else []) @
         (if log = [] then [] else ''      Logs:'' # map (\<lambda>l. ''        '' @ o_paint ox Dim (str_or [] l)) (take 20 log)))"

fun status_blocks :: "str list list \<Rightarrow> str list" where
  "status_blocks [] = []"
| "status_blocks [b] = b"
| "status_blocks (b # bs) = b @ [[]] @ status_blocks bs"

definition cmd_status :: "'d outside \<Rightarrow> cli \<Rightarrow> str list \<Rightarrow> ('d, int) act" where
  "cmd_status ox c us = ct_then (units_op ox c ''status'' us) (\<lambda>v.
     ct_then (ct_need ''bad status response'' (as_array v)) (\<lambda>arr.
       ct_then (ct_read (\<lambda>d. map (status_lines ox d) arr)) (\<lambda>blocks. exit_with 0 (say_all (status_blocks blocks)))))"

definition cmd_cat :: "'d outside \<Rightarrow> cli \<Rightarrow> str list \<Rightarrow> ('d, int) act" where
  "cmd_cat ox c us = ct_then (units_op ox c ''cat'' us) (\<lambda>v.
     exit_with 0 (say_all (concat (map (\<lambda>r. [''# '' @ str_at r ''unit'' @ [newline] @ ''# '' @ str_at r ''path'', str_at r ''text'']) (rows_of v)))))"

definition show_lines :: "'d outside \<Rightarrow> str list \<Rightarrow> bool \<Rightarrow> (str \<times> json) list \<Rightarrow> str list" where
  "show_lines ox props value_only kvs =
     map (\<lambda>(k, x). let vs = (case as_str x of Some t \<Rightarrow> t | None \<Rightarrow> o_print ox x) in if value_only then vs else k @ ''='' @ vs)
       (filter (\<lambda>(k, x). props = [] \<or> List.member props k) kvs) @ [[]]"

fun show_rows :: "'d outside \<Rightarrow> str list \<Rightarrow> bool \<Rightarrow> json list \<Rightarrow> ('d, unit) act" where
  "show_rows ox props value_only [] = ct_ok ()"
| "show_rows ox props value_only (r # rs) =
     (case r of
        JObj kvs \<Rightarrow> ct_then (say_all (show_lines ox props value_only kvs)) (\<lambda>_. show_rows ox props value_only rs)
      | _ \<Rightarrow> ct_panic)"

definition cmd_show :: "'d outside \<Rightarrow> cli \<Rightarrow> str list \<Rightarrow> str list \<Rightarrow> bool \<Rightarrow> ('d, int) act" where
  "cmd_show ox c us props value = ct_then (op_with ox c ''show'' [(''units'', jstrs (normalized us)), (''properties'', jstrs props)]) (\<lambda>v.
     exit_with 0 (show_rows ox props (value \<or> props \<noteq> []) (rows_of v)))"

definition parse_records :: "'d outside \<Rightarrow> json \<Rightarrow> str + journal_record list" where
  "parse_records ox v =
     (let rs = (case jget v ''records'' of Some r \<Rightarrow> r | None \<Rightarrow> JArr []) in
      case jlist json_record rs of Some records \<Rightarrow> Inr records | None \<Rightarrow> Inl (''bad journal response: '' @ o_bad ox rs))"

definition journal_line :: "journal_record \<Rightarrow> str" where
  "journal_line r = fmt_ts (jc_secs r) @ ''  '' @ pad 24 (jc_unit r) @ '' '' @ jc_text r"

definition journal_request :: "str option \<Rightarrow> nat option \<Rightarrow> nat option \<Rightarrow> (str \<times> json) list" where
  "journal_request unit since tail =
     opt_field ''unit'' (map_option JStr unit) @ opt_field ''since'' (map_option jnat since) @ opt_field ''tail'' (map_option jnat tail)"

definition last_secs :: "journal_record list \<Rightarrow> nat option \<Rightarrow> nat option" where
  "last_secs rs old = (if rs = [] then old else Some (jc_secs (last rs)))"

text \<open>One round of \<open>--follow\<close>: half a second later, the records after the last second seen.\<close>

definition follow_round :: "'d outside \<Rightarrow> cli \<Rightarrow> str option \<Rightarrow> nat option \<Rightarrow> ('d, nat option) act" where
  "follow_round ox c unit seen t =
     ct_then (op_with ox c ''journal'' (journal_request unit (map_option Suc seen) None)) (\<lambda>v.
       ct_then (ct_lift (parse_records ox v)) (\<lambda>rs.
         ct_then (say_all (map journal_line rs)) (\<lambda>_. ct_ok (last_secs rs seen))))
       (t\<lparr>ct_world := o_pause ox 500 (ct_world t)\<rparr>)"

partial_function (option) follow_loop ::
    "'d outside \<Rightarrow> cli \<Rightarrow> str option \<Rightarrow> nat option \<Rightarrow> 'd ctl \<Rightarrow> ((cli_stop + int) \<times> 'd ctl) option" where
  "follow_loop ox c unit seen t =
     (case follow_round ox c unit seen t of
        None \<Rightarrow> None
      | Some (r, t1) \<Rightarrow> (case r of Inl e \<Rightarrow> Some (Inl e, t1) | Inr seen1 \<Rightarrow> follow_loop ox c unit seen1 t1))"

definition cmd_journal :: "'d outside \<Rightarrow> cli \<Rightarrow> str option \<Rightarrow> nat option \<Rightarrow> bool \<Rightarrow> nat option \<Rightarrow> ('d, int) act" where
  "cmd_journal ox c unit lines follow_on since =
     ct_then (op_with ox c ''journal'' (journal_request unit since lines)) (\<lambda>v.
       ct_then (ct_lift (parse_records ox v)) (\<lambda>rs.
         ct_then (say_all (map journal_line rs @ [''# journal: '' @ field_or [] v ''dir''])) (\<lambda>_.
           if follow_on then follow_loop ox c unit (last_secs rs since) else ct_ok 0)))"

definition cmd_repo :: "'d outside \<Rightarrow> cli \<Rightarrow> ('d, int) act" where
  "cmd_repo ox c = ct_then (simple_op ox c ''repo'') (\<lambda>v.
     let root = field_or [] v ''root'';
         roots = (case Option.bind (jget v ''roots'') as_array of Some a \<Rightarrow> List.map_filter as_str a | None \<Rightarrow> [])
     in ct_then (say (''Repository: '' @ root)) (\<lambda>_.
        ct_then (ct_read (\<lambda>d. bnd (open_roots (if roots = [] then [root] else roots)) (repo_list (o_disk ox d)))) (\<lambda>r.
          case r of
            Inl e \<Rightarrow> ct_fail (show_repo_error e)
          | Inr units \<Rightarrow> exit_with 0 (say_all ((''Units:      '' @ show_nat (length units)) #
              map (\<lambda>u. ''  '' @ pad 24 (ud_name u) @ '' '' @ kind_suffix (ud_kind u)) units)))))"

section \<open>Dispatch\<close>

definition queued :: "'d outside \<Rightarrow> cli \<Rightarrow> str \<Rightarrow> str list \<Rightarrow> job_options \<Rightarrow> ('d, int) act" where
  "queued ox c op us opts = exit_with 0 (units_op_with_options ox c op us opts)"

definition cmd_is_system_running :: "'d outside \<Rightarrow> cli \<Rightarrow> ('d, int) act" where
  "cmd_is_system_running ox c = ct_then (simple_op ox c ''is_system_running'') (\<lambda>v.
     if Option.bind (jget v ''degraded'') as_bool = Some True then exit_with 1 (say ''degraded'') else exit_with 0 (say ''running''))"

fun cli_dispatch :: "'d outside \<Rightarrow> cli \<Rightarrow> command \<Rightarrow> ('d, int) act" where
  "cli_dispatch ox c CmdVersion = ct_ok 0"
| "cli_dispatch ox c (CmdStart opts us) = queued ox c ''start'' us opts"
| "cli_dispatch ox c (CmdStop opts us) = queued ox c ''stop'' us opts"
| "cli_dispatch ox c (CmdRestart opts us) = queued ox c ''restart'' us opts"
| "cli_dispatch ox c (CmdTryRestart opts us) = queued ox c ''try_restart'' us opts"
| "cli_dispatch ox c (CmdRestartOrStart us) = exit_with 0 (units_op ox c ''restart_or_start'' us)"
| "cli_dispatch ox c (CmdReload us) = exit_with 0 (units_op ox c ''reload'' us)"
| "cli_dispatch ox c (CmdMask us) = exit_with 0 (units_op ox c ''mask'' us)"
| "cli_dispatch ox c (CmdUnmask us) = exit_with 0 (units_op ox c ''unmask'' us)"
| "cli_dispatch ox c (CmdResetFailed us) = exit_with 0 (units_op ox c ''reset_failed'' us)"
| "cli_dispatch ox c (CmdReenable us) = cmd_reenable ox c us"
| "cli_dispatch ox c (CmdClean us) = cmd_clean ox c us"
| "cli_dispatch ox c (CmdListDependencies u rv) = cmd_list_dependencies ox c u rv"
| "cli_dispatch ox c (CmdListSockets no_legend al) = cmd_list_sockets ox c no_legend"
| "cli_dispatch ox c (CmdKill u sig) = cmd_kill ox c u sig"
| "cli_dispatch ox c (CmdStatus us full) = cmd_status ox c us"
| "cli_dispatch ox c (CmdIsActive us) = cmd_is_active ox c us"
| "cli_dispatch ox c (CmdIsFailed us) = cmd_is_failed ox c us"
| "cli_dispatch ox c (CmdIsEnabled us) = cmd_is_enabled ox c us"
| "cli_dispatch ox c (CmdEnable us now) = cmd_enable ox c us now"
| "cli_dispatch ox c (CmdDisable us now) = cmd_disable ox c us now"
| "cli_dispatch ox c CmdDaemonReload = exit_with 0 (simple_op ox c ''daemon_reload'')"
| "cli_dispatch ox c CmdDaemonReexec = exit_with 0 (simple_op ox c ''daemon_reexec'')"
| "cli_dispatch ox c CmdListJobs = cmd_list_jobs ox c"
| "cli_dispatch ox c (CmdLogLevel l) = cmd_log_level ox c l"
| "cli_dispatch ox c (CmdListUnits types st no_legend plain) =
     cmd_list_units ox c (case types of Some ts \<Rightarrow> ts | None \<Rightarrow> []) st no_legend"
| "cli_dispatch ox c (CmdListUnitFiles no_legend) = cmd_list_unit_files ox c no_legend"
| "cli_dispatch ox c (CmdListTimers no_legend al) = cmd_list_timers ox c no_legend"
| "cli_dispatch ox c (CmdCat us) = cmd_cat ox c us"
| "cli_dispatch ox c (CmdShow us props value) = cmd_show ox c us props value"
| "cli_dispatch ox c CmdGetDefault =
     ct_then (simple_op ox c ''get_default'') (\<lambda>v. exit_with 0 (say (str_or ''default.target'' v)))"
| "cli_dispatch ox c CmdRepo = cmd_repo ox c"
| "cli_dispatch ox c (CmdJournal u lines follow_on since) = cmd_journal ox c u lines follow_on since"
| "cli_dispatch ox c (CmdJournalctl u lines follow_on since priority) =
     (if priority \<noteq> None then ct_fail ''--priority is not yet supported'' else cmd_journal ox c u lines follow_on since)"
| "cli_dispatch ox c (CmdSetDefault u) = exit_with 0 (op_with ox c ''set_default'' [(''name'', JStr (normalize_unit u))])"
| "cli_dispatch ox c (CmdIsolate u) = exit_with 0 (op_with ox c ''isolate'' [(''name'', JStr (normalize_unit u))])"
| "cli_dispatch ox c CmdIsSystemRunning = cmd_is_system_running ox c"
| "cli_dispatch ox c CmdPoweroff = exit_with 0 (simple_op ox c ''shutdown'')"
| "cli_dispatch ox c (CmdEdit us) = ct_fail ''edit is not implemented''"
| "cli_dispatch ox c (CmdPreset us) = ct_fail ''preset is not implemented''"
| "cli_dispatch ox c (CmdLink us) = ct_fail ''link is not implemented''"
| "cli_dispatch ox c (CmdRevert us) = ct_fail ''revert is not implemented''"
| "cli_dispatch ox c (CmdCancel us) = ct_fail ''cancel is not implemented''"
| "cli_dispatch ox c (CmdCompletions sh) = (\<lambda>t. Some (Inr 0, t\<lparr>ct_out := ct_out t @ o_completions ox sh\<rparr>))"

text \<open>The exit code, and what the process leaves behind. A panic exits with 101.\<close>

definition cli_run :: "'d outside \<Rightarrow> cli \<Rightarrow> 'd ctl \<Rightarrow> (int \<times> 'd ctl) option" where
  "cli_run ox c t =
     (if cl_cmd c = CmdVersion then Some (0, t\<lparr>ct_out := ct_out t @ ''rystemctl '' @ o_version ox @ [newline]\<rparr>)
      else case cli_dispatch ox c (cl_cmd c) t of
        None \<Rightarrow> None
      | Some (Inr n, t1) \<Rightarrow> Some (n, t1)
      | Some (Inl (CliFailed e), t1) \<Rightarrow> Some (1, t1\<lparr>ct_err := ct_err t1 @ o_paint ox Red ''Failed:'' @ '' '' @ e @ [newline]\<rparr>)
      | Some (Inl CliPanicked, t1) \<Rightarrow> Some (101, t1))"

end
