(* ===== verification/Cli_Date.thy ===== *)
theory Cli_Date
  imports Cli
begin

text \<open>
  The dates of the client's time stamps: \<open>civil_from_days\<close>, which computes with the 400-year cycle from
  1 March, is the calendar gone through day by day.
\<close>

section \<open>Dates\<close>

fun next_day :: "int \<times> nat \<times> nat \<Rightarrow> int \<times> nat \<times> nat" where
  "next_day (y, m, d) =
     (if d < days_in_month y m then (y, m, d + 1) else if m < 12 then (y, m + 1, 1) else (y + 1, 1, 1))"

primrec civil_day :: "nat \<Rightarrow> int \<times> nat \<times> nat" where
  "civil_day 0 = (1970, 1, 1)"
| "civil_day (Suc n) = next_day (civil_day n)"

text \<open>Years from March to February: year and day of a day of the 400-year cycle, and the first day of a year.\<close>

definition year_of :: "nat \<Rightarrow> nat" where
  "year_of doe = (doe - doe div 1460 + doe div 36524 - doe div 146096) div 365"

definition year_start :: "nat \<Rightarrow> nat" where
  "year_start y = 365 * y + y div 4 - y div 100 + y div 400"

definition month_day :: "nat \<Rightarrow> nat \<times> nat" where
  "month_day doy = (let mp = (5 * doy + 2) div 153 in (if mp < 10 then mp + 3 else mp - 9, doy - (153 * mp + 2) div 5 + 1))"

definition long_year :: "nat \<Rightarrow> bool" where
  "long_year y \<longleftrightarrow> (y + 1) mod 4 = 0 \<and> (y + 1) mod 100 \<noteq> 0 \<or> (y + 1) mod 400 = 0"

lemma cycle_split:
  fixes c q r :: nat
  assumes "c \<le> 3" "q \<le> 24" "r < 1461" "1461 * q + r < 36524"
  shows "(36524 * c + 1461 * q + r) div 1460 = 25 * c + q + (24 * c + q + r) div 1460"
    and "(36524 * c + 1461 * q + r) div 36524 = c"
    and "(36524 * c + 1461 * q + r) div 146096 = 0"
proof -
  have "36524 * c + 1461 * q + r = (24 * c + q + r) + 1460 * (25 * c + q)" by simp
  then show "(36524 * c + 1461 * q + r) div 1460 = 25 * c + q + (24 * c + q + r) div 1460"
    by simp
  have "36524 * c + 1461 * q + r = (1461 * q + r) + 36524 * c" by simp
  then show "(36524 * c + 1461 * q + r) div 36524 = c" using assms(4) by simp
  have "36524 * c \<le> 36524 * 3" using assms(1) by simp
  with assms(4) have "36524 * c + 1461 * q + r < 146096" by linarith
  then show "(36524 * c + 1461 * q + r) div 146096 = 0" by simp
qed

lemma year_of_cycle:
  fixes c q r :: nat
  assumes "c \<le> 3" "q \<le> 24" "r < 1461" "1461 * q + r < 36524"
  shows "year_of (36524 * c + 1461 * q + r) = 100 * c + 4 * q + min 3 (r div 365)"
proof -
  define e where "e = (24 * c + q + r) div 1460"
  have e: "e = 0 \<and> 24 * c + q + r < 1460 \<or> e = 1 \<and> 1460 \<le> 24 * c + q + r" using assms by (auto simp: e_def)
  have "36524 * c + 1461 * q + r - (25 * c + q + e) + c - 0 = (r - e) + 365 * (100 * c + 4 * q)"
    using e assms(1,2) by (elim disjE conjE) simp_all
  then have "year_of (36524 * c + 1461 * q + r) = (r - e) div 365 + (100 * c + 4 * q)"
    unfolding year_of_def cycle_split [OF assms] e_def [symmetric] by simp
  also have "(r - e) div 365 = min 3 (r div 365)"
    using assms(1-3) e by linarith
  finally show ?thesis by simp
qed

lemma year_start_cycle:
  assumes "q \<le> 24" "a \<le> 3" "c \<le> 3"
  shows "year_start (100 * c + 4 * q + a) = 36524 * c + 1461 * q + 365 * a"
proof -
  have "(100 * c + 4 * q + a) div 4 = 25 * c + q" using assms by linarith
  moreover have "(100 * c + 4 * q + a) div 100 = c" using assms by linarith
  moreover have "(100 * c + 4 * q + a) div 400 = 0" using assms by linarith
  ultimately show ?thesis by (simp add: year_start_def)
qed

text \<open>The day lies in its year.\<close>

lemma year_of_bounds:
  assumes "doe < 146097"
  shows "year_of doe < 400" "year_start (year_of doe) \<le> doe" "doe - year_start (year_of doe) \<le> 365"
    "doe - year_start (year_of doe) = 365 \<longrightarrow> long_year (year_of doe)"
proof -
  have "year_of doe < 400 \<and> year_start (year_of doe) \<le> doe \<and> doe - year_start (year_of doe) \<le> 365 \<and>
    (doe - year_start (year_of doe) = 365 \<longrightarrow> long_year (year_of doe))"
  proof (cases "doe = 146096")
    case True
    then show ?thesis by (simp add: year_of_def year_start_def long_year_def)
  next
    case False
    define c where "c = doe div 36524"
    define q where "q = doe mod 36524 div 1461"
    define r where "r = doe mod 36524 mod 1461"
    define a where "a = min 3 (r div 365)"
    have d: "doe = 36524 * c + 1461 * q + r" by (simp add: c_def q_def r_def)
    have b: "c \<le> 3" "q \<le> 24" "r < 1461" "1461 * q + r < 36524"
      using False assms by (simp_all add: c_def q_def r_def)
    have y: "year_of doe = 100 * c + 4 * q + a" unfolding d a_def by (rule year_of_cycle [OF b])
    have a: "a \<le> 3" "365 * a \<le> r" by (simp_all add: a_def min_def, linarith?)
    have s: "year_start (year_of doe) = 36524 * c + 1461 * q + 365 * a" unfolding y by (rule year_start_cycle [OF b(2) a(1) b(1)])
    have doy: "r - 365 * a \<le> 365" "r - 365 * a = 365 \<longrightarrow> a = 3 \<and> r = 1460" using b(3) by (auto simp: a_def min_def)
    have l: "long_year (100 * c + 4 * q + 3)" if "r = 1460"
    proof (cases "q = 24")
      case True
      with b(4) that show ?thesis by simp
    next
      case False
      then have q: "q \<le> 23" using b(2) by simp
      have "100 * c + 4 * q + 3 + 1 = 4 * (25 * c + q + 1)" by simp
      then have m4: "(100 * c + 4 * q + 3 + 1) mod 4 = 0" by simp
      have "100 * c + 4 * q + 3 + 1 = (4 * q + 4) + 100 * c" by simp
      then have "(100 * c + 4 * q + 3 + 1) mod 100 = (4 * q + 4) mod 100" by (simp only: mod_mult_self2)
      also have "\<dots> = 4 * q + 4" using q by simp
      finally show ?thesis using m4 by (simp add: long_year_def)
    qed
    have e: "doe - year_start (year_of doe) = r - 365 * a" using s d a(2) by linarith
    have y4: "year_of doe < 400" unfolding y using a(1) b(1,2) by linarith
    have le: "year_start (year_of doe) \<le> doe" using s d a(2) by linarith
    have "long_year (year_of doe)" if "r - 365 * a = 365" unfolding y using that doy(2) l by simp
    then show ?thesis unfolding e using y4 le doy(1) by blast
  qed
  then show "year_of doe < 400" "year_start (year_of doe) \<le> doe" "doe - year_start (year_of doe) \<le> 365"
    "doe - year_start (year_of doe) = 365 \<longrightarrow> long_year (year_of doe)" by blast+
qed

lemma year_start_Suc: "year_start (Suc y) = year_start y + (if long_year y then 366 else 365)"
proof -
  have d: "Suc y mod 400 = 0 \<Longrightarrow> Suc y mod 100 = 0" "Suc y mod 100 = 0 \<Longrightarrow> Suc y mod 4 = 0"
    using dvd_trans [of 100 400 "Suc y"] dvd_trans [of 4 100 "Suc y"] by (simp_all add: mod_eq_0_iff_dvd)
  have le: "y div 100 \<le> y div 4" by (rule div_le_mono2) simp_all
  have "Suc y div 4 = y div 4 + (if Suc y mod 4 = 0 then 1 else 0)" "Suc y div 100 = y div 100 + (if Suc y mod 100 = 0 then 1 else 0)"
    "Suc y div 400 = y div 400 + (if Suc y mod 400 = 0 then 1 else 0)" by (simp_all add: div_Suc)
  then obtain a b c where abc: "a = (if Suc y mod 4 = 0 then 1 else 0)" "b = (if Suc y mod 100 = 0 then 1 else 0)"
    "c = (if Suc y mod 400 = 0 then 1 else 0)" "Suc y div 4 = y div 4 + a" "Suc y div 100 = y div 100 + b" "Suc y div 400 = y div 400 + c"
    by blast
  have "c \<le> b" "b \<le> a" "a \<le> 1" using d by (simp_all add: abc(1-3))
  moreover have "long_year y \<longleftrightarrow> a = 1 \<and> b = 0 \<or> c = 1" by (simp add: long_year_def abc(1-3))
  ultimately have l: "(if long_year y then 366 else 365) + b = 365 + a + c" by auto
  obtain t where t: "y div 4 = y div 100 + t" using le by (auto simp: le_iff_add)
  obtain u where u: "a = b + u" using \<open>b \<le> a\<close> by (auto simp: le_iff_add)
  have "year_start (Suc y) = 365 * Suc y + t + u + (y div 400 + c)" unfolding year_start_def abc(4-6) t u by simp
  moreover have "year_start y = 365 * y + t + y div 400" unfolding year_start_def t by simp
  ultimately show ?thesis using l u by simp
qed

lemma year_start_mono: "a \<le> b \<Longrightarrow> year_start a \<le> year_start b"
  by (rule lift_Suc_mono_le) (simp_all add: year_start_Suc)

lemma year_unique:
  assumes "year_start y \<le> n" "n < year_start (Suc y)" "year_start x \<le> n" "n < year_start (Suc x)"
  shows "y = x"
  using assms year_start_mono [of "Suc y" x] year_start_mono [of "Suc x" y] by linarith

lemma year_of_unique:
  assumes "doe < 146097" "year_start y \<le> doe" "doe < year_start (Suc y)"
  shows "year_of doe = y"
  using year_of_bounds [OF assms(1)] by (intro year_unique [OF _ _ assms(2,3)]) (auto simp: year_start_Suc)

lemma month_table:
  assumes "doy \<le> 365"
  shows "month_day doy = (if doy < 31 then (3, doy + 1) else if doy < 61 then (4, doy - 30) else if doy < 92 then (5, doy - 60)
    else if doy < 122 then (6, doy - 91) else if doy < 153 then (7, doy - 121) else if doy < 184 then (8, doy - 152)
    else if doy < 214 then (9, doy - 183) else if doy < 245 then (10, doy - 213) else if doy < 275 then (11, doy - 244)
    else if doy < 306 then (12, doy - 274) else if doy < 337 then (1, doy - 305) else (2, doy - 336))"
proof -
  define k where "k = (5 * doy + 2) div 153"
  have b: "153 * k \<le> 5 * doy + 2" "5 * doy + 2 < 153 * k + 153" unfolding k_def by linarith+
  with assms have "k < 12" by simp
  then have "k = 0 \<or> k = 1 \<or> k = 2 \<or> k = 3 \<or> k = 4 \<or> k = 5 \<or> k = 6 \<or> k = 7 \<or> k = 8 \<or> k = 9 \<or> k = 10 \<or> k = 11"
    by (auto simp: eval_nat_numeral less_Suc_eq)
  then show ?thesis
    unfolding month_day_def k_def [symmetric] Let_def by (elim disjE) (use b in \<open>simp_all\<close>)
qed

text \<open>Within a year, the next day of the year is the next day of the month.\<close>

lemma day_steps_year:
  assumes "doy < 365" "month_day doy = (m, d)" "month_day (Suc doy) = (m', d')"
  shows "if d < (if m = 2 then 29 else days_in_month 1 m) then m' = m \<and> d' = d + 1 else m' = (if m < 12 then m + 1 else 1) \<and> d' = 1"
proof -
  have r: "doy \<le> 365" "Suc doy \<le> 365" using assms(1) by simp_all
  show ?thesis using assms(2,3) unfolding month_table [OF r(1)] month_table [OF r(2)]
    using assms(1) by (simp split: if_splits) (auto simp: days_in_month_def)
qed

definition civil_at :: "nat \<Rightarrow> int \<times> nat \<times> nat" where
  "civil_at z = (let doe = z mod 146097; y = year_of doe; (m, d) = month_day (doe - year_start y); Y = int y + int (z div 146097) * 400
     in (if m \<le> 2 then Y + 1 else Y, m, d))"

lemma leap_year: "days_in_month (int y + int e * 400 + 1) 2 = (if long_year y then 29 else 28)"
proof -
  have m: "(int y + int e * 400 + 1) mod k = int ((y + 1) mod nat k)" if "k dvd 400" "0 < k" for k
  proof -
    from that(1) obtain j where "400 = k * j" by (rule dvdE)
    then have "int y + int e * 400 + 1 = int (y + 1) + k * (int e * j)" by (simp add: ac_simps)
    then have "(int y + int e * 400 + 1) mod k = int (y + 1) mod k" by (simp only: mod_mult_self2)
    then show ?thesis using that(2) by (simp add: zmod_int)
  qed
  show ?thesis using m [of 4] m [of 100] m [of 400] by (auto simp: days_in_month_def long_year_def)
qed

lemma days_in_other_month: "m \<noteq> 2 \<Longrightarrow> days_in_month y m = days_in_month 1 m"
  by (simp add: days_in_month_def)

lemma civil_at_year:
  assumes "doe < 146097" "year_start y \<le> doe" "doe < year_start (Suc y)"
  shows "civil_at (146097 * e + doe) = (let (m, d) = month_day (doe - year_start y); Y = int y + int e * 400 in (if m \<le> 2 then Y + 1 else Y, m, d))"
proof -
  have "year_of doe = y" by (rule year_of_unique [OF assms])
  with assms(1) show ?thesis by (simp add: civil_at_def Let_def case_prod_beta)
qed

lemma month_day_range: "doy \<le> 365 \<Longrightarrow> fst (month_day doy) \<in> {1..12}"
  by (simp add: month_table)

lemma february: "doy < 365 \<Longrightarrow> month_day doy = (2, d) \<Longrightarrow> d \<le> 28 \<and> (d = 28 \<longrightarrow> doy = 364)"
  by (simp add: month_table split: if_splits) linarith

text \<open>The step inside a year, and over its end.\<close>

lemma civil_step_inside:
  assumes "doe < 146096" "year_start y \<le> doe" "Suc doe < year_start (Suc y)"
  shows "civil_at (146097 * e + Suc doe) = next_day (civil_at (146097 * e + doe))"
proof -
  define doy where "doy = doe - year_start y"
  obtain m d where md: "month_day doy = (m, d)" by fastforce
  obtain m' d' where md': "month_day (Suc doy) = (m', d')" by fastforce
  have s: "Suc doe - year_start y = Suc doy" using assms(2) by (simp add: doy_def Suc_diff_le)
  have doy: "doy < 365" "Suc doy = 365 \<longrightarrow> long_year y"
    using assms(2,3) by (auto simp: doy_def year_start_Suc split: if_splits)
  have r: "1 \<le> m" "m \<le> 12" using month_day_range [of doy] doy(1) md by simp_all
  have steps: "if d < (if m = 2 then 29 else days_in_month 1 m) then m' = m \<and> d' = d + 1 else m' = (if m < 12 then m + 1 else 1) \<and> d' = 1"
    by (rule day_steps_year [OF doy(1) md md'])
  have at: "civil_at (146097 * e + doe) = (if m \<le> 2 then int y + int e * 400 + 1 else int y + int e * 400, m, d)"
    "civil_at (146097 * e + Suc doe) = (if m' \<le> 2 then int y + int e * 400 + 1 else int y + int e * 400, m', d')"
    using civil_at_year [of doe y e] civil_at_year [of "Suc doe" y e] assms s by (simp_all add: doy_def [symmetric] md md')
  show ?thesis
  proof (cases "m = 2")
    case True
    then have "d \<le> 28" "d = 28 \<longrightarrow> long_year y" using february [OF doy(1)] md doy(2) by auto
    then have "d < days_in_month (int y + int e * 400 + 1) 2" unfolding leap_year by auto
    moreover have "m' = 2" "d' = d + 1" using steps \<open>d \<le> 28\<close> True by simp_all
    ultimately show ?thesis unfolding at True by simp
  next
    case False
    define l where "l = days_in_month 1 m"
    have dim: "days_in_month y' m = l" for y' unfolding l_def by (rule days_in_other_month [OF False])
    show ?thesis unfolding at using steps r False by (cases "d < l") (auto simp: dim l_def [symmetric])
  qed
qed

lemma last_day: "month_day 364 = (2, 28)" "month_day 365 = (2, 29)" "month_day 0 = (3, 1)"
  by (simp_all add: month_day_def)

lemma civil_step_over:
  assumes "doe < 146096" "year_start y \<le> doe" "Suc doe = year_start (Suc y)"
  shows "civil_at (146097 * e + Suc doe) = next_day (civil_at (146097 * e + doe))"
proof -
  have d: "doe - year_start y = (if long_year y then 365 else 364)" "doe < year_start (Suc y)" "Suc doe < year_start (Suc (Suc y))"
    using assms(2,3) by (simp_all add: year_start_Suc split: if_splits)
  have lt: "doe < 146097" "Suc doe < 146097" "year_start (Suc y) \<le> Suc doe" using assms(1,3) by simp_all
  have "civil_at (146097 * e + doe) = (int y + int e * 400 + 1, 2, if long_year y then 29 else 28)"
    unfolding civil_at_year [OF lt(1) assms(2) d(2)] d(1) by (simp add: last_day)
  moreover have "civil_at (146097 * e + Suc doe) = (int (Suc y) + int e * 400, 3, 1)"
    unfolding civil_at_year [OF lt(2,3) d(3)] using assms(3) by (simp add: last_day)
  moreover have "next_day (int y + int e * 400 + 1, 2, if long_year y then 29 else 28) = (int y + int e * 400 + 1, 3, 1)"
    by (simp only: next_day.simps leap_year) simp
  ultimately show ?thesis by simp
qed

lemma civil_step: "civil_at (Suc z) = next_day (civil_at z)"
proof -
  define e where "e = z div 146097"
  define doe where "doe = z mod 146097"
  define y where "y = year_of doe"
  have z: "z = 146097 * e + doe" and lt: "doe < 146097" by (simp_all add: e_def doe_def)
  note b = year_of_bounds [OF lt, folded y_def]
  have hi: "doe < year_start (Suc y)" using b by (auto simp: year_start_Suc)
  show ?thesis
  proof (cases "doe = 146096")
    case True
    then have y: "y = 399" by (simp add: y_def year_of_def)
    have "Suc z = 146097 * Suc e + 0" using True z by simp
    then have "civil_at (Suc z) = (int 0 + int (Suc e) * 400, 3, 1)"
      using civil_at_year [of 0 0 "Suc e"] by (simp add: year_start_def last_day)
    moreover have "civil_at z = (int 399 + int e * 400 + 1, 2, 29)"
      using civil_at_year [of doe y e] z lt b(2) hi True by (simp add: y year_start_def last_day)
    moreover have "days_in_month (int 399 + int e * 400 + 1) 2 = 29" unfolding leap_year by (simp add: long_year_def)
    ultimately show ?thesis by simp
  next
    case False
    with lt have l: "doe < 146096" by simp
    show ?thesis
    proof (cases "Suc doe < year_start (Suc y)")
      case True
      from civil_step_inside [OF l b(2) True, of e] z show ?thesis by simp
    next
      case False
      with hi have "Suc doe = year_start (Suc y)" by simp
      from civil_step_over [OF l b(2) this, of e] z show ?thesis by simp
    qed
  qed
qed

lemma civil_from_days_at: "civil_from_days (int n) = civil_at (n + 719468)"
proof -
  let ?z = "n + 719468"
  have era: "tdiv (int ?z) 146097 = int (?z div 146097)" by (simp add: tdiv_def zdiv_int)
  have "(int ?z - int (?z div 146097) * 146097) mod 2 ^ 64 = int (?z mod 146097)"
  proof -
    have "int ?z - int (?z div 146097) * 146097 = int (?z mod 146097)"
      by (metis minus_div_mult_eq_mod zdiv_int zmod_int of_nat_numeral)
    moreover have "int (?z mod 146097) < 146097" by simp
    ultimately show ?thesis by (simp del: of_nat_add)
  qed
  then have doe: "nat ((int ?z - int (?z div 146097) * 146097) mod 2 ^ 64) = ?z mod 146097" by simp
  have y: "year_of (?z mod 146097) div 400 = 0" using year_of_bounds(1) [of "?z mod 146097"] by simp
  have z: "int n + 719468 = int ?z" by simp
  have era': "tdiv (if int ?z \<ge> 0 then int ?z else int ?z - 146096) 146097 = int (?z div 146097)" using era by simp
  have "year_start (year_of (?z mod 146097)) =
      365 * year_of (?z mod 146097) + year_of (?z mod 146097) div 4 - year_of (?z mod 146097) div 100"
    by (simp only: year_start_def y add_0_right)
  then show ?thesis
    unfolding civil_from_days_def civil_at_def Let_def z era' doe year_of_def [symmetric] month_day_def by (simp only: prod.case)
qed

lemma civil_from_days_steps: "civil_from_days (int n) = civil_day n"
proof (induction n)
  case 0
  then show ?case by code_simp
next
  case (Suc n)
  have "civil_from_days (int (Suc n)) = civil_at (Suc (n + 719468))" using civil_from_days_at [of "Suc n"] by (simp only: add_Suc)
  also have "\<dots> = next_day (civil_day n)" by (simp only: civil_step civil_from_days_at [symmetric] Suc.IH)
  finally show ?case by (simp only: civil_day.simps)
qed

definition date_text :: "int \<times> nat \<times> nat \<Rightarrow> nat \<Rightarrow> str" where
  "date_text date secs = (case date of (y, m, d) \<Rightarrow>
     pad0 4 y @ ''-'' @ pad0 2 (int m) @ ''-'' @ pad0 2 (int d) @ '' '' @
     pad0 2 (int (secs div 3600)) @ '':'' @ pad0 2 (int (secs mod 3600 div 60)) @ '':'' @ pad0 2 (int (secs mod 60)))"

text \<open>C39. The time stamps of \<open>journal\<close> are dates: the text for a number of seconds since 1970, below
  \<open>2 ^ 63\<close>, shows the date reached from 1 January 1970 by going on one day of the Gregorian calendar for
  each 86400 seconds, with its leap years, and the time of day of the rest.\<close>

theorem fmt_ts_is_date:
  assumes "secs < 2 ^ 63"
  shows "fmt_ts secs = date_text (civil_day (secs div 86400)) (secs mod 86400)"
proof -
  have "to_i64 secs = int secs" using assms by (simp add: to_i64_def)
  then have "tdiv (to_i64 secs) 86400 = int (secs div 86400)" by (simp add: tdiv_def zdiv_int)
  moreover have "secs mod 86400 mod 60 = secs mod 60" by (simp add: mod_mod_cancel)
  ultimately show ?thesis
    by (simp add: fmt_ts_def date_text_def civil_from_days_steps Let_def split: prod.split)
qed

theorem fmt_ts_is_date_witness: "fmt_ts 951782400 = ''2000-02-29 00:00:00''"
proof -
  have "civil_day 11016 = civil_from_days (int 11016)" by (simp only: civil_from_days_steps)
  also have "\<dots> = (2000, 2, 29)" by code_simp
  finally have "civil_day 11016 = (2000, 2, 29)" .
  moreover have "date_text (2000, 2, 29) 0 = ''2000-02-29 00:00:00''" by code_simp
  ultimately show ?thesis using fmt_ts_is_date [of 951782400] by simp
qed

end
