(* ===== verification/Cli_Props.thy ===== *)
theory Cli_Props
  imports Cli Control_Props
begin

text \<open>
  Properties of the command line client: every command but those that follow the journal or change
  \<open>[Install]\<close> links comes to an exit, a start that succeeds has seen its jobs done, the states and exit codes of
  \<open>is-active\<close> are the manager's, and time stamps are dates. The interface to the surroundings is the locale
  \<open>running_clock\<close>: time does not stand still while the client sleeps.
\<close>

section \<open>Commands that return\<close>

locale running_clock =
  fixes ox :: "'d outside"
  assumes pause_runs: "o_instant ox d + n \<le> o_instant ox (o_pause ox n d)"
    and call_runs: "o_instant ox d \<le> o_instant ox (snd (o_call ox v d))"

definition ends_later :: "'d outside \<Rightarrow> ('d, 'a) act \<Rightarrow> bool" where
  "ends_later ox f \<longleftrightarrow> (\<forall>t. \<exists>r t1. f t = Some (r, t1) \<and> o_instant ox (ct_world t) \<le> o_instant ox (ct_world t1))"

named_theorems ending "steps that come to an end"

lemma ends_ok [ending]: "ends_later ox (ct_ok x)"
  by (simp add: ends_later_def ct_ok_def)

lemma ends_fail [ending]: "ends_later ox (ct_fail e)"
  by (simp add: ends_later_def ct_fail_def)

lemma ends_lift [ending]: "ends_later ox (ct_lift r)"
  by (cases r) (simp_all add: ct_lift_def ending)

lemma ends_need [ending]: "ends_later ox (ct_need e r)"
  by (cases r) (simp_all add: ct_need_def ending)

lemma ends_read [ending]: "ends_later ox (ct_read f)"
  by (simp add: ends_later_def ct_read_def)

lemma ends_say [ending]: "ends_later ox (say x)"
  by (simp add: ends_later_def say_def)

lemma ends_then [ending]:
  assumes "ends_later ox f" "\<And>x. ends_later ox (g x)"
  shows "ends_later ox (ct_then f g)"
  unfolding ends_later_def
proof
  fix t :: "'a ctl"
  from assms(1) [unfolded ends_later_def, rule_format, of t] obtain r t1
    where f: "f t = Some (r, t1)" "o_instant ox (ct_world t) \<le> o_instant ox (ct_world t1)" by blast
  show "\<exists>r t1. ct_then f g t = Some (r, t1) \<and> o_instant ox (ct_world t) \<le> o_instant ox (ct_world t1)"
  proof (cases r)
    case (Inr x)
    from assms(2) [of x, unfolded ends_later_def, rule_format, of t1] obtain r2 t2
      where "g x t1 = Some (r2, t2)" "o_instant ox (ct_world t1) \<le> o_instant ox (ct_world t2)" by blast
    with f Inr show ?thesis by (auto simp: ct_then_def)
  qed (use f in \<open>simp add: ct_then_def\<close>)
qed

lemma ends_exit [ending]: "ends_later ox f \<Longrightarrow> ends_later ox (exit_with n f)"
  by (simp add: exit_with_def ending)

lemma ends_if [ending]: "ends_later ox f \<Longrightarrow> ends_later ox g \<Longrightarrow> ends_later ox (if b then f else g)"
  by simp

lemma ends_each [ending]: "(\<And>x. ends_later ox (f x)) \<Longrightarrow> ends_later ox (ct_each f xs)"
  by (induction xs) (simp_all add: ending)

lemma ends_say_all [ending]: "ends_later ox (say_all xs)"
  by (simp add: say_all_def ending)

lemma ends_client [ending]: "ends_later ox (client_for ox c)"
  by (simp add: client_for_def ending)

lemma ends_panic [ending]: "ends_later ox ct_panic"
  by (simp add: ends_later_def ct_panic_def)

lemma ends_show_rows [ending]: "ends_later ox (show_rows ox' ps b rs)"
  by (induction rs) (simp_all add: ending split: json.split)

context running_clock
begin

lemma ends_ask [ending]: "ends_later ox (ask_daemon ox v)"
  unfolding ends_later_def
proof
  fix t :: "'d ctl"
  obtain r d where c: "o_call ox v (ct_world t) = (r, d)" by fastforce
  with call_runs [of "ct_world t" v] have "o_instant ox (ct_world t) \<le> o_instant ox d" by simp
  then show "\<exists>r t1. ask_daemon ox v t = Some (r, t1) \<and> o_instant ox (ct_world t) \<le> o_instant ox (ct_world t1)"
    by (cases r) (simp_all add: ask_daemon_def c ct_lift_def ct_fail_def ct_ok_def)
qed

lemma ends_op [ending]: "ends_later ox (op_with ox c op kvs)"
  by (simp add: op_with_def ending)

lemma ends_simple [ending]: "ends_later ox (simple_op ox c op)"
  by (simp add: simple_op_def ending)

lemma ends_units [ending]: "ends_later ox (units_op ox c op us)"
  by (simp add: units_op_def ending)

text \<open>A waiting loop asks at most once for every 20 milliseconds up to its deadline.\<close>

lemma poll_loop_ends:
  assumes "ends_later ox step"
  shows "\<exists>r t1. poll_loop ox limit msg step t = Some (r, t1) \<and> o_instant ox (ct_world t) \<le> o_instant ox (ct_world t1)"
proof (induction "limit - o_instant ox (ct_world t)" arbitrary: t rule: less_induct)
  case less
  from assms [unfolded ends_later_def, rule_format, of t] obtain r t1
    where s: "step t = Some (r, t1)" "o_instant ox (ct_world t) \<le> o_instant ox (ct_world t1)" by blast
  show ?case
  proof (cases "r = Inr None \<and> o_instant ox (ct_world t1) < limit")
    case True
    let ?t2 = "t1\<lparr>ct_world := o_pause ox 20 (ct_world t1)\<rparr>"
    have later: "o_instant ox (ct_world t1) + 20 \<le> o_instant ox (ct_world ?t2)" using pause_runs by simp
    with s(2) True have "limit - o_instant ox (ct_world ?t2) < limit - o_instant ox (ct_world t)" by linarith
    from less.hyps [OF this] later s True show ?thesis
      by (subst poll_loop.simps) (auto simp: not_le)
  next
    case False
    with s show ?thesis
      by (subst poll_loop.simps) (cases r; auto split: option.split)
  qed
qed

lemma ends_poll [ending]: "ends_later ox step \<Longrightarrow> ends_later ox (poll_for ox msg step)"
  unfolding ends_later_def [of ox "poll_for ox msg step"] poll_for_def using poll_loop_ends by blast

lemma ends_wait_jobs [ending]: "ends_later ox (wait_for_jobs ox c ids)"
  by (simp add: wait_for_jobs_def ending)

lemma ends_wait_units [ending]: "ends_later ox (wait_for_units ox c us)"
  by (simp add: wait_for_units_def ending)

lemma ends_wait_terminating [ending]: "ends_later ox (wait_for_terminating_units ox c us)"
  by (simp add: wait_for_terminating_units_def ending)

lemma ends_start_each [ending]: "ends_later ox (start_each_ignoring ox c us ids)"
  by (induction us arbitrary: ids) (simp_all add: ending)

lemma ends_queued [ending]: "ends_later ox (queued ox c op us opts)"
  by (simp add: queued_def units_op_with_options_def queue_jobs_def Let_def ending)

lemmas command_defs = cmd_clean_def cmd_list_dependencies_def cmd_list_sockets_def cmd_list_units_def cmd_kill_def
  cmd_status_def cmd_is_active_def cmd_is_failed_def cmd_is_enabled_def cmd_list_jobs_def cmd_log_level_def
  cmd_list_unit_files_def cmd_list_timers_def cmd_cat_def cmd_show_def cmd_repo_def cmd_is_system_running_def
  say_ok_def Let_def

end

text \<open>The commands that need not end: following the journal, and the three that walk \<open>Also=\<close>.\<close>

fun open_ended :: "command \<Rightarrow> bool" where
  "open_ended (CmdJournal u lines follow_on since) = follow_on"
| "open_ended (CmdJournalctl u lines follow_on since priority) = follow_on"
| "open_ended (CmdEnable us now) = True"
| "open_ended (CmdDisable us now) = True"
| "open_ended (CmdReenable us) = True"
| "open_ended _ = False"

context running_clock
begin

lemma dispatch_ends: "\<not> open_ended cmd \<Longrightarrow> ends_later ox (cli_dispatch ox c cmd)"
proof (cases cmd)
  case (CmdLogLevel l)
  then show ?thesis by (cases l) (simp_all add: command_defs ending split: option.split)
next
  case (CmdKill u sig)
  then show ?thesis by (cases sig) (simp_all add: command_defs ending)
next
  case (CmdJournal u lines f since)
  moreover assume "\<not> open_ended cmd"
  ultimately show ?thesis by (simp add: cmd_journal_def ending)
next
  case (CmdJournalctl u lines f since p)
  moreover assume "\<not> open_ended cmd"
  ultimately show ?thesis by (simp add: cmd_journal_def ending)
next
  case CmdRepo
  then show ?thesis by (auto simp: command_defs ending intro!: ends_then split: sum.split)
next
  case (CmdCompletions sh)
  then show ?thesis by (simp add: ends_later_def)
qed (simp_all add: command_defs ending)

end

text \<open>C37. Every command but following the journal and the three that change \<open>[Install]\<close> links comes to an
  exit code, whatever the daemon answers and however long its jobs take, if time goes on: the clock
  advances at least as long as the client sleeps, and does not go back during a request. The waits for jobs
  and units end at their deadline at the latest.\<close>

theorem client_returns:
  assumes "\<forall>d n. o_instant ox d + n \<le> o_instant ox (o_pause ox n d)"
    "\<forall>d v. o_instant ox d \<le> o_instant ox (snd (o_call ox v d))" "\<not> open_ended (cl_cmd c)"
  shows "\<exists>n t'. cli_run ox c t = Some (n, t')"
proof -
  have "running_clock ox" using assms(1,2) by (simp add: running_clock_def)
  then have "ends_later ox (cli_dispatch ox c (cl_cmd c))" by (rule running_clock.dispatch_ends [OF _ assms(3)])
  then obtain r t1 where "cli_dispatch ox c (cl_cmd c) t = Some (r, t1)"
    using ends_later_def [of ox "cli_dispatch ox c (cl_cmd c)"] by blast
  then show ?thesis by (cases r) (auto simp: cli_run_def split: cli_stop.split)
qed

section \<open>Against the manager\<close>

text \<open>The client connected to the manager of this development: requests are lines over the socket, and while
  the client sleeps the manager does whatever \<open>meanwhile\<close> says. A manager that dies in a request closes the
  connection without an answer.\<close>

definition manager_link :: "codec \<Rightarrow> env \<Rightarrow> (nat \<Rightarrow> server \<Rightarrow> server) \<Rightarrow> (server \<times> nat) outside \<Rightarrow> (server \<times> nat) outside" where
  "manager_link cd E meanwhile base = base\<lparr>
     o_call := (\<lambda>v d. case exchange cd E v (fst d) of
        Inl _ \<Rightarrow> (case read_response cd [] of Inl e \<Rightarrow> Inl e | Inr _ \<Rightarrow> Inl [], d)
      | Inr (r, s1) \<Rightarrow> (r, (s1, snd d))),
     o_pause := (\<lambda>n d. (meanwhile n (fst d), snd d + n)),
     o_instant := snd,
     o_disk := (\<lambda>d. sv_fs (fst d)),
     o_set_disk := (\<lambda>fs d. ((fst d)\<lparr>sv_fs := fs\<rparr>, snd d))\<rparr>"

interpretation link: running_clock "manager_link cd E meanwhile base" for cd E meanwhile base
  by unfold_locales (auto simp: manager_link_def split: sum.split)

lemma exchange_true:
  assumes "codec_ok cd" "exchange cd E req s = Inr (Inr v, s1)"
  shows "run_op E (req_str req ''op'') req s = Inr (Inr v, s1)"
proof (cases "answer_fits cd E req s")
  case True
  with assms exchange_runs show ?thesis by simp
next
  case False
  then obtain r s2 where r: "run_op E (req_str req ''op'') req s = Inr (r, s2)" "\<not> length (cd_print cd (response_json r)) < max_pending_response"
    by (auto simp: answer_fits_def)
  let ?p = "cd_print cd req"
  have p: "cd_parse cd ?p = Inr req" "newline \<notin> set ?p" using assms(1) by (simp_all add: codec_ok_def)
  have "find_idx (\<lambda>b. b = newline) (?p @ newline # []) = Some (length ?p)" using p(2) by (intro find_idx_append) auto
  then have d: "drain_client cd E [Data (?p @ [newline])] \<lparr>cl_buffer = [], cl_out = None\<rparr> s =
      Inr (Some \<lparr>cl_buffer = [], cl_out = Some (response_text cd (response_json r))\<rparr>, s2)"
    by (simp add: drain_client_def dispatch_line_def p bnd_assoc r(1))
  obtain e where "response_text cd (response_json r) = cd_print cd (response_json (Inl e)) @ [newline]"
    using r(2) by (auto simp: response_text_def response_json_def Let_def)
  with assms(2) d read_response_ok [OF assms(1), of "Inl e"] show ?thesis by (simp add: exchange_def sent_out_def)
qed

lemma ask_link:
  assumes "codec_ok cd" "ask_daemon (manager_link cd E meanwhile base) v t = Some (Inr x, t1)"
  shows "run_op E (req_str v ''op'') v (fst (ct_world t)) = Inr (Inr x, fst (ct_world t1))" "snd (ct_world t1) = snd (ct_world t)"
proof -
  obtain s1 where e: "exchange cd E v (fst (ct_world t)) = Inr (Inr x, s1)" "t1 = t\<lparr>ct_world := (s1, snd (ct_world t))\<rparr>"
    using assms(2) by (auto simp: ask_daemon_def manager_link_def ct_lift_def ct_fail_def ct_ok_def split: sum.splits)
  show "run_op E (req_str v ''op'') v (fst (ct_world t)) = Inr (Inr x, fst (ct_world t1))"
    using exchange_true [OF assms(1) e(1)] e(2) by simp
  show "snd (ct_world t1) = snd (ct_world t)" using e(2) by simp
qed

lemma ct_then_Some: "ct_then f g t = Some (Inr y, t2) \<longleftrightarrow> (\<exists>x t1. f t = Some (Inr x, t1) \<and> g x t1 = Some (Inr y, t2))"
  by (auto simp: ct_then_def split: option.split sum.split)

lemma client_for_Some: "client_for ox c t = Some (Inr pa, t1) \<Longrightarrow> t1 = t"
  by (auto simp: client_for_def ct_lift_def ct_ok_def ct_fail_def split: sum.splits)

text \<open>A waiting loop that succeeds has seen its condition.\<close>

lemma poll_loop_saw:
  assumes "poll_loop ox limit msg step t = Some (Inr (), t1)"
  shows "\<exists>t0. step t0 = Some (Inr (Some ()), t1)"
proof -
  have "\<And>t y. poll_loop ox limit msg step t = Some y \<Longrightarrow> fst y = Inr () \<longrightarrow> (\<exists>t0. step t0 = Some (Inr (Some ()), snd y))"
    by (erule poll_loop.raw_induct [rotated]) (auto split: option.splits sum.splits if_splits)
  from this [OF assms] show ?thesis by simp
qed

definition status_req :: "nat list \<Rightarrow> json" where
  "status_req ids = jobject [(''op'', JStr ''job_status''), (''job_ids'', JArr (map jnat ids))]"

lemma status_answer:
  assumes "list_all (\<lambda>j. j < 2 ^ 64) ids"
  shows "run_op E (req_str (status_req ids) ''op'') (status_req ids) s =
    Inr (Inr (JArr (map report_json (job_status_of (sv_mgr s) ids))), s)"
proof -
  have "req_str (status_req ids) ''op'' = Some ''job_status''" by (simp add: req_str_def status_req_def)
  moreover have "List.map_filter as_u64 (req_list (status_req ids) ''job_ids'') = ids"
    using assms by (induction ids) (auto simp: req_list_def status_req_def jnat_def List.map_filter_def)
  ultimately show ?thesis by (simp add: op_lookup answer_def sv_ok_def)
qed

lemma jobs_done:
  assumes "jobs_answer (JArr (map report_json (job_status_of m ids))) = Inr (Some ())" "j \<in> set ids"
  shows "get_job m j = None \<and> (case map_of (m_completed_jobs m) j of Some st \<Rightarrow> js_ok st | None \<Rightarrow> True)"
proof -
  let ?rows = "map report_json (job_status_of m ids)"
  have n: "\<not> list_ex (\<lambda>row. Option.bind (jget row ''state'') as_str = Some ''pending'') ?rows"
    "List.find (\<lambda>row. Option.bind (jget row ''ok'') as_bool = Some False) ?rows = None"
    using assms(1) by (auto simp: jobs_answer_def split: if_splits option.splits)
  show ?thesis
  proof (cases "get_job m j")
    case (Some b)
    then have "(j, JobPending (jb_unit b)) \<in> set (job_status_of m ids)"
      using assms(2) by (force simp: job_status_of_def List.map_filter_def)
    with n(1) show ?thesis by (fastforce simp: list_ex_iff report_json_def)
  next
    case None
    show ?thesis
    proof (cases "map_of (m_completed_jobs m) j")
      case (Some st)
      with None have "(j, JobDone st) \<in> set (job_status_of m ids)"
        using assms(2) by (force simp: job_status_of_def List.map_filter_def)
      with n(2) have "js_ok st" by (fastforce simp: find_None_iff report_json_def)
      with None Some show ?thesis by simp
    qed (use None in simp)
  qed
qed

definition small_ids :: "nat list \<Rightarrow> bool" where
  "small_ids ids \<longleftrightarrow> list_all (\<lambda>j. j < 2 ^ 64) ids"

lemma job_ids_small: "small_ids (job_ids_from v)"
proof -
  have "as_u64 x = Some j \<Longrightarrow> j < 2 ^ 64" for x j by (cases x) (auto split: if_splits)
  then show ?thesis by (auto simp: small_ids_def job_ids_from_def list_all_iff List.map_filter_def split: option.split)
qed

lemma start_each_small: "start_each_ignoring ox c us ids t = Some (Inr js, t1) \<Longrightarrow> small_ids ids \<Longrightarrow> small_ids js"
proof (induction us arbitrary: ids t)
  case (Cons u us)
  then obtain v t2 where "start_each_ignoring ox c us (ids @ job_ids_from v) t2 = Some (Inr js, t1)" by (auto simp: ct_then_Some)
  from Cons.IH [OF this] Cons.prems(2) job_ids_small [of v] show ?case by (simp add: small_ids_def)
qed (simp add: ct_ok_def)

lemma queue_jobs_small: "queue_jobs ox c op us opts t = Some (Inr ids, t1) \<Longrightarrow> small_ids ids"
  by (auto simp: queue_jobs_def ct_then_Some ct_ok_def job_ids_small small_ids_def [of "[]"] dest: start_each_small split: if_splits)

lemma wait_for_jobs_saw:
  assumes "codec_ok cd" "small_ids ids" "wait_for_jobs (manager_link cd E meanwhile base) c ids t = Some (Inr (), t1)" "j \<in> set ids"
  shows "get_job (sv_mgr (fst (ct_world t1))) j = None \<and>
    (case map_of (m_completed_jobs (sv_mgr (fst (ct_world t1)))) j of Some st \<Rightarrow> js_ok st | None \<Rightarrow> True)"
proof -
  let ?ox = "manager_link cd E meanwhile base"
  obtain t0 where "ct_then (op_with ?ox c ''job_status'' [(''job_ids'', JArr (map jnat ids))]) (\<lambda>v. ct_lift (jobs_answer v)) t0 = Some (Inr (Some ()), t1)"
    using assms(3) poll_loop_saw by (fastforce simp: wait_for_jobs_def ct_then_Some poll_for_def)
  then obtain v t2 where o: "op_with ?ox c ''job_status'' [(''job_ids'', JArr (map jnat ids))] t0 = Some (Inr v, t2)"
    "ct_lift (jobs_answer v) t2 = Some (Inr (Some ()), t1)" by (auto simp: ct_then_Some)
  then have v: "op_with ?ox c ''job_status'' [(''job_ids'', JArr (map jnat ids))] t0 = Some (Inr v, t1)" "jobs_answer v = Inr (Some ())"
    by (cases "jobs_answer v"; simp add: ct_lift_def ct_ok_def ct_fail_def)+
  then obtain t3 where "ask_daemon ?ox (status_req ids) t3 = Some (Inr v, t1)"
    by (auto simp: op_with_def ct_then_Some status_req_def)
  from ask_link(1) [OF assms(1) this] status_answer [OF assms(2) [unfolded small_ids_def], of E "fst (ct_world t3)"]
  have "v = JArr (map report_json (job_status_of (sv_mgr (fst (ct_world t1))) ids))" by auto
  with v(2) have "jobs_answer (JArr (map report_json (job_status_of (sv_mgr (fst (ct_world t1))) ids))) = Inr (Some ())" by simp
  from jobs_done [OF this assms(4)] show ?thesis .
qed

lemma op_with_system: "\<not> cl_user c \<Longrightarrow> op_with ox c op kvs = ask_daemon ox (jobject ((''op'', JStr op) # kvs))"
  by (simp add: op_with_def client_for_def cli_paths_def ct_lift_def ct_then_def ct_ok_def fun_eq_iff)

text \<open>The client on a demonstration machine.\<close>

definition demo_outside :: "(server \<times> nat) outside" where
  "demo_outside = \<lparr>o_call = (\<lambda>v d. (Inl [], d)), o_pause = (\<lambda>n d. d), o_instant = snd, o_epoch = snd, o_disk = (\<lambda>d. sv_fs (fst d)),
     o_set_disk = (\<lambda>fs d. d), o_env = (\<lambda>_. None), o_cwd = None, o_depth = 8, o_paint = (\<lambda>_ x. x), o_date = show_nat,
     o_print = (\<lambda>_. []), o_bad = (\<lambda>_. []), o_completions = (\<lambda>_. []), o_version = ''0''\<rparr>"

definition demo_link :: "json \<Rightarrow> json \<Rightarrow> (server \<times> nat) outside" where
  "demo_link v1 v2 = manager_link (pair_codec v1 v2) demo_env (\<lambda>_ s. s) demo_outside"

definition demo_cli :: "command \<Rightarrow> cli" where
  "demo_cli cmd = \<lparr>cl_user = False, cl_no_pager = False, cl_quiet = False, cl_no_block = False, cl_show_transaction = False, cl_cmd = cmd\<rparr>"

definition demo_ctl :: "(server \<times> nat) ctl" where
  "demo_ctl = \<lparr>ct_world = (demo_server, 0), ct_out = [], ct_err = []\<rparr>"

lemma demo_fits:
  assumes "run_op demo_env (req_str req ''op'') req s = Inr (r, s1)" "response_json r \<in> {v1, v2}"
  shows "answer_fits (pair_codec v1 v2) demo_env req s"
  using assms by (auto simp: answer_fits_def pair_codec_def max_pending_response_def)

lemma demo_ask:
  assumes "run_op demo_env (req_str req ''op'') req s = Inr (Inr x, s1)" "response_json (Inr x) \<in> {v1, v2}"
  shows "ask_daemon (demo_link v1 v2) req \<lparr>ct_world = (s, ms), ct_out = out, ct_err = errs\<rparr> =
    Some (Inr x, \<lparr>ct_world = (s1, ms), ct_out = out, ct_err = errs\<rparr>)"
  using exchange_runs [OF pair_codec_ok demo_fits [OF assms]] assms(1)
  by (simp add: ask_daemon_def demo_link_def manager_link_def ct_lift_def ct_ok_def)

theorem client_returns_witness:
  "\<exists>n t'. cli_run (demo_link JNull JNull) (demo_cli (CmdStart \<lparr>jo_wait = True, jo_mode = None\<rparr> [''basic.target''])) demo_ctl = Some (n, t')"
proof (rule client_returns)
  show "\<forall>d n. o_instant (demo_link JNull JNull) d + n \<le> o_instant (demo_link JNull JNull) (o_pause (demo_link JNull JNull) n d)"
    by (simp add: demo_link_def manager_link_def)
  show "\<forall>d v. o_instant (demo_link JNull JNull) d \<le> o_instant (demo_link JNull JNull) (snd (o_call (demo_link JNull JNull) v d))"
    by (simp add: demo_link_def manager_link_def split: sum.split)
qed (simp add: demo_cli_def)

text \<open>The starts a request asks of the manager, one named unit after the other: none of the units is
  masked, and the manager's \<open>start_with_mode\<close> answers each with the number of the unit's job, or with no job.\<close>

inductive starts :: "env \<Rightarrow> job_mode \<Rightarrow> str list \<Rightarrow> server \<Rightarrow> nat list \<Rightarrow> server \<Rightarrow> bool" for E mode where
  starts_none: "starts E mode [] s [] s"
| starts_next: "\<not> is_masked (sv_fs s) (sv_paths s) u \<Longrightarrow> w = ev_world E (sv_fs s) \<Longrightarrow>
    start_with_mode w (run w (ev_depth E)) u mode (sv_mgr s) = Inr (Inr job, m) \<Longrightarrow>
    starts E mode us (s\<lparr>sv_mgr := m\<rparr>) ids s1 \<Longrightarrow>
    starts E mode (u # us) s ((case job of Some j \<Rightarrow> [j] | None \<Rightarrow> []) @ ids) s1"

lemma gather_starts:
  assumes "gather (\<lambda>u. unless_masked u (job_id_list (on_mgr E (\<lambda>w rec. start_with_mode w rec u mode)))) us acc s =
    Inr (Inr out, s1)"
  shows "\<exists>ids. out = acc @ ids \<and> starts E mode us s ids s1"
  using assms
proof (induction us arbitrary: acc s)
  case Nil
  then show ?case by (auto simp: sv_ok_def intro: starts_none)
next
  case (Cons u us)
  let ?w = "ev_world E (sv_fs s)"
  let ?f = "\<lambda>u. unless_masked u (job_id_list (on_mgr E (\<lambda>w rec. start_with_mode w rec u mode)))"
  have "\<exists>ys s2. f u s = Inr (Inr ys, s2) \<and> gather f us (acc @ ys) s2 = Inr (Inr out, s1)"
    if "gather f (u # us) acc s = Inr (Inr out, s1)" for f
    using that by (auto simp: sv_then_def split: sum.splits prod.splits)
  from this [OF Cons.prems] obtain ys s2 where f: "?f u s = Inr (Inr ys, s2)"
    and r: "gather ?f us (acc @ ys) s2 = Inr (Inr out, s1)" by blast
  from f have mk: "\<not> is_masked (sv_fs s) (sv_paths s) u"
    by (auto simp: unless_masked_def sv_err_def)
  with f obtain job m where j: "start_with_mode ?w (run ?w (ev_depth E)) u mode (sv_mgr s) = Inr (Inr job, m)"
    and y: "ys = (case job of Some j \<Rightarrow> [j] | None \<Rightarrow> [])" "s2 = s\<lparr>sv_mgr := m\<rparr>"
    by (auto simp: unless_masked_def job_id_list_def on_mgr_def sv_then_def sv_ok_def Let_def split: sum.splits)
  note g = r [unfolded y]
  from Cons.IH [OF g] starts_next [OF mk refl j] show ?case by fastforce
qed

definition start_request :: "job_options \<Rightarrow> str list \<Rightarrow> json" where
  "start_request opts us = jobject ((''op'', JStr ''start'') # (''units'', jstrs (normalized us)) #
     opt_field ''job_mode'' (map_option JStr (jo_mode opts)))"

lemma start_request_fields:
  "req_str (start_request opts us) ''op'' = Some ''start''" "req_units (start_request opts us) = normalized us"
  by (cases "jo_mode opts"; simp add: start_request_def opt_field_def req_str_def req_units_def req_list_def jstrs_def)+

lemma started_by_request:
  assumes "run_op E (req_str (start_request opts us) ''op'') (start_request opts us) s = Inr (Inr v, s1)"
  shows "\<exists>mode ids. starts E mode (normalized us) s ids s1 \<and> job_ids_from v = filter (\<lambda>j. j < 2 ^ 64) ids"
proof -
  have "op_start E (start_request opts us) s = Inr (Inr v, s1)"
    using assms by (simp add: start_request_fields op_lookup)
  then obtain mode ids where
    "gather (\<lambda>u. unless_masked u (job_id_list (on_mgr E (\<lambda>w rec. start_with_mode w rec u mode)))) (normalized us) [] s =
      Inr (Inr ids, s1)" and v: "v = jobs_json ids"
    by (auto simp: op_start_def sv_then_def or_error_def sv_ok_def start_request_fields split: sum.splits)
  then have "starts E mode (normalized us) s ids s1" using gather_starts by fastforce
  moreover have "job_ids_from (jobs_json ids) = filter (\<lambda>j. j < 2 ^ 64) ids"
    by (induction ids) (auto simp: job_ids_from_def jobs_json_def jnat_def List.map_filter_def)
  ultimately show ?thesis using v by blast
qed

lemma queue_jobs_start:
  assumes "codec_ok cd" "jo_mode opts \<noteq> Some ''ignore-dependencies''"
    "queue_jobs (manager_link cd E meanwhile base) c ''start'' us opts t = Some (Inr ids, t1)"
  shows "\<exists>mode jobs. starts E mode (normalized us) (fst (ct_world t)) jobs (fst (ct_world t1)) \<and>
    ids = filter (\<lambda>j. j < 2 ^ 64) jobs"
proof -
  let ?ox = "manager_link cd E meanwhile base"
  obtain v where o: "op_with ?ox c ''start''
      ((''units'', jstrs (normalized us)) # opt_field ''job_mode'' (map_option JStr (jo_mode opts))) t = Some (Inr v, t1)"
    and v: "ids = job_ids_from v"
    using assms(2,3) by (auto simp: queue_jobs_def ct_then_Some ct_ok_def)
  from o have "ask_daemon ?ox (start_request opts us) t = Some (Inr v, t1)"
    by (auto simp: op_with_def ct_then_Some start_request_def dest!: client_for_Some)
  from started_by_request [OF ask_link(1) [OF assms(1) this]] v show ?thesis by blast
qed

text \<open>C36. A start that reports success has seen the jobs of its units through. Let \<open>start\<close>, without
  \<open>--no-block\<close>, \<open>--wait\<close> and \<open>--job-mode=ignore-dependencies\<close>, exit with 0, whatever the manager did
  while the client slept. Then the manager has started the named units one after the other, and of the jobs it
  answered with, one for each unit that needed one, none is pending any more when the client exits
  and none is recorded as failed (job numbers are of 64 bits). The jobs of the units' dependencies are not part of the
  claim.\<close>

theorem start_waits_for_jobs:
  assumes "codec_ok cd" "cl_cmd c = CmdStart opts us" "\<not> cl_no_block c" "\<not> jo_wait opts"
    "jo_mode opts \<noteq> Some ''ignore-dependencies''"
    "cli_run (manager_link cd E meanwhile base) c t = Some (0, t')"
  shows "\<exists>mode ids s1. starts E mode (normalized us) (fst (ct_world t)) ids s1 \<and>
    (\<forall>j \<in> set ids. j < 2 ^ 64 \<longrightarrow> get_job (sv_mgr (fst (ct_world t'))) j = None \<and>
      (case map_of (m_completed_jobs (sv_mgr (fst (ct_world t')))) j of Some st \<Rightarrow> js_ok st | None \<Rightarrow> True))"
proof -
  let ?ox = "manager_link cd E meanwhile base"
  have "queued ?ox c ''start'' us opts t = Some (Inr 0, t')"
    using assms(2,6) by (auto simp: cli_run_def split: option.splits sum.splits cli_stop.splits)
  then have "units_op_with_options ?ox c ''start'' us opts t = Some (Inr (), t')"
    by (auto simp: queued_def exit_with_def ct_then_Some ct_ok_def)
  then obtain ids t1 where q: "queue_jobs ?ox c ''start'' us opts t = Some (Inr ids, t1)"
    and w: "ids \<noteq> [] \<longrightarrow> wait_for_jobs ?ox c ids t1 = Some (Inr (), t')"
    using assms(3,4) by (auto simp: units_op_with_options_def ct_then_Some ct_ok_def split: if_splits)
  from queue_jobs_start [OF assms(1,5) q] obtain mode jobs where
    j: "starts E mode (normalized us) (fst (ct_world t)) jobs (fst (ct_world t1))" "ids = filter (\<lambda>j. j < 2 ^ 64) jobs" by blast
  have "get_job (sv_mgr (fst (ct_world t'))) i = None \<and>
      (case map_of (m_completed_jobs (sv_mgr (fst (ct_world t')))) i of Some st \<Rightarrow> js_ok st | None \<Rightarrow> True)"
    if "i \<in> set jobs" "i < 2 ^ 64" for i
  proof -
    have i: "i \<in> set ids" using that unfolding j(2) set_filter by blast
    then have "ids \<noteq> []" by auto
    with w have "wait_for_jobs ?ox c ids t1 = Some (Inr (), t')" by blast
    from wait_for_jobs_saw [OF assms(1) queue_jobs_small [OF q] this i] show ?thesis .
  qed
  with j(1) show ?thesis by blast
qed

text \<open>With \<open>--job-mode=ignore-dependencies\<close> the daemon answers null: no job number is ever collected, and
  the client exits with 0 without waiting for anything.\<close>

lemma ignoring_collects_nothing:
  assumes "codec_ok cd" "jo_mode opts = Some ''ignore-dependencies''"
    "queue_jobs (manager_link cd E meanwhile base) c ''start'' us opts t = Some (Inr ids, t1)"
  shows "ids = []"
proof -
  let ?ox = "manager_link cd E meanwhile base"
  have v: "v = JNull" if "op_with ?ox c ''start_ignore_dependencies'' [(''units'', jstrs [u])] t = Some (Inr v, t2)" for u v t t2
  proof -
    let ?req = "jobject [(''op'', JStr ''start_ignore_dependencies''), (''units'', jstrs [u])]"
    from that obtain t3 where "ask_daemon ?ox ?req t3 = Some (Inr v, t2)" by (auto simp: op_with_def ct_then_Some)
    from ask_link(1) [OF assms(1) this]
    have "run_op E (req_str ?req ''op'') ?req (fst (ct_world t3)) = Inr (Inr v, fst (ct_world t2))" .
    moreover have "req_str ?req ''op'' = Some ''start_ignore_dependencies''" by (simp add: req_str_def)
    ultimately show ?thesis
      by (auto simp: op_lookup op_start_ignore_def ok_null_def sv_then_def sv_ok_def split: sum.splits)
  qed
  have "start_each_ignoring ?ox c ns js t0 = Some (Inr ids, t1) \<Longrightarrow> ids = js" for ns js t0
  proof (induction ns arbitrary: js t0)
    case (Cons n ns)
    then obtain x t2 where x: "op_with ?ox c ''start_ignore_dependencies'' [(''units'', jstrs [n])] t0 = Some (Inr x, t2)"
      and r: "start_each_ignoring ?ox c ns (js @ job_ids_from x) t2 = Some (Inr ids, t1)"
      by (auto simp: ct_then_Some)
    from Cons.IH [OF r] v [OF x] show ?case by (simp add: job_ids_from_def)
  qed (simp add: ct_ok_def)
  with assms(2,3) show ?thesis by (auto simp: queue_jobs_def ct_then_Some)
qed

lemma ignoring_exits_at_once:
  assumes "codec_ok cd" "jo_mode opts = Some ''ignore-dependencies''" "\<not> jo_wait opts"
    "queue_jobs (manager_link cd E meanwhile base) c ''start'' us opts t = Some (Inr ids, t1)"
  shows "units_op_with_options (manager_link cd E meanwhile base) c ''start'' us opts t = Some (Inr (), t1)"
  using ignoring_collects_nothing [OF assms(1,2,4)] assms(3,4)
  by (simp add: units_op_with_options_def ct_then_def ct_ok_def)

definition demo_start :: command where
  "demo_start = CmdStart \<lparr>jo_wait = False, jo_mode = None\<rparr> [''basic.target'']"

definition start_req :: json where
  "start_req = jobject [(''op'', JStr ''start''), (''units'', jstrs [''basic.target''])]"

definition done_rows :: json where
  "done_rows = JArr [report_json (1, JobDone \<lparr>js_unit = ''basic.target'', js_ok = True, js_error = None\<rparr>)]"

definition start_link :: "(server \<times> nat) outside" where
  "start_link = demo_link (response_json (Inr (jobs_json [1]))) (response_json (Inr done_rows))"

lemma demo_job:
  obtains s1 where "run_op demo_env (req_str start_req ''op'') start_req demo_server = Inr (Inr (jobs_json [1]), s1)"
    "job_status_of (sv_mgr s1) [1] = [(1, JobDone \<lparr>js_unit = ''basic.target'', js_ok = True, js_error = None\<rparr>)]"
proof -
  have "case run_op demo_env (req_str start_req ''op'') start_req demo_server of
      Inr (r, s1) \<Rightarrow> r = Inr (jobs_json [1]) \<and>
        job_status_of (sv_mgr s1) [1] = [(1, JobDone \<lparr>js_unit = ''basic.target'', js_ok = True, js_error = None\<rparr>)]
    | Inl _ \<Rightarrow> False" by code_simp
  with that show ?thesis by (auto split: sum.splits)
qed

lemma demo_start_exits: "\<exists>t'. cli_run start_link (demo_cli demo_start) demo_ctl = Some (0, t')"
proof -
  obtain s1 where r: "run_op demo_env (req_str start_req ''op'') start_req demo_server = Inr (Inr (jobs_json [1]), s1)"
    and st: "job_status_of (sv_mgr s1) [1] = [(1, JobDone \<lparr>js_unit = ''basic.target'', js_ok = True, js_error = None\<rparr>)]"
    by (rule demo_job)
  let ?c = "demo_cli demo_start" and ?opts = "\<lparr>jo_wait = False, jo_mode = None\<rparr>"
  let ?t = "\<lparr>ct_world = (s1, 0), ct_out = [], ct_err = []\<rparr>"
  have sys: "\<not> cl_user ?c" "\<not> cl_no_block ?c" by (simp_all add: demo_cli_def)
  have n: "normalized [''basic.target''] = [''basic.target'']" by code_simp
  have j: "job_ids_from (jobs_json [1]) = [1]" by code_simp
  have q: "queue_jobs start_link ?c ''start'' [''basic.target''] ?opts demo_ctl = Some (Inr [1], ?t)"
    using demo_ask [OF r, of _ _ 0 "[]" "[]"]
    by (simp add: queue_jobs_def op_with_system [OF sys(1)] n opt_field_def start_req_def [symmetric] start_link_def demo_ctl_def
        ct_then_def ct_ok_def j [unfolded One_nat_def])
  have "run_op demo_env (req_str (status_req [1]) ''op'') (status_req [1]) s1 = Inr (Inr done_rows, s1)"
    using status_answer [of "[1]" demo_env s1] st by (simp add: done_rows_def)
  from demo_ask [OF this] have a: "ask_daemon start_link (status_req [1]) ?t = Some (Inr done_rows, ?t)"
    by (simp add: start_link_def)
  have d: "jobs_answer done_rows = Inr (Some ())" by code_simp
  have "wait_for_jobs start_link ?c [1] ?t = Some (Inr (), ?t)"
    using a by (simp add: wait_for_jobs_def client_for_def cli_paths_def sys ct_then_def ct_lift_def ct_ok_def poll_for_def
        op_with_system status_req_def, subst poll_loop.simps, simp add: d ct_ok_def ct_then_def)
  with q have "units_op_with_options start_link ?c ''start'' [''basic.target''] ?opts demo_ctl = Some (Inr (), ?t)"
    by (simp add: units_op_with_options_def ct_then_def ct_ok_def sys)
  moreover have "cl_cmd ?c = CmdStart ?opts [''basic.target'']" by (simp add: demo_cli_def demo_start_def)
  ultimately show ?thesis by (simp add: cli_run_def queued_def exit_with_def ct_then_def ct_ok_def)
qed

theorem start_waits_for_jobs_witness:
  "\<exists>t' mode ids s1. cli_run start_link (demo_cli demo_start) demo_ctl = Some (0, t') \<and>
    starts demo_env mode [''basic.target''] demo_server ids s1 \<and>
    (\<forall>j \<in> set ids. j < 2 ^ 64 \<longrightarrow> get_job (sv_mgr (fst (ct_world t'))) j = None)"
proof -
  obtain t' where t: "cli_run start_link (demo_cli demo_start) demo_ctl = Some (0, t')" using demo_start_exits by blast
  have n: "normalized [''basic.target''] = [''basic.target'']" by code_simp
  have "\<exists>mode ids s1. starts demo_env mode (normalized [''basic.target'']) (fst (ct_world demo_ctl)) ids s1 \<and>
    (\<forall>j \<in> set ids. j < 2 ^ 64 \<longrightarrow> get_job (sv_mgr (fst (ct_world t'))) j = None \<and>
      (case map_of (m_completed_jobs (sv_mgr (fst (ct_world t')))) j of Some st \<Rightarrow> js_ok st | None \<Rightarrow> True))"
    using t unfolding start_link_def demo_link_def
    by (rule start_waits_for_jobs [OF pair_codec_ok, where opts = "\<lparr>jo_wait = False, jo_mode = None\<rparr>", rotated -1])
      (simp_all add: demo_cli_def demo_start_def)
  with t show ?thesis unfolding n by (auto simp: demo_ctl_def)
qed

section \<open>States and exit codes\<close>

lemma say_all_run: "say_all xs t = Some (Inr (), t\<lparr>ct_out := ct_out t @ concat (map (\<lambda>x. x @ [newline]) xs)\<rparr>)"
  unfolding say_all_def by (induction xs arbitrary: t) (simp_all add: ct_ok_def ct_then_def say_def)

lemma fold_max_badness:
  "fold max (map active_badness xs) (0 :: int) = (if ''failed'' \<in> set xs then 4 else if ''inactive'' \<in> set xs then 3 else 0)"
proof -
  have "a \<in> {0, 3, 4} \<Longrightarrow> fold max (map active_badness xs) a =
      (if a = 4 \<or> ''failed'' \<in> set xs then 4 else if a = 3 \<or> ''inactive'' \<in> set xs then 3 else 0)" for a :: int
  proof (induction xs arbitrary: a)
    case (Cons x xs)
    have "max (active_badness x) a \<in> {0, 3, 4}" using Cons.prems by (auto simp: active_badness_def max_def)
    from Cons.IH [OF this] Cons.prems show ?case by (auto simp: active_badness_def max_def)
  qed auto
  from this [of 0] show ?thesis by simp
qed

text \<open>C38. The answer of \<open>is-active\<close> is the manager's. For loaded units, with a JSON codec that reads what it
  prints and an answer within the response cap, the client prints the active state of each unit on a line of
  its own, in the order asked and whether or not the names carried their suffix, and exits with 4 if one has
  failed, else with 3 if one is inactive, else with 0. It changes nothing.\<close>

theorem is_active_reports:
  assumes "codec_ok cd" "answer_fits cd E (units_req ''is_active'' us) s" "\<forall>u \<in> set us. get_unit (sv_mgr s) (normalize_unit u) \<noteq> None"
    "cl_cmd c = CmdIsActive us" "\<not> cl_user c" "\<not> cl_quiet c"
  shows "cli_run (manager_link cd E meanwhile base) c \<lparr>ct_world = (s, ms), ct_out = out, ct_err = errs\<rparr> =
    (let states = map (active_or_unknown s) (normalized us) in
     Some (if ''failed'' \<in> set states then 4 else if ''inactive'' \<in> set states then 3 else 0,
       \<lparr>ct_world = (s, ms), ct_out = out @ concat (map (\<lambda>x. x @ [newline]) states), ct_err = errs\<rparr>))"
proof -
  define states where "states = map (active_or_unknown s) (normalized us)"
  define v where "v = jobject [(''states'', JArr (map (\<lambda>(u, st). jstrs [u, st]) (map (\<lambda>u. (u, active_or_unknown s u)) (normalized us)))),
    (''exit'', JNum (fold max (map active_badness states) 0))]"
  define worst where "worst = (if ''failed'' \<in> set states then 4 else if ''inactive'' \<in> set states then 3 else (0 :: int))"
  have "map_res (active_of s) (normalized us) = Inr (map (\<lambda>u. (u, active_or_unknown s u)) (normalized us))"
    using assms(3) by (intro active_states) (auto simp: normalized_def)
  then have "run_op E (req_str (units_req ''is_active'' us) ''op'') (units_req ''is_active'' us) s = Inr (Inr v, s)"
    by (simp add: op_lookup op_is_active_def sv_ok_at states_def v_def o_def)
  then have x: "exchange cd E (units_req ''is_active'' us) s = Inr (Inr v, s)" using exchange_runs [OF assms(1,2)] by simp
  have rows: "map (\<lambda>x. str_or [] (json_at x 1)) (rows_of (jidx v ''states'')) = states"
    by (simp add: v_def jidx_def rows_of_def states_def json_at_def jstrs_def str_or_def)
  have e: "to_i32 (case Option.bind (jget v ''exit'') as_i64 of Some n \<Rightarrow> n | None \<Rightarrow> 0) = worst"
    by (simp add: v_def worst_def fold_max_badness to_i32_def)
  let ?t = "\<lparr>ct_world = (s, ms), ct_out = out, ct_err = errs\<rparr>"
  have u: "units_op (manager_link cd E meanwhile base) c ''is_active'' us ?t = Some (Inr v, ?t)"
    unfolding units_op_def op_with_system [OF assms(5)] units_req_def [symmetric]
    using x by (simp add: ask_daemon_def manager_link_def ct_lift_def ct_ok_def)
  have "cli_dispatch (manager_link cd E meanwhile base) c (CmdIsActive us) ?t =
      Some (Inr worst, ?t\<lparr>ct_out := out @ concat (map (\<lambda>x. x @ [newline]) states)\<rparr>)"
    using u by (simp add: cmd_is_active_def ct_then_def Let_def rows e exit_with_def assms(6) say_all_run ct_ok_def rows [unfolded One_nat_def] del: map_map)
  then show ?thesis
    unfolding cli_run_def assms(4) states_def [symmetric] Let_def worst_def [symmetric] by simp
qed

definition basic_inactive :: json where
  "basic_inactive = jobject [(''states'', JArr [jstrs [''basic.target'', ''inactive'']]), (''exit'', JNum 3)]"

theorem is_active_reports_witness:
  "\<exists>t'. cli_run (demo_link (response_json (Inr basic_inactive)) JNull) (demo_cli (CmdIsActive [''basic.target''])) demo_ctl = Some (3, t') \<and>
    ct_out t' = ''inactive'' @ [newline]"
proof -
  have n: "normalized [''basic.target''] = [''basic.target'']" and st: "active_or_unknown demo_server ''basic.target'' = ''inactive''"
    by code_simp+
  have "case run_op demo_env (req_str (units_req ''is_active'' [''basic.target'']) ''op'') (units_req ''is_active'' [''basic.target'']) demo_server of
      Inr (r, s1) \<Rightarrow> r = Inr basic_inactive | Inl _ \<Rightarrow> False" by code_simp
  then have f: "answer_fits (pair_codec (response_json (Inr basic_inactive)) JNull) demo_env (units_req ''is_active'' [''basic.target'']) demo_server"
    by (auto split: sum.splits intro: demo_fits)
  have "\<forall>u \<in> set [''basic.target'']. get_unit (sv_mgr demo_server) (normalize_unit u) \<noteq> None" by code_simp
  from is_active_reports [OF pair_codec_ok f this, of "demo_cli (CmdIsActive [''basic.target''])" "\<lambda>_ s. s" demo_outside 0 "[]" "[]"]
  show ?thesis by (simp add: demo_link_def demo_ctl_def demo_cli_def n st Let_def)
qed

text \<open>What \<open>is-failed\<close> prints does not distinguish an inactive unit from an active one, nor does \<open>--quiet\<close>
  silence it.\<close>

lemma is_failed_says_active:
  assumes "units_op ox c ''is_failed'' us t = Some (Inr (JArr [JBool False]), t1)"
  shows "cmd_is_failed ox c us t = Some (Inr 1, t1\<lparr>ct_out := ct_out t1 @ ''active'' @ [newline]\<rparr>)"
  using assms by (simp add: cmd_is_failed_def ct_then_def first_bool_def rows_of_def exit_with_def say_def ct_ok_def)

text \<open>\<open>journal --follow\<close> asks for what is newer than the last second it has seen, so a record written later in
  that second is not shown.\<close>

lemma follow_skips_second:
  assumes "r \<in> set (journal_query s u (map_option Suc (Some (jc_secs r0))) None)"
  shows "jc_secs r \<noteq> jc_secs r0"
proof -
  have "r \<in> set (journal_read jn x (Some (Suc (jc_secs r0))) fs) \<Longrightarrow> Suc (jc_secs r0) \<le> jc_secs r" for jn x fs
    by (auto simp: journal_read_def segment_records_def split: if_splits sum.splits)
  with assms have "Suc (jc_secs r0) \<le> jc_secs r" by (auto simp: journal_query_def Let_def split: option.splits)
  then show ?thesis by simp
qed

text \<open>The client sends the signal that was asked for.\<close>

lemma kill_signal_kept: "sig_from_name sig = Some n \<Longrightarrow> sig_from_name (signal_name n) = Some n"
proof -
  have "list_all (\<lambda>n. sig_from_name (signal_name (int n)) = Some (int n)) [1..<32]" by code_simp
  then have all: "sig_from_name (signal_name (int k)) = Some (int k)" if "1 \<le> k" "k < 32" for k
    using that by (simp add: list_all_iff)
  assume "sig_from_name sig = Some n"
  then have "1 \<le> n \<and> n \<le> 31"
    by (auto simp: sig_from_name_def signal_try_from_def Let_def split: option.splits if_splits)
  then show ?thesis using all [of "nat n"] by (simp add: le_nat_iff nat_less_iff)
qed

end
