(* ===== verification/Sandbox.thy ===== *)
theory Sandbox
  imports Seccomp Unit_Types
begin

text \<open>
  The sandbox of a service: \<open>plan\<close> turns the unit's settings into a list of operations in the manager, and
  \<open>apply\<close> carries them out in the forked child (\<^verbatim>\<open>rystemd/src/platform/sandbox.rs\<close>). The child is the record
  \<open>proc\<close>; a system call is refused or takes the effect its manual page gives it. Which calls the kernel
  refuses, with which error number, is a parameter, so theorems hold for every kernel and every
  set of privileges.
\<close>

unbundle bit_operations_syntax

section \<open>The process and its calls\<close>

datatype sys_call =
    SysUnmaskSignals | SysSetsid | SysDup2 int int
  | SysOpenWrite str | SysWriteFile str str
  | SysUnshare bool
  | SysMount "str option" str "str option" nat "str option"
  | SysExists str | SysMknod str nat nat nat | SysMkdirAll str | SysUnlink str | SysSymlink str str
  | SysNoNewPrivs | SysCapbsetDrop nat | SysAmbientRaise nat | SysSeccomp "sock_filter list"
  | SysChdir str | SysSetgroups "nat list" | SysSetgid nat | SysSetuid nat
  | SysUmask nat | SysSetpriority int | SysSetrlimit rlimit_resource nat nat | SysExec "str list"

text \<open>Mount flags.\<close>

definition ms_rdonly :: nat where "ms_rdonly = 1"
definition ms_nosuid :: nat where "ms_nosuid = 2"
definition ms_nodev :: nat where "ms_nodev = 4"
definition ms_noexec :: nat where "ms_noexec = 8"
definition ms_remount :: nat where "ms_remount = 32"
definition ms_bind :: nat where "ms_bind = 4096"
definition ms_rec :: nat where "ms_rec = 16384"
definition ms_private :: nat where "ms_private = 262144"

lemmas ms_defs = ms_rdonly_def ms_nosuid_def ms_nodev_def ms_noexec_def ms_remount_def ms_bind_def ms_rec_def ms_private_def

text \<open>What a file descriptor refers to: a standard stream's pipe or null device, a log file, or whatever the
  manager has open under a number.\<close>

datatype open_file = OfPipeOut | OfPipeErr | OfNull | OfAppend str | OfManager int

record proc =
  pr_pid :: nat
  pr_uid :: nat
  pr_gid :: nat
  pr_groups :: "nat list"
  pr_cwd :: str
  pr_umask :: nat
  pr_nice :: int
  pr_rlimits :: "(rlimit_resource \<times> (nat \<times> nat)) list"
  pr_blocked :: "int list"
  pr_leader :: bool
  pr_fds :: "int \<Rightarrow> (open_file \<times> bool) option"
  pr_cgroup :: "str option"
  pr_userns :: bool
  pr_uid_mapped :: bool
  pr_gid_mapped :: bool
  pr_own_mounts :: bool
  pr_cut :: bool
  pr_mounts :: "sys_call list"
  pr_host_mounts :: "sys_call list"
  pr_nnp :: bool
  pr_bounding :: "nat list"
  pr_ambient :: "nat list"
  pr_filters :: "sock_filter list list"
  pr_environ :: "str list"
  pr_calls :: "(sys_call \<times> nat option) list"
  pr_warned :: str

text \<open>The kernel: which call of which process it refuses, with the error number, and the text of an error.\<close>

record kernel =
  kn_refuses :: "sys_call \<Rightarrow> proc \<Rightarrow> nat option"
  kn_text :: "nat \<Rightarrow> str"

definition eperm :: nat where "eperm = 1"
definition einval :: nat where "einval = 22"

text \<open>In a new user namespace an identity that is not mapped reads as the overflow identity.\<close>

definition overflow_id :: nat where "overflow_id = 65534"

definition seen_uid :: "proc \<Rightarrow> nat" where
  "seen_uid p = (if pr_userns p then (if pr_uid_mapped p then 0 else overflow_id) else pr_uid p)"

definition seen_gid :: "proc \<Rightarrow> nat" where
  "seen_gid p = (if pr_userns p then (if pr_gid_mapped p then 0 else overflow_id) else pr_gid p)"

text \<open>The effect of a call that is not refused. A mount outside a namespace whose propagation is cut shows on
  the host; giving up user 0 clears the ambient capabilities (capabilities(7)); \<open>dup2\<close> of a descriptor onto itself
  does nothing, else the copy stays open across \<open>execve\<close>.\<close>

fun effect :: "sys_call \<Rightarrow> proc \<Rightarrow> proc" where
  "effect SysUnmaskSignals p = p\<lparr>pr_blocked := []\<rparr>"
| "effect SysSetsid p = p\<lparr>pr_leader := True\<rparr>"
| "effect (SysDup2 a b) p = (if a = b then p else p\<lparr>pr_fds := (pr_fds p)(b := map_option (\<lambda>(f, cx). (f, False)) (pr_fds p a))\<rparr>)"
| "effect (SysWriteFile f txt) p =
     (if f = ''/proc/self/uid_map'' then p\<lparr>pr_uid_mapped := True\<rparr>
      else if f = ''/proc/self/gid_map'' then p\<lparr>pr_gid_mapped := True\<rparr>
      else if txt = show_nat (pr_pid p) then p\<lparr>pr_cgroup := Some f\<rparr> else p)"
| "effect (SysUnshare user) p = p\<lparr>pr_own_mounts := True, pr_cut := False, pr_userns := pr_userns p \<or> user,
     pr_uid_mapped := pr_uid_mapped p \<and> \<not> user, pr_gid_mapped := pr_gid_mapped p \<and> \<not> user\<rparr>"
| "effect (SysMount src target fstype flags data) p =
     (if flags = ms_rec OR ms_private \<and> pr_own_mounts p then p\<lparr>pr_cut := True\<rparr>
      else if pr_own_mounts p \<and> pr_cut p then p\<lparr>pr_mounts := pr_mounts p @ [SysMount src target fstype flags data]\<rparr>
      else p\<lparr>pr_host_mounts := pr_host_mounts p @ [SysMount src target fstype flags data]\<rparr>)"
| "effect SysNoNewPrivs p = p\<lparr>pr_nnp := True\<rparr>"
| "effect (SysCapbsetDrop c) p = p\<lparr>pr_bounding := filter (\<lambda>d. d \<noteq> c) (pr_bounding p)\<rparr>"
| "effect (SysAmbientRaise c) p = p\<lparr>pr_ambient := pr_ambient p @ [c]\<rparr>"
| "effect (SysSeccomp prog) p = p\<lparr>pr_filters := prog # pr_filters p\<rparr>"
| "effect (SysChdir d) p = p\<lparr>pr_cwd := d\<rparr>"
| "effect (SysSetgroups gs) p = p\<lparr>pr_groups := gs\<rparr>"
| "effect (SysSetgid g) p = p\<lparr>pr_gid := g\<rparr>"
| "effect (SysSetuid u) p = p\<lparr>pr_uid := u, pr_ambient := (if pr_uid p = 0 \<and> u \<noteq> 0 then [] else pr_ambient p)\<rparr>"
| "effect (SysUmask m) p = p\<lparr>pr_umask := m AND 511\<rparr>"
| "effect (SysSetpriority n) p = p\<lparr>pr_nice := n\<rparr>"
| "effect (SysSetrlimit r soft hard) p = p\<lparr>pr_rlimits := hins r (soft, hard) (pr_rlimits p)\<rparr>"
| "effect (SysOpenWrite f) p = p"
| "effect (SysExists f) p = p"
| "effect (SysMknod f mode major minor) p = p"
| "effect (SysMkdirAll f) p = p"
| "effect (SysUnlink f) p = p"
| "effect (SysSymlink f l) p = p"
| "effect (SysExec argv) p = p\<lparr>pr_fds := (\<lambda>n. case pr_fds p n of Some (f, cx) \<Rightarrow> if cx then None else Some (f, cx) | None \<Rightarrow> None)\<rparr>"

definition sys :: "kernel \<Rightarrow> sys_call \<Rightarrow> proc \<Rightarrow> nat option \<times> proc" where
  "sys K c p =
     (case kn_refuses K c p of
        Some e \<Rightarrow> (Some e, p\<lparr>pr_calls := pr_calls p @ [(c, Some e)]\<rparr>)
      | None \<Rightarrow> (let q = effect c p in (None, q\<lparr>pr_calls := pr_calls q @ [(c, None)]\<rparr>)))"

section \<open>Capabilities\<close>

definition cap_names :: "str list" where
  "cap_names = [''CHOWN'', ''DAC_OVERRIDE'', ''DAC_READ_SEARCH'', ''FOWNER'', ''FSETID'', ''KILL'', ''SETGID'', ''SETUID'',
     ''SETPCAP'', ''LINUX_IMMUTABLE'', ''NET_BIND_SERVICE'', ''NET_BROADCAST'', ''NET_ADMIN'', ''NET_RAW'', ''IPC_LOCK'',
     ''IPC_OWNER'', ''SYS_MODULE'', ''SYS_RAWIO'', ''SYS_CHROOT'', ''SYS_PTRACE'', ''SYS_PACCT'', ''SYS_ADMIN'', ''SYS_BOOT'',
     ''SYS_NICE'', ''SYS_RESOURCE'', ''SYS_TIME'', ''SYS_TTY_CONFIG'', ''MKNOD'', ''LEASE'', ''AUDIT_WRITE'', ''AUDIT_CONTROL'',
     ''SETFCAP'', ''MAC_OVERRIDE'', ''MAC_ADMIN'', ''SYSLOG'', ''WAKE_ALARM'', ''BLOCK_SUSPEND'', ''AUDIT_READ'', ''PERFMON'',
     ''BPF'', ''CHECKPOINT_RESTORE'']"

text \<open>\<open>position\<close>.\<close>

fun index_of :: "'a \<Rightarrow> 'a list \<Rightarrow> nat option" where
  "index_of x [] = None"
| "index_of x (y # ys) = (if y = x then Some 0 else map_option Suc (index_of x ys))"

definition cap_number :: "str \<Rightarrow> nat option" where
  "cap_number name =
     (let up = map to_upper name; bare = (case strip_prefix ''CAP_'' up of Some r \<Rightarrow> r | None \<Rightarrow> up)
      in index_of bare cap_names)"

definition last_cap :: nat where "last_cap = 40"

definition cap_drop_set :: "nat list \<Rightarrow> bool \<Rightarrow> nat list" where
  "cap_drop_set caps invert = (if invert then caps else filter (\<lambda>c. \<not> List.member caps c) [0..<Suc last_cap])"

section \<open>The plan\<close>

datatype sandbox_op =
    OpUnshareMount | OpMakeRprivate | OpMountTmpfs str | OpBindReadOnly str | OpPrivateDevices | OpNoNewPrivileges
  | OpCapBoundingDrop "nat list" bool | OpAmbientRaise "nat list" | OpSeccomp "sock_filter list"

definition needs_mounts :: "sandbox_config \<Rightarrow> bool" where
  "needs_mounts cfg \<longleftrightarrow> sb_private_tmp cfg \<or> sb_private_devices cfg \<or> sb_protect_home cfg \<noteq> ProtectNo \<or>
     sb_protect_system cfg \<noteq> SystemNo \<or> sb_read_only_paths cfg \<noteq> []"

definition home_paths :: "str list" where
  "home_paths = [''/home'', ''/root'', ''/run/user'']"

definition home_ops :: "protect_mode \<Rightarrow> sandbox_op list" where
  "home_ops m = (case m of ProtectNo \<Rightarrow> [] | ProtectReadOnly \<Rightarrow> map OpBindReadOnly home_paths | ProtectTmpfs \<Rightarrow> map OpMountTmpfs home_paths)"

definition system_paths :: "protect_system_level \<Rightarrow> str list" where
  "system_paths l = (case l of SystemNo \<Rightarrow> [] | SystemYes \<Rightarrow> [''/usr'', ''/boot'', ''/efi'']
     | SystemFull \<Rightarrow> [''/usr'', ''/boot'', ''/efi'', ''/etc''] | SystemStrict \<Rightarrow> [''/''])"

definition mount_ops :: "sandbox_config \<Rightarrow> sandbox_op list" where
  "mount_ops cfg =
     (if needs_mounts cfg then [OpUnshareMount, OpMakeRprivate] else []) @
     (if sb_private_tmp cfg then [OpMountTmpfs ''/tmp'', OpMountTmpfs ''/var/tmp''] else []) @
     home_ops (sb_protect_home cfg) @
     map OpBindReadOnly (system_paths (sb_protect_system cfg)) @
     map OpBindReadOnly (sb_read_only_paths cfg) @
     (if sb_private_devices cfg then [OpPrivateDevices] else [])"

text \<open>Names that are not capabilities are passed over; a list with no other leaves no operation.\<close>

definition caps_op :: "(nat list \<Rightarrow> sandbox_op) \<Rightarrow> str list \<Rightarrow> sandbox_op list" where
  "caps_op mk names = (let caps = List.map_filter cap_number names in if caps = [] then [] else [mk caps])"

definition rt_deny :: "nat list" where "rt_deny = [144, 314, 142]"
definition personality_nr :: nat where "personality_nr = 135"

definition needs_filter :: "sandbox_config \<Rightarrow> bool" where
  "needs_filter cfg \<longleftrightarrow> sb_syscall_nrs cfg \<noteq> [] \<or> sb_restrict_realtime cfg \<or> sb_lock_personality cfg \<or>
     sb_restrict_suidsgid cfg \<or> sb_af_present cfg \<or> sb_memory_deny_write_execute cfg"

definition extra_deny :: "sandbox_config \<Rightarrow> nat list" where
  "extra_deny cfg =
     (if sb_restrict_realtime cfg then rt_deny else []) @
     (if sb_lock_personality cfg then [personality_nr] else []) @
     (if sb_restrict_suidsgid cfg then suidsgid_nrs else [])"

definition filter_denies :: "sandbox_config \<Rightarrow> bool" where
  "filter_denies cfg = (if sb_syscall_nrs cfg = [] then True else sb_syscall_deny cfg)"

definition af_of :: "sandbox_config \<Rightarrow> af_gate option" where
  "af_of cfg = (if sb_af_present cfg
     then Some \<lparr>ag_deny = sb_af_deny cfg, ag_families = sb_af_families cfg, ag_deny_all = sb_af_deny_all cfg\<rparr> else None)"

text \<open>Outer \<open>None\<close>: assembling the filter panics.\<close>

definition filter_ops :: "sandbox_config \<Rightarrow> sandbox_op list option" where
  "filter_ops cfg =
     (if needs_filter cfg
      then map_option (\<lambda>prog. (if sb_no_new_privileges cfg then [] else [OpNoNewPrivileges]) @ [OpSeccomp prog])
        (build_seccomp (sb_syscall_nrs cfg) (filter_denies cfg) (sb_syscall_errno cfg) (extra_deny cfg) (af_of cfg)
           (sb_memory_deny_write_execute cfg))
      else Some [])"

definition plan :: "sandbox_config \<Rightarrow> sandbox_op list option option" where
  "plan cfg =
     (if \<not> has_sandbox cfg then Some None
      else map_option (\<lambda>fs. Some (mount_ops cfg @ (if sb_no_new_privileges cfg then [OpNoNewPrivileges] else []) @
          caps_op (\<lambda>cs. OpCapBoundingDrop cs (sb_bounding_invert cfg)) (sb_bounding_set cfg) @
          caps_op OpAmbientRaise (sb_ambient_set cfg) @ fs)) (filter_ops cfg))"

section \<open>Carrying it out\<close>

definition sandbox_error :: "kernel \<Rightarrow> str \<Rightarrow> nat \<Rightarrow> str" where
  "sandbox_error K what e = ''sandbox '' @ what @ '': '' @ kn_text K e"

type_synonym step = "proc \<Rightarrow> (str + bool) \<times> proc"

definition warn :: "str \<Rightarrow> proc \<Rightarrow> proc" where
  "warn m p = p\<lparr>pr_warned := pr_warned p @ ''rystemd: [sandbox] '' @ m @ [CHR 0x0A]\<rparr>"

text \<open>A call that must succeed, one whose failure is reported, and one whose result is dropped.\<close>

definition must :: "kernel \<Rightarrow> str \<Rightarrow> sys_call \<Rightarrow> step" where
  "must K what c p = (case sys K c p of (Some e, q) \<Rightarrow> (Inl (sandbox_error K what e), q) | (None, q) \<Rightarrow> (Inr True, q))"

definition attempt :: "kernel \<Rightarrow> (nat \<Rightarrow> str) \<Rightarrow> sys_call \<Rightarrow> proc \<Rightarrow> proc" where
  "attempt K msg c p = (case sys K c p of (Some e, q) \<Rightarrow> warn (msg e) q | (None, q) \<Rightarrow> q)"

definition drop_result :: "kernel \<Rightarrow> sys_call \<Rightarrow> proc \<Rightarrow> proc" where
  "drop_result K c p = snd (sys K c p)"

definition andalso :: "step \<Rightarrow> step \<Rightarrow> step" where
  "andalso f g p = (case f p of (Inr True, q) \<Rightarrow> g q | r \<Rightarrow> r)"

definition map_entry :: "kernel \<Rightarrow> str \<Rightarrow> nat \<Rightarrow> step" where
  "map_entry K name ident p =
     (case sys K (SysWriteFile (''/proc/self/'' @ name) (''0 '' @ show_nat ident @ '' 1'' @ [CHR 0x0A])) p of
        (Some e, q) \<Rightarrow> if e = eperm then (Inr True, q) else (Inl (sandbox_error K (''userns-'' @ name) e), q)
      | (None, q) \<Rightarrow> (Inr True, q))"

definition setup_userns_map :: "kernel \<Rightarrow> step" where
  "setup_userns_map K p =
     (let q = drop_result K (SysWriteFile ''/proc/self/setgroups'' ''deny'') p; euid = seen_uid q; egid = seen_gid q
      in andalso (map_entry K ''uid_map'' euid) (map_entry K ''gid_map'' egid) q)"

definition unshare_mount :: "kernel \<Rightarrow> bool \<Rightarrow> step" where
  "unshare_mount K root p =
     (case sys K (SysUnshare (\<not> root)) p of
        (Some e, q) \<Rightarrow> if \<not> root \<and> (e = eperm \<or> e = einval) then (Inr False, q) else (Inl (sandbox_error K ''unshare'' e), q)
      | (None, q) \<Rightarrow> if root then (Inr True, q) else setup_userns_map K q)"

definition bind_read_only :: "kernel \<Rightarrow> bool \<Rightarrow> str \<Rightarrow> step" where
  "bind_read_only K root target p =
     (case sys K (SysExists target) p of
        (Some _, q) \<Rightarrow> (Inr True, q)
      | (None, q) \<Rightarrow>
          if \<not> root then (Inr True, warn (''read-only '' @ target @ '' not enforced (needs CAP_SYS_ADMIN)'') q)
          else andalso (must K ''bind-ro'' (SysMount (Some target) target None (ms_bind OR ms_rec) None))
                 (must K ''remount-ro'' (SysMount None target None (ms_bind OR ms_remount OR ms_rdonly OR ms_rec) None)) q)"

definition device_nodes :: "(str \<times> nat \<times> nat) list" where
  "device_nodes = [(''null'', 1, 3), (''zero'', 1, 5), (''full'', 1, 7), (''random'', 1, 8), (''urandom'', 1, 9), (''tty'', 5, 0)]"

definition proc_links :: "(str \<times> str) list" where
  "proc_links = [(''/dev/fd'', ''/proc/self/fd''), (''/dev/stdin'', ''/proc/self/fd/0''), (''/dev/stdout'', ''/proc/self/fd/1''),
     (''/dev/stderr'', ''/proc/self/fd/2'')]"

definition make_node :: "kernel \<Rightarrow> str \<times> nat \<times> nat \<Rightarrow> proc \<Rightarrow> proc" where
  "make_node K d = (case d of (name, major, minor) \<Rightarrow>
     attempt K (\<lambda>e. ''mknod /dev/'' @ name @ '': '' @ kn_text K e) (SysMknod (''/dev/'' @ name) 8630 major minor))"

definition replace_link :: "kernel \<Rightarrow> str \<times> str \<Rightarrow> proc \<Rightarrow> proc" where
  "replace_link K l p = (case l of (path, target) \<Rightarrow> drop_result K (SysSymlink target path) (drop_result K (SysUnlink path) p))"

definition private_devices :: "kernel \<Rightarrow> proc \<Rightarrow> proc" where
  "private_devices K p =
     (case sys K (SysMount (Some ''tmpfs'') ''/dev'' (Some ''tmpfs'') (ms_nosuid OR ms_nodev) (Some ''mode=0755'')) p of
        (Some e, q) \<Rightarrow> warn (''private /dev not mounted: '' @ kn_text K e) q
      | (None, q) \<Rightarrow>
          fold (replace_link K) proc_links
            (attempt K (\<lambda>e. ''private /dev/shm: '' @ kn_text K e)
               (SysMount (Some ''tmpfs'') ''/dev/shm'' (Some ''tmpfs'') (ms_nosuid OR ms_nodev) (Some ''mode=1777''))
            (replace_link K (''/dev/ptmx'', ''/dev/pts/ptmx'')
            (attempt K (\<lambda>e. ''private /dev/pts: '' @ kn_text K e)
               (SysMount (Some ''devpts'') ''/dev/pts'' (Some ''devpts'') (ms_nosuid OR ms_noexec) None)
            (drop_result K (SysMkdirAll ''/dev/shm'') (drop_result K (SysMkdirAll ''/dev/pts'')
            (fold (make_node K) device_nodes q)))))))"

primrec drop_caps :: "kernel \<Rightarrow> nat list \<Rightarrow> step" where
  "drop_caps K [] p = (Inr True, p)"
| "drop_caps K (c # cs) p = andalso (must K ''cap-bounding-drop'' (SysCapbsetDrop c)) (drop_caps K cs) p"

definition raise_cap :: "kernel \<Rightarrow> nat \<Rightarrow> proc \<Rightarrow> proc" where
  "raise_cap K c = attempt K (\<lambda>_. ''ambient CAP_'' @ show_nat c @ '' not raised'') (SysAmbientRaise c)"

text \<open>One operation; \<open>False\<close> ends the list at once without an error.\<close>

fun apply_op :: "kernel \<Rightarrow> bool \<Rightarrow> sandbox_op \<Rightarrow> step" where
  "apply_op K root OpUnshareMount p = unshare_mount K root p"
| "apply_op K root OpMakeRprivate p = must K ''make-rprivate'' (SysMount None ''/'' None (ms_rec OR ms_private) None) p"
| "apply_op K root (OpMountTmpfs target) p =
     must K ''mount-tmpfs'' (SysMount (Some ''tmpfs'') target (Some ''tmpfs'') (ms_nosuid OR ms_nodev) (Some ''mode=1777'')) p"
| "apply_op K root (OpBindReadOnly target) p = bind_read_only K root target p"
| "apply_op K root OpPrivateDevices p = (Inr True, private_devices K p)"
| "apply_op K root OpNoNewPrivileges p = must K ''no-new-privs'' SysNoNewPrivs p"
| "apply_op K root (OpCapBoundingDrop caps invert) p = drop_caps K (cap_drop_set caps invert) p"
| "apply_op K root (OpAmbientRaise caps) p = (Inr True, fold (raise_cap K) caps p)"
| "apply_op K root (OpSeccomp prog) p = must K ''seccomp'' (SysSeccomp (take (length prog mod 65536) prog)) p"

primrec apply_ops :: "kernel \<Rightarrow> bool \<Rightarrow> sandbox_op list \<Rightarrow> proc \<Rightarrow> (str + unit option) \<times> proc" where
  "apply_ops K root [] p = (Inr (Some ()), p)"
| "apply_ops K root (x # xs) p =
     (case apply_op K root x p of
        (Inl e, q) \<Rightarrow> (Inl e, q)
      | (Inr go, q) \<Rightarrow> if go then apply_ops K root xs q else (Inr None, q))"

definition apply_sandbox :: "kernel \<Rightarrow> sandbox_op list \<Rightarrow> proc \<Rightarrow> (str + unit option) \<times> proc" where
  "apply_sandbox K xs p = apply_ops K (seen_uid p = 0) xs p"

end
