(* ===== verification/Spawn.thy ===== *)
theory Spawn
  imports Sandbox Engine_State
begin

text \<open>
  Starting a process: \<open>spawn\<close> in \<^verbatim>\<open>rystemd/src/platform/process.rs\<close>. The standard library's \<open>Command\<close>
  prepares the standard streams and the environment, forks, runs the closure \<open>pre_exec\<close> in the child, installs the
  child's environment and calls \<open>execvp\<close>; an error of the closure reaches the parent as its error number, or as
  \<open>EINVAL\<close> when it has none. The closure's steps are modelled in the order of the code, over the process and
  kernel of \<open>Sandbox\<close>.
\<close>

section \<open>Numbers in a fixed buffer\<close>

text \<open>\<open>itoa_cstr\<close>: digits from the end of the buffer; \<open>i\<close> bytes are left in front. Running off the buffer panics.\<close>

fun itoa_loop :: "nat \<Rightarrow> nat \<Rightarrow> str \<Rightarrow> str option" where
  "itoa_loop i v acc =
     (if i = 0 then None
      else let acc' = char_of (48 + v mod 10) # acc
           in if v div 10 = 0 then Some acc' else itoa_loop (i - 1) (v div 10) acc')"

declare itoa_loop.simps [simp del]

definition itoa_cstr :: "nat \<Rightarrow> nat \<Rightarrow> str option" where
  "itoa_cstr len v = itoa_loop (len - 1) v []"

text \<open>The value of the first entry with the key is overwritten where it stands; a value longer than the
  slot of ten bytes is not written, one longer than what the entry has room for would run over its end.\<close>

definition slot_cap :: nat where "slot_cap = 10"

fun overwrite_entry :: "str \<Rightarrow> str \<Rightarrow> str list \<Rightarrow> (bool \<times> str list) option" where
  "overwrite_entry key v [] = Some (False, [])"
| "overwrite_entry key v (x # xs) =
     (case strip_prefix key x of
        Some old \<Rightarrow> if length v \<le> length old then Some (True, (key @ v) # xs) else None
      | None \<Rightarrow> map_option (\<lambda>(b, ys). (b, x # ys)) (overwrite_entry key v xs))"

definition overwrite_env_in_place :: "str \<Rightarrow> str \<Rightarrow> str list \<Rightarrow> (bool \<times> str list) option" where
  "overwrite_env_in_place key v environ = (if slot_cap < length v then Some (False, environ) else overwrite_entry key v environ)"

section \<open>In the child\<close>

datatype io_err = OsErr nat | OtherErr str

type_synonym 'a child = "proc \<Rightarrow> (io_err + 'a) \<times> proc"

definition call :: "kernel \<Rightarrow> sys_call \<Rightarrow> unit child" where
  "call K c p = (case sys K c p of (Some e, q) \<Rightarrow> (Inl (OsErr e), q) | (None, q) \<Rightarrow> (Inr (), q))"

definition pass :: "unit child" where
  "pass p = (Inr (), p)"

primrec chain :: "unit child list \<Rightarrow> unit child" where
  "chain [] p = (Inr (), p)"
| "chain (f # fs) p = (case f p of (Inl e, q) \<Rightarrow> (Inl e, q) | (Inr u, q) \<Rightarrow> chain fs q)"

definition when_some :: "'a option \<Rightarrow> ('a \<Rightarrow> unit child) \<Rightarrow> unit child" where
  "when_some x f = (case x of None \<Rightarrow> pass | Some y \<Rightarrow> f y)"

primrec dup_fds :: "kernel \<Rightarrow> nat \<Rightarrow> int list \<Rightarrow> unit child" where
  "dup_fds K i [] p = (Inr (), p)"
| "dup_fds K i (fd # fds) p = chain [call K (SysDup2 fd (3 + int i)), dup_fds K (Suc i) fds] p"

text \<open>The closure sees the manager's \<open>environ\<close>: \<open>Command\<close> installs the child's after the closure has run.\<close>

definition write_listen_pid :: "int list \<Rightarrow> unit child" where
  "write_listen_pid fds p =
     (if fds = [] then (Inr (), p)
      else case itoa_cstr 16 (pr_pid p) of
        None \<Rightarrow> (Inl (OtherErr ''panic''), p)
      | Some digits \<Rightarrow>
          (case overwrite_env_in_place ''LISTEN_PID='' digits (pr_environ p) of
             None \<Rightarrow> (Inl (OtherErr ''overflow''), p)
           | Some (b, environ) \<Rightarrow> (Inr (), p\<lparr>pr_environ := environ\<rparr>)))"

text \<open>The path of \<^verbatim>\<open>cgroup.procs\<close>, if it can be passed to \<open>open\<close>.\<close>

definition nul :: char where "nul = CHR 0x00"

definition procs_file :: "str option \<Rightarrow> str option" where
  "procs_file dir = Option.bind dir (\<lambda>d. let f = path_join d ''cgroup.procs'' in if List.member f nul then None else Some f)"

definition adopt :: "kernel \<Rightarrow> str \<Rightarrow> unit child" where
  "adopt K f p =
     (case sys K (SysOpenWrite f) p of
        (Some e, q) \<Rightarrow> (Inr (), q)
      | (None, q) \<Rightarrow>
          (case itoa_loop 32 (pr_pid q) [] of
             None \<Rightarrow> (Inl (OtherErr ''panic''), q)
           | Some digits \<Rightarrow> (Inr (), snd (sys K (SysWriteFile f digits) q))))"

definition enter_sandbox :: "kernel \<Rightarrow> sandbox_op list \<Rightarrow> unit child" where
  "enter_sandbox K xs p = (case apply_sandbox K xs p of (Inl e, q) \<Rightarrow> (Inl (OtherErr e), q) | (Inr _, q) \<Rightarrow> (Inr (), q))"

definition quietly :: "kernel \<Rightarrow> sys_call \<Rightarrow> unit child" where
  "quietly K c p = (Inr (), snd (sys K c p))"

definition set_limits :: "kernel \<Rightarrow> rlimit list \<Rightarrow> unit child" where
  "set_limits K rls = chain (map (\<lambda>rl. call K (SysSetrlimit (rl_resource rl) (rl_soft rl) (rl_hard rl))) rls)"

definition pre_exec :: "kernel \<Rightarrow> spawn_options \<Rightarrow> sandbox_op list option \<Rightarrow> unit child" where
  "pre_exec K opts xs = chain
     [call K SysUnmaskSignals,
      call K SysSetsid,
      dup_fds K 0 (so_listen_fds opts),
      write_listen_pid (so_listen_fds opts),
      when_some (procs_file (so_cgroup opts)) (adopt K),
      when_some xs (enter_sandbox K),
      when_some (so_cwd opts) (\<lambda>d. call K (SysChdir d)),
      if so_groups opts = [] then pass else call K (SysSetgroups (so_groups opts)),
      when_some (so_gid opts) (\<lambda>g. call K (SysSetgid g)),
      when_some (so_uid opts) (\<lambda>u. call K (SysSetuid u)),
      when_some (so_umask opts) (\<lambda>m. quietly K (SysUmask m)),
      when_some (so_nice opts) (\<lambda>n. quietly K (SysSetpriority n)),
      set_limits K (so_rlimits opts)]"

section \<open>In the manager\<close>

text \<open>What \<open>Command\<close> finds when it starts a process: the manager's process and environment, which log files
  open, the first error of its own preparations (pipes, null device, fork), the descriptors of the
  pipes' ends, and whether they can be made non-blocking.\<close>

record host =
  ho_proc :: proc
  ho_environ :: "(str \<times> str) list"
  ho_child :: nat
  ho_opens :: "str \<Rightarrow> bool"
  ho_setup :: "nat option"
  ho_pipe_out :: int
  ho_pipe_err :: int
  ho_fcntl :: "int \<Rightarrow> nat option"

datatype stdio = StdioPiped | StdioNull | StdioFile str

fun to_stdio :: "host \<Rightarrow> stdio_target \<Rightarrow> stdio option" where
  "to_stdio H StdJournal = Some StdioPiped"
| "to_stdio H StdInherit = Some StdioPiped"
| "to_stdio H StdDiscard = Some StdioNull"
| "to_stdio H (StdFile f) = (if ho_opens H f then Some (StdioFile f) else None)"

definition setup_stdio :: "host \<Rightarrow> spawn_options \<Rightarrow> stdio option \<times> stdio option" where
  "setup_stdio H opts = (to_stdio H (so_stdout_target opts), to_stdio H (so_stderr_target opts))"

fun stdio_file :: "open_file \<Rightarrow> stdio \<Rightarrow> open_file" where
  "stdio_file pipe StdioPiped = pipe"
| "stdio_file pipe StdioNull = OfNull"
| "stdio_file pipe (StdioFile f) = OfAppend f"

text \<open>The child after the fork, its standard streams in place; a stream that is not set stays the manager's.\<close>

definition set_stream :: "int \<Rightarrow> open_file option \<Rightarrow> proc \<Rightarrow> proc" where
  "set_stream n f p = (case f of None \<Rightarrow> p | Some x \<Rightarrow> p\<lparr>pr_fds := (pr_fds p)(n := Some (x, False))\<rparr>)"

definition env_entries :: "(str \<times> str) list \<Rightarrow> str list" where
  "env_entries env = map (\<lambda>(k, v). k @ CHR ''='' # v) env"

definition forked :: "host \<Rightarrow> spawn_options \<Rightarrow> proc" where
  "forked H opts =
     (let (out, err) = setup_stdio H opts; p = ho_proc H
      in set_stream 2 (map_option (stdio_file OfPipeErr) err) (set_stream 1 (map_option (stdio_file OfPipeOut) out)
           (set_stream 0 (if so_stdin_null opts then Some OfNull else None)
              (p\<lparr>pr_pid := ho_child H, pr_leader := False, pr_environ := env_entries (ho_environ H), pr_calls := [], pr_warned := []\<rparr>))))"

text \<open>The child's environment: the manager's, overridden.\<close>

definition overrides :: "spawn_options \<Rightarrow> (str \<times> str) list" where
  "overrides opts = so_env opts @ (case so_notify_socket opts of Some s \<Rightarrow> [(''NOTIFY_SOCKET'', s)] | None \<Rightarrow> []) @
     (if so_listen_fds opts = [] then []
      else [(''LISTEN_FDS'', show_nat (length (so_listen_fds opts))), (''LISTEN_PID'', ''0000000000'')])"

definition child_env :: "host \<Rightarrow> spawn_options \<Rightarrow> (str \<times> str) list" where
  "child_env H opts = fold (\<lambda>(k, v). hins k v) (overrides opts) (ho_environ H)"

definition has_nul :: "spawn_options \<Rightarrow> bool" where
  "has_nul opts \<longleftrightarrow> list_ex (\<lambda>s. List.member s nul) (so_argv opts @ map fst (overrides opts) @ map snd (overrides opts))"

record image =
  im_argv :: "str list"
  im_env :: "(str \<times> str) list"
  im_proc :: proc

datatype spawn_error = SpawnOs nat | SpawnNul

fun transmitted :: "io_err \<Rightarrow> nat" where
  "transmitted (OsErr e) = e"
| "transmitted (OtherErr m) = einval"

definition pipe_end :: "stdio option \<Rightarrow> int \<Rightarrow> int option" where
  "pipe_end s fd = (if s = Some StdioPiped then Some fd else None)"

definition set_nonblocking_opt :: "host \<Rightarrow> int option \<Rightarrow> nat option" where
  "set_nonblocking_opt H fd = Option.bind fd (ho_fcntl H)"

text \<open>The result, and what runs now. The outer \<open>None\<close> is the panic on an empty command.\<close>

definition started :: "host \<Rightarrow> spawn_options \<Rightarrow> spawn_error + spawned" where
  "started H opts =
     (let (out, err) = setup_stdio H opts; o1 = pipe_end out (ho_pipe_out H); o2 = pipe_end err (ho_pipe_err H)
      in case set_nonblocking_opt H o1 of
           Some e \<Rightarrow> Inl (SpawnOs e)
         | None \<Rightarrow> (case set_nonblocking_opt H o2 of
             Some e \<Rightarrow> Inl (SpawnOs e)
           | None \<Rightarrow> Inr \<lparr>sp_pid = int (ho_child H), sp_stdout = o1, sp_stderr = o2\<rparr>))"

definition spawn :: "kernel \<Rightarrow> host \<Rightarrow> spawn_options \<Rightarrow> sandbox_op list option \<Rightarrow> ((spawn_error + spawned) \<times> image option) option" where
  "spawn K H opts xs =
     (if so_argv opts = [] then None
      else Some (if has_nul opts then (Inl SpawnNul, None)
        else case ho_setup H of Some e \<Rightarrow> (Inl (SpawnOs e), None)
        | None \<Rightarrow>
            (case pre_exec K opts xs (forked H opts) of
               (Inl e, p) \<Rightarrow> (Inl (SpawnOs (transmitted e)), None)
             | (Inr _, p) \<Rightarrow>
                 (case sys K (SysExec (so_argv opts)) p of
                    (Some e, q) \<Rightarrow> (Inl (SpawnOs e), None)
                  | (None, q) \<Rightarrow> (started H opts, Some \<lparr>im_argv = so_argv opts, im_env = child_env H opts, im_proc = q\<rparr>)))))"

text \<open>With the plan of the unit's sandbox.\<close>

definition spawn_unit :: "kernel \<Rightarrow> host \<Rightarrow> spawn_options \<Rightarrow> ((spawn_error + spawned) \<times> image option) option" where
  "spawn_unit K H opts = (case plan (so_sandbox opts) of None \<Rightarrow> None | Some xs \<Rightarrow> spawn K H opts xs)"

section \<open>Reaping\<close>

datatype wait_answer = WaitExited int int | WaitSignaled int int | WaitOther int | WaitStillAlive | WaitError

text \<open>What successive calls of \<open>waitpid\<close> answer; when none is left there is no child to wait for.\<close>

fun reap_children :: "wait_answer list \<Rightarrow> (int \<times> child_exit) list" where
  "reap_children [] = []"
| "reap_children (WaitExited pid c # ws) = (pid, Exited c) # reap_children ws"
| "reap_children (WaitSignaled pid s # ws) = (pid, Signaled s) # reap_children ws"
| "reap_children (WaitOther pid # ws) = reap_children ws"
| "reap_children (WaitStillAlive # ws) = []"
| "reap_children (WaitError # ws) = []"

end
