(* ===== verification/Sandbox_Props.thy ===== *)
theory Sandbox_Props
  imports Sandbox
begin

text \<open>
  Properties of the sandbox: it never mounts anything outside its own mount namespace, and when it reports
  success every protection the plan asks for is in force, whatever the kernel refused on the way. What a
  single call keeps, every step made of such calls keeps: the locale \<open>call_law\<close> proves that once, and each
  aspect of a process is an interpretation of it.
\<close>

section \<open>What calls keep\<close>

locale call_law =
  fixes R :: "proc \<Rightarrow> proc \<Rightarrow> bool" and fits :: "sys_call \<Rightarrow> bool"
  assumes refl: "R p p"
    and trans: "R p q \<Longrightarrow> R q r \<Longrightarrow> R p r"
    and effects: "fits c \<Longrightarrow> R p (effect c p)"
    and noted: "R q (q\<lparr>pr_calls := pr_calls q @ [x]\<rparr>)"
    and warned: "R q (q\<lparr>pr_warned := w\<rparr>)"
begin

lemma via_sys: "fits c \<Longrightarrow> R p (snd (sys K c p))"
  using noted trans [OF effects noted] by (simp add: sys_def Let_def split: option.split)

lemma via_sysD: "sys K c p = (r, q) \<Longrightarrow> fits c \<Longrightarrow> R p q"
  using via_sys [of c p K] by simp

lemma via_must: "fits c \<Longrightarrow> R p (snd (must K w c p))"
  by (auto simp: must_def split: prod.split option.split intro: via_sysD)

lemma via_warn: "R p q \<Longrightarrow> R p (warn m q)"
  unfolding warn_def by (rule trans [OF _ warned])

lemma via_attempt: "fits c \<Longrightarrow> R p (attempt K w c p)"
  by (auto simp: attempt_def split: prod.split option.split intro: via_sysD via_warn)

lemma via_drop: "fits c \<Longrightarrow> R p (drop_result K c p)"
  by (simp add: drop_result_def via_sys)

lemma via_andalso: "(\<And>q. R q (snd (f q))) \<Longrightarrow> (\<And>q. R q (snd (g q))) \<Longrightarrow> R p (snd (andalso f g p))"
  unfolding andalso_def by (auto split: prod.split sum.split bool.split) (metis snd_conv trans)+

lemma via_fold:
  assumes "\<And>x q. R q (f x q)"
  shows "R p (fold f xs p)"
  by (induction xs arbitrary: p) (auto intro: refl trans [OF assms])

lemma via_map: "(\<And>f txt. fits (SysWriteFile f txt)) \<Longrightarrow> R p (snd (setup_userns_map K p))"
  unfolding setup_userns_map_def Let_def
  by (rule trans [OF via_drop via_andalso])
    (auto simp: map_entry_def split: prod.split option.split intro: via_sysD)

lemma via_bind:
  assumes "\<And>a b c d e. fits (SysMount a b c d e)" "\<And>f. fits (SysExists f)"
  shows "R p (snd (bind_read_only K root t p))"
proof -
  obtain r q where q: "sys K (SysExists t) p = (r, q)" by fastforce
  then have c: "R p q" using assms(2) by (rule via_sysD)
  have "R q (snd (andalso (must K ''bind-ro'' (SysMount (Some t) t None (ms_bind OR ms_rec) None))
      (must K ''remount-ro'' (SysMount None t None (ms_bind OR ms_remount OR ms_rdonly OR ms_rec) None)) q))"
    by (intro via_andalso via_must assms(1))
  with c show ?thesis by (auto simp: bind_read_only_def q split: option.split intro: trans via_warn)
qed

lemma via_link: "(\<And>f. fits (SysUnlink f)) \<Longrightarrow> (\<And>f l. fits (SysSymlink f l)) \<Longrightarrow> R p (replace_link K l p)"
  unfolding replace_link_def case_prod_beta by (rule trans [OF via_drop via_drop])

lemma via_devices:
  assumes "\<And>a b c d e. fits (SysMount a b c d e)" "\<And>f m a b. fits (SysMknod f m a b)" "\<And>f. fits (SysMkdirAll f)"
    "\<And>f. fits (SysUnlink f)" "\<And>f l. fits (SysSymlink f l)"
  shows "R p (private_devices K p)"
proof -
  let ?c = "SysMount (Some ''tmpfs'') ''/dev'' (Some ''tmpfs'') (ms_nosuid OR ms_nodev) (Some ''mode=0755'')"
  obtain r q where q: "sys K ?c p = (r, q)" by fastforce
  then have c: "R p q" using assms(1) by (rule via_sysD)
  have at: "R p q' \<Longrightarrow> R p (attempt K w (SysMount a b x d e) q')" for w a b x d e q'
    by (erule trans) (rule via_attempt, rule assms(1))
  have dr: "R p q' \<Longrightarrow> R p (drop_result K (SysMkdirAll f) q')" for f q'
    by (erule trans) (rule via_drop, rule assms(3))
  have ln: "R p q' \<Longrightarrow> R p (replace_link K l q')" for l q'
    by (erule trans) (rule via_link; rule assms)
  have nd: "R p (fold (make_node K) device_nodes q)"
    by (rule trans [OF c via_fold]) (simp add: make_node_def via_attempt assms(2) split: prod.split)
  have lns: "R p q' \<Longrightarrow> R p (fold (replace_link K) proc_links q')" for q'
    by (erule trans) (rule via_fold, rule via_link; rule assms)
  show ?thesis
  proof (cases r)
    case None
    then show ?thesis unfolding private_devices_def q by simp (intro lns at ln dr nd)
  qed (use c in \<open>simp add: private_devices_def q via_warn\<close>)
qed

lemma via_caps: "(\<And>n. fits (SysCapbsetDrop n)) \<Longrightarrow> R p (snd (drop_caps K cs p))"
  by (induction cs arbitrary: p) (auto intro!: via_andalso via_must refl)

lemma via_raise: "(\<And>n. fits (SysAmbientRaise n)) \<Longrightarrow> R p (fold (raise_cap K) cs p)"
  by (rule via_fold) (simp add: raise_cap_def via_attempt)

end

text \<open>The calls an operation makes.\<close>

fun issues :: "sandbox_op \<Rightarrow> sys_call \<Rightarrow> bool" where
  "issues OpUnshareMount c \<longleftrightarrow> (case c of SysUnshare u \<Rightarrow> True | SysWriteFile f x \<Rightarrow> True | _ \<Rightarrow> False)"
| "issues OpMakeRprivate c \<longleftrightarrow> (case c of SysMount a b x d e \<Rightarrow> True | _ \<Rightarrow> False)"
| "issues (OpMountTmpfs t) c \<longleftrightarrow> (case c of SysMount a b x d e \<Rightarrow> True | _ \<Rightarrow> False)"
| "issues (OpBindReadOnly t) c \<longleftrightarrow> (case c of SysMount a b x d e \<Rightarrow> True | SysExists f \<Rightarrow> True | _ \<Rightarrow> False)"
| "issues OpPrivateDevices c \<longleftrightarrow> (case c of SysMount a b x d e \<Rightarrow> True | SysMknod f m a b \<Rightarrow> True | SysMkdirAll f \<Rightarrow> True
     | SysUnlink f \<Rightarrow> True | SysSymlink f l \<Rightarrow> True | _ \<Rightarrow> False)"
| "issues OpNoNewPrivileges c \<longleftrightarrow> c = SysNoNewPrivs"
| "issues (OpCapBoundingDrop cs i) c \<longleftrightarrow> (case c of SysCapbsetDrop n \<Rightarrow> True | _ \<Rightarrow> False)"
| "issues (OpAmbientRaise cs) c \<longleftrightarrow> (case c of SysAmbientRaise n \<Rightarrow> True | _ \<Rightarrow> False)"
| "issues (OpSeccomp prog) c \<longleftrightarrow> (case c of SysSeccomp p \<Rightarrow> True | _ \<Rightarrow> False)"

context call_law
begin

lemma via_op:
  assumes "\<And>c. issues x c \<Longrightarrow> fits c"
  shows "R p (snd (apply_op K root x p))"
proof (cases x)
  case OpUnshareMount
  obtain r q where q: "sys K (SysUnshare (\<not> root)) p = (r, q)" by fastforce
  then have "R p q" by (rule via_sysD) (use assms OpUnshareMount in simp)
  moreover have "R q (snd (setup_userns_map K q))" by (rule via_map) (use assms OpUnshareMount in simp)
  ultimately show ?thesis
    by (auto simp: OpUnshareMount unshare_mount_def q split: option.split intro: trans)
qed (use assms in \<open>auto intro: via_must via_bind via_devices via_caps via_raise\<close>)

lemma via_ops:
  assumes "\<And>x c. x \<in> set xs \<Longrightarrow> issues x c \<Longrightarrow> fits c"
  shows "R p (snd (apply_ops K root xs p))"
  using assms
proof (induction xs arbitrary: p)
  case (Cons x xs)
  have "R p (snd (apply_op K root x p))" using Cons.prems by (intro via_op) auto
  moreover have "R q (snd (apply_ops K root xs q))" for q by (rule Cons.IH) (use Cons.prems in auto)
  ultimately show ?case by (auto split: prod.split sum.split intro: trans)
qed (simp add: refl)

end

section \<open>Aspects of a process\<close>

definition sealed :: "proc \<Rightarrow> bool" where
  "sealed p \<longleftrightarrow> pr_own_mounts p \<and> pr_cut p"

fun is_mount :: "sys_call \<Rightarrow> bool" where
  "is_mount (SysMount a b c d e) = True"
| "is_mount _ = False"

fun is_unshare :: "sys_call \<Rightarrow> bool" where
  "is_unshare (SysUnshare u) = True"
| "is_unshare _ = False"

fun is_capdrop :: "sys_call \<Rightarrow> bool" where
  "is_capdrop (SysCapbsetDrop n) = True"
| "is_capdrop _ = False"

fun is_filter :: "sys_call \<Rightarrow> bool" where
  "is_filter (SysSeccomp x) = True"
| "is_filter _ = False"

definition grown :: "proc \<Rightarrow> proc \<Rightarrow> bool" where
  "grown p q \<longleftrightarrow> (pr_own_mounts p \<longrightarrow> pr_own_mounts q) \<and> (pr_nnp p \<longrightarrow> pr_nnp q) \<and>
     set (pr_mounts p) \<subseteq> set (pr_mounts q) \<and> set (pr_calls p) \<subseteq> set (pr_calls q)"

interpretation host: call_law "\<lambda>p q. pr_host_mounts q = pr_host_mounts p" "\<lambda>c. \<not> is_mount c"
proof unfold_locales
  show "\<not> is_mount c \<Longrightarrow> pr_host_mounts (effect c p) = pr_host_mounts p" for c p by (cases c) auto
qed simp_all

interpretation walled: call_law "\<lambda>p q. sealed p \<longrightarrow> sealed q \<and> pr_host_mounts q = pr_host_mounts p" "\<lambda>c. \<not> is_unshare c"
proof unfold_locales
  show "\<not> is_unshare c \<Longrightarrow> sealed p \<longrightarrow> sealed (effect c p) \<and> pr_host_mounts (effect c p) = pr_host_mounts p" for c p
    by (cases c) (auto simp: sealed_def)
qed (simp_all add: sealed_def)

interpretation grown: call_law grown "\<lambda>c. True"
proof unfold_locales
  show "grown p (effect c p)" for c p by (cases c) (auto simp: grown_def)
qed (auto simp: grown_def)

interpretation bounding: call_law "\<lambda>p q. pr_bounding q = pr_bounding p" "\<lambda>c. \<not> is_capdrop c"
proof unfold_locales
  show "\<not> is_capdrop c \<Longrightarrow> pr_bounding (effect c p) = pr_bounding p" for c p by (cases c) auto
qed simp_all

interpretation filters: call_law "\<lambda>p q. pr_filters q = pr_filters p" "\<lambda>c. \<not> is_filter c"
proof unfold_locales
  show "\<not> is_filter c \<Longrightarrow> pr_filters (effect c p) = pr_filters p" for c p by (cases c) auto
qed simp_all

section \<open>Mounts stay private\<close>

definition later_ops :: "sandbox_config \<Rightarrow> sandbox_op list \<Rightarrow> sandbox_op list" where
  "later_ops cfg fs = (if sb_no_new_privileges cfg then [OpNoNewPrivileges] else []) @
     caps_op (\<lambda>cs. OpCapBoundingDrop cs (sb_bounding_invert cfg)) (sb_bounding_set cfg) @ caps_op OpAmbientRaise (sb_ambient_set cfg) @ fs"

definition tree_ops :: "sandbox_config \<Rightarrow> sandbox_op list" where
  "tree_ops cfg = (if sb_private_tmp cfg then [OpMountTmpfs ''/tmp'', OpMountTmpfs ''/var/tmp''] else []) @
     home_ops (sb_protect_home cfg) @ map OpBindReadOnly (system_paths (sb_protect_system cfg)) @
     map OpBindReadOnly (sb_read_only_paths cfg) @ (if sb_private_devices cfg then [OpPrivateDevices] else [])"

lemma plan_shape:
  assumes "plan cfg = Some (Some xs)"
  obtains fs where "filter_ops cfg = Some fs" "xs = (if needs_mounts cfg then [OpUnshareMount, OpMakeRprivate] else []) @ tree_ops cfg @ later_ops cfg fs"
  using assms that by (auto simp: plan_def mount_ops_def later_ops_def tree_ops_def split: if_splits)

lemma filter_ops_shape: "filter_ops cfg = Some fs \<Longrightarrow> x \<in> set fs \<Longrightarrow> x = OpNoNewPrivileges \<or> (\<exists>P. x = OpSeccomp P)"
  by (auto simp: filter_ops_def split: if_splits)

lemma later_shape:
  assumes "filter_ops cfg = Some fs" "x \<in> set (later_ops cfg fs)"
  shows "x = OpNoNewPrivileges \<or> (\<exists>P. x = OpSeccomp P) \<or> (\<exists>cs i. x = OpCapBoundingDrop cs i) \<or> (\<exists>cs. x = OpAmbientRaise cs)"
  using assms(2) filter_ops_shape [OF assms(1)] by (auto simp: later_ops_def caps_op_def Let_def split: if_splits)

lemma tree_shape: "x \<in> set (tree_ops cfg) \<Longrightarrow> (\<exists>t. x = OpMountTmpfs t) \<or> (\<exists>t. x = OpBindReadOnly t) \<or> x = OpPrivateDevices"
  by (auto simp: tree_ops_def home_ops_def split: if_splits protect_mode.splits)

lemma tree_empty: "\<not> needs_mounts cfg \<Longrightarrow> tree_ops cfg = []"
  by (simp add: needs_mounts_def tree_ops_def home_ops_def system_paths_def)

lemma unshared:
  assumes "unshare_mount K root p = (Inr True, q)"
  shows "pr_own_mounts q"
proof -
  obtain r q0 where s: "sys K (SysUnshare (\<not> root)) p = (r, q0)" by fastforce
  with assms have n: "r = None" by (auto simp: unshare_mount_def split: option.splits if_splits)
  with s have o: "pr_own_mounts q0" by (auto simp: sys_def Let_def split: option.splits)
  show ?thesis
  proof (cases root)
    case False
    with assms s n have "setup_userns_map K q0 = (Inr True, q)" by (simp add: unshare_mount_def)
    with grown.via_map [where K = K and p = q0] o show ?thesis by (simp add: grown_def)
  qed (use assms s n o in \<open>simp add: unshare_mount_def\<close>)
qed

lemma made_private:
  assumes "pr_own_mounts p" "apply_op K root OpMakeRprivate p = (r, q)"
  shows "pr_host_mounts q = pr_host_mounts p" "r = Inr True \<Longrightarrow> sealed q"
  using assms by (auto simp: must_def sys_def Let_def sealed_def ms_defs split: option.splits)

lemma tail_private:
  assumes "filter_ops cfg = Some fs"
  shows "sealed p \<longrightarrow> sealed (snd (apply_ops K root (tree_ops cfg @ later_ops cfg fs) p)) \<and>
    pr_host_mounts (snd (apply_ops K root (tree_ops cfg @ later_ops cfg fs) p)) = pr_host_mounts p"
proof (rule walled.via_ops)
  fix x c
  assume "x \<in> set (tree_ops cfg @ later_ops cfg fs)" "issues x c"
  then show "\<not> is_unshare c" using tree_shape [of x cfg] later_shape [OF assms, of x] by (cases c) auto
qed

text \<open>C32. The sandbox of a service never changes the mounts of the host. Whatever the configuration, whatever
  calls the kernel refuses, with or without privileges and whether or not the sandbox could be set up,
  every mount is made in a mount namespace of the service's own, and only after its propagation has been cut.\<close>

theorem mounts_stay_private:
  assumes "plan cfg = Some (Some xs)"
  shows "pr_host_mounts (snd (apply_sandbox K xs p)) = pr_host_mounts p"
proof -
  let ?root = "seen_uid p = 0"
  obtain fs where fs: "filter_ops cfg = Some fs"
    and xs: "xs = (if needs_mounts cfg then [OpUnshareMount, OpMakeRprivate] else []) @ tree_ops cfg @ later_ops cfg fs"
    using assms by (rule plan_shape)
  show ?thesis
  proof (cases "needs_mounts cfg")
    case False
    have "pr_host_mounts (snd (apply_ops K ?root xs p)) = pr_host_mounts p"
    proof (rule host.via_ops)
      fix x c
      assume "x \<in> set xs" "issues x c"
      then show "\<not> is_mount c" using later_shape [OF fs, of x] False by (cases c) (auto simp: xs tree_empty)
    qed
    then show ?thesis by (simp add: apply_sandbox_def)
  next
    case True
    obtain r1 q1 where u: "apply_op K ?root OpUnshareMount p = (r1, q1)" by fastforce
    have h1: "pr_host_mounts q1 = pr_host_mounts p"
      using host.via_op [where x = OpUnshareMount and K = K and root = ?root and p = p] u by (auto split: sys_call.splits)
    obtain r2 q2 where m: "apply_op K ?root OpMakeRprivate q1 = (r2, q2)" by fastforce
    have own: "r1 = Inr True \<Longrightarrow> pr_own_mounts q1" using u unshared by simp
    show ?thesis using u m h1 own made_private [OF _ m] tail_private [OF fs, of q2 K ?root]
      by (auto simp: apply_sandbox_def xs True simp del: apply_op.simps split: sum.split)
  qed
qed

section \<open>What a finished sandbox enforces\<close>

lemma apply_ops_append:
  "apply_ops K root (xs @ ys) p = (case apply_ops K root xs p of (Inr (Some u), q) \<Rightarrow> apply_ops K root ys q | r \<Rightarrow> r)"
  by (induction xs arbitrary: p) (auto split: prod.split sum.split option.split)

lemma apply_ops_parts:
  assumes "apply_ops K root (xs @ ys) p = (Inr (Some ()), q)"
  obtains p1 where "apply_ops K root xs p = (Inr (Some ()), p1)" "apply_ops K root ys p1 = (Inr (Some ()), q)"
  using assms that by (auto simp: apply_ops_append split: prod.splits sum.splits option.splits)

lemma apply_ops_done:
  assumes "apply_ops K root xs p = (Inr (Some ()), q)" "x \<in> set xs"
  obtains p1 q1 where "apply_op K root x p1 = (Inr True, q1)" "grown q1 q"
proof -
  from assms(2) obtain ys zs where xs: "xs = ys @ x # zs" by (auto simp: in_set_conv_decomp)
  from assms(1)[unfolded xs] obtain p1 where "apply_ops K root (x # zs) p1 = (Inr (Some ()), q)" by (rule apply_ops_parts)
  then obtain q1 where q1: "apply_op K root x p1 = (Inr True, q1)" "apply_ops K root zs q1 = (Inr (Some ()), q)"
    by (auto split: prod.splits sum.splits if_splits simp del: apply_op.simps)
  moreover have "grown q1 q" using grown.via_ops [where xs = zs and K = K and root = root and p = q1] q1(2) by simp
  ultimately show ?thesis using that by blast
qed

fun drops_caps :: "sandbox_op \<Rightarrow> bool" where
  "drops_caps (OpCapBoundingDrop cs i) = True"
| "drops_caps _ = False"

fun installs :: "sandbox_op \<Rightarrow> bool" where
  "installs (OpSeccomp P) = True"
| "installs _ = False"

lemma issues_drop: "issues x c \<Longrightarrow> is_capdrop c \<Longrightarrow> drops_caps x"
  by (cases c; cases x) auto

lemma issues_filter: "issues x c \<Longrightarrow> is_filter c \<Longrightarrow> installs x"
  by (cases c; cases x) auto

lemma tree_quiet: "\<forall>x \<in> set (tree_ops cfg). \<not> drops_caps x \<and> \<not> installs x"
  using tree_shape [of _ cfg] by fastforce

lemma filter_ops_quiet: "filter_ops cfg = Some fs \<Longrightarrow> \<forall>x \<in> set fs. \<not> drops_caps x"
  using filter_ops_shape by fastforce

definition tmpfs_on :: "str \<Rightarrow> sys_call" where
  "tmpfs_on t = SysMount (Some ''tmpfs'') t (Some ''tmpfs'') (ms_nosuid OR ms_nodev) (Some ''mode=1777'')"

definition read_only_on :: "str \<Rightarrow> sys_call" where
  "read_only_on t = SysMount None t None (ms_bind OR ms_remount OR ms_rdonly OR ms_rec) None"

definition private_dirs :: "sandbox_config \<Rightarrow> str list" where
  "private_dirs cfg = (if sb_private_tmp cfg then [''/tmp'', ''/var/tmp''] else []) @
     (if sb_protect_home cfg = ProtectTmpfs then home_paths else [])"

definition read_only_dirs :: "sandbox_config \<Rightarrow> str list" where
  "read_only_dirs cfg = (if sb_protect_home cfg = ProtectReadOnly then home_paths else []) @
     system_paths (sb_protect_system cfg) @ sb_read_only_paths cfg"

definition keeps_cap :: "sandbox_config \<Rightarrow> nat \<Rightarrow> bool" where
  "keeps_cap cfg c \<longleftrightarrow>
     (let caps = List.map_filter cap_number (sb_bounding_set cfg)
      in caps = [] \<or> (if sb_bounding_invert cfg then c \<notin> set caps else c \<in> set caps \<or> last_cap < c))"

lemma tree_tmpfs: "t \<in> set (private_dirs cfg) \<Longrightarrow> OpMountTmpfs t \<in> set (tree_ops cfg)"
  by (auto simp: private_dirs_def tree_ops_def home_ops_def split: if_splits)

lemma tree_read_only: "t \<in> set (read_only_dirs cfg) \<Longrightarrow> OpBindReadOnly t \<in> set (tree_ops cfg)"
  by (auto simp: read_only_dirs_def tree_ops_def home_ops_def split: if_splits)

lemma caps_dropped: "drop_caps K cs p = (Inr True, q) \<Longrightarrow> pr_bounding q = filter (\<lambda>c. c \<notin> set cs) (pr_bounding p)"
proof (induction cs arbitrary: p)
  case (Cons c cs)
  then obtain p1 where m: "must K ''cap-bounding-drop'' (SysCapbsetDrop c) p = (Inr True, p1)" and d: "drop_caps K cs p1 = (Inr True, q)"
    by (auto simp: andalso_def split: prod.splits sum.splits bool.splits)
  from m have "pr_bounding p1 = filter (\<lambda>d. d \<noteq> c) (pr_bounding p)"
    by (auto simp: must_def sys_def Let_def split: option.splits)
  with Cons.IH [OF d] show ?case by (auto intro!: filter_cong)
qed simp

lemma mount_seen:
  assumes "must K w c p = (Inr True, q)" "sealed p" "is_mount c" "c = SysMount a b x d e" "d \<noteq> ms_rec OR ms_private"
  shows "c \<in> set (pr_mounts q)"
  using assms by (auto simp: must_def sys_def Let_def sealed_def split: option.splits)

lemma bind_seen:
  assumes "bind_read_only K True t p = (Inr True, q)" "sealed p"
  shows "read_only_on t \<in> set (pr_mounts q) \<or> (\<exists>e. (SysExists t, Some e) \<in> set (pr_calls q))"
proof -
  obtain r p1 where s: "sys K (SysExists t) p = (r, p1)" by fastforce
  show ?thesis
  proof (cases r)
    case None
    have "sealed p1" using walled.via_sys [where c = "SysExists t" and K = K and p = p] s assms(2) by simp
    moreover obtain p2 where b: "must K ''bind-ro'' (SysMount (Some t) t None (ms_bind OR ms_rec) None) p1 = (Inr True, p2)"
      "must K ''remount-ro'' (SysMount None t None (ms_bind OR ms_remount OR ms_rdonly OR ms_rec) None) p2 = (Inr True, q)"
      using assms(1) s None by (auto simp: bind_read_only_def andalso_def split: prod.splits sum.splits bool.splits)
    moreover have "sealed p1 \<longrightarrow> sealed p2"
      using walled.via_must [where c = "SysMount (Some t) t None (ms_bind OR ms_rec) None" and K = K and p = p1 and w = "''bind-ro''"] b(1)
      by simp
    ultimately have "sealed p2" by simp
    with mount_seen [OF b(2)] show ?thesis by (simp add: read_only_on_def ms_defs)
  next
    case (Some e)
    with s have "(SysExists t, Some e) \<in> set (pr_calls p1)" by (auto simp: sys_def Let_def split: option.splits)
    with assms(1) s Some show ?thesis by (auto simp: bind_read_only_def)
  qed
qed

lemma sealed_done:
  assumes "apply_ops K root xs p = (Inr (Some ()), q)" "x \<in> set xs" "sealed p" "\<And>x c. x \<in> set xs \<Longrightarrow> issues x c \<Longrightarrow> \<not> is_unshare c"
  obtains p1 q1 where "apply_op K root x p1 = (Inr True, q1)" "grown q1 q" "sealed p1"
proof -
  from assms(2) obtain ys zs where xs: "xs = ys @ x # zs" by (auto simp: in_set_conv_decomp)
  from assms(1)[unfolded xs] obtain p1 where y: "apply_ops K root ys p = (Inr (Some ()), p1)"
    and "apply_ops K root (x # zs) p1 = (Inr (Some ()), q)" by (rule apply_ops_parts)
  then obtain q1 where q1: "apply_op K root x p1 = (Inr True, q1)" "apply_ops K root zs q1 = (Inr (Some ()), q)"
    by (auto split: prod.splits sum.splits if_splits simp del: apply_op.simps)
  have "sealed p1" using walled.via_ops [where xs = ys and K = K and root = root and p = p] y assms(3,4) by (auto simp: xs)
  moreover have "grown q1 q" using grown.via_ops [where xs = zs and K = K and root = root and p = q1] q1(2) by simp
  ultimately show ?thesis using that q1(1) by blast
qed

lemma bounding_after:
  assumes "apply_ops K root xs p = (Inr (Some ()), q)" "xs = as @ caps_op (\<lambda>cs. OpCapBoundingDrop cs i) names @ bs"
    "\<forall>x \<in> set as \<union> set bs. \<not> drops_caps x"
  shows "pr_bounding q = filter (\<lambda>c. let caps = List.map_filter cap_number names
    in caps = [] \<or> c \<notin> set (cap_drop_set caps i)) (pr_bounding p)"
proof -
  let ?m = "caps_op (\<lambda>cs. OpCapBoundingDrop cs i) names" and ?caps = "List.map_filter cap_number names"
  from assms(1)[unfolded assms(2)] obtain p1 where a: "apply_ops K root as p = (Inr (Some ()), p1)"
    and "apply_ops K root (?m @ bs) p1 = (Inr (Some ()), q)" by (rule apply_ops_parts)
  then obtain p2 where m: "apply_ops K root ?m p1 = (Inr (Some ()), p2)" and b: "apply_ops K root bs p2 = (Inr (Some ()), q)"
    by (elim apply_ops_parts)
  have "pr_bounding p1 = pr_bounding p" using bounding.via_ops [where xs = as and K = K and root = root and p = p] a assms(3) issues_drop by fastforce
  moreover have "pr_bounding q = pr_bounding p2" using bounding.via_ops [where xs = bs and K = K and root = root and p = p2] b assms(3) issues_drop by fastforce
  moreover have "pr_bounding p2 = filter (\<lambda>c. ?caps = [] \<or> c \<notin> set (cap_drop_set ?caps i)) (pr_bounding p1)"
    using m by (auto simp: caps_op_def Let_def caps_dropped split: if_splits prod.splits sum.splits)
  ultimately show ?thesis by (simp add: Let_def)
qed

lemma keeps_cap_drop:
  "(let caps = List.map_filter cap_number (sb_bounding_set cfg) in caps = [] \<or> c \<notin> set (cap_drop_set caps (sb_bounding_invert cfg))) = keeps_cap cfg c"
  by (auto simp: keeps_cap_def cap_drop_set_def Let_def)

definition filter_program :: "sandbox_config \<Rightarrow> sock_filter list option" where
  "filter_program cfg = (if needs_filter cfg then build_seccomp (sb_syscall_nrs cfg) (filter_denies cfg) (sb_syscall_errno cfg)
     (extra_deny cfg) (af_of cfg) (sb_memory_deny_write_execute cfg) else None)"

lemma filters_after:
  assumes "apply_ops K root (as @ fs) p = (Inr (Some ()), q)" "filter_ops cfg = Some fs" "\<forall>x \<in> set as. \<not> installs x"
  shows "pr_filters q = (case filter_program cfg of None \<Rightarrow> [] | Some P \<Rightarrow> [take (length P mod 65536) P]) @ pr_filters p"
proof -
  from assms(1) obtain p1 where a: "apply_ops K root as p = (Inr (Some ()), p1)" and f: "apply_ops K root fs p1 = (Inr (Some ()), q)"
    by (rule apply_ops_parts)
  have p1: "pr_filters p1 = pr_filters p" using filters.via_ops [where xs = as and K = K and root = root and p = p] a assms(3) issues_filter by fastforce
  show ?thesis using assms(2) f p1
    by (auto simp: filter_ops_def filter_program_def must_def sys_def Let_def split: if_splits option.splits prod.splits sum.splits)
qed

lemma in_force:
  assumes "plan cfg = Some (Some xs)" "apply_sandbox K xs p = (Inr (Some ()), q)" "seen_uid p = 0"
  shows "(needs_mounts cfg \<longrightarrow> sealed q) \<and>
    (\<forall>t \<in> set (private_dirs cfg). tmpfs_on t \<in> set (pr_mounts q)) \<and>
    (\<forall>t \<in> set (read_only_dirs cfg). read_only_on t \<in> set (pr_mounts q) \<or> (\<exists>e. (SysExists t, Some e) \<in> set (pr_calls q))) \<and>
    (sb_no_new_privileges cfg \<or> needs_filter cfg \<longrightarrow> pr_nnp q) \<and>
    pr_bounding q = filter (keeps_cap cfg) (pr_bounding p) \<and>
    pr_filters q = (case filter_program cfg of None \<Rightarrow> [] | Some P \<Rightarrow> [take (length P mod 65536) P]) @ pr_filters p"
proof -
  obtain fs where fs: "filter_ops cfg = Some fs"
    and xs: "xs = (if needs_mounts cfg then [OpUnshareMount, OpMakeRprivate] else []) @ tree_ops cfg @ later_ops cfg fs"
    using assms(1) by (rule plan_shape)
  have run: "apply_ops K True xs p = (Inr (Some ()), q)" using assms(2,3) by (simp add: apply_sandbox_def)
  have still: "x \<in> set (tree_ops cfg @ later_ops cfg fs) \<Longrightarrow> issues x c \<Longrightarrow> \<not> is_unshare c" for x c
    using tree_shape [of x cfg] later_shape [OF fs, of x] by (cases c) auto
  have mounted: "sealed q \<and> (\<forall>x \<in> set (tree_ops cfg). \<exists>p1 q1. apply_op K True x p1 = (Inr True, q1) \<and> grown q1 q \<and> sealed p1)"
    if n: "needs_mounts cfg"
  proof -
    obtain p2 where p2: "apply_ops K True [OpUnshareMount, OpMakeRprivate] p = (Inr (Some ()), p2)"
      and t: "apply_ops K True (tree_ops cfg @ later_ops cfg fs) p2 = (Inr (Some ()), q)"
      by (rule apply_ops_parts [OF run [unfolded xs if_P [OF n]]])
    from p2 obtain p1 where "apply_op K True OpUnshareMount p = (Inr True, p1)" "apply_op K True OpMakeRprivate p1 = (Inr True, p2)"
      by (auto split: prod.splits sum.splits if_splits simp del: apply_op.simps)
    then have "unshare_mount K True p = (Inr True, p1)" "apply_op K True OpMakeRprivate p1 = (Inr True, p2)" by simp_all
    then have s: "sealed p2" using made_private(2) unshared by blast
    with tail_private [OF fs, of p2 K True] t have "sealed q" by simp
    moreover have "\<exists>p1 q1. apply_op K True x p1 = (Inr True, q1) \<and> grown q1 q \<and> sealed p1" if "x \<in> set (tree_ops cfg)" for x
    proof (rule sealed_done [OF t _ s still, of x])
      show "x \<in> set (tree_ops cfg @ later_ops cfg fs)" using that by simp
    qed blast+
    ultimately show ?thesis by blast
  qed
  have "tmpfs_on t \<in> set (pr_mounts q)" if t: "t \<in> set (private_dirs cfg)" for t
  proof -
    have "needs_mounts cfg" using tree_tmpfs [OF t] tree_empty [of cfg] by (cases "needs_mounts cfg") auto
    with mounted tree_tmpfs [OF t] obtain p1 q1 where "apply_op K True (OpMountTmpfs t) p1 = (Inr True, q1)" "grown q1 q" "sealed p1"
      by blast
    with mount_seen [of K _ "tmpfs_on t" p1 q1] show ?thesis by (auto simp: tmpfs_on_def grown_def ms_defs)
  qed
  moreover have "read_only_on t \<in> set (pr_mounts q) \<or> (\<exists>e. (SysExists t, Some e) \<in> set (pr_calls q))" if t: "t \<in> set (read_only_dirs cfg)" for t
  proof -
    have "needs_mounts cfg" using tree_read_only [OF t] tree_empty [of cfg] by (cases "needs_mounts cfg") auto
    with mounted tree_read_only [OF t] obtain p1 q1 where "apply_op K True (OpBindReadOnly t) p1 = (Inr True, q1)" "grown q1 q" "sealed p1"
      by blast
    with bind_seen [of K t p1 q1] show ?thesis by (auto simp: grown_def)
  qed
  moreover have "pr_nnp q" if w: "sb_no_new_privileges cfg \<or> needs_filter cfg"
  proof -
    have "OpNoNewPrivileges \<in> set xs" using w fs by (auto simp: xs later_ops_def filter_ops_def)
    from apply_ops_done [OF run this] obtain p1 q1 where "apply_op K True OpNoNewPrivileges p1 = (Inr True, q1)" "grown q1 q" by blast
    then show ?thesis by (auto simp: must_def sys_def Let_def grown_def split: option.splits)
  qed
  moreover have "pr_bounding q = filter (keeps_cap cfg) (pr_bounding p)"
  proof -
    let ?as = "(if needs_mounts cfg then [OpUnshareMount, OpMakeRprivate] else []) @ tree_ops cfg @
      (if sb_no_new_privileges cfg then [OpNoNewPrivileges] else [])" and ?bs = "caps_op OpAmbientRaise (sb_ambient_set cfg) @ fs"
    have A: "xs = ?as @ caps_op (\<lambda>cs. OpCapBoundingDrop cs (sb_bounding_invert cfg)) (sb_bounding_set cfg) @ ?bs"
      by (simp add: xs later_ops_def)
    have B: "\<forall>x \<in> set ?as \<union> set ?bs. \<not> drops_caps x"
      using tree_quiet [of cfg] filter_ops_quiet [OF fs] by (auto simp: caps_op_def Let_def)
    show ?thesis using bounding_after [OF run A B] by (simp only: keeps_cap_drop)
  qed
  moreover have "pr_filters q = (case filter_program cfg of None \<Rightarrow> [] | Some P \<Rightarrow> [take (length P mod 65536) P]) @ pr_filters p"
  proof -
    let ?as = "(if needs_mounts cfg then [OpUnshareMount, OpMakeRprivate] else []) @ tree_ops cfg @ later_ops cfg []"
    have "xs = ?as @ fs" by (simp add: xs later_ops_def)
    moreover have "\<forall>x \<in> set ?as. \<not> installs x"
      using tree_quiet [of cfg] by (auto simp: later_ops_def caps_op_def Let_def)
    ultimately show ?thesis using filters_after [of K True ?as fs p q cfg] run fs by simp
  qed
  ultimately show ?thesis using mounted by blast
qed

text \<open>The capabilities the setting names, as far as they are known, and what the setting asks of the
  bounding set, for the capabilities 0 to 40 of the kernel: a list keeps what it names, an inverted
  list drops what it names.\<close>

definition known_caps :: "sandbox_config \<Rightarrow> nat set" where
  "known_caps cfg = {c. \<exists>n \<in> set (sb_bounding_set cfg). cap_number n = Some c}"

definition caps_obeyed :: "sandbox_config \<Rightarrow> nat list \<Rightarrow> nat list \<Rightarrow> bool" where
  "caps_obeyed cfg before now \<longleftrightarrow>
     (\<forall>c \<le> 40. c \<in> set now \<longleftrightarrow>
        c \<in> set before \<and> (if sb_bounding_invert cfg then c \<notin> known_caps cfg else c \<in> known_caps cfg))"

lemma set_known_caps: "set (List.map_filter cap_number (sb_bounding_set cfg)) = known_caps cfg"
  unfolding set_map_filter known_caps_def by (rule refl)

lemma keeps_cap_known:
  "keeps_cap cfg c \<longleftrightarrow> known_caps cfg = {} \<or>
     (if sb_bounding_invert cfg then c \<notin> known_caps cfg else c \<in> known_caps cfg \<or> 40 < c)"
  unfolding keeps_cap_def Let_def set_known_caps last_cap_def set_empty [symmetric] by (rule refl)

lemma keeps_cap_obeyed:
  "known_caps cfg \<noteq> {} \<Longrightarrow> caps_obeyed cfg B (filter (keeps_cap cfg) B)"
  "known_caps cfg = {} \<Longrightarrow> filter (keeps_cap cfg) B = B"
  by (simp_all add: caps_obeyed_def keeps_cap_known)

text \<open>C31. A sandbox that was set up is in force, in the parts listed here. Let the manager's user be
  seen as root and let all operations of a plan succeed. Then: if the settings need mounts, the
  service sees the mounts of its own namespace; a fresh file system shadows each directory that is to be private
  (\<^verbatim>\<open>PrivateTmp=\<close>, \<^verbatim>\<open>ProtectHome=tmpfs\<close>); each path that is to be read-only is remounted so, unless it was found
  absent; no new privileges can be gained if that was asked for or a call filter is installed; if
  \<^verbatim>\<open>CapabilityBoundingSet=\<close> names a known capability, the bounding set is the inherited one cut as
  the setting says (an empty list, and a list none of whose names is known, leave it as it was); and the
  filter installed is the one program built from the settings. The device nodes of
  \<^verbatim>\<open>PrivateDevices=\<close> and the ambient capabilities are not part of the claim.\<close>

theorem sandbox_in_force:
  assumes "plan cfg = Some (Some xs)" "apply_sandbox K xs p = (Inr (Some ()), q)" "seen_uid p = 0"
  shows "(needs_mounts cfg \<longrightarrow> sealed q) \<and>
    (\<forall>t \<in> set (private_dirs cfg). tmpfs_on t \<in> set (pr_mounts q)) \<and>
    (\<forall>t \<in> set (read_only_dirs cfg). read_only_on t \<in> set (pr_mounts q) \<or> (\<exists>e. (SysExists t, Some e) \<in> set (pr_calls q))) \<and>
    (sb_no_new_privileges cfg \<or> needs_filter cfg \<longrightarrow> pr_nnp q) \<and>
    (known_caps cfg \<noteq> {} \<longrightarrow> caps_obeyed cfg (pr_bounding p) (pr_bounding q)) \<and>
    (known_caps cfg = {} \<longrightarrow> pr_bounding q = pr_bounding p) \<and>
    pr_filters q = (case filter_program cfg of None \<Rightarrow> [] | Some P \<Rightarrow> [take (length P mod 65536) P]) @ pr_filters p"
  using in_force [OF assms] keeps_cap_obeyed [of cfg "pr_bounding p"]
  by (elim conjE, intro conjI) simp_all

text \<open>A machine that refuses nothing.\<close>

definition open_kernel :: kernel where
  "open_kernel = \<lparr>kn_refuses = (\<lambda>c p. None), kn_text = show_nat\<rparr>"

definition fresh_proc :: proc where
  "fresh_proc = \<lparr>pr_pid = 4711, pr_uid = 0, pr_gid = 0, pr_groups = [0], pr_cwd = ''/'', pr_umask = 18, pr_nice = 0, pr_rlimits = [],
     pr_blocked = [15], pr_leader = False, pr_fds = (\<lambda>_. None), pr_cgroup = None, pr_userns = False, pr_uid_mapped = False,
     pr_gid_mapped = False, pr_own_mounts = False, pr_cut = False, pr_mounts = [], pr_host_mounts = [], pr_nnp = False,
     pr_bounding = [5, 7, 13], pr_ambient = [], pr_filters = [], pr_environ = [], pr_calls = [], pr_warned = []\<rparr>"

definition demo_box :: sandbox_config where
  "demo_box = sandbox_default\<lparr>sb_private_tmp := True, sb_protect_system := SystemStrict, sb_bounding_invert := True,
     sb_bounding_set := [''net_raw''], sb_no_new_privileges := True\<rparr>"

lemma open_sys: "sys open_kernel c p = (None, (effect c p)\<lparr>pr_calls := pr_calls (effect c p) @ [(c, None)]\<rparr>)"
  by (simp add: sys_def open_kernel_def Let_def)

lemma open_must: "fst (must open_kernel w c p) = Inr True"
  by (simp add: must_def open_sys)

lemma open_andalso: "(\<And>q. fst (f q) = Inr True) \<Longrightarrow> (\<And>q. fst (g q) = Inr True) \<Longrightarrow> fst (andalso f g p) = Inr True"
  by (auto simp: andalso_def split: prod.split sum.split bool.split) (metis fst_conv Inl_Inr_False sum.inject(2))+

lemma open_drop_caps: "fst (drop_caps open_kernel cs p) = Inr True"
  by (induction cs arbitrary: p) (simp_all add: open_andalso open_must)

lemma open_op: "fst (apply_op open_kernel True x p) = Inr True"
  by (cases x) (simp_all add: open_must open_drop_caps unshare_mount_def bind_read_only_def open_sys open_andalso)

lemma open_ops: "fst (apply_ops open_kernel True xs p) = Inr (Some ())"
proof (induction xs arbitrary: p)
  case (Cons x xs)
  with open_op [of x p] show ?case by (cases "apply_op open_kernel True x p") simp
qed simp

lemma demo_plan: "\<exists>xs. plan demo_box = Some (Some xs)"
  by (simp add: plan_def has_sandbox_def demo_box_def sandbox_default_def filter_ops_def needs_filter_def)

theorem mounts_stay_private_witness:
  "\<exists>xs. plan demo_box = Some (Some xs) \<and> pr_host_mounts (snd (apply_sandbox open_kernel xs fresh_proc)) = []"
proof -
  obtain xs where x: "plan demo_box = Some (Some xs)" using demo_plan by blast
  from mounts_stay_private [OF x, of open_kernel fresh_proc] x show ?thesis by (simp add: fresh_proc_def)
qed

theorem sandbox_in_force_witness:
  "\<exists>xs q. plan demo_box = Some (Some xs) \<and> apply_sandbox open_kernel xs fresh_proc = (Inr (Some ()), q) \<and> sealed q \<and> pr_nnp q \<and>
    5 \<in> set (pr_bounding q) \<and> 13 \<notin> set (pr_bounding q)"
proof -
  obtain xs where x: "plan demo_box = Some (Some xs)" using demo_plan by blast
  have u: "seen_uid fresh_proc = 0" by (simp add: seen_uid_def fresh_proc_def)
  obtain q where q: "apply_sandbox open_kernel xs fresh_proc = (Inr (Some ()), q)"
    using open_ops [of xs fresh_proc] by (cases "apply_sandbox open_kernel xs fresh_proc") (simp add: apply_sandbox_def u)
  have c: "cap_number ''net_raw'' = Some 13" by code_simp
  have "needs_mounts demo_box" "sb_no_new_privileges demo_box" by (simp_all add: demo_box_def needs_mounts_def)
  moreover have "known_caps demo_box = {13}" "sb_bounding_invert demo_box"
    by (auto simp: known_caps_def demo_box_def c)
  moreover have "5 \<in> set (pr_bounding fresh_proc)" by (simp add: fresh_proc_def)
  ultimately show ?thesis using sandbox_in_force [OF x q u] x q by (auto simp: caps_obeyed_def)
qed

section \<open>Where the sandbox falls short\<close>

text \<open>A user manager writes the overflow identity into the maps of a new user namespace, not its own.\<close>

lemma map_has_overflow_id:
  assumes "unshare_mount K False p = (r, q)" "kn_refuses K (SysUnshare True) p = None"
  shows "\<exists>x. (SysWriteFile ''/proc/self/uid_map'' (''0 65534 1'' @ [CHR 0x0A]), x) \<in> set (pr_calls q)"
proof -
  obtain p1 where u: "sys K (SysUnshare True) p = (None, p1)" using assms(2) by (simp add: sys_def Let_def)
  then have m: "pr_userns p1 \<and> \<not> pr_uid_mapped p1" by (auto simp: sys_def Let_def split: option.splits)
  define p2 where "p2 = drop_result K (SysWriteFile ''/proc/self/setgroups'' ''deny'') p1"
  have "seen_uid p2 = 65534" using m by (auto simp: p2_def drop_result_def sys_def Let_def seen_uid_def overflow_id_def split: option.splits)
  moreover obtain r3 p3 where w: "map_entry K ''uid_map'' 65534 p2 = (r3, p3)" by fastforce
  ultimately have *: "setup_userns_map K p1 = andalso (map_entry K ''uid_map'' 65534) (map_entry K ''gid_map'' (seen_gid p2)) p2"
    by (simp add: setup_userns_map_def p2_def Let_def)
  have "show_nat 65534 = ''65534''" by code_simp
  with w have c: "\<exists>x. (SysWriteFile ''/proc/self/uid_map'' (''0 65534 1'' @ [CHR 0x0A]), x) \<in> set (pr_calls p3)"
    by (auto simp: map_entry_def sys_def Let_def split: prod.splits option.splits if_splits)
  have "grown p3 (snd (map_entry K ''gid_map'' n p3))" for n
    by (auto simp: map_entry_def split: prod.split option.split intro: grown.via_sysD)
  then have "set (pr_calls p3) \<subseteq> set (pr_calls (snd (andalso (map_entry K ''uid_map'' 65534) (map_entry K ''gid_map'' (seen_gid p2)) p2)))"
    using w by (auto simp: andalso_def grown_def split: sum.split bool.split)
  moreover have "snd (setup_userns_map K p1) = q" using assms(1) u by (simp add: unshare_mount_def)
  ultimately have "set (pr_calls p3) \<subseteq> set (pr_calls q)" using * by simp
  with c show ?thesis by blast
qed

text \<open>When user namespaces are refused, what needs none is skipped as well.\<close>

lemma refused_namespace_skips_all:
  assumes "kn_refuses K (SysUnshare True) p = Some eperm" "seen_uid p \<noteq> 0"
  shows "\<exists>q. apply_sandbox K (OpUnshareMount # xs) p = (Inr None, q) \<and> pr_nnp q = pr_nnp p \<and> pr_filters q = pr_filters p"
  using assms by (simp add: apply_sandbox_def unshare_mount_def sys_def)

lemma unknown_caps_keep_all: "List.map_filter cap_number (sb_bounding_set cfg) = [] \<Longrightarrow> keeps_cap cfg c"
  by (simp add: keeps_cap_def)

text \<open>Capability names are read in any case, with or without their prefix.\<close>

lemma cap_numbers: "list_all (\<lambda>(i, n). cap_number n = Some i \<and> cap_number (''cap_'' @ n) = Some i) (enumerate 0 cap_names)"
  by code_simp

end
