(* ===== verification/Spawn_Props.thy ===== *)
theory Spawn_Props
  imports Spawn Sandbox_Props Services Manager_Runs
begin

text \<open>
  Properties of starting a process: what a program that was started finds, the listening sockets it is
  handed, and the number formatting of the child.
\<close>

section \<open>Steps of the child\<close>

lemma chain_done [simp]: "chain (f # fs) p = (Inr (), q) \<longleftrightarrow> (\<exists>p1. f p = (Inr (), p1) \<and> chain fs p1 = (Inr (), q))"
  by (auto split: prod.splits sum.splits)

declare chain.simps(2) [simp del]

lemma sys_done: "sys K c p = (None, q) \<Longrightarrow> q = (effect c p)\<lparr>pr_calls := pr_calls (effect c p) @ [(c, None)]\<rparr>"
  by (auto simp: sys_def Let_def split: option.splits)

lemma call_done: "call K c p = (Inr (), q) \<Longrightarrow> sys K c p = (None, q)"
  by (auto simp: call_def split: prod.splits option.splits)

text \<open>Calls that leave the identity, the limits and the confinement of a process alone.\<close>

fun harmless :: "sys_call \<Rightarrow> bool" where
  "harmless SysUnmaskSignals = True"
| "harmless SysSetsid = True"
| "harmless (SysDup2 a b) = True"
| "harmless (SysOpenWrite f) = True"
| "harmless (SysWriteFile f x) = True"
| "harmless (SysUmask m) = True"
| "harmless (SysSetpriority n) = True"
| "harmless (SysExec a) = True"
| "harmless _ = False"

definition steady :: "proc \<Rightarrow> proc \<Rightarrow> bool" where
  "steady p q \<longleftrightarrow> pr_uid q = pr_uid p \<and> pr_gid q = pr_gid p \<and> pr_groups q = pr_groups p \<and> pr_cwd q = pr_cwd p \<and>
     pr_rlimits q = pr_rlimits p \<and> pr_nnp q = pr_nnp p \<and> pr_bounding q = pr_bounding p \<and> pr_filters q = pr_filters p \<and>
     pr_userns q = pr_userns p \<and> (pr_uid_mapped p \<longrightarrow> pr_uid_mapped q) \<and> pr_ambient q = pr_ambient p"

interpretation steady: call_law steady harmless
proof unfold_locales
  show "harmless c \<Longrightarrow> steady p (effect c p)" for c p by (cases c) (auto simp: steady_def)
qed (auto simp: steady_def)

text \<open>What the sandbox leaves alone, and what the steps after it leave alone.\<close>

fun changes_identity :: "sys_call \<Rightarrow> bool" where
  "changes_identity (SysChdir d) = True"
| "changes_identity (SysSetgroups g) = True"
| "changes_identity (SysSetgid g) = True"
| "changes_identity (SysSetuid u) = True"
| "changes_identity (SysSetrlimit r a b) = True"
| "changes_identity SysUnmaskSignals = True"
| "changes_identity SysSetsid = True"
| "changes_identity (SysDup2 a b) = True"
| "changes_identity (SysExec a) = True"
| "changes_identity _ = False"

definition same_identity :: "proc \<Rightarrow> proc \<Rightarrow> bool" where
  "same_identity p q \<longleftrightarrow> pr_uid q = pr_uid p \<and> pr_gid q = pr_gid p \<and> pr_groups q = pr_groups p \<and> pr_cwd q = pr_cwd p \<and>
     pr_rlimits q = pr_rlimits p \<and> pr_blocked q = pr_blocked p \<and> pr_leader q = pr_leader p \<and> pr_fds q = pr_fds p"

interpretation identity: call_law same_identity "\<lambda>c. \<not> changes_identity c"
proof unfold_locales
  show "\<not> changes_identity c \<Longrightarrow> same_identity p (effect c p)" for c p by (cases c) (auto simp: same_identity_def)
qed (auto simp: same_identity_def)

lemma issues_identity: "issues x c \<Longrightarrow> \<not> changes_identity c"
  by (cases c; cases x) auto

fun changes_box :: "sys_call \<Rightarrow> bool" where
  "changes_box SysNoNewPrivs = True"
| "changes_box (SysCapbsetDrop n) = True"
| "changes_box (SysSeccomp P) = True"
| "changes_box SysUnmaskSignals = True"
| "changes_box (SysDup2 a b) = True"
| "changes_box (SysExec a) = True"
| "changes_box _ = False"

definition same_box :: "proc \<Rightarrow> proc \<Rightarrow> bool" where
  "same_box p q \<longleftrightarrow> pr_nnp q = pr_nnp p \<and> pr_bounding q = pr_bounding p \<and> pr_filters q = pr_filters p \<and>
     pr_blocked q = pr_blocked p \<and> (pr_leader p \<longrightarrow> pr_leader q) \<and> pr_fds q = pr_fds p"

interpretation box: call_law same_box "\<lambda>c. \<not> changes_box c"
proof unfold_locales
  show "\<not> changes_box c \<Longrightarrow> same_box p (effect c p)" for c p by (cases c) (auto simp: same_box_def)
qed (auto simp: same_box_def)

section \<open>Passing listening sockets\<close>

lemma dup_fds_done:
  assumes "dup_fds K k fds p = (Inr (), q)" "\<forall>i j. i < j \<longrightarrow> j < length fds \<longrightarrow> fds ! j \<noteq> 3 + int (k + i)"
    "\<forall>j < length fds. fds ! j \<noteq> 3 + int (k + j)"
  shows "(\<forall>i < length fds. pr_fds q (3 + int (k + i)) = map_option (\<lambda>(f, cx). (f, False)) (pr_fds p (fds ! i))) \<and>
    (\<forall>n. (\<forall>i < length fds. n \<noteq> 3 + int (k + i)) \<longrightarrow> pr_fds q n = pr_fds p n)"
  using assms
proof (induction fds arbitrary: k p)
  case (Cons fd fds)
  from Cons.prems(1) obtain p1 where d: "call K (SysDup2 fd (3 + int k)) p = (Inr (), p1)" and r: "dup_fds K (Suc k) fds p1 = (Inr (), q)"
    by auto
  from Cons.prems(3) have "fd \<noteq> 3 + int k" by fastforce
  with sys_done [OF call_done [OF d]] have p1: "pr_fds p1 = (pr_fds p)(3 + int k := map_option (\<lambda>(f, cx). (f, False)) (pr_fds p fd))"
    by simp
  have h2: "\<forall>i j. i < j \<longrightarrow> j < length fds \<longrightarrow> fds ! j \<noteq> 3 + int (Suc k + i)"
  proof (intro allI impI)
    fix i j
    assume "i < j" "j < length fds"
    with Cons.prems(2) [rule_format, of "Suc i" "Suc j"] show "fds ! j \<noteq> 3 + int (Suc k + i)" by simp
  qed
  have h3: "\<forall>j < length fds. fds ! j \<noteq> 3 + int (Suc k + j)"
    using Cons.prems(3) by fastforce
  have h0: "\<forall>j < length fds. fds ! j \<noteq> 3 + int k"
  proof (intro allI impI)
    fix j
    assume "j < length fds"
    with Cons.prems(2) [rule_format, of 0 "Suc j"] show "fds ! j \<noteq> 3 + int k" by simp
  qed
  note IH = Cons.IH [OF r h2 h3]
  show ?case
  proof (intro conjI allI impI)
    fix i
    assume i: "i < length (fd # fds)"
    show "pr_fds q (3 + int (k + i)) = map_option (\<lambda>(f, cx). (f, False)) (pr_fds p ((fd # fds) ! i))"
    proof (cases i)
      case 0
      have "pr_fds q (3 + int k) = pr_fds p1 (3 + int k)" using IH by simp
      with 0 p1 show ?thesis by simp
    next
      case (Suc i')
      with IH i have "pr_fds q (3 + int (Suc k + i')) = map_option (\<lambda>(f, cx). (f, False)) (pr_fds p1 (fds ! i'))" by simp
      with h0 i Suc p1 show ?thesis by simp
    qed
  next
    fix n
    assume n: "\<forall>i < length (fd # fds). n \<noteq> 3 + int (k + i)"
    then have "n \<noteq> 3 + int k" "\<forall>i < length fds. n \<noteq> 3 + int (Suc k + i)" by (force, fastforce)
    with IH p1 show "pr_fds q n = pr_fds p n" by simp
  qed
qed simp

lemma dup_fds_keeps:
  "dup_fds K k fds p = (Inr (), q) \<Longrightarrow> steady p q \<and> pr_blocked q = pr_blocked p \<and> pr_leader q = pr_leader p"
proof (induction fds arbitrary: k p)
  case (Cons fd fds)
  then obtain p1 where d: "call K (SysDup2 fd (3 + int k)) p = (Inr (), p1)" and r: "dup_fds K (Suc k) fds p1 = (Inr (), q)"
    by auto
  from sys_done [OF call_done [OF d]] have "pr_blocked p1 = pr_blocked p \<and> pr_leader p1 = pr_leader p" by simp
  moreover have "steady p p1" using call_done [OF d] by (rule steady.via_sysD) simp
  ultimately show ?case using Cons.IH [OF r] by (auto intro: steady.trans)
qed (simp add: steady.refl)

lemma listen_pid_keeps: "write_listen_pid fds p = (Inr (), q) \<Longrightarrow> steady p q \<and> same_box p q"
  by (auto simp: write_listen_pid_def steady_def same_box_def split: if_splits option.splits)

lemma adopt_keeps: "adopt K f p = (Inr (), q) \<Longrightarrow> steady p q \<and> same_box p q"
proof -
  assume a: "adopt K f p = (Inr (), q)"
  obtain r p1 where s: "sys K (SysOpenWrite f) p = (r, p1)" by fastforce
  then have "steady p p1" "same_box p p1" by (auto intro: steady.via_sysD box.via_sysD)
  moreover have "q = p1 \<or> (\<exists>x. q = snd (sys K (SysWriteFile f x) p1))"
    using a s by (auto simp: adopt_def split: option.splits)
  moreover have "steady p1 (snd (sys K (SysWriteFile f x) p1))" "same_box p1 (snd (sys K (SysWriteFile f x) p1))" for x
    by (simp_all add: steady.via_sys box.via_sys)
  ultimately show ?thesis by (metis steady.trans box.trans)
qed

lemma when_some_keeps:
  "when_some x f p = (Inr (), q) \<Longrightarrow> R p p \<Longrightarrow> (\<And>y. x = Some y \<Longrightarrow> f y p = (Inr (), q) \<Longrightarrow> R p q) \<Longrightarrow> R p q"
  by (auto simp: when_some_def pass_def split: option.splits)

text \<open>Up to the sandbox.\<close>

definition first_steps :: "kernel \<Rightarrow> spawn_options \<Rightarrow> unit child" where
  "first_steps K opts = chain [call K SysUnmaskSignals, call K SysSetsid, dup_fds K 0 (so_listen_fds opts),
     write_listen_pid (so_listen_fds opts), when_some (procs_file (so_cgroup opts)) (adopt K)]"

definition last_steps :: "kernel \<Rightarrow> spawn_options \<Rightarrow> unit child" where
  "last_steps K opts = chain [when_some (so_cwd opts) (\<lambda>d. call K (SysChdir d)),
      if so_groups opts = [] then pass else call K (SysSetgroups (so_groups opts)),
      when_some (so_gid opts) (\<lambda>g. call K (SysSetgid g)),
      when_some (so_uid opts) (\<lambda>u. call K (SysSetuid u)),
      when_some (so_umask opts) (\<lambda>m. quietly K (SysUmask m)),
      when_some (so_nice opts) (\<lambda>n. quietly K (SysSetpriority n)),
      set_limits K (so_rlimits opts)]"

lemma pre_exec_done:
  assumes "pre_exec K opts xs p = (Inr (), q)"
  obtains p1 p2 where "first_steps K opts p = (Inr (), p1)" "when_some xs (enter_sandbox K) p1 = (Inr (), p2)"
    "last_steps K opts p2 = (Inr (), q)"
  using assms that unfolding pre_exec_def first_steps_def last_steps_def by (simp only: chain_done chain.simps(1)) blast

lemma first_steps_done:
  assumes "first_steps K opts p = (Inr (), q)"
  obtains p2 p3 where "pr_fds p2 = pr_fds p" "dup_fds K 0 (so_listen_fds opts) p2 = (Inr (), p3)" "pr_fds q = pr_fds p3"
    "steady p q" "pr_blocked q = []" "pr_leader q"
proof -
  from assms obtain p1 p2 p3 p4 where s: "call K SysUnmaskSignals p = (Inr (), p1)" "call K SysSetsid p1 = (Inr (), p2)"
    "dup_fds K 0 (so_listen_fds opts) p2 = (Inr (), p3)" "write_listen_pid (so_listen_fds opts) p3 = (Inr (), p4)"
    "when_some (procs_file (so_cgroup opts)) (adopt K) p4 = (Inr (), q)"
    by (auto simp: first_steps_def)
  have p2: "pr_blocked p2 = []" "pr_leader p2" "pr_fds p2 = pr_fds p" "steady p p2"
    using sys_done [OF call_done [OF s(1)]] sys_done [OF call_done [OF s(2)]]
      steady.trans [OF steady.via_sysD [OF call_done [OF s(1)]] steady.via_sysD [OF call_done [OF s(2)]]]
    by simp_all
  have "steady p4 q \<and> same_box p4 q" using when_some_keeps [OF s(5), of "\<lambda>p q. steady p q \<and> same_box p q"] adopt_keeps
    by (simp add: steady.refl box.refl)
  with dup_fds_keeps [OF s(3)] listen_pid_keeps [OF s(4)] p2 have "steady p q" "same_box p3 q"
    by (auto intro: steady.trans box.trans)
  with that [OF p2(3) s(3)] dup_fds_keeps [OF s(3)] p2 show ?thesis by (simp add: same_box_def)
qed

lemma limits_done:
  assumes "set_limits K rls p = (Inr (), q)"
  shows "pr_rlimits q = fold (\<lambda>rl. hins (rl_resource rl) (rl_soft rl, rl_hard rl)) rls (pr_rlimits p) \<and> same_box p q \<and>
    pr_cwd q = pr_cwd p \<and> pr_groups q = pr_groups p \<and> pr_gid q = pr_gid p \<and> pr_uid q = pr_uid p \<and> pr_ambient q = pr_ambient p"
  using assms unfolding set_limits_def
proof (induction rls arbitrary: p)
  case (Cons rl rls)
  then obtain p1 where c: "call K (SysSetrlimit (rl_resource rl) (rl_soft rl) (rl_hard rl)) p = (Inr (), p1)"
    and r: "chain (map (\<lambda>rl. call K (SysSetrlimit (rl_resource rl) (rl_soft rl) (rl_hard rl))) rls) p1 = (Inr (), q)" by auto
  from Cons.IH [OF r] sys_done [OF call_done [OF c]] show ?case by (simp add: same_box_def)
qed (simp add: box.refl)

lemma step_done:
  assumes "when_some x (\<lambda>y. call K (c y)) p = (Inr (), q)"
  shows "q = (case x of None \<Rightarrow> p | Some y \<Rightarrow> (effect (c y) p)\<lparr>pr_calls := pr_calls (effect (c y) p) @ [(c y, None)]\<rparr>)"
  using assms sys_done [OF call_done, of K _ p q] by (auto simp: when_some_def pass_def split: option.splits)

lemma quiet_done:
  assumes "when_some x (\<lambda>y. quietly K (c y)) p = (Inr (), q)" "\<And>y. harmless (c y)" "\<And>y. \<not> changes_box (c y)"
  shows "steady p q \<and> same_box p q"
  using assms steady.via_sys [of _ p K] box.via_sys [of _ p K]
  by (auto simp: when_some_def pass_def quietly_def steady.refl box.refl split: option.splits)

lemma last_steps_done:
  assumes "last_steps K opts p = (Inr (), q)"
  shows "pr_cwd q = (case so_cwd opts of Some d \<Rightarrow> d | None \<Rightarrow> pr_cwd p) \<and>
    pr_groups q = (if so_groups opts = [] then pr_groups p else so_groups opts) \<and>
    pr_gid q = (case so_gid opts of Some g \<Rightarrow> g | None \<Rightarrow> pr_gid p) \<and>
    pr_uid q = (case so_uid opts of Some u \<Rightarrow> u | None \<Rightarrow> pr_uid p) \<and>
    pr_ambient q = (case so_uid opts of Some u \<Rightarrow> if pr_uid p = 0 \<and> u \<noteq> 0 then [] else pr_ambient p | None \<Rightarrow> pr_ambient p) \<and>
    pr_rlimits q = fold (\<lambda>rl. hins (rl_resource rl) (rl_soft rl, rl_hard rl)) (so_rlimits opts) (pr_rlimits p) \<and> same_box p q"
proof -
  from assms obtain p1 p2 p3 p4 p5 p6 where s: "when_some (so_cwd opts) (\<lambda>d. call K (SysChdir d)) p = (Inr (), p1)"
    "(if so_groups opts = [] then pass else call K (SysSetgroups (so_groups opts))) p1 = (Inr (), p2)"
    "when_some (so_gid opts) (\<lambda>g. call K (SysSetgid g)) p2 = (Inr (), p3)"
    "when_some (so_uid opts) (\<lambda>u. call K (SysSetuid u)) p3 = (Inr (), p4)"
    "when_some (so_umask opts) (\<lambda>m. quietly K (SysUmask m)) p4 = (Inr (), p5)"
    "when_some (so_nice opts) (\<lambda>n. quietly K (SysSetpriority n)) p5 = (Inr (), p6)" "set_limits K (so_rlimits opts) p6 = (Inr (), q)"
    by (auto simp: last_steps_def)
  have p2: "p2 = (if so_groups opts = [] then p1
      else (effect (SysSetgroups (so_groups opts)) p1)\<lparr>pr_calls := pr_calls (effect (SysSetgroups (so_groups opts)) p1) @ [(SysSetgroups (so_groups opts), None)]\<rparr>)"
    using s(2) sys_done [OF call_done, of K "SysSetgroups (so_groups opts)" p1 p2] by (auto simp: pass_def split: if_splits)
  have "steady p4 p6" "same_box p4 p6"
    using quiet_done [OF s(5)] quiet_done [OF s(6)] by (auto intro: steady.trans box.trans)
  with limits_done [OF s(7)] step_done [OF s(1)] p2 step_done [OF s(3)] step_done [OF s(4)] show ?thesis
    by (cases "so_cwd opts"; cases "so_gid opts"; cases "so_uid opts") (simp_all add: steady_def same_box_def)
qed

section \<open>What a started program finds\<close>

lemma root_op_goes_on: "fst (apply_op K True x p) \<noteq> Inr False"
proof -
  have m: "fst (must K w c p) \<noteq> Inr False" for w c p by (auto simp: must_def split: prod.split option.split)
  then have an: "(\<And>q. fst (g q) \<noteq> Inr False) \<Longrightarrow> fst (andalso (must K w c) g p) \<noteq> Inr False" for w c g p
    by (auto simp: andalso_def split: prod.split sum.split bool.split) (metis fst_conv)+
  have "fst (drop_caps K cs p) \<noteq> Inr False" for cs p by (induction cs arbitrary: p) (simp_all add: an)
  with m an show ?thesis
    by (cases x) (auto simp: unshare_mount_def bind_read_only_def split: prod.split option.split)
qed

lemma root_finishes: "apply_ops K True xs p \<noteq> (Inr None, q)"
proof (induction xs arbitrary: p)
  case (Cons x xs)
  with root_op_goes_on [of K x p] show ?case by (cases "apply_op K True x p") (auto split: sum.split bool.split)
qed simp

lemma sandbox_identity: "same_identity p (snd (apply_sandbox K xs p))"
  unfolding apply_sandbox_def by (rule identity.via_ops) (rule issues_identity)

lemma no_box_keeps: "\<not> has_sandbox cfg \<Longrightarrow> keeps_cap cfg = (\<lambda>c. True) \<and> filter_program cfg = None \<and> \<not> needs_filter cfg \<and> \<not> sb_no_new_privileges cfg"
  by (auto simp: has_sandbox_def keeps_cap_def filter_program_def needs_filter_def fun_eq_iff List.map_filter_def)

lemma plan_none: "plan cfg = Some None \<Longrightarrow> \<not> has_sandbox cfg"
  by (auto simp: plan_def filter_ops_def split: if_splits option.splits)

lemma forked_simps [simp]:
  "pr_uid (forked H opts) = pr_uid (ho_proc H)" "pr_gid (forked H opts) = pr_gid (ho_proc H)"
  "pr_groups (forked H opts) = pr_groups (ho_proc H)" "pr_cwd (forked H opts) = pr_cwd (ho_proc H)"
  "pr_rlimits (forked H opts) = pr_rlimits (ho_proc H)" "pr_nnp (forked H opts) = pr_nnp (ho_proc H)"
  "pr_bounding (forked H opts) = pr_bounding (ho_proc H)" "pr_filters (forked H opts) = pr_filters (ho_proc H)"
  "pr_userns (forked H opts) = pr_userns (ho_proc H)" "pr_uid_mapped (forked H opts) = pr_uid_mapped (ho_proc H)"
  by (simp_all add: forked_def set_stream_def Let_def split: prod.split option.split)

lemma spawn_unit_done:
  assumes "spawn_unit K H opts = Some (r, Some im)"
  obtains xs p q where "plan (so_sandbox opts) = Some xs" "pre_exec K opts xs (forked H opts) = (Inr (), p)"
    "sys K (SysExec (so_argv opts)) p = (None, q)" "im = \<lparr>im_argv = so_argv opts, im_env = child_env H opts, im_proc = q\<rparr>"
  using assms that by (auto simp: spawn_unit_def spawn_def split: option.splits if_splits prod.splits sum.splits)

lemma as_asked:
  assumes "spawn_unit K H opts = Some (r, Some im)" "seen_uid (ho_proc H) = 0"
  shows "let p = ho_proc H; q = im_proc im; cfg = so_sandbox opts in
    im_argv im = so_argv opts \<and> pr_blocked q = [] \<and> pr_leader q \<and>
    pr_cwd q = (case so_cwd opts of Some d \<Rightarrow> d | None \<Rightarrow> pr_cwd p) \<and>
    pr_groups q = (if so_groups opts = [] then pr_groups p else so_groups opts) \<and>
    pr_gid q = (case so_gid opts of Some g \<Rightarrow> g | None \<Rightarrow> pr_gid p) \<and>
    pr_uid q = (case so_uid opts of Some u \<Rightarrow> u | None \<Rightarrow> pr_uid p) \<and>
    pr_rlimits q = fold (\<lambda>rl. hins (rl_resource rl) (rl_soft rl, rl_hard rl)) (so_rlimits opts) (pr_rlimits p) \<and>
    (sb_no_new_privileges cfg \<or> needs_filter cfg \<longrightarrow> pr_nnp q) \<and>
    pr_bounding q = filter (keeps_cap cfg) (pr_bounding p) \<and>
    pr_filters q = (case filter_program cfg of None \<Rightarrow> [] | Some P \<Rightarrow> [take (length P mod 65536) P]) @ pr_filters p"
proof -
  let ?p = "ho_proc H" and ?cfg = "so_sandbox opts"
  obtain xs p3 q where pl: "plan ?cfg = Some xs" and pre: "pre_exec K opts xs (forked H opts) = (Inr (), p3)"
    and ex: "sys K (SysExec (so_argv opts)) p3 = (None, q)"
    and im: "im = \<lparr>im_argv = so_argv opts, im_env = child_env H opts, im_proc = q\<rparr>"
    using assms(1) by (rule spawn_unit_done)
  obtain p1 p2 where f: "first_steps K opts (forked H opts) = (Inr (), p1)" and b: "when_some xs (enter_sandbox K) p1 = (Inr (), p2)"
    and l: "last_steps K opts p2 = (Inr (), p3)" using pre by (rule pre_exec_done)
  have p1: "steady (forked H opts) p1" "pr_blocked p1 = []" "pr_leader p1" using f by (auto elim: first_steps_done)
  have root: "seen_uid p1 = 0" using assms(2) p1(1) by (auto simp: seen_uid_def steady_def overflow_id_def split: if_splits)
  have box: "same_identity p1 p2 \<and> (sb_no_new_privileges ?cfg \<or> needs_filter ?cfg \<longrightarrow> pr_nnp p2) \<and>
    pr_bounding p2 = filter (keeps_cap ?cfg) (pr_bounding p1) \<and>
    pr_filters p2 = (case filter_program ?cfg of None \<Rightarrow> [] | Some P \<Rightarrow> [take (length P mod 65536) P]) @ pr_filters p1"
  proof (cases xs)
    case None
    with pl have "\<not> has_sandbox ?cfg" by (simp add: plan_none)
    from no_box_keeps [OF this] b None show ?thesis by (simp add: when_some_def pass_def identity.refl)
  next
    case (Some ops)
    with b obtain u where "apply_sandbox K ops p1 = (Inr u, p2)"
      by (auto simp: when_some_def enter_sandbox_def split: prod.splits sum.splits)
    with root_finishes [of K ops p1 p2] root have a: "apply_sandbox K ops p1 = (Inr (Some ()), p2)"
      by (cases u) (simp_all add: apply_sandbox_def)
    from in_force [OF pl [unfolded Some] a root] sandbox_identity [of p1 K ops] a show ?thesis by simp
  qed
  from sys_done [OF ex] last_steps_done [OF l] box p1 im show ?thesis
    by (cases "so_cwd opts"; cases "so_gid opts"; cases "so_uid opts") (simp_all add: Let_def same_identity_def same_box_def steady_def)
qed

text \<open>C29. A program that a manager whose user is seen as root (the system manager) starts runs as its
  unit asks. If \<open>spawn\<close> has started a program, then, whatever calls the kernel could have refused:
  it runs the unit's command with no signal
  blocked, as leader of its own session, in the unit's directory, under the unit's user, group, supplementary groups
  and limits (each only if the unit sets it), it cannot gain privileges if the unit forbids it or
  filters calls; if \<^verbatim>\<open>CapabilityBoundingSet=\<close> names a known capability, its bounding set is the
  manager's cut as the unit says (otherwise the manager's); and it carries exactly the call filter
  built from the unit. A refused call of any of these kinds means that nothing is started. For a
  user manager it is false: a refused user namespace skips the sandbox.\<close>

theorem spawned_as_asked:
  assumes "spawn_unit K H opts = Some (r, Some im)" "seen_uid (ho_proc H) = 0"
  shows "let p = ho_proc H; q = im_proc im; cfg = so_sandbox opts in
    im_argv im = so_argv opts \<and> pr_blocked q = [] \<and> pr_leader q \<and>
    pr_cwd q = (case so_cwd opts of Some d \<Rightarrow> d | None \<Rightarrow> pr_cwd p) \<and>
    pr_groups q = (if so_groups opts = [] then pr_groups p else so_groups opts) \<and>
    pr_gid q = (case so_gid opts of Some g \<Rightarrow> g | None \<Rightarrow> pr_gid p) \<and>
    pr_uid q = (case so_uid opts of Some u \<Rightarrow> u | None \<Rightarrow> pr_uid p) \<and>
    pr_rlimits q = fold (\<lambda>rl. hins (rl_resource rl) (rl_soft rl, rl_hard rl)) (so_rlimits opts) (pr_rlimits p) \<and>
    (sb_no_new_privileges cfg \<or> needs_filter cfg \<longrightarrow> pr_nnp q) \<and>
    (known_caps cfg \<noteq> {} \<longrightarrow> caps_obeyed cfg (pr_bounding p) (pr_bounding q)) \<and>
    (known_caps cfg = {} \<longrightarrow> pr_bounding q = pr_bounding p) \<and>
    pr_filters q = (case filter_program cfg of None \<Rightarrow> [] | Some P \<Rightarrow> [take (length P mod 65536) P]) @ pr_filters p"
  using as_asked [OF assms] keeps_cap_obeyed [of "so_sandbox opts" "pr_bounding (ho_proc H)"]
  unfolding Let_def by (elim conjE, intro conjI) simp_all

lemma extra_deny_gates: "set (extra_deny cfg) \<inter> {9, 10, 41, 53, 329} = {}"
proof -
  have "set rt_deny \<inter> {9, 10, 41, 53, 329} = {}" "set suidsgid_nrs \<inter> {9, 10, 41, 53, 329} = {}"
    "personality_nr \<notin> {9, 10, 41, 53, 329}"
    by code_simp+
  then show ?thesis by (auto simp: extra_deny_def)
qed

text \<open>What a unit's settings promise of a call, from the directives themselves: the lists and gates of
  \<open>intended\<close> over the settings, a hard denial for each of the calls of \<^verbatim>\<open>RestrictRealtime=\<close>
  (142, 144, 314), \<^verbatim>\<open>LockPersonality=\<close> (135) and \<^verbatim>\<open>RestrictSUIDSGID=\<close> (the calls that change a
  file's mode or owner).\<close>

definition hard_denied :: "sandbox_config \<Rightarrow> nat list" where
  "hard_denied cfg =
     (if sb_restrict_realtime cfg then [142, 144, 314] else []) @
     (if sb_lock_personality cfg then [135] else []) @
     (if sb_restrict_suidsgid cfg then [90, 91, 92, 93, 94, 260, 268] else [])"

lemma hard_denied_extra: "set (extra_deny cfg) = set (hard_denied cfg)"
proof -
  have "set rt_deny = {142, 144, 314}" "set suidsgid_nrs = {90, 91, 92, 93, 94, 260, 268}" "personality_nr = 135"
    by code_simp+
  then show ?thesis by (auto simp: extra_deny_def hard_denied_def)
qed

definition settings_admit :: "sandbox_config \<Rightarrow> nat list \<Rightarrow> seccomp_data \<Rightarrow> bool" where
  "settings_admit cfg denied =
     intended (sb_syscall_nrs cfg) (sb_syscall_nrs cfg = [] \<or> sb_syscall_deny cfg) denied (af_of cfg)
       (sb_memory_deny_write_execute cfg)"

text \<open>C30. From the unit's settings to the decision on a call. Let a manager whose user is seen as root
  have started a service whose unit filters system calls, with at most one address family listed. If
  the unit's filter has at most 256 instructions, the program carries it, and it admits exactly the calls the unit's settings admit as documented
  (\<open>settings_admit\<close>) and refuses every other with the configured error, with the two exceptions of
  an allow-list: a hard-denied call that the list or the base admits is decided as if it were not
  hard-denied, and a base call with a gate (with \<^verbatim>\<open>MemoryDenyWriteExecute=\<close>, \<^verbatim>\<open>mmap\<close> and
  \<^verbatim>\<open>mprotect\<close>) is refused unless the list names it.\<close>

theorem started_service_confined:
  assumes "spawn_unit K H opts = Some (r, Some im)" "seen_uid (ho_proc H) = 0" "cfg = so_sandbox opts" "needs_filter cfg"
    "\<And>g. af_of cfg = Some g \<Longrightarrow> length (ag_families g) \<le> 1"
    "allow = (sb_syscall_nrs cfg \<noteq> [] \<and> \<not> sb_syscall_deny cfg)"
  shows "\<exists>P. filter_program cfg = Some P \<and> (length P \<le> 256 \<longrightarrow> pr_filters (im_proc im) = P # pr_filters (ho_proc H) \<and>
    (\<forall>d. bpf_run d P 0 = Some (verdict (sb_syscall_errno cfg)
       (if base_call_refused (sb_syscall_nrs cfg) (\<not> allow) (af_of cfg) (sb_memory_deny_write_execute cfg) d then False
        else if denial_overlooked (sb_syscall_nrs cfg) (\<not> allow) (hard_denied cfg) d then settings_admit cfg [] d
        else settings_admit cfg (hard_denied cfg) d))))"
proof -
  have "suidsgid_nrs \<noteq> []" by code_simp
  then have "sb_syscall_nrs cfg \<noteq> [] \<or> extra_deny cfg \<noteq> [] \<or> af_of cfg \<noteq> None \<or> sb_memory_deny_write_execute cfg"
    using assms(4) by (auto simp: needs_filter_def extra_deny_def rt_deny_def af_of_def)
  from build_as_intended [OF this assms(5) extra_deny_gates, of "filter_denies cfg" "sb_syscall_errno cfg"]
  obtain P where P: "filter_program cfg = Some P"
    "length P \<le> 256 \<longrightarrow> (\<forall>d. decides_as_intended (sb_syscall_nrs cfg) (filter_denies cfg) (sb_syscall_errno cfg)
       (extra_deny cfg) (af_of cfg) (sb_memory_deny_write_execute cfg) P d)"
    using assms(4) by (auto simp: filter_program_def)
  have f: "filter_denies cfg \<longleftrightarrow> sb_syscall_nrs cfg = [] \<or> sb_syscall_deny cfg" by (simp add: filter_denies_def)
  have i: "intended nrs deny (extra_deny cfg) af wx d \<longleftrightarrow> intended nrs deny (hard_denied cfg) af wx d"
    "denial_overlooked nrs deny (extra_deny cfg) d \<longleftrightarrow> denial_overlooked nrs deny (hard_denied cfg) d" for nrs deny af wx d
    by (simp_all add: intended_def denial_overlooked_def hard_denied_extra)
  have "(\<not> allow) = (sb_syscall_nrs cfg = [] \<or> sb_syscall_deny cfg)" using assms(6) by blast
  with P as_asked [OF assms(1,2)] assms(3) show ?thesis unfolding decides_as_intended_def i f
    by (intro exI [of _ P]) (simp add: Let_def settings_admit_def)
qed

lemma sorted_above: "sorted fds \<Longrightarrow> distinct fds \<Longrightarrow> \<forall>fd \<in> set fds. b < fd \<Longrightarrow> j < length fds \<Longrightarrow> b + int j < fds ! j"
proof (induction fds arbitrary: b j)
  case (Cons x fds)
  show ?case
  proof (cases j)
    case (Suc k)
    have "\<forall>fd \<in> set fds. b + 1 < fd"
    proof
      fix fd
      assume fd: "fd \<in> set fds"
      with Cons.prems have "x \<le> fd" "x \<noteq> fd" "b < x" by auto
      then show "b + 1 < fd" by simp
    qed
    with Cons.IH [of "b + 1" k] Cons.prems Suc show ?thesis by simp
  qed (use Cons.prems in simp)
qed simp

text \<open>C33. Listening sockets arrive where the program looks for them. Let the manager start a service with the
  sockets it holds for it, in the order of \<open>socket_fds_for\<close>, all above descriptor 3. Then the
  program started finds socket \<open>i\<close> open under the number \<open>3 + i\<close>, whatever flags the manager had it
  open with and although the numbers overlap, and \<open>LISTEN_FDS\<close> names their number.\<close>

theorem listen_fds_passed:
  assumes "spawn_unit K H opts = Some (r, Some im)" "so_listen_fds opts = socket_fds_for service m"
    "distinct (map fst (m_socket_triggers m))" "\<forall>fd \<in> fst ` set (m_socket_triggers m). 3 < fd" "i < length (so_listen_fds opts)"
    "pr_fds (ho_proc H) (so_listen_fds opts ! i) = Some (f, cx)"
  shows "pr_fds (im_proc im) (3 + int i) = Some (f, False) \<and>
    map_of (im_env im) ''LISTEN_FDS'' = Some (show_nat (length (so_listen_fds opts)))"
proof -
  let ?fds = "so_listen_fds opts"
  have fds: "sorted ?fds" "distinct ?fds" "\<forall>fd \<in> set ?fds. 3 < fd"
    using assms(3,4) unfolding assms(2) socket_fds_for_def by (auto simp: distinct_map_filter)
  have above: "3 + int j < ?fds ! j" if "j < length ?fds" for j using sorted_above [OF fds that] .
  obtain xs p4 q where pre: "pre_exec K opts xs (forked H opts) = (Inr (), p4)"
    and ex: "sys K (SysExec (so_argv opts)) p4 = (None, q)"
    and im: "im = \<lparr>im_argv = so_argv opts, im_env = child_env H opts, im_proc = q\<rparr>"
    using assms(1) by (rule spawn_unit_done)
  obtain p1 p2 where st: "first_steps K opts (forked H opts) = (Inr (), p1)" and b: "when_some xs (enter_sandbox K) p1 = (Inr (), p2)"
    and l: "last_steps K opts p2 = (Inr (), p4)" using pre by (rule pre_exec_done)
  obtain p0 p3 where d: "pr_fds p0 = pr_fds (forked H opts)" "dup_fds K 0 ?fds p0 = (Inr (), p3)" "pr_fds p1 = pr_fds p3"
    using st by (rule first_steps_done)
  have "2 < ?fds ! i" using above [OF assms(5)] by simp
  then have fk: "pr_fds (forked H opts) (?fds ! i) = Some (f, cx)"
    using assms(6) by (auto simp: forked_def set_stream_def Let_def split: prod.split option.split)
  have "\<forall>i j. i < j \<longrightarrow> j < length ?fds \<longrightarrow> ?fds ! j \<noteq> 3 + int (0 + i)" "\<forall>j < length ?fds. ?fds ! j \<noteq> 3 + int (0 + j)"
    using above by fastforce+
  from dup_fds_done [OF d(2) this] assms(5)
  have "pr_fds p3 (3 + int (0 + i)) = map_option (\<lambda>(f, cx). (f, False)) (pr_fds p0 (?fds ! i))" by blast
  then have p3: "pr_fds p3 (3 + int i) = Some (f, False)" by (simp add: d(1) fk)
  have "pr_fds p2 = pr_fds p1"
    using b sandbox_identity [of p1 K]
    by (auto simp: when_some_def pass_def enter_sandbox_def same_identity_def split: option.splits prod.splits sum.splits) (metis snd_conv)+
  with last_steps_done [OF l] p3 d(3) have "pr_fds p4 (3 + int i) = Some (f, False)" by (simp add: same_box_def)
  with sys_done [OF ex] have "pr_fds q (3 + int i) = Some (f, False)" by simp
  moreover have "map_of (child_env H opts) ''LISTEN_FDS'' = Some (show_nat (length ?fds))"
    using assms(5) by (auto simp: child_env_def overrides_def fold_append)
  ultimately show ?thesis by (simp add: im)
qed

section \<open>Numbers\<close>

lemma itoa_shows: "v < 10 ^ i \<Longrightarrow> itoa_loop i v acc = (if i = 0 then None else Some (show_nat v @ acc))"
proof (induction i arbitrary: v acc)
  case (Suc i)
  show ?case
  proof (cases "v < 10")
    case False
    then have "v div 10 < 10 ^ i" "i \<noteq> 0" using Suc.prems by (cases i; auto intro!: less_mult_imp_div_less simp: mult.commute)+
    with Suc.IH [of "v div 10"] False show ?thesis
      by (subst itoa_loop.simps) (simp add: show_nat.simps [of v] Let_def div_eq_0_iff)
  qed (subst itoa_loop.simps, simp add: show_nat.simps [of v])
qed (simp add: itoa_loop.simps)

lemma show_nat_length: "v < 10 ^ Suc i \<Longrightarrow> length (show_nat v) \<le> Suc i"
proof (induction i arbitrary: v)
  case (Suc i)
  then have "v div 10 < 10 ^ Suc i" by (auto intro!: less_mult_imp_div_less simp: mult.commute)
  from Suc.IH [OF this] show ?case by (subst show_nat.simps) simp
qed (simp add: show_nat.simps)

text \<open>Every process identifier fits the buffers and the slot.\<close>

lemma pid_formatted:
  assumes "v < 2 ^ 31"
  shows "itoa_cstr 16 v = Some (show_nat v) \<and> itoa_loop 32 v [] = Some (show_nat v) \<and> length (show_nat v) \<le> slot_cap"
  using assms itoa_shows [of v 15 "[]"] itoa_shows [of v 32 "[]"] show_nat_length [of v 9] by (simp add: itoa_cstr_def slot_cap_def)

section \<open>Where starting a process falls short\<close>

text \<open>The program reads \<open>LISTEN_PID\<close> as ten zeros, so it does not recognise itself as the receiver.\<close>

lemma listen_pid_zeros:
  assumes "spawn_unit K H opts = Some (r, Some im)" "so_listen_fds opts \<noteq> []"
  shows "map_of (im_env im) ''LISTEN_PID'' = Some ''0000000000''"
proof -
  obtain xs p4 q where "im = \<lparr>im_argv = so_argv opts, im_env = child_env H opts, im_proc = q\<rparr>"
    using assms(1) by (rule spawn_unit_done)
  then show ?thesis using assms(2) by (simp add: child_env_def overrides_def fold_append)
qed

text \<open>Ambient capabilities do not survive a change to another user than root.\<close>

lemma ambient_lost:
  assumes "last_steps K opts p = (Inr (), q)" "pr_uid p = 0" "so_uid opts = Some u" "u \<noteq> 0"
  shows "pr_ambient q = []"
  using last_steps_done [OF assms(1)] assms(2-4) by simp

text \<open>A listening socket the manager holds under the number it is to get stays close-on-exec.\<close>

lemma dup_onto_itself:
  assumes "call K (SysDup2 3 3) p = (Inr (), q)"
  shows "pr_fds q 3 = pr_fds p 3"
  using sys_done [OF call_done [OF assms]] by simp

text \<open>Without supplementary groups of its own a service keeps the manager's.\<close>

lemma groups_kept:
  assumes "last_steps K opts p = (Inr (), q)" "so_groups opts = []"
  shows "pr_groups q = pr_groups p"
  using last_steps_done [OF assms(1)] assms(2) by simp

text \<open>A sandbox error reaches the manager as \<open>EINVAL\<close>.\<close>

lemma sandbox_error_lost: "transmitted (OtherErr m) = einval"
  by simp

section \<open>Two services\<close>

definition demo_host :: host where
  "demo_host = \<lparr>ho_proc = fresh_proc\<lparr>pr_fds := (\<lambda>n. if n \<in> {0, 1, 2, 7, 9} then Some (OfManager n, 2 < n) else None)\<rparr>,
     ho_environ = [(''PATH'', ''/bin'')], ho_child = 4712, ho_opens = (\<lambda>_. True), ho_setup = None, ho_pipe_out = 11,
     ho_pipe_err = 12, ho_fcntl = (\<lambda>_. None)\<rparr>"

definition demo_spawn :: "sandbox_config \<Rightarrow> spawn_options" where
  "demo_spawn cfg = \<lparr>so_argv = [''/bin/demo'', ''-x''], so_env = [(''HOME'', ''/'')], so_cwd = Some ''/srv'', so_uid = Some 33,
     so_gid = Some 33, so_groups = [33, 100], so_nice = Some 5, so_umask = Some 18, so_rlimits = [\<lparr>rl_resource = NoFile, rl_soft = 64, rl_hard = 64\<rparr>],
     so_stdout_target = StdJournal, so_stderr_target = StdDiscard, so_stdin_null = True, so_notify_socket = None,
     so_listen_fds = [7, 9], so_cgroup = Some ''/sys/fs/cgroup/demo'', so_sandbox = cfg\<rparr>"

lemma open_call: "fst (call open_kernel c p) = Inr ()"
  by (simp add: call_def open_sys)

lemma open_chain:
  "(\<And>f p. f \<in> set fs \<Longrightarrow> fst (f p) = Inr ()) \<Longrightarrow> fst (chain fs p) = Inr ()"
proof (induction fs arbitrary: p)
  case (Cons f fs)
  then have "fst (f p) = Inr ()" "fst (chain fs q) = Inr ()" for q by auto
  then show ?case by (cases "f p") (simp add: chain.simps(2))
qed simp

interpretation env: call_law "\<lambda>p q. pr_environ q = pr_environ p \<and> pr_pid q = pr_pid p" "\<lambda>c. True"
proof unfold_locales
  show "pr_environ (effect c p) = pr_environ p \<and> pr_pid (effect c p) = pr_pid p" for c p by (cases c) auto
qed auto

lemma open_call_env: "\<exists>q. call open_kernel c p = (Inr (), q) \<and> pr_environ q = pr_environ p \<and> pr_pid q = pr_pid p"
  using env.via_sys [where c = c and K = open_kernel and p = p] by (simp add: call_def open_sys)

lemma open_dup_env: "\<exists>q. dup_fds open_kernel k fds p = (Inr (), q) \<and> pr_environ q = pr_environ p \<and> pr_pid q = pr_pid p"
proof (induction fds arbitrary: k p)
  case (Cons fd fds)
  obtain q where "call open_kernel (SysDup2 fd (3 + int k)) p = (Inr (), q)" "pr_environ q = pr_environ p" "pr_pid q = pr_pid p"
    using open_call_env by blast
  with Cons.IH [of "Suc k" q] show ?case by auto
qed simp

lemma open_adopt: "pr_pid p < 2 ^ 31 \<Longrightarrow> fst (adopt open_kernel f p) = Inr ()"
  using env.via_sys [where c = "SysOpenWrite f" and K = open_kernel and p = p] pid_formatted
  by (simp add: adopt_def open_sys)

lemma open_last: "fst (last_steps open_kernel opts p) = Inr ()"
  unfolding last_steps_def set_limits_def
  by (rule open_chain) (auto simp: when_some_def pass_def quietly_def open_call intro!: open_chain split: option.split)

lemma open_first:
  assumes "pr_pid p < 2 ^ 31" "so_listen_fds opts \<noteq> [] \<longrightarrow> overwrite_env_in_place ''LISTEN_PID='' (show_nat (pr_pid p)) (pr_environ p) \<noteq> None"
  shows "fst (first_steps open_kernel opts p) = Inr ()"
proof -
  obtain p1 where p1: "call open_kernel SysUnmaskSignals p = (Inr (), p1)" "pr_environ p1 = pr_environ p" "pr_pid p1 = pr_pid p"
    using open_call_env by blast
  obtain p2 where p2: "call open_kernel SysSetsid p1 = (Inr (), p2)" "pr_environ p2 = pr_environ p1" "pr_pid p2 = pr_pid p1"
    using open_call_env by blast
  obtain p3 where p3: "dup_fds open_kernel 0 (so_listen_fds opts) p2 = (Inr (), p3)" "pr_environ p3 = pr_environ p2" "pr_pid p3 = pr_pid p2"
    using open_dup_env by blast
  have "itoa_cstr 16 (pr_pid p3) = Some (show_nat (pr_pid p3))" using assms(1) p1 p2 p3 pid_formatted by simp
  then have "\<exists>p4. write_listen_pid (so_listen_fds opts) p3 = (Inr (), p4) \<and> pr_pid p4 = pr_pid p3"
    using assms(2) p1 p2 p3 by (cases "so_listen_fds opts = []") (auto simp: write_listen_pid_def)
  then obtain p4 where p4: "write_listen_pid (so_listen_fds opts) p3 = (Inr (), p4)" "pr_pid p4 = pr_pid p3" by blast
  have "fst (when_some (procs_file (so_cgroup opts)) (adopt open_kernel) p4) = Inr ()"
    using assms(1) p1 p2 p3 p4 open_adopt by (auto simp: when_some_def pass_def split: option.split)
  then obtain p5 where p5: "when_some (procs_file (so_cgroup opts)) (adopt open_kernel) p4 = (Inr (), p5)"
    by (metis prod.collapse)
  show ?thesis by (simp add: first_steps_def chain.simps(2) p1(1) p2(1) p3(1) p4(1) p5)
qed

lemma demo_started:
  assumes "plan cfg = Some (Some xs)"
  shows "\<exists>r im. spawn_unit open_kernel demo_host (demo_spawn cfg) = Some (r, Some im)"
proof -
  let ?o = "demo_spawn cfg" and ?f = "forked demo_host (demo_spawn cfg)"
  have pid: "pr_pid ?f = 4712" "pr_environ ?f = [''PATH=/bin'']" "pr_uid ?f = 0" "pr_userns ?f = False"
    by (simp_all add: forked_def set_stream_def Let_def setup_stdio_def demo_host_def fresh_proc_def env_entries_def split: option.split)
  have "overwrite_env_in_place ''LISTEN_PID='' (show_nat 4712) [''PATH=/bin''] \<noteq> None" by code_simp
  then have "fst (first_steps open_kernel ?o ?f) = Inr ()" using pid by (intro open_first) simp_all
  then obtain p1 where p1: "first_steps open_kernel ?o ?f = (Inr (), p1)" by (metis prod.collapse)
  then have "steady ?f p1" by (rule first_steps_done)
  then have u: "seen_uid p1 = 0" using pid by (simp add: seen_uid_def steady_def)
  have "fst (enter_sandbox open_kernel xs p1) = Inr ()"
    using open_ops [of xs p1] by (cases "apply_ops open_kernel True xs p1") (simp add: enter_sandbox_def apply_sandbox_def u)
  then obtain p2 where p2: "when_some (Some xs) (enter_sandbox open_kernel) p1 = (Inr (), p2)"
    by (cases "enter_sandbox open_kernel xs p1") (simp add: when_some_def)
  obtain p3 where p3: "last_steps open_kernel ?o p2 = (Inr (), p3)" using open_last [of ?o p2] by (metis prod.collapse)
  have "pre_exec open_kernel ?o (Some xs) ?f = (Inr (), p3)"
    using p1 p2 p3 unfolding pre_exec_def first_steps_def last_steps_def by (simp only: chain_done chain.simps(1)) blast
  moreover have "\<not> has_nul (demo_spawn sandbox_default)" by code_simp
  then have "\<not> has_nul ?o" by (simp add: has_nul_def overrides_def demo_spawn_def)
  moreover have "so_argv ?o \<noteq> []" "ho_setup demo_host = None" "so_sandbox ?o = cfg" by (simp_all add: demo_spawn_def demo_host_def)
  ultimately show ?thesis
    by (simp add: spawn_unit_def spawn_def open_sys assms)
qed

lemma demo_uid: "seen_uid (ho_proc demo_host) = 0"
  by (simp add: demo_host_def fresh_proc_def seen_uid_def)

theorem spawned_as_asked_witness:
  "\<exists>r im. spawn_unit open_kernel demo_host (demo_spawn demo_box) = Some (r, Some im) \<and> pr_uid (im_proc im) = 33 \<and>
    pr_groups (im_proc im) = [33, 100] \<and> pr_nnp (im_proc im) \<and>
    5 \<in> set (pr_bounding (im_proc im)) \<and> 13 \<notin> set (pr_bounding (im_proc im))"
proof -
  obtain r im where s: "spawn_unit open_kernel demo_host (demo_spawn demo_box) = Some (r, Some im)" using demo_plan demo_started by blast
  have "cap_number ''net_raw'' = Some 13" by code_simp
  then have "known_caps demo_box = {13}" "sb_bounding_invert demo_box" "sb_no_new_privileges demo_box"
    by (auto simp: known_caps_def demo_box_def)
  moreover have "5 \<in> set (pr_bounding (ho_proc demo_host))" by (simp add: demo_host_def fresh_proc_def)
  ultimately show ?thesis using s spawned_as_asked [OF s demo_uid]
    by (auto simp: Let_def demo_spawn_def caps_obeyed_def)
qed

definition demo_sockets :: mgr where
  "demo_sockets = (manager_new demo_cfg 0)\<lparr>m_socket_triggers := [(9, ''b.socket'', ''demo.service''), (7, ''a.socket'', ''demo.service'')]\<rparr>"

theorem listen_fds_passed_witness:
  "\<exists>r im. spawn_unit open_kernel demo_host (demo_spawn demo_box) = Some (r, Some im) \<and>
    pr_fds (im_proc im) 3 = Some (OfManager 7, False)"
proof -
  obtain r im where s: "spawn_unit open_kernel demo_host (demo_spawn demo_box) = Some (r, Some im)" using demo_plan demo_started by blast
  have "so_listen_fds (demo_spawn demo_box) = socket_fds_for ''demo.service'' demo_sockets"
    by (simp add: demo_spawn_def socket_fds_for_def demo_sockets_def)
  with s listen_fds_passed [OF s this, of 0 "OfManager 7" True] show ?thesis
    by (simp add: demo_spawn_def demo_host_def demo_sockets_def)
qed

definition filter_box :: sandbox_config where
  "filter_box = sandbox_default\<lparr>sb_lock_personality := True\<rparr>"

theorem started_service_confined_witness:
  "\<exists>r im P. spawn_unit open_kernel demo_host (demo_spawn filter_box) = Some (r, Some im) \<and> filter_program filter_box = Some P"
proof -
  have n: "needs_filter filter_box" "af_of filter_box = None" by (simp_all add: needs_filter_def filter_box_def af_of_def sandbox_default_def)
  have "\<exists>P. filter_program filter_box = Some P"
    using build_decides [of "[]" "[135]" None False True 0]
    by (simp add: filter_program_def n, simp add: filter_box_def sandbox_default_def filter_denies_def extra_deny_def personality_nr_def, auto)
  then have "\<exists>xs. plan filter_box = Some (Some xs)"
    by (auto simp: plan_def filter_ops_def filter_program_def n) (simp add: filter_box_def has_sandbox_def)
  then obtain r im where s: "spawn_unit open_kernel demo_host (demo_spawn filter_box) = Some (r, Some im)" using demo_started by blast
  have "filter_box = so_sandbox (demo_spawn filter_box)" by (simp add: demo_spawn_def)
  with s started_service_confined [OF s demo_uid _ n(1) _ refl] n(2) show ?thesis by auto
qed

end
