(* ===== verification/Event_Loop.thy ===== *)
theory Event_Loop
  imports Dbus
begin

text \<open>
  The manager's event loop: \<open>Manager::run\<close> in \<^verbatim>\<open>rystemd/src/manager/mod.rs\<close> with \<open>read_signalfd\<close>,
  \<open>accept_connections\<close>, \<open>read_notify\<close>, \<open>handle_signals\<close> and the journal part of \<open>read_stdout\<close>. One turn is a
  function of the state and of what the outside world supplies in it: the time, the events \<open>poll\<close> reports for each
  descriptor and what reading them gives. Instants are in microseconds, as in the timer wheel.
\<close>

section \<open>State\<close>

text \<open>The server with its control connections by descriptor, what was written to each, and which of the
  manager's own descriptors exist.\<close>

record loop_state =
  lp_server :: server
  lp_clients :: "(int \<times> client) list"
  lp_sent :: "(int \<times> str) list"
  lp_signalfd :: bool
  lp_listener :: bool
  lp_notify :: bool
  lp_udev :: bool

datatype poll_source =
    PollSignals | PollListener | PollNotify | PollSocket int | PollOutput int | PollControl int | PollUdev

datatype poll_flag = PollIn | PollOut | PollHup | PollErr

datatype out_event = OutChunk str | OutEof | OutError

record accepted =
  ac_fd :: int
  ac_peer :: "nat option"
  ac_nonblocking :: bool

text \<open>What happens in one turn. \<open>tn_poll\<close> are the events of each descriptor when \<open>poll\<close> returns, \<open>None\<close> when
  it times out or is interrupted.\<close>

record turn =
  tn_now :: nat
  tn_db_requests :: "db_op list"
  tn_db_events :: "db_event list"
  tn_polled_at :: nat
  tn_poll :: "(poll_source \<Rightarrow> poll_flag set) option"
  tn_signals :: "int list"
  tn_accepts :: "accepted list"
  tn_datagrams :: "str list"
  tn_outputs :: "int \<Rightarrow> out_event list"
  tn_reads :: "int \<Rightarrow> read_event list"
  tn_writes :: "int \<Rightarrow> write_event list"
  tn_uevents :: "(uevent_action \<times> device) list"
  tn_secs :: nat

section \<open>What to wait for\<close>

definition max_poll_ms :: nat where "max_poll_ms = 1000"

text \<open>The wait in milliseconds: until the next deadline, rounded down, at most a second.\<close>

definition poll_timeout :: "nat option \<Rightarrow> nat \<Rightarrow> nat" where
  "poll_timeout deadline now =
     (case deadline of
        Some d \<Rightarrow> min (min ((d - now) div 1000) 65535) max_poll_ms
      | None \<Rightarrow> max_poll_ms)"

text \<open>A listening socket is watched while its service is inactive or not known.\<close>

definition socket_ids :: "mgr \<Rightarrow> int list" where
  "socket_ids m = map fst (filter (\<lambda>(fd, _, service).
     case get_unit m service of Some u \<Rightarrow> u_active u = Inactive | None \<Rightarrow> True) (m_socket_triggers m))"

definition out_ids :: "mgr \<Rightarrow> int list" where
  "out_ids m = map fst (m_out_fds m)"

definition control_ids :: "loop_state \<Rightarrow> (int \<times> bool) list" where
  "control_ids l = map (\<lambda>(fd, c). (fd, cl_out c \<noteq> None)) (lp_clients l)"

definition poll_set :: "loop_state \<Rightarrow> (poll_source \<times> poll_flag set) list" where
  "poll_set l =
     (let m = sv_mgr (lp_server l) in
      (if lp_signalfd l then [(PollSignals, {PollIn})] else []) @
      (if lp_listener l then [(PollListener, {PollIn})] else []) @
      (if lp_notify l then [(PollNotify, {PollIn})] else []) @
      map (\<lambda>fd. (PollSocket fd, {PollIn})) (socket_ids m) @
      map (\<lambda>fd. (PollOutput fd, {PollIn})) (out_ids m) @
      map (\<lambda>(fd, wants). (PollControl fd, if wants then {PollIn, PollOut} else {PollIn})) (control_ids l) @
      (if lp_udev l then [(PollUdev, {PollIn})] else []))"

section \<open>Handling what is ready\<close>

definition on_loop :: "(server \<Rightarrow> fault + server) \<Rightarrow> loop_state \<Rightarrow> fault + loop_state" where
  "on_loop f l = bnd (f (lp_server l)) (\<lambda>s. Inr (l\<lparr>lp_server := s\<rparr>))"

definition engine_step :: "env \<Rightarrow> (os \<Rightarrow> recur \<Rightarrow> mgr \<Rightarrow> fault + mgr) \<Rightarrow> server \<Rightarrow> fault + server" where
  "engine_step E f s =
     (let w = ev_world E (sv_fs s) in bnd (f w (run w (ev_depth E)) (sv_mgr s)) (\<lambda>m. Inr (s\<lparr>sv_mgr := m\<rparr>)))"

definition read_signalfd :: "env \<Rightarrow> int list \<Rightarrow> server \<Rightarrow> fault + server" where
  "read_signalfd E sigs = fold_res (\<lambda>sig. engine_step E (\<lambda>w rec. handle_signal w rec sig)) sigs"

definition max_concurrent_clients :: nat where "max_concurrent_clients = 1024"

text \<open>One accepted connection: dropped when there are too many, when it cannot be made non-blocking, or when
  its peer is not the manager's own user.\<close>

definition accept_one :: "nat \<Rightarrow> accepted \<Rightarrow> (int \<times> client) list \<Rightarrow> (int \<times> client) list" where
  "accept_one uid a clients =
     (if length clients \<ge> max_concurrent_clients \<or> \<not> ac_nonblocking a then clients
      else if ac_peer a = Some uid then hins (ac_fd a) \<lparr>cl_buffer = [], cl_out = None\<rparr> clients
      else clients)"

definition accept_connections :: "nat \<Rightarrow> accepted list \<Rightarrow> (int \<times> client) list \<Rightarrow> (int \<times> client) list" where
  "accept_connections uid as clients = fold (accept_one uid) as clients"

text \<open>Datagrams are read into 2048 bytes; an empty one ends the reading.\<close>

definition read_notify :: "env \<Rightarrow> str list \<Rightarrow> server \<Rightarrow> fault + server" where
  "read_notify E ds =
     fold_res (\<lambda>d. engine_step E (\<lambda>w rec. handle_notify_datagram w rec d)) (takeWhile (\<lambda>d. d \<noteq> []) (map (take 2048) ds))"

text \<open>A ready listening socket starts its service; the result of the request is dropped.\<close>

definition start_triggered :: "env \<Rightarrow> int \<Rightarrow> server \<Rightarrow> fault + server" where
  "start_triggered E fd s =
     (case map_of (m_socket_triggers (sv_mgr s)) fd of
        Some (_, service) \<Rightarrow> engine_step E (\<lambda>w rec m. bnd (start_with_mode w rec service Replace m) (\<lambda>(_, m1). Inr m1)) s
      | None \<Rightarrow> Inr s)"

text \<open>Output goes to the unit's log and to the journal; reading goes on under the name the descriptor had
  at first.\<close>

fun read_stdout :: "nat \<Rightarrow> int \<Rightarrow> str \<Rightarrow> out_event list \<Rightarrow> server \<Rightarrow> server" where
  "read_stdout secs fd name [] s = s"
| "read_stdout secs fd name (OutChunk chunk # evs) s =
     (if chunk = [] then s\<lparr>sv_mgr := read_output fd [] (sv_mgr s)\<rparr>
      else read_stdout secs fd name evs
        (s\<lparr>sv_mgr := read_output fd chunk (sv_mgr s), sv_fs := journal_append (sv_journal s) name secs chunk (sv_fs s)\<rparr>))"
| "read_stdout secs fd name (OutEof # evs) s = s\<lparr>sv_mgr := read_output fd [] (sv_mgr s)\<rparr>"
| "read_stdout secs fd name (OutError # evs) s = s\<lparr>sv_mgr := read_output fd [] (sv_mgr s)\<rparr>"

definition read_output_fd :: "nat \<Rightarrow> (int \<Rightarrow> out_event list) \<Rightarrow> int \<Rightarrow> server \<Rightarrow> server" where
  "read_output_fd secs outs fd s =
     (case map_of (m_out_fds (sv_mgr s)) fd of
        Some name \<Rightarrow> read_stdout secs fd name (outs fd) s
      | None \<Rightarrow> s)"

definition put_client :: "int \<Rightarrow> client option \<Rightarrow> (int \<times> client) list \<Rightarrow> (int \<times> client) list" where
  "put_client fd r clients = (case r of Some c \<Rightarrow> hins fd c clients | None \<Rightarrow> hdel fd clients)"

definition drain_control_client :: "codec \<Rightarrow> env \<Rightarrow> (int \<Rightarrow> read_event list) \<Rightarrow> int \<Rightarrow> loop_state \<Rightarrow> fault + loop_state" where
  "drain_control_client cd E reads fd l =
     (case map_of (lp_clients l) fd of
        None \<Rightarrow> Inr l
      | Some c \<Rightarrow> bnd (drain_client cd E (reads fd) c (lp_server l)) (\<lambda>(r, s).
          Inr (l\<lparr>lp_server := s, lp_clients := put_client fd r (lp_clients l)\<rparr>)))"

definition flush_control_response :: "(int \<Rightarrow> write_event list) \<Rightarrow> int \<Rightarrow> loop_state \<Rightarrow> loop_state" where
  "flush_control_response writes fd l =
     (case map_of (lp_clients l) fd of
        None \<Rightarrow> l
      | Some c \<Rightarrow> (case flush_client (writes fd) c of (sent, r) \<Rightarrow>
          l\<lparr>lp_clients := put_client fd r (lp_clients l), lp_sent := lp_sent l @ [(fd, sent)]\<rparr>))"

definition serve_client :: "codec \<Rightarrow> env \<Rightarrow> turn \<Rightarrow> (poll_source \<Rightarrow> poll_flag set) \<Rightarrow> int \<Rightarrow> loop_state \<Rightarrow> fault + loop_state" where
  "serve_client cd E t ev fd l =
     bnd (if PollIn \<in> ev (PollControl fd) then drain_control_client cd E (tn_reads t) fd l else Inr l) (\<lambda>l1.
       Inr (if PollOut \<in> ev (PollControl fd) then flush_control_response (tn_writes t) fd l1 else l1))"

section \<open>One turn\<close>

text \<open>The readiness of every descriptor is taken before anything is handled.\<close>

definition handle_ready :: "codec \<Rightarrow> env \<Rightarrow> turn \<Rightarrow> (poll_source \<Rightarrow> poll_flag set) \<Rightarrow> loop_state \<Rightarrow> fault + loop_state" where
  "handle_ready cd E t ev l =
     (let m = sv_mgr (lp_server l);
          ready = (\<lambda>src. PollIn \<in> ev src);
          sockets = filter (\<lambda>fd. ready (PollSocket fd)) (socket_ids m);
          outs = filter (\<lambda>fd. ready (PollOutput fd)) (out_ids m);
          controls = map fst (control_ids l)
      in bnd (if lp_signalfd l \<and> ready PollSignals then on_loop (read_signalfd E (tn_signals t)) l else Inr l) (\<lambda>l1.
         let l2 = (if lp_listener l \<and> ready PollListener
                   then l1\<lparr>lp_clients := accept_connections (cfg_uid (m_cfg (sv_mgr (lp_server l1)))) (tn_accepts t) (lp_clients l1)\<rparr>
                   else l1)
         in bnd (if lp_notify l \<and> ready PollNotify then on_loop (read_notify E (tn_datagrams t)) l2 else Inr l2) (\<lambda>l3.
         bnd (on_loop (fold_res (start_triggered E) sockets) l3) (\<lambda>l4.
         let l5 = l4\<lparr>lp_server := fold (read_output_fd (tn_secs t) (tn_outputs t)) outs (lp_server l4)\<rparr>
         in bnd (fold_res (serve_client cd E t ev) controls l5) (\<lambda>l6.
         Inr (if lp_udev l \<and> ready PollUdev
              then l6\<lparr>lp_server := (lp_server l6)\<lparr>sv_mgr := udev_process (ev_world E (sv_fs (lp_server l6))) (tn_uevents t) (sv_mgr (lp_server l6))\<rparr>\<rparr>
              else l6))))))"

text \<open>Timers, paths and children; the bus; the end of a shutdown; and what \<open>poll\<close> reports. The first component
  says whether the loop goes on.\<close>

definition before_poll :: "env \<Rightarrow> turn \<Rightarrow> server \<Rightarrow> fault + server" where
  "before_poll E t s =
     bnd (engine_step E (\<lambda>w rec. tick w rec (tn_now t)) s) (\<lambda>s1.
       if m_dbus (sv_mgr s1) then bnd (drain_dbus E (tn_db_requests t) (tn_db_events t) s1) (\<lambda>(_, s2). Inr s2) else Inr s1)"

definition loop_turn :: "codec \<Rightarrow> env \<Rightarrow> turn \<Rightarrow> loop_state \<Rightarrow> fault + bool \<times> loop_state" where
  "loop_turn cd E t l =
     bnd (on_loop (before_poll E t) l) (\<lambda>l1.
       let m = sv_mgr (lp_server l1) in
       if m_shutting_down m \<and> idle m then Inr (False, l1)
       else (let l2 = l1\<lparr>lp_server := (lp_server l1)\<lparr>sv_mgr := m\<lparr>m_wheel := snd (next_deadline (m_wheel m))\<rparr>\<rparr>\<rparr>
             in case tn_poll t of
                  None \<Rightarrow> Inr (True, l2)
                | Some ev \<Rightarrow> bnd (handle_ready cd E t ev l2) (\<lambda>l3. Inr (True, l3))))"

text \<open>\<open>run\<close>: for ever, until a turn ends it. The list holds the turns the outside world gives.\<close>

fun loop_turns :: "codec \<Rightarrow> env \<Rightarrow> turn list \<Rightarrow> loop_state \<Rightarrow> fault + bool \<times> loop_state" where
  "loop_turns cd E [] l = Inr (True, l)"
| "loop_turns cd E (t # ts) l =
     bnd (loop_turn cd E t l) (\<lambda>(go, l1). if go then loop_turns cd E ts l1 else Inr (False, l1))"

definition manager_run :: "codec \<Rightarrow> env \<Rightarrow> turn list \<Rightarrow> loop_state \<Rightarrow> fault + bool \<times> loop_state" where
  "manager_run cd E ts l = bnd (on_loop (engine_step E (\<lambda>w rec. process_jobs w rec)) l) (loop_turns cd E ts)"

end
