(* ===== verification/Event_Loop_Props.thy ===== *)
theory Event_Loop_Props
  imports Event_Loop Manager_Runs
begin

text \<open>
  Properties of the event loop: it keeps the engine's invariant over any number of turns, waits no longer
  than the next deadline, and admits a bounded number of connections, of its own user only.
\<close>

section \<open>The engine's invariant over turns\<close>

text \<open>Turns without requests from clients or the bus, without a reload by signal and without vanishing devices.\<close>

definition undisturbed :: "turn \<Rightarrow> bool" where
  "undisturbed t \<longleftrightarrow> tn_db_requests t = [] \<and> 1 \<notin> set (tn_signals t) \<and>
     (\<forall>ev fd. tn_poll t = Some ev \<longrightarrow> PollIn \<notin> ev (PollControl fd)) \<and> (\<forall>e \<in> set (tn_uevents t). fst e \<noteq> URemove)"

abbreviation fine :: "fault + server \<Rightarrow> bool" where
  "fine \<equiv> keeps_to sv_mgr"

abbreviation loop_fine :: "fault + loop_state \<Rightarrow> bool" where
  "loop_fine \<equiv> keeps_to (\<lambda>l. sv_mgr (lp_server l))"

lemma keeps_fold:
  assumes "\<And>x s. wf (sel s) \<Longrightarrow> x \<in> set xs \<Longrightarrow> keeps_to sel (f x s)" "wf (sel s)"
  shows "keeps_to sel (fold_res f xs s)"
  using assms
proof (induction xs arbitrary: s)
  case (Cons x xs)
  have "keeps_to sel (f x s)" using Cons.prems by simp
  then have "keeps_to sel (bnd (f x s) (fold_res f xs))" by (rule keeps_bnd) (use Cons in auto)
  then show ?case by simp
qed simp

lemma step_fine: "(\<And>w n. keeps (f w (run w n) (sv_mgr s))) \<Longrightarrow> fine (engine_step E f s)"
  unfolding engine_step_def Let_def by (rule keeps_bnd) auto

lemma on_loop_fine: "fine (f (lp_server l)) \<Longrightarrow> loop_fine (on_loop f l)"
  unfolding on_loop_def by (erule keeps_bnd) simp

lemma signal_keeps: "wf m \<Longrightarrow> sig \<noteq> 1 \<Longrightarrow> keeps (handle_signal w (run w n) sig m)"
  by (auto simp: handle_signal_def intro: safe_keeps [OF engine.reap_safe] safe_keeps [OF engine.shutdown_safe])

lemma signals_fine: "wf (sv_mgr s) \<Longrightarrow> 1 \<notin> set sigs \<Longrightarrow> fine (read_signalfd E sigs s)"
  unfolding read_signalfd_def by (rule keeps_fold) (auto intro: step_fine signal_keeps)

lemma notify_fine: "wf (sv_mgr s) \<Longrightarrow> fine (read_notify E ds s)"
  unfolding read_notify_def by (rule keeps_fold) (auto intro!: step_fine intro: safe_keeps [OF engine.handle_notify_safe])

lemma triggered_fine: "wf (sv_mgr s) \<Longrightarrow> fine (start_triggered E fd s)"
  unfolding start_triggered_def
  by (auto split: option.split intro!: step_fine keeps_bnd [OF safe_keeps [OF engine.start_with_mode_safe]])

lemma output_wf: "wf m \<Longrightarrow> wf (read_output fd chunk m)"
  using engine.read_output_safe [of m fd chunk] by simp

lemma stdout_wf: "wf (sv_mgr s) \<Longrightarrow> wf (sv_mgr (read_stdout secs fd name evs s))"
  by (induction secs fd name evs s rule: read_stdout.induct) (auto simp: output_wf)

lemma outputs_wf: "wf (sv_mgr s) \<Longrightarrow> wf (sv_mgr (fold (read_output_fd secs outs) fds s))"
  by (induction fds arbitrary: s) (auto simp: read_output_fd_def stdout_wf split: option.split)

lemma udev_wf: "wf m \<Longrightarrow> \<forall>e \<in> set evs. fst e \<noteq> URemove \<Longrightarrow> wf (udev_process w evs m)"
  by (induction w evs m rule: udev_process.induct) (auto split: uevent_action.split simp: udev_register_wf)

lemma flush_server [simp]: "lp_server (flush_control_response writes fd l) = lp_server l"
  by (auto simp: flush_control_response_def split: option.split prod.split)

lemma loop_bnd:
  "loop_fine r \<Longrightarrow> (\<And>l. wf (sv_mgr (lp_server l)) \<Longrightarrow> loop_fine (f l)) \<Longrightarrow> loop_fine (bnd r f)"
  by (rule keeps_bnd) auto

lemma ready_fine:
  assumes "wf (sv_mgr (lp_server l))" "undisturbed t" "tn_poll t = Some ev"
  shows "loop_fine (handle_ready cd E t ev l)"
proof -
  have quiet: "PollIn \<notin> ev (PollControl fd)" for fd using assms(2,3) by (simp add: undisturbed_def)
  have clients: "loop_fine (fold_res (serve_client cd E t ev) fds l')" if "wf (sv_mgr (lp_server l'))" for fds l'
    by (rule keeps_fold [where sel = "\<lambda>l. sv_mgr (lp_server l)"]) (simp_all add: serve_client_def quiet that)
  have sig: "1 \<notin> set (tn_signals t)" and rem: "\<forall>e \<in> set (tn_uevents t). fst e \<noteq> URemove"
    using assms(2) by (simp_all add: undisturbed_def)
  have starts: "fine (fold_res (start_triggered E) fds s)" if "wf (sv_mgr s)" for fds s
    by (rule keeps_fold [where sel = sv_mgr]) (simp_all add: triggered_fine that)
  show ?thesis
    unfolding handle_ready_def Let_def
    by (intro loop_bnd) (simp_all add: assms(1) sig signals_fine notify_fine starts outputs_wf udev_wf rem on_loop_fine clients)
qed

lemma before_poll_fine: "wf (sv_mgr s) \<Longrightarrow> undisturbed t \<Longrightarrow> fine (before_poll E t s)"
proof -
  assume w: "wf (sv_mgr s)" and t: "undisturbed t"
  have tick: "fine (engine_step E (\<lambda>w rec. tick w rec (tn_now t)) s)"
    by (rule step_fine) (rule safe_keeps [OF engine.tick_safe [OF w]])
  have event: "fine (handle_dbus_event E ev s')" if "wf (sv_mgr s')" for ev s'
    unfolding handle_dbus_event_def Let_def
    by (cases ev) (auto intro!: keeps_bnd [OF safe_keeps [OF engine.handle_name_acquired_safe]] that simp: that)
  have bus: "keeps_to (\<lambda>x. sv_mgr (snd x)) (drain_dbus E (tn_db_requests t) evs s')" if "wf (sv_mgr s')" for evs s'
  proof -
    have "fine (fold_res (handle_dbus_event E) evs s')" by (rule keeps_fold [where sel = sv_mgr]) (simp_all add: event that)
    moreover have "tn_db_requests t = []" using t by (simp add: undisturbed_def)
    ultimately show ?thesis unfolding drain_dbus_def Let_def
      by (auto intro!: keeps_bnd [where sel = sv_mgr] keeps_bnd [OF safe_keeps [OF engine.process_jobs_safe]])
  qed
  show ?thesis unfolding before_poll_def
    by (rule keeps_bnd [OF tick]) (auto intro!: keeps_bnd [OF bus])
qed

lemma turn_fine:
  assumes "wf (sv_mgr (lp_server l))" "undisturbed t"
  shows "keeps_to (\<lambda>x. sv_mgr (lp_server (snd x))) (loop_turn cd E t l)"
proof -
  have prune: "wf (m\<lparr>m_wheel := x\<rparr>) = wf m" for m x by (simp add: wf_def)
  show ?thesis unfolding loop_turn_def Let_def
    by (rule keeps_bnd [where sel = "\<lambda>l. sv_mgr (lp_server l)", OF on_loop_fine], rule before_poll_fine [OF assms])
      (auto split: option.split simp: prune intro!: keeps_bnd [OF ready_fine [OF _ assms(2)]])
qed

lemma turns_fine:
  "wf (sv_mgr (lp_server l)) \<Longrightarrow> \<forall>t \<in> set ts. undisturbed t \<Longrightarrow> keeps_to (\<lambda>x. sv_mgr (lp_server (snd x))) (loop_turns cd E ts l)"
proof (induction ts arbitrary: l)
  case (Cons t ts)
  have "keeps_to (\<lambda>x. sv_mgr (lp_server (snd x))) (loop_turn cd E t l)" using Cons.prems by (simp add: turn_fine)
  then show ?case by (auto intro!: keeps_bnd [where sel = "\<lambda>x. sv_mgr (lp_server (snd x))"] Cons.IH Cons.prems(2) simp: Cons.prems)
qed simp

text \<open>C34. The loop keeps what every event keeps. Started with a manager state that can be reached, and over any
  number of turns in which anything may happen but requests of clients and over the bus, a reload by
  signal and the removal of a device: the loop does not abort on a unit missing from the table or on a job index
  entry without its job, and whenever it gets through the turns the job index, the pending jobs, the
  process table and the start windows agree with the unit table.\<close>

theorem loop_keeps_engine:
  assumes "reachable w (sv_mgr (lp_server l))" "\<forall>t \<in> set ts. undisturbed t"
  shows "case manager_run cd E ts l of
      Inl x \<Rightarrow> (\<forall>u j. x \<noteq> PanicUnit u \<and> x \<noteq> PanicUnitJob j)
    | Inr (go, l') \<Rightarrow> (let m = sv_mgr (lp_server l') in
        (\<forall>n j. map_of (m_unit_job m) n = Some j \<longrightarrow> (\<exists>b. get_job m j = Some b \<and> jb_unit b = n)) \<and>
        (\<forall>j b. get_job m j = Some b \<and> jb_kind b = JStart \<longrightarrow> jb_failed b \<or> has_unit m (jb_unit b)) \<and>
        (\<forall>p n. map_of (m_pid_unit m) p = Some n \<longrightarrow> has_unit m n) \<and>
        (\<forall>n u. get_unit m n = Some u \<longrightarrow> length (u_start_window u) \<le> 5))"
proof -
  have w: "wf (sv_mgr (lp_server l))" using assms(1) by (rule reachable_wf)
  have "loop_fine (on_loop (engine_step E (\<lambda>w rec. process_jobs w rec)) l)"
    by (rule on_loop_fine, rule step_fine) (rule safe_keeps [OF engine.process_jobs_safe [OF w]])
  then have k: "keeps_to (\<lambda>x. sv_mgr (lp_server (snd x))) (manager_run cd E ts l)"
    unfolding manager_run_def by (rule keeps_bnd) (simp add: turns_fine assms(2))
  show ?thesis
  proof (cases "manager_run cd E ts l")
    case (Inl x)
    with k show ?thesis by (auto simp: tame_def)
  next
    case (Inr r)
    then obtain go l' where r: "manager_run cd E ts l = Inr (go, l')" by (cases r) auto
    with k have "wf (sv_mgr (lp_server l'))" by simp
    then show ?thesis unfolding r
      by (auto simp: Let_def wf_def wf_parts_def has_unit_def get_unit_def get_job_def start_limit_burst_def)
  qed
qed

definition quiet_turn :: turn where
  "quiet_turn = \<lparr>tn_now = 1000000, tn_db_requests = [], tn_db_events = [], tn_polled_at = 1000000,
     tn_poll = Some (\<lambda>s. if s = PollSignals then {PollIn} else {}), tn_signals = [17, 15], tn_accepts = [], tn_datagrams = [],
     tn_outputs = (\<lambda>_. []), tn_reads = (\<lambda>_. []), tn_writes = (\<lambda>_. []), tn_uevents = [], tn_secs = 1\<rparr>"

definition demo_loop :: loop_state where
  "demo_loop = \<lparr>lp_server = \<lparr>sv_mgr = demo1, sv_fs = \<lparr>fs_files = [], fs_links = [], fs_dirs = [], fs_fail = (\<lambda>_ _. None), fs_part = (\<lambda>_. 0)\<rparr>,
     sv_journal = \<lparr>jn_dir = ''/j'', jn_max_bytes = 1000, jn_max_segments = 2\<rparr>\<rparr>, lp_clients = [], lp_sent = [], lp_signalfd = True, lp_listener = True,
     lp_notify = True, lp_udev = False\<rparr>"

definition loop_codec :: codec where
  "loop_codec = \<lparr>cd_parse = (\<lambda>_. Inl []), cd_print = (\<lambda>_. [])\<rparr>"

definition loop_env :: env where
  "loop_env = \<lparr>ev_world = (\<lambda>_. demo_os), ev_depth = 12, ev_cwd = None\<rparr>"

theorem loop_keeps_engine_witness:
  "case manager_run loop_codec loop_env [quiet_turn] demo_loop of Inl x \<Rightarrow> x \<noteq> PanicUnit ''b.target''
    | Inr (go, l') \<Rightarrow> (\<forall>p n. map_of (m_pid_unit (sv_mgr (lp_server l'))) p = Some n \<longrightarrow> has_unit (sv_mgr (lp_server l')) n)"
proof -
  have "reachable demo_os (sv_mgr (lp_server demo_loop))" using demo1_reachable by (simp add: demo_loop_def)
  moreover have "\<forall>t \<in> set [quiet_turn]. undisturbed t" by (simp add: undisturbed_def quiet_turn_def)
  ultimately show ?thesis
    using loop_keeps_engine [of demo_os demo_loop "[quiet_turn]" loop_codec loop_env]
    by (cases "manager_run loop_codec loop_env [quiet_turn] demo_loop") (auto simp: Let_def)
qed

section \<open>Connections\<close>

lemma hins_keys: "fst ` set (hins k v m) = insert k (fst ` set m)"
  using hkeys_hins [of k v m] unfolding set_map .

lemma hins_length: "length (hins k v xs) \<le> Suc (length xs)"
  by (induction xs) auto

definition admits :: "nat \<Rightarrow> accepted \<Rightarrow> bool" where
  "admits uid a \<longleftrightarrow> ac_nonblocking a \<and> ac_peer a = Some uid"

lemma accept_one_length: "length cs \<le> max_concurrent_clients \<Longrightarrow> length (accept_one uid a cs) \<le> max_concurrent_clients"
  using hins_length [of "ac_fd a" "\<lparr>cl_buffer = [], cl_out = None\<rparr>" cs] by (auto simp: accept_one_def)

lemma accept_one_step: "length (accept_one uid a cs) \<le> Suc (length cs)"
  using hins_length [of "ac_fd a" "\<lparr>cl_buffer = [], cl_out = None\<rparr>" cs] by (auto simp: accept_one_def)

lemma accept_one_keys:
  "fst ` set (accept_one uid a cs) = fst ` set cs \<union> (if length cs < max_concurrent_clients \<and> admits uid a then {ac_fd a} else {})"
  by (auto simp: accept_one_def admits_def hins_keys)

text \<open>C35. The control socket serves its owner only, and not too many at a time. However many connections wait
  when the manager accepts, it holds at most 1024 of them afterwards; every connection it did not hold before
  is of a peer whose identity was resolved to the manager's own user; and while there is room each of those
  that can be made non-blocking is admitted.\<close>

theorem connections_admitted:
  assumes "length clients \<le> 1024"
  shows "length (accept_connections uid as clients) \<le> 1024 \<and>
    fst ` set (accept_connections uid as clients) \<subseteq> fst ` set clients \<union> ac_fd ` {a \<in> set as. admits uid a} \<and>
    (length clients + length as \<le> 1024 \<longrightarrow>
       fst ` set (accept_connections uid as clients) = fst ` set clients \<union> ac_fd ` {a \<in> set as. admits uid a})"
  using assms unfolding accept_connections_def
proof (induction as arbitrary: clients)
  case (Cons a as)
  have l: "length (accept_one uid a clients) \<le> 1024"
    using accept_one_length [of clients uid a] Cons.prems by (simp add: max_concurrent_clients_def)
  note IH = Cons.IH [OF l]
  have sub: "ac_fd ` {x \<in> set (a # as). admits uid x} = (if admits uid a then {ac_fd a} else {}) \<union> ac_fd ` {x \<in> set as. admits uid x}"
    by auto
  have full: "length clients + length (a # as) \<le> 1024 \<Longrightarrow> length (accept_one uid a clients) + length as \<le> 1024"
    using accept_one_step [of uid a clients] by simp
  show ?case unfolding sub
    using IH accept_one_keys [of uid a clients] full by (auto simp: max_concurrent_clients_def split: if_splits)
qed simp

definition demo_accepts :: "accepted list" where
  "demo_accepts = [\<lparr>ac_fd = 5, ac_peer = Some 0, ac_nonblocking = True\<rparr>, \<lparr>ac_fd = 6, ac_peer = Some 1000, ac_nonblocking = True\<rparr>,
     \<lparr>ac_fd = 7, ac_peer = None, ac_nonblocking = True\<rparr>]"

theorem connections_admitted_witness: "fst ` set (accept_connections 0 demo_accepts []) = {5}"
proof -
  have "{a \<in> set demo_accepts. admits 0 a} = {\<lparr>ac_fd = 5, ac_peer = Some 0, ac_nonblocking = True\<rparr>}"
    by (auto simp: demo_accepts_def admits_def)
  moreover have "length demo_accepts \<le> 1024" by (simp add: demo_accepts_def)
  ultimately show ?thesis using connections_admitted [of "[]" 0 demo_accepts] by simp
qed

text \<open>The loop wakes up for the next deadline, and at the latest after a second.\<close>

lemma poll_wakes: "poll_timeout d now \<le> 1000 \<and> (d = Some x \<longrightarrow> now + 1000 * poll_timeout d now \<le> max now x)"
  by (auto simp: poll_timeout_def max_poll_ms_def max_def min_def split: option.split)

text \<open>A pipe whose writers are gone and which holds no data reports a hang-up only; the loop then does nothing, and
  \<open>poll\<close> reports it again at once.\<close>

lemma hang_up_ignored:
  assumes "\<And>src. PollIn \<notin> ev src \<and> PollOut \<notin> ev src"
  shows "handle_ready cd E t ev l = Inr l"
proof -
  have "fold_res (serve_client cd E t ev) fds l' = Inr l'" for fds l'
    by (induction fds) (simp_all add: serve_client_def assms)
  then show ?thesis by (simp add: handle_ready_def assms on_loop_def)
qed

end
