(* ===== verification/Spec2Isabelle.thy ===== *)
theory Spec2Isabelle
  imports Engine_Props Calendar_Props Expand_Safe Seccomp Unit_Build_Props Repo_Props Unit_Load_Props
    Enable_Props Journal_Props Control_Props Ipc_Props Dbus_Props Cli_Date Cli_Props Spawn_Props Event_Loop_Props
begin

text \<open>
  A verification development for \<^verbatim>\<open>rystemd\<close>, a service manager and init system in Rust.

  \<^bold>\<open>The program.\<close> The manager (\<^verbatim>\<open>rystemd/src/manager\<close>) keeps a table of units loaded from
  unit files (\<^verbatim>\<open>rystemd/src/unit\<close>), a table of jobs (pending starts, stops and restarts with
  the units each waits for), a wheel of deadlines (\<^verbatim>\<open>manager/timer.rs\<close>), and the processes it
  has spawned. Requests, expired deadlines, exited processes, notification datagrams and path
  watches are events that create, advance, finish or fail jobs; the activation of a unit follows
  its dependencies (\<^verbatim>\<open>manager/deps.rs\<close>).
\<close>

end
